(* ===== verification/Prelude.thy ===== *)
theory Prelude
  imports Main "HOL-Library.Sublist" "HOL-Library.AList" "HOL-Library.Word"
    "HOL-Library.Char_ord" "HOL-Library.List_Lexorder"
begin

text \<open>
  What every component of the development shares: the operations of Go's \<open>strings\<close> package
  that the program uses, over byte strings (\<open>string\<close> is a list of bytes, as a Go string is),
  helper lemmas on association lists, words and loops, and the locale of step-wise invariants
  that the state components instantiate.

  Letters are folded over ASCII: identifiers, mime types and JSON literals, the strings the program
  folds, are ASCII. White space is trimmed as Unicode has it, for texts are trimmed too.
\<close>

named_theorems go_strings
named_theorems inv_intros

section \<open>Strings\<close>

definition HasPrefix :: "string \<Rightarrow> string \<Rightarrow> bool" where
  "HasPrefix s p \<longleftrightarrow> take (length p) s = p"

definition HasSuffix :: "string \<Rightarrow> string \<Rightarrow> bool" where
  "HasSuffix s p \<longleftrightarrow> length p \<le> length s \<and> drop (length s - length p) s = p"

fun Contains :: "string \<Rightarrow> string \<Rightarrow> bool" where
  "Contains [] sub = (sub = [])"
| "Contains (c # s) sub = (HasPrefix (c # s) sub \<or> Contains s sub)"

text \<open>\<open>strings.Split\<close> by a separator of one byte: never the empty list.\<close>

fun SplitByte :: "char \<Rightarrow> string \<Rightarrow> string list" where
  "SplitByte c [] = [[]]"
| "SplitByte c (x # xs) =
     (if x = c then [] # SplitByte c xs
      else (case SplitByte c xs of [] \<Rightarrow> [[x]] | w # ws \<Rightarrow> (x # w) # ws))"

definition TrimLeftByte :: "char \<Rightarrow> string \<Rightarrow> string" where
  "TrimLeftByte c s = dropWhile (\<lambda>x. x = c) s"

definition TrimByte :: "char \<Rightarrow> string \<Rightarrow> string" where
  "TrimByte c s = rev (dropWhile (\<lambda>x. x = c) (rev (dropWhile (\<lambda>x. x = c) s)))"

text \<open>\<open>strings.Replace(s, c, \<dots>, -1)\<close> with an empty replacement.\<close>

definition RemoveByte :: "char \<Rightarrow> string \<Rightarrow> string" where
  "RemoveByte c s = filter (\<lambda>x. x \<noteq> c) s"

definition is_digit :: "char \<Rightarrow> bool" where
  "is_digit c \<longleftrightarrow> CHR ''0'' \<le> c \<and> c \<le> CHR ''9''"

definition is_space :: "char \<Rightarrow> bool" where
  "is_space c \<longleftrightarrow> c \<in> {CHR '' '', CHR 0x09, CHR 0x0A, CHR 0x0B, CHR 0x0C, CHR 0x0D}"

text \<open>
  \<open>strings.TrimSpace\<close> takes white space of Unicode off both ends. \<open>width\<close> is the number of bytes of the
  white space rune at the start of a string, 0 for none; on the reversed string the bytes of a rune come
  in the opposite order.
\<close>

definition wide_space :: "char \<Rightarrow> char \<Rightarrow> char \<Rightarrow> bool" where
  "wide_space a b c \<longleftrightarrow>
     a = CHR 0xE1 \<and> b = CHR 0x9A \<and> c = CHR 0x80 \<or>
     a = CHR 0xE2 \<and> b = CHR 0x80 \<and> (CHR 0x80 \<le> c \<and> c \<le> CHR 0x8A \<or> c \<in> {CHR 0xA8, CHR 0xA9, CHR 0xAF}) \<or>
     a = CHR 0xE2 \<and> b = CHR 0x81 \<and> c = CHR 0x9F \<or>
     a = CHR 0xE3 \<and> b = CHR 0x80 \<and> c = CHR 0x80"

definition space_width :: "string \<Rightarrow> nat" where
  "space_width s =
     (case s of [] \<Rightarrow> 0
      | a # r \<Rightarrow>
          if is_space a then 1
          else (case r of [] \<Rightarrow> 0
                | b # r \<Rightarrow>
                    if a = CHR 0xC2 \<and> b \<in> {CHR 0x85, CHR 0xA0} then 2
                    else (case r of [] \<Rightarrow> 0 | c # _ \<Rightarrow> if wide_space a b c then 3 else 0)))"

definition space_width_rev :: "string \<Rightarrow> nat" where
  "space_width_rev s =
     (case s of [] \<Rightarrow> 0
      | a # r \<Rightarrow>
          if is_space a then 1
          else (case r of [] \<Rightarrow> 0
                | b # r \<Rightarrow>
                    if b = CHR 0xC2 \<and> a \<in> {CHR 0x85, CHR 0xA0} then 2
                    else (case r of [] \<Rightarrow> 0 | c # _ \<Rightarrow> if wide_space c b a then 3 else 0)))"

function trim_runes :: "(string \<Rightarrow> nat) \<Rightarrow> string \<Rightarrow> string" where
  "trim_runes width s = (if width s = 0 \<or> s = [] then s else trim_runes width (drop (width s) s))"
  by auto
termination by (relation "measure (\<lambda>(width, s). length s)") auto

declare trim_runes.simps [simp del]

definition TrimSpace :: "string \<Rightarrow> string" where
  "TrimSpace s = rev (trim_runes space_width_rev (rev (trim_runes space_width s)))"

definition lower_char :: "char \<Rightarrow> char" where
  "lower_char c = (if CHR ''A'' \<le> c \<and> c \<le> CHR ''Z'' then char_of ((of_char c :: nat) + 32) else c)"

definition upper_char :: "char \<Rightarrow> char" where
  "upper_char c = (if CHR ''a'' \<le> c \<and> c \<le> CHR ''z'' then char_of ((of_char c :: nat) - 32) else c)"

definition ToLower :: "string \<Rightarrow> string" where
  "ToLower s = map lower_char s"

definition ToUpper :: "string \<Rightarrow> string" where
  "ToUpper s = map upper_char s"

text \<open>Decimal digits, as \<open>%d\<close> and \<open>%v\<close> print an unsigned number.\<close>

fun decimal :: "nat \<Rightarrow> string" where
  "decimal n = (if n < 10 then [char_of (48 + n)] else decimal (n div 10) @ [char_of (48 + n mod 10)])"

declare decimal.simps [simp del]

definition EqualFold :: "string \<Rightarrow> string \<Rightarrow> bool" where
  "EqualFold s t \<longleftrightarrow> ToLower s = ToLower t"

subsection \<open>Laws of the string operations\<close>

lemma HasPrefix_iff: "HasPrefix s p \<longleftrightarrow> (\<exists>t. s = p @ t)"
proof
  assume "HasPrefix s p"
  then have "s = p @ drop (length p) s"
    unfolding HasPrefix_def by (metis append_take_drop_id)
  then show "\<exists>t. s = p @ t" ..
qed (auto simp: HasPrefix_def)

lemma HasSuffix_iff: "HasSuffix s p \<longleftrightarrow> (\<exists>t. s = t @ p)"
proof
  assume "HasSuffix s p"
  then have "s = take (length s - length p) s @ p"
    unfolding HasSuffix_def by (metis append_take_drop_id)
  then show "\<exists>t. s = t @ p" ..
qed (auto simp: HasSuffix_def)

lemma HasSuffix_append [simp]: "HasSuffix (t @ p) p"
  by (auto simp: HasSuffix_iff)

lemma HasPrefix_append [simp]: "HasPrefix (p @ t) p"
  by (auto simp: HasPrefix_iff)

lemma Contains_single [simp]: "Contains s [c] \<longleftrightarrow> c \<in> set s"
  by (induction s) (auto simp: HasPrefix_def)

lemma Contains_iff: "Contains s sub \<longleftrightarrow> (\<exists>u v. s = u @ sub @ v)"
proof (induction s)
  case Nil
  then show ?case by auto
next
  case (Cons c s)
  have "(\<exists>u v. c # s = u @ sub @ v) \<longleftrightarrow> (\<exists>v. c # s = sub @ v) \<or> (\<exists>u v. s = u @ sub @ v)"
    by (metis append_Cons append_Nil list.sel(3) neq_Nil_conv)
  then show ?case using Cons by (simp add: HasPrefix_iff)
qed

lemma SplitByte_not_Nil [simp]: "SplitByte c s \<noteq> []"
  by (induction s) (auto split: list.splits)

lemma hd_SplitByte [simp]: "hd (SplitByte c s) = takeWhile (\<lambda>x. x \<noteq> c) s"
  by (induction s) (auto split: list.splits)

lemma SplitByte_id [simp]: "c \<notin> set s \<Longrightarrow> SplitByte c s = [s]"
  by (induction s) auto

lemma SplitByte_first [simp]: "SplitByte c s ! 0 = takeWhile (\<lambda>x. x \<noteq> c) s"
  by (metis SplitByte_not_Nil hd_SplitByte hd_conv_nth)

lemma SplitByte_append:
  "c \<notin> set a \<Longrightarrow> SplitByte c (a @ c # b) = a # SplitByte c b"
  by (induction a) auto

lemma length_SplitByte: "length (SplitByte c s) = Suc (count_list s c)"
  by (induction s) (auto split: list.splits)

lemma SplitByte_second:
  assumes "c \<in> set s"
  shows "1 < length (SplitByte c s)"
    and "SplitByte c s ! 1 = takeWhile (\<lambda>x. x \<noteq> c) (tl (dropWhile (\<lambda>x. x \<noteq> c) s))"
proof -
  obtain a b where s: "s = a @ c # b" "c \<notin> set a"
    using split_list_first [OF assms] by auto
  have d: "dropWhile (\<lambda>x. x \<noteq> c) s = c # b"
    using s by (induction a arbitrary: s) auto
  show "1 < length (SplitByte c s)"
    using s by (simp add: SplitByte_append)
  show "SplitByte c s ! 1 = takeWhile (\<lambda>x. x \<noteq> c) (tl (dropWhile (\<lambda>x. x \<noteq> c) s))"
    using s d by (simp add: SplitByte_append)
qed

lemma takeWhile_not_in [simp]: "c \<notin> set (takeWhile (\<lambda>x. x \<noteq> c) s)"
  by (metis (mono_tags, lifting) set_takeWhileD)

lemma takeWhile_id: "c \<notin> set s \<Longrightarrow> takeWhile (\<lambda>x. x \<noteq> c) s = s"
  by (induction s) auto

lemma takeWhile_append_sep: "c \<notin> set a \<Longrightarrow> takeWhile (\<lambda>x. x \<noteq> c) (a @ c # b) = a"
  by (induction a) auto

lemma is_digit_not: "is_digit c \<Longrightarrow> c \<noteq> CHR ''@'' \<and> c \<noteq> CHR '':'' \<and> c \<noteq> CHR ''.'' \<and> c \<noteq> CHR '' '' \<and>
    c \<noteq> CHR ''-'' \<and> c \<noteq> CHR ''+''"
  by (auto simp: is_digit_def less_eq_char_def)

lemma not_digit_marks [simp]:
  "\<not> is_digit (CHR ''@'')" "\<not> is_digit (CHR '':'')" "\<not> is_digit (CHR ''.'')" "\<not> is_digit (CHR '' '')"
  "\<not> is_digit (CHR ''-'')" "\<not> is_digit (CHR ''+'')"
  by code_simp+

lemma upper_char_cases:
  "upper_char c = c \<or> (CHR ''A'' \<le> upper_char c \<and> upper_char c \<le> CHR ''Z'')"
  by (auto simp: upper_char_def less_eq_char_def)

lemma upper_char_idem [simp]: "upper_char (upper_char c) = upper_char c"
  by (auto simp: upper_char_def less_eq_char_def)

lemma lower_char_idem [simp]: "lower_char (lower_char c) = lower_char c"
  by (auto simp: lower_char_def less_eq_char_def)

lemma ToUpper_idem [simp]: "ToUpper (ToUpper s) = ToUpper s"
  by (simp add: ToUpper_def)

lemma ToLower_idem [simp]: "ToLower (ToLower s) = ToLower s"
  by (simp add: ToLower_def)

lemma length_ToUpper [simp]: "length (ToUpper s) = length s"
  by (simp add: ToUpper_def)

lemma ToUpper_append: "ToUpper (s @ t) = ToUpper s @ ToUpper t"
  by (simp add: ToUpper_def)

lemma EqualFold_refl [simp]: "EqualFold s s"
  by (simp add: EqualFold_def)

lemma EqualFold_sym: "EqualFold s t \<Longrightarrow> EqualFold t s"
  by (simp add: EqualFold_def)

text \<open>Bytes that begin no white space.\<close>

definition solid :: "char \<Rightarrow> bool" where
  "solid c \<longleftrightarrow> \<not> is_space c \<and> c \<notin> {CHR 0xC2, CHR 0xE1, CHR 0xE2, CHR 0xE3}"

lemma is_digit_solid: "is_digit c \<Longrightarrow> solid c"
  by (auto simp: is_digit_def solid_def is_space_def less_eq_char_def)

lemma solid_no_width:
  assumes "\<forall>c\<in>set s. solid c"
  shows "space_width s = 0" "space_width_rev s = 0"
  using assms by (auto simp: space_width_def space_width_rev_def wide_space_def solid_def split: list.split)

lemma TrimSpace_id: "\<forall>c\<in>set s. solid c \<Longrightarrow> TrimSpace s = s"
  by (simp add: TrimSpace_def trim_runes.simps solid_no_width)

lemma TrimLeftByte_hd: "TrimLeftByte c s = [] \<or> hd (TrimLeftByte c s) \<noteq> c"
  by (induction s) (auto simp: TrimLeftByte_def)

lemma RemoveByte_set [simp]: "set (RemoveByte c s) = set s - {c}"
  by (auto simp: RemoveByte_def)

lemma RemoveByte_id: "c \<notin> set s \<Longrightarrow> RemoveByte c s = s"
  unfolding RemoveByte_def by (induction s) auto

definition decimal_value :: "string \<Rightarrow> nat" where
  "decimal_value s = foldl (\<lambda>n c. 10 * n + (of_char c - 48)) 0 s"

lemma decimal_value_decimal: "decimal_value (decimal n) = n"
proof (induction n rule: decimal.induct)
  case (1 n)
  then show ?case by (cases "n < 10") (simp_all add: decimal.simps [of n] decimal_value_def)
qed

lemma decimal_inject [simp]: "decimal m = decimal n \<longleftrightarrow> m = n"
  by (metis decimal_value_decimal)

lemmas string_eval = HasPrefix_def HasSuffix_def TrimLeftByte_def TrimByte_def RemoveByte_def
  TrimSpace_def trim_runes.simps space_width_def space_width_rev_def wide_space_def is_space_def

section \<open>Association lists as hash maps\<close>

lemma keys_update: "fst ` set (AList.update k v m) = insert k (fst ` set m)"
  by (induction m) auto

lemma keys_delete: "fst ` set (AList.delete k m) = fst ` set m - {k}"
  by (auto simp: AList.delete_eq)

lemma length_update: "distinct (map fst m) \<Longrightarrow>
    length (AList.update k v m) = (if k \<in> fst ` set m then length m else Suc (length m))"
  by (induction m) auto

lemma length_delete: "distinct (map fst m) \<Longrightarrow>
    length (AList.delete k m) = (if k \<in> fst ` set m then length m - 1 else length m)"
proof (induction m)
  case Nil
  then show ?case by simp
next
  case (Cons a m)
  show ?case
  proof (cases "fst a = k")
    case True
    with Cons.prems have "k \<notin> fst ` set m" by auto
    then have "AList.delete k m = m" by (simp add: AList.delete_id)
    with True show ?thesis by simp
  next
    case False
    moreover have "k \<in> fst ` set m \<Longrightarrow> 0 < length m" by auto
    ultimately show ?thesis using Cons by auto
  qed
qed

lemma set_update: "distinct (map fst m) \<Longrightarrow>
    set (AList.update k v m) = {p \<in> set m. fst p \<noteq> k} \<union> {(k, v)}"
  by (induction m) (auto simp: rev_image_eqI)

lemma set_delete: "set (AList.delete k m) = {p \<in> set m. fst p \<noteq> k}"
  by (auto simp: AList.delete_eq)

lemma alist_map_of_update: "map_of (AList.update k v m) = (map_of m)(k \<mapsto> v)"
  by (rule ext) (simp add: update_conv)

lemma alist_map_of_delete: "map_of (AList.delete k m) = (map_of m)(k := None)"
  by (rule ext) (simp add: delete_conv)

section \<open>Numbered lists\<close>

lemma map_enumerate_snd: "map (\<lambda>p. f (snd p)) (enumerate n xs) = map f xs"
  by (induction xs arbitrary: n) simp_all

lemma map_enumerate_fst: "map (\<lambda>p. f (fst p)) (enumerate n xs) = map f [n..<n + length xs]"
  by (induction xs arbitrary: n) (simp_all add: upt_conv_Cons del: upt_Suc)

section \<open>Words\<close>

text \<open>\<open>int(x)\<close> of a 64-bit \<open>uint64\<close> is the two's complement reading.\<close>

lemma sint_of_nat_diff:
  fixes a b :: nat
  assumes "a < 2 ^ 63" "b < 2 ^ 63"
  shows "sint (word_of_nat a - word_of_nat b :: 64 word) = int a - int b"
proof -
  have eq: "(word_of_nat a - word_of_nat b :: 64 word) = word_of_int (int a - int b)"
    by (simp add: wi_hom_sub)
  have "sint (word_of_int (int a - int b) :: 64 word) = signed_take_bit 63 (int a - int b)"
    by (subst sint_sbintrunc') simp
  also have "\<dots> = int a - int b"
    using assms by (intro signed_take_bit_int_eq_self) auto
  finally show ?thesis by (simp only: eq)
qed

lemma sint_small: "unat w < 2 ^ 63 \<Longrightarrow> sint w = int (unat w)" for w :: "64 word"
  using sint_of_nat_diff [of "unat w" 0] by simp

lemma sint_large:
  fixes w :: "64 word"
  assumes "2 ^ 63 \<le> unat w"
  shows "sint w < 0"
proof -
  have "unat w < 2 ^ LENGTH(64)" by (rule unsigned_less)
  then have "unat w < 2 ^ 64" by simp
  then have w: "2 ^ 63 \<le> int (unat w)" "int (unat w) < 2 ^ 64"
    using assms by (simp_all del: of_nat_unat add: nat_le_iff)
  have "(int (unat w) + 2 ^ 63) mod 2 ^ 64 = (int (unat w) - 2 ^ 63 + 2 ^ 64) mod 2 ^ 64"
    by (simp add: add.commute)
  also have "\<dots> = (int (unat w) - 2 ^ 63) mod 2 ^ 64" by (rule mod_add_self2)
  also have "\<dots> = int (unat w) - 2 ^ 63" using w by (intro mod_pos_pos_trivial) simp_all
  finally have "take_bit (Suc 63) (int (unat w) + 2 ^ 63) = int (unat w) - 2 ^ 63" by (simp add: take_bit_eq_mod)
  moreover have "sint w = signed_take_bit 63 (int (unat w))" by (simp add: sint_uint)
  ultimately show ?thesis using w by (simp add: signed_take_bit_eq_take_bit_shift)
qed

section \<open>Invariants of step functions\<close>

text \<open>
  A component whose operations are a step function over events keeps an invariant over every
  run once each step keeps it. Each component that has such an invariant interprets this locale.
\<close>

locale step_invariant =
  fixes step :: "'s \<Rightarrow> 'e \<Rightarrow> 's"
    and inv :: "'s \<Rightarrow> bool"
  assumes step_inv: "inv s \<Longrightarrow> inv (step s e)"
begin

lemma run_inv: "inv s \<Longrightarrow> inv (foldl step s es)"
  by (induction es arbitrary: s) (auto intro: step_inv)

lemma run_prefix_inv: "inv s \<Longrightarrow> inv (foldl step s (take n es))"
  by (rule run_inv)

end

end
