(* ===== verification/WhatsappOptions.thy ===== *)
theory WhatsappOptions
  imports Prelude
begin

text \<open>
  The option types of \<open>src/whatsapp/whatsapp_boolean.go\<close>, \<open>whatsapp_boolean_extended.go\<close>,
  \<open>whatsapp_options.go\<close> and \<open>whatsapp_options_extended.go\<close>: three-valued options that a server
  or a dispatching may set, five-valued global options that may force them, the gates that combine
  the two, and the toggles of \<open>src/models/qp_whatsapp_extensions.go\<close>. A Go \<open>int\<close> option is an
  \<open>int\<close> here, so values outside the declared constants (a database may hold them) are covered; the
  panic of \<open>Boolean()\<close> is \<open>None\<close>.
\<close>

section \<open>Three-valued and five-valued options\<close>

type_synonym WhatsappBoolean = int
type_synonym WhatsappBooleanExtended = int

definition FalseBooleanType :: WhatsappBoolean where "FalseBooleanType = - 1"
definition UnSetBooleanType :: WhatsappBoolean where "UnSetBooleanType = 0"
definition TrueBooleanType :: WhatsappBoolean where "TrueBooleanType = 1"
definition ForcedFalseBooleanType :: WhatsappBooleanExtended where "ForcedFalseBooleanType = - 2"
definition ForcedTrueBooleanType :: WhatsappBooleanExtended where "ForcedTrueBooleanType = 2"

lemmas boolean_consts = FalseBooleanType_def UnSetBooleanType_def TrueBooleanType_def
  ForcedFalseBooleanType_def ForcedTrueBooleanType_def

definition valid_boolean :: "WhatsappBoolean \<Rightarrow> bool" where
  "valid_boolean b \<longleftrightarrow> b \<in> {FalseBooleanType, UnSetBooleanType, TrueBooleanType}"

text \<open>\<open>Boolean()\<close>: panics on an unset or unknown value.\<close>

definition Boolean :: "WhatsappBoolean \<Rightarrow> bool option" where
  "Boolean source =
     (if source = FalseBooleanType then Some False
      else if source = TrueBooleanType then Some True
      else None)"

definition ToBoolean :: "WhatsappBoolean \<Rightarrow> bool \<Rightarrow> bool" where
  "ToBoolean source v =
     (if source = FalseBooleanType then False
      else if source = TrueBooleanType then True
      else v)"

definition WhatsappBoolean_String :: "WhatsappBoolean \<Rightarrow> string" where
  "WhatsappBoolean_String source =
     (if source = FalseBooleanType then ''false''
      else if source = TrueBooleanType then ''true''
      else ''unset'')"

definition ExtendedToBoolean :: "WhatsappBooleanExtended \<Rightarrow> bool \<Rightarrow> bool" where
  "ExtendedToBoolean source v =
     (if source = ForcedFalseBooleanType then False
      else if source = ForcedTrueBooleanType then True
      else ToBoolean source v)"

definition ExtendedString :: "WhatsappBooleanExtended \<Rightarrow> string" where
  "ExtendedString source =
     (if source = ForcedFalseBooleanType then ''forcedfalse''
      else if source = ForcedTrueBooleanType then ''forcedtrue''
      else WhatsappBoolean_String source)"

definition ExtendedEquals :: "WhatsappBooleanExtended \<Rightarrow> WhatsappBoolean \<Rightarrow> bool" where
  "ExtendedEquals source v =
     (if source = ForcedFalseBooleanType \<or> source = ForcedTrueBooleanType then False
      else source = v)"

definition ExtendedCompare :: "WhatsappBooleanExtended \<Rightarrow> WhatsappBoolean \<Rightarrow> bool \<Rightarrow> bool" where
  "ExtendedCompare source item value =
     (if source = ForcedFalseBooleanType then False
      else if source = ForcedTrueBooleanType then True
      else ToBoolean item value)"

section \<open>JSON form\<close>

datatype boolean_error = UnknownBoolean string

text \<open>\<open>MarshalJSON\<close> marshals a \<open>*bool\<close>: \<open>true\<close>, \<open>false\<close>, or \<open>null\<close> for every other value.\<close>

definition MarshalBoolean :: "WhatsappBoolean \<Rightarrow> string" where
  "MarshalBoolean source =
     (if source = FalseBooleanType then ''false''
      else if source = TrueBooleanType then ''true''
      else ''null'')"

definition UnmarshalBoolean :: "string \<Rightarrow> boolean_error + WhatsappBoolean" where
  "UnmarshalBoolean b =
     (let json = ToLower (TrimByte (CHR 0x22) (TrimSpace b)) in
      if json \<in> {''1'', ''t'', ''true'', ''yes''} then Inr TrueBooleanType
      else if json \<in> {''-1'', ''f'', ''false'', ''no''} then Inr FalseBooleanType
      else if json \<in> {'''', ''0''} then Inr UnSetBooleanType
      else Inl (UnknownBoolean json))"

section \<open>Global options and their gates\<close>

record WhatsappOptions =
  Groups :: WhatsappBoolean
  Broadcasts :: WhatsappBoolean
  ReadReceipts :: WhatsappBoolean
  Calls :: WhatsappBoolean
  ReadUpdate :: WhatsappBoolean

record WhatsappOptionsExtended =
  xGroups :: WhatsappBooleanExtended
  xBroadcasts :: WhatsappBooleanExtended
  xReadReceipts :: WhatsappBooleanExtended
  xCalls :: WhatsappBooleanExtended
  xReadUpdate :: WhatsappBooleanExtended
  HistorySync :: "32 word option"
  LogLevel :: string
  Presence :: string
  DispatchUnhandled :: bool

definition WhatsappBroadcasts :: bool where "WhatsappBroadcasts = False"
definition WhatsappReadReceipts :: bool where "WhatsappReadReceipts = False"
definition WhatsappCalls :: bool where "WhatsappCalls = True"
definition WhatsappGroups :: bool where "WhatsappGroups = True"

definition IsDefault :: "WhatsappOptionsExtended \<Rightarrow> bool" where
  "IsDefault source \<longleftrightarrow>
     ExtendedEquals (xGroups source) UnSetBooleanType \<and>
     ExtendedEquals (xBroadcasts source) UnSetBooleanType \<and>
     ExtendedEquals (xReadReceipts source) UnSetBooleanType \<and>
     ExtendedEquals (xCalls source) UnSetBooleanType \<and>
     ExtendedEquals (xReadUpdate source) UnSetBooleanType \<and>
     HistorySync source = None \<and>
     \<not> DispatchUnhandled source \<and>
     length (LogLevel source) = 0"

text \<open>Each gate: forced value first, then the local option when set, then the global default.\<close>

definition HandleCalls :: "WhatsappOptionsExtended \<Rightarrow> WhatsappBoolean \<Rightarrow> bool option" where
  "HandleCalls source local =
     (if xCalls source = ForcedFalseBooleanType then Some False
      else if xCalls source = ForcedTrueBooleanType then Some True
      else if local \<noteq> UnSetBooleanType then Boolean local
      else Some (ExtendedToBoolean (xCalls source) WhatsappCalls))"

definition HandleReadReceipts :: "WhatsappOptionsExtended \<Rightarrow> WhatsappBoolean \<Rightarrow> bool option" where
  "HandleReadReceipts source local =
     (if xReadReceipts source = ForcedFalseBooleanType then Some False
      else if xReadReceipts source = ForcedTrueBooleanType then Some True
      else if local \<noteq> UnSetBooleanType then Boolean local
      else Some (ExtendedToBoolean (xReadReceipts source) WhatsappReadReceipts))"

definition HandleGroups :: "WhatsappOptionsExtended \<Rightarrow> WhatsappBoolean \<Rightarrow> bool option" where
  "HandleGroups source local =
     (if xGroups source = ForcedFalseBooleanType then Some False
      else if xGroups source = ForcedTrueBooleanType then Some True
      else if local \<noteq> UnSetBooleanType then Boolean local
      else Some (ExtendedToBoolean (xGroups source) WhatsappGroups))"

definition HandleBroadcasts :: "WhatsappOptionsExtended \<Rightarrow> WhatsappBoolean \<Rightarrow> bool option" where
  "HandleBroadcasts source local =
     (if xBroadcasts source = ForcedFalseBooleanType then Some False
      else if xBroadcasts source = ForcedTrueBooleanType then Some True
      else if local \<noteq> UnSetBooleanType then Boolean local
      else Some (ExtendedToBoolean (xBroadcasts source) WhatsappBroadcasts))"

definition HandleReadUpdate :: "WhatsappOptionsExtended \<Rightarrow> WhatsappBoolean \<Rightarrow> bool option" where
  "HandleReadUpdate source local =
     (if xReadUpdate source = ForcedFalseBooleanType then Some False
      else if xReadUpdate source = ForcedTrueBooleanType then Some True
      else if local \<noteq> UnSetBooleanType then Boolean local
      else Some (ExtendedToBoolean (xReadUpdate source) False))"

text \<open>
  \<open>HandleHistory\<close> compares the message time with the time \<open>days\<close> days ago; \<open>addDays n\<close> is
  \<open>time.Now().AddDate(0, 0, n).Unix()\<close>, calendar arithmetic of the Go library on the clock's value.
  \<open>int64(mts)\<close> is the two's complement reading.
\<close>

definition HandleHistory :: "(int \<Rightarrow> int) \<Rightarrow> WhatsappOptionsExtended \<Rightarrow> 64 word \<Rightarrow> bool" where
  "HandleHistory addDays source mts =
     (case HistorySync source of
        None \<Rightarrow> False
      | Some days \<Rightarrow> days = 0 \<or> addDays (- uint days) < sint mts)"

section \<open>Toggles\<close>

text \<open>
  Each toggle rewrites one field through unset, true, false and saves the owner; the saved options
  are returned, and the save itself is \<open>Save\<close> of the owner.
\<close>

definition ToggleReadReceipts :: "WhatsappOptions \<Rightarrow> WhatsappOptions" where
  "ToggleReadReceipts options =
     options\<lparr>ReadReceipts :=
       (if ReadReceipts options = UnSetBooleanType then TrueBooleanType
        else if ReadReceipts options = TrueBooleanType then FalseBooleanType
        else UnSetBooleanType)\<rparr>"

definition ToggleGroups :: "WhatsappOptions \<Rightarrow> WhatsappOptions" where
  "ToggleGroups options =
     options\<lparr>Groups :=
       (if Groups options = UnSetBooleanType then TrueBooleanType
        else if Groups options = TrueBooleanType then FalseBooleanType
        else UnSetBooleanType)\<rparr>"

definition ToggleBroadcasts :: "WhatsappOptions \<Rightarrow> WhatsappOptions" where
  "ToggleBroadcasts options =
     options\<lparr>Broadcasts :=
       (if Broadcasts options = UnSetBooleanType then TrueBooleanType
        else if Broadcasts options = TrueBooleanType then FalseBooleanType
        else UnSetBooleanType)\<rparr>"

definition ToggleCalls :: "WhatsappOptions \<Rightarrow> WhatsappOptions" where
  "ToggleCalls options =
     options\<lparr>Calls :=
       (if Calls options = UnSetBooleanType then TrueBooleanType
        else if Calls options = TrueBooleanType then FalseBooleanType
        else UnSetBooleanType)\<rparr>"

definition ToggleReadUpdate :: "WhatsappOptions \<Rightarrow> WhatsappOptions" where
  "ToggleReadUpdate options =
     options\<lparr>ReadUpdate :=
       (if ReadUpdate options = UnSetBooleanType then TrueBooleanType
        else if ReadUpdate options = TrueBooleanType then FalseBooleanType
        else UnSetBooleanType)\<rparr>"

section \<open>The contract of a gate\<close>

text \<open>
  What a gate promises, stated once: a forced global value decides; otherwise a set local value
  decides; otherwise the global value, or the program's default when that is unset. The abstract
  gate is total on valid local options.
\<close>

definition gate_spec :: "bool \<Rightarrow> WhatsappBooleanExtended \<Rightarrow> WhatsappBoolean \<Rightarrow> bool" where
  "gate_spec dflt ext local =
     (case ext of g \<Rightarrow>
        if g = - 2 then False else if g = 2 then True
        else if local = 1 then True else if local = - 1 then False
        else if g = 1 then True else if g = - 1 then False else dflt)"

locale gate =
  fixes handle :: "WhatsappOptionsExtended \<Rightarrow> WhatsappBoolean \<Rightarrow> bool option"
    and field :: "WhatsappOptionsExtended \<Rightarrow> WhatsappBooleanExtended"
    and dflt :: bool
  assumes handle_spec: "valid_boolean local \<Longrightarrow> handle g local = Some (gate_spec dflt (field g) local)"
begin

lemma forced_ignores_local:
  assumes "valid_boolean a" "valid_boolean b" "field g \<in> {- 2, 2}"
  shows "handle g a = handle g b"
  using assms by (auto simp: handle_spec gate_spec_def)

lemma local_overrides:
  assumes "field g \<notin> {- 2, 2}"
  shows "handle g TrueBooleanType = Some True" "handle g FalseBooleanType = Some False"
  using assms by (auto simp: handle_spec gate_spec_def valid_boolean_def boolean_consts)

lemma no_panic: "valid_boolean local \<Longrightarrow> handle g local \<noteq> None"
  by (simp add: handle_spec)

end

lemmas gate_unfold = HandleCalls_def HandleReadReceipts_def HandleGroups_def HandleBroadcasts_def
  HandleReadUpdate_def Boolean_def ExtendedToBoolean_def ToBoolean_def gate_spec_def
  valid_boolean_def boolean_consts WhatsappCalls_def WhatsappReadReceipts_def WhatsappGroups_def
  WhatsappBroadcasts_def

interpretation calls_gate: gate HandleCalls xCalls True
  by unfold_locales (auto simp: gate_unfold)

interpretation readreceipts_gate: gate HandleReadReceipts xReadReceipts False
  by unfold_locales (auto simp: gate_unfold)

interpretation groups_gate: gate HandleGroups xGroups True
  by unfold_locales (auto simp: gate_unfold)

interpretation broadcasts_gate: gate HandleBroadcasts xBroadcasts False
  by unfold_locales (auto simp: gate_unfold)

interpretation readupdate_gate: gate HandleReadUpdate xReadUpdate False
  by unfold_locales (auto simp: gate_unfold)

section \<open>The contract of a toggle\<close>

locale option_toggle =
  fixes toggle :: "WhatsappOptions \<Rightarrow> WhatsappOptions"
    and get :: "WhatsappOptions \<Rightarrow> WhatsappBoolean"
    and put :: "WhatsappBoolean \<Rightarrow> WhatsappOptions \<Rightarrow> WhatsappOptions"
  assumes get_put: "get (put v s) = v"
    and put_get: "put (get s) s = s"
    and put_put: "put v (put w s) = put v s"
    and toggle_put: "toggle s = put (if get s = 0 then 1 else if get s = 1 then - 1 else 0) s"
begin

lemma toggle_valid: "valid_boolean (get (toggle s))"
  by (simp add: toggle_put get_put valid_boolean_def boolean_consts)

lemma toggle_cycle:
  assumes "valid_boolean (get s)"
  shows "toggle (toggle (toggle s)) = s"
proof -
  have "put v s = s" if "v = get s" for v
    using that put_get by simp
  then show ?thesis
    using assms by (auto simp: toggle_put get_put put_put valid_boolean_def boolean_consts)
qed

lemma toggle_moves: "toggle s \<noteq> s"
proof
  assume "toggle s = s"
  then have "get (toggle s) = get s" by simp
  then show False by (simp add: toggle_put get_put split: if_splits)
qed

end

interpretation rr_toggle: option_toggle ToggleReadReceipts ReadReceipts "\<lambda>v s. s\<lparr>ReadReceipts := v\<rparr>"
  by unfold_locales (auto simp: ToggleReadReceipts_def boolean_consts)

interpretation groups_toggle: option_toggle ToggleGroups Groups "\<lambda>v s. s\<lparr>Groups := v\<rparr>"
  by unfold_locales (auto simp: ToggleGroups_def boolean_consts)

interpretation broadcasts_toggle: option_toggle ToggleBroadcasts Broadcasts "\<lambda>v s. s\<lparr>Broadcasts := v\<rparr>"
  by unfold_locales (auto simp: ToggleBroadcasts_def boolean_consts)

interpretation calls_toggle: option_toggle ToggleCalls Calls "\<lambda>v s. s\<lparr>Calls := v\<rparr>"
  by unfold_locales (auto simp: ToggleCalls_def boolean_consts)

interpretation readupdate_toggle: option_toggle ToggleReadUpdate ReadUpdate "\<lambda>v s. s\<lparr>ReadUpdate := v\<rparr>"
  by unfold_locales (auto simp: ToggleReadUpdate_def boolean_consts)

section \<open>Properties\<close>

text \<open>
  Every option gate follows the one precedence rule: a forced global value wins, then the
  server's own setting, then the global setting, then the default of the program (calls and groups
  on, read receipts, broadcasts and read updates off), and no gate panics on a valid local option.
\<close>

theorem gates_precedence:
  assumes "valid_boolean local"
  shows "HandleCalls g local = Some (gate_spec True (xCalls g) local)
       \<and> HandleGroups g local = Some (gate_spec True (xGroups g) local)
       \<and> HandleReadReceipts g local = Some (gate_spec False (xReadReceipts g) local)
       \<and> HandleBroadcasts g local = Some (gate_spec False (xBroadcasts g) local)
       \<and> HandleReadUpdate g local = Some (gate_spec False (xReadUpdate g) local)"
  using assms
  by (simp add: calls_gate.handle_spec groups_gate.handle_spec readreceipts_gate.handle_spec
      broadcasts_gate.handle_spec readupdate_gate.handle_spec)

definition unset_options :: WhatsappOptionsExtended where
  "unset_options = \<lparr>xGroups = 0, xBroadcasts = 0, xReadReceipts = 0, xCalls = 0, xReadUpdate = 0,
     HistorySync = None, LogLevel = [], Presence = [], DispatchUnhandled = False\<rparr>"

theorem gates_precedence_witness:
  "HandleCalls (unset_options\<lparr>xCalls := 2\<rparr>) (- 1) = Some True \<and>
   HandleGroups (unset_options\<lparr>xCalls := 2\<rparr>) (- 1) = Some False"
  using gates_precedence [of "- 1" "unset_options\<lparr>xCalls := 2\<rparr>"]
  by (simp add: valid_boolean_def boolean_consts gate_spec_def unset_options_def)

text \<open>
  The five toggles cycle an option through unset, true and false: from any stored value a toggle
  changes it to a valid one, and three toggles of a valid option restore the whole option record.
\<close>

theorem toggles_cycle:
  assumes "tog \<in> {(ToggleReadReceipts, ReadReceipts), (ToggleGroups, Groups),
      (ToggleBroadcasts, Broadcasts), (ToggleCalls, Calls), (ToggleReadUpdate, ReadUpdate)}"
  shows "valid_boolean (snd tog (fst tog s)) \<and> fst tog s \<noteq> s
       \<and> (valid_boolean (snd tog s) \<longrightarrow> fst tog (fst tog (fst tog s)) = s)"
  using assms
  by (auto simp: rr_toggle.toggle_valid groups_toggle.toggle_valid broadcasts_toggle.toggle_valid
      calls_toggle.toggle_valid readupdate_toggle.toggle_valid rr_toggle.toggle_moves
      groups_toggle.toggle_moves broadcasts_toggle.toggle_moves calls_toggle.toggle_moves
      readupdate_toggle.toggle_moves rr_toggle.toggle_cycle groups_toggle.toggle_cycle
      broadcasts_toggle.toggle_cycle calls_toggle.toggle_cycle readupdate_toggle.toggle_cycle)

theorem toggles_cycle_witness:
  "ToggleCalls (ToggleCalls (ToggleCalls
     \<lparr>Groups = 0, Broadcasts = 1, ReadReceipts = 0, Calls = - 1, ReadUpdate = 0\<rparr>))
   = \<lparr>Groups = 0, Broadcasts = 1, ReadReceipts = 0, Calls = - 1, ReadUpdate = 0\<rparr>"
  using toggles_cycle [of "(ToggleCalls, Calls)"
      "\<lparr>Groups = 0, Broadcasts = 1, ReadReceipts = 0, Calls = - 1, ReadUpdate = 0\<rparr>"]
  by (simp add: valid_boolean_def boolean_consts)

text \<open>
  The JSON form of an option: a set option survives marshalling and unmarshalling, but an unset
  one (and any unknown value) is written as \<open>null\<close>, which the reader rejects, so it does not.
\<close>

theorem boolean_json_roundtrip:
  "UnmarshalBoolean (MarshalBoolean b) =
     (if b \<in> {TrueBooleanType, FalseBooleanType} then Inr b else Inl (UnknownBoolean ''null''))"
proof -
  have low: "ToLower (TrimByte (CHR 0x22) (TrimSpace ''true'')) = ''true''"
    "ToLower (TrimByte (CHR 0x22) (TrimSpace ''false'')) = ''false''"
    "ToLower (TrimByte (CHR 0x22) (TrimSpace ''null'')) = ''null''"
    by code_simp+
  show ?thesis
    by (simp add: UnmarshalBoolean_def MarshalBoolean_def low boolean_consts)
qed

end
