(* ===== verification/Addressing.thy ===== *)
theory Addressing
  imports Prelude
begin

text \<open>
  Phone numbers, WhatsApp ids and chat endpoints: \<open>src/library/phone.go\<close>, \<open>src/library/wid.go\<close>,
  \<open>src/whatsapp/whatsapp_extensions.go\<close>, \<open>src/whatsapp/whatsapp_chat.go\<close> and the endpoint
  conversions of \<open>src/models/qp_whatsapp_extensions.go\<close>. Each regular expression of the source is
  written out as the set of byte strings it matches. An \<open>error\<close> result is the left of a sum and an
  index out of range (a Go panic) is \<open>None\<close>.
\<close>

section \<open>Phone numbers (library)\<close>

text \<open>\<open>\d*\<close> with \<open>FindAllString\<close>: the first match starts at offset 0 and may be empty.\<close>

definition GetPhoneByWId :: "string \<Rightarrow> string" where
  "GetPhoneByWId wid =
     (let out = RemoveByte (CHR '' '') wid in
      if Contains out ''@'' then
        let out = SplitByte (CHR ''@'') out ! 0 in
        if Contains out ''.'' then SplitByte (CHR ''.'') out ! 0
        else takeWhile is_digit out
      else takeWhile is_digit out)"

datatype phone_error = NotE164Length | NotValidPhone

text \<open>\<open>^[1-9]\d{6,14}$\<close>\<close>

definition matches_e164 :: "string \<Rightarrow> bool" where
  "matches_e164 s \<longleftrightarrow>
     s \<noteq> [] \<and> CHR ''1'' \<le> hd s \<and> hd s \<le> CHR ''9'' \<and> list_all is_digit (tl s) \<and>
     6 \<le> length (tl s) \<and> length (tl s) \<le> 14"

definition GetPhoneIfValid_library :: "string \<Rightarrow> phone_error + string" where
  "GetPhoneIfValid_library source =
     (if length source < 7 then Inl NotE164Length
      else if matches_e164 source then Inr (CHR ''+'' # source)
      else Inl NotValidPhone)"

datatype digit9_error = NotEligibleMatch | NotEligibleDigits

text \<open>\<open>\+55([4-9][1-9]|[3-9][1-9])9\d{8}$\<close> on a string of its own length, 14 bytes.\<close>

definition matches_digit9 :: "string \<Rightarrow> bool" where
  "matches_digit9 s \<longleftrightarrow>
     take 3 s = ''+55'' \<and>
     (CHR ''4'' \<le> s ! 3 \<and> s ! 3 \<le> CHR ''9'' \<and> CHR ''1'' \<le> s ! 4 \<and> s ! 4 \<le> CHR ''9'' \<or>
      CHR ''3'' \<le> s ! 3 \<and> s ! 3 \<le> CHR ''9'' \<and> CHR ''1'' \<le> s ! 4 \<and> s ! 4 \<le> CHR ''9'') \<and>
     s ! 5 = CHR ''9'' \<and> list_all is_digit (drop 6 s)"

definition RemoveDigit9IfElegible :: "string \<Rightarrow> digit9_error + string" where
  "RemoveDigit9IfElegible source =
     (if length source = 14 then
        if matches_digit9 source then Inr (take 5 source @ drop 6 source)
        else Inl NotEligibleMatch
      else Inl NotEligibleDigits)"

text \<open>\<open>strings.Split(wid, "@")[1]\<close> panics when the id holds a session mark and no \<open>@\<close>.\<close>

definition TrimSessionIdFromWIdString :: "string \<Rightarrow> string option" where
  "TrimSessionIdFromWIdString wid =
     (if Contains wid '':'' then
        let prefix = SplitByte (CHR '':'') wid ! 0; parts = SplitByte (CHR ''@'') wid in
        if 1 < length parts then Some (prefix @ ''@'' @ parts ! 1) else None
      else Some wid)"

section \<open>WhatsApp ids\<close>

definition WHATSAPP_SERVERDOMAIN_USER :: string where
  "WHATSAPP_SERVERDOMAIN_USER = ''s.whatsapp.net''"
definition WHATSAPP_SERVERDOMAIN_GROUP :: string where "WHATSAPP_SERVERDOMAIN_GROUP = ''g.us''"
definition WHATSAPP_SERVERDOMAIN_LID :: string where "WHATSAPP_SERVERDOMAIN_LID = ''lid''"

definition USER_SUFFIX :: string where "USER_SUFFIX = CHR ''@'' # WHATSAPP_SERVERDOMAIN_USER"
definition GROUP_SUFFIX :: string where "GROUP_SUFFIX = CHR ''@'' # WHATSAPP_SERVERDOMAIN_GROUP"

lemmas domain_defs = WHATSAPP_SERVERDOMAIN_USER_def WHATSAPP_SERVERDOMAIN_GROUP_def
  WHATSAPP_SERVERDOMAIN_LID_def USER_SUFFIX_def GROUP_SUFFIX_def

definition AllowedSuffix :: "string \<Rightarrow> bool" where
  "AllowedSuffix s \<longleftrightarrow>
     s \<in> {WHATSAPP_SERVERDOMAIN_GROUP, WHATSAPP_SERVERDOMAIN_USER, WHATSAPP_SERVERDOMAIN_LID}"

definition PhoneToWid :: "string \<Rightarrow> string" where
  "PhoneToWid source =
     (let destination = TrimLeftByte (CHR ''+'') source in
      if CHR ''@'' \<notin> set destination then destination @ USER_SUFFIX else destination)"

definition PhonesToWids :: "string list \<Rightarrow> string list" where
  "PhonesToWids sources = map PhoneToWid sources"

text \<open>\<open>FindAllString\<close> of \<open>\d\<close> counts every digit of the string, wherever it stands.\<close>

definition IsValidE164 :: "string \<Rightarrow> bool" where
  "IsValidE164 phone = (let matches = filter is_digit phone in 9 \<le> length matches \<and> length matches \<le> 15)"

datatype endpoint_error = EmptyRecipient | InvalidLength | InvalidSuffix string | NotValidGroup string

definition FormatEndpoint :: "string \<Rightarrow> endpoint_error + string" where
  "FormatEndpoint source =
     (let destination = RemoveByte (CHR '' '') source in
      if length destination < 8 then
        (if length destination = 0 then Inl EmptyRecipient else Inl InvalidLength)
      else if HasPrefix destination ''+'' then Inr (PhoneToWid destination)
      else if CHR ''@'' \<in> set destination then
        (if \<not> AllowedSuffix (SplitByte (CHR ''@'') destination ! 1)
         then Inl (InvalidSuffix destination) else Inr destination)
      else if Contains destination ''-'' then
        (if \<not> IsValidE164 (SplitByte (CHR ''-'') destination ! 0)
         then Inl (NotValidGroup source) else Inr (destination @ GROUP_SUFFIX))
      else if IsValidE164 destination then Inr (PhoneToWid destination)
      else Inr (destination @ GROUP_SUFFIX))"

definition GetPhoneIfValid :: "string \<Rightarrow> phone_error + string" where
  "GetPhoneIfValid source =
     (let response = TrimLeftByte (CHR ''+'') (TrimSpace source) in
      if HasSuffix response USER_SUFFIX then
        let response = SplitByte (CHR ''@'') response ! 0 in
        GetPhoneIfValid_library
          (if Contains response '':'' then SplitByte (CHR '':'') response ! 0 else response)
      else GetPhoneIfValid_library response)"

definition IsValidGroupId :: "string \<Rightarrow> bool" where
  "IsValidGroupId gid \<longleftrightarrow> HasSuffix gid GROUP_SUFFIX \<and> length gid \<le> 29"

section \<open>Chats and the endpoints of the older APIs\<close>

record WhatsappChat =
  Chat_Id :: string
  LId :: string
  Phone :: string
  Title :: string

definition GetPhone :: "WhatsappChat \<Rightarrow> string" where
  "GetPhone source =
     (if length (Phone source) > 0 then Phone source
      else (case GetPhoneIfValid_library (Chat_Id source) of Inl _ \<Rightarrow> [] | Inr phone \<Rightarrow> phone))"

text \<open>
  \<open>MarshalJSON\<close>: the embedded alias yields \<open>id\<close>, \<open>phone\<close> and \<open>title\<close> (empty ones left out); its
  \<open>lid\<close> is hidden by the outer field of the same name, set only when it differs from the id.
\<close>

definition MarshalChat :: "WhatsappChat \<Rightarrow> (string \<times> string) list" where
  "MarshalChat source =
     (''id'', Chat_Id source) #
     (if Phone source = [] then [] else [(''phone'', Phone source)]) @
     (if Title source = [] then [] else [(''title'', Title source)]) @
     (if LId source \<noteq> Chat_Id source \<and> length (LId source) > 0 then [(''lid'', LId source)] else [])"

record WhatsappEndpoint =
  ep_ID :: string
  ep_UserName :: string
  ep_FirstName :: string
  ep_LastName :: string
  ep_Title :: string
  ep_Phone :: string

record QPEndpointV1 =
  v1_ID :: string
  v1_Phone :: string
  v1_Title :: string
  v1_Status :: string

record QPChatV2 =
  cv2_ID :: string
  cv2_Title :: string

definition ToQPEndPointV1 :: "WhatsappEndpoint \<Rightarrow> QPEndpointV1" where
  "ToQPEndPointV1 source =
     \<lparr>v1_ID =
        (if \<not> Contains (ep_ID source) ''@'' then
           if ep_ID source = ''status'' then ep_ID source @ ''@broadcast''
           else if Contains (ep_ID source) ''-'' then ep_ID source @ ''@g.us''
           else ep_ID source @ ''@s.whatsapp.net''
         else ep_ID source),
      v1_Phone = [],
      v1_Title = (if length (ep_Title source) = 0 then ep_UserName source else ep_Title source),
      v1_Status = []\<rparr>"

definition ToQPEndPointV2 :: "WhatsappEndpoint \<Rightarrow> WhatsappEndpoint" where
  "ToQPEndPointV2 source =
     \<lparr>ep_ID =
        (if \<not> Contains (ep_ID source) ''@'' then
           if ep_ID source = ''status'' then ep_ID source @ ''@broadcast''
           else if Contains (ep_ID source) ''-'' then ep_ID source @ ''@g.us''
           else ep_ID source @ ''@s.whatsapp.net''
         else ep_ID source),
      ep_UserName = [], ep_FirstName = [], ep_LastName = [],
      ep_Title = (if length (ep_Title source) = 0 then ep_UserName source else ep_Title source),
      ep_Phone = ep_Phone source\<rparr>"

definition ChatToQPEndPointV1 :: "WhatsappChat \<Rightarrow> QPEndpointV1" where
  "ChatToQPEndPointV1 source =
     \<lparr>v1_ID =
        (if \<not> Contains (Chat_Id source) ''@'' then
           if Chat_Id source = ''status'' then Chat_Id source @ ''@broadcast''
           else if Contains (Chat_Id source) ''-'' then Chat_Id source @ ''@g.us''
           else Chat_Id source @ ''@s.whatsapp.net''
         else Chat_Id source),
      v1_Phone = [], v1_Title = Title source, v1_Status = []\<rparr>"

definition ChatToQPChatV2 :: "WhatsappChat \<Rightarrow> QPChatV2" where
  "ChatToQPChatV2 source =
     \<lparr>cv2_ID =
        (if \<not> Contains (Chat_Id source) ''@'' then
           if Chat_Id source = ''status'' then Chat_Id source @ ''@broadcast''
           else if Contains (Chat_Id source) ''-'' then Chat_Id source @ ''@g.us''
           else Chat_Id source @ ''@s.whatsapp.net''
         else Chat_Id source),
      cv2_Title = Title source\<rparr>"

definition ChatToQPEndPointV2 :: "WhatsappChat \<Rightarrow> WhatsappEndpoint" where
  "ChatToQPEndPointV2 source =
     (let user = \<lparr>ep_ID = Chat_Id source @ ''@s.whatsapp.net'', ep_UserName = ''+'' @ Chat_Id source,
                  ep_FirstName = [], ep_LastName = [], ep_Title = Title source, ep_Phone = Phone source\<rparr>
      in if \<not> Contains (Chat_Id source) ''@'' then
           if Chat_Id source = ''status'' then user\<lparr>ep_ID := Chat_Id source @ ''@broadcast'', ep_UserName := []\<rparr>
           else if Contains (Chat_Id source) ''-'' then user\<lparr>ep_ID := Chat_Id source @ ''@g.us'', ep_UserName := []\<rparr>
           else user
         else user\<lparr>ep_ID := Chat_Id source, ep_UserName := []\<rparr>)"

section \<open>Lemmas\<close>

lemma e164_all_digits: "matches_e164 p \<Longrightarrow> list_all is_digit p"
proof (cases p)
  case (Cons c t)
  assume "matches_e164 p"
  then have "CHR ''1'' \<le> c" "c \<le> CHR ''9''" "list_all is_digit t"
    using Cons by (auto simp: matches_e164_def)
  moreover have "CHR ''0'' \<le> c"
    by (rule order_trans [OF _ calculation(1)]) code_simp
  ultimately show ?thesis
    using Cons by (simp add: is_digit_def)
qed simp

lemma e164_length: "matches_e164 p \<Longrightarrow> 7 \<le> length p \<and> length p \<le> 15"
  by (cases p) (auto simp: matches_e164_def)

lemma e164_no_mark:
  assumes "matches_e164 p"
  shows "CHR ''@'' \<notin> set p" "CHR '':'' \<notin> set p" "CHR '' '' \<notin> set p" "CHR ''-'' \<notin> set p"
    "CHR ''+'' \<notin> set p" "\<forall>c\<in>set p. solid c" "p \<noteq> []"
proof -
  have d: "c \<in> set p \<Longrightarrow> is_digit c" for c
    using e164_all_digits [OF assms] by (simp add: list_all_iff)
  show "CHR ''@'' \<notin> set p" "CHR '':'' \<notin> set p" "CHR '' '' \<notin> set p" "CHR ''-'' \<notin> set p"
    "CHR ''+'' \<notin> set p"
    using d not_digit_marks by blast+
  show "\<forall>c\<in>set p. solid c"
    using d is_digit_solid by blast
  show "p \<noteq> []"
    using e164_length [OF assms] by auto
qed

lemma takeWhile_digits: "list_all is_digit p \<Longrightarrow> \<not> is_digit c \<Longrightarrow> takeWhile is_digit (p @ c # t) = p"
  by (induction p) auto

lemma takeWhile_digits_all: "list_all is_digit p \<Longrightarrow> takeWhile is_digit p = p"
  by (induction p) auto

lemma filter_digits_all: "list_all is_digit p \<Longrightarrow> filter is_digit p = p"
  by (induction p) auto

lemma TrimLeft_digits: "matches_e164 p \<Longrightarrow> TrimLeftByte (CHR ''+'') (p @ t) = p @ t"
  using e164_no_mark(5,7) [of p] by (cases p) (auto simp: TrimLeftByte_def)

lemma PhoneToWid_has_at: "CHR ''@'' \<in> set (PhoneToWid s)"
  by (auto simp: PhoneToWid_def USER_SUFFIX_def Let_def)

lemma PhoneToWid_digits:
  "matches_e164 p \<Longrightarrow> PhoneToWid p = p @ USER_SUFFIX \<and> PhoneToWid (CHR ''+'' # p) = p @ USER_SUFFIX"
  using TrimLeft_digits [of p "[]"] e164_no_mark(1) [of p]
  by (auto simp: PhoneToWid_def TrimLeftByte_def)

lemma after_at:
  "CHR ''@'' \<notin> set a \<Longrightarrow> SplitByte (CHR ''@'') (a @ CHR ''@'' # b) ! Suc 0 = takeWhile (\<lambda>x. x \<noteq> CHR ''@'') b"
  by (simp add: SplitByte_append)

lemma suffix_split:
  assumes "CHR ''@'' \<notin> set a"
  shows "SplitByte (CHR ''@'') (a @ USER_SUFFIX) ! Suc 0 = WHATSAPP_SERVERDOMAIN_USER"
    and "SplitByte (CHR ''@'') (a @ GROUP_SUFFIX) ! Suc 0 = WHATSAPP_SERVERDOMAIN_GROUP"
  using assms unfolding USER_SUFFIX_def GROUP_SUFFIX_def
  by (simp_all add: after_at) (simp_all add: takeWhile_id domain_defs)

lemma suffix_no_space: "CHR '' '' \<notin> set USER_SUFFIX" "CHR '' '' \<notin> set GROUP_SUFFIX"
  by (auto simp: domain_defs)

lemma RemoveByte_digits: "matches_e164 p \<Longrightarrow> RemoveByte (CHR '' '') p = p"
  using e164_no_mark(3) by (rule RemoveByte_id)

lemma lib_valid: "matches_e164 p \<Longrightarrow> GetPhoneIfValid_library p = Inr (CHR ''+'' # p)"
  using e164_length [of p] by (simp add: GetPhoneIfValid_library_def)

lemma IsValidE164_digits: "matches_e164 p \<Longrightarrow> IsValidE164 p \<longleftrightarrow> 9 \<le> length p"
  using e164_length [of p] e164_all_digits [of p]
  by (simp add: IsValidE164_def filter_digits_all)

lemma no_plus_prefix: "matches_e164 p \<Longrightarrow> \<not> HasPrefix p ''+''"
  using e164_no_mark(5,7) [of p] by (cases p) (auto simp: HasPrefix_def)

lemma HasPrefix_plus: "HasPrefix s ''+'' \<longleftrightarrow> s \<noteq> [] \<and> hd s = CHR ''+''"
  by (cases s) (auto simp: HasPrefix_def)

text \<open>The fixed points of the formatter: an endpoint with an allowed domain and no leading plus.\<close>

lemma FormatEndpoint_fixed:
  assumes "CHR '' '' \<notin> set d" "8 \<le> length d" "\<not> HasPrefix d ''+''" "CHR ''@'' \<in> set d"
    and "AllowedSuffix (SplitByte (CHR ''@'') d ! 1)"
  shows "FormatEndpoint d = Inr d"
  using assms by (simp add: FormatEndpoint_def RemoveByte_id)

lemma FormatEndpoint_checked:
  assumes "FormatEndpoint s = Inr d" "\<not> HasPrefix (RemoveByte (CHR '' '') s) ''+''"
  shows "CHR '' '' \<notin> set d \<and> 8 \<le> length d \<and> \<not> HasPrefix d ''+'' \<and> CHR ''@'' \<in> set d \<and>
    AllowedSuffix (SplitByte (CHR ''@'') d ! 1)"
proof -
  let ?r = "RemoveByte (CHR '' '') s"
  have len: "8 \<le> length ?r"
    using assms(1) by (simp add: FormatEndpoint_def Let_def split: if_splits)
  have r: "CHR '' '' \<notin> set ?r" by simp
  have hd: "hd ?r \<noteq> CHR ''+''" "?r \<noteq> []"
    using assms(2) len by (auto simp: HasPrefix_plus)
  have trim: "TrimLeftByte (CHR ''+'') ?r = ?r"
    using hd by (cases ?r) (auto simp: TrimLeftByte_def)
  have group: "AllowedSuffix (SplitByte (CHR ''@'') (?r @ GROUP_SUFFIX) ! 1)"
    if "CHR ''@'' \<notin> set ?r" using that by (simp add: suffix_split(2) AllowedSuffix_def)
  have user: "AllowedSuffix (SplitByte (CHR ''@'') (?r @ USER_SUFFIX) ! 1)"
    if "CHR ''@'' \<notin> set ?r" using that by (simp add: suffix_split(1) AllowedSuffix_def)
  consider "CHR ''@'' \<in> set ?r" "d = ?r" "AllowedSuffix (SplitByte (CHR ''@'') ?r ! 1)"
    | "CHR ''@'' \<notin> set ?r" "d = ?r @ GROUP_SUFFIX"
    | "CHR ''@'' \<notin> set ?r" "d = ?r @ USER_SUFFIX"
    using assms len trim
    by (auto simp: FormatEndpoint_def Let_def PhoneToWid_def split: if_splits)
  then show ?thesis
  proof cases
    case 1
    with assms(2) len r show ?thesis by simp
  next
    case 2
    with hd len r group suffix_no_space show ?thesis
      by (auto simp: HasPrefix_plus GROUP_SUFFIX_def)
  next
    case 3
    with hd len r user suffix_no_space show ?thesis
      by (auto simp: HasPrefix_plus USER_SUFFIX_def)
  qed
qed

section \<open>Properties\<close>



text \<open>
  A phone number of nine digits or more goes to its WhatsApp id and back: with or without the
  plus it is addressed as a user, and the number, the bare digits and the id without its session mark
  are recovered from that id.
\<close>

theorem phone_wid_roundtrip:
  assumes "matches_e164 p" "9 \<le> length p" "CHR ''@'' \<notin> set sid"
  shows "FormatEndpoint p = Inr (p @ USER_SUFFIX)
       \<and> FormatEndpoint (CHR ''+'' # p) = Inr (p @ USER_SUFFIX)
       \<and> GetPhoneIfValid (p @ USER_SUFFIX) = Inr (CHR ''+'' # p)
       \<and> GetPhoneByWId (p @ USER_SUFFIX) = p
       \<and> TrimSessionIdFromWIdString (p @ CHR '':'' # sid @ USER_SUFFIX) = Some (p @ USER_SUFFIX)"
proof (intro conjI)
  note nm = e164_no_mark [OF assms(1)]
  have sp: "RemoveByte (CHR '' '') (CHR ''+'' # p) = CHR ''+'' # p"
    using nm(3) by (simp add: RemoveByte_id)
  have nospace: "\<forall>c\<in>set (p @ USER_SUFFIX). solid c"
    using nm(6) by (auto simp: USER_SUFFIX_def WHATSAPP_SERVERDOMAIN_USER_def solid_def is_space_def)
  have first: "SplitByte (CHR ''@'') (p @ USER_SUFFIX) ! 0 = p"
    using nm(1) by (simp add: USER_SUFFIX_def takeWhile_append_sep)
  show "FormatEndpoint p = Inr (p @ USER_SUFFIX)"
    using assms nm by (simp add: FormatEndpoint_def RemoveByte_digits no_plus_prefix
        IsValidE164_digits PhoneToWid_digits)
  show "FormatEndpoint (CHR ''+'' # p) = Inr (p @ USER_SUFFIX)"
    using assms sp by (simp add: FormatEndpoint_def PhoneToWid_digits HasPrefix_plus)
  show "GetPhoneIfValid (p @ USER_SUFFIX) = Inr (CHR ''+'' # p)"
    using assms(1) nm(2) nospace first
    by (simp add: GetPhoneIfValid_def TrimSpace_id TrimLeft_digits lib_valid del: SplitByte_first)
  show "GetPhoneByWId (p @ USER_SUFFIX) = p"
  proof -
    have "CHR ''@'' \<in> set (p @ USER_SUFFIX)" by (simp add: USER_SUFFIX_def)
    moreover have "RemoveByte (CHR '' '') (p @ USER_SUFFIX) = p @ USER_SUFFIX"
      using nm(3) suffix_no_space(1) by (simp add: RemoveByte_id)
    moreover have "CHR ''.'' \<notin> set p"
      using e164_all_digits [OF assms(1)] by (auto simp: list_all_iff dest: is_digit_not)
    ultimately show ?thesis
      using first e164_all_digits [OF assms(1)]
      by (simp add: GetPhoneByWId_def takeWhile_digits_all del: SplitByte_first)
  qed
  show "TrimSessionIdFromWIdString (p @ CHR '':'' # sid @ USER_SUFFIX) = Some (p @ USER_SUFFIX)"
  proof -
    have "SplitByte (CHR ''@'') ((p @ CHR '':'' # sid) @ CHR ''@'' # WHATSAPP_SERVERDOMAIN_USER)
        = (p @ CHR '':'' # sid) # SplitByte (CHR ''@'') WHATSAPP_SERVERDOMAIN_USER"
      using nm(1) assms(3) by (intro SplitByte_append) auto
    then have "SplitByte (CHR ''@'') (p @ CHR '':'' # sid @ USER_SUFFIX)
        = [p @ CHR '':'' # sid, WHATSAPP_SERVERDOMAIN_USER]"
      by (simp add: USER_SUFFIX_def WHATSAPP_SERVERDOMAIN_USER_def)
    then show ?thesis
      using nm(2) by (simp add: TrimSessionIdFromWIdString_def takeWhile_append_sep USER_SUFFIX_def)
  qed
qed

theorem phone_wid_roundtrip_witness:
  "FormatEndpoint ''5521967609494'' = Inr (''5521967609494'' @ USER_SUFFIX)"
proof -
  have "matches_e164 ''5521967609494''" by code_simp
  from phone_wid_roundtrip [OF this, of "''17''"] show ?thesis by simp
qed

text \<open>
  A number of eight digits is a valid phone number to \<open>GetPhoneIfValid\<close> but is addressed as a
  group by the formatter, which asks for nine digits.
\<close>

theorem eight_digits_are_a_group:
  assumes "matches_e164 p" "length p = 8"
  shows "GetPhoneIfValid_library p = Inr (CHR ''+'' # p) \<and> FormatEndpoint p = Inr (p @ GROUP_SUFFIX)"
  using assms e164_no_mark [OF assms(1)]
  by (simp add: lib_valid FormatEndpoint_def RemoveByte_digits no_plus_prefix IsValidE164_digits)

theorem eight_digits_are_a_group_witness:
  "FormatEndpoint ''12345678'' = Inr (''12345678'' @ GROUP_SUFFIX)"
proof -
  have "matches_e164 ''12345678''" by code_simp
  from eight_digits_are_a_group [OF this] show ?thesis by simp
qed

text \<open>
  A leading plus switches the domain check off: whatever follows it, any domain included, is
  accepted as an endpoint, while the same text without the plus is refused unless its domain is
  allowed.
\<close>

theorem plus_skips_domain_check:
  assumes "CHR '' '' \<notin> set t" "8 \<le> length t" "hd t \<noteq> CHR ''+''" "CHR ''@'' \<in> set t"
    and "\<not> AllowedSuffix (SplitByte (CHR ''@'') t ! 1)"
  shows "FormatEndpoint (CHR ''+'' # t) = Inr t \<and> FormatEndpoint t = Inl (InvalidSuffix t)"
proof -
  have "TrimLeftByte (CHR ''+'') (CHR ''+'' # t) = t"
    using assms(2,3) by (cases t) (auto simp: TrimLeftByte_def)
  then have w: "PhoneToWid (CHR ''+'' # t) = t"
    using assms(4) by (simp add: PhoneToWid_def)
  have "RemoveByte (CHR '' '') (CHR ''+'' # t) = CHR ''+'' # t"
    using assms(1) by (simp add: RemoveByte_id)
  then show ?thesis
    using assms w by (auto simp: FormatEndpoint_def RemoveByte_id HasPrefix_plus)
qed

theorem plus_skips_domain_check_witness:
  "FormatEndpoint ''+user@example.org'' = Inr ''user@example.org''"
proof -
  have "\<not> AllowedSuffix (SplitByte (CHR ''@'') ''user@example.org'' ! 1)" by code_simp
  then show ?thesis using plus_skips_domain_check [of "''user@example.org''"] by simp
qed

text \<open>
  Removing the ninth digit of a Brazilian mobile number yields a valid number one digit shorter,
  from which the original is restored by putting the nine back, and it is never applied twice.
\<close>

theorem remove_digit9_sound:
  assumes "RemoveDigit9IfElegible s = Inr r"
  shows "s = take 5 r @ CHR ''9'' # drop 5 r \<and> length r = 13 \<and>
    GetPhoneIfValid_library (tl r) = Inr r \<and> RemoveDigit9IfElegible r = Inl NotEligibleDigits"
proof -
  have len: "length s = 14" and m: "matches_digit9 s" and r: "r = take 5 s @ drop 6 s"
    using assms by (auto simp: RemoveDigit9IfElegible_def split: if_splits)
  obtain a0 a1 a2 a3 a4 a5 b where s: "s = a0 # a1 # a2 # a3 # a4 # a5 # b" and b: "length b = 8"
    using len by (auto simp: length_Suc_conv eval_nat_numeral)
  have d: "a0 = CHR ''+''" "a1 = CHR ''5''" "a2 = CHR ''5''" "a5 = CHR ''9''" "is_digit a3" "is_digit a4"
    "list_all is_digit b"
    using m unfolding s
    by (auto simp: matches_digit9_def eval_nat_numeral is_digit_def less_eq_char_def)
  have r': "r = a0 # a1 # a2 # a3 # a4 # b"
    using r s by (simp add: eval_nat_numeral)
  have "matches_e164 (tl r)"
    using d b by (simp add: r' matches_e164_def) (simp add: is_digit_def less_eq_char_def)
  then show ?thesis
    using s r' d b by (simp add: lib_valid RemoveDigit9IfElegible_def)
qed

theorem remove_digit9_sound_witness:
  "GetPhoneIfValid_library ''554167609494'' = Inr ''+554167609494''"
proof -
  have "RemoveDigit9IfElegible ''+5541967609494'' = Inr ''+554167609494''" by code_simp
  from remove_digit9_sound [OF this] show ?thesis by simp
qed

text \<open>
  Stripping the session mark off an id panics exactly on an id that has a mark and no domain;
  on a well-formed session id it keeps the user and the domain.
\<close>

theorem trim_session_panics_iff:
  "(TrimSessionIdFromWIdString w = None \<longleftrightarrow> CHR '':'' \<in> set w \<and> CHR ''@'' \<notin> set w)
   \<and> (CHR '':'' \<notin> set w \<longrightarrow> TrimSessionIdFromWIdString w = Some w)"
proof -
  have "0 < count_list w c \<longleftrightarrow> c \<in> set w" for c
    by (metis count_list_0_iff gr0I less_numeral_extra(3))
  then show ?thesis
    by (auto simp: TrimSessionIdFromWIdString_def Let_def length_SplitByte)
qed

theorem trim_session_panics_iff_witness:
  "TrimSessionIdFromWIdString ''5511:2'' = None \<and> TrimSessionIdFromWIdString ''5511'' = Some ''5511''"
  using trim_session_panics_iff [of "''5511:2''"] trim_session_panics_iff [of "''5511''"] by simp

text \<open>
  A group id is valid exactly when the part before the domain has at most 24 bytes, four more
  than the 20 of the function's comment.
\<close>

theorem group_id_prefix_bound: "IsValidGroupId (p @ GROUP_SUFFIX) \<longleftrightarrow> length p \<le> 24"
  by (simp add: IsValidGroupId_def domain_defs)

text \<open>
  The five endpoint conversions of the older APIs address a chat alike: the same id for the same
  chat, always with a domain, and unchanged when a converted id is converted again.
\<close>

theorem endpoint_conversions_agree:
  assumes "ep_ID e = Chat_Id c"
  shows "v1_ID (ToQPEndPointV1 e) = cv2_ID (ChatToQPChatV2 c)
       \<and> ep_ID (ToQPEndPointV2 e) = cv2_ID (ChatToQPChatV2 c)
       \<and> v1_ID (ChatToQPEndPointV1 c) = cv2_ID (ChatToQPChatV2 c)
       \<and> ep_ID (ChatToQPEndPointV2 c) = cv2_ID (ChatToQPChatV2 c)
       \<and> CHR ''@'' \<in> set (cv2_ID (ChatToQPChatV2 c))
       \<and> cv2_ID (ChatToQPChatV2 (c\<lparr>Chat_Id := cv2_ID (ChatToQPChatV2 c)\<rparr>)) = cv2_ID (ChatToQPChatV2 c)"
  using assms
  by (simp add: ToQPEndPointV1_def ToQPEndPointV2_def ChatToQPEndPointV1_def ChatToQPEndPointV2_def
      ChatToQPChatV2_def Let_def)

theorem endpoint_conversions_agree_witness:
  "v1_ID (ToQPEndPointV1 \<lparr>ep_ID = ''5521-144'', ep_UserName = [], ep_FirstName = [],
       ep_LastName = [], ep_Title = [], ep_Phone = []\<rparr>)
   = cv2_ID (ChatToQPChatV2 \<lparr>Chat_Id = ''5521-144'', LId = [], Phone = [], Title = []\<rparr>)"
  using endpoint_conversions_agree [of "\<lparr>ep_ID = ''5521-144'', ep_UserName = [], ep_FirstName = [],
       ep_LastName = [], ep_Title = [], ep_Phone = []\<rparr>"
      "\<lparr>Chat_Id = ''5521-144'', LId = [], Phone = [], Title = []\<rparr>"]
  by simp

end
