(* ===== verification/Messages.thy ===== *)
theory Messages
  imports Addressing "HOL-Library.Multiset"
begin

text \<open>
  The message data of \<open>src/whatsapp\<close>: message types, delivery statuses, connection states and chat
  presence with their JSON forms, attachments and thumbnails with their content sniffing, and the
  message record itself. The protobuf payload a message carries is third-party data: the model keeps
  the fields the program reads (\<open>wa_message\<close>) and the rest as one opaque value.
\<close>

section \<open>Enumerations\<close>

datatype WhatsappMessageType =
  UnhandledMessageType | ViewOnceMessageType | ImageMessageType | DocumentMessageType
| AudioMessageType | VideoMessageType | TextMessageType | LocationMessageType | ContactMessageType
| CallMessageType | SystemMessageType | GroupMessageType | RevokeMessageType | PollMessageType

fun MessageType_String :: "WhatsappMessageType \<Rightarrow> string" where
  "MessageType_String ImageMessageType = ''image''"
| "MessageType_String DocumentMessageType = ''document''"
| "MessageType_String AudioMessageType = ''audio''"
| "MessageType_String VideoMessageType = ''video''"
| "MessageType_String TextMessageType = ''text''"
| "MessageType_String LocationMessageType = ''location''"
| "MessageType_String ContactMessageType = ''contact''"
| "MessageType_String CallMessageType = ''call''"
| "MessageType_String SystemMessageType = ''system''"
| "MessageType_String GroupMessageType = ''group''"
| "MessageType_String RevokeMessageType = ''revoke''"
| "MessageType_String PollMessageType = ''poll''"
| "MessageType_String ViewOnceMessageType = ''view_once''"
| "MessageType_String UnhandledMessageType = ''unhandled''"

text \<open>A status is a Go string; \<open>Uint32\<close> ranks the declared ones and sends any other to 0.\<close>

type_synonym WhatsappMessageStatus = string

definition StatusError :: WhatsappMessageStatus where "StatusError = ''error''"
definition StatusImported :: WhatsappMessageStatus where "StatusImported = ''imported''"
definition StatusDelivered :: WhatsappMessageStatus where "StatusDelivered = ''delivered''"
definition StatusRead :: WhatsappMessageStatus where "StatusRead = ''read''"

lemmas status_defs = StatusError_def StatusImported_def StatusDelivered_def StatusRead_def

definition Uint32 :: "WhatsappMessageStatus \<Rightarrow> nat" where
  "Uint32 source =
     (if source = StatusError then 1
      else if source = StatusImported then 2
      else if source = StatusDelivered then 3
      else if source = StatusRead then 4
      else 0)"

datatype WhatsappConnectionState =
  Unknown | UnPrepared | UnVerified | Starting | Connecting | Stopping | Stopped | Restarting
| Reconnecting | Connected | Fetching | Ready | Halting | Disconnected | Failed

fun EnumIndex :: "WhatsappConnectionState \<Rightarrow> nat" where
  "EnumIndex Unknown = 0" | "EnumIndex UnPrepared = 1" | "EnumIndex UnVerified = 2"
| "EnumIndex Starting = 3" | "EnumIndex Connecting = 4" | "EnumIndex Stopping = 5"
| "EnumIndex Stopped = 6" | "EnumIndex Restarting = 7" | "EnumIndex Reconnecting = 8"
| "EnumIndex Connected = 9" | "EnumIndex Fetching = 10" | "EnumIndex Ready = 11"
| "EnumIndex Halting = 12" | "EnumIndex Disconnected = 13" | "EnumIndex Failed = 14"

definition ConnectionState_String :: "WhatsappConnectionState \<Rightarrow> string" where
  "ConnectionState_String s =
     [''Unknown'', ''UnPrepared'', ''UnVerified'', ''Starting'', ''Connecting'', ''Stopping'',
      ''Stopped'', ''Restarting'', ''Reconnecting'', ''Connected'', ''Fetching'', ''Ready'',
      ''Halting'', ''Disconnected'', ''Failed''] ! EnumIndex s"

definition IsHealthy :: "WhatsappConnectionState \<Rightarrow> bool" where
  "IsHealthy s \<longleftrightarrow> s = Ready \<or> s = Stopped"

text \<open>\<open>UnmarshalJSON\<close> on the decoded JSON string: a name the table lacks reads as \<open>Unknown\<close>.\<close>

definition UnmarshalState :: "string \<Rightarrow> WhatsappConnectionState" where
  "UnmarshalState str =
     (case map_of
        [(''Unknown'', Unknown), (''UnPrepared'', UnPrepared), (''UnVerified'', UnVerified),
         (''Starting'', Starting), (''Connecting'', Connecting), (''Stopping'', Stopping),
         (''Stopped'', Stopped), (''Restarting'', Restarting), (''Reconnecting'', Reconnecting),
         (''Connected'', Connected), (''Fetching'', Fetching), (''Ready'', Ready),
         (''Halting'', Halting), (''Disconnected'', Disconnected), (''Failed'', Failed)] str of
        Some state \<Rightarrow> state | None \<Rightarrow> Unknown)"

text \<open>Chat presence is a Go \<open>uint\<close>; every number but 1 and 2 prints as paused.\<close>

type_synonym WhatsappChatPresenceType = "64 word"

definition PresencePaused :: WhatsappChatPresenceType where "PresencePaused = 0"
definition PresenceText :: WhatsappChatPresenceType where "PresenceText = 1"
definition PresenceAudio :: WhatsappChatPresenceType where "PresenceAudio = 2"

definition Presence_String :: "WhatsappChatPresenceType \<Rightarrow> string" where
  "Presence_String t =
     (if t = PresenceText then ''text'' else if t = PresenceAudio then ''audio'' else ''paused'')"

definition Presence_Parse :: "string \<Rightarrow> WhatsappChatPresenceType" where
  "Presence_Parse str =
     (if str = ''text'' then PresenceText else if str = ''audio'' then PresenceAudio else PresencePaused)"

text \<open>\<open>UnmarshalJSON\<close> reads a number, or else a string; the JSON decoder's reading is the argument.\<close>

datatype json_scalar = JNumber "64 word" | JString string | JOther

definition Presence_Unmarshal :: "json_scalar \<Rightarrow> WhatsappChatPresenceType option" where
  "Presence_Unmarshal d =
     (case d of JNumber n \<Rightarrow> Some n | JString s \<Rightarrow> Some (Presence_Parse s) | JOther \<Rightarrow> None)"

section \<open>Thumbnails\<close>

definition b64_alphabet :: string where
  "b64_alphabet = ''ABCDEFGHIJKLMNOPQRSTUVWXYZabcdefghijklmnopqrstuvwxyz0123456789+/''"

definition b64_char :: "nat \<Rightarrow> char" where
  "b64_char n = b64_alphabet ! n"

text \<open>\<open>base64.StdEncoding.EncodeToString\<close>: three bytes to four letters, padded with \<open>=\<close>.\<close>

fun EncodeToString :: "nat list \<Rightarrow> string" where
  "EncodeToString [] = []"
| "EncodeToString [a] = [b64_char (a div 4), b64_char (a mod 4 * 16), CHR ''='', CHR ''='']"
| "EncodeToString [a, b] =
     [b64_char (a div 4), b64_char (a mod 4 * 16 + b div 16), b64_char (b mod 16 * 4), CHR ''='']"
| "EncodeToString (a # b # c # rest) =
     b64_char (a div 4) # b64_char (a mod 4 * 16 + b div 16) # b64_char (b mod 16 * 4 + c div 64) #
     b64_char (c mod 64) # EncodeToString rest"

record WhatsappMessageThumbnail =
  th_Data :: string
  th_Mime :: string
  th_UrlPrefix :: string

definition ContentSignatures :: "(string \<times> string) list" where
  "ContentSignatures =
     [(''/9j/'', ''image/jpg''), (''R0lGODdh'', ''image/gif''), (''R0lGODlh'', ''image/gif''),
      (''iVBORw0KGgo'', ''image/png''), (''JVBERi0'', ''application/pdf'')]"

text \<open>
  The loop ranges over a Go map, in any order of its entries: the order is an argument.
\<close>

fun GetThumbnailMime_loop :: "(string \<times> string) list \<Rightarrow> string \<Rightarrow> string" where
  "GetThumbnailMime_loop [] data = ''application/octet-stream''"
| "GetThumbnailMime_loop ((k, v) # rest) data =
     (if HasPrefix data k then v else GetThumbnailMime_loop rest data)"

definition GetThumbnailMime :: "string \<Rightarrow> string" where
  "GetThumbnailMime data = GetThumbnailMime_loop ContentSignatures data"

definition GetThumbnailUrlPrefix :: "string \<Rightarrow> string" where
  "GetThumbnailUrlPrefix mime = ''data:'' @ mime @ '';base64,''"

definition NewWhatsappMessageThumbnailFromBase64 :: "string \<Rightarrow> WhatsappMessageThumbnail" where
  "NewWhatsappMessageThumbnailFromBase64 data =
     \<lparr>th_Data = data, th_Mime = GetThumbnailMime data,
      th_UrlPrefix = GetThumbnailUrlPrefix (GetThumbnailMime data)\<rparr>"

definition NewWhatsappMessageThumbnail :: "nat list \<Rightarrow> WhatsappMessageThumbnail" where
  "NewWhatsappMessageThumbnail bytes = NewWhatsappMessageThumbnailFromBase64 (EncodeToString bytes)"

text \<open>The getters fill the empty fields of the thumbnail they are called on.\<close>

definition Thumbnail_GetMime :: "WhatsappMessageThumbnail \<Rightarrow> WhatsappMessageThumbnail \<times> string" where
  "Thumbnail_GetMime source =
     (let source = (if length (th_Mime source) = 0
                    then source\<lparr>th_Mime := GetThumbnailMime (th_Data source)\<rparr> else source)
      in (source, th_Mime source))"

definition GetThumbnailAsUrl :: "WhatsappMessageThumbnail \<Rightarrow> WhatsappMessageThumbnail \<times> string" where
  "GetThumbnailAsUrl source =
     (let source = (if length (th_UrlPrefix source) = 0
                    then (case Thumbnail_GetMime source of (source, mime) \<Rightarrow>
                            source\<lparr>th_UrlPrefix := GetThumbnailUrlPrefix mime\<rparr>)
                    else source)
      in (source, th_UrlPrefix source @ th_Data source))"

section \<open>Attachments\<close>

text \<open>Coordinates are kept as the bits of the Go \<open>float64\<close>; nothing computes with them.\<close>

record WhatsappAttachment =
  att_content :: "string option"
  Mimetype :: string
  FileLength :: "64 word"
  FileName :: string
  Thumbnail :: "WhatsappMessageThumbnail option"
  Seconds :: "32 word"
  ptt :: bool
  Latitude :: "64 word"
  Longitude :: "64 word"
  att_Sequence :: int
  Url :: string
  WaveForm :: string
  Checksum :: string

definition empty_attachment :: WhatsappAttachment where
  "empty_attachment = \<lparr>att_content = None, Mimetype = [], FileLength = 0, FileName = [],
     Thumbnail = None, Seconds = 0, ptt = False, Latitude = 0, Longitude = 0, att_Sequence = 0,
     Url = [], WaveForm = [], Checksum = []\<rparr>"

definition WhatsappPTTMime :: string where "WhatsappPTTMime = ''audio/ogg; codecs=opus''"

definition WhatsappMIMEAudioPTTCompatible :: "string list" where
  "WhatsappMIMEAudioPTTCompatible =
     [''application/ogg'', ''audio/ogg'', ''video/ogg'', ''audio/opus'', ''audio/wav'', ''audio/wave'',
      ''audio/x-wav'']"
definition WhatsappMIMEAudio :: "string list" where
  "WhatsappMIMEAudio =
     [''audio/oga'', ''audio/ogx'', ''audio/x-mpeg-3'', ''audio/mpeg3'', ''audio/mpeg'', ''audio/mp4'']"
definition WhatsappMIMEVideo :: "string list" where "WhatsappMIMEVideo = [''video/mp4'']"
definition WhatsappMIMEImage :: "string list" where
  "WhatsappMIMEImage = [''image/jpeg'', ''image/jpg'', ''image/webp'', ''image/png'']"
definition WhatsappMIMEDocument :: "string list" where
  "WhatsappMIMEDocument =
     [''text/xml'', ''application/pdf'', ''application/ogg'', ''audio/ogg'', ''audio/wav'', ''audio/wave'',
      ''audio/x-wav'']"

lemmas mime_lists = WhatsappMIMEAudioPTTCompatible_def WhatsappMIMEAudio_def WhatsappMIMEVideo_def
  WhatsappMIMEImage_def WhatsappMIMEDocument_def

definition InvalidFilePrefix :: string where "InvalidFilePrefix = ''invalid-''"

text \<open>\<open>strings.Split(mime, ";")[0]\<close>\<close>

definition mimeOnly :: "string \<Rightarrow> string" where
  "mimeOnly mime = SplitByte (CHR '';'') mime ! 0"

text \<open>\<open>int(source.FileLength)\<close> reads the unsigned length as two's complement.\<close>

definition IsValidSize :: "WhatsappAttachment \<Rightarrow> bool" where
  "IsValidSize source =
     (let len = (if FileLength source > 0 then sint (FileLength source)
                 else (case att_content source of Some c \<Rightarrow> int (length c) | None \<Rightarrow> 0))
      in len > 500 \<or> HasPrefix (Mimetype source) ''text/'' \<and> len > 50)"

definition IsValidPTT :: "WhatsappAttachment \<Rightarrow> bool" where
  "IsValidPTT source \<longleftrightarrow> Mimetype source = WhatsappPTTMime"

definition IsValidAudio :: "WhatsappAttachment \<Rightarrow> bool" where
  "IsValidAudio source \<longleftrightarrow>
     IsValidPTT source \<or> mimeOnly (Mimetype source) \<in> set WhatsappMIMEAudio"

definition SetThumbnail :: "WhatsappAttachment \<Rightarrow> nat list \<Rightarrow> WhatsappAttachment" where
  "SetThumbnail source bytes =
     (if length bytes > 0 then source\<lparr>Thumbnail := Some (NewWhatsappMessageThumbnail bytes)\<rparr> else source)"

definition GenerateVCardAttachment :: "string \<Rightarrow> string \<Rightarrow> WhatsappAttachment" where
  "GenerateVCardAttachment content filename =
     empty_attachment\<lparr>Mimetype := ''text/x-vcard'', FileName := filename,
       FileLength := word_of_nat (length content), att_content := Some content\<rparr>"

definition GetMessageTypeFromMIME :: "string \<Rightarrow> WhatsappMessageType" where
  "GetMessageTypeFromMIME mime =
     (if Contains mime ''wa-document'' then DocumentMessageType
      else let m = mimeOnly mime in
        if m \<in> set WhatsappMIMEAudio then AudioMessageType
        else if m \<in> set WhatsappMIMEVideo then VideoMessageType
        else if m \<in> set WhatsappMIMEImage then ImageMessageType
        else if m \<in> set WhatsappMIMEDocument then DocumentMessageType
        else DocumentMessageType)"

definition GetMessageType :: "WhatsappAttachment option \<Rightarrow> WhatsappMessageType" where
  "GetMessageType attach =
     (case attach of
        None \<Rightarrow> TextMessageType
      | Some a \<Rightarrow>
          if ptt a then AudioMessageType
          else if HasPrefix (FileName a) InvalidFilePrefix then DocumentMessageType
          else GetMessageTypeFromMIME (Mimetype a))"

section \<open>Messages\<close>

text \<open>
  \<open>waE2E.Message\<close> is a third-party protobuf type. The records hold the fields the program reads of
  it and of its parts, an absent string reading as the empty one as the getters have it; the rest of
  each part is one opaque value, of which only equality matters. The media parts share a record; the
  fields a medium lacks are empty. A quoted message is kept in its wire form.
\<close>

record wa_ad_reply =
  CtwaClid :: string
  ad_Title :: string
  SourceID :: string
  SourceURL :: string
  SourceApp :: string
  SourceType :: string
  ad_Thumbnail :: "nat list"
  ad_other :: string

record wa_context_info =
  ConversionDelaySeconds :: "32 word option"
  EntryPointConversionDelaySeconds :: "32 word option"
  ci_ForwardingScore :: "32 word"
  StanzaID :: string
  MentionedJID :: "string list"
  ExternalAdReply :: "wa_ad_reply option"
  ci_Participant :: "string option"
  QuotedMessage :: "string option"
  ci_Expiration :: "32 word option"
  EphemeralSettingTimestamp :: "int option"
  DisappearingMode :: "string option"
  ci_other :: string

record wa_extended_text =
  et_Text :: string
  MatchedText :: string
  et_Title :: string
  et_Description :: string
  et_JPEGThumbnail :: "nat list"
  et_ContextInfo :: "wa_context_info option"
  et_other :: string

record wa_media =
  md_Mimetype :: string
  md_FileLength :: "64 word"
  Caption :: string
  md_FileName :: string
  md_Seconds :: "32 word"
  IsAnimated :: bool
  md_Thumbnail :: "nat list"
  PTT :: "bool option"
  Waveform :: string
  md_ContextInfo :: "wa_context_info option"
  md_other :: string

record wa_location =
  DegreesLatitude :: "64 word option"
  DegreesLongitude :: "64 word option"
  wl_Caption :: string
  SequenceNumber :: int
  wl_JPEGThumbnail :: "nat list"
  wl_Name :: string
  wl_ContextInfo :: "wa_context_info option"
  wl_other :: string

record wa_contact =
  DisplayName :: string
  wc_Vcard :: string
  wc_ContextInfo :: "wa_context_info option"
  wc_other :: string

record wa_reply =
  wr_Text :: string
  wr_ContextInfo :: "wa_context_info option"
  wr_other :: string

datatype protocol_type = MESSAGE_EDIT | REVOKE | HISTORY_SYNC_NOTIFICATION | OtherProtocol nat

record wa_edited =
  ed_Conversation :: "string option"
  ed_Image :: "string option"
  ed_Video :: "string option"
  ed_Document :: "string option"
  ed_Extended :: "string option"
  ed_other :: string

record wa_protocol =
  pm_Type :: protocol_type
  pm_KeyID :: string
  pm_EditedMessage :: "wa_edited option"
  HistorySyncNotification :: "string option"
  pm_other :: string

record wa_template =
  HydratedContentText :: "string option"
  tm_ContextInfo :: "wa_context_info option"
  tm_other :: string

record wa_template_reply =
  SelectedIndex :: nat
  SelectedDisplayText :: string
  tr_ContextInfo :: "wa_context_info option"
  tr_other :: string

record wa_list_row =
  RowID :: string
  row_Title :: string
  row_Description :: string

record wa_list =
  wl_Title :: string
  wl_Description :: string
  ButtonText :: string
  Sections :: "(string \<times> wa_list_row option list) option list"
  FooterText :: string
  li_ContextInfo :: "wa_context_info option"
  li_other :: string

record wa_button =
  ButtonID :: string
  DisplayText :: string

record wa_buttons =
  bm_ContentText :: "string option"
  Buttons :: "wa_button list"
  bm_FooterText :: "string option"
  bm_ContextInfo :: "wa_context_info option"

record wa_poll =
  poll_Name :: string
  OptionNames :: "string list"
  SelectableOptionsCount :: "32 word"
  MessageSecret :: "nat list"

record wa_message =
  ImageMessage :: "wa_media option"
  StickerMessage :: "wa_media option"
  DocumentMessage :: "wa_media option"
  AudioMessage :: "wa_media option"
  VideoMessage :: "wa_media option"
  ExtendedTextMessage :: "wa_extended_text option"
  EphemeralMessage :: "string option"
  ButtonsResponseMessage :: "wa_reply option"
  LocationMessage :: "wa_location option"
  LiveLocationMessage :: "wa_location option"
  ContactMessage :: "wa_contact option"
  ReactionMessage :: "(string \<times> string) option"
  EditedMessage :: "string option"
  ProtocolMessage :: "wa_protocol option"
  TemplateMessage :: "wa_template option"
  TemplateButtonReplyMessage :: "wa_template_reply option"
  ContactsArrayMessage :: "wa_contact list option"
  ListMessage :: "wa_list option"
  ButtonsMessage :: "wa_buttons option"
  PollCreationMessage :: "wa_poll option"
  SenderKeyDistributionMessage :: "string option"
  StickerSyncRmrMessage :: "string option"
  Conversation :: string
  MessageContextInfo :: "string option"
  wa_other :: string

definition empty_wa :: wa_message where
  "empty_wa = \<lparr>ImageMessage = None, StickerMessage = None, DocumentMessage = None, AudioMessage = None,
     VideoMessage = None, ExtendedTextMessage = None, EphemeralMessage = None,
     ButtonsResponseMessage = None, LocationMessage = None, LiveLocationMessage = None,
     ContactMessage = None, ReactionMessage = None, EditedMessage = None, ProtocolMessage = None,
     TemplateMessage = None, TemplateButtonReplyMessage = None, ContactsArrayMessage = None,
     ListMessage = None, ButtonsMessage = None, PollCreationMessage = None,
     SenderKeyDistributionMessage = None, StickerSyncRmrMessage = None,
     Conversation = [], MessageContextInfo = None, wa_other = []\<rparr>"

datatype content_value = NoContent | WaMessage wa_message | WaContact wa_contact | WaProtocol wa_protocol
  | OtherContent string

record WhatsappPoll =
  Question :: string
  PollOptions :: "string list"
  Selections :: "64 word"

record WhatsappLocation =
  loc_Latitude :: "64 word"
  loc_Longitude :: "64 word"
  loc_Name :: string
  loc_Address :: string

record WhatsappContact =
  contact_Phone :: string
  contact_Name :: string
  Vcard :: string

record WhatsappMessageUrl =
  Reference :: string
  url_Title :: string
  url_Description :: string
  url_Thumbnail :: "WhatsappMessageThumbnail option"

record WhatsappMessageAds =
  ads_Id :: string
  ads_Title :: string
  SourceId :: string
  SourceUrl :: string
  App :: string
  ads_Type :: string
  ads_Thumbnail :: "WhatsappMessageThumbnail option"

definition Url_SetThumbnail :: "WhatsappMessageUrl \<Rightarrow> nat list \<Rightarrow> WhatsappMessageUrl" where
  "Url_SetThumbnail source bytes =
     (if length bytes > 0 then source\<lparr>url_Thumbnail := Some (NewWhatsappMessageThumbnail bytes)\<rparr> else source)"

definition Ads_SetThumbnail :: "WhatsappMessageAds \<Rightarrow> nat list \<Rightarrow> WhatsappMessageAds" where
  "Ads_SetThumbnail source bytes =
     (if length bytes > 0 then source\<lparr>ads_Thumbnail := Some (NewWhatsappMessageThumbnail bytes)\<rparr> else source)"

record WhatsappMessageDebug =
  DebugEvent :: string
  Reason :: string
  DebugInfo :: content_value

text \<open>
  Times are nanoseconds since the epoch; \<open>None\<close> is Go's zero time. \<open>types.JID\<close> and \<open>types.MessageInfo\<close> are
  the client's, with the fields the program reads; \<open>InfoForHistory\<close> holds such a value or nothing.
\<close>

type_synonym time = int

record JID =
  jid_User :: string
  jid_Device :: nat
  jid_Server :: string

record message_info =
  mi_ID :: string
  mi_Timestamp :: "time option"
  mi_IsFromMe :: bool
  mi_IsGroup :: bool
  mi_Chat :: JID
  mi_Sender :: JID

record WhatsappMessage =
  Content :: content_value
  InfoForHistory :: "message_info option"
  Msg_Id :: string
  Msg_TrackId :: string
  Timestamp :: "time option"
  MsgType :: WhatsappMessageType
  Chat :: WhatsappChat
  Participant :: "WhatsappChat option"
  Text :: string
  Attachment :: "WhatsappAttachment option"
  FromMe :: bool
  FromInternal :: bool
  FromHistory :: bool
  Edited :: bool
  ForwardingScore :: "32 word"
  InReaction :: bool
  InReply :: string
  Synopsis :: string
  Status :: WhatsappMessageStatus
  MsgUrl :: "WhatsappMessageUrl option"
  Ads :: "WhatsappMessageAds option"
  Msg_Wid :: string
  Info :: "string option"
  Poll :: "WhatsappPoll option"
  Location :: "WhatsappLocation option"
  Contact :: "WhatsappContact option"
  Debug :: "WhatsappMessageDebug option"
  Exceptions :: "string list"

definition empty_chat :: WhatsappChat where
  "empty_chat = \<lparr>Chat_Id = [], LId = [], Phone = [], Title = []\<rparr>"

definition empty_message :: WhatsappMessage where
  "empty_message =
     \<lparr>Content = NoContent, InfoForHistory = None, Msg_Id = [], Msg_TrackId = [], Timestamp = None,
      MsgType = UnhandledMessageType, Chat = empty_chat, Participant = None, Text = [],
      Attachment = None, FromMe = False, FromInternal = False, FromHistory = False, Edited = False,
      ForwardingScore = 0, InReaction = False, InReply = [], Synopsis = [], Status = [],
      MsgUrl = None, Ads = None, Msg_Wid = [], Info = None, Poll = None, Location = None, Contact = None,
      Debug = None, Exceptions = []\<rparr>"

definition unix :: "time option \<Rightarrow> int" where
  "unix t = (case t of None \<Rightarrow> - 62135596800 | Some ns \<Rightarrow> ns div 1000000000)"

text \<open>Time order with the zero time before every other (messages are stamped after year 1).\<close>

fun time_before :: "time option \<Rightarrow> time option \<Rightarrow> bool" where
  "time_before None None = False"
| "time_before None (Some _) = True"
| "time_before (Some _) None = False"
| "time_before (Some a) (Some b) = (a < b)"

text \<open>\<open>WhatsappOrderedMessages.Less\<close>: by time, then by id, bytewise.\<close>

definition MessageLess :: "WhatsappMessage \<Rightarrow> WhatsappMessage \<Rightarrow> bool" where
  "MessageLess a b =
     (if Timestamp a = Timestamp b then Msg_Id a < Msg_Id b else time_before (Timestamp a) (Timestamp b))"

definition GetTimestamp :: "WhatsappMessage \<Rightarrow> 64 word" where
  "GetTimestamp source = word_of_int (unix (Timestamp source))"

definition GetParticipantId :: "WhatsappMessage \<Rightarrow> string" where
  "GetParticipantId source = (case Participant source of None \<Rightarrow> [] | Some p \<Rightarrow> Chat_Id p)"

definition HasStatus :: "WhatsappMessage \<Rightarrow> bool" where
  "HasStatus source \<longleftrightarrow> length (Status source) > 0"

definition HasUrl :: "WhatsappMessage \<Rightarrow> bool" where
  "HasUrl source \<longleftrightarrow> (case MsgUrl source of None \<Rightarrow> False | Some u \<Rightarrow> length (Reference u) > 0)"

definition HasAttachment :: "WhatsappMessage \<Rightarrow> bool" where
  "HasAttachment source \<longleftrightarrow>
     (case Attachment source of None \<Rightarrow> False | Some a \<Rightarrow> length (Mimetype a) > 0)"

definition FromGroup :: "WhatsappMessage \<Rightarrow> bool" where
  "FromGroup source \<longleftrightarrow> HasSuffix (Chat_Id (Chat source)) GROUP_SUFFIX"

definition FromAds :: "WhatsappMessage \<Rightarrow> bool" where
  "FromAds source \<longleftrightarrow> Ads source \<noteq> None"

definition FromBroadcast :: "WhatsappMessage \<Rightarrow> bool" where
  "FromBroadcast source \<longleftrightarrow>
     Chat_Id (Chat source) = ''status'' \<or> Chat_Id (Chat source) = ''status@broadcast'' \<or>
     HasSuffix (Chat_Id (Chat source)) ''@newsletter''"

definition MarkExceptions :: "WhatsappMessage \<Rightarrow> WhatsappMessage" where
  "MarkExceptions source = source\<lparr>Exceptions := Exceptions source @ [''Dispatch error occurred'']\<rparr>"

definition MarkExceptionsWithMessage :: "WhatsappMessage \<Rightarrow> string \<Rightarrow> WhatsappMessage" where
  "MarkExceptionsWithMessage source message = source\<lparr>Exceptions := Exceptions source @ [message]\<rparr>"

definition ClearExceptions :: "WhatsappMessage \<Rightarrow> WhatsappMessage" where
  "ClearExceptions source = source\<lparr>Exceptions := []\<rparr>"

definition HasExceptions :: "WhatsappMessage \<Rightarrow> bool" where
  "HasExceptions source \<longleftrightarrow> length (Exceptions source) > 0"

definition ToMessage :: "string \<Rightarrow> string \<Rightarrow> string \<Rightarrow> endpoint_error + WhatsappMessage" where
  "ToMessage recipient body trackid =
     (case FormatEndpoint recipient of
        Inl err \<Rightarrow> Inl err
      | Inr chatId \<Rightarrow>
          let phone = (case GetPhoneIfValid chatId of Inl _ \<Rightarrow> [] | Inr phone \<Rightarrow> phone);
              msg = empty_message\<lparr>Msg_TrackId := trackid, Text := body,
                Chat := empty_chat\<lparr>Chat_Id := chatId, Phone := phone\<rparr>,
                FromMe := True, FromInternal := True\<rparr>
          in Inr (if length body > 0 then msg\<lparr>MsgType := TextMessageType\<rparr> else msg))"

definition ToWhatsappMessage :: "string \<Rightarrow> string \<Rightarrow> WhatsappAttachment option \<Rightarrow>
    endpoint_error + WhatsappMessage" where
  "ToWhatsappMessage destination body attach =
     (case FormatEndpoint destination of
        Inl err \<Rightarrow> Inl err
      | Inr recipient \<Rightarrow>
          let msg = empty_message\<lparr>FromInternal := True, FromMe := True, MsgType := TextMessageType,
                Text := body, Chat := empty_chat\<lparr>Chat_Id := recipient\<rparr>\<rparr>
          in Inr (case attach of
               None \<Rightarrow> msg
             | Some a \<Rightarrow> msg\<lparr>Attachment := Some a, MsgType := GetMessageType (Some a)\<rparr>))"

section \<open>Statuses and connection states\<close>

lemma EnumIndex_inject [simp]: "EnumIndex s = EnumIndex t \<longleftrightarrow> s = t"
  by (cases s; cases t) simp_all

lemma Uint32_le: "Uint32 s \<le> 4"
  by (simp add: Uint32_def)

lemma Uint32_0_iff:
  "Uint32 s = 0 \<longleftrightarrow> s \<notin> {StatusError, StatusImported, StatusDelivered, StatusRead}"
  by (auto simp: Uint32_def)

instantiation WhatsappConnectionState :: linorder
begin

definition less_eq_WhatsappConnectionState ::
    "WhatsappConnectionState \<Rightarrow> WhatsappConnectionState \<Rightarrow> bool" where
  "s \<le> t \<longleftrightarrow> EnumIndex s \<le> EnumIndex t"

definition less_WhatsappConnectionState ::
    "WhatsappConnectionState \<Rightarrow> WhatsappConnectionState \<Rightarrow> bool" where
  "s < t \<longleftrightarrow> EnumIndex s < EnumIndex t"

instance
proof
  fix x y z :: WhatsappConnectionState
  show "(x < y) = (x \<le> y \<and> \<not> y \<le> x)"
    by (auto simp: less_eq_WhatsappConnectionState_def less_WhatsappConnectionState_def)
  show "x \<le> x" by (simp add: less_eq_WhatsappConnectionState_def)
  show "x \<le> y \<Longrightarrow> y \<le> z \<Longrightarrow> x \<le> z"
    by (simp add: less_eq_WhatsappConnectionState_def)
  show "x \<le> y \<Longrightarrow> y \<le> x \<Longrightarrow> x = y"
    by (simp add: less_eq_WhatsappConnectionState_def)
  show "x \<le> y \<or> y \<le> x" by (auto simp: less_eq_WhatsappConnectionState_def)
qed

end

text \<open>
  A connection state survives its JSON form: writing its name and reading the name back gives
  the state itself, and every text that names no state is read as \<open>Unknown\<close>, never as a state the
  server could act on.
\<close>
theorem state_json_roundtrip:
  "UnmarshalState str = s \<longleftrightarrow>
     str = ConnectionState_String s \<or> (s = Unknown \<and> (\<nexists>t. str = ConnectionState_String t))"
proof -
  have round: "UnmarshalState (ConnectionState_String t) = t" for t
    by (cases t) (simp_all add: UnmarshalState_def ConnectionState_String_def)
  have other: "UnmarshalState str = Unknown" if "\<nexists>t. str = ConnectionState_String t"
  proof -
    have "str \<noteq> ConnectionState_String t" for t using that by blast
    from this [of UnPrepared] this [of UnVerified] this [of Starting] this [of Connecting]
      this [of Stopping] this [of Stopped] this [of Restarting] this [of Reconnecting]
      this [of Connected] this [of Fetching] this [of Ready] this [of Halting]
      this [of Disconnected] this [of Failed]
    show ?thesis by (simp add: UnmarshalState_def ConnectionState_String_def)
  qed
  show ?thesis using round other by metis
qed

section \<open>The order of messages\<close>

lemma time_before_irrefl [simp]: "\<not> time_before a a"
  by (cases a) simp_all

lemma time_before_trans: "time_before a b \<Longrightarrow> time_before b c \<Longrightarrow> time_before a c"
  by (cases a; cases b; cases c) simp_all

lemma time_before_total: "a \<noteq> b \<Longrightarrow> time_before a b \<or> time_before b a"
  by (cases a; cases b) auto

lemma time_before_asym: "time_before a b \<Longrightarrow> \<not> time_before b a"
  by (cases a; cases b) auto

text \<open>
  \<open>WhatsappOrderedMessages.Less\<close> is the strict total order of the pairs (time, id) that
  \<open>sort.Sort\<close> needs: no message is before itself, the order is transitive, and of two messages with
  a different time or a different id exactly one comes first. Messages are then listed in one order
  whatever the order of the map they come from.
\<close>
theorem message_order_strict_total:
  "\<not> MessageLess a a
   \<and> (MessageLess a b \<and> MessageLess b c \<longrightarrow> MessageLess a c)
   \<and> ((Timestamp a, Msg_Id a) \<noteq> (Timestamp b, Msg_Id b) \<longrightarrow> MessageLess a b \<noteq> MessageLess b a)"
  by (auto simp: MessageLess_def split: if_splits
      dest: time_before_trans time_before_asym time_before_total)

theorem message_order_strict_total_witness:
  "MessageLess (empty_message\<lparr>Msg_Id := ''A'', Timestamp := Some 5\<rparr>)
     (empty_message\<lparr>Msg_Id := ''C'', Timestamp := Some 6\<rparr>) \<and>
   \<not> MessageLess (empty_message\<lparr>Msg_Id := ''B'', Timestamp := Some 5\<rparr>)
     (empty_message\<lparr>Msg_Id := ''A'', Timestamp := Some 5\<rparr>)"
proof
  let ?a = "empty_message\<lparr>Msg_Id := ''A'', Timestamp := Some 5\<rparr>"
  let ?b = "empty_message\<lparr>Msg_Id := ''B'', Timestamp := Some 5\<rparr>"
  let ?c = "empty_message\<lparr>Msg_Id := ''C'', Timestamp := Some 6\<rparr>"
  have ab: "MessageLess ?a ?b" and bc: "MessageLess ?b ?c" by code_simp+
  show "MessageLess ?a ?c"
    using message_order_strict_total [of ?a ?b ?c] ab bc by blast
  show "\<not> MessageLess ?b ?a"
    using message_order_strict_total [of ?a ?b ?c] ab by simp
qed

section \<open>Content sniffing\<close>

lemma thumbnail_loop_hit:
  assumes "(k, v) \<in> set entries" "HasPrefix data k"
    and "\<forall>p\<in>set entries. HasPrefix data (fst p) \<longrightarrow> snd p = v"
  shows "GetThumbnailMime_loop entries data = v"
  using assms
  by (induction entries) auto

lemma thumbnail_loop_miss:
  "\<forall>p\<in>set entries. \<not> HasPrefix data (fst p) \<Longrightarrow>
   GetThumbnailMime_loop entries data = ''application/octet-stream''"
  by (induction entries) auto

lemma signatures_prefix_free:
  "\<forall>p\<in>set ContentSignatures. \<forall>q\<in>set ContentSignatures. HasPrefix (fst p) (fst q) \<longrightarrow> p = q"
  by (simp add: ContentSignatures_def HasPrefix_def)

lemma HasPrefix_comparable:
  "HasPrefix s p \<Longrightarrow> HasPrefix s q \<Longrightarrow> HasPrefix p q \<or> HasPrefix q p"
  by (auto simp: HasPrefix_iff append_eq_append_conv2)

lemma thumbnail_order_irrelevant:
  assumes "set entries = set ContentSignatures"
  shows "GetThumbnailMime_loop entries data = GetThumbnailMime data"
proof (cases "\<exists>p\<in>set ContentSignatures. HasPrefix data (fst p)")
  case True
  then obtain k v where kv: "(k, v) \<in> set ContentSignatures" "HasPrefix data k" by auto
  have "p = (k, v)" if "p \<in> set ContentSignatures" "HasPrefix data (fst p)" for p
    using HasPrefix_comparable [OF kv(2) that(2)] signatures_prefix_free that(1) kv(1)
    by (metis fst_conv)
  then have uniq: "\<forall>p\<in>set ContentSignatures. HasPrefix data (fst p) \<longrightarrow> snd p = v" by auto
  have "GetThumbnailMime_loop ContentSignatures data = v"
    using kv uniq by (rule thumbnail_loop_hit)
  moreover have "GetThumbnailMime_loop entries data = v"
    using kv uniq assms by (intro thumbnail_loop_hit) simp_all
  ultimately show ?thesis by (simp add: GetThumbnailMime_def)
next
  case False
  then show ?thesis unfolding GetThumbnailMime_def
    by (simp add: thumbnail_loop_miss assms)
qed

text \<open>
  The mime type sniffed from a thumbnail does not depend on the order in which Go ranges over
  the signature map: the signatures are prefix free, so at most one of them matches. Bytes that
  start with the JPEG marker FF D8 FF give \<open>image/jpg\<close> and a data URL that carries exactly their
  base64 text.
\<close>
theorem thumbnail_sniffing:
  assumes "mset entries = mset ContentSignatures"
  shows "GetThumbnailMime_loop entries data = GetThumbnailMime data
       \<and> snd (GetThumbnailAsUrl (NewWhatsappMessageThumbnail (255 # 216 # 255 # rest))) =
           ''data:image/jpg;base64,/9j/'' @ EncodeToString rest"
proof
  show "GetThumbnailMime_loop entries data = GetThumbnailMime data"
    using assms by (intro thumbnail_order_irrelevant) (metis set_mset_mset)
  have "EncodeToString (255 # 216 # 255 # rest) = ''/9j/'' @ EncodeToString rest"
    by (simp add: b64_char_def b64_alphabet_def)
  then show "snd (GetThumbnailAsUrl (NewWhatsappMessageThumbnail (255 # 216 # 255 # rest))) =
      ''data:image/jpg;base64,/9j/'' @ EncodeToString rest"
    by (simp add: GetThumbnailAsUrl_def NewWhatsappMessageThumbnail_def
        NewWhatsappMessageThumbnailFromBase64_def GetThumbnailUrlPrefix_def GetThumbnailMime_def
        ContentSignatures_def HasPrefix_def)
qed

theorem thumbnail_sniffing_witness:
  "GetThumbnailMime_loop (rev ContentSignatures) ''R0lGODlhAQAB'' = ''image/gif''"
proof -
  have "GetThumbnailMime_loop (rev ContentSignatures) ''R0lGODlhAQAB'' = GetThumbnailMime ''R0lGODlhAQAB''"
    using thumbnail_sniffing [of "rev ContentSignatures" "''R0lGODlhAQAB''" "[]"] by simp
  then show ?thesis by (simp add: GetThumbnailMime_def ContentSignatures_def HasPrefix_def)
qed

end
