(* ===== verification/Attachments.thy ===== *)
theory Attachments
  imports Messages
begin

text \<open>
  What a send request becomes: the recipient check, the message built from the request, and the
  attachment treatment of \<open>src/models/qp_to_whatsapp_attachment.go\<close>, which trusts neither the file
  name nor the declared mime type and compares both with the content. The content sniffer and the
  system mime table of the Go library, the clock and the external media tools are the fields of
  \<open>att_env\<close>; the \<open>Debug\<close> trace of the attachment is not modelled.
\<close>

section \<open>Mime types and extensions\<close>

definition MIMEs :: "(string \<times> string) list" where
  "MIMEs =
     [(''application/vnd.openxmlformats-officedocument.spreadsheetml.sheet'', ''.xlsx''),
      (''application/vnd.openxmlformats-officedocument.wordprocessingml.document'', ''.docx''),
      (''application/zip'', ''.zip''), (''audio/mpeg'', ''.mp3''), (''audio/opus'', ''.opus''),
      (''audio/wave'', ''.wav''), (''audio/wav'', ''.wav''), (''audio/x-wav'', ''.wav''),
      (''image/jpeg'', ''.jpeg''), (''image/webp'', ''.webp''), (''text/csv'', ''.csv''),
      (''text/xml'', ''.xml''), (''text/plain'', ''.txt''), (''video/mp4'', ''.mp4'')]"

record att_env =
  DetectContentType :: "string \<Rightarrow> string"
  ExtensionsByType :: "string \<Rightarrow> string list option"
  TypeByExtension :: "string \<Rightarrow> string"
  NowStamp :: string
  ConvertPNGToJPG :: bool
  UseCompatibleMIMEsAsAudio :: bool
  AreAudioToolsAvailable :: bool
  AudioDuration :: "string \<Rightarrow> int option"
  GenerateWaveform :: "string \<Rightarrow> string \<times> bool"
  ConvertPngToJpg :: "string \<Rightarrow> (string \<times> string) option"

text \<open>\<open>filepath.Ext\<close>: from the last dot of the last path element.\<close>

definition Ext :: "string \<Rightarrow> string" where
  "Ext path =
     (let r = takeWhile (\<lambda>c. c \<noteq> CHR ''.'' \<and> c \<noteq> CHR ''/'') (rev path)
      in if length r < length path \<and> rev path ! length r = CHR ''.'' then CHR ''.'' # rev r else [])"

definition GetMimeTypeFromContent :: "att_env \<Rightarrow> string \<Rightarrow> string" where
  "GetMimeTypeFromContent env content =
     (let mimeType = DetectContentType env content
      in if length mimeType > 0 \<and> mimeType \<noteq> ''application/octet-stream'' \<and> mimeType \<noteq> ''application/zip''
         then mimeType else [])"

text \<open>The reverse lookup ranges over the map, in the order given by \<open>entries\<close>.\<close>

definition GetMimeTypeFromContentAndExtension ::
    "att_env \<Rightarrow> (string \<times> string) list \<Rightarrow> string \<Rightarrow> string \<Rightarrow> string" where
  "GetMimeTypeFromContentAndExtension env entries content filename =
     (let mimeType = DetectContentType env content
      in if length mimeType > 0 \<and> mimeType \<noteq> ''application/octet-stream'' \<and> mimeType \<noteq> ''application/zip''
         then mimeType
         else if length filename > 0 then
           (let extension = Ext filename
            in case find (\<lambda>e. snd e = extension) entries of
                 Some e \<Rightarrow> fst e
               | None \<Rightarrow> (let newMimeType = TypeByExtension env extension
                          in if length newMimeType > 0 then newMimeType else mimeType))
         else mimeType)"

definition normalized_mime :: "string \<Rightarrow> string" where
  "normalized_mime mimeType =
     (let normalized = ToLower mimeType;
          normalized = (if Contains normalized '';'' then SplitByte (CHR '';'') normalized ! 0
                        else normalized)
      in TrimSpace normalized)"

definition TryGetExtensionFromMimeType :: "att_env \<Rightarrow> string \<Rightarrow> string \<times> bool" where
  "TryGetExtensionFromMimeType env mimeType =
     (let normalized = normalized_mime mimeType
      in case map_of MIMEs normalized of
           Some exten \<Rightarrow> (exten, True)
         | None \<Rightarrow>
             (case ExtensionsByType env normalized of
                None \<Rightarrow> ([], False)
              | Some extensions \<Rightarrow>
                  (case extensions of
                     [] \<Rightarrow> ([], False)
                   | exten # _ \<Rightarrow>
                       (if HasPrefix exten ''.'' then exten else CHR ''.'' # exten, True))))"

definition GenerateFileNameFromMimeType :: "att_env \<Rightarrow> string \<Rightarrow> string" where
  "GenerateFileNameFromMimeType env mimeType =
     (let filename = ''file-'' @ NowStamp env;
          extension = fst (TryGetExtensionFromMimeType env mimeType)
      in if length extension > 0 then filename @ extension else filename)"

text \<open>Carriage return and line feed, together or alone, become one space.\<close>

fun replace_crlf :: "string \<Rightarrow> string" where
  "replace_crlf [] = []"
| "replace_crlf [c] = [c]"
| "replace_crlf (a # b # s) =
     (if a = CHR 0x0D \<and> b = CHR 0x0A then CHR '' '' # replace_crlf s else a # replace_crlf (b # s))"

definition replace_byte :: "char \<Rightarrow> char \<Rightarrow> string \<Rightarrow> string" where
  "replace_byte a b s = map (\<lambda>c. if c = a then b else c) s"

definition NormalizeForTitle :: "string \<Rightarrow> string" where
  "NormalizeForTitle source =
     TrimSpace (replace_byte (CHR 0x0A) (CHR '' '')
       (replace_byte (CHR 0x0D) (CHR '' '') (replace_crlf source)))"

definition IsValidExtensionFor :: "string \<Rightarrow> string \<Rightarrow> bool" where
  "IsValidExtensionFor request content \<longleftrightarrow>
     (request, content) \<in>
       {(''.csv'', ''.txt''), (''.jpg'', ''.jpeg''), (''.jpeg'', ''.jpg''), (''.json'', ''.txt''),
        (''.oga'', ''.webm''), (''.oga'', ''.ogx''), (''.opus'', ''.ogx''), (''.ovpn'', ''.txt''),
        (''.pdf'', ''.txt''), (''.sql'', ''.txt''), (''.svg'', ''.xml''), (''.xml'', ''.txt'')} \<or>
     request = content"

definition IsCompatibleWithPTT :: "string \<Rightarrow> bool" where
  "IsCompatibleWithPTT mime \<longleftrightarrow> mimeOnly mime \<in> set WhatsappMIMEAudioPTTCompatible"

definition IsAudioMIMEType :: "string \<Rightarrow> bool" where
  "IsAudioMIMEType mimeType \<longleftrightarrow> HasPrefix (ToLower mimeType) ''audio/''"

definition ShouldConvertImage :: "string \<Rightarrow> string \<Rightarrow> bool" where
  "ShouldConvertImage mimeType filename =
     (let lowerMimeType = ToLower mimeType
      in if lowerMimeType = ''image/png'' then True
         else if HasPrefix lowerMimeType ''audio/'' \<or> HasPrefix lowerMimeType ''video/'' \<or>
                 HasPrefix lowerMimeType ''application/'' \<or> HasPrefix lowerMimeType ''text/''
         then False
         else if filename \<noteq> [] then ToLower (Ext filename) = ''.png''
         else False)"

section \<open>The attachment treatment\<close>

text \<open>
  \<open>AttachSecureAndCustomize\<close> in its three stages: the extension the request asks for, the check of
  it against the content, and the final name and mime type.
\<close>

definition request_extension :: "att_env \<Rightarrow> WhatsappAttachment \<Rightarrow> string \<Rightarrow> string" where
  "request_extension env attach contentMime =
     (if length (FileName attach) > 0 then Ext (ToLower (FileName attach))
      else if length (Mimetype attach) > 0 then fst (TryGetExtensionFromMimeType env (Mimetype attach))
      else if length contentMime > 0 then fst (TryGetExtensionFromMimeType env contentMime)
      else [])"

definition svg_mime :: "string \<Rightarrow> string \<Rightarrow> string" where
  "svg_mime requestExtension contentMime =
     (if HasPrefix contentMime ''text/xml'' \<and> requestExtension = ''.svg'' then ''image/svg+xml''
      else contentMime)"

definition declared_from_content :: "string \<Rightarrow> string \<Rightarrow> WhatsappAttachment \<Rightarrow> WhatsappAttachment" where
  "declared_from_content requestExtension contentMime attach =
     (let attach = (if Mimetype attach = ''application/x-www-form-urlencoded'' \<and>
                       contentMime = ''application/pdf''
                    then attach\<lparr>Mimetype := contentMime\<rparr> else attach)
      in if length (Mimetype attach) = 0
         then attach\<lparr>Mimetype := svg_mime requestExtension contentMime\<rparr> else attach)"

definition secure_against_content ::
    "att_env \<Rightarrow> string \<Rightarrow> string \<Rightarrow> WhatsappAttachment \<Rightarrow> WhatsappAttachment" where
  "secure_against_content env requestExtension contentMime attach =
     (let attach = declared_from_content requestExtension contentMime attach;
          contentMime = svg_mime requestExtension contentMime
      in case TryGetExtensionFromMimeType env contentMime of
           (contentExtension, success) \<Rightarrow>
             if success then
               (if length requestExtension = 0 \<and> length (FileName attach) > 0 then
                  attach\<lparr>Mimetype := contentMime, FileName := FileName attach @ contentExtension\<rparr>
                else if \<not> IsValidExtensionFor requestExtension contentExtension then
                  attach\<lparr>Mimetype := contentMime,
                    FileName := InvalidFilePrefix @ GenerateFileNameFromMimeType env contentMime\<rparr>
                else attach)
             else attach)"

definition AttachSecureAndCustomize :: "att_env \<Rightarrow> WhatsappAttachment \<Rightarrow> WhatsappAttachment" where
  "AttachSecureAndCustomize env attach =
     (let contentMime = (case att_content attach of
                           Some content \<Rightarrow> GetMimeTypeFromContent env content | None \<Rightarrow> []);
          requestExtension = request_extension env attach contentMime;
          attach = (if length contentMime > 0
                    then secure_against_content env requestExtension contentMime attach else attach);
          attach = (if length (FileName attach) = 0
                    then attach\<lparr>FileName := GenerateFileNameFromMimeType env (Mimetype attach)\<rparr>
                    else attach)
      in if HasPrefix (Mimetype attach) ''application/pdf;''
         then attach\<lparr>Mimetype := SplitByte (CHR '';'') (Mimetype attach) ! 0\<rparr> else attach)"

definition AttachImageTreatment :: "att_env \<Rightarrow> WhatsappAttachment \<Rightarrow> WhatsappAttachment" where
  "AttachImageTreatment env attach =
     (if \<not> ConvertPNGToJPG env then attach
      else if \<not> ShouldConvertImage (Mimetype attach) (FileName attach) then attach
      else case att_content attach of
             None \<Rightarrow> attach
           | Some content \<Rightarrow>
               if length content = 0 then attach
               else (case ConvertPngToJpg env content of
                       None \<Rightarrow> attach
                     | Some (jpgData, newMime) \<Rightarrow>
                         let attach = attach\<lparr>att_content := Some jpgData, Mimetype := newMime,
                               FileLength := word_of_nat (length jpgData)\<rparr>
                         in if length (FileName attach) > 0 \<and> HasSuffix (ToLower (FileName attach)) ''.png''
                            then attach\<lparr>FileName :=
                                   take (length (FileName attach) - 4) (FileName attach) @ ''.jpg''\<rparr>
                            else attach))"

text \<open>A nil content makes the audio inspection panic: the outcome \<open>None\<close>.\<close>

definition AttachAudioTreatmentTesting :: "att_env \<Rightarrow> WhatsappAttachment \<Rightarrow> WhatsappAttachment option" where
  "AttachAudioTreatmentTesting env attach =
     (if AreAudioToolsAvailable env then
        (case att_content attach of
           None \<Rightarrow> None
         | Some content \<Rightarrow>
             (case AudioDuration env content of
                None \<Rightarrow> Some attach
              | Some ns \<Rightarrow>
                  let attach = (if ns > 0 \<and> Seconds attach = 0
                                then attach\<lparr>Seconds := word_of_int (ns div 1000000000)\<rparr> else attach)
                  in Some (attach\<lparr>WaveForm := fst (GenerateWaveform env content)\<rparr>)))
      else Some attach)"

definition AttachAudioTreatment :: "att_env \<Rightarrow> WhatsappAttachment \<Rightarrow> WhatsappAttachment option" where
  "AttachAudioTreatment env attach =
     (case (if IsAudioMIMEType (Mimetype attach) then AttachAudioTreatmentTesting env attach
            else Some attach) of
        None \<Rightarrow> None
      | Some attach \<Rightarrow>
          Some (if IsCompatibleWithPTT (Mimetype attach) \<and> UseCompatibleMIMEsAsAudio env \<and>
                   \<not> IsValidAudio attach
                then attach\<lparr>ptt := True\<rparr> else attach))"

section \<open>The send request\<close>

record QpSendRequest =
  Req_Id :: string
  Req_ChatId :: string
  Req_TrackId :: string
  Req_Text :: string
  Req_InReply :: string
  Req_FileName :: string
  Req_FileLength :: "64 word"
  Req_Mimetype :: string
  Req_Seconds :: "32 word"
  Req_Content :: string
  TypingDuration :: int
  MediaType :: string
  Req_Poll :: "WhatsappPoll option"
  Req_Location :: "WhatsappLocation option"
  Req_Contact :: "WhatsappContact option"

datatype chatid_error = ChatIdMissing | BadEndpoint endpoint_error

text \<open>\<open>requested\<close> is the chat id the HTTP request carries in its path, query or headers.\<close>

definition EnsureChatId :: "string \<Rightarrow> QpSendRequest \<Rightarrow> QpSendRequest \<times> chatid_error option" where
  "EnsureChatId requested source =
     (if length (Req_ChatId source) > 0 then (source, None)
      else let source = source\<lparr>Req_ChatId := requested\<rparr>
           in (source, if length (Req_ChatId source) = 0 then Some ChatIdMissing else None))"

definition EnsureValidChatId :: "string \<Rightarrow> QpSendRequest \<Rightarrow> QpSendRequest \<times> chatid_error option" where
  "EnsureValidChatId requested source =
     (case EnsureChatId requested source of
        (source, Some err) \<Rightarrow> (source, Some err)
      | (source, None) \<Rightarrow>
          (case FormatEndpoint (Req_ChatId source) of
             Inl err \<Rightarrow> (source, Some (BadEndpoint err))
           | Inr chatid \<Rightarrow> (source\<lparr>Req_ChatId := chatid\<rparr>, None)))"

definition Request_ToWhatsappMessage :: "QpSendRequest \<Rightarrow> endpoint_error + WhatsappMessage" where
  "Request_ToWhatsappMessage source =
     (case FormatEndpoint (Req_ChatId source) of
        Inl err \<Rightarrow> Inl err
      | Inr chatId \<Rightarrow>
          let phone = (case GetPhoneIfValid chatId of Inl _ \<Rightarrow> [] | Inr phone \<Rightarrow> phone);
              chat = empty_chat\<lparr>Chat_Id := chatId\<rparr>;
              chat = (if length phone > 0 then chat\<lparr>Phone := phone\<rparr> else chat);
              msg = empty_message\<lparr>Msg_Id := ToUpper (Req_Id source), Msg_TrackId := Req_TrackId source,
                InReply := Req_InReply source, Text := Req_Text source, Chat := chat, FromMe := True,
                FromInternal := True, Poll := Req_Poll source\<rparr>
          in Inr (case Req_Contact source of
                Some c \<Rightarrow> msg\<lparr>MsgType := ContactMessageType, Contact := Some c\<rparr>
              | None \<Rightarrow>
                  (case Req_Location source of
                     Some l \<Rightarrow>
                       let msg = msg\<lparr>MsgType := LocationMessageType,
                             Attachment := Some (empty_attachment\<lparr>Latitude := loc_Latitude l,
                               Longitude := loc_Longitude l, Mimetype := ''text/x-uri; location''\<rparr>)\<rparr>
                       in if length (loc_Name l) > 0 then msg\<lparr>Text := loc_Name l\<rparr> else msg
                   | None \<Rightarrow> msg\<lparr>MsgType := TextMessageType\<rparr>)))"

text \<open>The outer option is the panic, the inner one the absent attachment.\<close>

definition ToWhatsappAttachment :: "att_env \<Rightarrow> QpSendRequest \<Rightarrow> WhatsappAttachment option option" where
  "ToWhatsappAttachment env source =
     (if length (Req_Content source) = 0 then Some None
      else
        let attach = empty_attachment\<lparr>Mimetype := Req_Mimetype source,
              FileLength := Req_FileLength source, FileName := Req_FileName source,
              Seconds := Req_Seconds source\<rparr>;
            contentLength = word_of_nat (length (Req_Content source));
            attach = (if FileLength attach \<noteq> contentLength then attach\<lparr>FileLength := contentLength\<rparr>
                      else attach);
            attach = attach\<lparr>att_content := Some (Req_Content source)\<rparr>
        in map_option Some (AttachAudioTreatment env
             (AttachImageTreatment env (AttachSecureAndCustomize env attach))))"

section \<open>Embedded content\<close>

record QpSendAnyRequest = QpSendRequest +
  Any_Url :: string
  Any_Content :: string

text \<open>\<open>base64.StdEncoding.DecodeString\<close>: line breaks are skipped, padding is required.\<close>

definition b64_value :: "char \<Rightarrow> nat option" where
  "b64_value c =
     (let i = length (takeWhile (\<lambda>x. x \<noteq> c) b64_alphabet) in if i < 64 then Some i else None)"

fun decode_quads :: "string \<Rightarrow> nat list option" where
  "decode_quads [] = Some []"
| "decode_quads (a # b # c # d # rest) =
     (case (b64_value a, b64_value b) of
        (Some x, Some y) \<Rightarrow>
          if c = CHR ''='' then
            (if d = CHR ''='' \<and> rest = [] then Some [x * 4 + y div 16] else None)
          else (case b64_value c of
            None \<Rightarrow> None
          | Some z \<Rightarrow>
              if d = CHR ''='' then
                (if rest = [] then Some [x * 4 + y div 16, y mod 16 * 16 + z div 4] else None)
              else (case (b64_value d, decode_quads rest) of
                 (Some w, Some bs) \<Rightarrow>
                   Some ((x * 4 + y div 16) # (y mod 16 * 16 + z div 4) # (z mod 4 * 64 + w) # bs)
               | _ \<Rightarrow> None))
      | _ \<Rightarrow> None)"
| "decode_quads _ = None"

definition DecodeString :: "string \<Rightarrow> nat list option" where
  "DecodeString s = decode_quads (filter (\<lambda>c. c \<noteq> CHR 0x0D \<and> c \<noteq> CHR 0x0A) s)"

definition bytes_of :: "string \<Rightarrow> nat list" where
  "bytes_of s = map of_char s"

definition string_of :: "nat list \<Rightarrow> string" where
  "string_of bs = map char_of bs"

datatype embed_error = InvalidDataURI | CorruptBase64

text \<open>\<open>strings.SplitN(content, ",", 2)\<close> has two parts exactly when there is a comma.\<close>

definition GenerateEmbedContent :: "QpSendAnyRequest \<Rightarrow> QpSendAnyRequest \<times> embed_error option" where
  "GenerateEmbedContent source =
     (let content = Any_Content source;
          is_uri = HasPrefix content ''data:''
      in if is_uri \<and> CHR '','' \<notin> set content then (source, Some InvalidDataURI)
         else
           let header = takeWhile (\<lambda>c. c \<noteq> CHR '','') content;
               mimeType = SplitByte (CHR '';'') (drop 5 header) ! 0;
               source = (if is_uri \<and> HasPrefix header ''data:'' \<and> Contains header '';base64'' \<and>
                            length (Req_Mimetype source) = 0
                         then source\<lparr>Req_Mimetype := mimeType\<rparr> else source);
               content = (if is_uri then tl (dropWhile (\<lambda>c. c \<noteq> CHR '','') content) else content)
           in case DecodeString content of
                None \<Rightarrow> (source, Some CorruptBase64)
              | Some decoded \<Rightarrow>
                  (source\<lparr>Req_Content := string_of decoded,
                     Req_FileLength := word_of_nat (length decoded)\<rparr>, None))"

section \<open>Names and contents\<close>

lemma declared_keeps:
  "ptt (declared_from_content ext m a) = ptt a"
  "att_content (declared_from_content ext m a) = att_content a"
  "FileLength (declared_from_content ext m a) = FileLength a"
  "FileName (declared_from_content ext m a) = FileName a"
  by (simp_all add: declared_from_content_def Let_def)

lemma secure_keeps [simp]:
  "ptt (secure_against_content env ext m a) = ptt a"
  "att_content (secure_against_content env ext m a) = att_content a"
  "FileLength (secure_against_content env ext m a) = FileLength a"
  by (simp_all add: secure_against_content_def Let_def case_prod_unfold declared_keeps)

lemma final_FileName:
  "FileName (AttachSecureAndCustomize env a) =
     (let m = (case att_content a of Some content \<Rightarrow> GetMimeTypeFromContent env content | None \<Rightarrow> []);
          b = (if m = [] then a else secure_against_content env (request_extension env a m) m a)
      in if FileName b = [] then GenerateFileNameFromMimeType env (Mimetype b) else FileName b)"
  by (simp add: AttachSecureAndCustomize_def Let_def)

lemma AttachSecure_keeps [simp]:
  "ptt (AttachSecureAndCustomize env a) = ptt a"
  "att_content (AttachSecureAndCustomize env a) = att_content a"
  "FileLength (AttachSecureAndCustomize env a) = FileLength a"
  by (simp_all add: AttachSecureAndCustomize_def Let_def)

lemma secured_FileName:
  assumes "\<not> HasPrefix m ''text/xml''" "TryGetExtensionFromMimeType env m = (ce, True)"
  shows "FileName (secure_against_content env ext m a) =
     (if ext = [] \<and> FileName a \<noteq> [] then FileName a @ ce
      else if IsValidExtensionFor ext ce then FileName a
      else InvalidFilePrefix @ GenerateFileNameFromMimeType env m)"
  using assms by (auto simp: secure_against_content_def Let_def declared_keeps svg_mime_def)

lemma AttachSecure_named:
  assumes "att_content a = Some c" "GetMimeTypeFromContent env c = m" "m \<noteq> []"
    and "\<not> HasPrefix m ''text/xml''" "TryGetExtensionFromMimeType env m = (ce, True)" "FileName a \<noteq> []"
  shows "FileName (AttachSecureAndCustomize env a) =
      (if Ext (ToLower (FileName a)) = [] then FileName a @ ce
       else if IsValidExtensionFor (Ext (ToLower (FileName a))) ce then FileName a
       else InvalidFilePrefix @ GenerateFileNameFromMimeType env m)"
proof -
  have "request_extension env a m = Ext (ToLower (FileName a))"
    using assms(6) by (simp add: request_extension_def)
  moreover have "InvalidFilePrefix \<noteq> []" by (simp add: InvalidFilePrefix_def)
  ultimately show ?thesis
    using assms by (simp add: final_FileName secured_FileName Let_def)
qed

lemma GetMessageType_invalid:
  "\<not> ptt a \<Longrightarrow> HasPrefix (FileName a) InvalidFilePrefix \<Longrightarrow> GetMessageType (Some a) = DocumentMessageType"
  by (simp add: GetMessageType_def)

text \<open>
  An attachment whose content the sniffer recognises keeps the name the sender gave it only when
  the extension of that name fits the content. A name without extension gets the content's; a name
  with a wrong one is replaced by a generated name marked invalid, and the attachment is then sent as
  a document whatever its declared mime type was.
\<close>
theorem attachment_name_secured:
  assumes "att_content a = Some c" "GetMimeTypeFromContent env c = m" "m \<noteq> []"
    and "\<not> HasPrefix m ''text/xml''" "TryGetExtensionFromMimeType env m = (ce, True)"
    and "FileName a \<noteq> []" "\<not> ptt a" "ext = Ext (ToLower (FileName a))"
  shows "FileName (AttachSecureAndCustomize env a) =
      (if ext = [] then FileName a @ ce
       else if IsValidExtensionFor ext ce then FileName a
       else InvalidFilePrefix @ GenerateFileNameFromMimeType env m)
    \<and> (ext \<noteq> [] \<and> \<not> IsValidExtensionFor ext ce \<longrightarrow>
         GetMessageType (Some (AttachSecureAndCustomize env a)) = DocumentMessageType)"
  using AttachSecure_named [OF assms(1-6)] assms(7,8)
  by (simp add: GetMessageType_invalid)

definition sample_env :: att_env where
  "sample_env = \<lparr>
     DetectContentType = (\<lambda>c. if HasPrefix c ''%PDF-'' then ''application/pdf''
                              else if HasPrefix c ''RIFF'' then ''audio/wave''
                              else ''application/octet-stream''),
     ExtensionsByType = (\<lambda>m. if m = ''application/pdf'' then Some [''.pdf''] else Some []),
     TypeByExtension = (\<lambda>_. []), NowStamp = ''20250101000000'', ConvertPNGToJPG = True,
     UseCompatibleMIMEsAsAudio = True, AreAudioToolsAvailable = True,
     AudioDuration = (\<lambda>_. Some 2000000000), GenerateWaveform = (\<lambda>_. ([], True)),
     ConvertPngToJpg = (\<lambda>_. None)\<rparr>"

theorem attachment_name_secured_witness:
  "FileName (AttachSecureAndCustomize sample_env (empty_attachment\<lparr>att_content := Some ''%PDF-1.7'',
      FileName := ''Photo.JPG'', Mimetype := ''image/jpeg''\<rparr>)) = ''invalid-file-20250101000000.pdf''"
proof -
  let ?a = "empty_attachment\<lparr>att_content := Some ''%PDF-1.7'', FileName := ''Photo.JPG'',
    Mimetype := ''image/jpeg''\<rparr>"
  have "GetMimeTypeFromContent sample_env ''%PDF-1.7'' = ''application/pdf''" by code_simp
  moreover have "TryGetExtensionFromMimeType sample_env ''application/pdf'' = (''.pdf'', True)" by code_simp
  moreover have "\<not> HasPrefix ''application/pdf'' ''text/xml''" by code_simp
  moreover have "att_content ?a = Some ''%PDF-1.7''" "FileName ?a = ''Photo.JPG''" "\<not> ptt ?a"
    by (simp_all add: empty_attachment_def)
  moreover have ext: "Ext (ToLower ''Photo.JPG'') = ''.jpg''" "\<not> IsValidExtensionFor ''.jpg'' ''.pdf''"
    by code_simp+
  ultimately have "FileName (AttachSecureAndCustomize sample_env ?a) =
      InvalidFilePrefix @ GenerateFileNameFromMimeType sample_env ''application/pdf''"
    using attachment_name_secured [of ?a "''%PDF-1.7''" sample_env "''application/pdf''" "''.pdf''" "''.jpg''"]
    by (simp add: ext)
  also have "\<dots> = ''invalid-file-20250101000000.pdf''" by code_simp
  finally show ?thesis .
qed

definition length_matches :: "WhatsappAttachment \<Rightarrow> bool" where
  "length_matches a \<longleftrightarrow>
     (case att_content a of None \<Rightarrow> False | Some c \<Rightarrow> FileLength a = word_of_nat (length c))"

lemma AttachImage_length: "length_matches a \<Longrightarrow> length_matches (AttachImageTreatment env a)"
  by (auto simp: AttachImageTreatment_def length_matches_def Let_def split: option.splits)

lemma AttachAudioTesting_length:
  assumes "length_matches a"
  shows "\<exists>b. AttachAudioTreatmentTesting env a = Some b \<and> length_matches b"
  using assms by (auto simp: AttachAudioTreatmentTesting_def length_matches_def Let_def split: option.splits)

lemma AttachAudio_length:
  assumes "length_matches a"
  shows "\<exists>b. AttachAudioTreatment env a = Some b \<and> length_matches b"
proof -
  obtain b where b: "(if IsAudioMIMEType (Mimetype a) then AttachAudioTreatmentTesting env a else Some a) = Some b"
      "length_matches b"
    using AttachAudioTesting_length [OF assms, of env] assms by (cases "IsAudioMIMEType (Mimetype a)") auto
  then show ?thesis
    by (auto simp: AttachAudioTreatment_def length_matches_def split: option.splits)
qed

text \<open>
  A request never panics on its way to an attachment. A request without content has no
  attachment, and every attachment built from one with content carries a content and the true length
  of it, whatever length the request declared and whatever conversion was applied.
\<close>
theorem attachment_length_true:
  "if Req_Content req = [] then ToWhatsappAttachment env req = Some None
   else (\<exists>a c. ToWhatsappAttachment env req = Some (Some a) \<and> att_content a = Some c \<and>
          FileLength a = word_of_nat (length c))"
proof (cases "Req_Content req = []")
  case True
  then show ?thesis by (simp add: ToWhatsappAttachment_def)
next
  case False
  let ?a = "empty_attachment\<lparr>Mimetype := Req_Mimetype req, FileLength := word_of_nat (length (Req_Content req)),
      FileName := Req_FileName req, Seconds := Req_Seconds req, att_content := Some (Req_Content req)\<rparr>"
  have "length_matches (AttachImageTreatment env (AttachSecureAndCustomize env ?a))"
    by (rule AttachImage_length) (simp add: length_matches_def)
  from AttachAudio_length [OF this, of env]
  obtain b where b: "AttachAudioTreatment env (AttachImageTreatment env (AttachSecureAndCustomize env ?a)) = Some b"
      "length_matches b" by blast
  have "ToWhatsappAttachment env req = Some (Some b)"
    using False b by (simp add: ToWhatsappAttachment_def Let_def empty_attachment_def)
  with b(2) False show ?thesis by (auto simp: length_matches_def split: option.splits)
qed

section \<open>Base64\<close>

lemma b64_value_char:
  "n < 64 \<Longrightarrow> b64_value (b64_char n) = Some n"
proof -
  have d: "distinct b64_alphabet" "length b64_alphabet = 64" by code_simp+
  assume n: "n < 64"
  have "takeWhile (\<lambda>x. x \<noteq> b64_alphabet ! n) b64_alphabet = take n b64_alphabet"
    using d n by (intro takeWhile_eq_take_P_nth) (auto simp: nth_eq_iff_index_eq)
  then show ?thesis using d n by (simp add: b64_value_def b64_char_def)
qed

lemma b64_char_plain:
  assumes "n < 64"
  shows "b64_char n \<noteq> CHR ''=''" "b64_char n \<noteq> CHR 0x0D" "b64_char n \<noteq> CHR 0x0A"
proof -
  have "list_all (\<lambda>c. c \<noteq> CHR ''='' \<and> c \<noteq> CHR 0x0D \<and> c \<noteq> CHR 0x0A) b64_alphabet" "length b64_alphabet = 64"
    by code_simp+
  then show "b64_char n \<noteq> CHR ''=''" "b64_char n \<noteq> CHR 0x0D" "b64_char n \<noteq> CHR 0x0A"
    using assms by (auto simp: b64_char_def list_all_length)
qed

lemma mod4_lt: "(a mod 4 * 16 + b div 16 :: nat) < 64" if "b < 256" for a b :: nat
  using that less_mult_imp_div_less [of b 16 16] by (simp add: less_mult_imp_div_less)

lemma decode_encode: "\<forall>b\<in>set bs. b < 256 \<Longrightarrow> decode_quads (EncodeToString bs) = Some bs"
proof (induction bs rule: EncodeToString.induct)
  case (2 a)
  then show ?case by (simp add: b64_value_char b64_char_plain less_mult_imp_div_less)
next
  case (3 a b)
  then show ?case
    by (simp add: b64_value_char b64_char_plain less_mult_imp_div_less mod4_lt)
next
  case (4 a b c rest)
  have "b mod 16 * 4 + c div 64 < 64" using 4 less_mult_imp_div_less [of c 4 64] by simp
  then show ?case using 4
    by (simp add: b64_value_char b64_char_plain less_mult_imp_div_less mod4_lt)
qed simp

lemma encode_no_break:
  "\<forall>b\<in>set bs. b < 256 \<Longrightarrow> filter (\<lambda>c. c \<noteq> CHR 0x0D \<and> c \<noteq> CHR 0x0A) (EncodeToString bs) = EncodeToString bs"
proof (induction bs rule: EncodeToString.induct)
  case (2 a)
  then show ?case by (simp add: b64_char_plain less_mult_imp_div_less)
next
  case (3 a b)
  then show ?case by (simp add: b64_char_plain less_mult_imp_div_less mod4_lt)
next
  case (4 a b c rest)
  have "b mod 16 * 4 + c div 64 < 64" using 4 less_mult_imp_div_less [of c 4 64] by simp
  then show ?case using 4 by (simp add: b64_char_plain less_mult_imp_div_less mod4_lt)
qed simp

lemma DecodeString_EncodeToString [simp]:
  "\<forall>b\<in>set bs. b < 256 \<Longrightarrow> DecodeString (EncodeToString bs) = Some bs"
  by (simp add: DecodeString_def encode_no_break decode_encode)

lemma string_of_bytes_of [simp]: "string_of (bytes_of s) = s"
  by (simp add: string_of_def bytes_of_def comp_def)

lemma bytes_of_lt: "\<forall>b\<in>set (bytes_of s). b < 256"
  by (simp add: bytes_of_def)

lemma length_bytes_of [simp]: "length (bytes_of s) = length s"
  by (simp add: bytes_of_def)

lemma Contains_base64: "Contains (u @ '';base64'') '';base64''"
  by (auto simp: Contains_iff intro: exI [of _ "[]"])

lemma tl_dropWhile_sep: "c \<notin> set u \<Longrightarrow> tl (dropWhile (\<lambda>x. x \<noteq> c) (u @ c # v)) = v"
  by (induction u) auto

text \<open>
  Content embedded as a data URI is recovered exactly: decoding the base64 text of any bytes gives
  the bytes, their true length, and the mime type of the URI unless the request names its own.
\<close>
theorem data_uri_roundtrip:
  assumes "CHR '','' \<notin> set mime" "CHR '';'' \<notin> set mime"
    and "Any_Content req = ''data:'' @ mime @ '';base64,'' @ EncodeToString (bytes_of content)"
  shows "GenerateEmbedContent req =
     (req\<lparr>Req_Mimetype := (if Req_Mimetype req = [] then mime else Req_Mimetype req),
          Req_Content := content, Req_FileLength := word_of_nat (length content)\<rparr>, None)"
proof -
  let ?h = "''data:'' @ mime @ '';base64''" and ?e = "EncodeToString (bytes_of content)"
  have c: "Any_Content req = ?h @ CHR '','' # ?e" using assms(3) by simp
  have nc: "CHR '','' \<notin> set ?h" using assms(1) by simp
  have pre: "HasPrefix (Any_Content req) ''data:''" "HasPrefix ?h ''data:''"
    unfolding c by (simp_all add: HasPrefix_def)
  have h: "takeWhile (\<lambda>c. c \<noteq> CHR '','') (Any_Content req) = ?h"
    unfolding c using nc by (rule takeWhile_append_sep)
  have d: "tl (dropWhile (\<lambda>c. c \<noteq> CHR '','') (Any_Content req)) = ?e"
    unfolding c using tl_dropWhile_sep [OF nc] .
  have m: "SplitByte (CHR '';'') (drop 5 ?h) ! 0 = mime"
    using assms(2) takeWhile_append_sep [of "CHR '';''" mime "''base64''"] by simp
  have b: "Contains ?h '';base64''"
    using Contains_base64 [of "''data:'' @ mime"] by simp
  have "DecodeString ?e = Some (bytes_of content)" by (simp add: bytes_of_lt)
  moreover have "CHR '','' \<in> set (Any_Content req)" unfolding c by simp
  ultimately show ?thesis
    using pre(1) b pre(2) unfolding GenerateEmbedContent_def Let_def h d m
    by (cases "Req_Mimetype req") simp_all
qed

definition empty_any_request :: QpSendAnyRequest where
  "empty_any_request = \<lparr>Req_Id = [], Req_ChatId = [], Req_TrackId = [], Req_Text = [], Req_InReply = [],
     Req_FileName = [], Req_FileLength = 0, Req_Mimetype = [], Req_Seconds = 0, Req_Content = [],
     TypingDuration = 0, MediaType = [], Req_Poll = None, Req_Location = None, Req_Contact = None,
     Any_Url = [], Any_Content = []\<rparr>"

theorem data_uri_roundtrip_witness:
  "Req_Content (fst (GenerateEmbedContent
     (empty_any_request\<lparr>Any_Content := ''data:text/plain;base64,'' @ EncodeToString (bytes_of ''Hello'')\<rparr>))) = ''Hello''"
  using data_uri_roundtrip [of "''text/plain''" "empty_any_request\<lparr>Any_Content :=
      ''data:text/plain;base64,'' @ EncodeToString (bytes_of ''Hello'')\<rparr>" "''Hello''"]
  by simp

section \<open>Requests and recipients\<close>

text \<open>
  A recipient that passed \<open>EnsureValidChatId\<close> and was not written with a plus is accepted again,
  unchanged, when the message is built: the message carries that chat id, the upper-cased request id
  and the kind the request asks for, a contact before a location before text.
\<close>
theorem checked_request_builds_message:
  assumes "EnsureValidChatId requested req = (req', None)"
    and "\<not> HasPrefix (RemoveByte (CHR '' '') (Req_ChatId (fst (EnsureChatId requested req)))) ''+''"
  shows "\<exists>msg. Request_ToWhatsappMessage req' = Inr msg \<and> Chat_Id (Chat msg) = Req_ChatId req' \<and>
      Msg_Id msg = ToUpper (Req_Id req) \<and> FromMe msg \<and> FromInternal msg \<and>
      MsgType msg = (if Req_Contact req \<noteq> None then ContactMessageType
                     else if Req_Location req \<noteq> None then LocationMessageType else TextMessageType)"
proof -
  obtain r where r: "EnsureChatId requested req = (r, None)"
      "FormatEndpoint (Req_ChatId r) = Inr (Req_ChatId req')" "req' = r\<lparr>Req_ChatId := Req_ChatId req'\<rparr>"
    using assms(1) by (auto simp: EnsureValidChatId_def split: prod.splits option.splits sum.splits)
  have same: "Req_Id r = Req_Id req" "Req_Contact r = Req_Contact req" "Req_Location r = Req_Location req"
    using r(1) by (auto simp: EnsureChatId_def Let_def split: if_splits)
  have again: "FormatEndpoint (Req_ChatId req') = Inr (Req_ChatId req')"
    using FormatEndpoint_checked [OF r(2)] FormatEndpoint_fixed assms(2) r(1) by auto
  have f: "Req_Id req' = Req_Id r" "Req_Contact req' = Req_Contact r" "Req_Location req' = Req_Location r"
    by (subst r(3), simp)+
  show ?thesis
    using again same f
    by (cases "Req_Contact req"; cases "Req_Location req")
       (simp_all add: Request_ToWhatsappMessage_def Let_def empty_message_def empty_chat_def)
qed

definition empty_request :: QpSendRequest where
  "empty_request = QpSendRequest.truncate empty_any_request"

theorem checked_request_builds_message_witness:
  "\<exists>msg. Request_ToWhatsappMessage (empty_request\<lparr>Req_Id := ''abc'',
       Req_ChatId := ''552196760949@s.whatsapp.net''\<rparr>) = Inr msg \<and> Msg_Id msg = ''ABC'' \<and>
     MsgType msg = TextMessageType"
proof -
  let ?r = "empty_request\<lparr>Req_Id := ''abc'', Req_ChatId := ''5521 9676 0949''\<rparr>"
  let ?r' = "empty_request\<lparr>Req_Id := ''abc'', Req_ChatId := ''552196760949@s.whatsapp.net''\<rparr>"
  have e: "EnsureValidChatId [] ?r = (?r', None)" by code_simp
  have p: "\<not> HasPrefix (RemoveByte (CHR '' '') (Req_ChatId (fst (EnsureChatId [] ?r)))) ''+''" by code_simp
  have u: "ToUpper (Req_Id ?r) = ''ABC''" "Req_Contact ?r = None" "Req_Location ?r = None" by code_simp+
  show ?thesis using checked_request_builds_message [OF e p] u by auto
qed

section \<open>The reverse mime table\<close>

lemma find_unique_eq:
  assumes "set xs = set ys" "\<And>p q. p \<in> set ys \<Longrightarrow> q \<in> set ys \<Longrightarrow> P p \<Longrightarrow> P q \<Longrightarrow> p = q"
  shows "find P xs = find P ys"
proof (cases "find P ys")
  case None
  then have "find P xs = None" using assms(1) by (simp add: find_None_iff)
  with None show ?thesis by simp
next
  case (Some y)
  then have y: "y \<in> set ys" "P y" by (auto simp: find_Some_iff)
  then obtain x where x: "find P xs = Some x" using assms(1) find_None_iff [of P xs] by force
  then have "x \<in> set xs" "P x" by (auto simp: find_Some_iff)
  then show ?thesis using assms y x Some by simp
qed

text \<open>
  The type looked up by extension depends on the order in which Go ranges over \<open>MIMEs\<close> for one
  extension only: \<open>.wav\<close> has three types, and any of the three can come first. Every other extension
  gives one answer.
\<close>
theorem mime_by_extension_order:
  assumes "mset entries = mset MIMEs" "Ext filename \<noteq> ''.wav''"
  shows "GetMimeTypeFromContentAndExtension env entries content filename =
           GetMimeTypeFromContentAndExtension env MIMEs content filename
       \<and> {fst e |e. e \<in> set entries \<and> snd e = ''.wav''} = {''audio/wave'', ''audio/wav'', ''audio/x-wav''}"
proof
  have s: "set entries = set MIMEs" using assms(1) by (metis set_mset_mset)
  have one: "\<forall>p\<in>set MIMEs. \<forall>q\<in>set MIMEs. snd p = snd q \<and> snd p \<noteq> ''.wav'' \<longrightarrow> p = q"
    by (simp add: MIMEs_def)
  have "find (\<lambda>e. snd e = x) entries = find (\<lambda>e. snd e = x) MIMEs" if "x \<noteq> ''.wav''" for x
    using that one s by (intro find_unique_eq) metis+
  from this [OF assms(2)]
  show "GetMimeTypeFromContentAndExtension env entries content filename =
      GetMimeTypeFromContentAndExtension env MIMEs content filename"
    by (simp add: GetMimeTypeFromContentAndExtension_def Let_def)
  show "{fst e |e. e \<in> set entries \<and> snd e = ''.wav''} = {''audio/wave'', ''audio/wav'', ''audio/x-wav''}"
    unfolding s by (auto simp: MIMEs_def)
qed

theorem mime_by_extension_order_witness:
  "GetMimeTypeFromContentAndExtension sample_env (rev MIMEs) [] ''clip.mp4'' = ''video/mp4''"
proof -
  have "Ext ''clip.mp4'' \<noteq> ''.wav''" by code_simp
  moreover have "GetMimeTypeFromContentAndExtension sample_env MIMEs [] ''clip.mp4'' = ''video/mp4''"
    by code_simp
  ultimately show ?thesis
    using mime_by_extension_order [of "rev MIMEs" "''clip.mp4''" sample_env "[]"] by simp
qed

end
