(* ===== verification/Cache.thy ===== *)
theory Cache
  imports Messages
begin

text \<open>
  The expiring cache, written twice in the program: \<open>src/models/qp_cache.go\<close>, whose insertion is
  validated against the replaced item, and \<open>src/library/cache.go\<close>, whose insertion reports whether
  the key is new. Both keep an atomic 64-bit counter beside a concurrent map. The map is an
  association list whose order stands for the order in which \<open>sync.Map.Range\<close> visits it; a stable
  sort of every such order gives every result the unstable \<open>sort.Sort\<close> may give.

  \<open>counted_cache\<close> is the contract both share: a finite map with an honest counter.
\<close>

section \<open>The model\<close>

record 'v CacheItem =
  Key :: string
  Value :: 'v
  Expiration :: time

record 'v Cache =
  counter :: "64 word"
  cacheMap :: "(string \<times> 'v CacheItem) list"

definition empty_cache :: "'v Cache" where
  "empty_cache = \<lparr>counter = 0, cacheMap = []\<rparr>"

definition Count :: "'v Cache \<Rightarrow> 64 word" where
  "Count source = counter source"

text \<open>\<open>cacheMap.Swap\<close> and the counter, with the value that was replaced.\<close>

definition SwapItem :: "'v Cache \<Rightarrow> 'v CacheItem \<Rightarrow> 'v Cache \<times> 'v CacheItem option" where
  "SwapItem source item =
     (let previous = map_of (cacheMap source) (Key item);
          source = source\<lparr>cacheMap := AList.update (Key item) item (cacheMap source)\<rparr>
      in case previous of
           Some p \<Rightarrow> (source, Some p)
         | None \<Rightarrow> (source\<lparr>counter := counter source + 1\<rparr>, None))"

text \<open>
  \<open>QpCache.SetCacheItem\<close>; the validation of a replaced item is the argument, given by the message
  store.
\<close>

definition Qp_SetCacheItem ::
    "('v CacheItem \<Rightarrow> string \<Rightarrow> 'v CacheItem \<Rightarrow> bool) \<Rightarrow> 'v Cache \<Rightarrow> 'v CacheItem \<Rightarrow> string \<Rightarrow> 'v Cache \<times> bool" where
  "Qp_SetCacheItem validate source item from =
     (case SwapItem source item of
        (source, Some previous) \<Rightarrow> (source, validate item from previous)
      | (source, None) \<Rightarrow> (source, True))"

definition Lib_SetCacheItem :: "'v Cache \<Rightarrow> 'v CacheItem \<Rightarrow> string \<Rightarrow> 'v Cache \<times> bool" where
  "Lib_SetCacheItem source item from =
     (case SwapItem source item of
        (source, Some _) \<Rightarrow> (source, False)
      | (source, None) \<Rightarrow> (source, True))"

definition Qp_SetAny ::
    "('v CacheItem \<Rightarrow> string \<Rightarrow> 'v CacheItem \<Rightarrow> bool) \<Rightarrow> time \<Rightarrow> 'v Cache \<Rightarrow> string \<Rightarrow> 'v \<Rightarrow> int \<Rightarrow> 'v Cache" where
  "Qp_SetAny validate now source key v expiration =
     fst (Qp_SetCacheItem validate source \<lparr>Key = key, Value = v, Expiration = now + expiration\<rparr> ''any'')"

definition Lib_SetAny :: "time \<Rightarrow> 'v Cache \<Rightarrow> string \<Rightarrow> 'v \<Rightarrow> int \<Rightarrow> 'v Cache" where
  "Lib_SetAny now source key v expiration =
     fst (Lib_SetCacheItem source \<lparr>Key = key, Value = v, Expiration = now + expiration\<rparr> ''any'')"

text \<open>\<open>counter.Add(^uint64(0))\<close> subtracts one modulo 2 to the 64.\<close>

definition DeleteByKey :: "'v Cache \<Rightarrow> string \<Rightarrow> 'v Cache" where
  "DeleteByKey source key =
     (case map_of (cacheMap source) key of
        None \<Rightarrow> source
      | Some _ \<Rightarrow> source\<lparr>cacheMap := AList.delete key (cacheMap source),
                        counter := counter source + not 0\<rparr>)"

definition DeleteItem :: "'v Cache \<Rightarrow> 'v CacheItem \<Rightarrow> 'v Cache" where
  "DeleteItem source item = DeleteByKey source (Key item)"

definition GetAny :: "time \<Rightarrow> 'v Cache \<Rightarrow> string \<Rightarrow> 'v Cache \<times> 'v option" where
  "GetAny now source key =
     (case map_of (cacheMap source) key of
        None \<Rightarrow> (source, None)
      | Some item \<Rightarrow>
          if now < Expiration item then (source, Some (Value item))
          else (DeleteByKey source key, None))"

definition GetSliceOfCachedItems :: "'v Cache \<Rightarrow> 'v CacheItem list" where
  "GetSliceOfCachedItems source = map snd (cacheMap source)"

definition GetOrdered :: "'v Cache \<Rightarrow> 'v CacheItem list" where
  "GetOrdered source = sort_key Expiration (GetSliceOfCachedItems source)"

definition CleanUp :: "'v Cache \<Rightarrow> 64 word \<Rightarrow> 'v Cache" where
  "CleanUp source maxlen =
     (if maxlen > 0 then
        let len = counter source; amount = len - maxlen
        in if amount > 0
           then foldl DeleteByKey source (map Key (take (nat (sint amount)) (GetOrdered source)))
           else source
      else source)"

section \<open>The contract of a counted cache\<close>

text \<open>
  A cache seen through its contents, a partial map from keys to items. The laws are those of a map;
  the last one makes the counter the size of the map.
\<close>

locale counted_cache =
  fixes put :: "'s \<Rightarrow> 'v CacheItem \<Rightarrow> 's"
    and del :: "'s \<Rightarrow> string \<Rightarrow> 's"
    and look :: "'s \<Rightarrow> string \<Rightarrow> 'v CacheItem option"
    and cnt :: "'s \<Rightarrow> 64 word"
    and ok :: "'s \<Rightarrow> bool"
  assumes put_ok: "ok s \<Longrightarrow> ok (put s i)"
    and del_ok: "ok s \<Longrightarrow> ok (del s k)"
    and look_put: "ok s \<Longrightarrow> look (put s i) = (look s)(Key i \<mapsto> i)"
    and look_del: "ok s \<Longrightarrow> look (del s k) = (look s)(k := None)"
    and finite_look: "finite (dom (look s))"
    and cnt_look: "ok s \<Longrightarrow> cnt s = word_of_nat (card (dom (look s)))"
begin

lemma dels_ok: "ok s \<Longrightarrow> ok (foldl del s ks)"
  by (induction ks arbitrary: s) (auto intro: del_ok)

lemma look_dels: "ok s \<Longrightarrow> look (foldl del s ks) = (look s) |` (- set ks)"
proof (induction ks arbitrary: s)
  case (Cons k ks)
  then show ?case by (auto simp: del_ok look_del restrict_map_def fun_eq_iff)
qed (simp add: restrict_map_def)

lemma cnt_dels: "ok s \<Longrightarrow> cnt (foldl del s ks) = word_of_nat (card (dom (look s) - set ks))"
  by (simp add: cnt_look dels_ok look_dels Diff_eq)

lemma put_del_cancel: "ok s \<Longrightarrow> look s (Key i) = None \<Longrightarrow> look (del (put s i) (Key i)) = look s"
  by (simp add: look_put look_del put_ok fun_upd_idem)

lemma del_twice: "ok s \<Longrightarrow> look (del (del s k) k) = look (del s k) \<and> cnt (del (del s k) k) = cnt (del s k)"
  by (simp add: look_del del_ok cnt_look)

lemma put_replaces: "ok s \<Longrightarrow> look s (Key i) \<noteq> None \<Longrightarrow> cnt (put s i) = cnt s"
  by (simp add: cnt_look put_ok look_put insert_absorb domIff)

end

section \<open>Both caches keep the contract\<close>

definition cache_ok :: "'v Cache \<Rightarrow> bool" where
  "cache_ok c \<longleftrightarrow>
     distinct (map fst (cacheMap c)) \<and>
     list_all (\<lambda>(k, i). Key i = k) (cacheMap c) \<and>
     counter c = word_of_nat (length (cacheMap c))"

definition lookup_item :: "'v Cache \<Rightarrow> string \<Rightarrow> 'v CacheItem option" where
  "lookup_item c = map_of (cacheMap c)"

lemma card_dom_map_of: "distinct (map fst m) \<Longrightarrow> card (dom (map_of m)) = length m"
  by (metis distinct_card dom_map_of_conv_image_fst length_map set_map)

lemma not_in_dom: "map_of m k = None \<longleftrightarrow> k \<notin> fst ` set m"
  by (simp add: map_of_eq_None_iff)

lemma SwapItem_ok:
  assumes "cache_ok c"
  shows "cache_ok (fst (SwapItem c i))"
    and "lookup_item (fst (SwapItem c i)) = (lookup_item c)(Key i \<mapsto> i)"
proof -
  have d: "distinct (map fst (cacheMap c))" and k: "\<forall>(k, i)\<in>set (cacheMap c). Key i = k"
    and n: "counter c = word_of_nat (length (cacheMap c))"
    using assms by (auto simp: cache_ok_def list_all_iff)
  show "cache_ok (fst (SwapItem c i))"
    using d k n
    by (auto simp: cache_ok_def SwapItem_def Let_def distinct_update length_update set_update list_all_iff
        not_in_dom split: option.splits dest: map_of_SomeD intro: rev_image_eqI)
  show "lookup_item (fst (SwapItem c i)) = (lookup_item c)(Key i \<mapsto> i)"
    by (simp add: lookup_item_def SwapItem_def Let_def alist_map_of_update split: option.split)
qed

lemma DeleteByKey_ok:
  assumes "cache_ok c"
  shows "cache_ok (DeleteByKey c k)"
    and "lookup_item (DeleteByKey c k) = (lookup_item c)(k := None)"
proof -
  have d: "distinct (map fst (cacheMap c))" and k: "\<forall>(k, i)\<in>set (cacheMap c). Key i = k"
    and n: "counter c = word_of_nat (length (cacheMap c))"
    using assms by (auto simp: cache_ok_def list_all_iff)
  show "cache_ok (DeleteByKey c k)"
  proof (cases "map_of (cacheMap c) k")
    case None
    then show ?thesis using assms by (simp add: DeleteByKey_def)
  next
    case (Some i)
    then have m: "k \<in> fst ` set (cacheMap c)" by (force dest: map_of_SomeD)
    then obtain l where l: "length (cacheMap c) = Suc l" by (cases "cacheMap c") auto
    have "distinct (map fst (AList.delete k (cacheMap c)))"
      using d by (simp add: distinct_delete)
    then show ?thesis
      using Some d k n m l by (auto simp: DeleteByKey_def cache_ok_def length_delete set_delete list_all_iff)
  qed
  show "lookup_item (DeleteByKey c k) = (lookup_item c)(k := None)"
    by (auto simp: lookup_item_def DeleteByKey_def alist_map_of_delete split: option.split)
qed

lemma counter_card: "cache_ok c \<Longrightarrow> counter c = word_of_nat (card (dom (lookup_item c)))"
  by (simp add: cache_ok_def lookup_item_def card_dom_map_of)

lemma finite_lookup_item: "finite (dom (lookup_item c))"
  by (simp add: lookup_item_def finite_dom_map_of)

lemma fst_Qp_SetCacheItem: "fst (Qp_SetCacheItem v c i f) = fst (SwapItem c i)"
  by (auto simp: Qp_SetCacheItem_def split: prod.splits option.splits)

lemma fst_Lib_SetCacheItem: "fst (Lib_SetCacheItem c i f) = fst (SwapItem c i)"
  by (auto simp: Lib_SetCacheItem_def split: prod.splits option.splits)

interpretation qp_cache: counted_cache "\<lambda>c i. fst (Qp_SetCacheItem v c i f)" DeleteByKey lookup_item counter cache_ok
  for v f
  by unfold_locales
     (simp_all add: fst_Qp_SetCacheItem SwapItem_ok DeleteByKey_ok counter_card finite_lookup_item)

interpretation lib_cache: counted_cache "\<lambda>c i. fst (Lib_SetCacheItem c i f)" DeleteByKey lookup_item counter cache_ok
  for f
  by unfold_locales
     (simp_all add: fst_Lib_SetCacheItem SwapItem_ok DeleteByKey_ok counter_card finite_lookup_item)

section \<open>Eviction\<close>

lemma ordered_items:
  assumes "cache_ok c"
  shows "distinct (map Key (GetOrdered c))"
    and "sorted (map Expiration (GetOrdered c))"
    and "length (GetOrdered c) = length (cacheMap c)"
    and "lookup_item c k = Some i \<longleftrightarrow> i \<in> set (GetOrdered c) \<and> Key i = k"
    and "dom (lookup_item c) = Key ` set (GetOrdered c)"
proof -
  have d: "distinct (map fst (cacheMap c))" and k: "\<forall>(k, i)\<in>set (cacheMap c). Key i = k"
    using assms by (auto simp: cache_ok_def list_all_iff)
  have keys: "map Key (map snd (cacheMap c)) = map fst (cacheMap c)"
    using k by auto
  have "mset (map Key (GetOrdered c)) = mset (map fst (cacheMap c))"
    unfolding keys [symmetric]
    by (simp add: GetOrdered_def GetSliceOfCachedItems_def multiset.map_comp)
  then show "distinct (map Key (GetOrdered c))"
    using d by (metis mset_eq_imp_distinct_iff)
  show "sorted (map Expiration (GetOrdered c))" by (simp add: GetOrdered_def)
  show "length (GetOrdered c) = length (cacheMap c)"
    by (simp add: GetOrdered_def GetSliceOfCachedItems_def)
  have set_eq: "set (GetOrdered c) = snd ` set (cacheMap c)"
    by (simp add: GetOrdered_def GetSliceOfCachedItems_def)
  show iff: "lookup_item c k = Some i \<longleftrightarrow> i \<in> set (GetOrdered c) \<and> Key i = k" for k i
    using k d unfolding set_eq lookup_item_def by force
  show "dom (lookup_item c) = Key ` set (GetOrdered c)"
    by (auto simp: dom_def iff)
qed

lemma card_lookup: "cache_ok c \<Longrightarrow> card (dom (lookup_item c)) = length (cacheMap c)"
  by (simp add: cache_ok_def lookup_item_def card_dom_map_of)

lemma CleanUp_amount:
  assumes "cache_ok c" "length (cacheMap c) < 2 ^ 63" "unat maxlen < 2 ^ 63" "0 < maxlen"
  shows "CleanUp c maxlen =
     foldl DeleteByKey c (map Key (take (length (cacheMap c) - unat maxlen) (GetOrdered c)))"
proof -
  let ?n = "length (cacheMap c)"
  have "counter c - maxlen = word_of_nat ?n - word_of_nat (unat maxlen)"
    using assms(1) by (simp add: cache_ok_def)
  then have s: "sint (counter c - maxlen) = int ?n - int (unat maxlen)"
    using sint_of_nat_diff [OF assms(2,3)] by simp
  have "nat (int a - int b) = a - b" for a b by simp
  note this [of ?n "unat maxlen"]
  moreover have "\<not> counter c - maxlen > 0 \<Longrightarrow> ?n = unat maxlen"
    using s by (simp add: word_gt_0) (metis nat_int unat_eq_nat_uint)
  ultimately show ?thesis
    using assms(4) s by (auto simp: CleanUp_def Let_def)
qed

text \<open>
  A clean-up keeps the cache consistent and brings it to the asked length: with no limit nothing
  is removed, otherwise the smaller of the two lengths is left. What is left is unchanged and expires
  no earlier than anything removed.
\<close>
theorem cleanup_keeps_newest:
  assumes "cache_ok c" "length (cacheMap c) < 2 ^ 63" "unat maxlen < 2 ^ 63"
  shows "cache_ok (CleanUp c maxlen)
     \<and> card (dom (lookup_item (CleanUp c maxlen))) =
         (if maxlen = 0 then length (cacheMap c) else min (length (cacheMap c)) (unat maxlen))
     \<and> lookup_item (CleanUp c maxlen) \<subseteq>\<^sub>m lookup_item c
     \<and> (\<forall>k i k' i'. lookup_item (CleanUp c maxlen) k = Some i \<and> lookup_item c k' = Some i' \<and>
          lookup_item (CleanUp c maxlen) k' = None \<longrightarrow> Expiration i' \<le> Expiration i)"
proof (cases "maxlen = 0")
  case True
  then have "CleanUp c maxlen = c" by (simp add: CleanUp_def)
  then show ?thesis using assms(1) True by (auto simp: card_lookup)
next
  case False
  let ?xs = "GetOrdered c" and ?m = "length (cacheMap c) - unat maxlen"
  note o = ordered_items [OF assms(1)]
  have e: "CleanUp c maxlen = foldl DeleteByKey c (map Key (take ?m ?xs))"
    using False assms by (intro CleanUp_amount) (simp_all add: word_gt_0)
  have look: "lookup_item (CleanUp c maxlen) = lookup_item c |` (- Key ` set (take ?m ?xs))"
    unfolding e using lib_cache.look_dels [OF assms(1)] by simp
  have split: "set ?xs = set (take ?m ?xs) \<union> set (drop ?m ?xs)"
    by (metis append_take_drop_id set_append)
  have "distinct (map Key (take ?m ?xs) @ map Key (drop ?m ?xs))"
    using o(1) by (metis append_take_drop_id map_append)
  then have disj: "Key ` set (take ?m ?xs) \<inter> Key ` set (drop ?m ?xs) = {}"
    and dd: "distinct (map Key (drop ?m ?xs))" by auto
  have "dom (lookup_item (CleanUp c maxlen)) = Key ` set (drop ?m ?xs)"
    unfolding look using o(5) split disj by auto
  then have card: "card (dom (lookup_item (CleanUp c maxlen))) = length (cacheMap c) - ?m"
    using distinct_card [OF dd] o(3) by simp
  have ok: "cache_ok (CleanUp c maxlen)"
    unfolding e using lib_cache.dels_ok [OF assms(1)] .
  have srt: "\<forall>x\<in>set (take ?m ?xs). \<forall>y\<in>set (drop ?m ?xs). Expiration x \<le> Expiration y"
    using o(2) by (metis append_take_drop_id map_append sorted_append image_eqI list.set_map)
  have age: "Expiration i' \<le> Expiration i"
    if "lookup_item (CleanUp c maxlen) k = Some i" "lookup_item c k' = Some i'"
      "lookup_item (CleanUp c maxlen) k' = None" for k i k' i'
  proof -
    have "k \<notin> Key ` set (take ?m ?xs)" "i \<in> set ?xs" "Key i = k"
      using that(1) look o(4) by (auto simp: restrict_map_def split: if_splits)
    then have "i \<in> set (drop ?m ?xs)" using split by auto
    moreover have "k' \<in> Key ` set (take ?m ?xs)" "i' \<in> set ?xs" "Key i' = k'"
      using that(2,3) look o(4) [of k' i'] by (auto simp: restrict_map_def split: if_splits)
    then have "i' \<in> set (take ?m ?xs)" using split disj by auto
    ultimately show ?thesis using srt by blast
  qed
  show ?thesis
  proof (intro conjI allI impI)
    show "lookup_item (CleanUp c maxlen) \<subseteq>\<^sub>m lookup_item c"
      unfolding look by (auto simp: map_le_def restrict_map_def)
  qed (use ok card age False in auto)
qed

definition sample_cache :: "nat Cache" where
  "sample_cache =
     Lib_SetAny 5 (Lib_SetAny 9 (Lib_SetAny 7 empty_cache ''A'' 1 10) ''B'' 2 10) ''C'' 3 10"

lemma sample_cache_ok: "cache_ok sample_cache"
  by code_simp

theorem cleanup_keeps_newest_witness:
  "cache_ok (CleanUp sample_cache 2) \<and> card (dom (lookup_item (CleanUp sample_cache 2))) = 2 \<and>
   lookup_item (CleanUp sample_cache 2) ''C'' = None"
proof -
  have n: "length (cacheMap sample_cache) = 3" "lookup_item (CleanUp sample_cache 2) ''C'' = None"
    by code_simp+
  then show ?thesis using cleanup_keeps_newest [OF sample_cache_ok, of 2] by simp
qed

text \<open>
  The subtraction in the clean-up wraps: a limit near the top of the 64-bit range, meant as no
  limit, makes the amount small and positive and empties the cache.
\<close>
theorem cleanup_huge_limit_empties:
  assumes "cache_ok c" "length (cacheMap c) < 2 ^ 62"
  shows "lookup_item (CleanUp c (- 1)) = Map.empty"
proof -
  let ?n = "length (cacheMap c)"
  have "counter c - (- 1) = (word_of_nat (Suc ?n) - word_of_nat 0 :: 64 word)"
    using assms(1) by (simp add: cache_ok_def add.commute)
  then have s: "sint (counter c - (- 1)) = int (Suc ?n)"
    using sint_of_nat_diff [of "Suc ?n" 0] assms(2) by (simp only: of_nat_0) simp
  then have "counter c - (- 1) \<noteq> 0" by auto
  moreover have "take (nat (int (Suc ?n))) (GetOrdered c) = GetOrdered c"
    using ordered_items(3) [OF assms(1)] by simp
  ultimately have "CleanUp c (- 1) = foldl DeleteByKey c (map Key (GetOrdered c))"
    using s by (simp add: CleanUp_def Let_def word_gt_0)
  then have "lookup_item (CleanUp c (- 1)) = lookup_item c |` (- Key ` set (GetOrdered c))"
    using lib_cache.look_dels [OF assms(1)] by simp
  then show ?thesis
    using ordered_items(5) [OF assms(1)] by (auto simp: restrict_map_def fun_eq_iff domIff)
qed

theorem cleanup_huge_limit_empties_witness:
  "lookup_item (CleanUp sample_cache (- 1)) = Map.empty \<and> lookup_item sample_cache ''B'' \<noteq> None"
proof -
  have "length (cacheMap sample_cache) = 3" "lookup_item sample_cache ''B'' \<noteq> None" by code_simp+
  then show ?thesis using cleanup_huge_limit_empties [OF sample_cache_ok] by simp
qed

section \<open>Reading\<close>

text \<open>
  An item that was stored is read back until its expiration and never after it. The read that
  finds it expired also removes it and counts it out, other keys are read as before the insertion,
  and the counter stays the number of entries.
\<close>
theorem cache_get_after_set:
  assumes "cache_ok c" "c' = fst (Qp_SetCacheItem validate c item from)"
  shows "snd (GetAny now c' (Key item)) = (if now < Expiration item then Some (Value item) else None)
     \<and> lookup_item (fst (GetAny now c' (Key item))) (Key item) = (if now < Expiration item then Some item else None)
     \<and> (\<forall>k. k \<noteq> Key item \<longrightarrow> snd (GetAny now c' k) = snd (GetAny now c k))
     \<and> (\<forall>k. cache_ok (fst (GetAny now c' k)))"
proof -
  have ok: "cache_ok c'" and look: "lookup_item c' = (lookup_item c)(Key item \<mapsto> item)"
    using assms qp_cache.put_ok qp_cache.look_put by blast+
  have g: "GetAny now d k = (case lookup_item d k of None \<Rightarrow> (d, None)
      | Some i \<Rightarrow> if now < Expiration i then (d, Some (Value i)) else (DeleteByKey d k, None))"
    for k and d :: "'a Cache"
    by (simp add: GetAny_def lookup_item_def)
  show ?thesis
    using ok look by (auto simp: g qp_cache.del_ok qp_cache.look_del split: option.split)
qed

theorem cache_get_after_set_witness:
  "snd (GetAny 20 (fst (Qp_SetCacheItem (\<lambda>_ _ _. True) sample_cache
       \<lparr>Key = ''D'', Value = 4, Expiration = 30\<rparr> ''x'')) ''D'') = Some 4"
  using cache_get_after_set [OF sample_cache_ok refl, of 20 "\<lambda>_ _ _. True"
      "\<lparr>Key = ''D'', Value = 4, Expiration = 30\<rparr>" "''x''"] by simp

section \<open>Concurrent use\<close>

text \<open>
  Under concurrency the map and the counter change in two atomic steps: a goroutine first swaps or
  deletes in the map, and later adds its one or minus one to the counter. The state carries the
  multiset of the additions still to come.
\<close>

type_synonym 'v cache_sys = "'v Cache \<times> 64 word multiset"

inductive cache_sys_step :: "'v cache_sys \<Rightarrow> 'v cache_sys \<Rightarrow> bool" where
  swap_new: "map_of (cacheMap c) (Key i) = None \<Longrightarrow>
    cache_sys_step (c, P) (c\<lparr>cacheMap := AList.update (Key i) i (cacheMap c)\<rparr>, add_mset 1 P)"
| swap_old: "map_of (cacheMap c) (Key i) = Some p \<Longrightarrow>
    cache_sys_step (c, P) (c\<lparr>cacheMap := AList.update (Key i) i (cacheMap c)\<rparr>, P)"
| load_delete: "map_of (cacheMap c) k = Some p \<Longrightarrow>
    cache_sys_step (c, P) (c\<lparr>cacheMap := AList.delete k (cacheMap c)\<rparr>, add_mset (not 0) P)"
| counter_add: "cache_sys_step (c, add_mset d P) (c\<lparr>counter := counter c + d\<rparr>, P)"

definition pending_ok :: "'v cache_sys \<Rightarrow> bool" where
  "pending_ok s \<longleftrightarrow> (case s of (c, P) \<Rightarrow>
     distinct (map fst (cacheMap c)) \<and>
     counter c + sum_mset P = word_of_nat (length (cacheMap c)))"

inductive_cases cache_sys_stepE: "cache_sys_step s t"

lemma cache_sys_step_pending:
  assumes "cache_sys_step s t" "pending_ok s"
  shows "pending_ok t"
  using assms
proof cases
  case (swap_new c i P)
  then show ?thesis using assms(2)
    by (auto simp: pending_ok_def distinct_update length_update not_in_dom algebra_simps)
next
  case (swap_old c i p P)
  then have "Key i \<in> fst ` set (cacheMap c)" by (force dest: map_of_SomeD)
  then show ?thesis using assms(2) swap_old by (auto simp: pending_ok_def distinct_update length_update)
next
  case (load_delete c k p P)
  then have m: "k \<in> fst ` set (cacheMap c)" by (force dest: map_of_SomeD)
  then obtain l where "length (cacheMap c) = Suc l" by (cases "cacheMap c") auto
  then show ?thesis using assms(2) load_delete m
    by (auto simp: pending_ok_def distinct_delete length_delete algebra_simps)
next
  case (counter_add c d P)
  then show ?thesis using assms(2) by (auto simp: pending_ok_def algebra_simps)
qed

text \<open>
  C24. However the goroutines that use a cache interleave, the counter lags the map by exactly the
  additions still in flight, so once none is in flight it is the number of entries.
\<close>
theorem cache_counter_eventually_exact:
  assumes "cache_sys_step\<^sup>*\<^sup>* (empty_cache, {#}) (c, P)"
  shows "counter c + sum_mset P = word_of_nat (length (cacheMap c))
     \<and> (P = {#} \<longrightarrow> counter c = word_of_nat (length (cacheMap c)))"
proof -
  have "pending_ok (empty_cache, {#})" by (simp add: pending_ok_def empty_cache_def)
  with assms have "pending_ok (c, P)"
    by (induction rule: rtranclp_induct) (auto intro: cache_sys_step_pending)
  then show ?thesis by (auto simp: pending_ok_def)
qed

theorem cache_counter_eventually_exact_witness:
  "counter \<lparr>counter = 0, cacheMap = [(''A'', \<lparr>Key = ''A'', Value = (), Expiration = 3\<rparr>)]\<rparr> + sum_mset {#1#} = (1 :: 64 word)"
proof -
  let ?i = "\<lparr>Key = ''A'', Value = (), Expiration = 3\<rparr>"
  let ?c = "empty_cache\<lparr>cacheMap := AList.update (Key ?i) ?i (cacheMap empty_cache)\<rparr>"
  have "cache_sys_step (empty_cache, {#}) (?c, {#1#})"
    by (rule swap_new) (simp add: empty_cache_def)
  then have "counter ?c + sum_mset {#1#} = word_of_nat (length (cacheMap ?c))"
    using cache_counter_eventually_exact [of ?c "{#1#}"] by blast
  then show ?thesis by (simp add: empty_cache_def)
qed

end
