(* ===== verification/MessageStore.thy ===== *)
theory MessageStore
  imports Cache
begin

text \<open>
  The message store of a server, \<open>src/models/qp_whatsapp_messages.go\<close>: a cache of messages and a
  cache of delivery statuses, both keyed by upper-cased message ids, and the duplicate detection of
  \<open>src/models/qp_cache_fuck_unoapi.go\<close> that decides whether a message stored again is announced again.
  Stored messages are pointers in Go; a write through the pointer that \<open>GetById\<close> returns is a write
  to the cached value. The printed form of a protobuf message is the parameter \<open>wa_string\<close>.
\<close>

section \<open>Duplicate detection\<close>

definition extract_content :: "(wa_message \<Rightarrow> string) \<Rightarrow> wa_message \<Rightarrow> string" where
  "extract_content wa_string nee =
     (case ExtendedTextMessage nee of
        Some e \<Rightarrow> et_Text e
      | None \<Rightarrow> if length (Conversation nee) > 0 then Conversation nee else wa_string nee)"

text \<open>The clone with the delay fields and the message context removed.\<close>

definition drop_delays :: "wa_context_info \<Rightarrow> wa_context_info" where
  "drop_delays ci = ci\<lparr>ConversionDelaySeconds := None, EntryPointConversionDelaySeconds := None\<rparr>"

definition drop_volatile :: "wa_message \<Rightarrow> wa_message" where
  "drop_volatile m =
     m\<lparr>ExtendedTextMessage :=
         map_option (\<lambda>e. e\<lparr>et_ContextInfo := map_option drop_delays (et_ContextInfo e)\<rparr>)
           (ExtendedTextMessage m),
       MessageContextInfo := None\<rparr>"

definition ValidateItemBecauseUNOAPIConflict ::
    "(wa_message \<Rightarrow> string) \<Rightarrow> WhatsappMessage CacheItem \<Rightarrow> string \<Rightarrow> WhatsappMessage CacheItem \<Rightarrow> bool" where
  "ValidateItemBecauseUNOAPIConflict wa_string item from previous =
     (if HasPrefix from ''message'' then
        (case (Content (Value previous), Content (Value item)) of
           (WaMessage prev, WaMessage new) \<Rightarrow>
             if extract_content wa_string prev = extract_content wa_string new then
               (if ExtendedTextMessage prev \<noteq> None \<and> ExtendedTextMessage new \<noteq> None
                then \<not> (drop_volatile prev = drop_volatile new)
                else False)
             else True
         | _ \<Rightarrow> True)
      else True)"

section \<open>The store\<close>

record QpWhatsappMessages =
  messages :: "WhatsappMessage Cache"
  statuses :: "WhatsappMessageStatus Cache"

definition empty_store :: QpWhatsappMessages where
  "empty_store = \<lparr>messages = empty_cache, statuses = empty_cache\<rparr>"

text \<open>
  The run-time surroundings: the clock, the configured number of cache days, and the printer of
  protobuf messages.
\<close>

record store_env =
  env_now :: time
  env_CacheDays :: "64 word"
  env_string :: "wa_message \<Rightarrow> string"

definition hour_ns :: int where "hour_ns = 3600000000000"

definition DEFAULTEXPIRATION :: int where "DEFAULTEXPIRATION = 124 * hour_ns"

text \<open>
  \<open>time.Duration(days*24) * time.Hour\<close> multiplies in 64-bit arithmetic, which the signed reading of
  the wrapped product gives.
\<close>

definition cache_duration :: "64 word \<Rightarrow> int" where
  "cache_duration daysFromEnvironment =
     (if daysFromEnvironment > 0 then sint (daysFromEnvironment * 24 * word_of_int hour_ns)
      else DEFAULTEXPIRATION)"

definition GetCacheExpiration :: "store_env \<Rightarrow> time" where
  "GetCacheExpiration env = env_now env + cache_duration (env_CacheDays env)"

definition Append :: "store_env \<Rightarrow> QpWhatsappMessages \<Rightarrow> WhatsappMessage \<Rightarrow> string \<Rightarrow> QpWhatsappMessages \<times> bool" where
  "Append env source v from =
     (let normalizedId = ToUpper (Msg_Id v);
          item = \<lparr>Key = normalizedId, Value = v, Expiration = GetCacheExpiration env\<rparr>
      in case Qp_SetCacheItem (ValidateItemBecauseUNOAPIConflict (env_string env)) (messages source)
                item (''message-'' @ from) of
           (cache, valid) \<Rightarrow> (source\<lparr>messages := cache\<rparr>, valid))"

definition GetSlice :: "QpWhatsappMessages \<Rightarrow> WhatsappMessage list" where
  "GetSlice source = map Value (GetSliceOfCachedItems (messages source))"

datatype store_error = NotPresent string

definition GetById :: "store_env \<Rightarrow> QpWhatsappMessages \<Rightarrow> string \<Rightarrow>
    QpWhatsappMessages \<times> (store_error + WhatsappMessage)" where
  "GetById env source i =
     (let normalizedId = ToUpper i
      in case GetAny (env_now env) (messages source) normalizedId of
           (cache, None) \<Rightarrow> (source\<lparr>messages := cache\<rparr>, Inl (NotPresent normalizedId))
         | (cache, Some msg) \<Rightarrow> (source\<lparr>messages := cache\<rparr>, Inr msg))"

definition GetByTime :: "QpWhatsappMessages \<Rightarrow> time option \<Rightarrow> WhatsappMessage list" where
  "GetByTime source timestamp = filter (\<lambda>item. time_before timestamp (Timestamp item)) (GetSlice source)"

fun GetLeading_loop :: "time option \<Rightarrow> WhatsappMessage option \<Rightarrow> WhatsappMessage list \<Rightarrow> WhatsappMessage option" where
  "GetLeading_loop now message [] = message"
| "GetLeading_loop now message (item # items) =
     (if Timestamp item \<noteq> None \<and> time_before (Timestamp item) now
      then GetLeading_loop (Timestamp item) (Some item) items
      else GetLeading_loop now message items)"

definition GetLeading :: "store_env \<Rightarrow> QpWhatsappMessages \<Rightarrow> WhatsappMessage option" where
  "GetLeading env source = GetLeading_loop (Some (env_now env)) None (GetSlice source)"

definition GetByPrefix :: "QpWhatsappMessages \<Rightarrow> string \<Rightarrow> WhatsappMessage list" where
  "GetByPrefix source i = filter (\<lambda>item. HasPrefix (Msg_Id item) (ToUpper i)) (GetSlice source)"

definition SetStatusById :: "store_env \<Rightarrow> QpWhatsappMessages \<Rightarrow> string \<Rightarrow> WhatsappMessageStatus \<Rightarrow> QpWhatsappMessages" where
  "SetStatusById env source i status =
     (let normalizedId = ToUpper i;
          item = \<lparr>Key = normalizedId, Value = status, Expiration = GetCacheExpiration env\<rparr>
      in source\<lparr>statuses := fst (Qp_SetCacheItem (\<lambda>_ _ _. True) (statuses source) item ''status'')\<rparr>)"

definition GetStatusById :: "store_env \<Rightarrow> QpWhatsappMessages \<Rightarrow> string \<Rightarrow> QpWhatsappMessages \<times> WhatsappMessageStatus" where
  "GetStatusById env source i =
     (case GetAny (env_now env) (statuses source) (ToUpper i) of
        (cache, Some status) \<Rightarrow> (source\<lparr>statuses := cache\<rparr>, status)
      | (cache, None) \<Rightarrow> (source\<lparr>statuses := cache\<rparr>, []))"

text \<open>A write through the pointer to a cached message.\<close>

definition write_message :: "QpWhatsappMessages \<Rightarrow> string \<Rightarrow> (WhatsappMessage \<Rightarrow> WhatsappMessage) \<Rightarrow> QpWhatsappMessages" where
  "write_message source key f =
     (case map_of (cacheMap (messages source)) key of
        None \<Rightarrow> source
      | Some item \<Rightarrow> source\<lparr>messages := (messages source)\<lparr>cacheMap :=
          AList.update key (item\<lparr>Value := f (Value item)\<rparr>) (cacheMap (messages source))\<rparr>\<rparr>)"

definition MessageStatusUpdate :: "store_env \<Rightarrow> QpWhatsappMessages \<Rightarrow> string \<Rightarrow> WhatsappMessageStatus \<Rightarrow>
    QpWhatsappMessages \<times> bool" where
  "MessageStatusUpdate env source i status =
     (case GetStatusById env source i of
        (source, cached) \<Rightarrow>
          if Uint32 cached < Uint32 status then
            (case GetById env (SetStatusById env source i status) i of
               (source, Inr _) \<Rightarrow> (write_message source (ToUpper i) (\<lambda>msg. msg\<lparr>Status := status\<rparr>), True)
             | (source, Inl _) \<Rightarrow> (source, True))
          else (source, False))"

section \<open>The store invariant\<close>

definition store_ok :: "QpWhatsappMessages \<Rightarrow> bool" where
  "store_ok s \<longleftrightarrow> cache_ok (messages s) \<and> cache_ok (statuses s)"

definition live :: "time \<Rightarrow> 'v Cache \<Rightarrow> string \<Rightarrow> 'v option" where
  "live now c k = (case lookup_item c k of
     None \<Rightarrow> None | Some i \<Rightarrow> if now < Expiration i then Some (Value i) else None)"

lemma GetAny_live:
  assumes "cache_ok c"
  shows "snd (GetAny now c k) = live now c k"
    and "cache_ok (fst (GetAny now c k))"
    and "live now (fst (GetAny now c k)) = live now c"
proof -
  have g: "GetAny now c k = (case lookup_item c k of None \<Rightarrow> (c, None)
      | Some i \<Rightarrow> if now < Expiration i then (c, Some (Value i)) else (DeleteByKey c k, None))"
    by (simp add: GetAny_def lookup_item_def)
  show "snd (GetAny now c k) = live now c k"
    by (simp add: g live_def split: option.split)
  show "cache_ok (fst (GetAny now c k))"
    using assms by (simp add: g qp_cache.del_ok split: option.split)
  show "live now (fst (GetAny now c k)) = live now c"
    using assms by (auto simp: g live_def qp_cache.look_del fun_eq_iff split: option.split)
qed

lemma live_set:
  assumes "cache_ok c"
  shows "live now (fst (Qp_SetCacheItem v c i f)) =
    (live now c)(Key i := if now < Expiration i then Some (Value i) else None)"
  using qp_cache.look_put [OF assms, of v i f] by (auto simp: live_def fun_eq_iff)

lemma write_message_ok:
  assumes "cache_ok (messages s)"
  shows "cache_ok (messages (write_message s k f))" "statuses (write_message s k f) = statuses s"
    and "live now (messages (write_message s k f)) =
      (live now (messages s))(k := map_option f (live now (messages s) k))"
proof -
  show "statuses (write_message s k f) = statuses s"
    by (simp add: write_message_def split: option.split)
  show "live now (messages (write_message s k f)) =
      (live now (messages s))(k := map_option f (live now (messages s) k))"
    by (auto simp: write_message_def live_def lookup_item_def alist_map_of_update fun_eq_iff split: option.split)
  show "cache_ok (messages (write_message s k f))"
  proof (cases "map_of (cacheMap (messages s)) k")
    case (Some i)
    then have "k \<in> fst ` set (cacheMap (messages s))" "Key i = k"
      using assms by (force simp: cache_ok_def list_all_iff dest: map_of_SomeD)+
    then show ?thesis using assms Some
      by (auto simp: write_message_def cache_ok_def distinct_update length_update set_update list_all_iff)
  qed (use assms in \<open>simp add: write_message_def\<close>)
qed

lemma Append_ok: "store_ok s \<Longrightarrow> store_ok (fst (Append env s v from))"
  using qp_cache.put_ok [of "messages s"]
  by (simp add: store_ok_def Append_def Let_def case_prod_unfold)

lemma GetById_spec:
  assumes "store_ok s"
  shows "store_ok (fst (GetById env s i))"
    and "snd (GetById env s i) = (case live (env_now env) (messages s) (ToUpper i) of
           None \<Rightarrow> Inl (NotPresent (ToUpper i)) | Some m \<Rightarrow> Inr m)"
    and "live (env_now env) (messages (fst (GetById env s i))) = live (env_now env) (messages s)"
    and "statuses (fst (GetById env s i)) = statuses s"
  using assms GetAny_live [of "messages s" "env_now env" "ToUpper i"]
  by (auto simp: GetById_def store_ok_def Let_def split: prod.split option.split)

lemma GetStatusById_spec:
  assumes "store_ok s"
  shows "store_ok (fst (GetStatusById env s i))"
    and "snd (GetStatusById env s i) = (case live (env_now env) (statuses s) (ToUpper i) of
           None \<Rightarrow> [] | Some m \<Rightarrow> m)"
    and "live (env_now env) (statuses (fst (GetStatusById env s i))) = live (env_now env) (statuses s)"
    and "messages (fst (GetStatusById env s i)) = messages s"
  using assms GetAny_live [of "statuses s" "env_now env" "ToUpper i"]
  by (auto simp: GetStatusById_def store_ok_def split: prod.split option.split)

lemma SetStatusById_spec:
  assumes "store_ok s"
  shows "store_ok (SetStatusById env s i st)"
    and "live now (statuses (SetStatusById env s i st)) =
      (live now (statuses s))(ToUpper i := if now < GetCacheExpiration env then Some st else None)"
    and "messages (SetStatusById env s i st) = messages s"
  using assms qp_cache.put_ok [of "statuses s"] live_set [of "statuses s"]
  by (simp_all add: store_ok_def SetStatusById_def Let_def)

lemma MessageStatusUpdate_ok:
  assumes "store_ok s"
  shows "store_ok (fst (MessageStatusUpdate env s i st))"
proof -
  let ?s1 = "fst (GetStatusById env s i)"
  let ?s2 = "SetStatusById env ?s1 i st"
  have s1: "store_ok ?s1" using GetStatusById_spec(1) [OF assms] .
  then have s2: "store_ok ?s2" by (rule SetStatusById_spec(1))
  then have s3: "store_ok (fst (GetById env ?s2 i))" by (rule GetById_spec(1))
  then have "store_ok (write_message (fst (GetById env ?s2 i)) k f)" for k f
    using write_message_ok by (simp add: store_ok_def)
  then show ?thesis using s1 s3
    by (auto simp: MessageStatusUpdate_def case_prod_unfold split: sum.split)
qed

lemma MessageStatusUpdate_statuses:
  fixes i :: string and st :: WhatsappMessageStatus
  assumes "store_ok s" "0 < cache_duration (env_CacheDays env)"
  defines "rises \<equiv> Uint32 (snd (GetStatusById env s i)) < Uint32 st"
  shows "snd (MessageStatusUpdate env s i st) = rises"
    and "live (env_now env) (statuses (fst (MessageStatusUpdate env s i st))) =
      (if rises then (live (env_now env) (statuses s))(ToUpper i := Some st) else live (env_now env) (statuses s))"
proof -
  let ?s1 = "fst (GetStatusById env s i)"
  let ?s2 = "SetStatusById env ?s1 i st"
  have now: "env_now env < GetCacheExpiration env" using assms(2) by (simp add: GetCacheExpiration_def)
  note g1 = GetStatusById_spec [OF assms(1), of env i]
  note g2 = SetStatusById_spec [OF g1(1), where env = env and i = i and st = st]
  note g3 = GetById_spec [OF g2(1), of env i]
  have w: "statuses (write_message (fst (GetById env ?s2 i)) k f) = statuses (fst (GetById env ?s2 i))" for k f
    by (simp add: write_message_def split: option.split)
  show "snd (MessageStatusUpdate env s i st) = rises"
    by (auto simp: MessageStatusUpdate_def case_prod_unfold rises_def split: sum.split)
  show "live (env_now env) (statuses (fst (MessageStatusUpdate env s i st))) =
      (if rises then (live (env_now env) (statuses s))(ToUpper i := Some st) else live (env_now env) (statuses s))"
    using now by (auto simp: MessageStatusUpdate_def case_prod_unfold rises_def w g1 g2 g3 split: sum.split)
qed

section \<open>Runs of the store\<close>

datatype store_op =
  OpAppend WhatsappMessage string
| OpGet string
| OpGetStatus string
| OpStatus string WhatsappMessageStatus
| OpCleanUp "64 word"

fun store_step :: "QpWhatsappMessages \<Rightarrow> store_env \<times> store_op \<Rightarrow> QpWhatsappMessages" where
  "store_step s (env, OpAppend m from) = fst (Append env s m from)"
| "store_step s (env, OpGet i) = fst (GetById env s i)"
| "store_step s (env, OpGetStatus i) = fst (GetStatusById env s i)"
| "store_step s (env, OpStatus i st) = fst (MessageStatusUpdate env s i st)"
| "store_step s (env, OpCleanUp n) = s\<lparr>messages := CleanUp (messages s) n\<rparr>"

lemma CleanUp_ok: "cache_ok c \<Longrightarrow> cache_ok (CleanUp c n)"
  by (simp add: CleanUp_def Let_def qp_cache.dels_ok)

lemma store_step_ok: "store_ok s \<Longrightarrow> store_ok (store_step s e)"
proof (cases e)
  case (Pair env operation)
  assume "store_ok s"
  then show ?thesis unfolding Pair
    by (cases operation)
       (simp_all add: Append_ok GetById_spec GetStatusById_spec MessageStatusUpdate_ok,
        simp add: store_ok_def CleanUp_ok)
qed

interpretation store_run: step_invariant store_step store_ok
  by unfold_locales (rule store_step_ok)

text \<open>
  C3. Whatever sequence of stores, reads, status updates and clean-ups a server goes through, at
  whatever times, each of its two caches holds every key once, under the key of its own item, and its
  counter is the number of entries.
\<close>
theorem store_always_consistent:
  "cache_ok (messages (foldl store_step empty_store ops)) \<and>
   cache_ok (statuses (foldl store_step empty_store ops))"
proof -
  have "store_ok empty_store" by (simp add: store_ok_def empty_store_def empty_cache_def cache_ok_def)
  then have "store_ok (foldl store_step empty_store ops)" by (rule store_run.run_inv)
  then show ?thesis by (simp add: store_ok_def)
qed

section \<open>Messages\<close>

lemma Append_spec:
  assumes "store_ok s"
  shows "lookup_item (messages (fst (Append env s m from))) = (lookup_item (messages s))
           (ToUpper (Msg_Id m) \<mapsto> \<lparr>Key = ToUpper (Msg_Id m), Value = m, Expiration = GetCacheExpiration env\<rparr>)"
    and "snd (Append env s m from) = (case lookup_item (messages s) (ToUpper (Msg_Id m)) of
           None \<Rightarrow> True
         | Some p \<Rightarrow> ValidateItemBecauseUNOAPIConflict (env_string env)
             \<lparr>Key = ToUpper (Msg_Id m), Value = m, Expiration = GetCacheExpiration env\<rparr> (''message-'' @ from) p)"
proof -
  let ?v = "ValidateItemBecauseUNOAPIConflict (env_string env)" and ?f = "''message-'' @ from"
  let ?i = "\<lparr>Key = ToUpper (Msg_Id m), Value = m, Expiration = GetCacheExpiration env\<rparr>"
  have ok: "cache_ok (messages s)" using assms by (simp add: store_ok_def)
  show "lookup_item (messages (fst (Append env s m from))) = (lookup_item (messages s))(ToUpper (Msg_Id m) \<mapsto> ?i)"
    using qp_cache.look_put [OF ok, of ?v ?i ?f] by (simp add: Append_def Let_def case_prod_unfold)
  show "snd (Append env s m from) =
    (case lookup_item (messages s) (ToUpper (Msg_Id m)) of None \<Rightarrow> True | Some p \<Rightarrow> ?v ?i ?f p)"
    by (simp add: Append_def Let_def Qp_SetCacheItem_def SwapItem_def lookup_item_def split: option.split)
qed

definition same_delivery :: "(wa_message \<Rightarrow> string) \<Rightarrow> wa_message \<Rightarrow> wa_message \<Rightarrow> bool" where
  "same_delivery wa_string a b \<longleftrightarrow>
     extract_content wa_string a = extract_content wa_string b \<and>
     (ExtendedTextMessage a = None \<or> ExtendedTextMessage b = None \<or> drop_volatile a = drop_volatile b)"

text \<open>
  A message delivered again under the same id, in whatever case, is announced again exactly when
  it is not the same delivery: same text and, for extended texts, the same fields but for the two
  delays and the message context. Announced or not, the newer message is the one stored.
\<close>
theorem duplicate_delivery_denied:
  assumes "store_ok s" "ToUpper (Msg_Id new) = ToUpper (Msg_Id old)"
    and "Content old = WaMessage a" "Content new = WaMessage b"
    and "s' = fst (Append env s old from)"
  shows "snd (Append env' s' new from') = (\<not> same_delivery (env_string env') a b)
     \<and> map_option Value (lookup_item (messages (fst (Append env' s' new from'))) (ToUpper (Msg_Id old))) = Some new"
proof -
  have ok: "store_ok s'" unfolding assms(5) by (rule Append_ok [OF assms(1)])
  have "HasPrefix (''message-'' @ from') ''message''" by (simp add: HasPrefix_def)
  then show ?thesis
    using assms(2-4) Append_spec(1) [OF assms(1), of env old "from"] Append_spec [OF ok, of env' new "from'"]
    unfolding assms(5)
    by (simp add: ValidateItemBecauseUNOAPIConflict_def same_delivery_def)
qed

definition plain_wa :: "string \<Rightarrow> wa_message" where
  "plain_wa t = empty_wa\<lparr>Conversation := t\<rparr>"

definition ad_wa :: "32 word \<Rightarrow> wa_message" where
  "ad_wa delay = empty_wa\<lparr>ExtendedTextMessage := Some \<lparr>et_Text = ''hello'', MatchedText = [], et_Title = [],
     et_Description = [], et_JPEGThumbnail = [], et_ContextInfo = Some \<lparr>ConversionDelaySeconds = Some delay,
       EntryPointConversionDelaySeconds = None, ci_ForwardingScore = 0, StanzaID = [], MentionedJID = [],
       ExternalAdReply = None, ci_Participant = None, QuotedMessage = None, ci_Expiration = None,
       EphemeralSettingTimestamp = None, DisappearingMode = None, ci_other = ''ad''\<rparr>, et_other = []\<rparr>\<rparr>"

definition sample_store_env :: store_env where
  "sample_store_env = \<lparr>env_now = 1000, env_CacheDays = 1, env_string = (\<lambda>m. wa_other m)\<rparr>"

lemma empty_store_ok: "store_ok empty_store"
  by (simp add: store_ok_def empty_store_def empty_cache_def cache_ok_def)

theorem duplicate_delivery_denied_witness:
  "snd (Append sample_store_env (fst (Append sample_store_env empty_store
      (empty_message\<lparr>Msg_Id := ''AB'', Content := WaMessage (ad_wa 5)\<rparr>) ''x''))
      (empty_message\<lparr>Msg_Id := ''ab'', Content := WaMessage (ad_wa 0)\<rparr>) ''y'') = False"
proof -
  let ?o = "empty_message\<lparr>Msg_Id := ''AB'', Content := WaMessage (ad_wa 5)\<rparr>"
  let ?n = "empty_message\<lparr>Msg_Id := ''ab'', Content := WaMessage (ad_wa 0)\<rparr>"
  have "ToUpper (Msg_Id ?n) = ToUpper (Msg_Id ?o)" by code_simp
  moreover have "same_delivery (env_string sample_store_env) (ad_wa 5) (ad_wa 0)"
    by (simp add: same_delivery_def extract_content_def ad_wa_def drop_volatile_def drop_delays_def)
  ultimately show ?thesis
    using duplicate_delivery_denied [OF empty_store_ok, of "?n" "?o" "ad_wa 5" "ad_wa 0" _ sample_store_env "''x''"
        sample_store_env "''y''"] by simp
qed

text \<open>
  A stored message is found by its id in any case until its expiration and by no id after it;
  messages under other ids are found as before. The search by prefix, however, compares the id as the
  message spells it with the upper-cased prefix, so a message whose id starts with a lower-case
  letter is never found by it, not even by its own id.
\<close>
theorem stored_message_found:
  assumes "store_ok s" "s' = fst (Append env s m from)" "ToUpper i = ToUpper (Msg_Id m)"
  shows "snd (GetById env' s' i) =
      (if env_now env' < GetCacheExpiration env then Inr m else Inl (NotPresent (ToUpper i)))
    \<and> (ToUpper j \<noteq> ToUpper i \<longrightarrow> snd (GetById env' s' j) = snd (GetById env' s j))
    \<and> (Msg_Id m \<noteq> [] \<and> upper_char (hd (Msg_Id m)) \<noteq> hd (Msg_Id m) \<longrightarrow> m \<notin> set (GetByPrefix s' (Msg_Id m)))"
proof -
  have ok: "store_ok s'" unfolding assms(2) by (rule Append_ok [OF assms(1)])
  have "\<not> HasPrefix (Msg_Id m) (ToUpper (Msg_Id m))"
    if "Msg_Id m \<noteq> []" "upper_char (hd (Msg_Id m)) \<noteq> hd (Msg_Id m)"
    using that by (cases "Msg_Id m") (auto simp: HasPrefix_def ToUpper_def)
  then show ?thesis
    using Append_spec(1) [OF assms(1), of env m "from"] assms(3)
    unfolding GetById_spec(2) [OF ok] GetById_spec(2) [OF assms(1)] unfolding assms(2)
    by (auto simp: live_def GetByPrefix_def)
qed

theorem stored_message_found_witness:
  "snd (GetById sample_store_env (fst (Append sample_store_env empty_store
     (empty_message\<lparr>Msg_Id := ''ab'', Text := ''hi''\<rparr>) ''x'')) ''Ab'') =
   Inr (empty_message\<lparr>Msg_Id := ''ab'', Text := ''hi''\<rparr>)"
proof -
  let ?m = "empty_message\<lparr>Msg_Id := ''ab'', Text := ''hi''\<rparr>"
  have "ToUpper ''Ab'' = ToUpper (Msg_Id ?m)" by code_simp
  moreover have "env_now sample_store_env < GetCacheExpiration sample_store_env"
    by (simp add: sample_store_env_def GetCacheExpiration_def cache_duration_def hour_ns_def)
  ultimately show ?thesis using stored_message_found [OF empty_store_ok refl, of "''Ab''" "?m"] by simp
qed

section \<open>Statuses\<close>

text \<open>
  A status update takes effect exactly when it outranks the status known for the id (error,
  imported, delivered, read, in that order), so the known rank never falls; when it takes effect the
  cached message shows the new status, and no other id is touched.
\<close>
theorem status_only_rises:
  assumes "store_ok s" "0 < cache_duration (env_CacheDays env)"
    and "(s', upd) = MessageStatusUpdate env s i st" "known = snd (GetStatusById env s i)"
  shows "upd = (Uint32 known < Uint32 st)
    \<and> Uint32 (snd (GetStatusById env s' i)) = max (Uint32 known) (Uint32 st)
    \<and> (upd \<longrightarrow> (\<forall>m. snd (GetById env s' i) = Inr m \<longrightarrow> Status m = st))
    \<and> (ToUpper j \<noteq> ToUpper i \<longrightarrow> snd (GetStatusById env s' j) = snd (GetStatusById env s j) \<and>
         snd (GetById env s' j) = snd (GetById env s j))"
proof -
  let ?n = "env_now env" and ?k = "ToUpper i"
  let ?s1 = "fst (GetStatusById env s i)"
  let ?s2 = "SetStatusById env ?s1 i st"
  let ?s3 = "fst (GetById env ?s2 i)"
  have now: "?n < GetCacheExpiration env" using assms(2) by (simp add: GetCacheExpiration_def)
  note g1 = GetStatusById_spec [OF assms(1), of env i]
  note g2 = SetStatusById_spec [OF g1(1), where env = env and i = i and st = st]
  note g3 = GetById_spec [OF g2(1), of env i]
  have ok': "store_ok s'" using MessageStatusUpdate_ok [OF assms(1), of env i st] assms(3) by (metis fst_conv)
  note r = GetStatusById_spec(2) [OF ok'] GetById_spec(2) [OF ok'] GetStatusById_spec(2) [OF assms(1)]
    GetById_spec(2) [OF assms(1)]
  show ?thesis
  proof (cases "Uint32 known < Uint32 st")
    case False
    then have "s' = ?s1" "\<not> upd"
      using assms(3,4) by (simp_all add: MessageStatusUpdate_def case_prod_unfold)
    moreover note GetStatusById_spec(2) [OF g1(1)] GetById_spec(2) [OF g1(1)]
    ultimately show ?thesis using False assms(4) by (simp add: r(3,4) g1)
  next
    case True
    let ?w = "write_message ?s3 ?k (\<lambda>msg. msg\<lparr>Status := st\<rparr>)"
    have ok3: "cache_ok (messages ?s3)" using g3(1) by (simp add: store_ok_def)
    note w = write_message_ok(2,3) [OF ok3, where k = ?k and f = "\<lambda>msg. msg\<lparr>Status := st\<rparr>"]
    have upd: "upd" and s': "s' = (case snd (GetById env ?s2 i) of Inl _ \<Rightarrow> ?s3 | Inr _ \<Rightarrow> ?w)"
      using assms(3,4) True by (auto simp: MessageStatusUpdate_def case_prod_unfold split: sum.splits)
    have st: "live ?n (statuses s') = (live ?n (statuses s))(?k := Some st)"
      using s' now by (simp add: w g3 g2 g1 split: sum.split option.split)
    have msg: "live ?n (messages s') = (live ?n (messages s))(?k := map_option (\<lambda>msg. msg\<lparr>Status := st\<rparr>) (live ?n (messages s) ?k))"
      using s' by (auto simp: w g3 g2 g1 fun_eq_iff split: sum.splits option.splits)
    show ?thesis
      using True upd assms(4) by (auto simp: r st msg split: option.splits)
  qed
qed

theorem status_only_rises_witness:
  "fst (snd (MessageStatusUpdate sample_store_env empty_store ''a'' StatusRead), ()) = True \<and>
   Uint32 (snd (GetStatusById sample_store_env (fst (MessageStatusUpdate sample_store_env empty_store ''a'' StatusRead)) ''a'')) = 4"
proof -
  have d: "0 < cache_duration (env_CacheDays sample_store_env)"
    by (simp add: sample_store_env_def cache_duration_def hour_ns_def)
  have k: "snd (GetStatusById sample_store_env empty_store ''a'') = []" "Uint32 [] = 0" "Uint32 StatusRead = 4"
    by code_simp+
  show ?thesis
    using status_only_rises [OF empty_store_ok d, of "fst (MessageStatusUpdate sample_store_env empty_store ''a'' StatusRead)"
        "snd (MessageStatusUpdate sample_store_env empty_store ''a'' StatusRead)" "''a''" StatusRead "[]" "''b''"] k
    by simp
qed

section \<open>Expiration\<close>

text \<open>
  The life of a cached item is the configured number of days while that is at most 106751; zero
  means 124 hours. One day more overflows the 64-bit product of nanoseconds, and an item stored with
  it is expired already.
\<close>
theorem cache_days_bounds:
  assumes "unat days \<le> 106751"
  shows "cache_duration days = (if days = 0 then 124 else int (unat days) * 24) * hour_ns
     \<and> cache_duration 106752 < 0"
proof
  show "cache_duration 106752 < 0" by (simp add: cache_duration_def hour_ns_def)
  let ?x = "int (unat days) * 24 * hour_ns"
  have eq: "days * 24 * word_of_int hour_ns = word_of_int ?x"
    by (simp add: wi_hom_mult [symmetric] hour_ns_def)
  have "0 \<le> ?x" "?x < 2 ^ 63" using assms by (simp_all add: hour_ns_def del: of_nat_unat)
  then have "sint (word_of_int ?x :: 64 word) = ?x"
    by (subst sint_sbintrunc') (simp add: signed_take_bit_int_eq_self)
  then have "sint (days * 24 * word_of_int hour_ns) = ?x" by (simp only: eq)
  then show "cache_duration days = (if days = 0 then 124 else int (unat days) * 24) * hour_ns"
    by (simp add: cache_duration_def DEFAULTEXPIRATION_def word_gt_0)
qed

theorem cache_days_bounds_witness: "cache_duration 7 = 168 * hour_ns"
  using cache_days_bounds [of 7] by simp

end
