(* ===== verification/RabbitClient.thy ===== *)
theory RabbitClient
  imports Prelude "HOL-Library.Multiset"
begin

text \<open>
  The RabbitMQ client of \<open>src/rabbitmq\<close>: a connection kept up by a monitor goroutine, a bounded
  in-memory queue for the messages published while it is down, and a cache processor goroutine that
  publishes them later. The broker is third-party code: whether it accepts a call is an argument.
  The first part translates the operations; \<open>rabbit_step\<close> interleaves publishers, monitor and
  processor at the points where the code can be preempted.
\<close>

section \<open>The client\<close>

record 'p RabbitMQMessage =
  rm_ID :: string
  Payload :: 'p
  rm_Timestamp :: int
  Exchange :: string
  RoutingKey :: string

text \<open>A channel is a handle, numbered by the connection it belongs to; \<open>None\<close> is nil.\<close>

record 'p RabbitMQClient =
  connURI :: string
  conn :: "nat option"
  channel :: "nat option"
  messageCache :: "'p RabbitMQMessage list"
  maxCacheSize :: int
  cacheProcessing :: bool
  quepasaSetupDone :: bool

definition DefaultUnlimitedCacheCapacity :: int where "DefaultUnlimitedCacheCapacity = 100000"

text \<open>\<open>make(chan, n)\<close> panics on a negative \<open>n\<close>, the outcome \<open>None\<close>.\<close>

definition NewRabbitMQClient :: "string \<Rightarrow> 64 word \<Rightarrow> 'p RabbitMQClient option" where
  "NewRabbitMQClient uri maxSize =
     (let actualCacheSize = sint maxSize;
          actualCacheSize = (if maxSize = 0 then DefaultUnlimitedCacheCapacity else actualCacheSize)
      in if actualCacheSize < 0 then None
         else Some \<lparr>connURI = uri, conn = None, channel = None, messageCache = [],
           maxCacheSize = actualCacheSize, cacheProcessing = False, quepasaSetupDone = False\<rparr>)"

text \<open>\<open>dialed\<close> is the new connection or the failed dial, \<open>opened\<close> whether a channel opened on it.\<close>

datatype connect_error = DialFailed | ChannelFailed

definition connect :: "nat option \<Rightarrow> bool \<Rightarrow> 'p RabbitMQClient \<Rightarrow> 'p RabbitMQClient \<times> connect_error option" where
  "connect dialed opened r =
     (let r = r\<lparr>conn := dialed\<rparr>
      in case dialed of
           None \<Rightarrow> (r, Some DialFailed)
         | Some c \<Rightarrow>
             let r = r\<lparr>channel := (if opened then Some c else None)\<rparr>
             in if \<not> opened then (r, Some ChannelFailed)
                else (r\<lparr>quepasaSetupDone := False, cacheProcessing := True\<rparr>, None))"

text \<open>What the monitor does when the channel reports its end.\<close>

definition connection_lost :: "'p RabbitMQClient \<Rightarrow> 'p RabbitMQClient" where
  "connection_lost r = r\<lparr>channel := None, conn := None\<rparr>"

definition AddToCache :: "'p RabbitMQClient \<Rightarrow> 'p RabbitMQMessage \<Rightarrow> 'p RabbitMQClient \<times> bool" where
  "AddToCache r msg =
     (if int (length (messageCache r)) < maxCacheSize r
      then (r\<lparr>messageCache := messageCache r @ [msg]\<rparr>, True) else (r, False))"

definition IsConnectionReady :: "'p RabbitMQClient \<Rightarrow> bool" where
  "IsConnectionReady r \<longleftrightarrow> channel r \<noteq> None"

text \<open>What became of a message that was published: the last three are where it ends.\<close>

datatype publish_outcome = Cached | Published | Dropped | Unmarshalable

definition PublishMessageToExchange ::
    "('p \<Rightarrow> bool) \<Rightarrow> bool \<Rightarrow> 'p RabbitMQClient \<Rightarrow> 'p RabbitMQMessage \<Rightarrow> 'p RabbitMQClient \<times> publish_outcome" where
  "PublishMessageToExchange json_ok accepted r msg =
     (case channel r of
        None \<Rightarrow> (case AddToCache r msg of (r, added) \<Rightarrow> (r, if added then Cached else Dropped))
      | Some ch \<Rightarrow>
          if \<not> json_ok (Payload msg) then (r, Unmarshalable)
          else if accepted then (r, Published)
          else (case AddToCache r msg of (r, added) \<Rightarrow> (r, if added then Cached else Dropped)))"

definition QuePasaExchangeName :: string where "QuePasaExchangeName = ''quepasa.exchange''"
definition QuePasaQueueProd :: string where "QuePasaQueueProd = ''quepasa.production''"
definition QuePasaQueueHistory :: string where "QuePasaQueueHistory = ''quepasa.history''"
definition QuePasaQueueEvents :: string where "QuePasaQueueEvents = ''quepasa.other''"
definition QuePasaRoutingKeyProd :: string where "QuePasaRoutingKeyProd = ''prod''"
definition QuePasaRoutingKeyHistory :: string where "QuePasaRoutingKeyHistory = ''history''"
definition QuePasaRoutingKeyEvents :: string where "QuePasaRoutingKeyEvents = ''events''"

lemmas rabbit_names = QuePasaExchangeName_def QuePasaQueueProd_def QuePasaQueueHistory_def
  QuePasaQueueEvents_def QuePasaRoutingKeyProd_def QuePasaRoutingKeyHistory_def QuePasaRoutingKeyEvents_def

definition PublishQuePasaMessage ::
    "nat \<Rightarrow> ('p \<Rightarrow> bool) \<Rightarrow> bool \<Rightarrow> 'p RabbitMQClient \<Rightarrow> string \<Rightarrow> 'p \<Rightarrow> 'p RabbitMQClient \<times> publish_outcome" where
  "PublishQuePasaMessage now json_ok accepted r key content =
     PublishMessageToExchange json_ok accepted r
       \<lparr>rm_ID = ''msg-'' @ decimal now, Payload = content, rm_Timestamp = int now,
        Exchange = QuePasaExchangeName, RoutingKey = key\<rparr>"

section \<open>Exchange and queues\<close>

text \<open>The calls the broker answers, in the order they are made.\<close>

datatype broker_call = ExchangeDeclare string | QueueDeclare string | QueueBind string string string

datatype setup_error = ChannelNotAvailable | BrokerRefused broker_call | NotReadyAfterTimeout

definition quepasa_queues :: "(string \<times> string) list" where
  "quepasa_queues =
     [(QuePasaQueueProd, QuePasaRoutingKeyProd), (QuePasaQueueHistory, QuePasaRoutingKeyHistory),
      (QuePasaQueueEvents, QuePasaRoutingKeyEvents)]"

fun declare_queues :: "(broker_call \<Rightarrow> bool) \<Rightarrow> (string \<times> string) list \<Rightarrow> broker_call list \<times> setup_error option" where
  "declare_queues accepts [] = ([], None)"
| "declare_queues accepts ((queueName, routingKey) # queues) =
     (let d = QueueDeclare queueName; b = QueueBind queueName routingKey QuePasaExchangeName
      in if \<not> accepts d then ([d], Some (BrokerRefused d))
         else if \<not> accepts b then ([d, b], Some (BrokerRefused b))
         else (case declare_queues accepts queues of (calls, err) \<Rightarrow> (d # b # calls, err)))"

text \<open>The queues are ranged over as a Go map: \<open>order\<close> lists them in the order of the iteration.\<close>

definition EnsureExchangeAndQueues ::
    "(broker_call \<Rightarrow> bool) \<Rightarrow> (string \<times> string) list \<Rightarrow> 'p RabbitMQClient \<Rightarrow>
     'p RabbitMQClient \<times> broker_call list \<times> setup_error option" where
  "EnsureExchangeAndQueues accepts order r =
     (if quepasaSetupDone r then (r, [], None)
      else case channel r of
        None \<Rightarrow> (r, [], Some ChannelNotAvailable)
      | Some ch \<Rightarrow>
          let x = ExchangeDeclare QuePasaExchangeName
          in if \<not> accepts x then (r, [x], Some (BrokerRefused x))
             else (case declare_queues accepts order of
                     (calls, Some err) \<Rightarrow> (r, x # calls, Some err)
                   | (calls, None) \<Rightarrow> (r\<lparr>quepasaSetupDone := True\<rparr>, x # calls, None)))"

text \<open>\<open>ready\<close> is the client as \<open>WaitForConnection\<close> finds it connected, or \<open>None\<close> when it times out.\<close>

definition EnsureExchangeAndQueuesWithRetry ::
    "(broker_call \<Rightarrow> bool) \<Rightarrow> (string \<times> string) list \<Rightarrow> 'p RabbitMQClient option \<Rightarrow> 'p RabbitMQClient \<Rightarrow>
     'p RabbitMQClient \<times> broker_call list \<times> setup_error option" where
  "EnsureExchangeAndQueuesWithRetry accepts order ready r =
     (case EnsureExchangeAndQueues accepts order r of
        (r, calls, None) \<Rightarrow> (r, calls, None)
      | (r, calls, Some _) \<Rightarrow>
          (case ready of
             None \<Rightarrow> (r, calls, Some NotReadyAfterTimeout)
           | Some r \<Rightarrow>
               (case EnsureExchangeAndQueues accepts order r of
                  (r, more_calls, err) \<Rightarrow> (r, calls @ more_calls, err))))"

section \<open>The client manager\<close>

text \<open>
  \<open>GetRabbitMQClient\<close> looks the client up under the read lock and, when it is missing, looks again and
  creates it under the write lock. The clients are numbered: the manager holds references.
\<close>

record client_manager =
  clientManager :: "string \<rightharpoonup> nat"
  next_client :: nat
  closed_clients :: "nat list"

definition find_client :: "client_manager \<Rightarrow> string \<Rightarrow> nat option" where
  "find_client m connectionString = (if connectionString = [] then None else clientManager m connectionString)"

definition create_client :: "client_manager \<Rightarrow> string \<Rightarrow> client_manager \<times> nat" where
  "create_client m connectionString =
     (case clientManager m connectionString of
        Some client \<Rightarrow> (m, client)
      | None \<Rightarrow> (m\<lparr>clientManager := (clientManager m)(connectionString \<mapsto> next_client m),
                   next_client := Suc (next_client m)\<rparr>, next_client m))"

definition GetRabbitMQClient :: "client_manager \<Rightarrow> string \<Rightarrow> client_manager \<times> nat option" where
  "GetRabbitMQClient m connectionString =
     (if connectionString = [] then (m, None)
      else case find_client m connectionString of
             Some client \<Rightarrow> (m, Some client)
           | None \<Rightarrow> (case create_client m connectionString of (m, client) \<Rightarrow> (m, Some client)))"

definition CloseRabbitMQClient :: "client_manager \<Rightarrow> string \<Rightarrow> client_manager" where
  "CloseRabbitMQClient m connectionString =
     (case clientManager m connectionString of
        None \<Rightarrow> m
      | Some client \<Rightarrow> m\<lparr>clientManager := (clientManager m)(connectionString := None),
                         closed_clients := client # closed_clients m\<rparr>)"

text \<open>Go lets a map loop delete the entry it visits; \<open>keys\<close> lists the map's keys.\<close>

definition CloseAllRabbitMQClients :: "client_manager \<Rightarrow> string list \<Rightarrow> client_manager" where
  "CloseAllRabbitMQClients m keys = foldl CloseRabbitMQClient m keys"

section \<open>Publishers, monitor and processor\<close>

text \<open>
  The state beside the client: whether the monitor still runs, whether \<open>Close\<close> closed the stop
  channel, and where the processor is: inside a pass over the cache, with a message taken from it
  (\<open>inflight\<close>), with the channel \<open>GetChannel\<close> returned (\<open>held\<close>), or finished. The last four fields
  account for every message.
\<close>

record 'p rabbit_sys =
  client :: "'p RabbitMQClient"
  monitor_running :: bool
  stop_closed :: bool
  in_pass :: bool
  inflight :: "'p RabbitMQMessage option"
  held :: "nat option"
  processor_done :: bool
  submitted :: "'p RabbitMQMessage multiset"
  sent :: "'p RabbitMQMessage multiset"
  dropped :: "'p RabbitMQMessage multiset"
  rejected :: "'p RabbitMQMessage multiset"

definition rabbit_init :: "'p RabbitMQClient \<Rightarrow> 'p rabbit_sys" where
  "rabbit_init r = \<lparr>client = r, monitor_running = True, stop_closed = False, in_pass = False,
     inflight = None, held = None, processor_done = False, submitted = {#}, sent = {#}, dropped = {#},
     rejected = {#}\<rparr>"

definition account :: "'p RabbitMQMessage \<Rightarrow> publish_outcome \<Rightarrow> 'p rabbit_sys \<Rightarrow> 'p rabbit_sys" where
  "account msg out s = (case out of
     Cached \<Rightarrow> s
   | Published \<Rightarrow> s\<lparr>sent := add_mset msg (sent s)\<rparr>
   | Dropped \<Rightarrow> s\<lparr>dropped := add_mset msg (dropped s)\<rparr>
   | Unmarshalable \<Rightarrow> s\<lparr>rejected := add_mset msg (rejected s)\<rparr>)"

text \<open>\<open>processCache\<close> takes a message out; one that does not marshal is skipped by \<open>continue\<close>.\<close>

definition process_take :: "('p \<Rightarrow> bool) \<Rightarrow> 'p RabbitMQMessage \<Rightarrow> 'p RabbitMQMessage list \<Rightarrow> 'p rabbit_sys \<Rightarrow> 'p rabbit_sys" where
  "process_take json_ok m ms s =
     (let s = s\<lparr>client := (client s)\<lparr>messageCache := ms\<rparr>\<rparr>
      in if json_ok (Payload m) then s\<lparr>inflight := Some m\<rparr> else account m Unmarshalable s)"

text \<open>The publication of the taken message; a refused one is put back at the end or dropped.\<close>

definition process_publish :: "bool \<Rightarrow> 'p RabbitMQMessage \<Rightarrow> 'p rabbit_sys \<Rightarrow> 'p rabbit_sys" where
  "process_publish accepted m s =
     (let s = s\<lparr>inflight := None, held := None\<rparr>
      in if accepted then (account m Published s)\<lparr>in_pass := messageCache (client s) \<noteq> []\<rparr>
         else (case AddToCache (client s) m of
                 (r, added) \<Rightarrow> (account m (if added then Cached else Dropped) s)\<lparr>client := r, in_pass := False\<rparr>))"

inductive rabbit_step :: "('p \<Rightarrow> bool) \<Rightarrow> 'p rabbit_sys \<Rightarrow> 'p rabbit_sys \<Rightarrow> bool" for json_ok where
  try_connect: "monitor_running s \<Longrightarrow> channel (client s) = None \<Longrightarrow>
    connect dialed opened (client s) = (r, err) \<Longrightarrow> rabbit_step json_ok s (s\<lparr>client := r\<rparr>)"
| lose: "monitor_running s \<Longrightarrow> channel (client s) \<noteq> None \<Longrightarrow>
    rabbit_step json_ok s (s\<lparr>client := connection_lost (client s)\<rparr>)"
| monitor_exit: "monitor_running s \<Longrightarrow> stop_closed s \<Longrightarrow> rabbit_step json_ok s (s\<lparr>monitor_running := False\<rparr>)"
| publish: "PublishMessageToExchange json_ok accepted (client s) msg = (r, out) \<Longrightarrow>
    rabbit_step json_ok s (account msg out (s\<lparr>client := r, submitted := add_mset msg (submitted s)\<rparr>))"
| declare_step: "EnsureExchangeAndQueues accepts order (client s) = (r, calls, err) \<Longrightarrow>
    rabbit_step json_ok s (s\<lparr>client := r\<rparr>)"
| pass_start: "cacheProcessing (client s) \<Longrightarrow> \<not> processor_done s \<Longrightarrow> \<not> in_pass s \<Longrightarrow>
    channel (client s) \<noteq> None \<Longrightarrow> rabbit_step json_ok s (s\<lparr>in_pass := True\<rparr>)"
| take: "in_pass s \<Longrightarrow> inflight s = None \<Longrightarrow> messageCache (client s) = m # ms \<Longrightarrow>
    rabbit_step json_ok s (process_take json_ok m ms s)"
| pass_empty: "in_pass s \<Longrightarrow> inflight s = None \<Longrightarrow> messageCache (client s) = [] \<Longrightarrow>
    rabbit_step json_ok s (s\<lparr>in_pass := False\<rparr>)"
| get_channel: "inflight s = Some m \<Longrightarrow> held s = None \<Longrightarrow> channel (client s) = Some c \<Longrightarrow>
    rabbit_step json_ok s (s\<lparr>held := Some c\<rparr>)"
| process: "inflight s = Some m \<Longrightarrow> held s = Some c \<Longrightarrow> rabbit_step json_ok s (process_publish accepted m s)"
| close: "rabbit_step json_ok s (s\<lparr>stop_closed := True\<rparr>)"
| processor_exit: "cacheProcessing (client s) \<Longrightarrow> stop_closed s \<Longrightarrow> \<not> in_pass s \<Longrightarrow>
    rabbit_step json_ok s (s\<lparr>processor_done := True\<rparr>)"

inductive_cases rabbit_stepE: "rabbit_step json_ok s t"

subsection \<open>Conservation of messages\<close>

definition accounted :: "'p rabbit_sys \<Rightarrow> bool" where
  "accounted s \<longleftrightarrow>
     submitted s = sent s + dropped s + rejected s + mset (messageCache (client s)) +
       (case inflight s of None \<Rightarrow> {#} | Some m \<Rightarrow> {#m#})"

definition bounded_cache :: "'p rabbit_sys \<Rightarrow> bool" where
  "bounded_cache s \<longleftrightarrow> int (length (messageCache (client s))) \<le> maxCacheSize (client s)"

definition drops_when_full :: "'p rabbit_sys \<Rightarrow> bool" where
  "drops_when_full s \<longleftrightarrow> (dropped s \<noteq> {#} \<longrightarrow> maxCacheSize (client s) < int (size (submitted s)))"

definition rabbit_inv :: "'p rabbit_sys \<Rightarrow> bool" where
  "rabbit_inv s \<longleftrightarrow> accounted s \<and> bounded_cache s \<and> drops_when_full s"

lemmas rabbit_inv_defs = rabbit_inv_def accounted_def bounded_cache_def drops_when_full_def

lemma connect_keeps:
  "connect dialed opened r = (r', err) \<Longrightarrow> messageCache r' = messageCache r \<and> maxCacheSize r' = maxCacheSize r"
  by (auto simp: connect_def Let_def split: option.splits if_splits)

lemma setup_keeps:
  "EnsureExchangeAndQueues accepts order r = (r', calls, err) \<Longrightarrow>
   messageCache r' = messageCache r \<and> maxCacheSize r' = maxCacheSize r \<and> channel r' = channel r \<and>
   cacheProcessing r' = cacheProcessing r"
  by (auto simp: EnsureExchangeAndQueues_def Let_def split: option.splits if_splits prod.splits)

lemma publish_keeps:
  assumes "PublishMessageToExchange json_ok accepted r msg = (r', out)"
  shows "maxCacheSize r' = maxCacheSize r \<and> channel r' = channel r \<and> cacheProcessing r' = cacheProcessing r \<and>
    messageCache r' = messageCache r @ (if out = Cached then [msg] else []) \<and>
    (out = Cached \<longrightarrow> int (length (messageCache r)) < maxCacheSize r) \<and>
    (out = Dropped \<longrightarrow> maxCacheSize r \<le> int (length (messageCache r)))"
  using assms by (auto simp: PublishMessageToExchange_def AddToCache_def split: option.splits if_splits)

lemma rabbit_publish_inv:
  assumes "rabbit_inv s" "PublishMessageToExchange json_ok accepted (client s) msg = (r, out)"
  shows "rabbit_inv (account msg out (s\<lparr>client := r, submitted := add_mset msg (submitted s)\<rparr>))"
  using assms(1) publish_keeps [OF assms(2)]
  by (cases out) (auto simp: rabbit_inv_defs account_def split: option.splits)

lemma rabbit_process_inv:
  assumes "rabbit_inv s" "inflight s = Some m"
  shows "rabbit_inv (process_publish accepted m s)"
  using assms
  by (auto simp: rabbit_inv_defs process_publish_def account_def AddToCache_def Let_def)

lemma rabbit_step_inv:
  assumes "rabbit_step json_ok s t" "rabbit_inv s"
  shows "rabbit_inv t"
  using assms
proof cases
  case (try_connect dialed opened r err)
  then show ?thesis using assms(2) connect_keeps by (fastforce simp: rabbit_inv_defs)
next
  case (declare_step accepts order r calls err)
  then show ?thesis using assms(2) setup_keeps by (fastforce simp: rabbit_inv_defs)
next
  case (publish accepted msg r out)
  then show ?thesis using rabbit_publish_inv [OF assms(2)] by simp
next
  case (process m c accepted)
  then show ?thesis using rabbit_process_inv [OF assms(2)] by simp
next
  case (take m ms)
  then show ?thesis using assms(2)
    by (auto simp: rabbit_inv_defs process_take_def account_def Let_def)
qed (use assms(2) in \<open>auto simp: rabbit_inv_defs connection_lost_def\<close>)

text \<open>
  C4. No message disappears unaccounted for: however publishers, connection losses, reconnections and
  the cache processor interleave, the messages handed to the client are those the broker accepted,
  those that cannot be written as JSON, those still cached or in flight, and those dropped. The cache
  never exceeds its capacity, and nothing is dropped unless more messages were handed over than the
  cache can hold.
\<close>
theorem rabbit_no_silent_loss:
  assumes "NewRabbitMQClient uri n = Some r" "(rabbit_step json_ok)\<^sup>*\<^sup>* (rabbit_init r) s"
  shows "submitted s = sent s + dropped s + rejected s + mset (messageCache (client s)) +
      (case inflight s of None \<Rightarrow> {#} | Some m \<Rightarrow> {#m#})
    \<and> int (length (messageCache (client s))) \<le> maxCacheSize (client s)
    \<and> (dropped s \<noteq> {#} \<longrightarrow> maxCacheSize (client s) < int (size (submitted s)))"
proof -
  have "rabbit_inv (rabbit_init r)"
    using assms(1) by (auto simp: rabbit_inv_defs rabbit_init_def NewRabbitMQClient_def Let_def split: if_splits)
  with assms(2) have "rabbit_inv s"
    by (induction rule: rtranclp_induct) (auto intro: rabbit_step_inv)
  then show ?thesis unfolding rabbit_inv_defs by blast
qed

definition sample_client :: "nat RabbitMQClient" where
  "sample_client = \<lparr>connURI = ''amqp'', conn = None, channel = None, messageCache = [],
     maxCacheSize = 100000, cacheProcessing = False, quepasaSetupDone = False\<rparr>"

definition sample_message :: "nat RabbitMQMessage" where
  "sample_message = \<lparr>rm_ID = ''msg-1'', Payload = 7, rm_Timestamp = 1, Exchange = QuePasaExchangeName,
     RoutingKey = QuePasaRoutingKeyProd\<rparr>"

lemma sample_client_new: "NewRabbitMQClient ''amqp'' 0 = Some sample_client"
  by (simp add: NewRabbitMQClient_def DefaultUnlimitedCacheCapacity_def sample_client_def)

definition sample_sys :: "nat rabbit_sys" where
  "sample_sys = (rabbit_init sample_client)\<lparr>client := sample_client\<lparr>messageCache := [sample_message]\<rparr>,
     submitted := {#sample_message#}\<rparr>"

lemma sample_sys_reached: "(rabbit_step (\<lambda>_. True))\<^sup>*\<^sup>* (rabbit_init sample_client) sample_sys"
proof -
  have "PublishMessageToExchange (\<lambda>_. True) False (client (rabbit_init sample_client)) sample_message =
      (sample_client\<lparr>messageCache := [sample_message]\<rparr>, Cached)"
    by (simp add: PublishMessageToExchange_def AddToCache_def sample_client_def rabbit_init_def)
  from rabbit_step.publish [OF this]
  show ?thesis by (simp add: account_def sample_sys_def rabbit_init_def r_into_rtranclp)
qed

theorem rabbit_no_silent_loss_witness:
  "submitted sample_sys = mset (messageCache (client sample_sys)) \<and> dropped sample_sys = {#}"
  using rabbit_no_silent_loss [OF sample_client_new sample_sys_reached]
  by (simp add: sample_sys_def rabbit_init_def)

subsection \<open>Closing\<close>

definition processor_stuck :: "'p RabbitMQMessage \<Rightarrow> 'p rabbit_sys \<Rightarrow> bool" where
  "processor_stuck m s \<longleftrightarrow>
     \<not> monitor_running s \<and> stop_closed s \<and> in_pass s \<and> inflight s = Some m \<and> held s = None \<and>
     channel (client s) = None \<and> \<not> processor_done s"

lemma processor_stuck_step:
  assumes "rabbit_step json_ok s t" "processor_stuck m s"
  shows "processor_stuck m t"
  using assms
proof cases
  case (publish accepted msg r out)
  then show ?thesis using assms(2) publish_keeps [OF publish(2)]
    by (cases out) (auto simp: processor_stuck_def account_def)
next
  case (declare_step accepts order r calls err)
  then show ?thesis using assms(2) setup_keeps [OF declare_step(2)] by (auto simp: processor_stuck_def)
qed (use assms(2) in \<open>auto simp: processor_stuck_def\<close>)

text \<open>
  \<open>Close\<close> can wait for ever. The cache processor asks \<open>GetChannel\<close> for a channel without looking
  at the stop signal; when the connection was lost while it held a message and the monitor has stopped,
  no channel ever comes, the processor never finishes and the \<open>WaitGroup\<close> of \<open>Close\<close> is never released.
\<close>
theorem rabbit_close_can_hang:
  assumes "processor_stuck m s" "(rabbit_step json_ok)\<^sup>*\<^sup>* s t"
  shows "\<not> processor_done t \<and> inflight t = Some m \<and> channel (client t) = None"
proof -
  from assms(2,1) have "processor_stuck m t"
    by (induction rule: rtranclp_induct) (auto intro: processor_stuck_step)
  then show ?thesis by (simp add: processor_stuck_def)
qed

definition stuck_sys :: "nat rabbit_sys" where
  "stuck_sys = sample_sys\<lparr>client := sample_client\<lparr>cacheProcessing := True\<rparr>, monitor_running := False,
     stop_closed := True, in_pass := True, inflight := Some sample_message\<rparr>"

lemma stuck_sys_reached: "(rabbit_step (\<lambda>_. True))\<^sup>*\<^sup>* (rabbit_init sample_client) stuck_sys"
proof -
  let ?R = "rabbit_step (\<lambda>_. True) :: nat rabbit_sys \<Rightarrow> _"
  let ?up = "sample_client\<lparr>messageCache := [sample_message], conn := Some 1, channel := Some 1,
    cacheProcessing := True\<rparr>"
  define s1 where "s1 = sample_sys\<lparr>client := ?up\<rparr>"
  define s2 where "s2 = s1\<lparr>in_pass := True\<rparr>"
  define s3 where "s3 = process_take (\<lambda>_. True) sample_message [] s2"
  define s4 where "s4 = s3\<lparr>client := connection_lost (client s3)\<rparr>"
  define s5 where "s5 = s4\<lparr>stop_closed := True\<rparr>"
  define s6 where "s6 = s5\<lparr>monitor_running := False\<rparr>"
  note defs = s1_def s2_def s3_def s4_def s5_def s6_def process_take_def connection_lost_def
    sample_sys_def rabbit_init_def sample_client_def
  have "connect (Some 1) True (client sample_sys) = (?up, None)"
    by (simp add: defs connect_def)
  from rabbit_step.try_connect [OF _ _ this] have 1: "?R sample_sys s1"
    unfolding s1_def by (simp add: sample_sys_def rabbit_init_def sample_client_def)
  have 2: "?R s1 s2" unfolding s2_def by (rule rabbit_step.pass_start) (simp_all add: defs)
  have 3: "?R s2 s3" unfolding s3_def by (rule rabbit_step.take) (simp_all add: defs)
  have 4: "?R s3 s4" unfolding s4_def by (rule rabbit_step.lose) (simp_all add: defs)
  have 5: "?R s4 s5" unfolding s5_def by (rule rabbit_step.close)
  have 6: "?R s5 s6" unfolding s6_def by (rule rabbit_step.monitor_exit) (simp_all add: defs)
  have "s6 = stuck_sys" by (simp add: defs stuck_sys_def)
  moreover note step = rtranclp.rtrancl_into_rtrancl
  note step [OF step [OF step [OF step [OF step [OF step [OF sample_sys_reached 1] 2] 3] 4] 5] 6]
  ultimately show ?thesis by simp
qed

theorem rabbit_close_can_hang_witness:
  "(rabbit_step (\<lambda>_. True))\<^sup>*\<^sup>* (rabbit_init sample_client) stuck_sys \<and>
   \<not> (\<exists>t. (rabbit_step (\<lambda>_. True))\<^sup>*\<^sup>* stuck_sys t \<and> processor_done t)"
proof -
  have "processor_stuck sample_message stuck_sys"
    by (simp add: processor_stuck_def stuck_sys_def sample_sys_def rabbit_init_def sample_client_def)
  then show ?thesis using rabbit_close_can_hang stuck_sys_reached by blast
qed

section \<open>Setup\<close>

lemma declare_queues_calls:
  "declare_queues accepts qs = (calls, None) \<Longrightarrow>
   set calls = (\<Union>p\<in>set qs. {QueueDeclare (fst p), QueueBind (fst p) (snd p) QuePasaExchangeName})"
proof (induction qs arbitrary: calls)
  case (Cons q qs)
  obtain a b where q: "q = (a, b)" by force
  with Cons.prems obtain more_calls where "declare_queues accepts qs = (more_calls, None)"
      "calls = QueueDeclare a # QueueBind a b QuePasaExchangeName # more_calls"
    by (auto simp: Let_def split: if_splits prod.splits)
  with Cons.IH q show ?case by simp
qed simp

lemma declare_queues_accepted:
  "declare_queues accepts qs = (calls, None) \<Longrightarrow> c \<in> set calls \<Longrightarrow> accepts c"
  by (induction qs arbitrary: calls) (auto simp: Let_def split: if_splits prod.splits)

text \<open>
  Setting up the exchange reports success only once the broker has accepted the exchange and, for
  each of the three queues, its declaration and its binding to its own routing key, in whatever order
  Go ranges over the queues. It is then not repeated on that connection, and is repeated after the next
  successful connect.
\<close>
theorem setup_complete_once:
  assumes "set order = set quepasa_queues" "\<not> quepasaSetupDone r"
    and "EnsureExchangeAndQueues accepts order r = (r', calls, None)"
  shows "set calls = {ExchangeDeclare QuePasaExchangeName} \<union>
      {QueueDeclare QuePasaQueueProd, QueueBind QuePasaQueueProd QuePasaRoutingKeyProd QuePasaExchangeName,
       QueueDeclare QuePasaQueueHistory, QueueBind QuePasaQueueHistory QuePasaRoutingKeyHistory QuePasaExchangeName,
       QueueDeclare QuePasaQueueEvents, QueueBind QuePasaQueueEvents QuePasaRoutingKeyEvents QuePasaExchangeName}
    \<and> list_all accepts calls
    \<and> EnsureExchangeAndQueues accepts' order' r' = (r', [], None)
    \<and> \<not> quepasaSetupDone (fst (connect (Some c) True r'))"
proof -
  obtain qcalls where q: "declare_queues accepts order = (qcalls, None)"
      "calls = ExchangeDeclare QuePasaExchangeName # qcalls" "accepts (ExchangeDeclare QuePasaExchangeName)"
      "r' = r\<lparr>quepasaSetupDone := True\<rparr>"
    using assms(2,3) by (auto simp: EnsureExchangeAndQueues_def Let_def split: option.splits if_splits prod.splits)
  have "set qcalls =
      (\<Union>p\<in>set quepasa_queues. {QueueDeclare (fst p), QueueBind (fst p) (snd p) QuePasaExchangeName})"
    using declare_queues_calls [OF q(1)] assms(1) by simp
  then show ?thesis
    using q declare_queues_accepted [OF q(1)]
    by (auto simp: quepasa_queues_def list_all_iff EnsureExchangeAndQueues_def connect_def Let_def)
qed

theorem setup_complete_once_witness:
  "QueueBind QuePasaQueueEvents QuePasaRoutingKeyEvents QuePasaExchangeName \<in>
     set (fst (snd (EnsureExchangeAndQueues (\<lambda>_. True) (rev quepasa_queues) (sample_client\<lparr>channel := Some 1\<rparr>))))"
proof -
  let ?r = "sample_client\<lparr>channel := Some 1\<rparr>"
  have nd: "\<not> quepasaSetupDone ?r" by (simp add: sample_client_def)
  have e: "EnsureExchangeAndQueues (\<lambda>_. True) (rev quepasa_queues) ?r =
      (fst (EnsureExchangeAndQueues (\<lambda>_. True) (rev quepasa_queues) ?r),
       fst (snd (EnsureExchangeAndQueues (\<lambda>_. True) (rev quepasa_queues) ?r)), None)"
    by (simp add: EnsureExchangeAndQueues_def sample_client_def quepasa_queues_def Let_def)
  show ?thesis using setup_complete_once [OF _ nd e] by simp
qed

section \<open>One client per connection string\<close>

definition manager_ok :: "client_manager \<Rightarrow> bool" where
  "manager_ok m \<longleftrightarrow> inj_on (clientManager m) (dom (clientManager m)) \<and>
     (\<forall>k c. clientManager m k = Some c \<longrightarrow> c < next_client m) \<and> clientManager m [] = None"

lemma create_client_ok:
  assumes "manager_ok m" "k \<noteq> []"
  shows "manager_ok (fst (create_client m k))"
    and "clientManager (fst (create_client m k)) k = Some (snd (create_client m k))"
proof -
  have fresh: "clientManager m y \<noteq> Some (next_client m)" for y
    using assms(1) by (auto simp: manager_ok_def)
  show "manager_ok (fst (create_client m k))"
    and "clientManager (fst (create_client m k)) k = Some (snd (create_client m k))"
    using assms fresh
    by (auto simp: manager_ok_def create_client_def inj_on_def dom_def less_Suc_eq split: option.split)
qed

text \<open>
  Two goroutines that both miss the client in the read-locked lookup end up with the same one: the
  second looks again under the write lock. Clients of different connection strings are different, and a
  client that was closed is not handed out again.
\<close>
theorem one_client_per_connection:
  assumes "manager_ok m" "k \<noteq> []" "find_client m k = None"
    and "create_client m k = (m1, c1)" "create_client m1 k = (m2, c2)"
  shows "c2 = c1 \<and> m2 = m1 \<and> GetRabbitMQClient m2 k = (m2, Some c1)
    \<and> (\<forall>k'. k' \<noteq> k \<longrightarrow> clientManager m2 k' \<noteq> Some c1)
    \<and> snd (GetRabbitMQClient (CloseRabbitMQClient m2 k) k) \<noteq> Some c1"
proof -
  have none: "clientManager m k = None" using assms(2,3) by (simp add: find_client_def)
  then have m1: "m1 = m\<lparr>clientManager := (clientManager m)(k \<mapsto> next_client m), next_client := Suc (next_client m)\<rparr>"
    and c1: "c1 = next_client m" using assms(4) by (auto simp: create_client_def)
  have m2: "m2 = m1" "c2 = c1" using assms(5) m1 c1 by (auto simp: create_client_def)
  have "clientManager m k' \<noteq> Some (next_client m)" for k'
    using assms(1) by (auto simp: manager_ok_def)
  then show ?thesis
    unfolding m2 unfolding m1 c1 using assms(2)
    by (auto simp: GetRabbitMQClient_def find_client_def create_client_def CloseRabbitMQClient_def)
qed

theorem one_client_per_connection_witness:
  "\<exists>m. GetRabbitMQClient m ''amqp://a'' = (m, Some 0)"
proof -
  let ?m = "\<lparr>clientManager = Map.empty, next_client = 0, closed_clients = []\<rparr>"
  let ?m1 = "\<lparr>clientManager = [''amqp://a'' \<mapsto> 0], next_client = 1, closed_clients = []\<rparr>"
  have "manager_ok ?m" by (simp add: manager_ok_def)
  moreover have "find_client ?m ''amqp://a'' = None" "create_client ?m ''amqp://a'' = (?m1, 0)"
    "create_client ?m1 ''amqp://a'' = (?m1, 0)" by (simp_all add: find_client_def create_client_def)
  ultimately show ?thesis
    using one_client_per_connection [of ?m "''amqp://a''" ?m1 0 ?m1 0] by auto
qed

end
