(* ===== verification/Dispatching.thy ===== *)
theory Dispatching
  imports WhatsappOptions Messages RabbitClient
begin

text \<open>
  Deliveries to remote systems: the dispatching record of \<open>src/models/qp_dispatching.go\<close> and the
  older \<open>qp_webhook.go\<close> and \<open>qp_rabbitmq_config.go\<close>, the delivery by webhook and by RabbitMQ with
  their success and failure marks, and the distribution of a message over the dispatchings of a
  server in \<open>qp_whatsapp_server_extensions.go\<close>. The HTTP exchange is an argument (\<open>http_result\<close>); the
  RabbitMQ side is the client of the theory \<open>RabbitClient\<close>, whose broker and waits are the fields of
  \<open>rabbit_oracle\<close>.
\<close>

section \<open>The dispatching record\<close>

definition DispatchingTypeWebhook :: string where "DispatchingTypeWebhook = ''webhook''"
definition DispatchingTypeRabbitMQ :: string where "DispatchingTypeRabbitMQ = ''rabbitmq''"

lemmas dispatching_types = DispatchingTypeWebhook_def DispatchingTypeRabbitMQ_def

record QpDispatching = WhatsappOptions +
  ConnectionString :: string
  DType :: string
  ForwardInternal :: bool
  TrackId :: string
  Extra :: "string option"
  Failure :: "time option"
  Success :: "time option"
  d_Timestamp :: "time option"
  d_Wid :: string

definition IsSet :: "WhatsappBoolean \<Rightarrow> bool" where
  "IsSet option_value \<longleftrightarrow> option_value \<noteq> UnSetBooleanType"

definition IsSetExtra :: "QpDispatching \<Rightarrow> bool" where
  "IsSetExtra source \<longleftrightarrow> Extra source \<noteq> None"

definition IsWebhook :: "QpDispatching \<Rightarrow> bool" where
  "IsWebhook source \<longleftrightarrow> DType source = DispatchingTypeWebhook"

definition IsRabbitMQ :: "QpDispatching \<Rightarrow> bool" where
  "IsRabbitMQ source \<longleftrightarrow> DType source = DispatchingTypeRabbitMQ"

text \<open>A payload is the message and the extra value of the dispatching.\<close>

type_synonym payload = "WhatsappMessage \<times> string option"

datatype dispatch_error =
  MarshalError | BadRequest | InvalidResponse | TransportError string
| UnsupportedType string | NoRabbitClient string | MessageCached | ServerNil

section \<open>Webhooks\<close>

text \<open>
  What the HTTP client reports: whether a request could be built, the status of the response if there
  is one, and its error if there is one.
\<close>

record http_result =
  req_ok :: bool
  resp_status :: "nat option"
  do_err :: "string option"

definition error_text :: "dispatch_error \<Rightarrow> string" where
  "error_text e = (case e of
     InvalidResponse \<Rightarrow> ''the requested url do not return 200 status code''
   | TransportError t \<Rightarrow> t
   | _ \<Rightarrow> [])"

definition post_error :: "http_result \<Rightarrow> dispatch_error option" where
  "post_error res =
     (if (case resp_status res of None \<Rightarrow> False | Some st \<Rightarrow> st \<noteq> 200) then Some InvalidResponse
      else map_option TransportError (do_err res))"

definition PostWebhook ::
    "bool \<Rightarrow> http_result \<Rightarrow> time \<Rightarrow> QpDispatching \<Rightarrow> WhatsappMessage \<Rightarrow>
     QpDispatching \<times> WhatsappMessage \<times> dispatch_error option" where
  "PostWebhook json_ok res now source message =
     (if \<not> json_ok then (source, message, Some MarshalError)
      else if \<not> req_ok res then (source, message, Some BadRequest)
      else
        let statusCode = (case resp_status res of None \<Rightarrow> 0 | Some st \<Rightarrow> st)
        in case post_error res of
             Some err \<Rightarrow>
               (if Failure source = None then source\<lparr>Failure := Some now\<rparr> else source,
                MarkExceptionsWithMessage message
                  (''Webhook failed with status '' @ decimal statusCode @ '': '' @ error_text err),
                Some err)
           | None \<Rightarrow> (source\<lparr>Failure := None, Success := Some now\<rparr>, ClearExceptions message, None))"

record QpWebhook = WhatsappOptions +
  Url :: string
  w_ForwardInternal :: bool
  w_TrackId :: string
  w_Extra :: "string option"
  w_Failure :: "time option"
  w_Success :: "time option"
  w_Timestamp :: "time option"
  w_Wid :: string

definition Webhook_Post :: "bool \<Rightarrow> http_result \<Rightarrow> time \<Rightarrow> QpWebhook \<Rightarrow> QpWebhook \<times> dispatch_error option" where
  "Webhook_Post json_ok res now source =
     (if \<not> json_ok then (source, Some MarshalError)
      else if \<not> req_ok res then (source, Some BadRequest)
      else case post_error res of
             Some err \<Rightarrow> (if w_Failure source = None then source\<lparr>w_Failure := Some now\<rparr> else source, Some err)
           | None \<Rightarrow> (source\<lparr>w_Failure := None, w_Success := Some now\<rparr>, None))"

definition Webhook_ToDispatching :: "QpWebhook \<Rightarrow> QpDispatching" where
  "Webhook_ToDispatching source =
     \<lparr>Groups = Groups source, Broadcasts = Broadcasts source, ReadReceipts = ReadReceipts source,
      Calls = Calls source, ReadUpdate = ReadUpdate source, ConnectionString = Url source,
      DType = DispatchingTypeWebhook, ForwardInternal = w_ForwardInternal source,
      TrackId = w_TrackId source, Extra = w_Extra source, Failure = w_Failure source,
      Success = w_Success source, d_Timestamp = w_Timestamp source, d_Wid = w_Wid source\<rparr>"

section \<open>Routing keys\<close>

definition isEventMessage :: "WhatsappMessage \<Rightarrow> bool" where
  "isEventMessage message =
     (if MsgType message = UnhandledMessageType then True
      else if MsgType message = ContactMessageType then Edited message \<and> Attachment message \<noteq> None
      else if Msg_Id message = ''readreceipt'' then True
      else False)"

definition DetermineRoutingKey :: "WhatsappMessage \<Rightarrow> string" where
  "DetermineRoutingKey message =
     (if FromHistory message then QuePasaRoutingKeyHistory
      else if isEventMessage message then QuePasaRoutingKeyEvents
      else QuePasaRoutingKeyProd)"

text \<open>The routing of the older configuration type, in the order of its tests.\<close>

definition Config_DetermineRoutingKey :: "WhatsappMessage \<Rightarrow> string" where
  "Config_DetermineRoutingKey message =
     (if FromHistory message then QuePasaRoutingKeyHistory
      else if MsgType message = UnhandledMessageType then QuePasaRoutingKeyEvents
      else if Msg_Id message = ''readreceipt'' then QuePasaRoutingKeyEvents
      else if MsgType message = SystemMessageType then QuePasaRoutingKeyProd
      else if MsgType message = ContactMessageType \<and> Edited message \<and> Attachment message \<noteq> None
      then QuePasaRoutingKeyEvents
      else if MsgType message = CallMessageType then QuePasaRoutingKeyProd
      else if MsgType message = RevokeMessageType then QuePasaRoutingKeyProd
      else QuePasaRoutingKeyProd)"

section \<open>RabbitMQ\<close>

text \<open>
  All clients of the program, by their number in the manager. The fields of the oracle are what the
  outside decides while one message is published: the client as the waits find it, the broker's
  answers, the order of the queue map, and the client at the final connection check.
\<close>

record rabbit_world =
  manager :: client_manager
  clients :: "nat \<Rightarrow> payload RabbitMQClient"

record rabbit_oracle =
  ro_ready_new :: "payload RabbitMQClient \<Rightarrow> payload RabbitMQClient option"
  ro_ready_retry :: "payload RabbitMQClient \<Rightarrow> payload RabbitMQClient option"
  ro_accepts :: "broker_call \<Rightarrow> bool"
  ro_order :: "(string \<times> string) list"
  ro_accepted :: bool
  ro_json_ok :: bool
  ro_final :: "payload RabbitMQClient \<Rightarrow> payload RabbitMQClient"

definition new_client :: "rabbit_oracle \<Rightarrow> string \<Rightarrow> payload RabbitMQClient" where
  "new_client oracle connectionString =
     (let fresh = the (NewRabbitMQClient connectionString 0)
      in case ro_ready_new oracle fresh of
           None \<Rightarrow> fresh
         | Some r \<Rightarrow> fst (EnsureExchangeAndQueues (ro_accepts oracle) (ro_order oracle) r))"

definition world_client :: "rabbit_oracle \<Rightarrow> rabbit_world \<Rightarrow> string \<Rightarrow> rabbit_world \<times> nat option" where
  "world_client oracle w connectionString =
     (case GetRabbitMQClient (manager w) connectionString of
        (m, None) \<Rightarrow> (w, None)
      | (m, Some c) \<Rightarrow>
          if find_client (manager w) connectionString = None
          then (w\<lparr>manager := m, clients := (clients w)(c := new_client oracle connectionString)\<rparr>, Some c)
          else (w, Some c))"

definition PublishRabbitMQ ::
    "rabbit_oracle \<Rightarrow> nat \<Rightarrow> rabbit_world \<Rightarrow> QpDispatching \<Rightarrow> WhatsappMessage \<Rightarrow>
     rabbit_world \<times> QpDispatching \<times> WhatsappMessage \<times> dispatch_error option" where
  "PublishRabbitMQ oracle now w source message =
     (let routingKey = DetermineRoutingKey message; payload = (message, Extra source)
      in case world_client oracle w (ConnectionString source) of
           (w, None) \<Rightarrow>
             (w, if Failure source = None then source\<lparr>Failure := Some (int now)\<rparr> else source,
              MarkExceptionsWithMessage message
                (''RabbitMQ client unavailable for connection '' @ ConnectionString source),
              Some (NoRabbitClient (ConnectionString source)))
         | (w, Some c) \<Rightarrow>
             let r = fst (EnsureExchangeAndQueuesWithRetry (ro_accepts oracle) (ro_order oracle)
                   (ro_ready_retry oracle (clients w c)) (clients w c));
                 r = fst (PublishQuePasaMessage now (\<lambda>_. ro_json_ok oracle) (ro_accepted oracle) r routingKey payload);
                 r = ro_final oracle r;
                 w = w\<lparr>clients := (clients w)(c := r)\<rparr>
             in if \<not> IsConnectionReady r
                then (w, source\<lparr>Failure := Some (int now), Success := None\<rparr>,
                      MarkExceptionsWithMessage message ''RabbitMQ connection lost - message cached'',
                      Some MessageCached)
                else (w, source\<lparr>Failure := None, Success := Some (int now)\<rparr>, ClearExceptions message, None))"

section \<open>Distribution\<close>

record dispatch_env =
  de_now :: nat
  de_json_ok :: bool
  de_http :: "string \<Rightarrow> http_result"
  de_rabbit :: rabbit_oracle

definition Dispatch ::
    "dispatch_env \<Rightarrow> rabbit_world \<Rightarrow> QpDispatching \<Rightarrow> WhatsappMessage \<Rightarrow>
     rabbit_world \<times> QpDispatching \<times> WhatsappMessage \<times> dispatch_error option" where
  "Dispatch env w source message =
     (if DType source = DispatchingTypeWebhook
      then (w, PostWebhook (de_json_ok env) (de_http env (ConnectionString source)) (int (de_now env)) source message)
      else if DType source = DispatchingTypeRabbitMQ
      then PublishRabbitMQ (de_rabbit env) (de_now env) w source message
      else (w, source, message, Some (UnsupportedType (DType source))))"

text \<open>\<open>cond && IsSet && !Boolean()\<close>, which panics (\<open>None\<close>) on an option value outside the three.\<close>

definition refused :: "bool \<Rightarrow> WhatsappBoolean \<Rightarrow> bool option" where
  "refused applies v = (if applies \<and> IsSet v then map_option Not (Boolean v) else Some False)"

definition or_else :: "bool option \<Rightarrow> bool option \<Rightarrow> bool option" where
  "or_else a b = (case a of None \<Rightarrow> None | Some True \<Rightarrow> Some True | Some False \<Rightarrow> b)"

definition ignores :: "QpDispatching \<Rightarrow> WhatsappMessage \<Rightarrow> bool option" where
  "ignores dispatching message =
     or_else (refused (Msg_Id message = ''readreceipt'') (ReadReceipts dispatching))
    (or_else (refused (FromGroup message) (Groups dispatching))
    (or_else (refused (FromBroadcast message) (Broadcasts dispatching))
             (refused (MsgType message = CallMessageType) (Calls dispatching))))"

definition forwards :: "QpDispatching \<Rightarrow> WhatsappMessage \<Rightarrow> bool" where
  "forwards dispatching message \<longleftrightarrow>
     \<not> FromInternal message \<or>
     (ForwardInternal dispatching \<and>
      (length (TrackId dispatching) = 0 \<or> TrackId dispatching \<noteq> Msg_TrackId message))"

text \<open>
  The loop of \<open>PostToDispatchingFromServer\<close> over the server's dispatchings: errors are logged and the
  loop goes on. A panic ends it.
\<close>

fun PostToDispatching_loop ::
    "dispatch_env \<Rightarrow> rabbit_world \<Rightarrow> QpDispatching list \<Rightarrow> WhatsappMessage \<Rightarrow>
     (rabbit_world \<times> QpDispatching list \<times> WhatsappMessage) option" where
  "PostToDispatching_loop env w [] message = Some (w, [], message)"
| "PostToDispatching_loop env w (dispatching # rest) message =
     (case ignores dispatching message of
        None \<Rightarrow> None
      | Some True \<Rightarrow>
          map_option (\<lambda>(w, ds, m). (w, dispatching # ds, m)) (PostToDispatching_loop env w rest message)
      | Some False \<Rightarrow>
          if forwards dispatching message then
            (case Dispatch env w dispatching message of
               (w, dispatching, message, _) \<Rightarrow>
                 map_option (\<lambda>(w, ds, m). (w, dispatching # ds, m)) (PostToDispatching_loop env w rest message))
          else map_option (\<lambda>(w, ds, m). (w, dispatching # ds, m)) (PostToDispatching_loop env w rest message))"

text \<open>
  \<open>PostToWebhooksModern\<close> posts to the webhooks only, without the test on internal messages, and
  returns the error of the last webhook it posted to.
\<close>

fun PostToWebhooks_loop ::
    "dispatch_env \<Rightarrow> QpDispatching list \<Rightarrow> WhatsappMessage \<Rightarrow> dispatch_error option \<Rightarrow>
     (QpDispatching list \<times> WhatsappMessage \<times> dispatch_error option) option" where
  "PostToWebhooks_loop env [] message err = Some ([], message, err)"
| "PostToWebhooks_loop env (dispatching # rest) message err =
     (case ignores dispatching message of
        None \<Rightarrow> None
      | Some True \<Rightarrow>
          map_option (\<lambda>(ds, r). (dispatching # ds, r)) (PostToWebhooks_loop env rest message err)
      | Some False \<Rightarrow>
          (case PostWebhook (de_json_ok env) (de_http env (ConnectionString dispatching)) (int (de_now env))
                  dispatching message of
             (dispatching, message, err) \<Rightarrow>
               map_option (\<lambda>(ds, r). (dispatching # ds, r)) (PostToWebhooks_loop env rest message err)))"

section \<open>The older RabbitMQ configuration\<close>

record QpRabbitMQConfig = WhatsappOptions +
  r_ConnectionString :: string
  ExchangeName :: string
  r_RoutingKey :: string
  QueueHistory :: string
  r_ForwardInternal :: bool
  r_TrackId :: string
  r_Extra :: "string option"
  r_Failure :: "time option"
  r_Success :: "time option"
  r_Timestamp :: "time option"
  r_Wid :: string

definition IsFailureMoreRecent :: "QpRabbitMQConfig \<Rightarrow> bool" where
  "IsFailureMoreRecent source =
     (case r_Failure source of
        None \<Rightarrow> False
      | Some f \<Rightarrow> (case r_Success source of None \<Rightarrow> True | Some s \<Rightarrow> s < f))"

definition HasRecentSuccess :: "QpRabbitMQConfig \<Rightarrow> bool" where
  "HasRecentSuccess source =
     (case r_Success source of
        None \<Rightarrow> False
      | Some s \<Rightarrow> (case r_Failure source of None \<Rightarrow> True | Some f \<Rightarrow> f < s))"

definition GetUniqueIdentifier :: "QpRabbitMQConfig \<Rightarrow> string" where
  "GetUniqueIdentifier source =
     (if r_ConnectionString source \<noteq> [] then r_ConnectionString source else ExchangeName source)"

definition ValidateConfig :: "QpRabbitMQConfig \<Rightarrow> QpRabbitMQConfig option" where
  "ValidateConfig source =
     (if r_ConnectionString source = [] \<and> ExchangeName source = [] then None
      else
        let source = (if r_ConnectionString source = []
                      then source\<lparr>r_ConnectionString := ExchangeName source\<rparr> else source);
            source = (if ExchangeName source = []
                      then source\<lparr>ExchangeName := ''quepasa.exchange''\<rparr> else source);
            source = (if r_RoutingKey source = [] then source\<lparr>r_RoutingKey := ''prod''\<rparr> else source)
        in Some source)"

definition Config_ToDispatching :: "QpRabbitMQConfig \<Rightarrow> QpDispatching" where
  "Config_ToDispatching source =
     (let connectionString = r_ConnectionString source;
          connectionString = (if connectionString = [] then ExchangeName source else connectionString)
      in \<lparr>Groups = Groups source, Broadcasts = Broadcasts source, ReadReceipts = ReadReceipts source,
          Calls = Calls source, ReadUpdate = ReadUpdate source, ConnectionString = connectionString,
          DType = DispatchingTypeRabbitMQ, ForwardInternal = r_ForwardInternal source,
          TrackId = r_TrackId source, Extra = r_Extra source, Failure = r_Failure source,
          Success = r_Success source, d_Timestamp = r_Timestamp source, d_Wid = r_Wid source\<rparr>)"

definition PublishMessage ::
    "rabbit_oracle \<Rightarrow> nat \<Rightarrow> rabbit_world \<Rightarrow> QpRabbitMQConfig \<Rightarrow> WhatsappMessage \<Rightarrow>
     rabbit_world \<times> QpRabbitMQConfig \<times> bool" where
  "PublishMessage oracle now w source message =
     (case world_client oracle w (r_ConnectionString source) of
        (w, None) \<Rightarrow>
          (w, if r_Failure source = None then source\<lparr>r_Failure := Some (int now)\<rparr> else source, False)
      | (w, Some c) \<Rightarrow>
          (case EnsureExchangeAndQueues (ro_accepts oracle) (ro_order oracle) (clients w c) of
             (r, calls, Some _) \<Rightarrow> (w\<lparr>clients := (clients w)(c := r)\<rparr>, source, False)
           | (r, calls, None) \<Rightarrow>
               let r = fst (PublishQuePasaMessage now (\<lambda>_. ro_json_ok oracle) (ro_accepted oracle) r
                     (Config_DetermineRoutingKey message) (message, r_Extra source))
               in (w\<lparr>clients := (clients w)(c := r)\<rparr>,
                   source\<lparr>r_Failure := None, r_Success := Some (int now)\<rparr>, True)))"

section \<open>Who receives a message\<close>

definition wants :: "QpDispatching \<Rightarrow> WhatsappMessage \<Rightarrow> bool" where
  "wants d m \<longleftrightarrow> ignores d m = Some False \<and> forwards d m"

definition valid_options :: "QpDispatching \<Rightarrow> bool" where
  "valid_options d \<longleftrightarrow> valid_boolean (ReadReceipts d) \<and> valid_boolean (Groups d) \<and>
     valid_boolean (Broadcasts d) \<and> valid_boolean (Calls d)"

text \<open>Delivering a message changes at most its list of exceptions.\<close>

definition same_message :: "WhatsappMessage \<Rightarrow> WhatsappMessage \<Rightarrow> bool" where
  "same_message m m' \<longleftrightarrow> m' = m\<lparr>Exceptions := Exceptions m'\<rparr>"

lemma same_message_refl [simp]: "same_message m m"
  by (simp add: same_message_def)

lemma same_message_trans: "same_message a b \<Longrightarrow> same_message b c \<Longrightarrow> same_message a c"
  unfolding same_message_def by (cases a; cases b; cases c) simp

lemma same_message_ops [simp]:
  "same_message m (MarkExceptionsWithMessage m t)" "same_message m (ClearExceptions m)"
  by (simp_all add: same_message_def MarkExceptionsWithMessage_def ClearExceptions_def)

lemma same_message_tests:
  assumes "same_message m m'"
  shows "ignores d m' = ignores d m" "forwards d m' = forwards d m"
proof -
  have "m' = m\<lparr>Exceptions := Exceptions m'\<rparr>" using assms by (simp add: same_message_def)
  then obtain xs where m': "m' = m\<lparr>Exceptions := xs\<rparr>" by blast
  show "ignores d m' = ignores d m" "forwards d m' = forwards d m"
    unfolding m' by (simp_all add: ignores_def forwards_def FromGroup_def FromBroadcast_def)
qed

lemma refused_valid: "valid_boolean v \<Longrightarrow> refused b v = Some (b \<and> v = FalseBooleanType)"
  by (auto simp: refused_def valid_boolean_def IsSet_def Boolean_def boolean_consts)

lemma ignores_valid:
  assumes "valid_options d"
  shows "ignores d m = Some
    ((Msg_Id m = ''readreceipt'' \<and> ReadReceipts d = FalseBooleanType) \<or>
     (FromGroup m \<and> Groups d = FalseBooleanType) \<or>
     (FromBroadcast m \<and> Broadcasts d = FalseBooleanType) \<or>
     (MsgType m = CallMessageType \<and> Calls d = FalseBooleanType))"
  using assms by (auto simp: valid_options_def ignores_def refused_valid or_else_def split: bool.split)

lemma PostWebhook_same: "PostWebhook j h n d m = (d', m', e) \<Longrightarrow> same_message m m'"
  by (auto simp: PostWebhook_def Let_def split: if_splits option.splits)

lemma PostWebhook_fst: "fst (PostWebhook j h n d m) = fst (PostWebhook j h n d m')"
  by (simp add: PostWebhook_def Let_def split: option.split)

lemma PublishRabbitMQ_same: "PublishRabbitMQ ora n w d m = (w', d', m', e) \<Longrightarrow> same_message m m'"
  by (auto simp: PublishRabbitMQ_def Let_def split: if_splits option.splits prod.splits)

lemma Dispatch_same: "Dispatch env w d m = (w', d', m', e) \<Longrightarrow> same_message m m'"
  by (auto simp: Dispatch_def split: if_splits dest: PostWebhook_same PublishRabbitMQ_same)

definition delivered :: "dispatch_env \<Rightarrow> WhatsappMessage \<Rightarrow> QpDispatching \<Rightarrow> QpDispatching \<Rightarrow> bool" where
  "delivered env m d d' \<longleftrightarrow>
     (\<not> wants d m \<longrightarrow> d' = d) \<and>
     (wants d m \<and> IsWebhook d \<longrightarrow>
        d' = fst (PostWebhook (de_json_ok env) (de_http env (ConnectionString d)) (int (de_now env)) d m))"

lemma delivered_same: "same_message m m' \<Longrightarrow> delivered env m' d d' \<Longrightarrow> delivered env m d d'"
  using PostWebhook_fst [of _ _ _ d m m']
  by (simp add: delivered_def wants_def same_message_tests)

lemma Dispatch_delivered:
  "ignores d m = Some False \<Longrightarrow> forwards d m \<Longrightarrow> Dispatch env w d m = (w', d', m', e) \<Longrightarrow> delivered env m d d'"
  by (auto simp: delivered_def wants_def Dispatch_def IsWebhook_def dispatching_types split: if_splits)

lemma not_wanted_delivered: "\<not> wants d m \<Longrightarrow> delivered env m d d"
  by (simp add: delivered_def)

lemma distribution:
  assumes "\<forall>d\<in>set ds. valid_options d"
  shows "\<exists>w' ds' m'. PostToDispatching_loop env w ds m = Some (w', ds', m') \<and>
     list_all2 (delivered env m) ds ds' \<and> same_message m m'"
  using assms
proof (induction ds arbitrary: w m)
  case (Cons d ds)
  obtain b where b: "ignores d m = Some b" using ignores_valid Cons.prems by force
  show ?case
  proof (cases "\<not> b \<and> forwards d m")
    case True
    obtain w1 d1 m1 e where D: "Dispatch env w d m = (w1, d1, m1, e)" by (metis prod_cases4)
    have same: "same_message m m1" using Dispatch_same [OF D] .
    obtain w' ds' m' where r: "PostToDispatching_loop env w1 ds m1 = Some (w', ds', m')"
        "list_all2 (delivered env m1) ds ds'" "same_message m1 m'"
      using Cons.IH [of w1 m1] Cons.prems by auto
    have "list_all2 (delivered env m) ds ds'"
      using r(2) delivered_same [OF same] by (metis (no_types, lifting) list_all2_mono)
    moreover have "delivered env m d d1" using Dispatch_delivered [OF _ _ D] b True by simp
    ultimately show ?thesis
      using b True D r same_message_trans [OF same] by auto
  next
    case False
    then have nw: "\<not> wants d m" using b by (auto simp: wants_def)
    obtain w' ds' m' where r: "PostToDispatching_loop env w ds m = Some (w', ds', m')"
        "list_all2 (delivered env m) ds ds'" "same_message m m'"
      using Cons.IH [of w m] Cons.prems by auto
    then show ?thesis using b False not_wanted_delivered [OF nw] by (cases b) auto
  qed
qed simp


definition sample_dispatching :: QpDispatching where
  "sample_dispatching = \<lparr>Groups = 0, Broadcasts = 0, ReadReceipts = 0, Calls = -1, ReadUpdate = 0,
     ConnectionString = ''http://h'', DType = ''webhook'', ForwardInternal = True, TrackId = ''crm'',
     Extra = None, Failure = None, Success = None, d_Timestamp = None, d_Wid = []\<rparr>"

definition sample_oracle :: rabbit_oracle where
  "sample_oracle = \<lparr>ro_ready_new = (\<lambda>_. None), ro_ready_retry = (\<lambda>_. None), ro_accepts = (\<lambda>_. True),
     ro_order = quepasa_queues, ro_accepted = True, ro_json_ok = True, ro_final = (\<lambda>r. r)\<rparr>"

definition sample_dispatch_env :: dispatch_env where
  "sample_dispatch_env = \<lparr>de_now = 50, de_json_ok = True,
     de_http = (\<lambda>_. \<lparr>req_ok = True, resp_status = Some 200, do_err = None\<rparr>), de_rabbit = sample_oracle\<rparr>"


text \<open>
  No loops: a message a remote system sent through the API with its own track id never goes back to
  the dispatching with that track id, and no message sent through the API goes to a dispatching that
  does not forward internal messages. The webhook-only variant lacks the test and posts it back.
\<close>
theorem internal_message_not_returned:
  assumes "\<forall>d\<in>set ds. valid_options d" "FromInternal m" "i < length ds"
    and "\<not> ForwardInternal (ds ! i) \<or> (TrackId (ds ! i) \<noteq> [] \<and> TrackId (ds ! i) = Msg_TrackId m)"
    and "ignores d m = Some False"
  shows "(\<exists>w' ds' m'. PostToDispatching_loop env w ds m = Some (w', ds', m') \<and> ds' ! i = ds ! i)
     \<and> (\<exists>m'. PostToWebhooks_loop env [d] m None =
          Some ([fst (PostWebhook (de_json_ok env) (de_http env (ConnectionString d)) (int (de_now env)) d m)], m'))"
proof -
  obtain w' ds' m' where r: "PostToDispatching_loop env w ds m = Some (w', ds', m')"
      "list_all2 (delivered env m) ds ds'"
    using distribution [OF assms(1)] by blast
  have "\<not> wants (ds ! i) m" using assms(2,4) by (auto simp: wants_def forwards_def)
  then have "ds' ! i = ds ! i" using r(2) assms(3) by (auto simp: list_all2_conv_all_nth delivered_def)
  then show ?thesis using r(1) assms(5) by (auto split: prod.split)
qed

theorem internal_message_not_returned_witness:
  "\<exists>m'. PostToWebhooks_loop sample_dispatch_env [sample_dispatching]
     (empty_message\<lparr>FromInternal := True, Msg_TrackId := ''crm''\<rparr>) None =
   Some ([sample_dispatching\<lparr>Success := Some 50\<rparr>], m')"
proof -
  let ?m = "empty_message\<lparr>FromInternal := True, Msg_TrackId := ''crm''\<rparr>"
  have v: "\<forall>d\<in>set [sample_dispatching]. valid_options d"
    by (simp add: sample_dispatching_def valid_options_def valid_boolean_def boolean_consts)
  have "FromInternal ?m" "TrackId sample_dispatching = Msg_TrackId ?m" "TrackId sample_dispatching \<noteq> []"
    "ignores sample_dispatching ?m = Some False" by code_simp+
  moreover have "fst (PostWebhook (de_json_ok sample_dispatch_env) (de_http sample_dispatch_env
      (ConnectionString sample_dispatching)) (int (de_now sample_dispatch_env)) sample_dispatching ?m) =
      sample_dispatching\<lparr>Success := Some 50\<rparr>"
    by (simp add: PostWebhook_def post_error_def sample_dispatch_env_def sample_dispatching_def Let_def)
  ultimately show ?thesis
    using internal_message_not_returned [OF v, of ?m 0 sample_dispatching sample_dispatch_env] by simp
qed

section \<open>Failure marks\<close>

definition post_all :: "WhatsappMessage \<Rightarrow> (time \<times> http_result) list \<Rightarrow> QpDispatching \<Rightarrow> QpDispatching" where
  "post_all m posts d = foldl (\<lambda>d (now, res). fst (PostWebhook True res now d m)) d posts"

lemma post_fail:
  "req_ok res \<Longrightarrow> post_error res \<noteq> None \<Longrightarrow>
   fst (PostWebhook True res now d m) = (if Failure d = None then d\<lparr>Failure := Some now\<rparr> else d)"
  by (auto simp: PostWebhook_def Let_def)

lemma post_fails_keep:
  "\<forall>(now, res)\<in>set posts. req_ok res \<and> post_error res \<noteq> None \<Longrightarrow> Failure d \<noteq> None \<Longrightarrow> post_all m posts d = d"
  by (induction posts) (auto simp: post_all_def post_fail)

text \<open>
  The failure mark of a webhook is the time of the first failure since the last success: a run of
  failures sets it at the first and leaves the last success standing, and one answer with status 200,
  and only that, clears it.
\<close>
theorem failure_mark_is_first:
  assumes "\<forall>(now, res)\<in>set posts. req_ok res \<and> post_error res \<noteq> None"
    and "req_ok good" "resp_status good = Some 200" "do_err good = None"
    and "req_ok first" "post_error first \<noteq> None" "Failure d = None"
  shows "post_all m ((t, first) # posts) d = d\<lparr>Failure := Some t\<rparr>
     \<and> post_all m ((t, first) # posts @ [(t', good)]) d = d\<lparr>Success := Some t'\<rparr>"
proof -
  have "post_all m ((t, first) # posts) d = post_all m posts (d\<lparr>Failure := Some t\<rparr>)"
    using assms by (simp add: post_all_def post_fail)
  also have "\<dots> = d\<lparr>Failure := Some t\<rparr>" using assms(1) by (rule post_fails_keep) simp
  finally have bad: "post_all m ((t, first) # posts) d = d\<lparr>Failure := Some t\<rparr>" .
  have "post_all m ((t, first) # posts @ [(t', good)]) d =
      fst (PostWebhook True good t' (post_all m ((t, first) # posts) d) m)"
    by (simp add: post_all_def)
  also have "\<dots> = d\<lparr>Success := Some t'\<rparr>"
    unfolding bad using assms by (simp add: PostWebhook_def post_error_def Let_def)
  finally show ?thesis using bad by blast
qed

theorem failure_mark_is_first_witness:
  "Failure (post_all empty_message
     [(10, \<lparr>req_ok = True, resp_status = Some 500, do_err = None\<rparr>),
      (20, \<lparr>req_ok = True, resp_status = None, do_err = Some ''timeout''\<rparr>)] sample_dispatching) = Some 10"
proof -
  let ?first = "\<lparr>req_ok = True, resp_status = Some 500, do_err = None\<rparr>"
  let ?next = "\<lparr>req_ok = True, resp_status = None, do_err = Some ''timeout''\<rparr>"
  let ?good = "\<lparr>req_ok = True, resp_status = Some 200, do_err = None\<rparr>"
  show ?thesis
    using failure_mark_is_first [of "[(20, ?next)]" ?good ?first sample_dispatching empty_message 10 30]
    by (simp add: post_error_def sample_dispatching_def)
qed

section \<open>Routing\<close>

text \<open>
  The two routings agree on every message but one kind: an unedited or bare contact message whose
  id is the read-receipt mark goes to production in one and to events in the other. Both send history
  to the history queue whatever its type, and unhandled messages to events.
\<close>
theorem routing_keys_agree:
  "DetermineRoutingKey m = Config_DetermineRoutingKey m \<longleftrightarrow>
     \<not> (\<not> FromHistory m \<and> MsgType m = ContactMessageType \<and> Msg_Id m = ''readreceipt'' \<and>
        \<not> (Edited m \<and> Attachment m \<noteq> None))"
  by (auto simp: DetermineRoutingKey_def Config_DetermineRoutingKey_def isEventMessage_def rabbit_names)

section \<open>Publishing while disconnected\<close>

lemma publish_disconnected:
  "channel r = None \<Longrightarrow> PublishQuePasaMessage n j a r key p =
     (case AddToCache r \<lparr>rm_ID = ''msg-'' @ decimal n, Payload = p, rm_Timestamp = int n,
          Exchange = QuePasaExchangeName, RoutingKey = key\<rparr> of
        (r, added) \<Rightarrow> (r, if added then Cached else Dropped))"
  by (simp add: PublishQuePasaMessage_def PublishMessageToExchange_def)

text \<open>
  Publishing through a known client that has no connection, and gets none in time, puts the message
  with its routing key at the end of that client's cache when there is room and loses it when there is
  none; both are reported with the same error and mark the dispatching failed, with its success cleared.
\<close>
theorem disconnected_publish_cached:
  assumes "find_client (manager w) (ConnectionString d) = Some c" "channel (clients w c) = None"
    and "\<not> quepasaSetupDone (clients w c)" "ro_ready_retry ora (clients w c) = None" "ro_final ora = (\<lambda>r. r)"
    and "PublishRabbitMQ ora now w d m = (w', d', m', err)"
  shows "map Payload (messageCache (clients w' c)) =
      map Payload (messageCache (clients w c)) @
        (if int (length (messageCache (clients w c))) < maxCacheSize (clients w c) then [(m, Extra d)] else [])
    \<and> (int (length (messageCache (clients w c))) < maxCacheSize (clients w c) \<longrightarrow>
         RoutingKey (last (messageCache (clients w' c))) = DetermineRoutingKey m)
    \<and> err = Some MessageCached \<and> Failure d' = Some (int now) \<and> Success d' = None"
proof -
  have g: "world_client ora w (ConnectionString d) = (w, Some c)"
    using assms(1) by (auto simp: world_client_def GetRabbitMQClient_def find_client_def split: if_splits)
  have e: "EnsureExchangeAndQueuesWithRetry (ro_accepts ora) (ro_order ora) None (clients w c) =
      (clients w c, [], Some NotReadyAfterTimeout)"
    using assms(2,3) by (simp add: EnsureExchangeAndQueuesWithRetry_def EnsureExchangeAndQueues_def)
  let ?r = "clients w c"
  let ?msg = "\<lparr>rm_ID = ''msg-'' @ decimal now, Payload = (m, Extra d), rm_Timestamp = int now,
      Exchange = QuePasaExchangeName, RoutingKey = DetermineRoutingKey m\<rparr>"
  let ?r1 = "fst (AddToCache ?r ?msg)"
  have p: "fst (PublishQuePasaMessage now (\<lambda>_. ro_json_ok ora) (ro_accepted ora) ?r (DetermineRoutingKey m) (m, Extra d)) = ?r1"
    using assms(2) by (simp add: publish_disconnected case_prod_unfold)
  have n: "\<not> IsConnectionReady ?r1" using assms(2) by (simp add: AddToCache_def IsConnectionReady_def)
  have "w' = w\<lparr>clients := (clients w)(c := ?r1)\<rparr>" "d' = d\<lparr>Failure := Some (int now), Success := None\<rparr>"
    "err = Some MessageCached"
    using assms(6) n unfolding PublishRabbitMQ_def Let_def g by (simp_all add: assms(4,5) e p)
  then show ?thesis by (simp add: AddToCache_def)
qed

definition sample_world :: rabbit_world where
  "sample_world = \<lparr>manager = \<lparr>clientManager = [''amqp'' \<mapsto> 0], next_client = 1, closed_clients = []\<rparr>,
     clients = (\<lambda>_. the (NewRabbitMQClient ''amqp'' 0))\<rparr>"

theorem disconnected_publish_cached_witness:
  "length (messageCache (clients (fst (PublishRabbitMQ sample_oracle 9 sample_world
     (sample_dispatching\<lparr>DType := ''rabbitmq'', ConnectionString := ''amqp''\<rparr>) empty_message)) 0)) = 1"
proof -
  let ?d = "sample_dispatching\<lparr>DType := ''rabbitmq'', ConnectionString := ''amqp''\<rparr>"
  obtain w' d' m' err where p: "PublishRabbitMQ sample_oracle 9 sample_world ?d empty_message = (w', d', m', err)"
    by (metis prod_cases4)
  have r: "clients sample_world 0 = \<lparr>connURI = ''amqp'', conn = None, channel = None, messageCache = [],
      maxCacheSize = 100000, cacheProcessing = False, quepasaSetupDone = False\<rparr>"
    by (simp add: sample_world_def NewRabbitMQClient_def DefaultUnlimitedCacheCapacity_def)
  have "map Payload (messageCache (clients w' 0)) = [(empty_message, Extra ?d)]"
    using disconnected_publish_cached [OF _ _ _ _ _ p, of 0]
    by (simp add: r) (simp add: sample_world_def find_client_def sample_dispatching_def sample_oracle_def)
  then show ?thesis unfolding p by (metis fst_conv length_map list.size(3,4) One_nat_def add.commute plus_1_eq_Suc)
qed

end
