(* ===== verification/DispatchStore.thy ===== *)
theory DispatchStore
  imports Dispatching
begin

text \<open>
  Where dispatchings are kept: the table of \<open>src/models/qp_data_server_dispatching_sql.go\<close>, whose
  schema is \<open>src/migrations/202512151400_create_dispatching_table.up.sql\<close>, and the in-memory list of
  \<open>qp_data_dispatching.go\<close> that every read uses. The table is a list of rows with at most one row per
  (context, connection string), its primary key. Whether the database accepts a statement is the
  argument \<open>ok\<close>; the two conversions of the extra value to and from its text are the fields of
  \<open>extra_codec\<close>.

  \<open>dispatching_store\<close> is the contract of the persistence interface, under which the list mirrors the
  table.
\<close>

section \<open>The table\<close>

record dispatching_row =
  row_context :: string
  row_connection :: string
  row_type :: string
  row_forwardinternal :: bool
  row_trackid :: string
  row_readreceipts :: WhatsappBoolean
  row_groups :: WhatsappBoolean
  row_broadcasts :: WhatsappBoolean
  row_extra :: string
  row_timestamp :: time

record extra_codec =
  GetExtraText :: "string option \<Rightarrow> string"
  ParseExtra :: "string \<Rightarrow> string option"

definition row_key :: "string \<Rightarrow> string \<Rightarrow> dispatching_row \<Rightarrow> bool" where
  "row_key context connection row \<longleftrightarrow> row_context row = context \<and> row_connection row = connection"

text \<open>A row read into the dispatching: calls and read updates have no column.\<close>

definition from_row :: "extra_codec \<Rightarrow> dispatching_row \<Rightarrow> QpDispatching" where
  "from_row codec row =
     \<lparr>Groups = row_groups row, Broadcasts = row_broadcasts row, ReadReceipts = row_readreceipts row,
      Calls = UnSetBooleanType, ReadUpdate = UnSetBooleanType, ConnectionString = row_connection row,
      DType = row_type row, ForwardInternal = row_forwardinternal row, TrackId = row_trackid row,
      Extra = ParseExtra codec (row_extra row), Failure = None, Success = None,
      d_Timestamp = Some (row_timestamp row), d_Wid = []\<rparr>"

definition Sql_Find :: "extra_codec \<Rightarrow> dispatching_row list \<Rightarrow> string \<Rightarrow> string \<Rightarrow> QpDispatching option" where
  "Sql_Find codec table context connectionString =
     map_option (from_row codec) (find (row_key context connectionString) table)"

definition Sql_FindAll :: "extra_codec \<Rightarrow> dispatching_row list \<Rightarrow> string \<Rightarrow> QpDispatching list" where
  "Sql_FindAll codec table context = map (from_row codec) (filter (\<lambda>row. row_context row = context) table)"

definition Sql_All :: "extra_codec \<Rightarrow> dispatching_row list \<Rightarrow> QpDispatching list" where
  "Sql_All codec table = map (from_row codec) table"

text \<open>\<open>INSERT OR IGNORE\<close>: a row with the same key is left as it is, without an error.\<close>

definition Sql_Add :: "extra_codec \<Rightarrow> time \<Rightarrow> dispatching_row list \<Rightarrow> string \<Rightarrow> QpDispatching \<Rightarrow> dispatching_row list" where
  "Sql_Add codec now table context element =
     (if (\<exists>row\<in>set table. row_key context (ConnectionString element) row) then table
      else table @ [\<lparr>row_context = context, row_connection = ConnectionString element,
        row_type = DType element, row_forwardinternal = ForwardInternal element,
        row_trackid = TrackId element, row_readreceipts = ReadReceipts element,
        row_groups = Groups element, row_broadcasts = Broadcasts element,
        row_extra = GetExtraText codec (Extra element), row_timestamp = now\<rparr>])"

definition set_row :: "extra_codec \<Rightarrow> QpDispatching \<Rightarrow> dispatching_row \<Rightarrow> dispatching_row" where
  "set_row codec element row =
     row\<lparr>row_type := DType element, row_forwardinternal := ForwardInternal element,
       row_trackid := TrackId element, row_readreceipts := ReadReceipts element,
       row_groups := Groups element, row_broadcasts := Broadcasts element,
       row_extra := GetExtraText codec (Extra element)\<rparr>"

definition Sql_Update :: "extra_codec \<Rightarrow> dispatching_row list \<Rightarrow> string \<Rightarrow> QpDispatching \<Rightarrow> dispatching_row list" where
  "Sql_Update codec table context element =
     map (\<lambda>row. if row_key context (ConnectionString element) row then set_row codec element row else row) table"

text \<open>
  \<open>UpdateContext\<close> sets the context of the element in memory when the statement fails, and not when it
  succeeds. A statement that would duplicate a key fails.
\<close>

definition Sql_UpdateContext ::
    "bool \<Rightarrow> dispatching_row list \<Rightarrow> string \<Rightarrow> string \<Rightarrow> string \<Rightarrow> dispatching_row list \<times> string \<times> bool" where
  "Sql_UpdateContext ok table element_context connection context =
     (let fails = (\<not> ok \<or> (element_context \<noteq> context \<and>
              (\<exists>row\<in>set table. row_key element_context connection row) \<and>
              (\<exists>row\<in>set table. row_key context connection row)));
          table = (if fails then table
                   else map (\<lambda>row. if row_key element_context connection row
                                   then row\<lparr>row_context := context\<rparr> else row) table);
          element_context = (if fails then context else element_context)
      in (table, element_context, fails))"

definition Sql_Remove :: "dispatching_row list \<Rightarrow> string \<Rightarrow> string \<Rightarrow> dispatching_row list \<times> nat" where
  "Sql_Remove table context connectionString =
     (filter (\<lambda>row. \<not> row_key context connectionString row) table,
      length (filter (row_key context connectionString) table))"

definition Sql_Clear :: "dispatching_row list \<Rightarrow> string \<Rightarrow> dispatching_row list" where
  "Sql_Clear table context = filter (\<lambda>row. row_context row \<noteq> context) table"

datatype dispatch_store_error =
  EmptyOrNilDispatching | EmptyConnectionString | DatabaseError

text \<open>
  \<open>DispatchingAddOrUpdate\<close>: the record handed in is shared, so the track id and type kept from the
  stored row are written into it; it is returned with them.
\<close>

definition Sql_DispatchingAddOrUpdate ::
    "extra_codec \<Rightarrow> time \<Rightarrow> bool \<Rightarrow> dispatching_row list \<Rightarrow> string \<Rightarrow> QpDispatching \<Rightarrow>
     dispatching_row list \<times> QpDispatching \<times> (dispatch_store_error + nat)" where
  "Sql_DispatchingAddOrUpdate codec now ok table context dispatching =
     (if length (ConnectionString dispatching) = 0 then (table, dispatching, Inl EmptyOrNilDispatching)
      else case Sql_Find codec table context (ConnectionString dispatching) of
             Some existing \<Rightarrow>
               let d = (if TrackId dispatching = [] \<and> TrackId existing \<noteq> []
                        then dispatching\<lparr>TrackId := TrackId existing\<rparr> else dispatching);
                   d = (if DType d = [] \<and> DType existing \<noteq> [] then d\<lparr>DType := DType existing\<rparr> else d)
               in if ok then (Sql_Update codec table context d, d, Inr 1) else (table, d, Inl DatabaseError)
           | None \<Rightarrow>
               if ok then (Sql_Add codec now table context dispatching, dispatching, Inr 1)
               else (table, dispatching, Inl DatabaseError))"

definition Sql_DispatchingRemove ::
    "bool \<Rightarrow> dispatching_row list \<Rightarrow> string \<Rightarrow> string \<Rightarrow> dispatching_row list \<times> (dispatch_store_error + nat)" where
  "Sql_DispatchingRemove ok table context connectionString =
     (if length connectionString = 0 then (table, Inl EmptyConnectionString)
      else if \<not> ok then (table, Inl DatabaseError)
      else (case Sql_Remove table context connectionString of (table, affected) \<Rightarrow> (table, Inr affected)))"

text \<open>The conversions to the older types.\<close>

definition Sql_GetWebhooks :: "extra_codec \<Rightarrow> dispatching_row list \<Rightarrow> QpWebhook list" where
  "Sql_GetWebhooks codec table =
     map (\<lambda>row. let d = from_row codec row in
        \<lparr>Groups = Groups d, Broadcasts = Broadcasts d, ReadReceipts = ReadReceipts d, Calls = Calls d,
         ReadUpdate = ReadUpdate d, Url = ConnectionString d, w_ForwardInternal = ForwardInternal d,
         w_TrackId = TrackId d, w_Extra = Extra d, w_Failure = Failure d, w_Success = Success d,
         w_Timestamp = d_Timestamp d, w_Wid = row_context row\<rparr>)
       (filter (\<lambda>row. row_type row = ''webhook'') table)"

definition Sql_GetRabbitMQConfigs :: "extra_codec \<Rightarrow> dispatching_row list \<Rightarrow> QpRabbitMQConfig list" where
  "Sql_GetRabbitMQConfigs codec table =
     map (\<lambda>row. let d = from_row codec row in
        \<lparr>Groups = Groups d, Broadcasts = Broadcasts d, ReadReceipts = ReadReceipts d,
         Calls = UnSetBooleanType, ReadUpdate = UnSetBooleanType, r_ConnectionString = ConnectionString d,
         ExchangeName = ''quepasa.exchange'', r_RoutingKey = ''fixed'', QueueHistory = [],
         r_ForwardInternal = False, r_TrackId = TrackId d, r_Extra = Extra d, r_Failure = None,
         r_Success = None, r_Timestamp = None, r_Wid = row_context row\<rparr>)
       (filter (\<lambda>row. row_type row = ''rabbitmq'') table)"

section \<open>The memory list\<close>

record QpDataDispatching =
  Dispatchings :: "QpDispatching list"
  dd_context :: string

text \<open>The database and the RabbitMQ clients the list works with.\<close>

record dispatch_world =
  dw_table :: "dispatching_row list"
  dw_manager :: client_manager

definition DispatchingFill ::
    "extra_codec \<Rightarrow> bool \<Rightarrow> dispatching_row list \<Rightarrow> string \<Rightarrow> string \<Rightarrow> QpDataDispatching \<Rightarrow> QpDataDispatching \<times> bool" where
  "DispatchingFill codec ok table token wid source =
     (let source = source\<lparr>dd_context := token\<rparr>
      in if \<not> ok then (source, True)
         else (source\<lparr>Dispatchings := map (\<lambda>d. d\<lparr>d_Wid := wid\<rparr>) (Sql_FindAll codec table token)\<rparr>, False))"

text \<open>The loop that replaces the first entry with the same connection string, or else appends.\<close>

fun replace_first :: "QpDispatching \<Rightarrow> QpDispatching list \<Rightarrow> QpDispatching list option" where
  "replace_first dispatching [] = None"
| "replace_first dispatching (element # rest) =
     (if ConnectionString element = ConnectionString dispatching then Some (dispatching # rest)
      else map_option (\<lambda>r. element # r) (replace_first dispatching rest))"

definition mem_put :: "QpDispatching \<Rightarrow> QpDispatching list \<Rightarrow> QpDispatching list" where
  "mem_put dispatching ds =
     (case replace_first dispatching ds of Some ds' \<Rightarrow> ds' | None \<Rightarrow> ds @ [dispatching])"

definition DispatchingAddOrUpdate ::
    "extra_codec \<Rightarrow> time \<Rightarrow> bool \<Rightarrow> dispatch_world \<Rightarrow> QpDataDispatching \<Rightarrow> QpDispatching \<Rightarrow>
     dispatch_world \<times> QpDataDispatching \<times> (dispatch_store_error + nat)" where
  "DispatchingAddOrUpdate codec now ok w source dispatching =
     (case Sql_DispatchingAddOrUpdate codec now ok (dw_table w) (dd_context source) dispatching of
        (table, d, Inl err) \<Rightarrow> (w\<lparr>dw_table := table\<rparr>, source, Inl err)
      | (table, d, Inr affected) \<Rightarrow>
          (w\<lparr>dw_table := table\<rparr>, source\<lparr>Dispatchings := mem_put d (Dispatchings source)\<rparr>, Inr affected))"

text \<open>
  The removal compacts the slice in place: \<open>r\<close> is the index of the range loop, \<open>i\<close> the next index to
  write, and the backing array is both read and written.
\<close>

function compact_loop :: "string \<Rightarrow> QpDispatching list \<Rightarrow> nat \<Rightarrow> nat \<Rightarrow> QpDispatching list" where
  "compact_loop connectionString arr r i =
     (if r < length arr then
        if ConnectionString (arr ! r) \<noteq> connectionString
        then compact_loop connectionString (arr[i := arr ! r]) (Suc r) (Suc i)
        else compact_loop connectionString arr (Suc r) i
      else take i arr)"
  by pat_completeness auto

termination
  by (relation "measure (\<lambda>(c, arr, r, i). length arr - r)") auto

declare compact_loop.simps [simp del]

definition DispatchingRemove ::
    "bool \<Rightarrow> dispatch_world \<Rightarrow> QpDataDispatching \<Rightarrow> string \<Rightarrow> dispatch_world \<times> QpDataDispatching \<times> (dispatch_store_error + nat)" where
  "DispatchingRemove ok w source connectionString =
     (case Sql_DispatchingRemove ok (dw_table w) (dd_context source) connectionString of
        (table, Inl err) \<Rightarrow> (w\<lparr>dw_table := table\<rparr>, source, Inl err)
      | (table, Inr affected) \<Rightarrow>
          let isRabbitMQ = list_ex (\<lambda>d. ConnectionString d = connectionString \<and> IsRabbitMQ d) (Dispatchings source);
              source = source\<lparr>Dispatchings := compact_loop connectionString (Dispatchings source) 0 0\<rparr>;
              w = w\<lparr>dw_table := table\<rparr>
          in (if isRabbitMQ then w\<lparr>dw_manager := CloseRabbitMQClient (dw_manager w) connectionString\<rparr> else w,
              source, Inr affected))"

definition DispatchingClear ::
    "bool \<Rightarrow> dispatch_world \<Rightarrow> QpDataDispatching \<Rightarrow> dispatch_world \<times> QpDataDispatching \<times> bool" where
  "DispatchingClear ok w source =
     (let w = w\<lparr>dw_manager := foldl CloseRabbitMQClient (dw_manager w)
                (map ConnectionString (filter IsRabbitMQ (Dispatchings source)))\<rparr>
      in if \<not> ok then (w, source, True)
         else (w\<lparr>dw_table := Sql_Clear (dw_table w) (dd_context source)\<rparr>, source\<lparr>Dispatchings := []\<rparr>, False))"

definition as_webhook :: "QpDispatching \<Rightarrow> QpWebhook" where
  "as_webhook dispatching =
     \<lparr>Groups = Groups dispatching, Broadcasts = Broadcasts dispatching,
      ReadReceipts = ReadReceipts dispatching, Calls = Calls dispatching,
      ReadUpdate = ReadUpdate dispatching, Url = ConnectionString dispatching,
      w_ForwardInternal = ForwardInternal dispatching, w_TrackId = TrackId dispatching,
      w_Extra = Extra dispatching, w_Failure = Failure dispatching, w_Success = Success dispatching,
      w_Timestamp = d_Timestamp dispatching, w_Wid = d_Wid dispatching\<rparr>"

definition GetWebhooks :: "QpDataDispatching \<Rightarrow> QpWebhook list" where
  "GetWebhooks source = map as_webhook (filter IsWebhook (Dispatchings source))"

definition as_config :: "QpDispatching \<Rightarrow> QpRabbitMQConfig" where
  "as_config dispatching =
     \<lparr>Groups = Groups dispatching, Broadcasts = Broadcasts dispatching,
      ReadReceipts = ReadReceipts dispatching, Calls = Calls dispatching,
      ReadUpdate = ReadUpdate dispatching, r_ConnectionString = ConnectionString dispatching,
      ExchangeName = [], r_RoutingKey = [], QueueHistory = [],
      r_ForwardInternal = ForwardInternal dispatching, r_TrackId = TrackId dispatching,
      r_Extra = Extra dispatching, r_Failure = Failure dispatching, r_Success = Success dispatching,
      r_Timestamp = d_Timestamp dispatching, r_Wid = d_Wid dispatching\<rparr>"

definition GetRabbitMQConfigs :: "QpDataDispatching \<Rightarrow> QpRabbitMQConfig list" where
  "GetRabbitMQConfigs source = map as_config (filter IsRabbitMQ (Dispatchings source))"

text \<open>
  \<open>ToggleForwardInternal\<close> of a dispatching of a server: the flag is flipped in the record, which was read from the
  table and is not one of the list in memory, and then saved.
\<close>

definition ToggleForwardInternal ::
    "extra_codec \<Rightarrow> time \<Rightarrow> bool \<Rightarrow> dispatch_world \<Rightarrow> QpDataDispatching \<Rightarrow> QpDispatching \<Rightarrow>
     dispatch_world \<times> QpDataDispatching \<times> bool \<times> dispatch_store_error option" where
  "ToggleForwardInternal codec now ok w server source =
     (let source = source\<lparr>ForwardInternal := \<not> ForwardInternal source\<rparr>
      in case DispatchingAddOrUpdate codec now ok w server source of
           (w, server, Inl err) \<Rightarrow> (w, server, ForwardInternal source, Some err)
         | (w, server, Inr _) \<Rightarrow> (w, server, ForwardInternal source, None))"

section \<open>The in-place compaction\<close>

lemma compact_loop_filter:
  assumes "i \<le> r" "r \<le> length arr"
  shows "compact_loop c arr r i = take i arr @ filter (\<lambda>d. ConnectionString d \<noteq> c) (drop r arr)"
  using assms
proof (induction c arr r i rule: compact_loop.induct)
  case (1 c arr r i)
  show ?case
  proof (cases "r < length arr")
    case False
    then show ?thesis using 1(4) by (simp add: compact_loop.simps)
  next
    case True
    then have d: "drop r arr = arr ! r # drop (Suc r) arr" by (simp add: Cons_nth_drop_Suc)
    have t: "take (Suc i) (arr[i := x]) = take i arr @ [x]" for x
      using True 1(3) by (simp add: take_Suc_conv_app_nth)
    have dr: "drop (Suc r) (arr[i := x]) = drop (Suc r) arr" for x
      using 1(3) by simp
    show ?thesis
      using True 1 by (subst compact_loop.simps) (simp add: d t dr)
  qed
qed

text \<open>
  Removing a dispatching from memory overwrites the slice it is ranging over. The writes never
  overtake the reads, so the result is exactly the entries with another connection string, in their
  order.
\<close>
theorem compaction_is_filter:
  "compact_loop connectionString ds 0 0 = filter (\<lambda>d. ConnectionString d \<noteq> connectionString) ds"
  by (simp add: compact_loop_filter)

section \<open>The contract of the store\<close>

definition mirrors :: "(QpDispatching \<Rightarrow> QpDispatching) \<Rightarrow> (string \<Rightarrow> QpDispatching option) \<Rightarrow> QpDispatching list \<Rightarrow> bool" where
  "mirrors view stored ds \<longleftrightarrow>
     distinct (map ConnectionString ds) \<and>
     (\<forall>c. stored c = map_option view (find (\<lambda>d. ConnectionString d = c) ds))"

lemma replace_first_None: "replace_first d ds = None \<longleftrightarrow> ConnectionString d \<notin> ConnectionString ` set ds"
  by (induction ds) auto

lemma replace_first_Some:
  "replace_first d ds = Some ds' \<Longrightarrow> map ConnectionString ds' = map ConnectionString ds \<and>
     (\<forall>c. find (\<lambda>d. ConnectionString d = c) ds' =
        (if c = ConnectionString d then Some d else find (\<lambda>d. ConnectionString d = c) ds))"
  by (induction ds arbitrary: ds') (auto split: if_splits)

lemma find_append: "find P (xs @ ys) = (case find P xs of None \<Rightarrow> find P ys | Some x \<Rightarrow> Some x)"
  by (induction xs) auto

lemma find_filter_conn:
  "find (\<lambda>d. ConnectionString d = c) (filter (\<lambda>d. ConnectionString d \<noteq> k) ds) =
     (if c = k then None else find (\<lambda>d. ConnectionString d = c) ds)"
  by (induction ds) auto

lemma mem_put_find:
  "find (\<lambda>d. ConnectionString d = c) (mem_put d ds) =
     (if c = ConnectionString d then Some d else find (\<lambda>d. ConnectionString d = c) ds)"
proof (cases "replace_first d ds")
  case None
  then have "find (\<lambda>e. ConnectionString e = ConnectionString d) ds = None"
    unfolding replace_first_None find_None_iff by (metis imageI)
  then show ?thesis using None by (auto simp: mem_put_def find_append split: option.split)
next
  case (Some ds')
  then show ?thesis using replace_first_Some [OF Some] by (simp add: mem_put_def)
qed

lemma mem_put_distinct:
  "distinct (map ConnectionString ds) \<Longrightarrow> distinct (map ConnectionString (mem_put d ds))"
  using replace_first_Some [of d ds] replace_first_None [of d ds]
  by (auto simp: mem_put_def split: option.split)

text \<open>
  What the memory list needs of its database, for one context: a successful write stores the persisted
  view of the record it hands back, under its connection string, and nothing else; a removal and a
  clearing remove what they say.
\<close>

locale dispatching_store =
  fixes stored :: "'db \<Rightarrow> string \<Rightarrow> QpDispatching option"
    and view :: "QpDispatching \<Rightarrow> QpDispatching"
    and upsert :: "'db \<Rightarrow> QpDispatching \<Rightarrow> ('db \<times> QpDispatching) option"
    and remove :: "'db \<Rightarrow> string \<Rightarrow> 'db option"
    and clear :: "'db \<Rightarrow> 'db"
  assumes upsert_conn: "upsert db d = Some (db', d') \<Longrightarrow> ConnectionString d' = ConnectionString d"
    and stored_upsert: "upsert db d = Some (db', d') \<Longrightarrow> stored db' = (stored db)(ConnectionString d \<mapsto> view d')"
    and stored_remove: "remove db c = Some db' \<Longrightarrow> stored db' = (stored db)(c := None)"
    and stored_clear: "stored (clear db) = Map.empty"
begin

lemma upsert_mirrors:
  assumes "mirrors view (stored db) ds" "upsert db d = Some (db', d')"
  shows "mirrors view (stored db') (mem_put d' ds)"
  using assms upsert_conn [OF assms(2)] stored_upsert [OF assms(2)]
  by (auto simp: mirrors_def mem_put_find mem_put_distinct)

lemma remove_mirrors:
  assumes "mirrors view (stored db) ds" "remove db c = Some db'"
  shows "mirrors view (stored db') (filter (\<lambda>d. ConnectionString d \<noteq> c) ds)"
  using assms stored_remove [OF assms(2)]
  by (auto simp: mirrors_def find_filter_conn distinct_map_filter)

lemma clear_mirrors: "mirrors view (stored (clear db)) []"
  by (simp add: mirrors_def stored_clear)

end

section \<open>The SQL table keeps the contract\<close>

definition persisted :: "extra_codec \<Rightarrow> QpDispatching \<Rightarrow> QpDispatching" where
  "persisted codec d =
     d\<lparr>Calls := UnSetBooleanType, ReadUpdate := UnSetBooleanType,
       Extra := ParseExtra codec (GetExtraText codec (Extra d)), Failure := None, Success := None,
       d_Timestamp := None, d_Wid := []\<rparr>"

definition stored_view :: "extra_codec \<Rightarrow> string \<Rightarrow> dispatching_row list \<Rightarrow> string \<Rightarrow> QpDispatching option" where
  "stored_view codec context table c =
     map_option (\<lambda>d. d\<lparr>d_Timestamp := None\<rparr>) (Sql_Find codec table context c)"

definition sql_upsert ::
    "extra_codec \<Rightarrow> time \<Rightarrow> bool \<Rightarrow> string \<Rightarrow> dispatching_row list \<Rightarrow> QpDispatching \<Rightarrow> (dispatching_row list \<times> QpDispatching) option" where
  "sql_upsert codec now ok context table d =
     (case Sql_DispatchingAddOrUpdate codec now ok table context d of
        (table, d, Inr _) \<Rightarrow> Some (table, d) | (table, d, Inl _) \<Rightarrow> None)"

definition sql_remove :: "bool \<Rightarrow> string \<Rightarrow> dispatching_row list \<Rightarrow> string \<Rightarrow> dispatching_row list option" where
  "sql_remove ok context table c =
     (case Sql_DispatchingRemove ok table context c of (table, Inr _) \<Rightarrow> Some table | (table, Inl _) \<Rightarrow> None)"

lemma row_key_set_row [simp]: "row_key x c (set_row codec d row) = row_key x c row"
  by (simp add: row_key_def set_row_def)

lemma find_Sql_Update:
  "find (row_key x c) (Sql_Update codec table x d) =
     map_option (\<lambda>row. if c = ConnectionString d then set_row codec d row else row) (find (row_key x c) table)"
  by (induction table) (auto simp: Sql_Update_def row_key_def set_row_def)

lemma find_Sql_Remove:
  "find (row_key x c) (filter (\<lambda>row. \<not> row_key x k row) table) =
     (if c = k then None else find (row_key x c) table)"
  by (induction table) (auto simp: row_key_def [abs_def])

lemma from_row_set_row:
  "row_key x (ConnectionString d) row \<Longrightarrow>
   (from_row codec (set_row codec d row))\<lparr>d_Timestamp := None\<rparr> = persisted codec d"
  by (simp add: from_row_def set_row_def persisted_def row_key_def)

lemma stored_Update:
  assumes "Sql_Find codec table x (ConnectionString d) \<noteq> None"
  shows "stored_view codec x (Sql_Update codec table x d) =
    (stored_view codec x table)(ConnectionString d \<mapsto> persisted codec d)"
proof
  fix c
  obtain row where row: "find (row_key x (ConnectionString d)) table = Some row"
    using assms by (auto simp: Sql_Find_def)
  then have "row_key x (ConnectionString d) row" by (auto simp: find_Some_iff)
  note eq = from_row_set_row [OF this, of codec]
  show "stored_view codec x (Sql_Update codec table x d) c =
      ((stored_view codec x table)(ConnectionString d \<mapsto> persisted codec d)) c"
    using row eq by (cases "c = ConnectionString d")
      (simp_all add: stored_view_def Sql_Find_def find_Sql_Update option.map_comp comp_def option.map_ident)
qed

lemma stored_Add:
  assumes "Sql_Find codec table x (ConnectionString d) = None"
  shows "stored_view codec x (Sql_Add codec now table x d) =
    (stored_view codec x table)(ConnectionString d \<mapsto> persisted codec d)"
proof
  fix c
  have none: "find (row_key x (ConnectionString d)) table = None" using assms by (simp add: Sql_Find_def)
  then have "\<not> (\<exists>row\<in>set table. row_key x (ConnectionString d) row)" by (simp add: find_None_iff)
  then show "stored_view codec x (Sql_Add codec now table x d) c =
      ((stored_view codec x table)(ConnectionString d \<mapsto> persisted codec d)) c"
    using none
    by (auto simp: stored_view_def Sql_Find_def Sql_Add_def find_append row_key_def from_row_def persisted_def
        split: option.split)
qed

lemma sql_upsert_cases:
  assumes "sql_upsert codec now ok x table d = Some (table', d')"
  shows "ConnectionString d' = ConnectionString d \<and>
    (Sql_Find codec table x (ConnectionString d) = None \<and> table' = Sql_Add codec now table x d \<and> d' = d \<or>
     Sql_Find codec table x (ConnectionString d) \<noteq> None \<and> table' = Sql_Update codec table x d')"
  using assms
  by (auto simp: sql_upsert_def Sql_DispatchingAddOrUpdate_def Let_def split: if_splits option.splits)

interpretation sql_store: dispatching_store "stored_view codec x" "persisted codec" "sql_upsert codec now ok x"
    "sql_remove ok x" "\<lambda>table. Sql_Clear table x"
  for codec now ok x
proof unfold_locales
  fix db d db' d'
  assume u: "sql_upsert codec now ok x db d = Some (db', d')"
  show conn: "ConnectionString d' = ConnectionString d" using sql_upsert_cases [OF u] by simp
  show "stored_view codec x db' = (stored_view codec x db)(ConnectionString d \<mapsto> persisted codec d')"
    using sql_upsert_cases [OF u] stored_Add stored_Update [of codec db x d'] conn by auto
next
  fix db c db'
  assume "sql_remove ok x db c = Some db'"
  then show "stored_view codec x db' = (stored_view codec x db)(c := None)"
    by (auto simp: sql_remove_def Sql_DispatchingRemove_def Sql_Remove_def stored_view_def Sql_Find_def
        find_Sql_Remove fun_eq_iff split: if_splits)
next
  fix db
  have "find (row_key x c) (Sql_Clear db x) = None" for c
    by (auto simp: Sql_Clear_def find_None_iff row_key_def)
  then show "stored_view codec x (Sql_Clear db x) = Map.empty"
    by (auto simp: stored_view_def Sql_Find_def)
qed

section \<open>Memory and database\<close>

datatype dispatching_op =
  OpAddOrUpdate time bool QpDispatching
| OpRemove bool string
| OpClear bool

type_synonym dispatching_state = "dispatch_world \<times> QpDataDispatching"

fun dispatching_step :: "extra_codec \<Rightarrow> dispatching_state \<Rightarrow> dispatching_op \<Rightarrow> dispatching_state" where
  "dispatching_step codec (w, s) (OpAddOrUpdate now ok d) =
     (case DispatchingAddOrUpdate codec now ok w s d of (w, s, _) \<Rightarrow> (w, s))"
| "dispatching_step codec (w, s) (OpRemove ok c) = (case DispatchingRemove ok w s c of (w, s, _) \<Rightarrow> (w, s))"
| "dispatching_step codec (w, s) (OpClear ok) = (case DispatchingClear ok w s of (w, s, _) \<Rightarrow> (w, s))"

definition in_step :: "extra_codec \<Rightarrow> string \<Rightarrow> dispatching_state \<Rightarrow> bool" where
  "in_step codec context ws \<longleftrightarrow>
     dd_context (snd ws) = context \<and>
     mirrors (persisted codec) (stored_view codec context (dw_table (fst ws))) (Dispatchings (snd ws))"

lemma AddOrUpdate_in_step:
  assumes "in_step codec x (w, s)"
  shows "in_step codec x (dispatching_step codec (w, s) (OpAddOrUpdate now ok d))"
proof -
  obtain t d' r where e: "Sql_DispatchingAddOrUpdate codec now ok (dw_table w) x d = (t, d', r)"
    by (metis prod_cases3)
  have ctx: "dd_context s = x" and m: "mirrors (persisted codec) (stored_view codec x (dw_table w)) (Dispatchings s)"
    using assms by (simp_all add: in_step_def)
  show ?thesis
  proof (cases r)
    case (Inl err)
    then have "t = dw_table w"
      using e by (auto simp: Sql_DispatchingAddOrUpdate_def Let_def split: if_splits option.splits)
    then show ?thesis using e Inl ctx m by (simp add: DispatchingAddOrUpdate_def in_step_def)
  next
    case (Inr n)
    then have "sql_upsert codec now ok x (dw_table w) d = Some (t, d')" using e by (simp add: sql_upsert_def)
    from sql_store.upsert_mirrors [OF m this]
    show ?thesis using e Inr ctx by (simp add: DispatchingAddOrUpdate_def in_step_def)
  qed
qed

lemma Remove_in_step:
  assumes "in_step codec x (w, s)"
  shows "in_step codec x (dispatching_step codec (w, s) (OpRemove ok c))"
proof -
  obtain t r where e: "Sql_DispatchingRemove ok (dw_table w) x c = (t, r)" by force
  have ctx: "dd_context s = x" and m: "mirrors (persisted codec) (stored_view codec x (dw_table w)) (Dispatchings s)"
    using assms by (simp_all add: in_step_def)
  show ?thesis
  proof (cases r)
    case (Inl err)
    then have "t = dw_table w"
      using e by (auto simp: Sql_DispatchingRemove_def Sql_Remove_def split: if_splits)
    then show ?thesis using e Inl ctx m by (simp add: DispatchingRemove_def in_step_def)
  next
    case (Inr n)
    then have "sql_remove ok x (dw_table w) c = Some t" using e by (simp add: sql_remove_def)
    from sql_store.remove_mirrors [OF m this]
    show ?thesis using e Inr ctx
      by (simp add: DispatchingRemove_def in_step_def compact_loop_filter Let_def)
  qed
qed

lemma Clear_in_step:
  "in_step codec x (w, s) \<Longrightarrow> in_step codec x (dispatching_step codec (w, s) (OpClear ok))"
  using sql_store.clear_mirrors [of codec x "dw_table w"]
  by (simp add: DispatchingClear_def in_step_def Let_def)

interpretation dispatching_run: step_invariant "dispatching_step codec" "in_step codec x" for codec x
proof unfold_locales
  fix s e
  assume "in_step codec x s"
  then show "in_step codec x (dispatching_step codec s e)"
    by (cases s; cases e) (simp_all only: AddOrUpdate_in_step Remove_in_step Clear_in_step)
qed

lemma Fill_in_step:
  assumes "distinct (map (\<lambda>row. (row_context row, row_connection row)) table)"
    and "\<forall>t. ParseExtra codec (GetExtraText codec (ParseExtra codec t)) = ParseExtra codec t"
    and "DispatchingFill codec True table token wid s = (s', err)" "dw_table w = table"
  shows "in_step codec token (w, s')"
proof -
  let ?rows = "filter (\<lambda>row. row_context row = token) table"
  have ds: "Dispatchings s' = map (\<lambda>row. (from_row codec row)\<lparr>d_Wid := wid\<rparr>) ?rows" "dd_context s' = token"
    using assms(3) by (auto simp: DispatchingFill_def Sql_FindAll_def Let_def)
  have "distinct (map (\<lambda>row. (row_context row, row_connection row)) ?rows)"
    using assms(1) by (simp add: distinct_map_filter)
  moreover have "map (\<lambda>row. (row_context row, row_connection row)) ?rows = map (Pair token) (map row_connection ?rows)"
    by auto
  ultimately have "distinct (map row_connection ?rows)" by (metis distinct_map)
  then have dist: "distinct (map ConnectionString (Dispatchings s'))"
    unfolding ds by (simp add: from_row_def comp_def)
  have view: "persisted codec ((from_row codec row)\<lparr>d_Wid := wid\<rparr>) = (from_row codec row)\<lparr>d_Timestamp := None\<rparr>" for row
    using assms(2) by (simp add: persisted_def from_row_def)
  have "find (row_key token c) table = find (\<lambda>row. row_connection row = c) ?rows" for c
    by (induction table) (auto simp: row_key_def [abs_def])
  moreover have "find (\<lambda>d. ConnectionString d = c) (map (\<lambda>row. (from_row codec row)\<lparr>d_Wid := wid\<rparr>) rows) =
      map_option (\<lambda>row. (from_row codec row)\<lparr>d_Wid := wid\<rparr>) (find (\<lambda>row. row_connection row = c) rows)" for c rows
    by (induction rows) (auto simp: from_row_def)
  ultimately have "stored_view codec token table c = map_option (persisted codec) (find (\<lambda>d. ConnectionString d = c) (Dispatchings s'))" for c
    unfolding ds by (simp add: stored_view_def Sql_Find_def option.map_comp comp_def view)
  then show ?thesis using dist ds(2) assms(4) by (simp add: in_step_def mirrors_def)
qed

text \<open>
  C6. The memory list of a server and its table rows stay in step: once filled from the database, after
  any sequence of additions, updates, removals and clearings, of which any may be refused by the
  database, there is one entry per connection string, and what the table holds for it is the entry
  reduced to the columns that exist. The call and read-update options have none, so they do not survive
  a restart.
\<close>
theorem memory_mirrors_database:
  assumes "distinct (map (\<lambda>row. (row_context row, row_connection row)) (dw_table w))"
    and "\<forall>t. ParseExtra codec (GetExtraText codec (ParseExtra codec t)) = ParseExtra codec t"
    and "DispatchingFill codec True (dw_table w) token wid s = (s0, err)"
    and "foldl (dispatching_step codec) (w, s0) ops = (w', s')"
  shows "distinct (map ConnectionString (Dispatchings s'))
     \<and> (\<forall>c. map_option (\<lambda>d. d\<lparr>d_Timestamp := None\<rparr>) (Sql_Find codec (dw_table w') token c) =
          map_option (\<lambda>d. d\<lparr>Calls := UnSetBooleanType, ReadUpdate := UnSetBooleanType,
              Extra := ParseExtra codec (GetExtraText codec (Extra d)), Failure := None, Success := None,
              d_Timestamp := None, d_Wid := []\<rparr>) (find (\<lambda>d. ConnectionString d = c) (Dispatchings s')))"
proof -
  have "in_step codec token (w, s0)" using Fill_in_step [OF assms(1-3) refl] .
  from dispatching_run.run_inv [OF this, of ops] assms(4)
  have "mirrors (persisted codec) (stored_view codec token (dw_table w')) (Dispatchings s')"
    by (simp add: in_step_def)
  then show ?thesis by (simp add: mirrors_def stored_view_def persisted_def [abs_def])
qed

definition plain_codec :: extra_codec where
  "plain_codec = \<lparr>GetExtraText = (\<lambda>e. case e of None \<Rightarrow> ''null'' | Some t \<Rightarrow> t),
     ParseExtra = (\<lambda>t. if t = ''null'' then None else Some t)\<rparr>"

theorem memory_mirrors_database_witness:
  "\<exists>w' s'. foldl (dispatching_step plain_codec)
       (\<lparr>dw_table = [], dw_manager = \<lparr>clientManager = Map.empty, next_client = 0, closed_clients = []\<rparr>\<rparr>,
        \<lparr>Dispatchings = [], dd_context = ''tok''\<rparr>)
       [OpAddOrUpdate 5 True sample_dispatching, OpAddOrUpdate 6 True (sample_dispatching\<lparr>TrackId := []\<rparr>)] = (w', s') \<and>
     length (dw_table w') = 1 \<and> distinct (map ConnectionString (Dispatchings s')) \<and>
     map TrackId (Dispatchings s') = [''crm'']"
proof -
  let ?w = "\<lparr>dw_table = [], dw_manager = \<lparr>clientManager = Map.empty, next_client = 0, closed_clients = []\<rparr>\<rparr>"
  let ?s = "\<lparr>Dispatchings = [], dd_context = ''tok''\<rparr>"
  let ?ops = "[OpAddOrUpdate 5 True sample_dispatching, OpAddOrUpdate 6 True (sample_dispatching\<lparr>TrackId := []\<rparr>)]"
  obtain w' s' where r: "foldl (dispatching_step plain_codec) (?w, ?s) ?ops = (w', s')" by force
  have f: "DispatchingFill plain_codec True (dw_table ?w) ''tok'' [] ?s = (?s, False)"
    by (simp add: DispatchingFill_def Sql_FindAll_def)
  have "distinct (map ConnectionString (Dispatchings s'))"
    using memory_mirrors_database [OF _ _ f r] by (simp add: plain_codec_def)
  moreover have "length (dw_table w') = 1" "map TrackId (Dispatchings s') = [''crm'']"
    using r by (auto simp: DispatchingAddOrUpdate_def Sql_DispatchingAddOrUpdate_def Sql_Find_def Sql_Add_def
        Sql_Update_def from_row_def row_key_def sample_dispatching_def mem_put_def plain_codec_def Let_def)
  ultimately show ?thesis using r by (intro exI [of _ w'] exI [of _ s']) simp
qed

section \<open>Moving a dispatching to another context\<close>

text \<open>
  \<open>UpdateContext\<close> has its test the wrong way round: when the row moves to the new context the record
  in memory keeps the old one, and when the database refuses, the table is unchanged and the record
  claims the new one.
\<close>
theorem update_context_inverted:
  assumes "find (row_key old c) table = Some row" "old \<noteq> new" "find (row_key new c) table = None"
  shows "(\<exists>table'. Sql_UpdateContext True table old c new = (table', old, False) \<and>
       find (row_key old c) table' = None \<and> find (row_key new c) table' \<noteq> None)
     \<and> Sql_UpdateContext False table old c new = (table, new, True)"
proof -
  let ?t = "map (\<lambda>row. if row_key old c row then row\<lparr>row_context := new\<rparr> else row) table"
  have no: "(\<exists>row\<in>set table. row_key new c row) = False" using assms(3) by (auto simp: find_None_iff)
  have moved: "Sql_UpdateContext True table old c new = (?t, old, False)"
    "Sql_UpdateContext False table old c new = (table, new, True)"
    unfolding Sql_UpdateContext_def no Let_def by simp_all
  have "\<not> row_key old c (if row_key old c r then r\<lparr>row_context := new\<rparr> else r)" for r
    using assms(2) by (simp add: row_key_def)
  then have gone: "find (row_key old c) ?t = None"
    unfolding find_None_iff set_map by blast
  have "row \<in> set table" "row_key old c row" using assms(1) by (auto simp: find_Some_iff)
  from imageI [OF this(1), of "\<lambda>row. if row_key old c row then row\<lparr>row_context := new\<rparr> else row"] this(2)
  have "row\<lparr>row_context := new\<rparr> \<in> set ?t" by simp
  moreover have "row_key new c (row\<lparr>row_context := new\<rparr>)" using \<open>row_key old c row\<close> by (simp add: row_key_def)
  ultimately have "\<exists>x\<in>set ?t. row_key new c x" by blast
  then have "find (row_key new c) ?t \<noteq> None" unfolding find_None_iff by blast
  with moved gone show ?thesis by blast
qed

theorem update_context_inverted_witness:
  "\<exists>table'. Sql_UpdateContext True (Sql_Add plain_codec 5 [] ''a'' sample_dispatching) ''a'' ''http://h'' ''b'' =
     (table', ''a'', False)"
proof -
  let ?t = "Sql_Add plain_codec 5 [] ''a'' sample_dispatching"
  have "find (row_key ''b'' ''http://h'') ?t = None"
    by (simp add: Sql_Add_def row_key_def)
  moreover have "find (row_key ''a'' ''http://h'') ?t = Some (hd ?t)"
    by (simp add: Sql_Add_def row_key_def sample_dispatching_def)
  ultimately show ?thesis using update_context_inverted [of "''a''" "''http://h''" ?t "hd ?t" "''b''"] by auto
qed

end
