(* ===== verification/Connection.thy ===== *)
theory Connection
  imports WhatsappOptions Messages
begin

text \<open>
  A connection to WhatsApp, \<open>src/whatsmeow/whatsmeow_connection.go\<close>, with its status manager
  (\<open>whatsmeow_status_manager.go\<close>, \<open>whatsmeow_connection_extensions+state.go\<close>) and its creation in
  \<open>whatsmeow_service.go\<close>. The client is third-party code: \<open>wm_client\<close> holds what the program reads of
  it, and what a call makes of it is an argument.

  \<open>status_manager\<close> is the contract of the status interface, which the server relies on.
\<close>

section \<open>Client and connection\<close>

record wm_store =
  Platform :: string
  ID_User :: "string option"

record wm_client =
  cl_IsConnected :: bool
  cl_IsLoggedIn :: bool
  EnableAutoReconnect :: bool
  AutoReconnectErrors :: nat
  LastSuccessfulConnect :: "time option"
  Store :: "wm_store option"

record WhatsmeowConnection =
  Client :: "wm_client option"
  IsConnecting :: bool
  failedToken :: bool
  has_Handlers :: bool
  external_Handler :: bool
  has_WakeUpScheduler :: bool

datatype wa_error = StoreNotFound string | UnAuthorizedError string | OtherError string

text \<open>
  \<open>err.(WhatsappError)\<close> with \<open>Unauthorized()\<close>: of the error types only the missing store implements the
  interface; \<open>UnAuthorizedError\<close> lacks the method.
\<close>

definition is_unauthorized :: "wa_error \<Rightarrow> bool" where
  "is_unauthorized e = (case e of StoreNotFound _ \<Rightarrow> True | _ \<Rightarrow> False)"

section \<open>Status\<close>

definition IsConnected :: "WhatsmeowConnection option \<Rightarrow> bool" where
  "IsConnected source =
     (case source of
        None \<Rightarrow> False
      | Some c \<Rightarrow>
          if IsConnecting c then False
          else (case Client c of None \<Rightarrow> False | Some cl \<Rightarrow> cl_IsConnected cl))"

definition GetStatus :: "WhatsmeowConnection option \<Rightarrow> WhatsappConnectionState" where
  "GetStatus source =
     (case source of
        None \<Rightarrow> UnPrepared
      | Some c \<Rightarrow>
          (case Client c of
             None \<Rightarrow> UnVerified
           | Some cl \<Rightarrow>
               if IsConnecting c then Connecting
               else if cl_IsConnected cl then (if cl_IsLoggedIn cl then Ready else Connected)
               else if failedToken c then Failed else Disconnected))"

definition GetPlatform :: "WhatsmeowConnection option \<Rightarrow> string" where
  "GetPlatform sm =
     (case sm of
        None \<Rightarrow> ''unavailable''
      | Some c \<Rightarrow>
          (case Client c of
             None \<Rightarrow> ''unavailable''
           | Some cl \<Rightarrow>
               (case Store cl of
                  None \<Rightarrow> ''unavailable''
                | Some st \<Rightarrow> if Platform st \<noteq> [] then Platform st else ''unavailable'')))"

datatype wid_error = ClientNotDefined | StoreNotDefined | DeviceIdNotDefined

definition GetWidInternal :: "WhatsmeowConnection \<Rightarrow> string \<times> wid_error option" where
  "GetWidInternal sm =
     (case Client sm of
        None \<Rightarrow> ([], Some ClientNotDefined)
      | Some cl \<Rightarrow>
          (case Store cl of
             None \<Rightarrow> ([], Some StoreNotDefined)
           | Some st \<Rightarrow>
               (case ID_User st of
                  None \<Rightarrow> ([], Some DeviceIdNotDefined)
                | Some user \<Rightarrow> (user, None))))"

definition GetWid :: "WhatsmeowConnection option \<Rightarrow> string" where
  "GetWid sm =
     (case sm of
        None \<Rightarrow> []
      | Some c \<Rightarrow> (case GetWidInternal c of (wid, err) \<Rightarrow> if err \<noteq> None then wid else []))"

definition IsValid :: "WhatsmeowConnection option \<Rightarrow> bool" where
  "IsValid sm =
     (case sm of
        None \<Rightarrow> False
      | Some c \<Rightarrow> (case Client c of None \<Rightarrow> False | Some cl \<Rightarrow> cl_IsConnected cl \<and> cl_IsLoggedIn cl))"

definition GetReconnect :: "WhatsmeowConnection option \<Rightarrow> bool" where
  "GetReconnect sm =
     (case sm of
        None \<Rightarrow> False
      | Some c \<Rightarrow> (case Client c of None \<Rightarrow> False | Some cl \<Rightarrow> EnableAutoReconnect cl))"

record WhatsappConnectionStatus =
  cs_State :: WhatsappConnectionState
  cs_IsConnected :: bool
  cs_FailedToken :: bool
  cs_IsConnecting :: bool
  cs_IsReconnecting :: bool
  cs_ReconnectAttempts :: nat
  cs_IsAuthenticated :: bool
  cs_IsValid :: bool
  cs_AutoReconnectEnabled :: bool
  cs_ReconnectErrors :: "32 word"
  cs_LastSuccessfulConnect :: "time option"
  cs_ConnectionUptime :: "int option"
  cs_Platform :: string
  cs_SessionId :: string

definition GetResume :: "time \<Rightarrow> WhatsmeowConnection option \<Rightarrow> WhatsappConnectionStatus option" where
  "GetResume now sm =
     (case sm of
        None \<Rightarrow> None
      | Some c \<Rightarrow>
          let status = \<lparr>cs_State = GetStatus sm, cs_IsConnected = IsConnected sm,
                cs_FailedToken = failedToken c, cs_IsConnecting = IsConnecting c,
                cs_IsReconnecting = False, cs_ReconnectAttempts = 0, cs_IsAuthenticated = False,
                cs_IsValid = False, cs_AutoReconnectEnabled = False, cs_ReconnectErrors = 0,
                cs_LastSuccessfulConnect = None, cs_ConnectionUptime = None, cs_Platform = [],
                cs_SessionId = []\<rparr>
          in case Client c of
               None \<Rightarrow> Some status
             | Some cl \<Rightarrow>
                 let status = status\<lparr>cs_IsAuthenticated := cl_IsLoggedIn cl,
                       cs_IsValid := cs_IsConnected status \<and> cl_IsLoggedIn cl,
                       cs_AutoReconnectEnabled := EnableAutoReconnect cl,
                       cs_ReconnectErrors := word_of_nat (AutoReconnectErrors cl),
                       cs_LastSuccessfulConnect := LastSuccessfulConnect cl\<rparr>;
                     status = (case cs_LastSuccessfulConnect status of
                       Some t \<Rightarrow> if cs_IsConnected status
                                 then status\<lparr>cs_ConnectionUptime := Some (now - t)\<rparr> else status
                     | None \<Rightarrow> status)
                 in case Store cl of
                      None \<Rightarrow> Some status
                    | Some st \<Rightarrow>
                        Some (status\<lparr>cs_Platform := (if Platform st \<noteq> [] then Platform st else ''unavailable''),
                          cs_SessionId := (case ID_User st of None \<Rightarrow> cs_SessionId status | Some u \<Rightarrow> u)\<rparr>))"

section \<open>Operations\<close>

text \<open>\<open>result\<close> is what the client's own \<open>Connect\<close> makes of it.\<close>

definition Connect ::
    "(wm_client option \<Rightarrow> wm_client option \<times> wa_error option) \<Rightarrow> WhatsmeowConnection \<Rightarrow>
     WhatsmeowConnection \<times> wa_error option" where
  "Connect result source =
     (if IsConnecting source then (source, None)
      else
        let source = source\<lparr>IsConnecting := True\<rparr>
        in case result (Client source) of
             (client, err) \<Rightarrow>
               let source = source\<lparr>Client := client, IsConnecting := False\<rparr>
               in if err \<noteq> None then (source\<lparr>failedToken := True\<rparr>, err)
                  else (source\<lparr>failedToken := False\<rparr>, None))"

definition Dispose :: "WhatsmeowConnection \<Rightarrow> WhatsmeowConnection" where
  "Dispose source = source\<lparr>has_WakeUpScheduler := False, has_Handlers := False, Client := None\<rparr>"

datatype delete_error = LogoutError string | StoreDeleteError string

text \<open>
  \<open>logout\<close> and \<open>store_delete\<close> are the errors of the client's calls, \<open>None\<close> for success. The message
  of the store error that only says the device has no id is not an error.
\<close>

definition Delete :: "string option \<Rightarrow> string option \<Rightarrow> WhatsmeowConnection \<Rightarrow> WhatsmeowConnection \<times> delete_error option" where
  "Delete logout store_delete source =
     (case Client source of
        None \<Rightarrow> (Dispose source, None)
      | Some cl \<Rightarrow>
          (case (if cl_IsLoggedIn cl then logout else None) of
             Some e \<Rightarrow> (source, Some (LogoutError e))
           | None \<Rightarrow>
               (case (if Store cl \<noteq> None then store_delete else None) of
                  None \<Rightarrow> (Dispose source, None)
                | Some e \<Rightarrow>
                    if Contains e ''device JID must be known before accessing database''
                    then (Dispose source, None)
                    else (source, Some (StoreDeleteError e)))))"

definition UpdateHandler :: "WhatsmeowConnection \<Rightarrow> WhatsmeowConnection" where
  "UpdateHandler conn = (if has_Handlers conn then conn\<lparr>external_Handler := True\<rparr> else conn)"

text \<open>
  The stores of the service are the devices it has paired, by their id; an empty id makes a new one.
  \<open>database\<close> is \<open>None\<close> when the device list cannot be read.
\<close>

definition GetOrCreateStore :: "(string \<times> wm_store) list option \<Rightarrow> wm_store \<Rightarrow> string \<Rightarrow> wa_error + wm_store" where
  "GetOrCreateStore database new_device wid =
     (if wid = [] then Inr new_device
      else case database of
        None \<Rightarrow> Inl (OtherError ''{Whatsmeow}{EX001}'')
      | Some devices \<Rightarrow>
          (case find (\<lambda>element. fst element = wid) devices of
             Some element \<Rightarrow> Inr (snd element)
           | None \<Rightarrow> Inl (StoreNotFound wid)))"

definition GetStoreForMigrated ::
    "(string \<Rightarrow> string) \<Rightarrow> (string \<times> wm_store) list option \<Rightarrow> string \<Rightarrow> wa_error + wm_store" where
  "GetStoreForMigrated phone_by_wid database phone =
     (case database of
        None \<Rightarrow> Inl (OtherError ''{Whatsmeow}{EX001}'')
      | Some devices \<Rightarrow>
          (case find (\<lambda>element. phone_by_wid (fst element) = phone) devices of
             Some element \<Rightarrow> Inr (snd element)
           | None \<Rightarrow> Inl (StoreNotFound phone)))"

definition GetWhatsAppClient ::
    "(string \<times> wm_store) list option \<Rightarrow> wm_store \<Rightarrow> string \<Rightarrow> bool \<Rightarrow> wa_error + wm_client" where
  "GetWhatsAppClient database new_device wid reconnect =
     (case GetOrCreateStore database new_device wid of
        Inl err \<Rightarrow> Inl err
      | Inr st \<Rightarrow> Inr \<lparr>cl_IsConnected = False, cl_IsLoggedIn = False, EnableAutoReconnect = reconnect,
          AutoReconnectErrors = 0, LastSuccessfulConnect = None, Store = Some st\<rparr>)"

text \<open>\<open>handlers\<close> is the error of initialising the event handlers, and \<open>external\<close> whether one is given.\<close>

definition CreateConnection ::
    "(string \<times> wm_store) list option \<Rightarrow> wm_store \<Rightarrow> wa_error option \<Rightarrow> string \<Rightarrow> bool \<Rightarrow> bool \<Rightarrow> wa_error + WhatsmeowConnection" where
  "CreateConnection database new_device handlers wid reconnect external =
     (case GetWhatsAppClient database new_device wid reconnect of
        Inl err \<Rightarrow> Inl err
      | Inr client \<Rightarrow>
          let conn = \<lparr>Client = Some client, IsConnecting = False, failedToken = False,
                has_Handlers = False, external_Handler = False, has_WakeUpScheduler = True\<rparr>
          in case handlers of
               Some err \<Rightarrow> Inl err
             | None \<Rightarrow>
                 let conn = conn\<lparr>has_Handlers := True\<rparr>
                 in Inr (if external then UpdateHandler conn else conn))"

definition CreateEmptyConnection ::
    "(string \<times> wm_store) list option \<Rightarrow> wm_store \<Rightarrow> wa_error option \<Rightarrow> wa_error + WhatsmeowConnection" where
  "CreateEmptyConnection database new_device handlers =
     CreateConnection database new_device handlers [] False False"

section \<open>The contract of a status manager\<close>

locale status_manager =
  fixes st :: "'s \<Rightarrow> WhatsappConnectionState"
    and conn :: "'s \<Rightarrow> bool"
    and val :: "'s \<Rightarrow> bool"
  assumes conn_state: "conn s \<longleftrightarrow> st s \<in> {Ready, Connected}"
    and ready_val: "st s = Ready \<Longrightarrow> val s"
    and val_conn_ready: "val s \<Longrightarrow> conn s \<Longrightarrow> st s = Ready"
begin

lemma ready_iff: "st s = Ready \<longleftrightarrow> conn s \<and> val s"
  using conn_state ready_val val_conn_ready by blast

lemma healthy_connected_is_ready: "IsHealthy (st s) \<Longrightarrow> conn s \<Longrightarrow> st s = Ready"
  by (auto simp: IsHealthy_def conn_state)

lemma idle_not_connected: "st s \<in> {Disconnected, Failed, Stopped, UnPrepared} \<Longrightarrow> \<not> conn s"
  by (auto simp: conn_state)

end

interpretation wm_status: status_manager GetStatus IsConnected IsValid
  by unfold_locales (auto simp: GetStatus_def IsConnected_def IsValid_def split: option.splits if_splits)

section \<open>Properties\<close>

text \<open>
  \<open>GetWid\<close> has its error test the wrong way round: it returns the id only when reading it failed,
  and then the id is empty, so it returns the empty string for every connection, the session id that
  \<open>GetWidInternal\<close> reads included.
\<close>
theorem GetWid_always_empty:
  "GetWid sm = [] \<and> GetWidInternal (c\<lparr>Client := Some (cl\<lparr>Store := Some (s\<lparr>ID_User := Some u\<rparr>)\<rparr>)\<rparr>) = (u, None)"
  by (auto simp: GetWid_def GetWidInternal_def split: option.splits)

text \<open>
  Connecting leaves a connection in one of the states that describe the outcome: after a failure it
  is Failed and offered for a restart unless the client reports a live socket all the same, after a
  success it is never Failed; in no case is it left connecting, and the resume shows the same state.
\<close>
theorem connect_outcome:
  assumes "\<not> IsConnecting c" "Connect result c = (c', err)" "Client c' \<noteq> None"
  shows "\<not> IsConnecting c'
     \<and> (err \<noteq> None \<and> \<not> cl_IsConnected (the (Client c')) \<longrightarrow> GetStatus (Some c') = Failed)
     \<and> (err = None \<longrightarrow> GetStatus (Some c') \<in> {Ready, Connected, Disconnected})
     \<and> map_option cs_State (GetResume now (Some c')) = Some (GetStatus (Some c'))
     \<and> map_option cs_IsValid (GetResume now (Some c')) = Some (GetStatus (Some c') = Ready)"
proof -
  obtain client e where r: "result (Client c) = (client, e)" by force
  have c': "c' = c\<lparr>Client := client, IsConnecting := False, failedToken := (e \<noteq> None)\<rparr>" "err = e"
    using assms(1,2) r by (auto simp: Connect_def Let_def split: if_splits)
  show ?thesis
    using assms(3) c' wm_status.ready_iff [of "Some c'"]
    by (auto simp: GetStatus_def GetResume_def IsConnected_def IsValid_def Let_def split: option.splits)
qed

definition sample_connection :: WhatsmeowConnection where
  "sample_connection = \<lparr>Client = Some \<lparr>cl_IsConnected = False, cl_IsLoggedIn = False,
     EnableAutoReconnect = True, AutoReconnectErrors = 0, LastSuccessfulConnect = None, Store = None\<rparr>,
     IsConnecting = False, failedToken = False, has_Handlers = True, external_Handler = True,
     has_WakeUpScheduler = True\<rparr>"

theorem connect_outcome_witness:
  "GetStatus (Some (fst (Connect (\<lambda>c. (c, Some (OtherError ''dial''))) sample_connection))) = Failed"
proof -
  let ?r = "\<lambda>c. (c, Some (OtherError ''dial''))"
  have "Connect ?r sample_connection = (sample_connection\<lparr>failedToken := True\<rparr>, Some (OtherError ''dial''))"
    by (simp add: Connect_def sample_connection_def)
  moreover have "\<not> IsConnecting sample_connection" by (simp add: sample_connection_def)
  ultimately show ?thesis
    using connect_outcome [of sample_connection ?r "sample_connection\<lparr>failedToken := True\<rparr>" "Some (OtherError ''dial'')"]
    by (simp add: sample_connection_def)
qed

end
