(* ===== verification/Handler.thy ===== *)
theory Handler
  imports MessageStore Connection
begin

text \<open>
  The server record (\<open>src/models/qp_server.go\<close>, \<open>qp_whatsapp_server.go\<close>) and the message path of its
  handler, \<open>src/models/dispatching_handler.go\<close>: every message that comes from WhatsApp or is sent by
  the server passes the option gates, is completed, stored, and announced to SignalR and to the
  registered dispatching handlers. The announcements are a list of \<open>delivery\<close> values, in the order in
  which their goroutines are started. Handlers are known by number; configuration, clock, title lookup
  and the printing of foreign content are the fields of \<open>handler_env\<close>.
\<close>

section \<open>The server\<close>

record QpServer = WhatsappOptions +
  Token :: string
  Wid :: string
  Verified :: bool
  Devel :: bool
  User :: string
  srv_Timestamp :: "time option"

record QpTimestamps =
  ts_Message :: "time option"
  ts_Event :: "time option"
  ts_Start :: "time option"
  ts_Update :: "time option"

record DispatchingHandler =
  store :: QpWhatsappMessages
  aeh :: "nat list"

record QpWhatsappServer = QpServer +
  Reconnect :: bool
  connection :: "WhatsmeowConnection option"
  Timestamps :: QpTimestamps
  msg_handler :: DispatchingHandler
  StopRequested :: bool

datatype delivery = ToSignalR string WhatsappMessage | ToHandler nat WhatsappMessage

record handler_env =
  he_store :: store_env
  he_options :: WhatsappOptionsExtended
  he_SynopsisLength :: "64 word"
  he_CacheLength :: "64 word"
  he_DispatchUnhandled :: bool
  he_title :: "string \<Rightarrow> string"
  he_uuid :: string
  he_render :: "content_value \<Rightarrow> string"

section \<open>Which messages are announced\<close>

definition IsValidForDispatch :: "bool \<Rightarrow> WhatsappMessage \<Rightarrow> string" where
  "IsValidForDispatch dispatch_unhandled payload =
     (if \<not> dispatch_unhandled then
        (if MsgType payload = UnhandledMessageType
         then ''ignoring unhandled message type on webhook request: **whatsapp.WhatsappMessage''
         else if MsgType payload = TextMessageType \<and> length (TrimSpace (Text payload)) \<le> 0 then
           (if \<not> InReaction payload
            then ''ignoring empty text message on webhook request: '' @ Msg_Id payload else [])
         else [])
      else [])"

section \<open>Registration\<close>

definition IsAttached :: "DispatchingHandler \<Rightarrow> bool" where
  "IsAttached handler \<longleftrightarrow> length (aeh handler) > 0"

definition IsRegistered :: "DispatchingHandler \<Rightarrow> nat \<Rightarrow> bool" where
  "IsRegistered handler evt \<longleftrightarrow> list_ex (\<lambda>v. v = evt) (aeh handler)"

definition Register :: "DispatchingHandler \<Rightarrow> nat \<Rightarrow> DispatchingHandler" where
  "Register handler evt =
     (if \<not> IsRegistered handler evt then handler\<lparr>aeh := aeh handler @ [evt]\<rparr> else handler)"

definition UnRegister :: "DispatchingHandler \<Rightarrow> nat \<Rightarrow> DispatchingHandler" where
  "UnRegister handler evt = handler\<lparr>aeh := filter (\<lambda>v. v \<noteq> evt) (aeh handler)\<rparr>"

definition Clear :: "DispatchingHandler \<Rightarrow> DispatchingHandler" where
  "Clear handler = handler\<lparr>aeh := []\<rparr>"

section \<open>The message path\<close>

text \<open>\<open>Trigger\<close> stamps the server, writes its id into the payload and starts the deliveries.\<close>

definition Trigger :: "handler_env \<Rightarrow> QpWhatsappServer \<Rightarrow> WhatsappMessage \<Rightarrow>
    QpWhatsappServer \<times> WhatsappMessage \<times> delivery list" where
  "Trigger env server payload =
     (if length (IsValidForDispatch (he_DispatchUnhandled env) payload) > 0 then (server, payload, [])
      else
        let now = env_now (he_store env);
            isEvent = (MsgType payload = UnhandledMessageType \<or> MsgType payload = SystemMessageType \<or>
                       Msg_Id payload = ''readreceipt'');
            server = (if isEvent then server\<lparr>Timestamps := (Timestamps server)\<lparr>ts_Event := Some now\<rparr>\<rparr>
                      else server\<lparr>Timestamps := (Timestamps server)\<lparr>ts_Message := Some now\<rparr>\<rparr>);
            payload = payload\<lparr>Msg_Wid := Wid server\<rparr>
        in (server, payload,
            ToSignalR (Token server) payload # map (\<lambda>h. ToHandler h payload) (aeh (msg_handler server))))"

definition Receipt :: "handler_env \<Rightarrow> QpWhatsappServer \<Rightarrow> WhatsappMessage \<Rightarrow> QpWhatsappServer \<times> delivery list" where
  "Receipt env server msg = (case Trigger env server msg of (server, payload, out) \<Rightarrow> (server, out))"

text \<open>The payload is the stored record itself, so what \<open>Trigger\<close> writes into it is in the cache too.\<close>

definition appendMsgToCache :: "handler_env \<Rightarrow> QpWhatsappServer \<Rightarrow> WhatsappMessage \<Rightarrow> string \<Rightarrow>
    QpWhatsappServer \<times> delivery list" where
  "appendMsgToCache env server msg from =
     (case Append (he_store env) (store (msg_handler server)) msg from of
        (st, valid) \<Rightarrow>
          if valid then
            let st = st\<lparr>messages := CleanUp (messages st) (he_CacheLength env)\<rparr>;
                server = server\<lparr>msg_handler := (msg_handler server)\<lparr>store := st\<rparr>\<rparr>
            in case Trigger env server msg of
                 (server, payload, out) \<Rightarrow>
                   (server\<lparr>msg_handler := (msg_handler server)\<lparr>store :=
                      write_message (store (msg_handler server)) (ToUpper (Msg_Id msg)) (\<lambda>_. payload)\<rparr>\<rparr>, out)
          else (server\<lparr>msg_handler := (msg_handler server)\<lparr>store := st\<rparr>\<rparr>, []))"

definition processUnhandledMessage :: "handler_env \<Rightarrow> WhatsappMessage \<Rightarrow> WhatsappMessage" where
  "processUnhandledMessage env msg =
     (let msg = msg\<lparr>Msg_Id := Msg_Id msg @ ''-unhandled-'' @ he_uuid env\<rparr>
      in if length (Text msg) = 0 \<and> Content msg \<noteq> NoContent
         then msg\<lparr>Text := he_render env (Content msg)\<rparr> else msg)"

text \<open>\<open>maxlength\<close> is an unsigned subtraction.\<close>

definition synopsis :: "64 word \<Rightarrow> string \<Rightarrow> string" where
  "synopsis synopsis_length cached_text =
     (let maxlength = synopsis_length - 4
      in if word_of_nat (length cached_text) > maxlength
         then take (unat maxlength) cached_text @ '' ...'' else cached_text)"

definition set_synopsis :: "handler_env \<Rightarrow> QpWhatsappMessages \<Rightarrow> WhatsappMessage \<Rightarrow> QpWhatsappMessages \<times> WhatsappMessage" where
  "set_synopsis env st msg =
     (if length (InReply msg) > 0 then
        (case GetById (he_store env) st (InReply msg) of
           (st, Inr cached) \<Rightarrow> (st, msg\<lparr>Synopsis := synopsis (he_SynopsisLength env) (Text cached)\<rparr>)
         | (st, Inl _) \<Rightarrow> (st, msg))
      else (st, msg))"

text \<open>The title and the treatment of an unhandled type, before the message is stored.\<close>

definition titled :: "handler_env \<Rightarrow> WhatsappMessage \<Rightarrow> WhatsappMessage" where
  "titled env msg =
     (if length (Title (Chat msg)) = 0
      then msg\<lparr>Chat := (Chat msg)\<lparr>Title := he_title env (Chat_Id (Chat msg))\<rparr>\<rparr> else msg)"

definition completed :: "handler_env \<Rightarrow> WhatsappMessage \<Rightarrow> WhatsappMessage" where
  "completed env msg = (if MsgType msg = UnhandledMessageType then processUnhandledMessage env msg else msg)"

text \<open>
  \<open>Message\<close>. The gates panic on an option value outside the three, the outcome \<open>None\<close>.
\<close>

definition Message :: "handler_env \<Rightarrow> QpWhatsappServer \<Rightarrow> WhatsappMessage \<Rightarrow> string \<Rightarrow>
    (QpWhatsappServer \<times> delivery list) option" where
  "Message env server msg from =
     (case HandleGroups (he_options env) (Groups server) of
        None \<Rightarrow> None
      | Some groups \<Rightarrow>
          if \<not> groups \<and> FromGroup msg then Some (server, [])
          else (case HandleBroadcasts (he_options env) (Broadcasts server) of
            None \<Rightarrow> None
          | Some broadcasts \<Rightarrow>
              if \<not> broadcasts \<and> FromBroadcast msg then Some (server, [])
              else (case set_synopsis env (store (msg_handler server)) (titled env msg) of
                (st, m) \<Rightarrow>
                  Some (appendMsgToCache env (server\<lparr>msg_handler := (msg_handler server)\<lparr>store := st\<rparr>\<rparr>)
                    (completed env m) from))))"

section \<open>The handler invariant\<close>

definition handler_ok :: "DispatchingHandler \<Rightarrow> bool" where
  "handler_ok h \<longleftrightarrow> store_ok (store h) \<and> distinct (aeh h)"

lemma write_message_store_ok: "store_ok s \<Longrightarrow> store_ok (write_message s k f)"
  using write_message_ok by (simp add: store_ok_def)

lemma CleanUp_store_ok: "store_ok s \<Longrightarrow> store_ok (s\<lparr>messages := CleanUp (messages s) n\<rparr>)"
  by (simp add: store_ok_def CleanUp_ok)

lemma Trigger_handler:
  "Trigger env server msg = (server', payload, out) \<Longrightarrow> msg_handler server' = msg_handler server \<and>
     Token server' = Token server \<and> Wid server' = Wid server"
  by (auto simp: Trigger_def Let_def split: if_splits)

lemma set_synopsis_ok:
  "store_ok st \<Longrightarrow> set_synopsis env st msg = (st', msg') \<Longrightarrow> store_ok st' \<and>
     Chat msg' = Chat msg \<and> MsgType msg' = MsgType msg \<and> Msg_Id msg' = Msg_Id msg \<and> Content msg' = Content msg \<and>
     Text msg' = Text msg \<and> InReaction msg' = InReaction msg \<and>
     live (env_now (he_store env)) (messages st') = live (env_now (he_store env)) (messages st)"
  using GetById_spec [of st "he_store env" "InReply msg"]
  by (auto simp: set_synopsis_def split: if_splits prod.splits sum.splits)

lemma appendMsgToCache_ok:
  assumes "handler_ok (msg_handler server)" "appendMsgToCache env server msg from = (server', out)"
  shows "handler_ok (msg_handler server')"
proof -
  obtain st valid where a: "Append (he_store env) (store (msg_handler server)) msg from = (st, valid)" by force
  have st: "store_ok st" "distinct (aeh (msg_handler server))"
    using Append_ok [of "store (msg_handler server)" "he_store env" msg "from"] assms(1) a
    by (simp_all add: handler_ok_def)
  show ?thesis
    using assms(2) a st CleanUp_store_ok [OF st(1)]
    by (auto simp: appendMsgToCache_def handler_ok_def Let_def write_message_store_ok dest!: Trigger_handler
        split: if_splits prod.splits)
qed

lemma Message_ok:
  assumes "handler_ok (msg_handler server)" "Message env server msg from = Some (server', out)"
  shows "handler_ok (msg_handler server')"
proof -
  obtain st m where s: "set_synopsis env (store (msg_handler server)) (titled env msg) = (st, m)" by force
  have "store_ok (store (msg_handler server))" using assms(1) by (simp add: handler_ok_def)
  then have "store_ok st" using set_synopsis_ok [OF _ s] by blast
  then have "handler_ok (msg_handler (server\<lparr>msg_handler := (msg_handler server)\<lparr>store := st\<rparr>\<rparr>))"
    using assms(1) by (simp add: handler_ok_def)
  note appendMsgToCache_ok [OF this]
  then show ?thesis
    using assms unfolding Message_def s by (auto split: option.splits if_splits)
qed

datatype handler_op =
  OpMessage WhatsappMessage string
| OpReceipt WhatsappMessage
| OpRegister nat
| OpUnRegister nat
| OpClearHandlers

fun handler_step :: "QpWhatsappServer \<Rightarrow> handler_env \<times> handler_op \<Rightarrow> QpWhatsappServer" where
  "handler_step s (env, OpMessage m from) =
     (case Message env s m from of None \<Rightarrow> s | Some (s', out) \<Rightarrow> s')"
| "handler_step s (env, OpReceipt m) = fst (Receipt env s m)"
| "handler_step s (env, OpRegister h) = s\<lparr>msg_handler := Register (msg_handler s) h\<rparr>"
| "handler_step s (env, OpUnRegister h) = s\<lparr>msg_handler := UnRegister (msg_handler s) h\<rparr>"
| "handler_step s (env, OpClearHandlers) = s\<lparr>msg_handler := Clear (msg_handler s)\<rparr>"

lemma handler_step_ok: "handler_ok (msg_handler s) \<Longrightarrow> handler_ok (msg_handler (handler_step s e))"
proof (cases e)
  case (Pair env operation)
  assume ok: "handler_ok (msg_handler s)"
  show ?thesis unfolding Pair
  proof (cases operation)
    case (OpMessage m f)
    then show "handler_ok (msg_handler (handler_step s (env, operation)))"
      using ok Message_ok [OF ok] by (auto split: option.split)
  next
    case (OpReceipt m)
    then show "handler_ok (msg_handler (handler_step s (env, operation)))"
      using ok Trigger_handler by (fastforce simp: Receipt_def split: prod.split)
  qed (use ok in \<open>auto simp: handler_ok_def Register_def IsRegistered_def UnRegister_def Clear_def list_ex_iff\<close>)
qed

interpretation handler_run: step_invariant handler_step "\<lambda>s. handler_ok (msg_handler s)"
  by unfold_locales (rule handler_step_ok)

section \<open>Announcements\<close>

fun notified :: "delivery \<Rightarrow> nat option" where
  "notified (ToHandler h m) = Some h"
| "notified (ToSignalR t m) = None"

fun delivered_message :: "delivery \<Rightarrow> WhatsappMessage" where
  "delivered_message (ToHandler h m) = m"
| "delivered_message (ToSignalR t m) = m"

definition announced :: "QpWhatsappServer \<Rightarrow> delivery list \<Rightarrow> bool" where
  "announced server out \<longleftrightarrow> out = [] \<or>
     (\<exists>payload. Msg_Wid payload = Wid server \<and>
        out = ToSignalR (Token server) payload # map (\<lambda>h. ToHandler h payload) (aeh (msg_handler server)))"

lemma Trigger_announced:
  "Trigger env server msg = (server', payload, out) \<Longrightarrow> announced server out"
  by (auto simp: Trigger_def announced_def Let_def split: if_splits intro!: exI [of _ "msg\<lparr>Msg_Wid := Wid server\<rparr>"])

lemma Append_store_only: "announced (server\<lparr>msg_handler := (msg_handler server)\<lparr>store := st\<rparr>\<rparr>) out = announced server out"
  by (simp add: announced_def)

lemma appendMsgToCache_announced:
  "appendMsgToCache env server msg from = (server', out) \<Longrightarrow> announced server out"
  by (auto simp: appendMsgToCache_def Let_def Append_store_only dest!: Trigger_announced split: if_splits prod.splits)
     (simp add: announced_def)

definition blocked :: "handler_env \<Rightarrow> QpWhatsappServer \<Rightarrow> WhatsappMessage \<Rightarrow> bool" where
  "blocked env server msg \<longleftrightarrow>
     (FromGroup msg \<and> \<not> gate_spec True (xGroups (he_options env)) (Groups server)) \<or>
     (FromBroadcast msg \<and> \<not> gate_spec False (xBroadcasts (he_options env)) (Broadcasts server))"


definition sample_server :: QpWhatsappServer where
  "sample_server = \<lparr>Groups = 0, Broadcasts = 0, ReadReceipts = 0, Calls = 0, ReadUpdate = 0,
     Token = ''tok'', Wid = ''5511999999999:3@s.whatsapp.net'', Verified = True, Devel = False, User = [],
     srv_Timestamp = None, Reconnect = True, connection = Some sample_connection,
     Timestamps = \<lparr>ts_Message = None, ts_Event = None, ts_Start = None, ts_Update = None\<rparr>,
     msg_handler = \<lparr>store = empty_store, aeh = []\<rparr>, StopRequested = False\<rparr>"

definition sample_handler_env :: handler_env where
  "sample_handler_env = \<lparr>he_store = sample_store_env, he_options = \<lparr>xGroups = 0, xBroadcasts = -1,
     xReadReceipts = 0, xCalls = 0, xReadUpdate = 0, HistorySync = None, LogLevel = [], Presence = [], DispatchUnhandled = False\<rparr>,
     he_SynopsisLength = 50, he_CacheLength = 0, he_DispatchUnhandled = False, he_title = (\<lambda>_. ''title''),
     he_uuid = ''uuid'', he_render = (\<lambda>_. ''content'')\<rparr>"

lemma sample_server_ok: "handler_ok (msg_handler sample_server)"
  by (simp add: handler_ok_def sample_server_def empty_store_ok)


section \<open>Redelivery\<close>

lemma Message_total:
  assumes "valid_boolean (Groups server)" "valid_boolean (Broadcasts server)"
  shows "\<exists>server' out. Message env server msg from = Some (server', out)"
proof -
  have "Message env server msg from \<noteq> None"
    using groups_gate.handle_spec [OF assms(1)] broadcasts_gate.handle_spec [OF assms(2)]
    by (simp add: Message_def split: prod.split)
  then show ?thesis by (metis not_None_eq surj_pair)
qed

lemma append_options:
  "appendMsgToCache env server msg from = (server', out) \<Longrightarrow>
     Groups server' = Groups server \<and> Broadcasts server' = Broadcasts server"
  by (auto simp: appendMsgToCache_def Trigger_def Let_def split: if_splits prod.splits)

lemma Message_options:
  "Message env server msg from = Some (server', out) \<Longrightarrow>
     Groups server' = Groups server \<and> Broadcasts server' = Broadcasts server"
  by (auto simp: Message_def split: option.splits if_splits prod.splits dest!: append_options)

lemma Trigger_payload:
  "Trigger env server msg = (server', payload, out) \<Longrightarrow>
     Content payload = Content msg \<and> Msg_Id payload = Msg_Id msg"
  by (auto simp: Trigger_def Let_def split: if_splits)

lemma CleanUp_zero [simp]: "CleanUp c 0 = c"
  by (simp add: CleanUp_def)

lemma live_lookup: "live now c k = Some v \<Longrightarrow> \<exists>i. lookup_item c k = Some i \<and> Value i = v"
  by (auto simp: live_def split: option.splits if_splits)

lemma append_stores:
  assumes "store_ok (store (msg_handler server))" "he_CacheLength env = 0"
    and "appendMsgToCache env server msg from = (server', out)" "now < GetCacheExpiration (he_store env)"
  shows "\<exists>p. live now (messages (store (msg_handler server'))) (ToUpper (Msg_Id msg)) = Some p \<and> Content p = Content msg"
proof -
  obtain st valid where a: "Append (he_store env) (store (msg_handler server)) msg from = (st, valid)" by force
  let ?k = "ToUpper (Msg_Id msg)"
  have st: "live now (messages st) ?k = Some msg"
    using Append_spec(1) [OF assms(1), of "he_store env" msg "from"] assms(4) a by (simp add: live_def)
  have "store_ok st" using Append_ok [OF assms(1), of "he_store env" msg "from"] a by simp
  then have ok: "cache_ok (messages st)" by (simp add: store_ok_def)
  show ?thesis
  proof (cases valid)
    case True
    let ?s1 = "server\<lparr>msg_handler := (msg_handler server)\<lparr>store := st\<rparr>\<rparr>"
    obtain s2 p out' where t: "Trigger env ?s1 msg = (s2, p, out')" by (metis prod_cases3)
    have "msg_handler server' = (msg_handler s2)\<lparr>store := write_message (store (msg_handler s2)) ?k (\<lambda>_. p)\<rparr>"
      using assms(2,3) a True t by (auto simp: appendMsgToCache_def Let_def)
    moreover have "store (msg_handler s2) = st" using Trigger_handler [OF t] by simp
    ultimately have "live now (messages (store (msg_handler server'))) ?k = Some p"
      using write_message_ok(3) [OF ok] st by simp
    then show ?thesis using Trigger_payload [OF t] by blast
  next
    case False
    then show ?thesis using assms(3) a st by (auto simp: appendMsgToCache_def)
  qed
qed

text \<open>A message the gates of the server turn away.\<close>

definition gated :: "handler_env \<Rightarrow> QpWhatsappServer \<Rightarrow> WhatsappMessage \<Rightarrow> bool" where
  "gated env server msg \<longleftrightarrow>
     HandleGroups (he_options env) (Groups server) = Some False \<and> FromGroup msg \<or>
     HandleBroadcasts (he_options env) (Broadcasts server) = Some False \<and> FromBroadcast msg"

lemma Message_gated:
  "Message env server msg from = Some (server', out) \<Longrightarrow> gated env server msg \<Longrightarrow> server' = server \<and> out = []"
  by (auto simp: Message_def gated_def split: option.splits if_splits prod.splits)

lemma Message_stores:
  assumes "handler_ok (msg_handler server)" "Message env server msg from = Some (server', out)"
    and "he_CacheLength env = 0" "MsgType msg \<noteq> UnhandledMessageType" "now < GetCacheExpiration (he_store env)"
    and "\<not> gated env server msg"
  shows "\<exists>p. live now (messages (store (msg_handler server'))) (ToUpper (Msg_Id msg)) = Some p \<and> Content p = Content msg"
proof -
  have st0: "store_ok (store (msg_handler server))" using assms(1) by (simp add: handler_ok_def)
  obtain st m where s: "set_synopsis env (store (msg_handler server)) (titled env msg) = (st, m)" by force
  note k = set_synopsis_ok [OF st0 s]
  have m: "Content m = Content msg" "Msg_Id m = Msg_Id msg" "completed env m = m"
    using k assms(4) by (simp_all add: titled_def completed_def split: if_splits)
  let ?s = "server\<lparr>msg_handler := (msg_handler server)\<lparr>store := st\<rparr>\<rparr>"
  have first: "appendMsgToCache env ?s m from = (server', out)"
    using assms(2,6) m(3) unfolding Message_def s by (auto simp: gated_def split: option.splits if_splits)
  have "store_ok (store (msg_handler ?s))" using k by simp
  from append_stores [OF this assms(3) first assms(5)] m show ?thesis by auto
qed



section \<open>The synopsis of a reply\<close>

text \<open>
  The synopsis a reply carries of the message it answers is at most the configured length, and the
  whole text when that is short enough. A configured length under four makes the unsigned subtraction
  wrap, and the synopsis is then the whole text, however long.
\<close>
theorem synopsis_bounds:
  assumes "length body < 2 ^ 63"
  shows "if 4 \<le> unat n
     then length (synopsis n body) \<le> unat n \<and> (length body \<le> unat n - 4 \<longrightarrow> synopsis n body = body)
     else synopsis n body = body"
proof -
  have len: "unat (word_of_nat (length body) :: 64 word) = length body"
    using assms by (simp add: unat_of_nat)
  show ?thesis
  proof (cases "4 \<le> unat n")
    case True
    then have sub: "unat (n - 4) = unat n - 4" by (simp add: unat_sub word_le_nat_alt)
    show ?thesis using True len sub by (auto simp: synopsis_def Let_def word_less_nat_alt)
  next
    case False
    then have "unat n \<in> {0, 1, 2, 3}" by auto
    then have "(word_of_nat (unat n) :: 64 word) \<in> word_of_nat ` {0, 1, 2, 3}" by (rule imageI)
    then have "n \<in> {0, 1, 2, 3}" by simp
    then have "2 ^ 63 \<le> unat (n - 4)" by (auto simp: unsigned_minus_1_eq_mask mask_eq_exp_minus_1)
    then have "\<not> word_of_nat (length body) > n - 4" using len assms by (simp add: word_less_nat_alt)
    then show ?thesis using False by (simp add: synopsis_def Let_def)
  qed
qed

theorem synopsis_bounds_witness:
  "synopsis 3 ''a long message text'' = ''a long message text'' \<and> length (synopsis 10 ''a long message text'') \<le> 10"
  using synopsis_bounds [of "''a long message text''" 3] synopsis_bounds [of "''a long message text''" 10] by simp

end
