(* ===== verification/Lifecycle.thy ===== *)
theory Lifecycle
  imports Handler DispatchStore
begin

text \<open>
  The life of a server, \<open>src/models/qp_whatsapp_server.go\<close>: its state, starting, stopping and
  restarting its connection, saving and deleting it, and sending a message through it. The server
  table of \<open>qp_data_server_sql.go\<close> is a list of rows with unique tokens and unique session ids, as
  its schema has them, and the statements that break uniqueness or a foreign key are refused. What a
  new connection is, what the client's calls answer and whether the database answers at all are the
  fields of \<open>life_env\<close>.
\<close>

section \<open>The server table\<close>

record life_world =
  servers_table :: "QpServer list"
  life_dispatch :: dispatch_world

datatype server_error =
  NotVerified | ConnectionError wa_error | InvalidState WhatsappConnectionState | SqlError
| DeleteConnectionError delete_error | DispatchingClearError | DatabaseDeleteError | InvalidConnection

definition Server_Exists :: "bool \<Rightarrow> QpServer list \<Rightarrow> string \<Rightarrow> server_error + bool" where
  "Server_Exists ok table token =
     (if ok then Inr (\<exists>row\<in>set table. Token row = token) else Inl SqlError)"

definition Server_Add :: "bool \<Rightarrow> time \<Rightarrow> QpServer list \<Rightarrow> QpServer \<Rightarrow> QpServer list \<times> server_error option" where
  "Server_Add ok now table element =
     (if \<not> ok \<or> (\<exists>row\<in>set table. Token row = Token element \<or> Wid row = Wid element)
      then (table, Some SqlError)
      else (table @ [element\<lparr>srv_Timestamp := Some now\<rparr>], None))"

text \<open>The statement sets every column but the token, its key, and the time stamp.\<close>

definition Server_Update :: "bool \<Rightarrow> QpServer list \<Rightarrow> QpServer \<Rightarrow> QpServer list \<times> server_error option" where
  "Server_Update ok table element =
     (if \<not> ok \<or> ((\<exists>row\<in>set table. Token row = Token element) \<and>
                 (\<exists>row\<in>set table. Token row \<noteq> Token element \<and> Wid row = Wid element))
      then (table, Some SqlError)
      else (map (\<lambda>row. if Token row = Token element
                       then element\<lparr>srv_Timestamp := srv_Timestamp row\<rparr> else row) table, None))"

definition Server_DeleteRow ::
    "bool \<Rightarrow> dispatching_row list \<Rightarrow> QpServer list \<Rightarrow> string \<Rightarrow> QpServer list \<times> server_error option" where
  "Server_DeleteRow ok dispatching table token =
     (if \<not> ok \<or> ((\<exists>row\<in>set table. Token row = token) \<and> (\<exists>row\<in>set dispatching. row_context row = token))
      then (table, Some DatabaseDeleteError)
      else (filter (\<lambda>row. Token row \<noteq> token) table, None))"

section \<open>State\<close>

text \<open>The server's own status manager, which asks the connection's if there is one.\<close>

definition Qp_IsConnected :: "QpWhatsappServer \<Rightarrow> bool" where
  "Qp_IsConnected sm = (case connection sm of None \<Rightarrow> False | Some c \<Rightarrow> IsConnected (Some c))"

definition Qp_IsValid :: "QpWhatsappServer \<Rightarrow> bool" where
  "Qp_IsValid sm = (case connection sm of None \<Rightarrow> False | Some c \<Rightarrow> IsValid (Some c))"

definition Qp_GetState :: "QpWhatsappServer \<Rightarrow> WhatsappConnectionState" where
  "Qp_GetState sm = (case connection sm of None \<Rightarrow> Unknown | Some c \<Rightarrow> GetStatus (Some c))"

definition Qp_GetPlatform :: "QpWhatsappServer \<Rightarrow> string" where
  "Qp_GetPlatform sm = (case connection sm of None \<Rightarrow> [] | Some c \<Rightarrow> GetPlatform (Some c))"

definition Qp_GetWid :: "QpWhatsappServer \<Rightarrow> string" where
  "Qp_GetWid sm = (case connection sm of None \<Rightarrow> [] | Some c \<Rightarrow> GetWid (Some c))"

definition Qp_GetResume :: "time \<Rightarrow> QpWhatsappServer \<Rightarrow> WhatsappConnectionStatus option" where
  "Qp_GetResume now sm = (case connection sm of None \<Rightarrow> None | Some c \<Rightarrow> GetResume now (Some c))"

definition Qp_GetReconnect :: "QpWhatsappServer \<Rightarrow> bool" where
  "Qp_GetReconnect sm = (case connection sm of None \<Rightarrow> False | Some c \<Rightarrow> GetReconnect (Some c))"

interpretation qp_status: status_manager Qp_GetState Qp_IsConnected Qp_IsValid
  by unfold_locales
     (auto simp: Qp_GetState_def Qp_IsConnected_def Qp_IsValid_def wm_status.conn_state
       dest: wm_status.ready_val wm_status.val_conn_ready split: option.splits)

definition GetState :: "QpWhatsappServer \<Rightarrow> WhatsappConnectionState" where
  "GetState server =
     (if connection server = None then
        (if Verified server then (if StopRequested server then Stopped else UnPrepared) else UnVerified)
      else if StopRequested server then (if Qp_IsConnected server then Stopping else Stopped)
      else
        let state = Qp_GetState server
        in if state = Disconnected \<and> \<not> Verified server then UnVerified else state)"

definition IsValidToStart :: "WhatsappConnectionState \<Rightarrow> bool" where
  "IsValidToStart status \<longleftrightarrow>
     status = Stopped \<or> status = Stopping \<or> status = Disconnected \<or> status = Failed"

definition GetWorking :: "QpWhatsappServer \<Rightarrow> bool" where
  "GetWorking source \<longleftrightarrow> \<not> IsValidToStart (GetState source)"

section \<open>Saving\<close>

text \<open>\<open>le_create\<close> is \<open>NewConnection\<close>, \<open>le_connect1\<close> and \<open>le_connect2\<close> the first and second connect.\<close>

record life_env =
  le_now :: time
  le_db_ok :: bool
  le_create :: "string \<Rightarrow> wa_error + WhatsmeowConnection"
  le_connect1 :: "wm_client option \<Rightarrow> wm_client option \<times> wa_error option"
  le_connect2 :: "wm_client option \<Rightarrow> wm_client option \<times> wa_error option"
  le_handler :: nat

type_synonym server_result = "life_world \<times> QpWhatsappServer \<times> server_error option"

definition Save :: "life_env \<Rightarrow> life_world \<Rightarrow> QpWhatsappServer \<Rightarrow> server_result" where
  "Save env w source =
     (case Server_Exists (le_db_ok env) (servers_table w) (Token source) of
        Inl err \<Rightarrow> (w, source, Some err)
      | Inr found \<Rightarrow>
          let source = source\<lparr>srv_Timestamp := Some (le_now env),
                Timestamps := (Timestamps source)\<lparr>ts_Update := Some (le_now env)\<rparr>\<rparr>;
              row = QpServer.truncate source
          in case (if found then Server_Update (le_db_ok env) (servers_table w) row
                   else Server_Add (le_db_ok env) (le_now env) (servers_table w) row) of
               (table, err) \<Rightarrow> (w\<lparr>servers_table := table\<rparr>, source, err))"

definition MarkVerified :: "life_env \<Rightarrow> life_world \<Rightarrow> QpWhatsappServer \<Rightarrow> bool \<Rightarrow> server_result" where
  "MarkVerified env w server v =
     (if Verified server \<noteq> v then Save env w (server\<lparr>Verified := v\<rparr>) else (w, server, None))"

definition ToggleDevel :: "life_env \<Rightarrow> life_world \<Rightarrow> QpWhatsappServer \<Rightarrow> server_result" where
  "ToggleDevel env w source = Save env w (source\<lparr>Devel := \<not> Devel source\<rparr>)"

definition SetOptions :: "life_env \<Rightarrow> life_world \<Rightarrow> QpWhatsappServer \<Rightarrow> WhatsappOptions \<Rightarrow> server_result" where
  "SetOptions env w source options =
     Save env w (source\<lparr>Groups := Groups options, Broadcasts := Broadcasts options,
       ReadReceipts := ReadReceipts options, Calls := Calls options, ReadUpdate := ReadUpdate options\<rparr>)"

section \<open>Start and stop\<close>

definition EnsureUnderlying :: "life_env \<Rightarrow> life_world \<Rightarrow> QpWhatsappServer \<Rightarrow> server_result" where
  "EnsureUnderlying env w source =
     (if length (Wid source) > 0 \<and> \<not> Verified source then (w, source, Some NotVerified)
      else if connection source = None then
        (case le_create env (Wid source) of
           Inl err \<Rightarrow>
             (if is_unauthorized err
              then (case MarkVerified env w source False of (w, source, _) \<Rightarrow> (w, source, Some (ConnectionError err)))
              else (w, source, Some (ConnectionError err)))
         | Inr cn \<Rightarrow> (w, source\<lparr>connection := Some cn\<rparr>, None))
      else (w, source, None))"

definition Disconnect :: "QpWhatsappServer \<Rightarrow> QpWhatsappServer" where
  "Disconnect source =
     (case connection source of
        None \<Rightarrow> source
      | Some _ \<Rightarrow> if Qp_IsConnected source then source\<lparr>connection := None\<rparr> else source)"

definition StartConnectionError :: "life_env \<Rightarrow> life_world \<Rightarrow> QpWhatsappServer \<Rightarrow> wa_error \<Rightarrow> server_result" where
  "StartConnectionError env w source err =
     (let source = Disconnect source;
          source = source\<lparr>msg_handler := Clear (msg_handler source)\<rparr>
      in case err of
           UnAuthorizedError _ \<Rightarrow> MarkVerified env w source False
         | _ \<Rightarrow> (w, source, Some (ConnectionError err)))"

text \<open>A connection per RabbitMQ dispatching stored for the server.\<close>

definition InitializeRabbitMQConnections :: "life_world \<Rightarrow> string \<Rightarrow> life_world" where
  "InitializeRabbitMQConnections w token =
     (let configs = filter (\<lambda>row. row_context row = token \<and> row_type row = DispatchingTypeRabbitMQ)
            (dw_table (life_dispatch w));
          strings = filter (\<lambda>c. c \<noteq> []) (map row_connection configs)
      in w\<lparr>life_dispatch := (life_dispatch w)\<lparr>dw_manager :=
           foldl (\<lambda>m c. fst (GetRabbitMQClient m c)) (dw_manager (life_dispatch w)) strings\<rparr>\<rparr>)"

definition attach :: "life_env \<Rightarrow> QpWhatsappServer \<Rightarrow> QpWhatsappServer" where
  "attach env source =
     (if \<not> IsAttached (msg_handler source)
      then source\<lparr>msg_handler := Register (msg_handler source) (le_handler env)\<rparr> else source)"

definition connect_server ::
    "(wm_client option \<Rightarrow> wm_client option \<times> wa_error option) \<Rightarrow> QpWhatsappServer \<Rightarrow> QpWhatsappServer \<times> wa_error option" where
  "connect_server result source =
     (case connection source of
        None \<Rightarrow> (source, None)
      | Some c \<Rightarrow> (case Connect result c of (c, err) \<Rightarrow> (source\<lparr>connection := Some c\<rparr>, err)))"

text \<open>\<open>finish_start\<close> is the last step of \<open>Start\<close>, \<open>start_connection\<close> its second half from the first connect on.\<close>

definition finish_start :: "life_env \<Rightarrow> life_world \<Rightarrow> QpWhatsappServer \<Rightarrow> server_result" where
  "finish_start env w source =
     (if Qp_IsValid source
      then (case MarkVerified env w source True of (w, source, _) \<Rightarrow> (w, source, None))
      else (w, source, None))"

definition start_connection :: "life_env \<Rightarrow> life_world \<Rightarrow> QpWhatsappServer \<Rightarrow> server_result" where
  "start_connection env w source =
     (case connect_server (le_connect1 env) source of
        (source, Some err) \<Rightarrow> StartConnectionError env w source err
      | (source, None) \<Rightarrow>
          if \<not> Qp_IsConnected source then
            (case connect_server (le_connect2 env) source of
               (source, Some err) \<Rightarrow> StartConnectionError env w source err
             | (source, None) \<Rightarrow> finish_start env w source)
          else finish_start env w source)"

definition Start :: "life_env \<Rightarrow> life_world \<Rightarrow> QpWhatsappServer \<Rightarrow> server_result" where
  "Start env w source =
     (case EnsureUnderlying env w source of
        (w, source, Some err) \<Rightarrow> (w, source, Some err)
      | (w, source, None) \<Rightarrow>
          if \<not> IsValidToStart (GetState source) then (w, source, Some (InvalidState (GetState source)))
          else
            let source = source\<lparr>StopRequested := False,
                  Timestamps := (Timestamps source)\<lparr>ts_Start := Some (le_now env)\<rparr>\<rparr>;
                source = attach env source;
                w = InitializeRabbitMQConnections w (Token source)
            in start_connection env w source)"

definition EnsureReady :: "life_env \<Rightarrow> life_world \<Rightarrow> QpWhatsappServer \<Rightarrow> server_result" where
  "EnsureReady env w source =
     (case EnsureUnderlying env w source of
        (w, source, Some err) \<Rightarrow> (w, source, Some err)
      | (w, source, None) \<Rightarrow>
          let source = attach env (source\<lparr>StopRequested := False\<rparr>)
          in case (if \<not> Qp_IsConnected source then connect_server (le_connect1 env) source
                   else (source, None)) of
               (source, Some err) \<Rightarrow> StartConnectionError env w source err
             | (source, None) \<Rightarrow>
                 (case MarkVerified env w source True of (w, source, _) \<Rightarrow> (w, source, None)))"

definition Stop :: "QpWhatsappServer \<Rightarrow> QpWhatsappServer" where
  "Stop source =
     (if \<not> StopRequested source then
        let source = Disconnect (source\<lparr>StopRequested := True\<rparr>)
        in source\<lparr>msg_handler := Clear (msg_handler source)\<rparr>
      else source)"

definition Restart :: "life_env \<Rightarrow> life_world \<Rightarrow> QpWhatsappServer \<Rightarrow> server_result" where
  "Restart env w source = Start env w (Stop source)"

definition Toggle :: "life_env \<Rightarrow> life_world \<Rightarrow> QpWhatsappServer \<Rightarrow> server_result" where
  "Toggle env w server = (if \<not> GetWorking server then Start env w server else (w, Stop server, None))"

definition UpdateConnection :: "life_env \<Rightarrow> QpWhatsappServer \<Rightarrow> WhatsmeowConnection \<Rightarrow> QpWhatsappServer" where
  "UpdateConnection env source cn =
     attach env (source\<lparr>connection := Some (UpdateHandler cn)\<rparr>)"

text \<open>Events of the connection that reach the server through its handler.\<close>

definition LoggedOut :: "life_env \<Rightarrow> life_world \<Rightarrow> QpWhatsappServer \<Rightarrow> server_result" where
  "LoggedOut env w server = MarkVerified env w server False"

definition OnConnected :: "life_env \<Rightarrow> life_world \<Rightarrow> QpWhatsappServer \<Rightarrow> server_result" where
  "OnConnected env w server =
     MarkVerified env w (server\<lparr>Timestamps := (Timestamps server)\<lparr>ts_Start := Some (le_now env)\<rparr>\<rparr>) True"

text \<open>\<open>logout\<close> and \<open>store_delete\<close> as for the connection; \<open>clear_ok\<close> is the clearing of the dispatchings.\<close>

definition Server_Delete ::
    "life_env \<Rightarrow> string option \<Rightarrow> string option \<Rightarrow> bool \<Rightarrow> life_world \<Rightarrow> QpWhatsappServer \<Rightarrow> server_result" where
  "Server_Delete env logout store_delete clear_ok w server =
     (case (case connection server of
              None \<Rightarrow> (server, None)
            | Some c \<Rightarrow> (case Delete logout store_delete c of
                (c, Some err) \<Rightarrow> (server\<lparr>connection := Some c\<rparr>, Some (DeleteConnectionError err))
              | (c, None) \<Rightarrow> (server\<lparr>connection := None\<rparr>, None))) of
        (server, Some err) \<Rightarrow> (w, server, Some err)
      | (server, None) \<Rightarrow>
          if \<not> clear_ok then (w, server, Some DispatchingClearError)
          else
            let w = w\<lparr>life_dispatch := (life_dispatch w)\<lparr>dw_table :=
                      Sql_Clear (dw_table (life_dispatch w)) (Token server)\<rparr>\<rparr>
            in case Server_DeleteRow (le_db_ok env) (dw_table (life_dispatch w)) (servers_table w) (Token server) of
                 (table, err) \<Rightarrow> (w\<lparr>servers_table := table\<rparr>, server, err))"

section \<open>Sending\<close>

record send_env =
  sd_remove9 :: bool
  sd_on_whatsapp :: "string \<Rightarrow> string \<Rightarrow> wa_error + string list"
  sd_send :: "WhatsappMessage \<Rightarrow> WhatsappMessage \<times> wa_error option"

definition resolve_digit9 :: "send_env \<Rightarrow> WhatsappMessage \<Rightarrow> wa_error + WhatsappMessage" where
  "resolve_digit9 senv msg =
     (if \<not> sd_remove9 senv then Inr msg
      else case GetPhoneIfValid (Chat_Id (Chat msg)) of
        Inl _ \<Rightarrow> Inr msg
      | Inr phone \<Rightarrow>
          (case RemoveDigit9IfElegible phone of
             Inl _ \<Rightarrow> Inr msg
           | Inr phoneWithout9 \<Rightarrow>
               (case sd_on_whatsapp senv phone phoneWithout9 of
                  Inl err \<Rightarrow> Inl err
                | Inr [] \<Rightarrow> Inr msg
                | Inr (valid # _) \<Rightarrow> Inr (msg\<lparr>Chat := (Chat msg)\<lparr>Chat_Id := valid\<rparr>\<rparr>))))"

text \<open>
  The result lists, beside the server and the announcements, the messages handed to the connection.
  \<open>send_default\<close> is the last part: the message is sent and, on success, processed as a message.
\<close>

type_synonym send_result = "QpWhatsappServer \<times> delivery list \<times> WhatsappMessage list \<times> server_error option"

definition send_one :: "handler_env \<Rightarrow> send_env \<Rightarrow> QpWhatsappServer \<Rightarrow> WhatsappMessage \<Rightarrow> string \<Rightarrow> send_result option" where
  "send_one env senv source msg from =
     (case sd_send senv msg of
        (sent_msg, Some err) \<Rightarrow> Some (source, [], [msg], Some (ConnectionError err))
      | (sent_msg, None) \<Rightarrow>
          map_option (\<lambda>(source, out). (source, out, [msg], None)) (Message env source sent_msg from))"

definition SendMessage :: "handler_env \<Rightarrow> send_env \<Rightarrow> QpWhatsappServer \<Rightarrow> WhatsappMessage \<Rightarrow> send_result option" where
  "SendMessage env senv source msg =
     (if connection source = None then Some (source, [], [], Some InvalidConnection)
      else case resolve_digit9 senv msg of
        Inl err \<Rightarrow> Some (source, [], [], Some (ConnectionError err))
      | Inr msg \<Rightarrow>
          if HasAttachment msg \<and> length (Text msg) > 0 \<and> MsgType msg = AudioMessageType then
            (case send_one env senv source (msg\<lparr>MsgType := TextMessageType, Attachment := None\<rparr>) ''text and audio'' of
               None \<Rightarrow> None
             | Some (source, out, sent1, Some err) \<Rightarrow> Some (source, out, sent1, Some err)
             | Some (source, out, sent1, None) \<Rightarrow>
                 let msg = (if length (Msg_Id msg) > 0 then msg\<lparr>Msg_Id := Msg_Id msg @ ''-audio''\<rparr> else msg);
                     msg = msg\<lparr>Text := []\<rparr>
                 in map_option (\<lambda>(source, out', sent1', err). (source, out @ out', sent1 @ sent1', err))
                      (send_one env senv source msg ''server send''))
          else send_one env senv source msg ''server send'')"

section \<open>Dispatchings of a server\<close>

definition GetDispatchingByType :: "QpDataDispatching \<Rightarrow> string \<Rightarrow> string \<Rightarrow> QpDispatching option" where
  "GetDispatchingByType source connectionString dispatchType =
     find (\<lambda>item. ConnectionString item = connectionString \<and> DType item = dispatchType) (Dispatchings source)"

definition GetDispatchingByFilter :: "QpDataDispatching \<Rightarrow> string \<Rightarrow> QpDispatching list" where
  "GetDispatchingByFilter source flt =
     filter (\<lambda>element. length flt = 0 \<or> Contains (ConnectionString element) flt) (Dispatchings source)"

definition GetWebhookDispatchings :: "QpDataDispatching \<Rightarrow> QpDispatching list" where
  "GetWebhookDispatchings source = filter IsWebhook (GetDispatchingByFilter source [])"

section \<open>The server table under the operations\<close>

definition servers_ok :: "QpServer list \<Rightarrow> bool" where
  "servers_ok table \<longleftrightarrow> distinct (map Token table) \<and> distinct (map Wid table)"

definition other_rows :: "string \<Rightarrow> QpServer list \<Rightarrow> QpServer list" where
  "other_rows token table = filter (\<lambda>row. Token row \<noteq> token) table"

definition touches :: "string \<Rightarrow> QpServer list \<Rightarrow> QpServer list \<Rightarrow> bool" where
  "touches token table table' \<longleftrightarrow>
     (servers_ok table \<longrightarrow> servers_ok table') \<and> other_rows token table' = other_rows token table"

lemma touches_refl [simp]: "touches token table table"
  by (simp add: touches_def)

lemma touches_trans: "touches token a b \<Longrightarrow> touches token b c \<Longrightarrow> touches token a c"
  by (simp add: touches_def)

lemma distinct_map_replace:
  assumes "distinct (map k xs)" "distinct (map f xs)" "\<forall>x\<in>set xs. k x \<noteq> a \<longrightarrow> f x \<noteq> f e"
    and same: "\<And>x. f (g x) = f e"
  shows "distinct (map f (map (\<lambda>x. if k x = a then g x else x) xs))"
  using assms(1-3)
proof (induction xs)
  case (Cons x xs)
  then have IH: "distinct (map f (map (\<lambda>x. if k x = a then g x else x) xs))" by simp
  show ?case
  proof (cases "k x = a")
    case True
    then have "\<forall>y\<in>set xs. k y \<noteq> a" using Cons.prems(1) by (auto simp: image_iff)
    then have "map (\<lambda>x. if k x = a then g x else x) xs = xs" by (simp add: map_idI)
    then show ?thesis using Cons.prems True \<open>\<forall>y\<in>set xs. k y \<noteq> a\<close> same by fastforce
  next
    case False
    then show ?thesis using Cons.prems IH same by fastforce
  qed
qed simp

lemma filter_key_unique:
  "distinct (map k xs) \<Longrightarrow> x \<in> set xs \<Longrightarrow> filter (\<lambda>y. k y = k x) xs = [x]"
  by (induction xs) (auto simp: filter_empty_conv image_iff)

lemma touches_Add: "Server_Add ok now table e = (table', err) \<Longrightarrow> touches (Token e) table table'"
  by (fastforce simp: Server_Add_def touches_def servers_ok_def other_rows_def split: if_splits)

lemma touches_Update:
  assumes "Server_Update ok table e = (table', err)"
  shows "touches (Token e) table table'"
proof (cases "table' = table")
  case False
  let ?g = "\<lambda>row. if Token row = Token e then e\<lparr>srv_Timestamp := srv_Timestamp row\<rparr> else row"
  have t: "table' = map ?g table" and
    c: "(\<exists>row\<in>set table. Token row = Token e) \<longrightarrow> (\<forall>row\<in>set table. Token row \<noteq> Token e \<longrightarrow> Wid row \<noteq> Wid e)"
    using assms False by (auto simp: Server_Update_def split: if_splits)
  have "\<exists>row\<in>set table. Token row = Token e"
  proof (rule ccontr)
    assume "\<not> ?thesis"
    then have "map ?g table = table" by (simp add: map_idI)
    then show False using False t by simp
  qed
  with c have c: "\<forall>row\<in>set table. Token row \<noteq> Token e \<longrightarrow> Wid row \<noteq> Wid e" by blast
  have tok: "map Token table' = map Token table" unfolding t by (auto intro: map_cong)
  have "servers_ok table \<longrightarrow> servers_ok table'"
    using distinct_map_replace [of Token table Wid "Token e" e "\<lambda>row. e\<lparr>srv_Timestamp := srv_Timestamp row\<rparr>"] c
    unfolding servers_ok_def tok by (simp add: t)
  moreover have "other_rows (Token e) (map ?g xs) = other_rows (Token e) xs" for xs
    by (induction xs) (auto simp: other_rows_def)
  ultimately show ?thesis by (simp add: touches_def t)
qed simp

lemma touches_DeleteRow:
  "Server_DeleteRow ok d table token = (table', err) \<Longrightarrow> touches token table table'"
  by (auto simp: Server_DeleteRow_def touches_def servers_ok_def other_rows_def distinct_map_filter
      split: if_splits)

text \<open>What an operation of a server may change: its own row, and never its token or session id.\<close>

definition own_result :: "life_world \<Rightarrow> QpWhatsappServer \<Rightarrow> server_result \<Rightarrow> bool" where
  "own_result w s r \<longleftrightarrow>
     touches (Token s) (servers_table w) (servers_table (fst r)) \<and>
     Token (fst (snd r)) = Token s \<and> Wid (fst (snd r)) = Wid s"

lemma own_result_triple [simp]:
  "own_result w s (w', s', err) \<longleftrightarrow>
     touches (Token s) (servers_table w) (servers_table w') \<and> Token s' = Token s \<and> Wid s' = Wid s"
  by (simp add: own_result_def)

lemma own_result_trans:
  "own_result w s (w1, s1, e1) \<Longrightarrow> own_result w1 s1 r \<Longrightarrow> own_result w s r"
  by (auto simp: own_result_def dest: touches_trans)

lemma own_Save: "own_result w s (Save env w s)"
  unfolding Save_def own_result_def Let_def
  by (auto simp: QpServer.truncate_def split: sum.split prod.split
      dest!: touches_Add touches_Update dest: sym)

lemma own_MarkVerified: "own_result w s (MarkVerified env w s v)"
  using own_Save [of w "s\<lparr>Verified := v\<rparr>" env] by (simp add: MarkVerified_def own_result_def)

lemma own_ToggleDevel: "own_result w s (ToggleDevel env w s)"
  using own_Save [of w "s\<lparr>Devel := \<not> Devel s\<rparr>" env] by (simp add: ToggleDevel_def own_result_def)

lemma own_SetOptions: "own_result w s (SetOptions env w s options)"
  unfolding SetOptions_def
  using own_Save [of w "s\<lparr>Groups := Groups options, Broadcasts := Broadcasts options,
       ReadReceipts := ReadReceipts options, Calls := Calls options, ReadUpdate := ReadUpdate options\<rparr>" env]
  by (simp add: own_result_def)

lemma own_EnsureUnderlying: "own_result w s (EnsureUnderlying env w s)"
  using own_MarkVerified [of w s env False]
  by (auto simp: EnsureUnderlying_def own_result_def split: sum.split prod.split)

lemma Disconnect_frame [simp]:
  "Token (Disconnect s) = Token s" "Wid (Disconnect s) = Wid s" "Verified (Disconnect s) = Verified s"
  "StopRequested (Disconnect s) = StopRequested s" "msg_handler (Disconnect s) = msg_handler s"
  by (simp_all add: Disconnect_def split: option.split)

lemma attach_frame [simp]:
  "Token (attach env s) = Token s" "Wid (attach env s) = Wid s" "Verified (attach env s) = Verified s"
  "StopRequested (attach env s) = StopRequested s" "connection (attach env s) = connection s"
  "IsAttached (msg_handler (attach env s))"
  by (simp_all add: attach_def IsAttached_def Register_def IsRegistered_def)

lemma connect_server_frame:
  "connect_server r s = (s', err) \<Longrightarrow> Token s' = Token s \<and> Wid s' = Wid s \<and> Verified s' = Verified s \<and>
     StopRequested s' = StopRequested s \<and> msg_handler s' = msg_handler s"
  by (auto simp: connect_server_def split: option.splits prod.splits)

lemma own_StartConnectionError:
  "Token t = Token s \<Longrightarrow> Wid t = Wid s \<Longrightarrow> own_result w s (StartConnectionError env w t err)"
  using own_MarkVerified [of w "(Disconnect t)\<lparr>msg_handler := Clear (msg_handler t)\<rparr>" env False]
  by (auto simp: StartConnectionError_def own_result_def Let_def split: wa_error.split)

lemma servers_InitializeRabbitMQConnections [simp]:
  "servers_table (InitializeRabbitMQConnections w token) = servers_table w"
  by (simp add: InitializeRabbitMQConnections_def Let_def)

lemma own_finish_start: "own_result w s (finish_start env w s)"
  using own_MarkVerified [of w s env True] by (auto simp: finish_start_def own_result_def split: prod.split)

lemma own_frame:
  "Token t = Token s \<Longrightarrow> Wid t = Wid s \<Longrightarrow> servers_table v = servers_table w \<Longrightarrow> own_result v t r \<Longrightarrow> own_result w s r"
  by (simp add: own_result_def)

lemma own_start_connection: "own_result w s (start_connection env w s)"
proof -
  obtain s1 e1 where c1: "connect_server (le_connect1 env) s = (s1, e1)" by force
  obtain s2 e2 where c2: "connect_server (le_connect2 env) s1 = (s2, e2)" by force
  have t: "Token s1 = Token s" "Wid s1 = Wid s" "Token s2 = Token s" "Wid s2 = Wid s"
    using connect_server_frame [OF c1] connect_server_frame [OF c2] by auto
  show ?thesis
    unfolding start_connection_def c1 c2 prod.case
    by (auto split: option.split intro: own_StartConnectionError t own_frame [OF _ _ refl own_finish_start]
        simp: c2)
qed

lemma own_Start: "own_result w s (Start env w s)"
proof -
  obtain w1 s1 e1 where u: "EnsureUnderlying env w s = (w1, s1, e1)" by (cases "EnsureUnderlying env w s") auto
  have o1: "own_result w s (w1, s1, e1)" using own_EnsureUnderlying [of w s env] u by simp
  define s2 where "s2 = attach env (s1\<lparr>StopRequested := False,
    Timestamps := (Timestamps s1)\<lparr>ts_Start := Some (le_now env)\<rparr>\<rparr>)"
  have "own_result w1 s1 (start_connection env (InitializeRabbitMQConnections w1 (Token s2)) s2)"
    by (rule own_frame [OF _ _ _ own_start_connection]) (simp_all add: s2_def)
  then have "own_result w s (start_connection env (InitializeRabbitMQConnections w1 (Token s2)) s2)"
    using o1 own_result_trans by blast
  then show ?thesis
    using o1 unfolding Start_def u prod.case Let_def s2_def [symmetric] by (auto split: option.split)
qed

lemma own_EnsureReady: "own_result w s (EnsureReady env w s)"
proof -
  obtain w1 s1 e1 where u: "EnsureUnderlying env w s = (w1, s1, e1)" by (cases "EnsureUnderlying env w s") auto
  have o1: "own_result w s (w1, s1, e1)" using own_EnsureUnderlying [of w s env] u by simp
  define s2 where "s2 = attach env (s1\<lparr>StopRequested := False\<rparr>)"
  have t2: "Token s2 = Token s1" "Wid s2 = Wid s1" by (simp_all add: s2_def)
  obtain s3 e3 where c3: "(if \<not> Qp_IsConnected s2 then connect_server (le_connect1 env) s2 else (s2, None)) = (s3, e3)"
    by force
  have t3: "Token s3 = Token s1" "Wid s3 = Wid s1"
    using connect_server_frame [of "le_connect1 env" s2 s3 e3] c3 t2 by (auto split: if_splits)
  have "own_result w1 s1 (case MarkVerified env w1 s3 True of (w, source, _) \<Rightarrow> (w, source, None))"
    using own_MarkVerified [of w1 s3 env True] t3 by (auto simp: own_result_def split: prod.split)
  then have "own_result w s (case MarkVerified env w1 s3 True of (w, source, _) \<Rightarrow> (w, source, None))"
    using o1 own_result_trans by blast
  moreover have "own_result w s (StartConnectionError env w1 s3 err)" for err
    using o1 own_StartConnectionError [OF t3, of w1 env err] own_result_trans by blast
  ultimately show ?thesis
    using o1 unfolding EnsureReady_def u prod.case Let_def s2_def [symmetric] c3
    by (simp split: option.split)
qed

lemma Stop_frame [simp]: "Token (Stop s) = Token s" "Wid (Stop s) = Wid s" "Verified (Stop s) = Verified s"
  "StopRequested (Stop s)"
  by (simp_all add: Stop_def Let_def)

lemma own_Restart: "own_result w s (Restart env w s)"
  using own_Start [of w "Stop s" env] by (simp add: Restart_def own_result_def)

lemma own_Toggle: "own_result w s (Toggle env w s)"
  using own_Start [of w s env] by (simp add: Toggle_def own_result_def)

lemma own_Server_Delete: "own_result w s (Server_Delete env logout store_delete clear_ok w s)"
  by (auto simp: Server_Delete_def own_result_def Let_def split: option.split prod.split dest: touches_DeleteRow)

datatype life_op =
  OpStart | OpEnsureReady | OpStop | OpRestart | OpToggle | OpSave | OpMark bool | OpSetOptions WhatsappOptions
| OpToggleDevel | OpUpdateConnection WhatsmeowConnection | OpLoggedOut | OpConnected
| OpDelete "string option" "string option" bool

fun life_op_result :: "life_env \<Rightarrow> life_world \<Rightarrow> QpWhatsappServer \<Rightarrow> life_op \<Rightarrow> server_result" where
  "life_op_result env w s OpStart = Start env w s"
| "life_op_result env w s OpEnsureReady = EnsureReady env w s"
| "life_op_result env w s OpStop = (w, Stop s, None)"
| "life_op_result env w s OpRestart = Restart env w s"
| "life_op_result env w s OpToggle = Toggle env w s"
| "life_op_result env w s OpSave = Save env w s"
| "life_op_result env w s (OpMark v) = MarkVerified env w s v"
| "life_op_result env w s (OpSetOptions x) = SetOptions env w s x"
| "life_op_result env w s OpToggleDevel = ToggleDevel env w s"
| "life_op_result env w s (OpUpdateConnection cn) = (w, UpdateConnection env s cn, None)"
| "life_op_result env w s OpLoggedOut = LoggedOut env w s"
| "life_op_result env w s OpConnected = OnConnected env w s"
| "life_op_result env w s (OpDelete x y z) = Server_Delete env x y z w s"

lemma own_life_op: "own_result w s (life_op_result env w s oper)"
proof (cases oper)
  case OpConnected
  then show ?thesis
    using own_MarkVerified [of w "s\<lparr>Timestamps := (Timestamps s)\<lparr>ts_Start := Some (le_now env)\<rparr>\<rparr>" env True]
    by (simp add: OnConnected_def own_result_def)
qed (simp_all add: own_Start own_EnsureReady own_Restart own_Toggle own_Save own_MarkVerified own_SetOptions
    own_ToggleDevel own_Server_Delete LoggedOut_def UpdateConnection_def)

text \<open>Any number of servers, known by number, over the one table; each event is an operation of one of them.\<close>

fun life_step :: "life_world \<times> (nat \<Rightarrow> QpWhatsappServer) \<Rightarrow> nat \<times> life_env \<times> life_op \<Rightarrow>
    life_world \<times> (nat \<Rightarrow> QpWhatsappServer)" where
  "life_step (w, ss) (i, env, oper) =
     (case life_op_result env w (ss i) oper of (w', s', err) \<Rightarrow> (w', ss(i := s')))"

text \<open>What every run keeps, relative to the table it starts from and the tokens of the servers.\<close>

definition in_life :: "QpServer list \<Rightarrow> (nat \<Rightarrow> string) \<Rightarrow> life_world \<times> (nat \<Rightarrow> QpWhatsappServer) \<Rightarrow> bool" where
  "in_life table0 tokens state \<longleftrightarrow>
     servers_ok (servers_table (fst state)) \<and> (\<forall>i. Token (snd state i) = tokens i) \<and>
     filter (\<lambda>row. Token row \<notin> range tokens) (servers_table (fst state)) =
     filter (\<lambda>row. Token row \<notin> range tokens) table0"

lemma touches_outside:
  assumes "touches (tokens i) table table'"
  shows "filter (\<lambda>row. Token row \<notin> range tokens) table' = filter (\<lambda>row. Token row \<notin> range tokens) table"
proof -
  have sub: "filter (\<lambda>row. Token row \<notin> range tokens) t =
      filter (\<lambda>row. Token row \<notin> range tokens) (other_rows (tokens i) t)" for t
    by (auto simp: other_rows_def intro!: filter_cong)
  show ?thesis using assms sub [of table] sub [of table'] by (simp add: touches_def)
qed

lemma life_step_in_life: "in_life table0 tokens s \<Longrightarrow> in_life table0 tokens (life_step s e)"
proof -
  assume ok: "in_life table0 tokens s"
  obtain w ss i env oper where s: "s = (w, ss)" "e = (i, env, oper)" by (metis prod_cases3 surj_pair)
  obtain w' s' err where r: "life_op_result env w (ss i) oper = (w', s', err)"
    by (cases "life_op_result env w (ss i) oper") auto
  have o: "touches (tokens i) (servers_table w) (servers_table w')" "Token s' = tokens i"
    using own_life_op [of w "ss i" env oper] r ok by (simp_all add: in_life_def s)
  show ?thesis
    using ok o touches_outside [where tokens = tokens and i = i, OF o(1)] unfolding in_life_def s by (simp add: r touches_def)
qed

interpretation life_run: step_invariant life_step "in_life table0 tokens" for table0 tokens
  by unfold_locales (rule life_step_in_life)

section \<open>Properties\<close>

text \<open>
  C14. Whatever sequence of starts, stops, restarts, saves, option changes, connection events and
  deletions a number of servers go through, with any database failures, the server table keeps unique
  tokens and session ids, no server changes its token, and the rows of all other servers stay as they
  were, in their order.
\<close>
theorem servers_isolated:
  assumes "servers_ok (servers_table w)"
  shows "case foldl life_step (w, ss) es of (w', ss') \<Rightarrow>
       servers_ok (servers_table w') \<and> (\<forall>i. Token (ss' i) = Token (ss i)) \<and>
       filter (\<lambda>row. Token row \<notin> range (\<lambda>i. Token (ss i))) (servers_table w') =
       filter (\<lambda>row. Token row \<notin> range (\<lambda>i. Token (ss i))) (servers_table w)"
proof -
  have "in_life (servers_table w) (\<lambda>i. Token (ss i)) (w, ss)" using assms by (simp add: in_life_def)
  from life_run.run_inv [OF this, of es] show ?thesis
    by (cases "foldl life_step (w, ss) es") (simp add: in_life_def)
qed

definition empty_world :: life_world where
  "empty_world = \<lparr>servers_table = [], life_dispatch =
     \<lparr>dw_table = [], dw_manager = \<lparr>clientManager = Map.empty, next_client = 0, closed_clients = []\<rparr>\<rparr>\<rparr>"

definition sample_life_env :: life_env where
  "sample_life_env = \<lparr>le_now = 7, le_db_ok = True, le_create = (\<lambda>wid. Inr sample_connection),
     le_connect1 = (\<lambda>_. (Some ((the (Client sample_connection))\<lparr>cl_IsConnected := True, cl_IsLoggedIn := True\<rparr>), None)),
     le_connect2 = (\<lambda>c. (c, None)), le_handler = 0\<rparr>"

theorem servers_isolated_witness:
  "servers_ok (servers_table (fst (foldl life_step (empty_world, \<lambda>_. sample_server)
     [(0, sample_life_env, OpSave), (1, sample_life_env, OpRestart), (0, sample_life_env, OpDelete None None True)])))"
proof -
  have "servers_ok (servers_table empty_world)" by (simp add: empty_world_def servers_ok_def)
  from servers_isolated [OF this, of "\<lambda>_. sample_server" "[(0, sample_life_env, OpSave),
      (1, sample_life_env, OpRestart), (0, sample_life_env, OpDelete None None True)]"]
  show ?thesis by (simp only: split_beta)
qed

text \<open>The row a save writes, and the three ways it goes.\<close>

abbreviation save_stamped :: "life_env \<Rightarrow> QpWhatsappServer \<Rightarrow> QpWhatsappServer" where
  "save_stamped env s \<equiv> s\<lparr>srv_Timestamp := Some (le_now env), Timestamps := (Timestamps s)\<lparr>ts_Update := Some (le_now env)\<rparr>\<rparr>"

lemma Save_cases:
  assumes "Save env w s = (w', s', err)"
  obtains (down) "\<not> le_db_ok env" "w' = w" "s' = s" "err = Some SqlError"
    | (update) table where "\<exists>row\<in>set (servers_table w). Token row = Token s" "s' = save_stamped env s" "servers_table w' = table"
        "Server_Update True (servers_table w) (QpServer.truncate (save_stamped env s)) = (table, err)"
    | (add) table where "\<not> (\<exists>row\<in>set (servers_table w). Token row = Token s)" "s' = save_stamped env s" "servers_table w' = table"
        "Server_Add True (le_now env) (servers_table w) (QpServer.truncate (save_stamped env s)) = (table, err)"
proof (cases "le_db_ok env")
  case False
  then show ?thesis using assms by (intro that(1)) (simp_all add: Save_def Server_Exists_def Let_def)
next
  case True
  let ?e = "QpServer.truncate (save_stamped env s)"
  show ?thesis
  proof (cases "\<exists>row\<in>set (servers_table w). Token row = Token s")
    case found: True
    obtain table err' where u: "Server_Update True (servers_table w) ?e = (table, err')" by force
    then show ?thesis using assms True found by (intro that(2) [OF found]) (auto simp: Save_def Server_Exists_def Let_def)
  next
    case new: False
    obtain table err' where u: "Server_Add True (le_now env) (servers_table w) ?e = (table, err')" by force
    then show ?thesis using assms True new by (intro that(3) [OF new]) (auto simp: Save_def Server_Exists_def Let_def)
  qed
qed

lemma filter_updated_row:
  assumes "filter (\<lambda>x. Token x = key) table = [r]" "Token e = key"
  shows "filter (\<lambda>x. Token x = key) (map (\<lambda>row. if Token row = key then e\<lparr>srv_Timestamp := srv_Timestamp row\<rparr> else row) table) =
    [e\<lparr>srv_Timestamp := srv_Timestamp r\<rparr>]"
proof -
  let ?g = "\<lambda>row. if Token row = key then e\<lparr>srv_Timestamp := srv_Timestamp row\<rparr> else row"
  have "filter (\<lambda>x. Token x = key) (map ?g xs) = map ?g (filter (\<lambda>x. Token x = key) xs)" for xs
    by (induction xs) (auto simp: assms(2))
  moreover have "Token r = key" using arg_cong [OF assms(1), of set] by auto
  ultimately show ?thesis using assms(1) by simp
qed



text \<open>
  Stopping a server leaves it without a connected connection and without handlers, in state Stopped,
  or Unverified when it has no connection left and was never verified, and stopping again changes
  nothing. An unverified state counts as working: a server that was toggled off in it is toggled off
  again, not started.
\<close>
theorem stop_outcome:
  assumes "\<not> StopRequested s"
  shows "\<not> Qp_IsConnected (Stop s) \<and> \<not> IsAttached (msg_handler (Stop s)) \<and> Stop (Stop s) = Stop s
     \<and> GetState (Stop s) = (if connection (Stop s) = None \<and> \<not> Verified s then UnVerified else Stopped)
     \<and> (GetState (Stop s) = UnVerified \<longrightarrow> Toggle env w (Stop s) = (w, Stop s, None))"
proof -
  have s: "Stop s = (Disconnect (s\<lparr>StopRequested := True\<rparr>))\<lparr>msg_handler := Clear (msg_handler s)\<rparr>"
    using assms by (simp add: Stop_def Let_def)
  have nc: "\<not> Qp_IsConnected (Stop s)"
    unfolding s by (auto simp: Disconnect_def Qp_IsConnected_def split: option.splits)
  have h: "\<not> IsAttached (msg_handler (Stop s))" unfolding s by (simp add: IsAttached_def Clear_def)
  have twice: "Stop (Stop s) = Stop s" by (simp add: Stop_def [of "Stop s"])
  have g: "GetState (Stop s) = (if connection (Stop s) = None \<and> \<not> Verified s then UnVerified else Stopped)"
    using nc by (simp add: GetState_def)
  have "GetState (Stop s) = UnVerified \<Longrightarrow> Toggle env w (Stop s) = (w, Stop s, None)"
    by (simp add: Toggle_def GetWorking_def IsValidToStart_def twice)
  with nc h twice g show ?thesis by blast
qed

theorem stop_outcome_witness: "GetState (Stop sample_server) = Stopped"
proof -
  have "\<not> StopRequested sample_server" by (simp add: sample_server_def)
  from stop_outcome [OF this, of sample_life_env empty_world] show ?thesis
    by (simp add: sample_server_def)
qed

section \<open>Starting again\<close>

lemma Save_error: "Save env w s = (w', s', err) \<Longrightarrow> err = None \<or> err = Some SqlError"
  by (auto simp: Save_def Server_Exists_def Server_Add_def Server_Update_def Let_def
      split: sum.splits prod.splits if_splits)

lemma Save_frame: "Save env w s = (w', s', err) \<Longrightarrow> Verified s' = Verified s \<and> connection s' = connection s \<and>
    StopRequested s' = StopRequested s \<and> msg_handler s' = msg_handler s"
  by (auto simp: Save_def Let_def split: sum.splits prod.splits)

lemma MarkVerified_frame:
  assumes "MarkVerified env w s v = (w', s', err)"
  shows "Verified s' = v \<and> connection s' = connection s \<and> StopRequested s' = StopRequested s \<and>
     msg_handler s' = msg_handler s \<and> (err = None \<or> err = Some SqlError)"
  using assms Save_frame [of env w "s\<lparr>Verified := v\<rparr>" w' s' err] Save_error [of env w "s\<lparr>Verified := v\<rparr>" w' s' err]
  by (auto simp: MarkVerified_def split: if_splits)

lemma connect_server_live:
  assumes "connection s = Some c" "\<not> IsConnecting c" "r (Client c) = (Some cl, None)"
    "cl_IsConnected cl" "cl_IsLoggedIn cl"
  shows "\<exists>s1. connect_server r s = (s1, None) \<and> Qp_IsConnected s1 \<and> Qp_IsValid s1 \<and> Qp_GetState s1 = Ready \<and>
     StopRequested s1 = StopRequested s \<and> msg_handler s1 = msg_handler s \<and> connection s1 \<noteq> None"
  using assms by (auto simp: connect_server_def Connect_def Let_def Qp_IsConnected_def Qp_IsValid_def Qp_GetState_def
      IsConnected_def IsValid_def GetStatus_def)

lemma stopped_valid_to_start:
  "StopRequested s \<Longrightarrow> connection s \<noteq> None \<Longrightarrow> IsValidToStart (GetState s)"
  by (simp add: GetState_def IsValidToStart_def)

text \<open>
  C7. Restarting recovers a server from any state it can be in: if it may be started at all, has or gets
  a connection that is not just connecting, and the client's connect succeeds with a logged-in session,
  the restart returns no error and leaves the server Ready, verified, with its handler attached and no
  stop requested.
\<close>
theorem restart_recovers:
  assumes "Wid s = [] \<or> Verified s"
    and "case connection (Stop s) of None \<Rightarrow> (\<exists>c. le_create env (Wid s) = Inr c \<and> \<not> IsConnecting c)
         | Some c \<Rightarrow> \<not> IsConnecting c"
    and "\<And>cl. \<exists>cl'. le_connect1 env cl = (Some cl', None) \<and> cl_IsConnected cl' \<and> cl_IsLoggedIn cl'"
  shows "case Restart env w s of (w', s', err) \<Rightarrow>
       err = None \<and> GetState s' = Ready \<and> Verified s' \<and> IsAttached (msg_handler s') \<and> \<not> StopRequested s'"
proof -
  obtain s1 c where u: "EnsureUnderlying env w (Stop s) = (w, s1, None)" and
    s1: "connection s1 = Some c" "\<not> IsConnecting c" "StopRequested s1"
    using assms(1,2) by (auto simp: EnsureUnderlying_def split: option.splits)
  define s2 where "s2 = attach env (s1\<lparr>StopRequested := False,
    Timestamps := (Timestamps s1)\<lparr>ts_Start := Some (le_now env)\<rparr>\<rparr>)"
  define w2 where "w2 = InitializeRabbitMQConnections w (Token s2)"
  obtain cl where cl: "le_connect1 env (Client c) = (Some cl, None)" "cl_IsConnected cl" "cl_IsLoggedIn cl"
    using assms(3) by blast
  have s2: "connection s2 = Some c" "\<not> StopRequested s2" "IsAttached (msg_handler s2)"
    using s1 by (simp_all add: s2_def)
  from connect_server_live [of s2 c "le_connect1 env", OF s2(1) s1(2) cl] obtain s3 where
    s3: "connect_server (le_connect1 env) s2 = (s3, None)" "Qp_IsConnected s3" "Qp_IsValid s3" "Qp_GetState s3 = Ready"
      "\<not> StopRequested s3" "IsAttached (msg_handler s3)" "connection s3 \<noteq> None" using s2 by auto
  obtain w4 s4 e4 where m: "MarkVerified env w2 s3 True = (w4, s4, e4)"
    by (cases "MarkVerified env w2 s3 True") auto
  have r: "Restart env w s = (w4, s4, None)"
    using stopped_valid_to_start [OF s1(3)] s1(1) s3 m
    unfolding Restart_def Start_def u prod.case Let_def s2_def [symmetric] w2_def [symmetric]
    by (simp add: start_connection_def finish_start_def)
  have "Qp_GetState s4 = Qp_GetState s3" using MarkVerified_frame [OF m] by (simp add: Qp_GetState_def)
  then show ?thesis
    unfolding r using MarkVerified_frame [OF m] s3 by (simp add: GetState_def)
qed

theorem restart_recovers_witness:
  "GetState (fst (snd (Restart sample_life_env empty_world sample_server))) = Ready"
proof -
  have st: "connection (Stop sample_server) = Some sample_connection"
    by (simp add: Stop_def Disconnect_def Let_def sample_server_def sample_connection_def Qp_IsConnected_def IsConnected_def)
  have "case Restart sample_life_env empty_world sample_server of (w', s', err) \<Rightarrow>
      err = None \<and> GetState s' = Ready \<and> Verified s' \<and> IsAttached (msg_handler s') \<and> \<not> StopRequested s'"
  proof (rule restart_recovers)
    show "case connection (Stop sample_server) of None \<Rightarrow> (\<exists>c. le_create sample_life_env (Wid sample_server) = Inr c \<and> \<not> IsConnecting c)
         | Some c \<Rightarrow> \<not> IsConnecting c" by (simp add: st) (simp add: sample_connection_def)
  qed (simp_all add: sample_life_env_def sample_server_def)
  then show ?thesis by (auto split: prod.splits)
qed

text \<open>
  When the first connect of a start fails, the handlers are cleared. An unauthorized session is
  marked unverified and the start then reports what saving the mark reported, so success if the
  database answers; any other error is returned and the mark is left alone.
\<close>
theorem start_connect_failure:
  assumes "connection s = Some c" "\<not> IsConnecting c" "IsValidToStart (GetState s)" "Wid s = [] \<or> Verified s"
    and "le_connect1 env (Client c) = (client', Some e)"
  shows "case Start env w s of (w', s', err) \<Rightarrow> \<not> IsAttached (msg_handler s') \<and> \<not> StopRequested s' \<and>
       (case e of UnAuthorizedError _ \<Rightarrow> \<not> Verified s' \<and> (err = None \<or> err = Some SqlError)
        | _ \<Rightarrow> Verified s' = Verified s \<and> err = Some (ConnectionError e) \<and> servers_table w' = servers_table w)"
proof -
  have u: "EnsureUnderlying env w s = (w, s, None)" using assms(1,4) by (auto simp: EnsureUnderlying_def)
  define s2 where "s2 = attach env (s\<lparr>StopRequested := False,
    Timestamps := (Timestamps s)\<lparr>ts_Start := Some (le_now env)\<rparr>\<rparr>)"
  define w2 where "w2 = InitializeRabbitMQConnections w (Token s2)"
  obtain s3 where s3: "connect_server (le_connect1 env) s2 = (s3, Some e)"
    using assms(1,2,5) by (simp add: connect_server_def Connect_def s2_def)
  have f: "\<not> StopRequested s3" "Verified s3 = Verified s"
    using connect_server_frame [OF s3] by (simp_all add: s2_def)
  have r: "Start env w s = StartConnectionError env w2 s3 e"
    using assms(3) s3 unfolding Start_def u prod.case Let_def s2_def [symmetric] w2_def [symmetric]
    by (simp add: start_connection_def)
  let ?d = "(Disconnect s3)\<lparr>msg_handler := Clear (msg_handler s3)\<rparr>"
  obtain w4 s4 e4 where m: "MarkVerified env w2 ?d False = (w4, s4, e4)" by (cases "MarkVerified env w2 ?d False") auto
  have "servers_table w2 = servers_table w" by (simp add: w2_def)
  then show ?thesis
    unfolding r StartConnectionError_def Let_def using m MarkVerified_frame [OF m] f
    by (auto simp: IsAttached_def Clear_def split: wa_error.split)
qed

theorem start_connect_failure_witness:
  "\<exists>w' s'. Start (sample_life_env\<lparr>le_connect1 := (\<lambda>c. (c, Some (UnAuthorizedError ''logged out'')))\<rparr>)
       empty_world sample_server = (w', s', None) \<and> \<not> Verified s'"
proof -
  let ?env = "sample_life_env\<lparr>le_connect1 := (\<lambda>c. (c, Some (UnAuthorizedError ''logged out'')))\<rparr>"
  obtain w' s' err where r: "Start ?env empty_world sample_server = (w', s', err)"
    by (cases "Start ?env empty_world sample_server") auto
  have h: "connection sample_server = Some sample_connection" "\<not> IsConnecting sample_connection"
    "Wid sample_server = [] \<or> Verified sample_server" "IsValidToStart (GetState sample_server)"
    by (simp_all add: sample_server_def sample_connection_def GetState_def Qp_GetState_def GetStatus_def IsValidToStart_def)
  from start_connect_failure [OF h(1,2,4,3), of ?env _ "UnAuthorizedError ''logged out''" empty_world]
  have "\<not> Verified s'" using r by simp
  moreover have "snd (snd (Start ?env empty_world sample_server)) = None" by code_simp
  ultimately show ?thesis using r by auto
qed

section \<open>Deleting\<close>

text \<open>
  A successful deletion leaves no connection, no row of the server and no dispatching row of it, and
  all rows of other servers; a failed one leaves the server table as it was, and the deletion can be
  repeated: once the connection is gone it succeeds as soon as the database answers.
\<close>
theorem delete_complete_or_repeatable:
  assumes "Server_Delete env logout store_delete clear_ok w s = (w', s', err)"
  shows "if err = None
     then connection s' = None \<and> (\<forall>row\<in>set (servers_table w'). Token row \<noteq> Token s) \<and>
          (\<forall>row\<in>set (dw_table (life_dispatch w')). row_context row \<noteq> Token s) \<and>
          other_rows (Token s) (servers_table w') = other_rows (Token s) (servers_table w)
     else servers_table w' = servers_table w \<and>
          (connection s' = None \<longrightarrow> (\<forall>env' x y. le_db_ok env' \<longrightarrow> snd (snd (Server_Delete env' x y True w' s')) = None)) \<and>
          (connection s' \<noteq> None \<longrightarrow> s' = s \<and> w' = w)"
proof -
  have del: "snd (Server_DeleteRow True (Sql_Clear d t) table t) = None" for d t table
    by (simp add: Server_DeleteRow_def Sql_Clear_def)
  have retry: "snd (snd (Server_Delete env' x y True w2 s2)) = None"
    if "connection s2 = None" "le_db_ok env'" for env' x y w2 s2
    using that del by (auto simp: Server_Delete_def Let_def split: prod.split) (metis snd_conv option.distinct(1))
  have own: "touches (Token s) (servers_table w) (servers_table w')"
    using own_Server_Delete [of w s env logout store_delete clear_ok] assms by simp
  have same: "Delete logout store_delete c = (c', Some e) \<Longrightarrow> c' = c" for c c' e
    by (auto simp: Delete_def split: option.splits if_splits)
  have ok: "err = None \<Longrightarrow> connection s' = None \<and> (\<forall>row\<in>set (servers_table w'). Token row \<noteq> Token s) \<and>
          (\<forall>row\<in>set (dw_table (life_dispatch w')). row_context row \<noteq> Token s)"
    using assms by (auto simp: Server_Delete_def Server_DeleteRow_def Sql_Clear_def Let_def
        split: option.splits prod.splits if_splits)
  have bad: "err \<noteq> None \<Longrightarrow> servers_table w' = servers_table w \<and> (connection s' \<noteq> None \<longrightarrow> s' = s \<and> w' = w)"
    using assms same by (auto simp: Server_Delete_def Server_DeleteRow_def Let_def
        split: option.splits prod.splits if_splits)
  show ?thesis
    using ok bad retry own by (auto simp: touches_def)
qed

theorem delete_complete_or_repeatable_witness:
  "connection (fst (snd (Server_Delete sample_life_env None None True empty_world sample_server))) = None"
proof -
  obtain w' s' err where r: "Server_Delete sample_life_env None None True empty_world sample_server = (w', s', err)"
    by (cases "Server_Delete sample_life_env None None True empty_world sample_server") auto
  have "snd (snd (Server_Delete sample_life_env None None True empty_world sample_server)) = None" by code_simp
  then show ?thesis using delete_complete_or_repeatable [OF r] r by simp
qed

section \<open>Sending audio with a text\<close>

text \<open>
  An audio message with a text is sent as two: first the text alone, without the attachment, then
  the audio without the text, under the given id with a suffix, or without one if none was given. When
  the text cannot be sent the audio is not sent either.
\<close>
theorem audio_with_text_sent_as_two:
  assumes "connection s \<noteq> None" "\<not> sd_remove9 senv" "HasAttachment msg" "Text msg \<noteq> []" "MsgType msg = AudioMessageType"
    and "valid_boolean (Groups s)" "valid_boolean (Broadcasts s)"
  shows "\<exists>s' out sent1 err. SendMessage env senv s msg = Some (s', out, sent1, err) \<and>
     (let body = msg\<lparr>MsgType := TextMessageType, Attachment := None\<rparr>;
          audio = msg\<lparr>Msg_Id := (if Msg_Id msg = [] then [] else Msg_Id msg @ ''-audio''), Text := []\<rparr>
      in case snd (sd_send senv body) of
           Some e \<Rightarrow> sent1 = [body] \<and> err = Some (ConnectionError e) \<and> out = [] \<and> s' = s
         | None \<Rightarrow> sent1 = [body, audio] \<and> err = map_option ConnectionError (snd (sd_send senv audio)))"
proof -
  define body where "body = msg\<lparr>MsgType := TextMessageType, Attachment := None\<rparr>"
  define audio where "audio = msg\<lparr>Msg_Id := (if Msg_Id msg = [] then [] else Msg_Id msg @ ''-audio''), Text := []\<rparr>"
  have audio: "audio = (if length (Msg_Id msg) > 0 then msg\<lparr>Msg_Id := Msg_Id msg @ ''-audio''\<rparr> else msg)\<lparr>Text := []\<rparr>"
    by (cases "Msg_Id msg = []") (simp_all add: audio_def)
  have send: "SendMessage env senv s msg =
     (case send_one env senv s body ''text and audio'' of
        None \<Rightarrow> None
      | Some (source, out, sent1, Some err) \<Rightarrow> Some (source, out, sent1, Some err)
      | Some (source, out, sent1, None) \<Rightarrow>
          map_option (\<lambda>(source, out', sent1', err). (source, out @ out', sent1 @ sent1', err))
            (send_one env senv source audio ''server send''))"
    using assms(1-5) by (cases "connection s") (simp_all add: SendMessage_def resolve_digit9_def audio body_def cong: option.case_cong)
  obtain m1 e1 where 1: "sd_send senv body = (m1, e1)" by force
  obtain m2 e2 where 2: "sd_send senv audio = (m2, e2)" by force
  show ?thesis
  proof (cases e1)
    case (Some e)
    then show ?thesis using 1 by (auto simp: send send_one_def Let_def simp flip: body_def audio_def)
  next
    case None
    obtain s1 out1 where h1: "Message env s m1 ''text and audio'' = Some (s1, out1)"
      using Message_total [OF assms(6,7)] by blast
    then have "valid_boolean (Groups s1)" "valid_boolean (Broadcasts s1)"
      using Message_options [OF h1] assms(6,7) by simp_all
    then obtain s2 out2 where h2: "Message env s1 m2 ''server send'' = Some (s2, out2)"
      using Message_total by blast
    show ?thesis using None 1 2 h1 h2
      by (cases e2) (auto simp: send send_one_def Let_def simp flip: body_def audio_def)
  qed
qed

definition sample_send_env :: send_env where
  "sample_send_env = \<lparr>sd_remove9 = False, sd_on_whatsapp = (\<lambda>_ _. Inr []), sd_send = (\<lambda>m. (m, None))\<rparr>"

definition sample_voice :: WhatsappMessage where
  "sample_voice = empty_message\<lparr>Msg_Id := ''AB'', MsgType := AudioMessageType, Text := ''hello'',
     Attachment := Some (empty_attachment\<lparr>Mimetype := ''audio/ogg''\<rparr>)\<rparr>"

theorem audio_with_text_sent_as_two_witness:
  "\<exists>s' out first second. SendMessage sample_handler_env sample_send_env sample_server sample_voice =
      Some (s', out, [first, second], None) \<and> Msg_Id second = ''AB-audio'' \<and> Text second = [] \<and> Text first = ''hello''"
proof -
  have h: "connection sample_server \<noteq> None" "\<not> sd_remove9 sample_send_env" "HasAttachment sample_voice"
    "Text sample_voice \<noteq> []" "MsgType sample_voice = AudioMessageType"
    "valid_boolean (Groups sample_server)" "valid_boolean (Broadcasts sample_server)"
    by (simp_all add: sample_server_def sample_send_env_def sample_voice_def HasAttachment_def
        valid_boolean_def boolean_consts)
  from audio_with_text_sent_as_two [OF h, of sample_handler_env] show ?thesis
    by (auto simp: sample_send_env_def Let_def sample_voice_def)
qed

end
