(* ===== verification/Chats.thy ===== *)
theory Chats
  imports MessageStore Attachments
begin

text \<open>
  Who a chat is: names, titles, phones and LIDs of contacts, \<open>src/whatsmeow/whatsmeow_extensions+chat.go\<close>,
  \<open>whatsmeow_contact_maps.go\<close>, \<open>whatsmeow_contact_manager.go\<close>, \<open>whatsmeow_contact_helpers.go\<close> and the
  cache of group titles, \<open>whatsmeow_group_info_cache.go\<close>. The identifiers (JIDs), the device store and
  the server are third-party: how a JID is printed and parsed and what the store and the server answer
  are the fields of \<open>contact_env\<close>, an error or an empty JID being \<open>None\<close>. The two maps between phones and
  LIDs and the group cache are the state.
\<close>

section \<open>Identifiers and surroundings\<close>

record contact_info =
  Found :: bool
  FullName :: string
  BusinessName :: string
  PushName :: string
  FirstName :: string

record contact_env =
  ce_now :: time
  ce_client :: bool
  ce_store :: bool
  ce_string :: "JID \<Rightarrow> string"
  ce_parse :: "string \<Rightarrow> JID option"
  ce_pn_for_lid :: "JID \<Rightarrow> JID option"
  ce_lid_for_pn :: "JID \<Rightarrow> JID option"
  ce_contact :: "JID \<Rightarrow> contact_info option"
  ce_group_info :: "JID \<Rightarrow> string option"

record chat_state =
  lidToPhone :: "string \<rightharpoonup> string"
  phoneToLID :: "string \<rightharpoonup> string"
  GroupInfoCache :: "string Cache"

datatype contact_error = NoClient | NoStore | InvalidLID | NoPhoneForLID | NoPhoneForContact

definition LID_SUFFIX :: string where "LID_SUFFIX = ''@'' @ WHATSAPP_SERVERDOMAIN_LID"

text \<open>\<open>ToNonAD\<close> drops the device.\<close>

definition ToNonAD :: "JID \<Rightarrow> JID" where "ToNonAD jid = jid\<lparr>jid_Device := 0\<rparr>"

definition CleanJID :: "JID \<Rightarrow> JID" where
  "CleanJID jid = \<lparr>jid_User = jid_User jid, jid_Device = 0, jid_Server = jid_Server jid\<rparr>"

section \<open>The maps between phones and LIDs\<close>

definition TrimPlus :: "string \<Rightarrow> string" where
  "TrimPlus phone = (if HasPrefix phone ''+'' then drop 1 phone else phone)"

definition normalizePhone :: "string \<Rightarrow> string" where "normalizePhone phone = TrimPlus phone"

definition formatPhone :: "string \<Rightarrow> string" where
  "formatPhone phone = (if phone = [] then [] else if HasPrefix phone ''+'' then phone else ''+'' @ phone)"

definition GetPhoneFromLIDMap :: "chat_state \<Rightarrow> string \<Rightarrow> string option" where
  "GetPhoneFromLIDMap c lid = map_option formatPhone (lidToPhone c lid)"

definition SetPhoneFromLIDMap :: "chat_state \<Rightarrow> string \<Rightarrow> string \<Rightarrow> chat_state" where
  "SetPhoneFromLIDMap c lid phone =
     (let normalizedPhone = normalizePhone phone;
          c = c\<lparr>lidToPhone := (lidToPhone c)(lid \<mapsto> normalizedPhone)\<rparr>
      in if length normalizedPhone > 0
         then c\<lparr>phoneToLID := (phoneToLID c)(normalizedPhone \<mapsto> lid)\<rparr> else c)"

definition GetLIDFromPhoneMap :: "chat_state \<Rightarrow> string \<Rightarrow> string option" where
  "GetLIDFromPhoneMap c phone = phoneToLID c (normalizePhone phone)"

definition SetLIDFromPhoneMap :: "chat_state \<Rightarrow> string \<Rightarrow> string \<Rightarrow> chat_state" where
  "SetLIDFromPhoneMap c phone lid =
     (let normalizedPhone = normalizePhone phone;
          c = c\<lparr>phoneToLID := (phoneToLID c)(normalizedPhone \<mapsto> lid)\<rparr>
      in if length lid > 0 then c\<lparr>lidToPhone := (lidToPhone c)(lid \<mapsto> normalizedPhone)\<rparr> else c)"

definition GetLIDFromPhone :: "contact_env \<Rightarrow> chat_state \<Rightarrow> string \<Rightarrow> chat_state \<times> (contact_error + string)" where
  "GetLIDFromPhone env c phone =
     (let normalized = TrimPlus (TrimSpace phone)
      in case GetLIDFromPhoneMap c normalized of
           Some cachedLID \<Rightarrow> (c, Inr cachedLID)
         | None \<Rightarrow>
             if \<not> ce_client env then (c, Inl NoClient)
             else if \<not> ce_store env then (c, Inl NoStore)
             else
               (case ce_lid_for_pn env
                       \<lparr>jid_User = normalized, jid_Device = 0, jid_Server = WHATSAPP_SERVERDOMAIN_USER\<rparr> of
                  Some lidJID \<Rightarrow>
                    let lid = ce_string env (ToNonAD lidJID)
                    in (SetLIDFromPhoneMap c normalized lid, Inr lid)
                | None \<Rightarrow> (c, Inr [])))"

definition GetPhoneFromLID :: "contact_env \<Rightarrow> chat_state \<Rightarrow> string \<Rightarrow> chat_state \<times> (contact_error + string)" where
  "GetPhoneFromLID env c lid =
     (case GetPhoneFromLIDMap c lid of
        Some cachedPhone \<Rightarrow> (c, Inr cachedPhone)
      | None \<Rightarrow>
          if \<not> ce_client env then (c, Inl NoClient)
          else if \<not> ce_store env then (c, Inl NoStore)
          else
            (case ce_parse env lid of
               None \<Rightarrow> (c, Inl InvalidLID)
             | Some lidJID \<Rightarrow>
                 (case ce_pn_for_lid env lidJID of
                    None \<Rightarrow> (c, Inl NoPhoneForLID)
                  | Some phoneJID \<Rightarrow>
                      let phone = jid_User phoneJID
                      in (SetPhoneFromLIDMap c lid phone, Inr phone))))"

text \<open>The last case of an LID is the one without an error and without a phone: both are returned.\<close>

definition GetPhoneFromContactId ::
    "contact_env \<Rightarrow> chat_state \<Rightarrow> string \<Rightarrow> chat_state \<times> (contact_error + string)" where
  "GetPhoneFromContactId env c contactId =
     (case (if Contains contactId USER_SUFFIX then GetPhoneIfValid contactId else Inl NotValidPhone) of
        Inr phone \<Rightarrow> (c, Inr phone)
      | Inl _ \<Rightarrow>
          if Contains contactId LID_SUFFIX then
            (case GetPhoneFromLID env c contactId of
               (c, Inl err) \<Rightarrow> (c, Inl err)
             | (c, Inr retrieved) \<Rightarrow>
                 if length retrieved > 0 then
                   (case GetPhoneIfValid retrieved of
                      Inr phone \<Rightarrow> (c, Inr phone)
                    | Inl _ \<Rightarrow> (c, Inl NoPhoneForContact))
                 else (c, Inr []))
          else (c, Inl NoPhoneForContact))"

section \<open>Names and titles\<close>

definition ExtractContactName :: "contact_info \<Rightarrow> string" where
  "ExtractContactName cInfo =
     (if \<not> Found cInfo then []
      else if length (FullName cInfo) > 0 then FullName cInfo
      else if length (BusinessName cInfo) > 0 then BusinessName cInfo
      else if length (PushName cInfo) > 0 then PushName cInfo
      else if length (FirstName cInfo) > 0 then FirstName cInfo
      else [])"

definition getContactNamePriority :: "contact_info \<Rightarrow> nat" where
  "getContactNamePriority info =
     (if length (FullName info) > 0 then 1
      else if length (BusinessName info) > 0 then 2
      else if length (PushName info) > 0 then 3
      else if length (FirstName info) > 0 then 4
      else 999)"

definition GetContactName :: "contact_env \<Rightarrow> JID \<Rightarrow> string" where
  "GetContactName env jid =
     (if \<not> ce_client env \<or> \<not> ce_store env then []
      else case ce_contact env (CleanJID jid) of
             None \<Rightarrow> []
           | Some cInfo \<Rightarrow> ExtractContactName cInfo)"

definition DEFAULTEXPIRATION_WGIC :: int where "DEFAULTEXPIRATION_WGIC = 1 * hour_ns"

definition Group_Append :: "contact_env \<Rightarrow> chat_state \<Rightarrow> string \<Rightarrow> string \<Rightarrow> string \<Rightarrow> chat_state \<times> bool" where
  "Group_Append env c gid title from =
     (case Lib_SetCacheItem (GroupInfoCache c)
             \<lparr>Key = gid, Value = title, Expiration = ce_now env + DEFAULTEXPIRATION_WGIC\<rparr> (''groupinfo-'' @ from) of
        (cache, new) \<Rightarrow> (c\<lparr>GroupInfoCache := cache\<rparr>, new))"

definition Group_Get :: "contact_env \<Rightarrow> chat_state \<Rightarrow> string \<Rightarrow> chat_state \<times> string" where
  "Group_Get env c gid =
     (case GetAny (ce_now env) (GroupInfoCache c) gid of
        (cache, None) \<Rightarrow> (c\<lparr>GroupInfoCache := cache\<rparr>, [])
      | (cache, Some title) \<Rightarrow> (c\<lparr>GroupInfoCache := cache\<rparr>, title))"

definition GetChatTitle :: "contact_env \<Rightarrow> chat_state \<Rightarrow> JID \<Rightarrow> chat_state \<times> string" where
  "GetChatTitle env c jid =
     (if \<not> ce_client env then (c, [])
      else if jid_Server jid = WHATSAPP_SERVERDOMAIN_GROUP then
        (case Group_Get env c (ce_string env jid) of
           (c, title) \<Rightarrow>
             if length title > 0 then (c, NormalizeForTitle title)
             else (case ce_group_info env jid of
                     None \<Rightarrow> (c, [])
                   | Some name \<Rightarrow>
                       (fst (Group_Append env c (ce_string env jid) name ''GetChatTitle''), NormalizeForTitle name)))
      else
        let title = GetContactName env jid
        in (c, if length title > 0 then NormalizeForTitle title else []))"

definition NewWhatsappChatRaw :: "contact_env \<Rightarrow> chat_state \<Rightarrow> JID \<Rightarrow> chat_state \<times> WhatsappChat" where
  "NewWhatsappChatRaw env c jid =
     (case GetChatTitle env c jid of
        (c, title) \<Rightarrow>
          let chat = empty_chat\<lparr>Chat_Id := jid_User jid @ ''@'' @ jid_Server jid, Title := title\<rparr>
          in if jid_Server jid = WHATSAPP_SERVERDOMAIN_USER then
               (case GetPhoneFromContactId env c (Chat_Id chat) of
                  (c, Inl _) \<Rightarrow> (c, chat)
                | (c, Inr phone) \<Rightarrow>
                    if length phone > 0 then
                      let chat = chat\<lparr>Phone := phone\<rparr>
                      in (case GetLIDFromPhone env c (Phone chat) of
                            (c, Inl _) \<Rightarrow> (c, chat)
                          | (c, Inr lid) \<Rightarrow> (c, if length lid > 0 then chat\<lparr>LId := lid\<rparr> else chat))
                    else (c, chat))
             else if jid_Server jid = WHATSAPP_SERVERDOMAIN_LID then
               (case GetPhoneFromContactId env c (Chat_Id chat) of
                  (c, Inl _) \<Rightarrow> (c, chat)
                | (c, Inr phone) \<Rightarrow>
                    (c, if length phone > 0 then chat\<lparr>Phone := phone, LId := Chat_Id chat\<rparr> else chat))
             else (c, chat))"

definition enrichParticipantName :: "contact_env \<Rightarrow> WhatsappChat \<Rightarrow> JID \<Rightarrow> WhatsappChat" where
  "enrichParticipantName env participant senderJID =
     (let name = GetContactName env senderJID
      in if length name > 0 then participant\<lparr>Title := NormalizeForTitle name\<rparr> else participant)"

section \<open>The contact list\<close>

text \<open>
  \<open>GetContactsFromDevice\<close> ranges over the stored contacts, in whatever order the map gives, and keeps
  one entry per phone. \<open>contact_key\<close> is the key, with the LID and the E164 phone found on the way.
\<close>

type_synonym contact_map = "(string \<times> WhatsappChat \<times> contact_info) list"

definition is_lid :: "contact_env \<Rightarrow> JID \<Rightarrow> bool" where
  "is_lid env jid \<longleftrightarrow> Contains (ce_string env jid) LID_SUFFIX"

definition e164_or_empty :: "string \<Rightarrow> string" where
  "e164_or_empty phone = (case GetPhoneIfValid phone of Inl _ \<Rightarrow> [] | Inr p \<Rightarrow> p)"

definition contact_key :: "contact_env \<Rightarrow> JID \<Rightarrow> string \<times> string \<times> string" where
  "contact_key env jid =
     (if is_lid env jid then
        (case ce_pn_for_lid env jid of
           Some pnJID \<Rightarrow> (jid_User pnJID, ce_string env (ToNonAD jid), e164_or_empty (jid_User pnJID))
         | None \<Rightarrow> (ce_string env jid, [], []))
      else
        (jid_User jid,
         (case ce_lid_for_pn env jid of Some lidJID \<Rightarrow> ce_string env (ToNonAD lidJID) | None \<Rightarrow> []),
         e164_or_empty (jid_User jid)))"

definition first_contact :: "contact_env \<Rightarrow> JID \<Rightarrow> contact_info \<Rightarrow> WhatsappChat" where
  "first_contact env jid info =
     (case contact_key env jid of
        (phoneNumber, lid, phoneE164) \<Rightarrow>
          \<lparr>Chat_Id = (if length phoneE164 > 0 \<and> is_lid env jid then phoneNumber @ USER_SUFFIX
                      else ce_string env jid),
           LId = lid, Phone = phoneE164, Title = ExtractContactName info\<rparr>)"

definition better_title :: "contact_info \<Rightarrow> WhatsappChat \<times> contact_info \<Rightarrow> WhatsappChat \<times> contact_info" where
  "better_title info entry =
     (case entry of (chat, known) \<Rightarrow>
        if length (ExtractContactName info) > 0 \<and>
           (length (Title chat) = 0 \<or> getContactNamePriority info < getContactNamePriority known)
        then (chat\<lparr>Title := ExtractContactName info\<rparr>, info) else (chat, known))"

definition merge_contact :: "contact_env \<Rightarrow> JID \<Rightarrow> contact_info \<Rightarrow> WhatsappChat \<times> contact_info \<Rightarrow> WhatsappChat \<times> contact_info" where
  "merge_contact env jid info entry =
     (case (contact_key env jid, entry) of
        ((phoneNumber, lid, phoneE164), (chat, known)) \<Rightarrow>
          if is_lid env jid then
            let chat = chat\<lparr>LId := ce_string env (ToNonAD jid)\<rparr>;
                chat = (if length phoneE164 > 0 then chat\<lparr>Chat_Id := phoneNumber @ USER_SUFFIX\<rparr>
                        else if length (Chat_Id chat) = 0 then chat\<lparr>Chat_Id := ce_string env jid\<rparr> else chat)
            in better_title info (chat, known)
          else
            let chat = chat\<lparr>Chat_Id := ce_string env jid\<rparr>;
                chat = (if length (LId chat) = 0 then chat\<lparr>LId := lid\<rparr> else chat)
            in (case better_title info (chat, known) of
                  (chat, known) \<Rightarrow>
                    (if length phoneE164 > 0 \<and> length (Phone chat) = 0 then chat\<lparr>Phone := phoneE164\<rparr> else chat,
                     known)))"

definition add_contact :: "contact_env \<Rightarrow> contact_map \<Rightarrow> JID \<times> contact_info \<Rightarrow> contact_map" where
  "add_contact env contactMap contact =
     (case contact of (jid, info) \<Rightarrow>
        let phoneNumber = fst (contact_key env jid)
        in case map_of contactMap phoneNumber of
             None \<Rightarrow> AList.update phoneNumber (first_contact env jid info, info) contactMap
           | Some entry \<Rightarrow> AList.update phoneNumber (merge_contact env jid info entry) contactMap)"

definition GetContactsFromDevice :: "contact_env \<Rightarrow> (JID \<times> contact_info) list option \<Rightarrow> WhatsappChat list" where
  "GetContactsFromDevice env contacts =
     (case contacts of
        None \<Rightarrow> []
      | Some cs \<Rightarrow> map (fst \<circ> snd) (foldl (add_contact env) [] cs))"

section \<open>One contact per phone\<close>

definition key_of :: "contact_env \<Rightarrow> JID \<times> contact_info \<Rightarrow> string" where
  "key_of env contact = fst (contact_key env (fst contact))"

text \<open>The entry of a key is titled by the best name among the contacts that share the key.\<close>

definition best_named :: "contact_info list \<Rightarrow> WhatsappChat \<times> contact_info \<Rightarrow> bool" where
  "best_named infos entry \<longleftrightarrow>
     (if \<forall>i\<in>set infos. ExtractContactName i = [] then Title (fst entry) = []
      else snd entry \<in> set infos \<and> Title (fst entry) = ExtractContactName (snd entry) \<and> Title (fst entry) \<noteq> [] \<and>
           (\<forall>i\<in>set infos. ExtractContactName i \<noteq> [] \<longrightarrow>
              getContactNamePriority (snd entry) \<le> getContactNamePriority i))"

lemma better_title_named:
  assumes "best_named infos (chat, known)"
  shows "best_named (infos @ [info]) (better_title info (chat, known))"
  using assms by (auto simp: best_named_def better_title_def split: if_splits)

lemma best_named_Title: "Title a = Title b \<Longrightarrow> best_named infos (a, i) = best_named infos (b, i)"
  by (simp add: best_named_def)

lemma merge_contact_named:
  assumes "best_named infos entry"
  shows "best_named (infos @ [info]) (merge_contact env jid info entry)"
proof -
  obtain chat known where e: "entry = (chat, known)" by force
  obtain p l x where k: "contact_key env jid = (p, l, x)" by (cases "contact_key env jid") auto
  have n: "Title c = Title chat \<Longrightarrow> best_named (infos @ [info]) (better_title info (c, known))" for c
    using assms best_named_Title [of c chat infos known] better_title_named [of infos c known info] e by simp
  show ?thesis
  proof (cases "is_lid env jid")
    case True
    then show ?thesis unfolding merge_contact_def e k by (auto simp: Let_def intro!: n)
  next
    case False
    define c where "c = (let c = chat\<lparr>Chat_Id := ce_string env jid\<rparr> in if length (LId c) = 0 then c\<lparr>LId := l\<rparr> else c)"
    have c: "Title c = Title chat" by (simp add: c_def Let_def)
    obtain d i where d: "better_title info (c, known) = (d, i)" by force
    have m: "merge_contact env jid info entry =
        (if length x > 0 \<and> length (Phone d) = 0 then d\<lparr>Phone := x\<rparr> else d, i)"
      using False d unfolding merge_contact_def e k c_def by (simp add: Let_def)
    show ?thesis using n [OF c] best_named_Title [of d "d\<lparr>Phone := x\<rparr>" "infos @ [info]" i] unfolding m d by simp
  qed
qed

lemma first_contact_named: "best_named [info] (first_contact env jid info, info)"
  by (simp add: best_named_def first_contact_def split: prod.split)

definition contacts_ok :: "contact_env \<Rightarrow> (JID \<times> contact_info) list \<Rightarrow> contact_map \<Rightarrow> bool" where
  "contacts_ok env cs m \<longleftrightarrow>
     distinct (map fst m) \<and>
     (\<forall>k. case map_of m k of
            None \<Rightarrow> filter (\<lambda>c. key_of env c = k) cs = []
          | Some entry \<Rightarrow> filter (\<lambda>c. key_of env c = k) cs \<noteq> [] \<and>
              best_named (map snd (filter (\<lambda>c. key_of env c = k) cs)) entry)"

lemma add_contact_ok:
  assumes "contacts_ok env cs m"
  shows "contacts_ok env (cs @ [c]) (add_contact env m c)"
proof -
  obtain jid info where c: "c = (jid, info)" by force
  define k where "k = fst (contact_key env jid)"
  have kc: "key_of env c = k" by (simp add: key_of_def c k_def)
  define entry where "entry = (case map_of m k of None \<Rightarrow> (first_contact env jid info, info)
     | Some e \<Rightarrow> merge_contact env jid info e)"
  have a: "add_contact env m c = AList.update k entry m"
    by (simp add: add_contact_def c k_def [symmetric] entry_def Let_def split: option.split)
  have old: "case map_of m j of None \<Rightarrow> filter (\<lambda>c. key_of env c = j) cs = []
      | Some e \<Rightarrow> filter (\<lambda>c. key_of env c = j) cs \<noteq> [] \<and> best_named (map snd (filter (\<lambda>c. key_of env c = j) cs)) e" for j
    using assms by (simp add: contacts_ok_def)
  have new: "best_named (map snd (filter (\<lambda>c. key_of env c = k) (cs @ [c]))) entry"
    using old [of k] kc merge_contact_named first_contact_named
    by (cases "map_of m k") (simp_all add: entry_def c)
  have "case map_of (AList.update k entry m) j of None \<Rightarrow> filter (\<lambda>c. key_of env c = j) (cs @ [c]) = []
      | Some e \<Rightarrow> filter (\<lambda>c. key_of env c = j) (cs @ [c]) \<noteq> [] \<and>
          best_named (map snd (filter (\<lambda>c. key_of env c = j) (cs @ [c]))) e" for j
    using new old [of j] kc by (cases "j = k"; cases "map_of m j") (simp_all add: alist_map_of_update)
  then show ?thesis
    using assms unfolding a contacts_ok_def by (simp add: distinct_update)
qed

lemma contacts_ok_foldl: "contacts_ok env cs (foldl (add_contact env) [] cs)"
proof (induction cs rule: rev_induct)
  case Nil
  show ?case by (simp add: contacts_ok_def)
next
  case (snoc c cs)
  from add_contact_ok [OF snoc.IH, of c] show ?case by simp
qed

text \<open>The title a chat of the key \<open>k\<close> must have.\<close>

definition best_title :: "contact_env \<Rightarrow> (JID \<times> contact_info) list \<Rightarrow> string \<Rightarrow> string \<Rightarrow> bool" where
  "best_title env cs k title \<longleftrightarrow>
     (let named = filter (\<lambda>c. key_of env c = k \<and> ExtractContactName (snd c) \<noteq> []) cs
      in if named = [] then title = []
         else \<exists>d\<in>set named. title = ExtractContactName (snd d) \<and>
                (\<forall>e\<in>set named. getContactNamePriority (snd d) \<le> getContactNamePriority (snd e)))"

lemma best_named_title:
  assumes "best_named (map snd (filter (\<lambda>d. key_of env d = k) cs)) (chat, info)"
  shows "best_title env cs k (Title chat)"
proof (cases "\<forall>d\<in>set cs. key_of env d = k \<longrightarrow> ExtractContactName (snd d) = []")
  case True
  then have "filter (\<lambda>c. key_of env c = k \<and> ExtractContactName (snd c) \<noteq> []) cs = []"
    by (auto simp: filter_empty_conv)
  moreover have "Title chat = []" using assms True by (auto simp: best_named_def split: if_splits)
  ultimately show ?thesis by (simp add: best_title_def)
next
  case False
  then have n: "filter (\<lambda>c. key_of env c = k \<and> ExtractContactName (snd c) \<noteq> []) cs \<noteq> []"
    by (auto simp: filter_empty_conv)
  have b: "info \<in> snd ` {d \<in> set cs. key_of env d = k}" "Title chat = ExtractContactName info" "Title chat \<noteq> []"
    "\<forall>i\<in>snd ` {d \<in> set cs. key_of env d = k}. ExtractContactName i \<noteq> [] \<longrightarrow>
       getContactNamePriority info \<le> getContactNamePriority i"
    using assms False by (auto simp: best_named_def split: if_splits)
  then obtain d where d: "d \<in> set cs" "key_of env d = k" "snd d = info" by auto
  let ?n = "filter (\<lambda>c. key_of env c = k \<and> ExtractContactName (snd c) \<noteq> []) cs"
  have "d \<in> set ?n" using d b(2,3) by simp
  moreover have "\<forall>e\<in>set ?n. getContactNamePriority (snd d) \<le> getContactNamePriority (snd e)"
    using b(4) d(3) by force
  ultimately show ?thesis using n b(2) d(3) unfolding best_title_def Let_def by (auto simp del: split_paired_Ex)
qed

lemma contacts_okD:
  "contacts_ok env cs m \<Longrightarrow> case map_of m k of None \<Rightarrow> filter (\<lambda>c. key_of env c = k) cs = []
     | Some entry \<Rightarrow> filter (\<lambda>c. key_of env c = k) cs \<noteq> [] \<and>
         best_named (map snd (filter (\<lambda>c. key_of env c = k) cs)) entry"
  by (simp add: contacts_ok_def)

lemma contacts_ok_dom:
  assumes "contacts_ok env cs m"
  shows "dom (map_of m) = key_of env ` set cs"
proof -
  have "k \<in> dom (map_of m) \<longleftrightarrow> k \<in> key_of env ` set cs" for k
    using contacts_okD [OF assms, of k]
    by (cases "map_of m k") (auto simp: filter_empty_conv simp del: map_of_eq_None_iff)
  then show ?thesis by blast
qed

section \<open>Properties\<close>

text \<open>
  Whatever the order in which the stored contacts are read, the contact list has exactly one chat for
  each phone, and each chat is titled by the best name among the contacts of its phone: a full name
  before a business name, a push name and a first name, and no title only if none of them has a name.
\<close>
theorem contacts_merged_by_phone:
  "length (GetContactsFromDevice env (Some cs)) = card (key_of env ` set cs) \<and>
   (\<forall>c\<in>set cs. \<exists>chat\<in>set (GetContactsFromDevice env (Some cs)). best_title env cs (key_of env c) (Title chat))"
proof
  define m where "m = foldl (add_contact env) [] cs"
  have ok: "contacts_ok env cs m" unfolding m_def by (rule contacts_ok_foldl)
  have out: "GetContactsFromDevice env (Some cs) = map (fst \<circ> snd) m"
    by (simp add: GetContactsFromDevice_def m_def)
  show "length (GetContactsFromDevice env (Some cs)) = card (key_of env ` set cs)"
    using ok card_dom_map_of [of m] contacts_ok_dom [OF ok] unfolding out by (simp add: contacts_ok_def)
  show "\<forall>c\<in>set cs. \<exists>chat\<in>set (GetContactsFromDevice env (Some cs)). best_title env cs (key_of env c) (Title chat)"
  proof
    fix c assume "c \<in> set cs"
    then have "key_of env c \<in> dom (map_of m)" using contacts_ok_dom [OF ok] by blast
    then obtain chat info where e: "map_of m (key_of env c) = Some (chat, info)" by auto
    then have "best_named (map snd (filter (\<lambda>d. key_of env d = key_of env c) cs)) (chat, info)"
      using contacts_okD [OF ok, of "key_of env c"] by simp
    then have "best_title env cs (key_of env c) (Title chat)" by (rule best_named_title)
    moreover have "chat \<in> set (GetContactsFromDevice env (Some cs))"
      unfolding out using map_of_SomeD [OF e] by force
    ultimately show "\<exists>chat\<in>set (GetContactsFromDevice env (Some cs)). best_title env cs (key_of env c) (Title chat)"
      by blast
  qed
qed

definition sample_contact_env :: contact_env where
  "sample_contact_env = \<lparr>ce_now = 0, ce_client = True, ce_store = True,
     ce_string = (\<lambda>j. jid_User j @ ''@'' @ jid_Server j),
     ce_parse = (\<lambda>s. if CHR ''@'' \<in> set s
                     then Some \<lparr>jid_User = takeWhile (\<lambda>c. c \<noteq> CHR ''@'') s, jid_Device = 0,
                                jid_Server = drop 1 (dropWhile (\<lambda>c. c \<noteq> CHR ''@'') s)\<rparr> else None),
     ce_pn_for_lid = (\<lambda>j. if jid_User j = ''77'' then Some \<lparr>jid_User = ''5521999998888'', jid_Device = 0,
                            jid_Server = WHATSAPP_SERVERDOMAIN_USER\<rparr> else None),
     ce_lid_for_pn = (\<lambda>j. if jid_User j = ''5521999998888'' then Some \<lparr>jid_User = ''77'', jid_Device = 0,
                            jid_Server = WHATSAPP_SERVERDOMAIN_LID\<rparr> else None),
     ce_contact = (\<lambda>_. None), ce_group_info = (\<lambda>_. Some ''friends'')\<rparr>"

definition sample_contacts :: "(JID \<times> contact_info) list" where
  "sample_contacts =
     [(\<lparr>jid_User = ''77'', jid_Device = 0, jid_Server = WHATSAPP_SERVERDOMAIN_LID\<rparr>,
       \<lparr>Found = True, FullName = [], BusinessName = [], PushName = ''bob'', FirstName = []\<rparr>),
      (\<lparr>jid_User = ''5521999998888'', jid_Device = 0, jid_Server = WHATSAPP_SERVERDOMAIN_USER\<rparr>,
       \<lparr>Found = True, FullName = ''Robert'', BusinessName = [], PushName = ''bob'', FirstName = []\<rparr>)]"

theorem contacts_merged_by_phone_witness:
  "\<exists>chat\<in>set (GetContactsFromDevice sample_contact_env (Some sample_contacts)). Title chat = ''Robert''"
proof -
  let ?c = "hd sample_contacts"
  have "?c \<in> set sample_contacts" by (simp add: sample_contacts_def)
  then obtain chat where c: "chat \<in> set (GetContactsFromDevice sample_contact_env (Some sample_contacts))"
    "best_title sample_contact_env sample_contacts (key_of sample_contact_env ?c) (Title chat)"
    using contacts_merged_by_phone [of sample_contact_env sample_contacts] by blast
  have "filter (\<lambda>c. key_of sample_contact_env c = key_of sample_contact_env ?c \<and> ExtractContactName (snd c) \<noteq> [])
      sample_contacts = sample_contacts" by code_simp
  then have "Title chat = ''Robert''"
    using c(2) by (auto simp: best_title_def sample_contacts_def ExtractContactName_def getContactNamePriority_def)
  with c(1) show ?thesis by blast
qed

section \<open>Phones and LIDs\<close>

text \<open>
  What the store itself answers. \<open>lid_store_ok\<close> states what the program relies on: the store maps phones
  and LIDs one to one, its phones carry no plus sign, and a LID is printed with no device.
\<close>

definition user_jid :: "string \<Rightarrow> JID" where
  "user_jid u = \<lparr>jid_User = u, jid_Device = 0, jid_Server = WHATSAPP_SERVERDOMAIN_USER\<rparr>"

definition direct_lid :: "contact_env \<Rightarrow> string \<Rightarrow> string option" where
  "direct_lid env phone = map_option (\<lambda>j. ce_string env (ToNonAD j)) (ce_lid_for_pn env (user_jid phone))"

definition direct_phone :: "contact_env \<Rightarrow> string \<Rightarrow> string option" where
  "direct_phone env lid = (case ce_parse env lid of None \<Rightarrow> None
     | Some j \<Rightarrow> map_option jid_User (ce_pn_for_lid env j))"

definition lid_store_ok :: "contact_env \<Rightarrow> string set \<Rightarrow> bool" where
  "lid_store_ok env lids \<longleftrightarrow> ce_client env \<and> ce_store env \<and>
     (\<forall>p l. direct_lid env p = Some l \<longrightarrow> l \<in> lids \<and> direct_phone env l = Some p) \<and>
     (\<forall>l\<in>lids. \<forall>p. direct_phone env l = Some p \<longrightarrow>
        direct_lid env p = Some l \<and> l \<noteq> [] \<and> p \<noteq> [] \<and> \<not> HasPrefix p ''+'')"

datatype lookup_op = AskLID string | AskPhone string

fun lookup_ok :: "string set \<Rightarrow> lookup_op \<Rightarrow> bool" where
  "lookup_ok lids (AskLID phone) \<longleftrightarrow> \<not> HasPrefix (TrimPlus (TrimSpace phone)) ''+''"
| "lookup_ok lids (AskPhone lid) \<longleftrightarrow> lid \<in> lids"

fun lookup_step :: "contact_env \<Rightarrow> chat_state \<Rightarrow> lookup_op \<Rightarrow> chat_state" where
  "lookup_step env c (AskLID phone) = fst (GetLIDFromPhone env c phone)"
| "lookup_step env c (AskPhone lid) = fst (GetPhoneFromLID env c lid)"

text \<open>What the caller learns: the LID, or the phone without its plus sign.\<close>

fun lookup_answer :: "contact_env \<Rightarrow> chat_state \<Rightarrow> lookup_op \<Rightarrow> string option" where
  "lookup_answer env c (AskLID phone) = (case snd (GetLIDFromPhone env c phone) of Inl _ \<Rightarrow> None | Inr l \<Rightarrow> Some l)"
| "lookup_answer env c (AskPhone lid) =
     (case snd (GetPhoneFromLID env c lid) of Inl _ \<Rightarrow> None | Inr p \<Rightarrow> Some (TrimPlus p))"

definition maps_agree :: "contact_env \<Rightarrow> string set \<Rightarrow> chat_state \<Rightarrow> bool" where
  "maps_agree env lids c \<longleftrightarrow>
     (\<forall>l p. lidToPhone c l = Some p \<longrightarrow> l \<in> lids \<and> direct_phone env l = Some p) \<and>
     (\<forall>p l. phoneToLID c p = Some l \<longrightarrow> direct_lid env p = Some l)"

lemma TrimPlus_plain [simp]: "\<not> HasPrefix p ''+'' \<Longrightarrow> TrimPlus p = p"
  by (simp add: TrimPlus_def)

lemma lid_store_okD:
  assumes "lid_store_ok env lids"
  shows "direct_lid env p = Some l \<Longrightarrow> l \<in> lids \<and> direct_phone env l = Some p"
    and "l \<in> lids \<Longrightarrow> direct_phone env l = Some p \<Longrightarrow> direct_lid env p = Some l \<and> l \<noteq> [] \<and> p \<noteq> [] \<and> \<not> HasPrefix p ''+''"
  using assms unfolding lid_store_ok_def by blast+

lemma lid_store_ok_open: "lid_store_ok env lids \<Longrightarrow> ce_client env \<and> ce_store env"
  by (simp add: lid_store_ok_def)

lemma maps_agreeD:
  assumes "maps_agree env lids c"
  shows "lidToPhone c l = Some p \<Longrightarrow> l \<in> lids \<and> direct_phone env l = Some p"
    and "phoneToLID c p = Some l \<Longrightarrow> direct_lid env p = Some l"
  using assms unfolding maps_agree_def by blast+

lemma GetLIDFromPhone_cases:
  assumes "lid_store_ok env lids" "maps_agree env lids c" and n: "n = TrimPlus (TrimSpace phone)" "\<not> HasPrefix n ''+''"
  shows "snd (GetLIDFromPhone env c phone) = Inr (case direct_lid env n of None \<Rightarrow> [] | Some l \<Rightarrow> l)"
    and "maps_agree env lids (fst (GetLIDFromPhone env c phone))"
proof -
  have g: "GetLIDFromPhone env c phone = (case phoneToLID c n of Some l \<Rightarrow> (c, Inr l)
     | None \<Rightarrow> (case direct_lid env n of None \<Rightarrow> (c, Inr []) | Some l \<Rightarrow> (SetLIDFromPhoneMap c n l, Inr l)))"
    using lid_store_ok_open [OF assms(1)] n(2) unfolding GetLIDFromPhone_def n(1) [symmetric] Let_def
    by (simp add: GetLIDFromPhoneMap_def normalizePhone_def direct_lid_def user_jid_def split: option.split)
  show "snd (GetLIDFromPhone env c phone) = Inr (case direct_lid env n of None \<Rightarrow> [] | Some l \<Rightarrow> l)"
    using maps_agreeD(2) [OF assms(2), of n] by (cases "phoneToLID c n"; cases "direct_lid env n") (simp_all add: g)
  show "maps_agree env lids (fst (GetLIDFromPhone env c phone))"
  proof (cases "phoneToLID c n = None \<and> direct_lid env n \<noteq> None")
    case True
    then obtain l where l: "direct_lid env n = Some l" by auto
    have d: "l \<in> lids" "direct_phone env l = Some n" "l \<noteq> []"
      using lid_store_okD [OF assms(1)] l by blast+
    have "fst (GetLIDFromPhone env c phone) =
        c\<lparr>lidToPhone := (lidToPhone c)(l \<mapsto> n), phoneToLID := (phoneToLID c)(n \<mapsto> l)\<rparr>"
      using True l d(3) n(2) by (simp add: g SetLIDFromPhoneMap_def normalizePhone_def Let_def)
    then show ?thesis using d l maps_agreeD [OF assms(2)] by (simp add: maps_agree_def)
  next
    case False
    then show ?thesis using assms(2) by (cases "phoneToLID c n") (simp_all add: g)
  qed
qed

lemma GetPhoneFromLID_cases:
  assumes "lid_store_ok env lids" "maps_agree env lids c" "lid \<in> lids"
  shows "(case snd (GetPhoneFromLID env c lid) of Inl _ \<Rightarrow> None | Inr p \<Rightarrow> Some (TrimPlus p)) = direct_phone env lid"
    and "maps_agree env lids (fst (GetPhoneFromLID env c lid))"
proof -
  have open_store: "ce_client env" "ce_store env" using lid_store_ok_open [OF assms(1)] by simp_all
  have plain: "direct_lid env p = Some lid \<and> p \<noteq> [] \<and> \<not> HasPrefix p ''+''" if "direct_phone env lid = Some p" for p
    using lid_store_okD(2) [OF assms(1,3) that] by simp
  show "(case snd (GetPhoneFromLID env c lid) of Inl _ \<Rightarrow> None | Inr p \<Rightarrow> Some (TrimPlus p)) = direct_phone env lid"
  proof (cases "lidToPhone c lid")
    case (Some p)
    then have d: "direct_phone env lid = Some p" using maps_agreeD(1) [OF assms(2)] by blast
    have "TrimPlus (formatPhone p) = p"
      using plain [OF d] by (cases p) (auto simp: formatPhone_def TrimPlus_def HasPrefix_def)
    then show ?thesis using Some d by (simp add: GetPhoneFromLID_def GetPhoneFromLIDMap_def)
  next
    case None
    show ?thesis
    proof (cases "direct_phone env lid")
      case d: None
      then show ?thesis using None open_store
        by (cases "ce_parse env lid"; cases "ce_pn_for_lid env (the (ce_parse env lid))")
           (simp_all add: GetPhoneFromLID_def GetPhoneFromLIDMap_def direct_phone_def)
    next
      case d: (Some p)
      then obtain j q where "ce_parse env lid = Some j" "ce_pn_for_lid env j = Some q" "jid_User q = p"
        by (auto simp: direct_phone_def split: option.splits)
      then show ?thesis using None open_store d plain [OF d]
        by (simp add: GetPhoneFromLID_def GetPhoneFromLIDMap_def Let_def)
    qed
  qed
  show "maps_agree env lids (fst (GetPhoneFromLID env c lid))"
  proof (cases "lidToPhone c lid = None \<and> direct_phone env lid \<noteq> None")
    case True
    then obtain j q where j: "ce_parse env lid = Some j" "ce_pn_for_lid env j = Some q"
      by (auto simp: direct_phone_def split: option.splits)
    then have d: "direct_phone env lid = Some (jid_User q)" by (simp add: direct_phone_def)
    have "fst (GetPhoneFromLID env c lid) =
        c\<lparr>lidToPhone := (lidToPhone c)(lid \<mapsto> jid_User q), phoneToLID := (phoneToLID c)(jid_User q \<mapsto> lid)\<rparr>"
      using True j open_store plain [OF d]
      by (simp add: GetPhoneFromLID_def GetPhoneFromLIDMap_def SetPhoneFromLIDMap_def normalizePhone_def Let_def)
    then show ?thesis using d plain [OF d] assms(3) maps_agreeD [OF assms(2)] by (simp add: maps_agree_def)
  next
    case False
    then have "fst (GetPhoneFromLID env c lid) = c"
      using open_store
      by (cases "lidToPhone c lid"; cases "ce_parse env lid"; cases "ce_pn_for_lid env (the (ce_parse env lid))")
         (simp_all add: GetPhoneFromLID_def GetPhoneFromLIDMap_def direct_phone_def)
    then show ?thesis using assms(2) by simp
  qed
qed

fun stored_answer :: "contact_env \<Rightarrow> lookup_op \<Rightarrow> string option" where
  "stored_answer env (AskLID phone) =
     Some (case direct_lid env (TrimPlus (TrimSpace phone)) of None \<Rightarrow> [] | Some l \<Rightarrow> l)"
| "stored_answer env (AskPhone lid) = direct_phone env lid"

lemma lookup_answer_stored:
  assumes "lid_store_ok env lids" "maps_agree env lids c" "lookup_ok lids op"
  shows "lookup_answer env c op = stored_answer env op" and "maps_agree env lids (lookup_step env c op)"
  using assms GetLIDFromPhone_cases [OF assms(1,2) refl] GetPhoneFromLID_cases [OF assms(1,2)]
  by (cases op; simp)+

lemma lookups_agree:
  assumes "lid_store_ok env lids" "maps_agree env lids c" "list_all (lookup_ok lids) ops"
  shows "maps_agree env lids (foldl (lookup_step env) c ops)"
  using assms(2,3) by (induction ops arbitrary: c) (simp_all add: lookup_answer_stored(2) [OF assms(1)])

definition no_chats :: chat_state where
  "no_chats = \<lparr>lidToPhone = Map.empty, phoneToLID = Map.empty, GroupInfoCache = empty_cache\<rparr>"

lemma no_chats_agree: "maps_agree env lids no_chats"
  by (simp add: maps_agree_def no_chats_def)

text \<open>
  C23. The two maps of phones and LIDs are a cache that cannot be told from the store: as long as the store
  pairs phones and LIDs one to one, after any sequence of lookups every further lookup answers what it
  would have answered with empty maps, phones being compared without the plus sign.
\<close>
theorem contact_cache_transparent:
  assumes "lid_store_ok env lids" "list_all (lookup_ok lids) ops" "lookup_ok lids op"
  shows "lookup_answer env (foldl (lookup_step env) no_chats ops) op = lookup_answer env no_chats op"
  using lookup_answer_stored(1) [OF assms(1) lookups_agree [OF assms(1) no_chats_agree assms(2)] assms(3)]
    lookup_answer_stored(1) [OF assms(1) no_chats_agree assms(3)]
  by (rule trans [OF _ sym])

definition pair_env :: contact_env where
  "pair_env = sample_contact_env
     \<lparr>ce_pn_for_lid := \<lambda>j. if j = \<lparr>jid_User = ''77'', jid_Device = 0, jid_Server = WHATSAPP_SERVERDOMAIN_LID\<rparr>
                            then Some (user_jid ''5521999998888'') else None,
      ce_lid_for_pn := \<lambda>j. if j = user_jid ''5521999998888''
                            then Some \<lparr>jid_User = ''77'', jid_Device = 3, jid_Server = WHATSAPP_SERVERDOMAIN_LID\<rparr>
                            else None\<rparr>"

lemma pair_env_lid: "direct_lid pair_env p = (if p = ''5521999998888'' then Some ''77@lid'' else None)"
  by (simp add: direct_lid_def pair_env_def sample_contact_env_def user_jid_def ToNonAD_def WHATSAPP_SERVERDOMAIN_LID_def)

lemma pair_env_phone: "direct_phone pair_env ''77@lid'' = Some ''5521999998888''" by code_simp

lemma pair_env_ok: "lid_store_ok pair_env {''77@lid''}"
  by (auto simp: lid_store_ok_def pair_env_lid pair_env_phone HasPrefix_def)
     (simp_all add: pair_env_def sample_contact_env_def)

theorem contact_cache_transparent_witness:
  "lookup_answer pair_env (foldl (lookup_step pair_env) no_chats
       [AskLID '' +5521999998888'', AskPhone ''77@lid'']) (AskPhone ''77@lid'') = Some ''5521999998888''"
proof -
  have "list_all (lookup_ok {''77@lid''}) [AskLID '' +5521999998888'', AskPhone ''77@lid'']"
    "lookup_ok {''77@lid''} (AskPhone ''77@lid'')" by code_simp+
  from contact_cache_transparent [OF pair_env_ok this] show ?thesis by (simp only:) code_simp
qed

text \<open>
  The phone of an LID is returned in two forms: the first lookup gives it as the store has it, without
  a plus sign, and every later one, answered from the map, gives it with the plus sign.
\<close>
theorem phone_answer_depends_on_map:
  assumes "lid_store_ok env lids" "lid \<in> lids" "direct_phone env lid = Some p" "lidToPhone c lid = None"
  shows "snd (GetPhoneFromLID env c lid) = Inr p
     \<and> snd (GetPhoneFromLID env (fst (GetPhoneFromLID env c lid)) lid) = Inr (CHR ''+'' # p)"
proof -
  have p: "p \<noteq> []" "\<not> HasPrefix p ''+''" using lid_store_okD(2) [OF assms(1-3)] by simp_all
  obtain j q where "ce_parse env lid = Some j" "ce_pn_for_lid env j = Some q" "jid_User q = p"
    using assms(3) by (auto simp: direct_phone_def split: option.splits)
  then have g: "GetPhoneFromLID env c lid = (SetPhoneFromLIDMap c lid p, Inr p)"
    using assms(4) lid_store_ok_open [OF assms(1)] by (simp add: GetPhoneFromLID_def GetPhoneFromLIDMap_def Let_def)
  have "lidToPhone (SetPhoneFromLIDMap c lid p) lid = Some p"
    using p(2) by (simp add: SetPhoneFromLIDMap_def normalizePhone_def Let_def)
  then show ?thesis using p by (simp add: g) (simp add: GetPhoneFromLID_def GetPhoneFromLIDMap_def formatPhone_def)
qed

theorem phone_answer_depends_on_map_witness:
  "snd (GetPhoneFromLID pair_env (fst (GetPhoneFromLID pair_env no_chats ''77@lid'')) ''77@lid'')
     = Inr ''+5521999998888''"
proof -
  have "lidToPhone no_chats ''77@lid'' = None" by (simp add: no_chats_def)
  from phone_answer_depends_on_map [OF pair_env_ok _ pair_env_phone this] show ?thesis by simp
qed

section \<open>Titles of groups\<close>

definition remembers :: "string \<Rightarrow> string \<Rightarrow> time \<Rightarrow> chat_state \<Rightarrow> bool" where
  "remembers k title until c \<longleftrightarrow> cache_ok (GroupInfoCache c) \<and> title \<noteq> [] \<and>
     lookup_item (GroupInfoCache c) k = Some \<lparr>Key = k, Value = title, Expiration = until\<rparr>"

lemma GetAny_lookup: "GetAny now c k = (case lookup_item c k of None \<Rightarrow> (c, None)
    | Some i \<Rightarrow> if now < Expiration i then (c, Some (Value i)) else (DeleteByKey c k, None))"
  by (simp add: GetAny_def lookup_item_def)

lemma Group_Get_remembers:
  assumes "remembers k title until c" "ce_now env < until"
  shows "remembers k title until (fst (Group_Get env c g))"
    and "g = k \<Longrightarrow> Group_Get env c g = (c, title)"
proof -
  show hit: "Group_Get env c g = (c, title)" if "g = k"
    using assms that by (simp add: remembers_def Group_Get_def GetAny_lookup)
  show "remembers k title until (fst (Group_Get env c g))"
  proof (cases "g = k")
    case False
    then show ?thesis
      using assms lib_cache.del_ok [of "GroupInfoCache c" g] lib_cache.look_del [of "GroupInfoCache c" g]
      by (cases "lookup_item (GroupInfoCache c) g") (auto simp: remembers_def Group_Get_def GetAny_lookup)
  qed (use hit assms(1) in simp)
qed

lemma Group_Append_cache:
  "GroupInfoCache (fst (Group_Append env c g title from)) = fst (Lib_SetCacheItem (GroupInfoCache c)
     \<lparr>Key = g, Value = title, Expiration = ce_now env + DEFAULTEXPIRATION_WGIC\<rparr> (''groupinfo-'' @ from))"
  by (simp add: Group_Append_def split: prod.split)

lemma GetChatTitle_remembers:
  assumes "remembers k title until c" "ce_now env < until"
  shows "remembers k title until (fst (GetChatTitle env c jid))"
proof (cases "ce_client env \<and> jid_Server jid = WHATSAPP_SERVERDOMAIN_GROUP")
  case True
  obtain c1 t where g: "Group_Get env c (ce_string env jid) = (c1, t)" by force
  have r: "remembers k title until c1" using Group_Get_remembers(1) [OF assms, of "ce_string env jid"] g by simp
  show ?thesis
  proof (cases "t = [] \<and> ce_group_info env jid \<noteq> None")
    case True
    then have "ce_string env jid \<noteq> k"
      using Group_Get_remembers(2) [OF assms, of "ce_string env jid"] g assms(1) by (auto simp: remembers_def)
    then have "remembers k title until (fst (Group_Append env c1 (ce_string env jid) name from))" for name "from"
      using r lib_cache.put_ok [of "GroupInfoCache c1"] lib_cache.look_put [of "GroupInfoCache c1"]
      by (simp add: remembers_def Group_Append_cache)
    then show ?thesis using True \<open>ce_client env \<and> _\<close> g by (auto simp: GetChatTitle_def)
  next
    case False
    then show ?thesis using True r g by (auto simp: GetChatTitle_def)
  qed
qed (use assms in \<open>auto simp: GetChatTitle_def Let_def\<close>)

lemma GetChatTitles_remember:
  assumes "remembers k title until c" "list_all (\<lambda>(env, jid). ce_now env < until) calls"
  shows "remembers k title until (foldl (\<lambda>c (env, jid). fst (GetChatTitle env c jid)) c calls)"
  using assms by (induction calls arbitrary: c) (auto simp: GetChatTitle_remembers split: prod.splits)

text \<open>
  The server is asked for a group's title at most once an hour: once it has answered, every title asked
  for in the hour that follows, whatever other chats were looked up in between and whatever the server
  would say now, is the remembered one; from the hour's end on the server is asked again.
\<close>
theorem group_title_remembered:
  assumes "cache_ok (GroupInfoCache c)" "live (ce_now env) (GroupInfoCache c) (ce_string env jid) = None"
    and "jid_Server jid = WHATSAPP_SERVERDOMAIN_GROUP" "ce_client env"
    and "ce_group_info env jid = Some title" "title \<noteq> []"
    and "list_all (\<lambda>(e, j). ce_now e < ce_now env + hour_ns) calls"
    and "c' = foldl (\<lambda>c (e, j). fst (GetChatTitle e c j)) (fst (GetChatTitle env c jid)) calls"
    and "ce_client env'" "ce_string env' jid = ce_string env jid"
  shows "snd (GetChatTitle env c jid) = NormalizeForTitle title
     \<and> (ce_now env' < ce_now env + hour_ns \<longrightarrow> GetChatTitle env' c' jid = (c', NormalizeForTitle title))
     \<and> (ce_now env' \<ge> ce_now env + hour_ns \<longrightarrow> snd (GetChatTitle env' c' jid) =
          (case ce_group_info env' jid of None \<Rightarrow> [] | Some t \<Rightarrow> NormalizeForTitle t))"
proof -
  let ?k = "ce_string env jid" and ?until = "ce_now env + hour_ns"
  obtain c1 where g: "Group_Get env c ?k = (c1, [])" and c1: "cache_ok (GroupInfoCache c1)"
    using assms(1,2) GetAny_live(1,2) [OF assms(1), of "ce_now env" ?k]
    by (cases "GetAny (ce_now env) (GroupInfoCache c) ?k") (auto simp: Group_Get_def)
  define c2 where "c2 = fst (Group_Append env c1 ?k title ''GetChatTitle'')"
  have t: "GetChatTitle env c jid = (c2, NormalizeForTitle title)"
    using assms(3-5) g by (simp add: GetChatTitle_def c2_def)
  have "remembers ?k title ?until c2"
    using lib_cache.put_ok [OF c1] lib_cache.look_put [OF c1] assms(6)
    by (simp add: remembers_def c2_def Group_Append_cache DEFAULTEXPIRATION_WGIC_def)
  then have r: "remembers ?k title ?until c'"
    using GetChatTitles_remember assms(7,8) t by simp
  have "GetChatTitle env' c' jid = (c', NormalizeForTitle title)" if "ce_now env' < ?until"
    using Group_Get_remembers(2) [OF r that refl] assms(3,6,9,10) by (simp add: GetChatTitle_def)
  moreover have "snd (GetChatTitle env' c' jid) = (case ce_group_info env' jid of None \<Rightarrow> [] | Some t \<Rightarrow> NormalizeForTitle t)"
    if "ce_now env' \<ge> ?until"
    using r that assms(3,9,10)
    by (simp add: GetChatTitle_def Group_Get_def GetAny_lookup remembers_def split: option.split)
  ultimately show ?thesis using t by simp
qed

definition sample_group :: JID where
  "sample_group = \<lparr>jid_User = ''123'', jid_Device = 0, jid_Server = WHATSAPP_SERVERDOMAIN_GROUP\<rparr>"

lemma NormalizeForTitle_friends: "NormalizeForTitle ''friends'' = ''friends''" by code_simp

theorem group_title_remembered_witness:
  "snd (GetChatTitle (sample_contact_env\<lparr>ce_now := 10, ce_group_info := \<lambda>_. None\<rparr>)
     (fst (GetChatTitle sample_contact_env no_chats sample_group)) sample_group) = ''friends''"
proof -
  have "cache_ok (GroupInfoCache no_chats)" "live 0 (GroupInfoCache no_chats) (ce_string sample_contact_env sample_group) = None"
    by (simp_all add: no_chats_def empty_cache_def cache_ok_def live_def lookup_item_def)
  then show ?thesis
    using group_title_remembered [of no_chats sample_contact_env sample_group "''friends''" "[]" _
        "sample_contact_env\<lparr>ce_now := 10, ce_group_info := \<lambda>_. None\<rparr>", OF _ _ _ _ _ _ _ refl]
      NormalizeForTitle_friends
    by (simp add: sample_contact_env_def sample_group_def hour_ns_def)
qed

end
