(* ===== verification/Parsing.thy ===== *)
theory Parsing
  imports Chats
begin

text \<open>
  From the protobuf message to the program's message: \<open>src/whatsmeow/whatsmeow_handlers_message_extensions.go\<close>,
  its list and template parts, and the helpers of \<open>whatsmeow_extensions.go\<close> and
  \<open>whatsmeow_extensions+poll.go\<close>. One function per kind of message, and the dispatch that tries the kinds
  in order. Slugs, the JSON printer and the order of the fields of the generated protobuf type are
  third-party: they are the fields of \<open>parse_env\<close>. A nil dereference is \<open>None\<close>.
\<close>

section \<open>Surroundings and printing\<close>

record parse_env =
  pe_slug :: "string \<Rightarrow> string"
  pe_json :: "content_value \<Rightarrow> string"
  pe_first_field :: "wa_message \<Rightarrow> string option"
  pe_jid :: "string \<Rightarrow> string \<Rightarrow> string"

text \<open>\<open>%f\<close> of a \<open>float64\<close>, given by its bits: six decimals, rounded half to even on the exact value.\<close>

definition float_mantissa :: "64 word \<Rightarrow> nat" where
  "float_mantissa w = unat w mod 2 ^ 52 + (if unat w div 2 ^ 52 mod 2048 = 0 then 0 else 2 ^ 52)"

definition float_exponent :: "64 word \<Rightarrow> int" where
  "float_exponent w = (let e = unat w div 2 ^ 52 mod 2048 in (if e = 0 then 1 else int e) - 1075)"

definition round_half_even :: "nat \<Rightarrow> nat \<Rightarrow> nat" where
  "round_half_even a b =
     (let q = a div b; r = a mod b
      in if 2 * r < b \<or> (2 * r = b \<and> even q) then q else q + 1)"

definition float_millionths :: "64 word \<Rightarrow> nat" where
  "float_millionths w =
     (let m = float_mantissa w * 10 ^ 6; e = float_exponent w
      in if e \<ge> 0 then m * 2 ^ nat e else round_half_even m (2 ^ nat (- e)))"

definition format_f :: "64 word \<Rightarrow> string" where
  "format_f w =
     (let negative = unat w \<ge> 2 ^ 63
      in if unat w div 2 ^ 52 mod 2048 = 2047 then
           (if unat w mod 2 ^ 52 \<noteq> 0 then ''NaN'' else if negative then ''-Inf'' else ''+Inf'')
         else
           (let n = float_millionths w; frac = decimal (n mod 10 ^ 6)
            in (if negative then ''-'' else []) @ decimal (n div 10 ^ 6) @ ''.'' @
               replicate (6 - length frac) (CHR ''0'') @ frac))"

section \<open>Helpers\<close>

definition toSnakeCase :: "string \<Rightarrow> string" where
  "toSnakeCase s =
     (case s of [] \<Rightarrow> []
      | c # cs \<Rightarrow> ToLower (c # concat (map (\<lambda>r. if CHR ''A'' \<le> r \<and> r \<le> CHR ''Z'' then [CHR ''_'', r] else [r]) cs)))"

definition GetMessageEventType :: "parse_env \<Rightarrow> wa_message \<Rightarrow> string" where
  "GetMessageEventType env in_msg =
     (case pe_first_field env in_msg of Some fieldName \<Rightarrow> toSnakeCase fieldName | None \<Rightarrow> ''unknown'')"

definition RemoveMessageContextInfo :: "wa_message \<Rightarrow> wa_message" where
  "RemoveMessageContextInfo content = content\<lparr>MessageContextInfo := None\<rparr>"

datatype MediaType = MediaImage | MediaAudio | MediaVideo | MediaDocument

definition GetMediaTypeFromWAMsgType :: "WhatsappMessageType \<Rightarrow> MediaType" where
  "GetMediaTypeFromWAMsgType msgType =
     (case msgType of
        ImageMessageType \<Rightarrow> MediaImage
      | AudioMessageType \<Rightarrow> MediaAudio
      | VideoMessageType \<Rightarrow> MediaVideo
      | _ \<Rightarrow> MediaDocument)"

definition GetMediaTypeFromAttachment :: "WhatsappAttachment \<Rightarrow> MediaType" where
  "GetMediaTypeFromAttachment source = GetMediaTypeFromWAMsgType (GetMessageType (Some source))"

definition ToWhatsmeowMessage :: "WhatsappMessage \<Rightarrow> wa_message option" where
  "ToWhatsmeowMessage source =
     (if \<not> HasAttachment source
      then Some (empty_wa\<lparr>ExtendedTextMessage := Some \<lparr>et_Text = Text source, MatchedText = [], et_Title = [],
             et_Description = [], et_JPEGThumbnail = [], et_ContextInfo = None, et_other = []\<rparr>\<rparr>)
      else None)"

definition GetDownloadableMessage :: "wa_message option \<Rightarrow> wa_media option" where
  "GetDownloadableMessage msg =
     (case msg of
        None \<Rightarrow> None
      | Some msg \<Rightarrow>
          if ImageMessage msg \<noteq> None then ImageMessage msg
          else if AudioMessage msg \<noteq> None then AudioMessage msg
          else if VideoMessage msg \<noteq> None then VideoMessage msg
          else if StickerMessage msg \<noteq> None then StickerMessage msg
          else if DocumentMessage msg \<noteq> None then DocumentMessage msg
          else None)"

text \<open>
  \<open>ImproveTimestamp\<close>: \<open>now\<close> is the wall clock at the first reading and \<open>now2\<close> at the second; the second
  of the minute is compared, so that any event of the same second of any minute is improved.
\<close>

definition nanosecond :: "time option \<Rightarrow> int" where
  "nanosecond t = (case t of None \<Rightarrow> 0 | Some ns \<Rightarrow> ns mod 1000000000)"

definition second_of_minute :: "time option \<Rightarrow> int" where
  "second_of_minute t = unix t mod 60"

definition ImproveTimestamp :: "time \<Rightarrow> time \<Rightarrow> time option \<Rightarrow> time option" where
  "ImproveTimestamp now now2 evtTimestamp =
     (if nanosecond evtTimestamp = 0 then
        if second_of_minute evtTimestamp = second_of_minute (Some now)
        then (case evtTimestamp of
                None \<Rightarrow> (if nanosecond (Some now2) = 0 then None
                         else Some (- 62135596800 * 1000000000 + nanosecond (Some now2)))
              | Some t \<Rightarrow> Some (t + nanosecond (Some now2)))
        else evtTimestamp
      else evtTimestamp)"

datatype ReceiptType = ReceiptDelivered | ReceiptRetry | ReceiptServerError | ReceiptRead | ReceiptPlayed
  | OtherReceipt string

definition GetWhatsappMessageStatus :: "ReceiptType \<Rightarrow> WhatsappMessageStatus" where
  "GetWhatsappMessageStatus receipt =
     (case receipt of
        ReceiptDelivered \<Rightarrow> StatusDelivered
      | ReceiptRetry \<Rightarrow> StatusError
      | ReceiptServerError \<Rightarrow> StatusError
      | ReceiptRead \<Rightarrow> StatusRead
      | ReceiptPlayed \<Rightarrow> StatusRead
      | OtherReceipt _ \<Rightarrow> [])"

text \<open>
  \<open>GetMentions\<close>: at signs with 7 to 15 digits after them, each match taken from the end of the last. The
  separator a match may also take is no at sign, so leaving it in the rest changes no later match.
\<close>

function mention_loop :: "string \<Rightarrow> string list" where
  "mention_loop text =
     (case text of
        [] \<Rightarrow> []
      | c # cs \<Rightarrow>
          let digits = take 15 (takeWhile is_digit cs)
          in if c = CHR ''@'' \<and> length digits \<ge> 7
             then digits # mention_loop (drop (length digits) cs)
             else mention_loop cs)"
  by pat_completeness auto
termination by (relation "measure length") auto

definition GetMentions :: "parse_env \<Rightarrow> string \<Rightarrow> string list" where
  "GetMentions env text = map (\<lambda>digits. pe_jid env digits WHATSAPP_SERVERDOMAIN_USER) (mention_loop text)"

section \<open>One function per kind\<close>

text \<open>The block by which most kinds take the reply and the forwarding score of their context.\<close>

definition with_context :: "wa_context_info option \<Rightarrow> WhatsappMessage \<Rightarrow> WhatsappMessage" where
  "with_context info out =
     (case info of None \<Rightarrow> out
      | Some ci \<Rightarrow> out\<lparr>ForwardingScore := ci_ForwardingScore ci, InReply := StanzaID ci\<rparr>)"

definition HandleTextMessage :: "WhatsappMessage \<Rightarrow> wa_message \<Rightarrow> WhatsappMessage" where
  "HandleTextMessage out in_msg = out\<lparr>MsgType := TextMessageType, Text := Conversation in_msg\<rparr>"

definition HandleEditTextMessage :: "WhatsappMessage \<Rightarrow> string \<Rightarrow> WhatsappMessage" where
  "HandleEditTextMessage out in_text = out\<lparr>MsgType := TextMessageType, Text := in_text\<rparr>"

text \<open>The text of an edited message: the first part that is there, an image without a caption included.\<close>

definition edited_text :: "wa_edited \<Rightarrow> string" where
  "edited_text e =
     (case ed_Conversation e of Some t \<Rightarrow> t
      | None \<Rightarrow> (case ed_Image e of Some t \<Rightarrow> t
      | None \<Rightarrow> (case ed_Video e of Some t \<Rightarrow> t
      | None \<Rightarrow> (case ed_Document e of Some t \<Rightarrow> t
      | None \<Rightarrow> (case ed_Extended e of Some t \<Rightarrow> t
      | None \<Rightarrow> [])))))"

definition HandleProtocolMessage :: "parse_env \<Rightarrow> WhatsappMessage \<Rightarrow> wa_protocol \<Rightarrow> WhatsappMessage" where
  "HandleProtocolMessage env out in_msg =
     (case pm_Type in_msg of
        MESSAGE_EDIT \<Rightarrow>
          let out = out\<lparr>MsgType := TextMessageType, Msg_Id := pm_KeyID in_msg, Edited := True\<rparr>
          in (case pm_EditedMessage in_msg of None \<Rightarrow> out | Some e \<Rightarrow> out\<lparr>Text := edited_text e\<rparr>)
      | REVOKE \<Rightarrow> out\<lparr>Msg_Id := pm_KeyID in_msg, MsgType := RevokeMessageType\<rparr>
      | HISTORY_SYNC_NOTIFICATION \<Rightarrow>
          out\<lparr>MsgType := UnhandledMessageType,
              Debug := Some \<lparr>DebugEvent = ''ProtocolMessage'', Reason = ''history sync notification'',
                             DebugInfo = WaProtocol in_msg\<rparr>,
              Text := ''ProtocolMessage :: '' @ pe_json env (WaProtocol in_msg) @
                (case HistorySyncNotification in_msg of None \<Rightarrow> []
                 | Some notif \<Rightarrow> ''History Sync Notification :: '' @ pe_json env (OtherContent notif))\<rparr>
      | OtherProtocol _ \<Rightarrow>
          out\<lparr>MsgType := UnhandledMessageType,
              Debug := Some \<lparr>DebugEvent = ''ProtocolMessage'', Reason = ''unknown protocol message type'',
                             DebugInfo = WaProtocol in_msg\<rparr>\<rparr>)"

text \<open>\<open>HandleEphemeralMessage\<close> only writes a log line.\<close>

definition HandleEphemeralMessage :: "WhatsappMessage \<Rightarrow> WhatsappMessage" where
  "HandleEphemeralMessage out = out"

definition HandleExtendedTextMessage :: "WhatsappMessage \<Rightarrow> wa_extended_text \<Rightarrow> WhatsappMessage" where
  "HandleExtendedTextMessage out in_msg =
     (let out = out\<lparr>MsgType := TextMessageType, Text := et_Text in_msg\<rparr>;
          out = (if length (MatchedText in_msg) > 0
                 then out\<lparr>MsgUrl := Some (Url_SetThumbnail \<lparr>Reference = MatchedText in_msg,
                        url_Title = et_Title in_msg, url_Description = et_Description in_msg,
                        url_Thumbnail = None\<rparr> (et_JPEGThumbnail in_msg))\<rparr>
                 else out);
          out = with_context (et_ContextInfo in_msg) out;
          adreply = (case et_ContextInfo in_msg of None \<Rightarrow> None | Some ci \<Rightarrow> ExternalAdReply ci)
      in (case adreply of None \<Rightarrow> out
          | Some a \<Rightarrow> out\<lparr>Ads := Some (Ads_SetThumbnail \<lparr>ads_Id = CtwaClid a, ads_Title = ad_Title a,
              SourceId = SourceID a, SourceUrl = SourceURL a, App = SourceApp a, ads_Type = SourceType a,
              ads_Thumbnail = None\<rparr> (ad_Thumbnail a))\<rparr>))"

definition HandleReactionMessage :: "WhatsappMessage \<Rightarrow> string \<times> string \<Rightarrow> WhatsappMessage" where
  "HandleReactionMessage out in_msg =
     (case in_msg of (text, keyId) \<Rightarrow>
        let out = out\<lparr>MsgType := TextMessageType, Text := text, InReaction := True, InReply := keyId\<rparr>
        in if Text out = [] then out\<lparr>Info := Some ''reaction removed''\<rparr> else out)"

definition HandleButtonsResponseMessage :: "WhatsappMessage \<Rightarrow> wa_reply \<Rightarrow> WhatsappMessage" where
  "HandleButtonsResponseMessage out in_msg =
     with_context (wr_ContextInfo in_msg) (out\<lparr>MsgType := TextMessageType, Text := wr_Text in_msg\<rparr>)"

definition media_attachment :: "wa_media \<Rightarrow> WhatsappAttachment" where
  "media_attachment m = empty_attachment\<lparr>Mimetype := md_Mimetype m, FileLength := md_FileLength m\<rparr>"

definition HandleImageMessage :: "WhatsappMessage \<Rightarrow> wa_media \<Rightarrow> WhatsappMessage" where
  "HandleImageMessage out in_msg =
     with_context (md_ContextInfo in_msg)
       (out\<lparr>MsgType := ImageMessageType, Text := Caption in_msg,
            Attachment := Some (SetThumbnail (media_attachment in_msg) (md_Thumbnail in_msg))\<rparr>)"

definition HandleStickerMessage :: "WhatsappMessage \<Rightarrow> wa_media \<Rightarrow> WhatsappMessage" where
  "HandleStickerMessage out in_msg =
     out\<lparr>MsgType := (if IsAnimated in_msg then VideoMessageType else ImageMessageType),
         Attachment := Some (SetThumbnail (media_attachment in_msg) (md_Thumbnail in_msg))\<rparr>"

definition HandleVideoMessage :: "WhatsappMessage \<Rightarrow> wa_media \<Rightarrow> WhatsappMessage" where
  "HandleVideoMessage out in_msg =
     with_context (md_ContextInfo in_msg)
       (out\<lparr>MsgType := VideoMessageType, Text := Caption in_msg,
            Attachment := Some (SetThumbnail (media_attachment in_msg) (md_Thumbnail in_msg))\<rparr>)"

definition HandleDocumentMessage :: "WhatsappMessage \<Rightarrow> wa_media \<Rightarrow> WhatsappMessage" where
  "HandleDocumentMessage out in_msg =
     with_context (md_ContextInfo in_msg)
       (out\<lparr>MsgType := DocumentMessageType, Text := Caption in_msg,
            Attachment := Some (SetThumbnail ((media_attachment in_msg)\<lparr>FileName := md_FileName in_msg\<rparr>)
              (md_Thumbnail in_msg))\<rparr>)"

definition HandleAudioMessage :: "WhatsappMessage \<Rightarrow> wa_media \<Rightarrow> WhatsappMessage" where
  "HandleAudioMessage out in_msg =
     with_context (md_ContextInfo in_msg)
       (out\<lparr>MsgType := AudioMessageType,
            Attachment := Some ((media_attachment in_msg)\<lparr>Seconds := md_Seconds in_msg\<rparr>)\<rparr>)"

text \<open>The link both kinds of location write out; the placeholders of the template are filled in.\<close>

definition location_url :: "string \<Rightarrow> string \<Rightarrow> string" where
  "location_url lat lon = ''https://www.google.com/maps?ll='' @ lat @ '','' @ lon @ ''&q='' @ lat @ ''+'' @ lon"

definition location_content :: "string \<Rightarrow> string" where
  "location_content url = ''[InternetShortcut]'' @ CHR 0x0A # ''URL='' @ url"

definition HandleLocationMessage :: "parse_env \<Rightarrow> WhatsappMessage \<Rightarrow> wa_location \<Rightarrow> WhatsappMessage option" where
  "HandleLocationMessage env out in_msg =
     (case (DegreesLatitude in_msg, DegreesLongitude in_msg) of
        (Some lat, Some lon) \<Rightarrow>
          let url = location_url (format_f lat) (format_f lon);
              content = location_content url;
              attach = empty_attachment\<lparr>Mimetype := ''text/x-uri; location'', Latitude := lat, Longitude := lon,
                Url := url, FileName := pe_slug env (format_f lat @ ''_'' @ format_f lon) @ ''.url'',
                FileLength := word_of_nat (length content)\<rparr>
          in Some (out\<lparr>MsgType := LocationMessageType,
               Attachment := Some ((SetThumbnail attach (wl_JPEGThumbnail in_msg))\<lparr>att_content := Some content\<rparr>)\<rparr>)
      | _ \<Rightarrow> None)"

definition HandleLiveLocationMessage :: "parse_env \<Rightarrow> WhatsappMessage \<Rightarrow> wa_location \<Rightarrow> WhatsappMessage option" where
  "HandleLiveLocationMessage env out in_msg =
     (case (DegreesLatitude in_msg, DegreesLongitude in_msg) of
        (Some lat, Some lon) \<Rightarrow>
          let out = out\<lparr>MsgType := LocationMessageType, Text := wl_Caption in_msg\<rparr>;
              url = location_url (format_f lat) (format_f lon);
              filename = (if length (Text out) = 0 then format_f lat @ ''_'' @ format_f lon else Text out);
              content = location_content url;
              attach = empty_attachment\<lparr>Mimetype := ''text/x-uri; live location'', Latitude := lat,
                Longitude := lon, att_Sequence := SequenceNumber in_msg, Url := url,
                FileName := pe_slug env filename @ ''.url'', FileLength := word_of_nat (length content)\<rparr>
          in Some (out\<lparr>Attachment :=
               Some ((SetThumbnail attach (wl_JPEGThumbnail in_msg))\<lparr>att_content := Some content\<rparr>)\<rparr>)
      | _ \<Rightarrow> None)"

definition vcard_name :: "parse_env \<Rightarrow> string \<Rightarrow> string \<Rightarrow> string" where
  "vcard_name env name fallback = pe_slug env (if length name = 0 then fallback else name) @ ''.vcf''"

definition HandleContactMessage :: "parse_env \<Rightarrow> WhatsappMessage \<Rightarrow> wa_contact \<Rightarrow> WhatsappMessage" where
  "HandleContactMessage env out in_msg =
     (let out = out\<lparr>MsgType := ContactMessageType, Text := DisplayName in_msg\<rparr>
      in out\<lparr>Attachment := Some (GenerateVCardAttachment (wc_Vcard in_msg)
               (vcard_name env (Text out) (Msg_Id out)))\<rparr>)"

text \<open>
  A list of contacts becomes several messages: the first contact fills the message itself, the others,
  which a goroutine each hands to \<open>Follow\<close>, are returned beside it in the order they are started.
\<close>

definition contact_clone :: "parse_env \<Rightarrow> WhatsappMessage \<Rightarrow> nat \<Rightarrow> wa_contact \<Rightarrow> WhatsappMessage" where
  "contact_clone env out idx contact =
     empty_message\<lparr>Content := WaContact contact, Msg_Id := Msg_Id out @ ''-'' @ decimal (idx + 1),
       Timestamp := Timestamp out, FromMe := FromMe out, MsgType := ContactMessageType,
       Text := DisplayName contact,
       Attachment := Some (GenerateVCardAttachment (wc_Vcard contact)
         (vcard_name env (DisplayName contact) (Msg_Id out))),
       Chat := Chat out\<rparr>"

definition HandleContactsArrayMessage ::
    "parse_env \<Rightarrow> WhatsappMessage \<Rightarrow> wa_contact list \<Rightarrow> WhatsappMessage \<times> WhatsappMessage list" where
  "HandleContactsArrayMessage env out in_msg =
     (let out = out\<lparr>MsgType := ContactMessageType\<rparr>
      in case in_msg of
           [] \<Rightarrow> (out, [])
         | contact # rest \<Rightarrow>
             let out = out\<lparr>Text := DisplayName contact,
                   Attachment := Some (GenerateVCardAttachment (wc_Vcard contact)
                     (vcard_name env (DisplayName contact) (Msg_Id out)))\<rparr>
             in (out, map (\<lambda>(idx, c). contact_clone env out idx c) (enumerate 1 rest)))"

definition HandleHydratedTemplate :: "WhatsappMessage \<Rightarrow> string \<Rightarrow> WhatsappMessage" where
  "HandleHydratedTemplate out contextText =
     out\<lparr>MsgType := TextMessageType,
         Text := (if length contextText > 0 then contextText @ [CHR 0x0A] else [])\<rparr>"

definition HandleTemplateMessage :: "WhatsappMessage \<Rightarrow> wa_template \<Rightarrow> WhatsappMessage" where
  "HandleTemplateMessage out in_msg =
     (case HydratedContentText in_msg of
        Some hydrated \<Rightarrow> HandleHydratedTemplate (with_context (tm_ContextInfo in_msg) out) hydrated
      | None \<Rightarrow> out)"

definition HandleTemplateButtonReplyMessage :: "WhatsappMessage \<Rightarrow> wa_template_reply \<Rightarrow> WhatsappMessage" where
  "HandleTemplateButtonReplyMessage out in_msg =
     with_context (tr_ContextInfo in_msg)
       (out\<lparr>MsgType := TextMessageType,
            Text := ''('' @ decimal (SelectedIndex in_msg) @ ''): '' @ SelectedDisplayText in_msg\<rparr>)"

definition row_text :: "wa_list_row option \<Rightarrow> string" where
  "row_text row =
     (case row of None \<Rightarrow> []
      | Some r \<Rightarrow> ''* ('' @ RowID r @ '') *'' @ row_Title r @ '':* '' @ row_Description r @ [CHR 0x0A, CHR '' ''])"

definition section_text :: "(string \<times> wa_list_row option list) option \<Rightarrow> string" where
  "section_text sec =
     (case sec of None \<Rightarrow> []
      | Some (title, rows) \<Rightarrow>
          ''-- *'' @ title @ '':*'' @ [CHR 0x0A, CHR '' ''] @ concat (map row_text rows))"

definition HandleListMessage :: "WhatsappMessage \<Rightarrow> wa_list \<Rightarrow> WhatsappMessage" where
  "HandleListMessage out in_msg =
     (let text = ''*'' @ wl_Title in_msg @ '':*'' @ [CHR 0x0A, CHR '' ''] @
            ''_'' @ wl_Description in_msg @ ''_'' @ [CHR 0x0A, CHR '' ''] @ [CHR 0x0A] @
            ''*'' @ ButtonText in_msg @ ''*:'' @ [CHR 0x0A] @ concat (map section_text (Sections in_msg));
          text = (if length (FooterText in_msg) > 0
                  then text @ [CHR 0x0A] @ replicate 32 (CHR ''-'') @ [CHR 0x0A] @ FooterText in_msg else text)
      in with_context (li_ContextInfo in_msg) (out\<lparr>MsgType := TextMessageType, Text := text\<rparr>))"

section \<open>The dispatch\<close>

text \<open>
  The result carries the message, the protobuf message, of which the last case clears a part in place,
  and the further messages that were started.
\<close>

type_synonym parsed = "WhatsappMessage \<times> wa_message \<times> WhatsappMessage list"

definition unhandled :: "WhatsappMessage \<Rightarrow> string \<Rightarrow> string \<Rightarrow> content_value \<Rightarrow> WhatsappMessage" where
  "unhandled out event reason info =
     out\<lparr>MsgType := UnhandledMessageType,
         Debug := Some \<lparr>DebugEvent = event, Reason = reason, DebugInfo = info\<rparr>\<rparr>"

definition HandleKnowingMessages :: "parse_env \<Rightarrow> WhatsappMessage \<Rightarrow> wa_message \<Rightarrow> parsed option" where
  "HandleKnowingMessages env out in_msg =
     (let done = (\<lambda>out. Some (out, in_msg, []))
      in case ImageMessage in_msg of Some m \<Rightarrow> done (HandleImageMessage out m)
       | None \<Rightarrow> (case StickerMessage in_msg of Some m \<Rightarrow> done (HandleStickerMessage out m)
       | None \<Rightarrow> (case DocumentMessage in_msg of Some m \<Rightarrow> done (HandleDocumentMessage out m)
       | None \<Rightarrow> (case AudioMessage in_msg of Some m \<Rightarrow> done (HandleAudioMessage out m)
       | None \<Rightarrow> (case VideoMessage in_msg of Some m \<Rightarrow> done (HandleVideoMessage out m)
       | None \<Rightarrow> (case ExtendedTextMessage in_msg of Some m \<Rightarrow> done (HandleExtendedTextMessage out m)
       | None \<Rightarrow> (case EphemeralMessage in_msg of Some m \<Rightarrow> done (HandleEphemeralMessage out)
       | None \<Rightarrow> (case ButtonsResponseMessage in_msg of Some m \<Rightarrow> done (HandleButtonsResponseMessage out m)
       | None \<Rightarrow> (case LocationMessage in_msg of
           Some m \<Rightarrow> (case HandleLocationMessage env out m of None \<Rightarrow> None | Some out \<Rightarrow> done out)
       | None \<Rightarrow> (case LiveLocationMessage in_msg of
           Some m \<Rightarrow> (case HandleLiveLocationMessage env out m of None \<Rightarrow> None | Some out \<Rightarrow> done out)
       | None \<Rightarrow> (case ContactMessage in_msg of Some m \<Rightarrow> done (HandleContactMessage env out m)
       | None \<Rightarrow> (case ReactionMessage in_msg of Some m \<Rightarrow> done (HandleReactionMessage out m)
       | None \<Rightarrow> (case EditedMessage in_msg of Some m \<Rightarrow> done (HandleEditTextMessage out m)
       | None \<Rightarrow> (case ProtocolMessage in_msg of Some m \<Rightarrow> done (HandleProtocolMessage env out m)
       | None \<Rightarrow> (case TemplateMessage in_msg of Some m \<Rightarrow> done (HandleTemplateMessage out m)
       | None \<Rightarrow> (case TemplateButtonReplyMessage in_msg of
           Some m \<Rightarrow> done (HandleTemplateButtonReplyMessage out m)
       | None \<Rightarrow> (case ContactsArrayMessage in_msg of
           Some m \<Rightarrow> (case HandleContactsArrayMessage env out m of (out, extra) \<Rightarrow> Some (out, in_msg, extra))
       | None \<Rightarrow> (case ListMessage in_msg of Some m \<Rightarrow> done (HandleListMessage out m)
       | None \<Rightarrow> (case SenderKeyDistributionMessage in_msg of
           Some m \<Rightarrow> done (unhandled out ''SenderKeyDistributionMessage'' ''discard'' (OtherContent m))
       | None \<Rightarrow> (case StickerSyncRmrMessage in_msg of
           Some m \<Rightarrow> done (unhandled out ''StickerSyncRmrMessage'' ''discard'' (OtherContent m))
       | None \<Rightarrow>
           if length (Conversation in_msg) > 0 then done (HandleTextMessage out in_msg)
           else
             let stripped = RemoveMessageContextInfo in_msg
             in Some (unhandled out (GetMessageEventType env in_msg) ''unknown'' (WaMessage stripped),
                      stripped, [])))))))))))))))))))))"

section \<open>What the dispatch keeps\<close>

text \<open>The fields of a message that only the caller sets.\<close>

definition envelope where
  "envelope m = (Content m, Msg_TrackId m, Timestamp m, Chat m, Participant m, FromMe m, FromInternal m,
     FromHistory m, Synopsis m, Status m, Msg_Wid m, Exceptions m)"

named_theorems handler_defs

lemmas [handler_defs] = HandleTextMessage_def HandleEditTextMessage_def HandleProtocolMessage_def
  HandleEphemeralMessage_def HandleExtendedTextMessage_def HandleReactionMessage_def
  HandleButtonsResponseMessage_def HandleImageMessage_def HandleStickerMessage_def HandleVideoMessage_def
  HandleDocumentMessage_def HandleAudioMessage_def HandleLocationMessage_def HandleLiveLocationMessage_def
  HandleContactMessage_def HandleContactsArrayMessage_def HandleHydratedTemplate_def HandleTemplateMessage_def
  HandleTemplateButtonReplyMessage_def HandleListMessage_def unhandled_def

text \<open>
  The kinds the dispatch knows, tried in its order; each proof about the dispatch is one case per kind.
\<close>

datatype kind = KImage wa_media | KSticker wa_media | KDocument wa_media | KAudio wa_media | KVideo wa_media
  | KExtended wa_extended_text | KEphemeral | KButtons wa_reply | KLocation wa_location | KLive wa_location
  | KContact wa_contact | KReaction "string \<times> string" | KEdited string | KProtocol wa_protocol
  | KTemplate wa_template | KTemplateReply wa_template_reply | KContacts "wa_contact list" | KList wa_list
  | KSenderKey string | KStickerSync string | KText | KUnknown

fun first_kind :: "kind option list \<Rightarrow> kind" where
  "first_kind [] = KUnknown"
| "first_kind (Some k # ks) = k"
| "first_kind (None # ks) = first_kind ks"

definition kind_of :: "wa_message \<Rightarrow> kind" where
  "kind_of m = first_kind
     [map_option KImage (ImageMessage m), map_option KSticker (StickerMessage m),
      map_option KDocument (DocumentMessage m), map_option KAudio (AudioMessage m),
      map_option KVideo (VideoMessage m), map_option KExtended (ExtendedTextMessage m),
      map_option (\<lambda>_. KEphemeral) (EphemeralMessage m), map_option KButtons (ButtonsResponseMessage m),
      map_option KLocation (LocationMessage m), map_option KLive (LiveLocationMessage m),
      map_option KContact (ContactMessage m), map_option KReaction (ReactionMessage m),
      map_option KEdited (EditedMessage m), map_option KProtocol (ProtocolMessage m),
      map_option KTemplate (TemplateMessage m), map_option KTemplateReply (TemplateButtonReplyMessage m),
      map_option KContacts (ContactsArrayMessage m), map_option KList (ListMessage m),
      map_option KSenderKey (SenderKeyDistributionMessage m), map_option KStickerSync (StickerSyncRmrMessage m),
      (if Conversation m = [] then None else Some KText)]"

fun handle_kind :: "parse_env \<Rightarrow> WhatsappMessage \<Rightarrow> wa_message \<Rightarrow> kind \<Rightarrow> parsed option" where
  "handle_kind env out m (KImage x) = Some (HandleImageMessage out x, m, [])"
| "handle_kind env out m (KSticker x) = Some (HandleStickerMessage out x, m, [])"
| "handle_kind env out m (KDocument x) = Some (HandleDocumentMessage out x, m, [])"
| "handle_kind env out m (KAudio x) = Some (HandleAudioMessage out x, m, [])"
| "handle_kind env out m (KVideo x) = Some (HandleVideoMessage out x, m, [])"
| "handle_kind env out m (KExtended x) = Some (HandleExtendedTextMessage out x, m, [])"
| "handle_kind env out m KEphemeral = Some (out, m, [])"
| "handle_kind env out m (KButtons x) = Some (HandleButtonsResponseMessage out x, m, [])"
| "handle_kind env out m (KLocation x) = map_option (\<lambda>o1. (o1, m, [])) (HandleLocationMessage env out x)"
| "handle_kind env out m (KLive x) = map_option (\<lambda>o1. (o1, m, [])) (HandleLiveLocationMessage env out x)"
| "handle_kind env out m (KContact x) = Some (HandleContactMessage env out x, m, [])"
| "handle_kind env out m (KReaction x) = Some (HandleReactionMessage out x, m, [])"
| "handle_kind env out m (KEdited x) = Some (HandleEditTextMessage out x, m, [])"
| "handle_kind env out m (KProtocol x) = Some (HandleProtocolMessage env out x, m, [])"
| "handle_kind env out m (KTemplate x) = Some (HandleTemplateMessage out x, m, [])"
| "handle_kind env out m (KTemplateReply x) = Some (HandleTemplateButtonReplyMessage out x, m, [])"
| "handle_kind env out m (KContacts x) =
     Some (fst (HandleContactsArrayMessage env out x), m, snd (HandleContactsArrayMessage env out x))"
| "handle_kind env out m (KList x) = Some (HandleListMessage out x, m, [])"
| "handle_kind env out m (KSenderKey x) =
     Some (unhandled out ''SenderKeyDistributionMessage'' ''discard'' (OtherContent x), m, [])"
| "handle_kind env out m (KStickerSync x) =
     Some (unhandled out ''StickerSyncRmrMessage'' ''discard'' (OtherContent x), m, [])"
| "handle_kind env out m KText = Some (HandleTextMessage out m, m, [])"
| "handle_kind env out m KUnknown =
     Some (unhandled out (GetMessageEventType env m) ''unknown'' (WaMessage (RemoveMessageContextInfo m)),
           RemoveMessageContextInfo m, [])"

lemma handle_first:
  "handle_kind env out m (first_kind (map_option f x # ks)) =
     (case x of None \<Rightarrow> handle_kind env out m (first_kind ks) | Some y \<Rightarrow> handle_kind env out m (f y))"
  by (cases x) simp_all

lemma dispatch_kind: "HandleKnowingMessages env out m = handle_kind env out m (kind_of m)"
  unfolding HandleKnowingMessages_def kind_of_def Let_def handle_first
  by (simp add: HandleEphemeralMessage_def map_option_case case_prod_beta cong: option.case_cong)

lemma first_kind_in: "first_kind ks = k \<Longrightarrow> k \<noteq> KUnknown \<Longrightarrow> Some k \<in> set ks"
  by (induction ks rule: first_kind.induct) auto

lemma Some_map_option: "Some y = map_option f x \<longleftrightarrow> (\<exists>z. x = Some z \<and> y = f z)"
  by (cases x) auto

lemma kind_of_field:
  "kind_of m = KProtocol p \<Longrightarrow> ProtocolMessage m = Some p"
  "kind_of m = KTemplate t \<Longrightarrow> TemplateMessage m = Some t"
  "kind_of m = KEphemeral \<Longrightarrow> EphemeralMessage m \<noteq> None"
  "kind_of m = KLocation l \<Longrightarrow> LocationMessage m = Some l"
  "kind_of m = KLive l \<Longrightarrow> LiveLocationMessage m = Some l"
  "kind_of m = KContacts cs \<Longrightarrow> ContactsArrayMessage m = Some cs"
  unfolding kind_of_def by (drule first_kind_in; simp add: Some_map_option split: if_splits)+

text \<open>What each handler does to the fields the properties speak of.\<close>

definition parsed_as :: "WhatsappMessageType \<Rightarrow> wa_context_info option \<Rightarrow> WhatsappMessage \<Rightarrow> WhatsappMessage \<Rightarrow> bool" where
  "parsed_as t ci out out' \<longleftrightarrow> envelope out' = envelope out \<and> Msg_Id out' = Msg_Id out \<and> MsgType out' = t \<and>
     Debug out' = Debug out \<and>
     InReply out' = (case ci of None \<Rightarrow> InReply out | Some c \<Rightarrow> StanzaID c) \<and>
     ForwardingScore out' = (case ci of None \<Rightarrow> ForwardingScore out | Some c \<Rightarrow> ci_ForwardingScore c)"

lemma parsed_as_context: "parsed_as t None out out' \<Longrightarrow> parsed_as t ci out (with_context ci out')"
  by (cases ci) (simp_all add: parsed_as_def envelope_def with_context_def)

lemma media_parsed:
  "parsed_as ImageMessageType (md_ContextInfo x) out (HandleImageMessage out x)"
  "parsed_as (if IsAnimated x then VideoMessageType else ImageMessageType) None out (HandleStickerMessage out x)"
  "parsed_as VideoMessageType (md_ContextInfo x) out (HandleVideoMessage out x)"
  "parsed_as DocumentMessageType (md_ContextInfo x) out (HandleDocumentMessage out x)"
  "parsed_as AudioMessageType (md_ContextInfo x) out (HandleAudioMessage out x)"
  unfolding handler_defs by ((rule parsed_as_context)?; simp add: parsed_as_def envelope_def)+

lemma text_parsed:
  "parsed_as TextMessageType None out (HandleTextMessage out m)"
  "parsed_as TextMessageType None out (HandleEditTextMessage out str)"
  "parsed_as TextMessageType (wr_ContextInfo r) out (HandleButtonsResponseMessage out r)"
  "parsed_as TextMessageType (tr_ContextInfo tr) out (HandleTemplateButtonReplyMessage out tr)"
  "parsed_as TextMessageType (li_ContextInfo l) out (HandleListMessage out l)"
  "parsed_as ContactMessageType None out (HandleContactMessage env out c)"
  "parsed_as ContactMessageType None out (fst (HandleContactsArrayMessage env out cs))"
  unfolding handler_defs Let_def
  by ((rule parsed_as_context)?; simp add: parsed_as_def envelope_def split: list.split)+

lemma extended_parsed: "parsed_as TextMessageType (et_ContextInfo x) out (HandleExtendedTextMessage out x)"
proof -
  define o1 where "o1 = (let out = out\<lparr>MsgType := TextMessageType, Text := et_Text x\<rparr> in
     if length (MatchedText x) > 0
     then out\<lparr>MsgUrl := Some (Url_SetThumbnail \<lparr>Reference = MatchedText x, url_Title = et_Title x,
        url_Description = et_Description x, url_Thumbnail = None\<rparr> (et_JPEGThumbnail x))\<rparr> else out)"
  have "parsed_as TextMessageType None out o1" by (simp add: o1_def parsed_as_def envelope_def Let_def)
  then have "parsed_as TextMessageType (et_ContextInfo x) out (with_context (et_ContextInfo x) o1)"
    by (rule parsed_as_context)
  moreover have "HandleExtendedTextMessage out x =
      (case (case et_ContextInfo x of None \<Rightarrow> None | Some ci \<Rightarrow> ExternalAdReply ci) of
         None \<Rightarrow> with_context (et_ContextInfo x) o1
       | Some a \<Rightarrow> (with_context (et_ContextInfo x) o1)\<lparr>Ads := Some (Ads_SetThumbnail \<lparr>ads_Id = CtwaClid a,
           ads_Title = ad_Title a, SourceId = SourceID a, SourceUrl = SourceURL a, App = SourceApp a,
           ads_Type = SourceType a, ads_Thumbnail = None\<rparr> (ad_Thumbnail a))\<rparr>)"
    unfolding HandleExtendedTextMessage_def o1_def Let_def by (rule refl)
  ultimately show ?thesis by (simp add: parsed_as_def envelope_def split: option.split)
qed

lemma location_parsed:
  "HandleLocationMessage env out l = Some out' \<Longrightarrow> parsed_as LocationMessageType None out out'"
  "HandleLiveLocationMessage env out l = Some out' \<Longrightarrow> parsed_as LocationMessageType None out out'"
  unfolding handler_defs Let_def by (auto simp: parsed_as_def envelope_def split: option.splits)

lemma location_panics:
  "HandleLocationMessage env out l = None \<longleftrightarrow> DegreesLatitude l = None \<or> DegreesLongitude l = None"
  "HandleLiveLocationMessage env out l = None \<longleftrightarrow> DegreesLatitude l = None \<or> DegreesLongitude l = None"
  unfolding handler_defs Let_def by (auto split: option.splits)

fun kind_type :: "kind \<Rightarrow> WhatsappMessageType" where
  "kind_type (KImage _) = ImageMessageType"
| "kind_type (KSticker x) = (if IsAnimated x then VideoMessageType else ImageMessageType)"
| "kind_type (KDocument _) = DocumentMessageType"
| "kind_type (KAudio _) = AudioMessageType"
| "kind_type (KVideo _) = VideoMessageType"
| "kind_type (KLocation _) = LocationMessageType"
| "kind_type (KLive _) = LocationMessageType"
| "kind_type (KContact _) = ContactMessageType"
| "kind_type (KContacts _) = ContactMessageType"
| "kind_type _ = TextMessageType"

fun kind_context :: "kind \<Rightarrow> wa_context_info option" where
  "kind_context (KImage x) = md_ContextInfo x"
| "kind_context (KDocument x) = md_ContextInfo x"
| "kind_context (KAudio x) = md_ContextInfo x"
| "kind_context (KVideo x) = md_ContextInfo x"
| "kind_context (KExtended x) = et_ContextInfo x"
| "kind_context (KButtons x) = wr_ContextInfo x"
| "kind_context (KTemplate x) = tm_ContextInfo x"
| "kind_context (KTemplateReply x) = tr_ContextInfo x"
| "kind_context (KList x) = li_ContextInfo x"
| "kind_context _ = None"

fun kind_unhandled :: "kind \<Rightarrow> bool" where
  "kind_unhandled (KProtocol p) \<longleftrightarrow> pm_Type p \<notin> {MESSAGE_EDIT, REVOKE}"
| "kind_unhandled (KSenderKey _) = True"
| "kind_unhandled (KStickerSync _) = True"
| "kind_unhandled KUnknown = True"
| "kind_unhandled _ = False"

fun kind_ignored :: "kind \<Rightarrow> bool" where
  "kind_ignored KEphemeral = True"
| "kind_ignored (KTemplate t) \<longleftrightarrow> HydratedContentText t = None"
| "kind_ignored _ = False"

fun kind_plain :: "kind \<Rightarrow> bool" where
  "kind_plain (KProtocol _) = False"
| "kind_plain (KReaction _) = False"
| "kind_plain k \<longleftrightarrow> \<not> kind_unhandled k \<and> \<not> kind_ignored k"

lemma handle_kind_plain:
  assumes "handle_kind env out m k = Some (out', m', extra)" "kind_plain k"
  shows "parsed_as (kind_type k) (kind_context k) out out'"
proof (cases k)
  case (KTemplate t)
  then show ?thesis using assms
    by (cases "HydratedContentText t"; cases "tm_ContextInfo t")
       (auto simp: HandleTemplateMessage_def HandleHydratedTemplate_def parsed_as_def envelope_def with_context_def)
next
  case (KSticker x)
  then show ?thesis using assms media_parsed(2) [of x out] by (simp del: if_split)
qed (use assms in \<open>auto simp: media_parsed text_parsed extended_parsed location_parsed simp del: if_split\<close>)

lemma handle_kind_marked:
  assumes "handle_kind env out m k = Some (out', m', extra)" "kind_unhandled k"
  shows "MsgType out' = UnhandledMessageType" "Debug out' \<noteq> None" "envelope out' = envelope out" "Msg_Id out' = Msg_Id out"
  using assms by (cases k; auto simp: unhandled_def HandleProtocolMessage_def envelope_def split: protocol_type.splits)+

lemma handle_kind_ignored:
  assumes "handle_kind env out m k = Some (out', m', extra)" "kind_ignored k"
  shows "out' = out"
  using assms by (cases k) (auto simp: HandleTemplateMessage_def)

lemma protocol_handled:
  assumes "pm_Type p \<in> {MESSAGE_EDIT, REVOKE}"
  shows "Msg_Id (HandleProtocolMessage env out p) = pm_KeyID p"
    and "envelope (HandleProtocolMessage env out p) = envelope out"
    and "Debug (HandleProtocolMessage env out p) = Debug out"
    and "MsgType (HandleProtocolMessage env out p) =
      (if pm_Type p = MESSAGE_EDIT then TextMessageType else RevokeMessageType)"
  using assms by (cases "pm_EditedMessage p"; auto simp: HandleProtocolMessage_def envelope_def Let_def)+

lemma reaction_handled:
  "envelope (HandleReactionMessage out x) = envelope out" "Msg_Id (HandleReactionMessage out x) = Msg_Id out"
  "MsgType (HandleReactionMessage out x) = TextMessageType" "Debug (HandleReactionMessage out x) = Debug out"
  by (cases x; simp add: HandleReactionMessage_def envelope_def Let_def)+

lemma kind_cases:
  obtains "kind_plain k" | p where "k = KProtocol p" "pm_Type p \<in> {MESSAGE_EDIT, REVOKE}"
  | x where "k = KReaction x" | "kind_unhandled k" | "kind_ignored k"
  by (cases k) (auto split: if_splits)

lemma extra_contacts:
  assumes "HandleKnowingMessages env out m = Some (out', m', extra)"
  shows "extra = [] \<or> (\<exists>cs. ContactsArrayMessage m = Some cs \<and> length extra < length cs)"
    and "list_all (\<lambda>o1. MsgType o1 = ContactMessageType \<and> \<not> FromHistory o1) extra"
proof -
  have h: "handle_kind env out m (kind_of m) = Some (out', m', extra)" using assms by (simp add: dispatch_kind)
  then show "extra = [] \<or> (\<exists>cs. ContactsArrayMessage m = Some cs \<and> length extra < length cs)"
    using kind_of_field(6) [of m]
    by (cases "kind_of m") (auto simp: HandleContactsArrayMessage_def Let_def split: list.splits)
  show "list_all (\<lambda>o1. MsgType o1 = ContactMessageType \<and> \<not> FromHistory o1) extra"
    using h by (cases "kind_of m")
      (auto simp: HandleContactsArrayMessage_def Let_def contact_clone_def list_all_iff empty_message_def split: list.splits)
qed

section \<open>Properties\<close>


definition sample_parse_env :: parse_env where
  "sample_parse_env = \<lparr>pe_slug = (\<lambda>s. s), pe_json = (\<lambda>_. ''{}''), pe_first_field = (\<lambda>_. Some ''PinInChatMessage''),
     pe_jid = (\<lambda>u s. u @ ''@'' @ s)\<rparr>"

definition sample_edit :: wa_message where
  "sample_edit = empty_wa\<lparr>ProtocolMessage := Some \<lparr>pm_Type = MESSAGE_EDIT, pm_KeyID = ''OLD'',
     pm_EditedMessage = Some \<lparr>ed_Conversation = Some ''new'', ed_Image = None, ed_Video = None,
       ed_Document = None, ed_Extended = None, ed_other = []\<rparr>,
     HistorySyncNotification = None, pm_other = []\<rparr>\<rparr>"


text \<open>
  No message is dropped without a trace: what is left unhandled carries a debug record saying why, and
  what is handled carries none. Two kinds escape: an ephemeral message and a template without hydrated
  content leave the message exactly as it was, untyped and without a debug record.
\<close>
theorem unhandled_is_explained:
  assumes "HandleKnowingMessages env out m = Some (out', m', extra)"
    and "MsgType out = UnhandledMessageType" "Debug out = None"
  shows "if MsgType out' \<noteq> UnhandledMessageType then Debug out' = None
     else Debug out' \<noteq> None \<or> out' = out \<and>
       (EphemeralMessage m \<noteq> None \<or> (\<exists>t. TemplateMessage m = Some t \<and> HydratedContentText t = None))"
proof -
  have h: "handle_kind env out m (kind_of m) = Some (out', m', extra)"
    using assms(1) by (simp add: dispatch_kind)
  show ?thesis
  proof (cases "kind_of m" rule: kind_cases)
    case 1
    have "kind_type (kind_of m) \<noteq> UnhandledMessageType" by (cases "kind_of m") auto
    then show ?thesis using handle_kind_plain [OF h 1] assms(3) by (simp add: parsed_as_def)
  next
    case (2 p)
    then show ?thesis using h protocol_handled [OF 2(2), of env out] assms(3) by (auto split: if_splits)
  next
    case (3 x)
    then show ?thesis using h reaction_handled [of out x] assms(3) by auto
  next
    case 4
    then show ?thesis using handle_kind_marked [OF h] by simp
  next
    case 5
    then have "EphemeralMessage m \<noteq> None \<or> (\<exists>t. TemplateMessage m = Some t \<and> HydratedContentText t = None)"
      using kind_of_field(2,3) [of m] by (cases "kind_of m") auto
    then show ?thesis using handle_kind_ignored [OF h 5] assms(2) by simp
  qed
qed

theorem unhandled_is_explained_witness:
  "\<exists>out'. HandleKnowingMessages sample_parse_env empty_message (empty_wa\<lparr>MessageContextInfo := Some ''x''\<rparr>)
     = Some (out', empty_wa, []) \<and> Debug out' \<noteq> None"
proof -
  let ?m = "empty_wa\<lparr>MessageContextInfo := Some ''x''\<rparr>"
  obtain out' where o: "HandleKnowingMessages sample_parse_env empty_message ?m = Some (out', empty_wa, [])"
    "MsgType out' = UnhandledMessageType"
    by (simp add: HandleKnowingMessages_def empty_wa_def RemoveMessageContextInfo_def Let_def unhandled_def)
  have "Debug out' \<noteq> None"
    using unhandled_is_explained [OF o(1)] o(2) by (simp add: empty_message_def empty_wa_def)
  with o(1) show ?thesis by blast
qed

text \<open>
  C22. Reading a message ends in a message for every input but one: a location, or a live location, without
  a latitude or without a longitude. Both are dereferenced, so such a message panics in a goroutine
  nothing recovers.
\<close>
theorem parsing_panics_iff:
  "HandleKnowingMessages env out m = None \<longleftrightarrow>
     (\<exists>l. kind_of m \<in> {KLocation l, KLive l} \<and> (DegreesLatitude l = None \<or> DegreesLongitude l = None))"
  unfolding dispatch_kind by (cases "kind_of m") (auto simp: location_panics)

text \<open>
  The messages that answer another one carry its id: for every kind with a context, the reply id and
  the forwarding score are those of the context of the part that decided the kind, and without a context
  they are left as they were.
\<close>
theorem replies_linked:
  assumes "HandleKnowingMessages env out m = Some (out', m', extra)" "kind_plain (kind_of m)"
  shows "InReply out' = (case kind_context (kind_of m) of None \<Rightarrow> InReply out | Some c \<Rightarrow> StanzaID c)
     \<and> ForwardingScore out' =
         (case kind_context (kind_of m) of None \<Rightarrow> ForwardingScore out | Some c \<Rightarrow> ci_ForwardingScore c)
     \<and> MsgType out' = kind_type (kind_of m)"
  using handle_kind_plain assms by (simp add: dispatch_kind parsed_as_def)

definition sample_context :: wa_context_info where
  "sample_context = \<lparr>ConversionDelaySeconds = None, EntryPointConversionDelaySeconds = None,
     ci_ForwardingScore = 2, StanzaID = ''Q'', MentionedJID = [], ExternalAdReply = None,
     ci_Participant = None, QuotedMessage = None, ci_Expiration = None, EphemeralSettingTimestamp = None,
     DisappearingMode = None, ci_other = []\<rparr>"

definition sample_reply :: wa_message where
  "sample_reply = empty_wa\<lparr>ButtonsResponseMessage :=
     Some \<lparr>wr_Text = ''yes'', wr_ContextInfo = Some sample_context, wr_other = []\<rparr>\<rparr>"

lemma sample_reply_kind:
  "kind_of sample_reply = KButtons \<lparr>wr_Text = ''yes'', wr_ContextInfo = Some sample_context, wr_other = []\<rparr>"
  by (simp add: kind_of_def sample_reply_def empty_wa_def)

theorem replies_linked_witness:
  "\<exists>out'. HandleKnowingMessages sample_parse_env empty_message sample_reply = Some (out', sample_reply, [])
     \<and> InReply out' = ''Q''"
proof -
  obtain out' where o: "HandleKnowingMessages sample_parse_env empty_message sample_reply = Some (out', sample_reply, [])"
    by (simp add: dispatch_kind sample_reply_kind)
  have "InReply out' = ''Q''"
    using replies_linked [OF o] by (simp add: sample_reply_kind sample_context_def)
  with o show ?thesis by blast
qed

text \<open>
  A list of contacts becomes one contact message per contact, in the list's order and with pairwise
  different ids, the first under the id of the message received, and each with the vcard of its contact.
  The messages after the first keep the chat, the direction and the time, but neither the participant of
  a group nor the mark of a message from the history.
\<close>
theorem contacts_array_split:
  assumes "kind_of m = KContacts cs" "cs \<noteq> []"
  shows "\<exists>out' extra. HandleKnowingMessages env out m = Some (out', m, extra)
     \<and> map Text (out' # extra) = map DisplayName cs
     \<and> map (\<lambda>o1. map_option att_content (Attachment o1)) (out' # extra) = map (\<lambda>c. Some (Some (wc_Vcard c))) cs
     \<and> Msg_Id out' = Msg_Id out \<and> distinct (map Msg_Id (out' # extra))
     \<and> list_all (\<lambda>o1. MsgType o1 = ContactMessageType \<and> Chat o1 = Chat out \<and> FromMe o1 = FromMe out \<and>
          Timestamp o1 = Timestamp out) (out' # extra)
     \<and> list_all (\<lambda>o1. Participant o1 = None \<and> \<not> FromHistory o1) extra"
proof -
  obtain c rest where cs: "cs = c # rest" using assms(2) by (cases cs) auto
  let ?o = "fst (HandleContactsArrayMessage env out cs)" and ?x = "snd (HandleContactsArrayMessage env out cs)"
  have p: "parsed_as ContactMessageType None out ?o" by (rule text_parsed(7))
  have o: "Text ?o = DisplayName c" "map_option att_content (Attachment ?o) = Some (Some (wc_Vcard c))"
    by (simp_all add: cs HandleContactsArrayMessage_def Let_def GenerateVCardAttachment_def)
  obtain b where x: "?x = map (\<lambda>(i, c). contact_clone env b i c) (enumerate 1 rest)"
    and b: "Msg_Id b = Msg_Id out" "Chat b = Chat out" "FromMe b = FromMe out" "Timestamp b = Timestamp out"
    by (rule that [of ?o]) (simp_all add: cs HandleContactsArrayMessage_def Let_def)
  have t: "map Text ?x = map DisplayName rest"
    "map (\<lambda>o1. map_option att_content (Attachment o1)) ?x = map (\<lambda>c. Some (Some (wc_Vcard c))) rest"
    unfolding x using map_enumerate_snd [of DisplayName 1 rest]
      map_enumerate_snd [of "\<lambda>c. Some (Some (wc_Vcard c))" 1 rest]
    by (simp_all add: contact_clone_def GenerateVCardAttachment_def o_def case_prod_beta)
  have ids: "map Msg_Id ?x = map (\<lambda>i. Msg_Id out @ ''-'' @ decimal (i + 1)) [1..<1 + length rest]"
    unfolding x using map_enumerate_fst [of "\<lambda>i. Msg_Id out @ ''-'' @ decimal (i + 1)" 1 rest]
    by (simp add: contact_clone_def o_def case_prod_beta b(1))
  have "distinct (Msg_Id out # map Msg_Id ?x)"
    unfolding ids by (auto simp: distinct_map inj_on_def)
  moreover have "list_all (\<lambda>o1. MsgType o1 = ContactMessageType \<and> Chat o1 = Chat out \<and> FromMe o1 = FromMe out \<and>
      Timestamp o1 = Timestamp out \<and> Participant o1 = None \<and> \<not> FromHistory o1) ?x"
    unfolding x by (auto simp: list_all_iff contact_clone_def b empty_message_def)
  ultimately show ?thesis
    using p o t assms(1)
    by (intro exI [of _ ?o] exI [of _ ?x]) (simp add: dispatch_kind parsed_as_def envelope_def cs list_all_iff)
qed

definition sample_contact :: "string \<Rightarrow> wa_contact" where
  "sample_contact name = \<lparr>DisplayName = name, wc_Vcard = ''BEGIN:VCARD'', wc_ContextInfo = None, wc_other = []\<rparr>"

theorem contacts_array_split_witness:
  "\<exists>out' extra. HandleKnowingMessages sample_parse_env (empty_message\<lparr>Msg_Id := ''M''\<rparr>)
       (empty_wa\<lparr>ContactsArrayMessage := Some (map sample_contact [''a'', ''b'', ''c''])\<rparr>)
     = Some (out', empty_wa\<lparr>ContactsArrayMessage := Some (map sample_contact [''a'', ''b'', ''c''])\<rparr>, extra)
     \<and> length extra = 2"
proof -
  let ?m = "empty_wa\<lparr>ContactsArrayMessage := Some (map sample_contact [''a'', ''b'', ''c''])\<rparr>"
  have k: "kind_of ?m = KContacts (map sample_contact [''a'', ''b'', ''c''])" by (simp add: kind_of_def empty_wa_def)
  obtain out' extra where
    o: "HandleKnowingMessages sample_parse_env (empty_message\<lparr>Msg_Id := ''M''\<rparr>) ?m = Some (out', ?m, extra)"
    and t: "map Text (out' # extra) = map DisplayName (map sample_contact [''a'', ''b'', ''c''])"
    using contacts_array_split [OF k, of sample_parse_env "empty_message\<lparr>Msg_Id := ''M''\<rparr>"] by auto
  from t have "length extra = 2" by (metis length_map length_Cons Suc_inject list.size(3) numeral_2_eq_2)
  with o show ?thesis by blast
qed

section \<open>Polls\<close>

definition GeneratePollMessage :: "nat list \<Rightarrow> WhatsappMessage \<Rightarrow> (WhatsappMessage \<times> wa_poll) option" where
  "GeneratePollMessage secret msg =
     (case Poll msg of
        None \<Rightarrow> None
      | Some poll \<Rightarrow>
          let poll = (if Selections poll = 0 then poll\<lparr>Selections := 1\<rparr> else poll);
              poll = (if sint (Selections poll) > int (length (PollOptions poll))
                      then poll\<lparr>Selections := word_of_nat (length (PollOptions poll))\<rparr> else poll)
          in Some (msg\<lparr>Poll := Some poll\<rparr>,
                   \<lparr>poll_Name = Question poll, OptionNames = PollOptions poll,
                    SelectableOptionsCount = ucast (Selections poll), MessageSecret = secret\<rparr>))"

text \<open>
  A poll offers every option it was asked with, and lets at least one and at most all of them be
  selected, whatever number was asked for below 2^63; from there on the number reads as negative, passes
  the test and is sent cut to its low 32 bits.
\<close>
theorem poll_selections_bounds:
  assumes "Poll msg = Some poll" "0 < length (PollOptions poll)" "length (PollOptions poll) < 2 ^ 32"
  shows "\<exists>msg' wa. GeneratePollMessage secret msg = Some (msg', wa) \<and> OptionNames wa = PollOptions poll
     \<and> (if unat (Selections poll) < 2 ^ 63
        then unat (SelectableOptionsCount wa) = max 1 (min (unat (Selections poll)) (length (PollOptions poll)))
        else SelectableOptionsCount wa = ucast (Selections poll))"
proof -
  let ?s = "Selections poll" and ?n = "length (PollOptions poll)"
  let ?t = "if ?s = 0 then 1 else ?s"
  let ?u = "if sint ?t > int ?n then word_of_nat ?n else ?t"
  obtain msg' wa where g: "GeneratePollMessage secret msg = Some (msg', wa)"
    "OptionNames wa = PollOptions poll" "SelectableOptionsCount wa = ucast ?u"
    using assms(1) by (simp add: GeneratePollMessage_def Let_def)
  have "unat (ucast ?u :: 32 word) = max 1 (min (unat ?s) ?n)" if s: "unat ?s < 2 ^ 63"
  proof -
    have t: "unat ?t = max 1 (unat ?s)" using unat_eq_zero [of ?s] by (auto simp: max_def)
    have "unat ?t < 2 ^ 63" using s t by simp
    then have "sint ?t = int (unat ?t)" by (rule sint_small)
    moreover have "unat (word_of_nat ?n :: 64 word) = ?n"
      using assms(3) by (simp add: unsigned_of_nat take_bit_nat_eq_self)
    moreover have "1 \<le> ?n" using assms(2) by linarith
    ultimately have u: "unat ?u = max 1 (min (unat ?s) ?n)"
      using t by (auto simp: max_def min_def)
    moreover have "unat ?u < 2 ^ 32" unfolding u using assms(3) by simp
    ultimately show ?thesis by (simp add: unsigned_ucast_eq take_bit_nat_eq_self del: max_less_iff_conj)
  qed
  moreover have "ucast ?u = (ucast ?s :: 32 word)" if "\<not> unat ?s < 2 ^ 63"
  proof -
    have "?s \<noteq> 0" "sint ?s < 0" using that sint_large [of ?s] by auto
    then show ?thesis by simp
  qed
  ultimately show ?thesis using g by auto
qed

definition sample_poll :: WhatsappMessage where
  "sample_poll = empty_message\<lparr>Poll := Some \<lparr>Question = ''when'', PollOptions = [''a'', ''b''], Selections = 9\<rparr>\<rparr>"

theorem poll_selections_bounds_witness:
  "\<exists>msg' wa. GeneratePollMessage [] sample_poll = Some (msg', wa) \<and> unat (SelectableOptionsCount wa) = 2"
  using poll_selections_bounds [of sample_poll "\<lparr>Question = ''when'', PollOptions = [''a'', ''b''], Selections = 9\<rparr>" "[]"]
  by (auto simp: sample_poll_def)

end
