(* ===== verification/Events.thy ===== *)
theory Events
  imports Parsing Handler "HOL-Library.Multiset"
begin

text \<open>
  What the connection does with the events of the WhatsApp client: \<open>src/whatsmeow/whatsmeow_handlers.go\<close>,
  \<open>whatsmeow_handlers_events_contact.go\<close> and \<open>whatsmeow_handlers+call.go\<close>. The handler's state, the maps
  and caches of \<open>Chats\<close> and the server behind \<open>WAHandlers\<close> are the state; every \<open>go\<close> statement is a task that
  runs later, in any order, and a step relation interleaves arriving events and tasks. Calls of the
  client are effects. The client's clock, ids and answers are fields of \<open>event_env\<close>.
\<close>

section \<open>State, events and tasks\<close>

record WhatsmeowHandlers =
  wh_service :: WhatsappOptionsExtended
  wh_options :: "WhatsappOptions option"
  eventHandlerID :: nat
  unregisterRequestedToken :: bool
  wh_Counter :: "64 word"
  offlineSyncStarted :: bool
  offlineSyncCompleted :: bool
  eventSequence :: "64 word"
  client_handlers :: "nat set"
  wh_ReconnectErrors :: nat

record event_state =
  wh :: WhatsmeowHandlers
  chats :: chat_state
  wa :: "QpWhatsappServer option"

record event_env =
  ee_contact :: contact_env
  ee_parse :: parse_env
  ee_handler :: handler_env
  ee_now :: time
  ee_now2 :: time
  ee_message_id :: string
  ee_handler_id :: nat
  ee_own_phone :: string
  ee_rfc3339 :: string
  ee_pairs :: "(string \<times> string) list \<Rightarrow> string"
  ee_crc32 :: "string \<Rightarrow> string"
  ee_add_days :: "int \<Rightarrow> int"
  ee_push_name :: string
  ee_order :: "(string \<times> WhatsappMessageStatus) list \<Rightarrow> (string \<times> WhatsappMessageStatus) list"

record message_event =
  me_Info :: message_info
  me_Message :: "wa_message option"

record call_meta =
  CallID :: string
  call_Timestamp :: "time option"
  call_From :: JID
  CallCreator :: "JID option"
  CallCreatorAlt :: "JID option"
  call_text :: string

record receipt_event =
  rc_Chat :: JID
  rc_Type :: ReceiptType
  MessageIDs :: "string list"
  rc_Timestamp :: "time option"
  rc_text :: string

text \<open>A message of the history with its time and what the client's parser makes of it.\<close>

record history_message =
  hm_Conversation :: string
  hm_Timestamp :: "64 word"
  hm_Parsed :: "message_event option"

record contact_event =
  ct_JID :: JID
  ct_Action :: "(string \<times> string) option"
  FromFullSync :: bool
  ct_Timestamp :: "time option"
  ct_text :: string

record joined_group =
  CreateKey :: string
  jg_JID :: JID
  jg_Name :: string
  jg_info :: string

record undecryptable =
  ud_Info :: message_info
  UnavailableType :: string
  ud_text :: string

datatype raw_event =
  EvMessage message_event | EvCallOffer call_meta | EvCallOfferNotice call_meta | EvReceipt receipt_event
| EvConnected | EvPushNameSetting | EvDisconnected | EvLoggedOut string | EvHistorySync "history_message list"
| EvAppStateSyncComplete bool | EvJoinedGroup joined_group | EvContact contact_event | EvPairError
| EvOfflineSyncPreview "(string \<times> string) list" | EvOfflineSyncCompleted "(string \<times> string) list"
| EvUndecryptable undecryptable | EvNotImplemented string "message_info option" | EvQR
| EvPairSuccess JID string string | EvOther string "message_info option"

datatype task =
  TMessage message_event string | TCall call_meta | TReceipt receipt_event | THistory "history_message list"
| TContact contact_event | TSyncPreview "(string \<times> string) list" | TSyncCompleted "(string \<times> string) list"
| TUndecryptable undecryptable | TUnhandled string "message_info option" string | TConnection string
| TOnConnected | TOnDisconnected | TFollow WhatsappMessage string | TWaMessage WhatsappMessage string
| TWaReceipt WhatsappMessage | TMarkRead WhatsappMessage

datatype effect =
  PresenceSent string | LoggedOutCalled string | OnConnectedCalled | OnDisconnectedCalled | CallRejected JID string
| MarkedRead string JID "JID option" | Deliver "delivery list"

text \<open>A step's result: the state, the calls made and the tasks started; \<open>None\<close> is a panic.\<close>

type_synonym outcome = "(event_state \<times> effect list \<times> task list) option"

section \<open>Options of the handler\<close>

definition local_option :: "WhatsmeowHandlers \<Rightarrow> (WhatsappOptions \<Rightarrow> WhatsappBoolean) \<Rightarrow> WhatsappBoolean" where
  "local_option h field = (case wh_options h of None \<Rightarrow> UnSetBooleanType | Some options \<Rightarrow> field options)"

text \<open>The methods of a handler that may be nil.\<close>

definition WH_HandleBroadcasts :: "WhatsmeowHandlers option \<Rightarrow> bool option" where
  "WH_HandleBroadcasts source =
     (case source of None \<Rightarrow> Some False | Some h \<Rightarrow> HandleBroadcasts (wh_service h) (local_option h Broadcasts))"

definition WH_HandleGroups :: "WhatsmeowHandlers option \<Rightarrow> bool option" where
  "WH_HandleGroups source =
     (case source of None \<Rightarrow> Some False | Some h \<Rightarrow> HandleGroups (wh_service h) (local_option h Groups))"

definition WH_HandleReadReceipts :: "WhatsmeowHandlers option \<Rightarrow> bool option" where
  "WH_HandleReadReceipts source =
     (case source of None \<Rightarrow> Some False | Some h \<Rightarrow> HandleReadReceipts (wh_service h) (local_option h ReadReceipts))"

definition WH_HandleCalls :: "WhatsmeowHandlers option \<Rightarrow> bool option" where
  "WH_HandleCalls source =
     (case source of None \<Rightarrow> Some False | Some h \<Rightarrow> HandleCalls (wh_service h) (local_option h Calls))"

definition WH_HandleReadUpdate :: "WhatsmeowHandlers option \<Rightarrow> bool option" where
  "WH_HandleReadUpdate source =
     (case source of None \<Rightarrow> Some False | Some h \<Rightarrow> HandleReadUpdate (wh_service h) (local_option h ReadUpdate))"

definition ShouldDispatchUnhandled :: "WhatsmeowHandlers \<Rightarrow> bool" where
  "ShouldDispatchUnhandled h = DispatchUnhandled (wh_service h)"

definition WhatsappHistorySync :: bool where "WhatsappHistorySync = False"

definition HandleHistorySync :: "WhatsmeowHandlers \<Rightarrow> bool" where
  "HandleHistorySync h = (if HistorySync (wh_service h) \<noteq> None then True else WhatsappHistorySync)"

definition PresenceAvailable :: string where "PresenceAvailable = ''available''"
definition PresenceUnavailable :: string where "PresenceUnavailable = ''unavailable''"

definition WhatsmeowPresenceDefault :: string where "WhatsmeowPresenceDefault = PresenceUnavailable"

definition GetPresence :: "WhatsmeowHandlers \<Rightarrow> string" where
  "GetPresence h =
     (if Presence (wh_service h) = PresenceAvailable then PresenceAvailable
      else if Presence (wh_service h) = PresenceUnavailable then PresenceUnavailable
      else WhatsmeowPresenceDefault)"

definition SendPresence :: "event_env \<Rightarrow> string \<Rightarrow> effect list" where
  "SendPresence env presence = (if length (ee_push_name env) > 0 then [PresenceSent presence] else [])"

definition getTimestamp :: "event_env \<Rightarrow> WhatsmeowHandlers \<Rightarrow> WhatsmeowHandlers \<times> time" where
  "getTimestamp env h =
     (let sequence = eventSequence h + 1
      in (h\<lparr>eventSequence := sequence\<rparr>, ee_now env + int (unat (sequence mod 1000000))))"

section \<open>Registration\<close>

definition WM_UnRegister :: "event_env \<Rightarrow> WhatsmeowHandlers \<Rightarrow> WhatsmeowHandlers" where
  "WM_UnRegister env h =
     (let h = h\<lparr>unregisterRequestedToken := True\<rparr>
      in if ce_client (ee_contact env) then h\<lparr>client_handlers := client_handlers h - {eventHandlerID h}\<rparr> else h)"

definition WM_Register :: "event_env \<Rightarrow> WhatsmeowHandlers \<Rightarrow> WhatsmeowHandlers option" where
  "WM_Register env h =
     (if \<not> ce_store (ee_contact env) then None
      else Some (h\<lparr>unregisterRequestedToken := False, eventHandlerID := ee_handler_id env,
                   client_handlers := insert (ee_handler_id env) (client_handlers h)\<rparr>))"

definition isHistoryMessage :: "WhatsmeowHandlers \<Rightarrow> string \<Rightarrow> bool" where
  "isHistoryMessage h from =
     (if from = ''history'' then True
      else if offlineSyncStarted h \<and> \<not> offlineSyncCompleted h then True
      else False)"

section \<open>Following a message\<close>

definition WASYSTEMCHAT :: WhatsappChat where
  "WASYSTEMCHAT = empty_chat\<lparr>Chat_Id := ''system'', Title := ''Internal System Message''\<rparr>"

definition WM_Follow :: "event_state \<Rightarrow> WhatsappMessage \<Rightarrow> string \<Rightarrow> task list option" where
  "WM_Follow st message from =
     (case WH_HandleReadUpdate (Some (wh st)) of
        None \<Rightarrow> None
      | Some readUpdate \<Rightarrow>
          Some ((if wa st \<noteq> None then [TWaMessage message from] else []) @
                (if readUpdate \<and> \<not> FromBroadcast message then [TMarkRead message] else [])))"

definition follow_result :: "event_state \<Rightarrow> effect list \<Rightarrow> task list \<Rightarrow> WhatsappMessage \<Rightarrow> string \<Rightarrow> outcome" where
  "follow_result st out ts message from =
     (case WM_Follow st message from of None \<Rightarrow> None | Some more_tasks \<Rightarrow> Some (st, out, ts @ more_tasks))"

definition WM_MarkRead :: "event_env \<Rightarrow> WhatsappMessage \<Rightarrow> effect list" where
  "WM_MarkRead env message =
     (case ce_parse (ee_contact env) (Chat_Id (Chat message)) of
        None \<Rightarrow> []
      | Some chatJID \<Rightarrow>
          (case Participant message of
             None \<Rightarrow> [MarkedRead (Msg_Id message) chatJID None]
           | Some p \<Rightarrow>
               (case ce_parse (ee_contact env) (Chat_Id p) of
                  None \<Rightarrow> []
                | Some senderJID \<Rightarrow> [MarkedRead (Msg_Id message) chatJID (Some senderJID)])))"

definition PopulateChatAndParticipant ::
    "event_env \<Rightarrow> chat_state \<Rightarrow> WhatsappMessage \<Rightarrow> message_info \<Rightarrow> chat_state \<times> WhatsappMessage" where
  "PopulateChatAndParticipant env c message info =
     (case NewWhatsappChatRaw (ee_contact env) c (mi_Chat info) of
        (c, chat) \<Rightarrow>
          let message = message\<lparr>Chat := chat\<rparr>
          in if mi_IsGroup info then
               (case NewWhatsappChatRaw (ee_contact env) c (mi_Sender info) of
                  (c, participant) \<Rightarrow>
                    (c, message\<lparr>Participant := Some
                       (if length (Title participant) = 0
                        then enrichParticipantName (ee_contact env) participant (mi_Sender info)
                        else participant)\<rparr>))
             else (c, message))"

section \<open>Mentions\<close>

function ReplaceAll :: "string \<Rightarrow> string \<Rightarrow> string \<Rightarrow> string" where
  "ReplaceAll s old new =
     (if s = [] \<or> old = [] then s
      else if HasPrefix s old then new @ ReplaceAll (drop (length old) s) old new
      else hd s # ReplaceAll (tl s) old new)"
  by pat_completeness auto
termination by (relation "measure (\<lambda>(s, old, new). length s)") auto

declare ReplaceAll.simps [simp del]

definition named :: "string \<Rightarrow> string \<Rightarrow> string" where
  "named phone contactName =
     ''@'' @ phone @ (if contactName \<noteq> [] then '' ('' @ contactName @ '')'' else [])"

definition mention_replacement :: "event_env \<Rightarrow> chat_state \<Rightarrow> string \<Rightarrow> JID \<Rightarrow> chat_state \<times> string" where
  "mention_replacement env c jidStr jid =
     (if jid_Server jid = WHATSAPP_SERVERDOMAIN_LID \<and> ce_client (ee_contact env) then
        (case GetPhoneFromLID (ee_contact env) c jidStr of
           (c, Inl _) \<Rightarrow> (c, [])
         | (c, Inr phone) \<Rightarrow> (c, if phone \<noteq> [] then named phone (GetContactName (ee_contact env) jid) else []))
      else if jid_Server jid = WHATSAPP_SERVERDOMAIN_USER then
        (c, named (jid_User jid) (GetContactName (ee_contact env) jid))
      else (c, []))"

fun mentions_loop :: "event_env \<Rightarrow> chat_state \<Rightarrow> string \<Rightarrow> string list \<Rightarrow> chat_state \<times> string" where
  "mentions_loop env c formattedText [] = (c, formattedText)"
| "mentions_loop env c formattedText (jidStr # rest) =
     (case ce_parse (ee_contact env) jidStr of
        None \<Rightarrow> mentions_loop env c formattedText rest
      | Some jid \<Rightarrow>
          (case mention_replacement env c jidStr jid of
             (c, replacement) \<Rightarrow>
               let originalMention = CHR ''@'' # jid_User jid
               in mentions_loop env c
                    (if replacement \<noteq> [] \<and> Contains formattedText originalMention
                     then ReplaceAll formattedText originalMention replacement else formattedText) rest))"

definition ProcessMentions ::
    "event_env \<Rightarrow> chat_state \<Rightarrow> WhatsappMessage \<Rightarrow> wa_context_info option \<Rightarrow> chat_state \<times> WhatsappMessage" where
  "ProcessMentions env c message contextInfo =
     (case contextInfo of
        None \<Rightarrow> (c, message)
      | Some ci \<Rightarrow>
          if length (MentionedJID ci) = 0 then (c, message)
          else (case mentions_loop env c (Text message) (MentionedJID ci) of
                  (c, formattedText) \<Rightarrow>
                    (c, if formattedText \<noteq> Text message then message\<lparr>Text := formattedText\<rparr> else message)))"

section \<open>Messages\<close>

definition WM_Message :: "event_env \<Rightarrow> event_state \<Rightarrow> message_event \<Rightarrow> string \<Rightarrow> outcome" where
  "WM_Message env st evt from =
     (case me_Message evt of
        None \<Rightarrow> Some (st, [], [])
      | Some in_msg \<Rightarrow>
          let info = me_Info evt;
              message = empty_message\<lparr>Content := WaMessage in_msg, InfoForHistory := Some info,
                FromHistory := isHistoryMessage (wh st) from,
                Msg_Id := mi_ID info, Timestamp := ImproveTimestamp (ee_now env) (ee_now2 env) (mi_Timestamp info),
                FromMe := mi_IsFromMe info\<rparr>
          in (case PopulateChatAndParticipant env (chats st) message info of
                (c, message) \<Rightarrow>
                  (case HandleKnowingMessages (ee_parse env) message in_msg of
                     None \<Rightarrow> None
                   | Some (message, in_msg, contacts) \<Rightarrow>
                       let message = message\<lparr>Content := WaMessage in_msg\<rparr>;
                           started = map (\<lambda>m. TFollow m ''contacts_array'') contacts;
                           contextInfo = (case ExtendedTextMessage in_msg of
                             None \<Rightarrow> None | Some et \<Rightarrow> et_ContextInfo et)
                       in (case (if FromGroup message then ProcessMentions env c message contextInfo
                                 else (c, message)) of
                             (c, message) \<Rightarrow>
                               let st = st\<lparr>chats := c\<rparr>
                               in if MsgType message = UnhandledMessageType \<and> FromHistory message
                                  then Some (st, [], started)
                                  else follow_result st [] started message from))))"

text \<open>The parser's failure on one message ends the whole batch.\<close>

fun history_loop :: "event_env \<Rightarrow> event_state \<Rightarrow> history_message list \<Rightarrow> outcome" where
  "history_loop env st [] = Some (st, [], [])"
| "history_loop env st (hm # rest) =
     (case ce_parse (ee_contact env) (hm_Conversation hm) of
        None \<Rightarrow> Some (st, [], [])
      | Some wid \<Rightarrow>
          if \<not> HandleHistory (ee_add_days env) (wh_service (wh st)) (hm_Timestamp hm) then history_loop env st rest
          else (case hm_Parsed hm of
             None \<Rightarrow> Some (st, [], [])
           | Some msgevt \<Rightarrow>
               (case WM_Message env st msgevt ''history'' of
                  None \<Rightarrow> None
                | Some (st, out, ts) \<Rightarrow>
                    (case history_loop env st rest of
                       None \<Rightarrow> None
                     | Some (st, out2, ts2) \<Rightarrow> Some (st, out @ out2, ts @ ts2)))))"

definition OnHistorySyncEvent :: "event_env \<Rightarrow> event_state \<Rightarrow> history_message list \<Rightarrow> outcome" where
  "OnHistorySyncEvent env st evt =
     (if HistorySync (wh_service (wh st)) = None then Some (st, [], []) else history_loop env st evt)"

section \<open>Calls and receipts\<close>

definition CallMessage :: "event_env \<Rightarrow> event_state \<Rightarrow> call_meta \<Rightarrow> outcome" where
  "CallMessage env st evt =
     (case NewWhatsappChatRaw (ee_contact env) (chats st) (call_From evt) of
        (c, chat) \<Rightarrow>
          let message = empty_message\<lparr>Content := OtherContent (call_text evt), Msg_Id := CallID evt,
                Timestamp := call_Timestamp evt, FromMe := False, Chat := chat, MsgType := CallMessageType\<rparr>;
              started = (if wa st \<noteq> None then [TWaMessage message ''call''] else [])
          in (case WH_HandleCalls (Some (wh st)) of
                None \<Rightarrow> None
              | Some calls \<Rightarrow>
                  Some (st\<lparr>chats := c\<rparr>, (if \<not> calls then [CallRejected (call_From evt) (CallID evt)] else []), started)))"

text \<open>
  \<open>IsEmpty\<close> of an identifier tests its server. The two functions below are kept beside the code that
  handles calls; \<open>CallMessage\<close> itself uses the caller's identifier as it comes.
\<close>

record CallIdentifiers =
  ChatJID :: JID
  LidJID :: "JID option"
  HasLID :: bool

definition is_lid_server :: "JID option \<Rightarrow> bool" where
  "is_lid_server jid \<longleftrightarrow> (case jid of None \<Rightarrow> False | Some j \<Rightarrow> jid_Server j = WHATSAPP_SERVERDOMAIN_LID)"

definition ResolveCallIdentifiers :: "call_meta \<Rightarrow> CallIdentifiers" where
  "ResolveCallIdentifiers evt =
     (let mark_lid = (\<lambda>result. if is_lid_server (CallCreator evt)
                               then result\<lparr>HasLID := True, LidJID := CallCreator evt\<rparr> else result)
      in case (CallCreator evt, CallCreatorAlt evt) of
           (Some creator, alt) \<Rightarrow>
             if jid_Server creator = WHATSAPP_SERVERDOMAIN_LID then
               (case alt of
                  Some a \<Rightarrow> \<lparr>ChatJID = a, LidJID = Some creator, HasLID = True\<rparr>
                | None \<Rightarrow> \<lparr>ChatJID = creator, LidJID = Some creator, HasLID = True\<rparr>)
             else
               (case alt of
                  Some a \<Rightarrow> mark_lid \<lparr>ChatJID = a, LidJID = None, HasLID = False\<rparr>
                | None \<Rightarrow> mark_lid \<lparr>ChatJID = creator, LidJID = None, HasLID = False\<rparr>)
         | (None, Some a) \<Rightarrow> mark_lid \<lparr>ChatJID = a, LidJID = None, HasLID = False\<rparr>
         | (None, None) \<Rightarrow> \<lparr>ChatJID = call_From evt, LidJID = None, HasLID = False\<rparr>)"

definition EnrichCallChat ::
    "event_env \<Rightarrow> chat_state \<Rightarrow> WhatsappChat \<Rightarrow> CallIdentifiers \<Rightarrow> JID \<Rightarrow> chat_state \<times> WhatsappChat" where
  "EnrichCallChat env c chat identifiers chatJID =
     (case LidJID identifiers of
        None \<Rightarrow> (c, chat)
      | Some lidJID \<Rightarrow>
          if \<not> HasLID identifiers then (c, chat)
          else
            let lidStr = jid_User lidJID @ ''@'' @ jid_Server lidJID;
                chat = (if length (LId chat) = 0 then chat\<lparr>LId := lidStr\<rparr> else chat)
            in if jid_Server chatJID = WHATSAPP_SERVERDOMAIN_LID \<and> length (Phone chat) = 0 \<and>
                  ce_client (ee_contact env) then
                 (case GetPhoneFromLID (ee_contact env) c lidStr of
                    (c, Inl _) \<Rightarrow> (c, chat)
                  | (c, Inr phone) \<Rightarrow>
                      if length phone = 0 then (c, chat)
                      else
                        let chat = chat\<lparr>Phone := phone, Chat_Id := phone @ ''@'' @ WHATSAPP_SERVERDOMAIN_USER\<rparr>
                        in if length (Title chat) = 0 then
                             (case ce_parse (ee_contact env) (Chat_Id chat) of
                                None \<Rightarrow> (c, chat)
                              | Some phoneJID \<Rightarrow>
                                  (case GetChatTitle (ee_contact env) c phoneJID of
                                     (c, title) \<Rightarrow> (c, chat\<lparr>Title := title\<rparr>)))
                           else (c, chat))
               else (c, chat))"

lemma resolved_lid: "HasLID (ResolveCallIdentifiers evt) \<longleftrightarrow> is_lid_server (CallCreator evt)"
  by (auto simp: ResolveCallIdentifiers_def is_lid_server_def split: option.splits)

fun receipt_statuses ::
    "WhatsappMessageStatus \<Rightarrow> (string \<times> WhatsappMessageStatus) list \<Rightarrow> string list \<Rightarrow> (string \<times> WhatsappMessageStatus) list" where
  "receipt_statuses current seen [] = seen"
| "receipt_statuses current seen (i # ids) =
     (let last_status = (case map_of seen i of None \<Rightarrow> [] | Some s \<Rightarrow> s)
      in receipt_statuses current
           (if Uint32 current > Uint32 last_status then AList.update i current seen else seen) ids)"

fun receipt_loop :: "event_env \<Rightarrow> event_state \<Rightarrow> receipt_event \<Rightarrow> QpWhatsappServer \<Rightarrow>
    (string \<times> WhatsappMessageStatus) list \<Rightarrow> outcome" where
  "receipt_loop env st evt server [] = Some (st\<lparr>wa := Some server\<rparr>, [], [])"
| "receipt_loop env st evt server ((i, status) # rest) =
     (case MessageStatusUpdate (he_store (ee_handler env)) (store (msg_handler server)) i status of
        (cached, updated) \<Rightarrow>
          let server = server\<lparr>msg_handler := (msg_handler server)\<lparr>store := cached\<rparr>\<rparr>
          in if \<not> updated \<or> Uint32 status \<noteq> Uint32 StatusRead then receipt_loop env st evt server rest
             else (case WH_HandleReadReceipts (Some (wh st)) of
                None \<Rightarrow> None
              | Some False \<Rightarrow> receipt_loop env st evt server rest
              | Some True \<Rightarrow>
                  (case NewWhatsappChatRaw (ee_contact env) (chats st) (rc_Chat evt) of
                     (c, chat) \<Rightarrow>
                       let message = empty_message\<lparr>Content := OtherContent (rc_text evt), Msg_Id := ''readreceipt'',
                             Timestamp := rc_Timestamp evt, FromMe := False, Chat := chat,
                             MsgType := SystemMessageType, Text := i\<rparr>
                       in map_option (\<lambda>(st, out, ts). (st, out, TWaReceipt message # ts))
                            (receipt_loop env (st\<lparr>chats := c\<rparr>) evt server rest))))"

text \<open>Go ranges over the map of statuses in any order: \<open>ee_order\<close> is the order of this run.\<close>

definition WM_Receipt :: "event_env \<Rightarrow> event_state \<Rightarrow> receipt_event \<Rightarrow> outcome" where
  "WM_Receipt env st evt =
     (let st = st\<lparr>wh := (wh st)\<lparr>wh_Counter := wh_Counter (wh st) + 1\<rparr>\<rparr>;
          chatID = jid_User (rc_Chat evt) @ ''@'' @ jid_Server (rc_Chat evt)
      in if Contains chatID ''@broadcast'' \<or> Contains chatID ''@newsletter'' \<or> Contains chatID ''@g.us''
         then Some (st, [], [])
         else
           let seen = receipt_statuses (GetWhatsappMessageStatus (rc_Type evt)) [] (MessageIDs evt)
           in (case wa st of
                 None \<Rightarrow> Some (st, [], [])
               | Some server \<Rightarrow> receipt_loop env st evt server (ee_order env seen)))"

section \<open>The other events\<close>

definition with_timestamp :: "event_env \<Rightarrow> event_state \<Rightarrow> (time \<Rightarrow> event_state \<Rightarrow> 'a) \<Rightarrow> 'a" where
  "with_timestamp env st k = (case getTimestamp env (wh st) of (h, t) \<Rightarrow> k t (st\<lparr>wh := h\<rparr>))"

definition DispatchUnhandledEvent ::
    "event_env \<Rightarrow> event_state \<Rightarrow> string \<Rightarrow> message_info option \<Rightarrow> string \<Rightarrow> outcome" where
  "DispatchUnhandledEvent env st eventText eventInfo eventType =
     with_timestamp env st (\<lambda>now st.
       let cleanEventType = (if HasPrefix eventType ''*events.'' then drop 8 eventType else eventType);
           digits = decimal (unat (word_of_int (ee_now env mod 1000000000) :: 64 word) mod 100000000);
           randomizer = replicate (8 - length digits) (CHR ''0'') @ digits;
           message = empty_message\<lparr>Content := OtherContent eventText,
             Msg_Id := ''event_'' @ randomizer @ ''_'' @ ee_message_id env, Timestamp := Some now,
             MsgType := UnhandledMessageType, FromMe := False,
             Debug := Some \<lparr>DebugEvent = cleanEventType, Reason = ''event'', DebugInfo = OtherContent eventText\<rparr>\<rparr>
       in (case eventInfo of
             Some info \<Rightarrow>
               let message = message\<lparr>Msg_Id := ''event_'' @ randomizer @ ''_'' @ mi_ID info,
                     Timestamp := ImproveTimestamp (ee_now env) (ee_now2 env) (mi_Timestamp info),
                     FromMe := mi_IsFromMe info\<rparr>
               in (case PopulateChatAndParticipant env (chats st) message info of
                     (c, message) \<Rightarrow> follow_result (st\<lparr>chats := c\<rparr>) [] [] message ''debug'')
           | None \<Rightarrow> follow_result st [] [] (message\<lparr>Chat := WASYSTEMCHAT\<rparr>) ''debug''))"

definition UndecryptableMessage :: "event_env \<Rightarrow> event_state \<Rightarrow> undecryptable \<Rightarrow> outcome" where
  "UndecryptableMessage env st evt =
     (if EqualFold (UnavailableType evt) ''view_once'' then
        let info = ud_Info evt;
            message = empty_message\<lparr>Msg_Id := mi_ID info,
              Timestamp := ImproveTimestamp (ee_now env) (ee_now2 env) (mi_Timestamp info),
              MsgType := ViewOnceMessageType, FromMe := mi_IsFromMe info\<rparr>
        in if length (mi_ID info) > 0 then
             (case PopulateChatAndParticipant env (chats st) message info of
                (c, message) \<Rightarrow> follow_result (st\<lparr>chats := c\<rparr>) [] [] message ''view_once'')
           else follow_result st [] [] (message\<lparr>Chat := WASYSTEMCHAT\<rparr>) ''view_once''
      else if ShouldDispatchUnhandled (wh st)
        then Some (st, [], [TUnhandled (ud_text evt) None ''events.UndecryptableMessage''])
      else Some (st, [], []))"

definition OnLoggedOutEvent :: "event_env \<Rightarrow> event_state \<Rightarrow> string \<Rightarrow> outcome" where
  "OnLoggedOutEvent env st reason =
     with_timestamp env st (\<lambda>now st.
       let message = empty_message\<lparr>Timestamp := Some now, MsgType := SystemMessageType,
             Msg_Id := ee_message_id env, Chat := WASYSTEMCHAT, Text := reason\<rparr>
       in (case follow_result st (if wa st \<noteq> None then [LoggedOutCalled reason] else []) [] message ''logout'' of
             None \<Rightarrow> None
           | Some (st, out, ts) \<Rightarrow> Some (st\<lparr>wh := WM_UnRegister env (wh st)\<rparr>, out, ts)))"

definition JoinedGroup :: "event_env \<Rightarrow> event_state \<Rightarrow> joined_group \<Rightarrow> outcome" where
  "JoinedGroup env st evt =
     with_timestamp env st (\<lambda>now st.
       follow_result st [] []
         (empty_message\<lparr>Content := OtherContent (jg_info evt),
            Msg_Id := (if length (CreateKey evt) = 0 then ee_message_id env else CreateKey evt),
            Timestamp := Some now, MsgType := GroupMessageType,
            Chat := empty_chat\<lparr>Chat_Id := ce_string (ee_contact env) (jg_JID evt), Title := jg_Name evt\<rparr>,
            Text := ''joined group'', Info := Some (jg_info evt)\<rparr>)
         ''group'')"

definition vcard_lines :: "string list \<Rightarrow> string" where
  "vcard_lines ls = concat (map (\<lambda>l. l @ [CHR 0x0A]) ls)"

definition OnEventContact :: "event_env \<Rightarrow> event_state \<Rightarrow> contact_event \<Rightarrow> outcome" where
  "OnEventContact env st evt =
     (case ct_Action evt of
        None \<Rightarrow> Some (st, [], [])
      | Some (title, lid) \<Rightarrow>
          let i = (if ce_client (ee_contact env) then ee_message_id env else [])
          in (case NewWhatsappChatRaw (ee_contact env) (chats st) (ct_JID evt) of
                (c, chat) \<Rightarrow>
                  let chat = chat\<lparr>Chat_Id := ce_string (ee_contact env) (ct_JID evt), LId := lid, Title := title\<rparr>;
                      phone = GetPhone chat;
                      content = vcard_lines ([''BEGIN:VCARD'', ''VERSION:4.0'', ''FN:'' @ title] @
                        (if length phone > 0 then [''TEL;TYPE=main-number:'' @ phone] else []) @ [''END:VCARD'']);
                      message = empty_message\<lparr>Content := OtherContent (ct_text evt), FromHistory := FromFullSync evt,
                        Msg_Id := i, Timestamp := ct_Timestamp evt, MsgType := ContactMessageType, Chat := chat,
                        Text := title, Edited := True\<rparr>;
                      filename = vcard_name (ee_parse env) (Title (Chat message))
                        (if length (Msg_Id message) > 0 then Msg_Id message else ''unknown'');
                      attach = GenerateVCardAttachment content filename
                  in follow_result (st\<lparr>chats := c\<rparr>) [] []
                       (message\<lparr>Attachment := Some (attach\<lparr>Checksum := ee_crc32 env content\<rparr>)\<rparr>) ''vcard''))"

text \<open>The system messages about the connection, the synchronisation, a scan and a pairing.\<close>

definition system_message :: "event_env \<Rightarrow> time \<Rightarrow> (string \<times> string) list \<Rightarrow> WhatsappMessage" where
  "system_message env now info =
     empty_message\<lparr>Msg_Id := ee_message_id env, Timestamp := Some now, MsgType := SystemMessageType, FromMe := False,
       Chat := WASYSTEMCHAT, Text := ee_pairs env info, Info := Some (ee_pairs env info)\<rparr>"

definition sendConnectionDispatching :: "event_env \<Rightarrow> event_state \<Rightarrow> string \<Rightarrow> outcome" where
  "sendConnectionDispatching env st event =
     (if wa st = None then Some (st, [], [])
      else with_timestamp env st (\<lambda>now st.
        Some (st, [], [TWaMessage (system_message env now
          [(''event'', event), (''phone'', ee_own_phone env), (''timestamp'', ee_rfc3339 env),
           (''description'', ''WhatsApp connection state changed to: '' @ event)]) ''connection''])))"

definition sendSyncDispatching :: "event_env \<Rightarrow> event_state \<Rightarrow> string \<Rightarrow> (string \<times> string) list \<Rightarrow> outcome" where
  "sendSyncDispatching env st event info =
     (if wa st = None then Some (st, [], [])
      else with_timestamp env st (\<lambda>now st.
        Some (st, [], [TWaMessage (system_message env now
          (foldl (\<lambda>m (k, v). AList.update k v m)
             [(''event'', event), (''phone'', ee_own_phone env), (''timestamp'', ee_rfc3339 env),
              (''description'', ''History synchronization event: '' @ event)] info)) ''sync''])))"

definition OnOfflineSyncPreview :: "event_env \<Rightarrow> event_state \<Rightarrow> (string \<times> string) list \<Rightarrow> outcome" where
  "OnOfflineSyncPreview env st counts =
     sendSyncDispatching env (st\<lparr>wh := (wh st)\<lparr>offlineSyncStarted := True, offlineSyncCompleted := False\<rparr>\<rparr>)
       ''sync_preview'' counts"

definition OnOfflineSyncCompleted :: "event_env \<Rightarrow> event_state \<Rightarrow> (string \<times> string) list \<Rightarrow> outcome" where
  "OnOfflineSyncCompleted env st counts =
     sendSyncDispatching env (st\<lparr>wh := (wh st)\<lparr>offlineSyncCompleted := True, offlineSyncStarted := False\<rparr>\<rparr>)
       ''sync_completed'' counts"

text \<open>
  The client's QR event has a list of codes and no field named \<open>Event\<close>, so of the reflection only the
  branch for an unknown structure is taken.
\<close>

definition OnQREvent :: "event_env \<Rightarrow> event_state \<Rightarrow> outcome" where
  "OnQREvent env st =
     with_timestamp env st (\<lambda>now st.
       follow_result st [] [] (system_message env now
         [(''event'', ''qr_scan''), (''phone'', ee_own_phone env), (''timestamp'', ee_rfc3339 env),
          (''status'', ''unknown''), (''message'', ''QR event received (structure unknown)''),
          (''description'', ''QR event was received but its structure could not be parsed'')]) ''qr'')"

definition OnPairSuccessEvent :: "event_env \<Rightarrow> event_state \<Rightarrow> JID \<Rightarrow> string \<Rightarrow> string \<Rightarrow> outcome" where
  "OnPairSuccessEvent env st jid platform businessName =
     with_timestamp env st (\<lambda>now st.
       follow_result st [] [] (system_message env now
         ([(''event'', ''pair_success''), (''status'', ''success''),
           (''message'', ''Device pairing completed successfully''), (''phone'', jid_User jid),
           (''timestamp'', ee_rfc3339 env),
           (''description'', ''WhatsApp device was successfully paired and authenticated''),
           (''jid'', ce_string (ee_contact env) jid), (''user'', jid_User jid), (''server'', jid_Server jid)] @
          (if platform \<noteq> [] then [(''platform'', platform)] else []) @
          (if businessName \<noteq> [] then [(''business_name'', businessName), (''is_business'', ''true'')]
           else [(''is_business'', ''false'')]))) ''pair'')"

section \<open>The entry point and the tasks\<close>

definition EventsHandler :: "event_env \<Rightarrow> event_state \<Rightarrow> raw_event \<Rightarrow> outcome" where
  "EventsHandler env st rawEvt =
     (let h = wh st in
      if unregisterRequestedToken h then
        Some (if ce_client (ee_contact env)
              then st\<lparr>wh := h\<lparr>client_handlers := client_handlers h - {eventHandlerID h}\<rparr>\<rparr> else st, [], [])
      else (case rawEvt of
         EvMessage evt \<Rightarrow> Some (st, [], [TMessage evt ''live''])
       | EvCallOffer evt \<Rightarrow> Some (st, [], [TCall evt])
       | EvCallOfferNotice evt \<Rightarrow> Some (st, [], [TCall evt])
       | EvReceipt evt \<Rightarrow> Some (st, [], [TReceipt evt])
       | EvConnected \<Rightarrow>
           let st = st\<lparr>wh := h\<lparr>offlineSyncStarted := True, offlineSyncCompleted := False\<rparr>\<rparr>;
               out = (if ce_client (ee_contact env) then SendPresence env (GetPresence h) else []);
               st = (if ce_client (ee_contact env) then st\<lparr>wh := (wh st)\<lparr>wh_ReconnectErrors := 0\<rparr>\<rparr> else st)
           in Some (st, out, TConnection ''connected'' # (if wa st \<noteq> None then [TOnConnected] else []))
       | EvPushNameSetting \<Rightarrow> Some (st, SendPresence env (GetPresence h), [])
       | EvDisconnected \<Rightarrow> Some (st, [], if wa st \<noteq> None then [TOnDisconnected] else [])
       | EvLoggedOut reason \<Rightarrow> OnLoggedOutEvent env st reason
       | EvHistorySync evt \<Rightarrow> Some (st, [], if HandleHistorySync h then [THistory evt] else [])
       | EvAppStateSyncComplete critical \<Rightarrow>
           Some (st, if critical then SendPresence env (GetPresence h) else [], [])
       | EvJoinedGroup evt \<Rightarrow> JoinedGroup env st evt
       | EvContact evt \<Rightarrow> Some (st, [], [TContact evt])
       | EvPairError \<Rightarrow> Some (st, [], [])
       | EvOfflineSyncPreview counts \<Rightarrow> Some (st, [], [TSyncPreview counts])
       | EvOfflineSyncCompleted counts \<Rightarrow> Some (st, [], [TSyncCompleted counts])
       | EvUndecryptable evt \<Rightarrow> Some (st, [], [TUndecryptable evt])
       | EvNotImplemented eventType info \<Rightarrow>
           Some (st, [], if ShouldDispatchUnhandled h then [TUnhandled eventType info eventType] else [])
       | EvQR \<Rightarrow> OnQREvent env st
       | EvPairSuccess jid platform businessName \<Rightarrow> OnPairSuccessEvent env st jid platform businessName
       | EvOther eventType info \<Rightarrow>
           Some (st, [], if ShouldDispatchUnhandled h then [TUnhandled eventType info eventType] else [])))"

definition on_server :: "event_state \<Rightarrow> (QpWhatsappServer \<Rightarrow> (QpWhatsappServer \<times> delivery list) option) \<Rightarrow> outcome" where
  "on_server st f =
     (case wa st of
        None \<Rightarrow> Some (st, [], [])
      | Some server \<Rightarrow> map_option (\<lambda>(server, out). (st\<lparr>wa := Some server\<rparr>, [Deliver out], [])) (f server))"

fun run_task :: "event_env \<Rightarrow> event_state \<Rightarrow> task \<Rightarrow> outcome" where
  "run_task env st (TMessage evt from) = WM_Message env st evt from"
| "run_task env st (TCall evt) = CallMessage env st evt"
| "run_task env st (TReceipt evt) = WM_Receipt env st evt"
| "run_task env st (THistory evt) = OnHistorySyncEvent env st evt"
| "run_task env st (TContact evt) = OnEventContact env st evt"
| "run_task env st (TSyncPreview counts) = OnOfflineSyncPreview env st counts"
| "run_task env st (TSyncCompleted counts) = OnOfflineSyncCompleted env st counts"
| "run_task env st (TUndecryptable evt) = UndecryptableMessage env st evt"
| "run_task env st (TUnhandled txt_evt info eventType) = DispatchUnhandledEvent env st txt_evt info eventType"
| "run_task env st (TConnection event) = sendConnectionDispatching env st event"
| "run_task env st TOnConnected = Some (st, [OnConnectedCalled], [])"
| "run_task env st TOnDisconnected = Some (st, [OnDisconnectedCalled], [])"
| "run_task env st (TFollow message from) = follow_result st [] [] message from"
| "run_task env st (TWaMessage message from) = on_server st (\<lambda>server. Message (ee_handler env) server message from)"
| "run_task env st (TWaReceipt message) = on_server st (\<lambda>server. Some (Receipt (ee_handler env) server message))"
| "run_task env st (TMarkRead message) = Some (st, WM_MarkRead env message, [])"

text \<open>What the model asks of the surroundings: the order of a map visits each of its entries once.\<close>

definition env_ok :: "event_env \<Rightarrow> bool" where
  "env_ok env \<longleftrightarrow> (\<forall>entries. mset (ee_order env entries) = mset entries)"

text \<open>
  A configuration is the state with the tasks still to run. An event arrives whenever it likes, and any
  of the tasks runs next; the surroundings of each step are its own.
\<close>

datatype ev_label = Arrive raw_event | Ignore raw_event | Run task

inductive ev_step :: "event_state \<times> task multiset \<Rightarrow> ev_label \<times> effect list \<Rightarrow> event_state \<times> task multiset \<Rightarrow> bool" where
  arrive: "env_ok env \<Longrightarrow> \<not> unregisterRequestedToken (wh st) \<Longrightarrow> EventsHandler env st ev = Some (st', out, ts) \<Longrightarrow>
     ev_step (st, ps) (Arrive ev, out) (st', ps + mset ts)"
| ignore: "env_ok env \<Longrightarrow> unregisterRequestedToken (wh st) \<Longrightarrow> EventsHandler env st ev = Some (st', out, ts) \<Longrightarrow>
     ev_step (st, ps) (Ignore ev, out) (st', ps + mset ts)"
| run: "env_ok env \<Longrightarrow> run_task env st t = Some (st', out, ts) \<Longrightarrow>
     ev_step (st, add_mset t ps) (Run t, out) (st', ps + mset ts)"

inductive ev_run :: "event_state \<times> task multiset \<Rightarrow> (ev_label \<times> effect list) list \<Rightarrow> event_state \<times> task multiset \<Rightarrow> bool" where
  empty: "ev_run c [] c"
| snoc: "ev_run c ls d \<Longrightarrow> ev_step d l e \<Longrightarrow> ev_run c (ls @ [l]) e"

inductive_cases ev_stepE: "ev_step (st, ps) l (st', ps')"

section \<open>What a task does and leaves behind\<close>

definition core :: "event_state \<Rightarrow> bool \<times> bool \<times> bool" where
  "core st = (unregisterRequestedToken (wh st), offlineSyncStarted (wh st), offlineSyncCompleted (wh st))"

definition presentable :: "WhatsappMessage \<Rightarrow> bool" where
  "presentable m \<longleftrightarrow> \<not> (FromHistory m \<and> MsgType m = UnhandledMessageType)"

fun disciplined :: "task \<Rightarrow> bool" where
  "disciplined (TWaMessage m _) \<longleftrightarrow> presentable m"
| "disciplined (TFollow m _) \<longleftrightarrow> presentable m"
| "disciplined (TMarkRead m) \<longleftrightarrow> \<not> FromBroadcast m"
| "disciplined _ \<longleftrightarrow> True"

definition contact_count :: "message_event \<Rightarrow> nat" where
  "contact_count evt = (case me_Message evt of None \<Rightarrow> 0
     | Some m \<Rightarrow> (case ContactsArrayMessage m of None \<Rightarrow> 0 | Some cs \<Rightarrow> length cs))"

fun weight :: "task \<Rightarrow> nat" where
  "weight (TMessage evt _) = 3 + 3 * contact_count evt"
| "weight (TCall _) = 2"
| "weight (TReceipt evt) = 1 + length (MessageIDs evt)"
| "weight (THistory evt) = 1 + sum_list (map (\<lambda>hm. case hm_Parsed hm of None \<Rightarrow> 0
     | Some e \<Rightarrow> 3 + 3 * contact_count e) evt)"
| "weight (TContact _) = 3"
| "weight (TSyncPreview _) = 2"
| "weight (TSyncCompleted _) = 2"
| "weight (TUndecryptable _) = 4"
| "weight (TUnhandled _ _ _) = 3"
| "weight (TConnection _) = 2"
| "weight (TFollow _ _) = 3"
| "weight _ = 1"

abbreviation weights :: "task list \<Rightarrow> nat" where "weights ts \<equiv> sum_list (map weight ts)"

definition tame :: "event_state \<Rightarrow> nat \<Rightarrow> outcome \<Rightarrow> bool" where
  "tame st n r \<longleftrightarrow> (case r of None \<Rightarrow> True
     | Some (st', out, ts) \<Rightarrow> core st' = core st \<and> list_all disciplined ts \<and> weights ts \<le> n)"

lemma tame_None [simp]: "tame st n None" by (simp add: tame_def)

lemma tame_Some [simp]: "tame st n (Some (st', out, ts)) \<longleftrightarrow>
    core st' = core st \<and> list_all disciplined ts \<and> weights ts \<le> n"
  by (simp add: tame_def)

lemma core_chats [simp]: "core (st\<lparr>chats := c\<rparr>) = core st" "core (st\<lparr>wa := s\<rparr>) = core st"
  by (simp_all add: core_def)

lemma core_cong: "core st = core st' \<Longrightarrow> tame st n r = tame st' n r"
  by (cases r) (auto simp: tame_def)

lemma follow_tame:
  assumes "presentable m" "list_all disciplined ts" "weights ts + 2 \<le> n"
  shows "tame st n (follow_result st out ts m from)"
proof (cases "WM_Follow st m from")
  case (Some more_tasks)
  then have "list_all disciplined more_tasks \<and> weights more_tasks \<le> 2"
    using assms(1) by (auto simp: WM_Follow_def split: option.splits)
  then show ?thesis using Some assms(2,3) by (simp add: follow_result_def)
qed (simp add: follow_result_def)

lemma presentable_simps [simp]:
  "\<not> FromHistory m \<Longrightarrow> presentable m" "MsgType m \<noteq> UnhandledMessageType \<Longrightarrow> presentable m"
  by (simp_all add: presentable_def)

lemma with_timestamp_tame:
  assumes "\<And>now st'. core st' = core st \<Longrightarrow> tame st' n (k now st')"
  shows "tame st n (with_timestamp env st k)"
proof -
  obtain h t where g: "getTimestamp env (wh st) = (h, t)" by force
  have c: "core (st\<lparr>wh := h\<rparr>) = core st" using g by (auto simp: getTimestamp_def core_def Let_def)
  show ?thesis using assms [OF c] core_cong [OF c] by (simp add: with_timestamp_def g)
qed

lemma Populate_FromHistory:
  "PopulateChatAndParticipant env c m info = (c', m') \<Longrightarrow> FromHistory m' = FromHistory m \<and> MsgType m' = MsgType m"
  by (auto simp: PopulateChatAndParticipant_def Let_def split: prod.splits if_splits)

lemma Message_tame: "tame st (2 + 3 * contact_count evt) (WM_Message env st evt from)"
proof (cases "me_Message evt")
  case (Some in_msg)
  let ?m0 = "empty_message\<lparr>Content := WaMessage in_msg, InfoForHistory := Some (me_Info evt), FromHistory := isHistoryMessage (wh st) from,
     Msg_Id := mi_ID (me_Info evt), Timestamp := ImproveTimestamp (ee_now env) (ee_now2 env) (mi_Timestamp (me_Info evt)),
     FromMe := mi_IsFromMe (me_Info evt)\<rparr>"
  obtain c m1 where p: "PopulateChatAndParticipant env (chats st) ?m0 (me_Info evt) = (c, m1)" by force
  show ?thesis
  proof (cases "HandleKnowingMessages (ee_parse env) m1 in_msg")
    case None
    then show ?thesis using Some p by (simp add: WM_Message_def Let_def)
  next
    case k: (Some r)
    obtain m2 in2 extra where r: "r = (m2, in2, extra)" by (cases r) auto
    let ?ts = "map (\<lambda>m. TFollow m ''contacts_array'') extra"
    have e: "list_all disciplined ?ts"
      using extra_contacts(2) [OF k [unfolded r]] by (auto simp: list_all_iff)
    have "weights ?ts = 3 * length extra" by (induction extra) auto
    then have w: "weights ?ts \<le> 3 * contact_count evt"
      using extra_contacts(1) [OF k [unfolded r]] Some by (auto simp: contact_count_def)
    define pm where "pm = (if FromGroup (m2\<lparr>Content := WaMessage in2\<rparr>)
       then ProcessMentions env c (m2\<lparr>Content := WaMessage in2\<rparr>)
         (case ExtendedTextMessage in2 of None \<Rightarrow> None | Some et \<Rightarrow> et_ContextInfo et)
       else (c, m2\<lparr>Content := WaMessage in2\<rparr>))"
    obtain c3 m3 where pm: "pm = (c3, m3)" by force
    have "WM_Message env st evt from =
        (if MsgType m3 = UnhandledMessageType \<and> FromHistory m3 then Some (st\<lparr>chats := c3\<rparr>, [], ?ts)
         else follow_result (st\<lparr>chats := c3\<rparr>) [] ?ts m3 from)"
      unfolding WM_Message_def Let_def Some option.case p prod.case k r pm [unfolded pm_def] by (rule refl)
    moreover have "tame st (2 + 3 * contact_count evt) (follow_result (st\<lparr>chats := c3\<rparr>) [] ?ts m3 from)"
      if "\<not> (MsgType m3 = UnhandledMessageType \<and> FromHistory m3)"
      using that e w follow_tame [of m3 ?ts _ "st\<lparr>chats := c3\<rparr>" "[]" "from"]
        core_cong [of st "st\<lparr>chats := c3\<rparr>"] by (auto simp: presentable_def)
    ultimately show ?thesis using e w by simp
  qed
qed (simp add: WM_Message_def)

lemma history_tame:
  "tame st (sum_list (map (\<lambda>hm. case hm_Parsed hm of None \<Rightarrow> 0 | Some e \<Rightarrow> 3 + 3 * contact_count e) hms))
     (history_loop env st hms)"
proof (induction hms arbitrary: st)
  case (Cons hm hms)
  let ?n = "sum_list (map (\<lambda>hm. case hm_Parsed hm of None \<Rightarrow> 0 | Some e \<Rightarrow> 3 + 3 * contact_count e) hms)"
  have skip: "tame st (n + ?n) (history_loop env st hms)" for n
    using Cons.IH [of st] by (auto simp: tame_def split: option.splits)
  show ?case
  proof (cases "ce_parse (ee_contact env) (hm_Conversation hm) = None \<or>
      \<not> HandleHistory (ee_add_days env) (wh_service (wh st)) (hm_Timestamp hm) \<or> hm_Parsed hm = None")
    case True
    then show ?thesis using skip Cons.IH [of st]
      by (cases "ce_parse (ee_contact env) (hm_Conversation hm)"; cases "hm_Parsed hm") auto
  next
    case False
    then obtain wid e where w: "ce_parse (ee_contact env) (hm_Conversation hm) = Some wid" "hm_Parsed hm = Some e"
      by auto
    show ?thesis
    proof (cases "WM_Message env st e ''history''")
      case None
      then show ?thesis using False w by simp
    next
      case (Some r)
      obtain st1 o1 ts1 where r: "r = (st1, o1, ts1)" by (cases r) auto
      have t: "core st1 = core st" "list_all disciplined ts1" "weights ts1 \<le> 2 + 3 * contact_count e"
        using Message_tame [of st e env "''history''"] Some r by simp_all
      have "tame st (3 + 3 * contact_count e + ?n)
          (case history_loop env st1 hms of None \<Rightarrow> None | Some (st, out2, ts2) \<Rightarrow> Some (st, o1 @ out2, ts1 @ ts2))"
        using Cons.IH [of st1] t by (cases "history_loop env st1 hms") (auto simp: tame_def)
      then show ?thesis using False w Some r by simp
    qed
  qed
qed simp

lemma receipt_tame: "tame st (length entries) (receipt_loop env st evt server entries)"
proof (induction entries arbitrary: st server)
  case (Cons e entries)
  obtain i status where e: "e = (i, status)" by force
  obtain cached u where m: "MessageStatusUpdate (he_store (ee_handler env)) (store (msg_handler server)) i status
      = (cached, u)" by force
  let ?s = "server\<lparr>msg_handler := (msg_handler server)\<lparr>store := cached\<rparr>\<rparr>"
  have skip: "tame st (length (e # entries)) (receipt_loop env st evt ?s entries)"
    using Cons.IH [of st ?s] by (auto simp: tame_def split: option.splits)
  show ?case
  proof (cases "\<not> u \<or> Uint32 status \<noteq> Uint32 StatusRead \<or> WH_HandleReadReceipts (Some (wh st)) \<noteq> Some True")
    case True
    then show ?thesis using skip e m
      by (cases "WH_HandleReadReceipts (Some (wh st))") (auto simp: Let_def split: bool.splits)
  next
    case False
    obtain c chat where n: "NewWhatsappChatRaw (ee_contact env) (chats st) (rc_Chat evt) = (c, chat)" by force
    show ?thesis
      using False e m n Cons.IH [of "st\<lparr>chats := c\<rparr>" ?s]
      by (cases "receipt_loop env (st\<lparr>chats := c\<rparr>) evt ?s entries") (auto simp: Let_def tame_def)
  qed
qed simp

lemma receipt_statuses_length: "length (receipt_statuses current seen ids) \<le> length seen + length ids"
proof (induction ids arbitrary: seen)
  case (Cons i ids)
  have "length (AList.update i current seen) \<le> Suc (length seen)" by (induction seen) auto
  then show ?case using Cons.IH [of seen] Cons.IH [of "AList.update i current seen"] by (auto simp: Let_def)
qed simp

lemma Receipt_tame:
  assumes "env_ok env"
  shows "tame st (length (MessageIDs evt)) (WM_Receipt env st evt)"
proof -
  let ?st = "st\<lparr>wh := (wh st)\<lparr>wh_Counter := wh_Counter (wh st) + 1\<rparr>\<rparr>"
  let ?seen = "receipt_statuses (GetWhatsappMessageStatus (rc_Type evt)) [] (MessageIDs evt)"
  have c: "core ?st = core st" by (simp add: core_def)
  have "length (ee_order env ?seen) = length ?seen"
    using assms mset_eq_length unfolding env_ok_def by blast
  also have "length ?seen \<le> length (MessageIDs evt)"
    using receipt_statuses_length [of _ "[]"] by simp
  finally have "tame ?st (length (MessageIDs evt)) (receipt_loop env ?st evt server (ee_order env ?seen))" for server
    using receipt_tame [of ?st "ee_order env ?seen" env evt server]
    by (auto simp: tame_def split: option.splits)
  then show ?thesis
    using c core_cong [OF c] unfolding WM_Receipt_def Let_def by (simp split: option.split)
qed

fun sync_flag :: "task \<Rightarrow> bool option" where
  "sync_flag (TSyncPreview _) = Some True"
| "sync_flag (TSyncCompleted _) = Some False"
| "sync_flag _ = None"

lemma follow_free:
  "presentable m \<Longrightarrow> 2 \<le> n \<Longrightarrow> tame st n (follow_result st out [] m from)"
  by (rule follow_tame) simp_all

lemma follow_chats:
  "presentable m \<Longrightarrow> 2 \<le> n \<Longrightarrow> tame st n (follow_result (st\<lparr>chats := c\<rparr>) out [] m from)"
  using follow_free [of m n "st\<lparr>chats := c\<rparr>"] core_cong [of st "st\<lparr>chats := c\<rparr>"] by simp

lemma Unhandled_tame: "tame st 2 (DispatchUnhandledEvent env st eventText eventInfo eventType)"
  unfolding DispatchUnhandledEvent_def
  by (intro with_timestamp_tame)
     (auto simp: Let_def empty_message_def dest!: Populate_FromHistory intro!: follow_free follow_chats
        split: option.split prod.split)

lemma Undecryptable_tame: "tame st 3 (UndecryptableMessage env st evt)"
  unfolding UndecryptableMessage_def
  by (auto simp: Let_def empty_message_def dest!: Populate_FromHistory intro!: follow_free follow_chats
        split: prod.split)

lemma Contact_tame: "tame st 2 (OnEventContact env st evt)"
  unfolding OnEventContact_def
  by (auto simp: Let_def intro!: follow_chats split: option.split prod.split)

lemma Call_tame: "tame st 1 (CallMessage env st evt)"
  unfolding CallMessage_def by (auto simp: Let_def split: option.split prod.split)

lemma system_presentable [simp]: "presentable (system_message env now info)"
  by (simp add: system_message_def)

lemma Sync_tame: "tame st 1 (sendSyncDispatching env st event counts)"
  unfolding sendSyncDispatching_def by (auto intro!: with_timestamp_tame)

lemma Connection_tame: "tame st 1 (sendConnectionDispatching env st event)"
  unfolding sendConnectionDispatching_def by (auto intro!: with_timestamp_tame)

lemma server_tame: "tame st 0 (on_server st f)"
  by (auto simp: on_server_def tame_def split: option.split)

lemma run_task_tame:
  assumes "env_ok env" "sync_flag t = None" "disciplined t"
  shows "tame st (weight t - 1) (run_task env st t)"
  using assms
  by (cases t)
     (auto simp: Message_tame [simplified] Call_tame [simplified] Receipt_tame Contact_tame Undecryptable_tame
       Unhandled_tame Connection_tame [simplified] server_tame OnHistorySyncEvent_def history_tame
       intro: follow_free)

lemma run_task_sync:
  assumes "sync_flag t = Some b" "run_task env st t = Some (st', out, ts)"
  shows "core st' = (unregisterRequestedToken (wh st), b, \<not> b) \<and> list_all disciplined ts \<and> weights ts < weight t"
proof -
  obtain x event counts where x: "core x = (unregisterRequestedToken (wh st), b, \<not> b)"
    "sendSyncDispatching env x event counts = Some (st', out, ts)" "weight t = 2"
    using assms by (cases t)
      (auto simp: OnOfflineSyncPreview_def OnOfflineSyncCompleted_def core_def intro: that [rotated])
  then show ?thesis using Sync_tame [of x env event counts] by simp
qed

fun event_core :: "raw_event \<Rightarrow> bool \<times> bool \<times> bool \<Rightarrow> bool \<times> bool \<times> bool" where
  "event_core EvConnected (u, s, c) = (u, True, False)"
| "event_core (EvLoggedOut _) (u, s, c) = (True, s, c)"
| "event_core _ f = f"

lemma LoggedOut_core:
  assumes "OnLoggedOutEvent env st reason = Some (st', out, ts)"
  shows "core st' = (True, offlineSyncStarted (wh st), offlineSyncCompleted (wh st)) \<and> list_all disciplined ts"
proof -
  obtain h t where g: "getTimestamp env (wh st) = (h, t)" by force
  let ?st = "st\<lparr>wh := h\<rparr>"
  define m where "m = empty_message\<lparr>Timestamp := Some t, MsgType := SystemMessageType,
     Msg_Id := ee_message_id env, Chat := WASYSTEMCHAT, Text := reason\<rparr>"
  let ?out = "if wa ?st \<noteq> None then [LoggedOutCalled reason] else []"
  have c: "core ?st = core st" using g by (auto simp: getTimestamp_def core_def Let_def)
  obtain st1 o1 ts1 where f: "follow_result ?st ?out [] m ''logout'' = Some (st1, o1, ts1)"
    and s: "st' = st1\<lparr>wh := WM_UnRegister env (wh st1)\<rparr>" "ts = ts1"
    using assms unfolding OnLoggedOutEvent_def with_timestamp_def g prod.case Let_def m_def [symmetric]
    by (auto split: option.splits)
  have "tame ?st 2 (follow_result ?st ?out [] m ''logout'')" by (rule follow_free) (simp_all add: m_def)
  then have "core st1 = core st" "list_all disciplined ts1" using f c by simp_all
  then show ?thesis using s by (simp add: core_def WM_UnRegister_def Let_def)
qed

lemma joined_tame: "tame st 2 (JoinedGroup env st evt)"
  unfolding JoinedGroup_def by (intro with_timestamp_tame follow_free) simp_all

lemma qr_tame: "tame st 2 (OnQREvent env st)"
  unfolding OnQREvent_def by (intro with_timestamp_tame follow_free) simp_all

lemma pair_tame: "tame st 2 (OnPairSuccessEvent env st jid platform businessName)"
  unfolding OnPairSuccessEvent_def by (intro with_timestamp_tame follow_free) simp_all

lemma EventsHandler_core:
  assumes "EventsHandler env st ev = Some (st', out, ts)"
  shows "if unregisterRequestedToken (wh st) then core st' = core st \<and> out = [] \<and> ts = []
     else core st' = event_core ev (core st) \<and> list_all disciplined ts"
proof (cases "unregisterRequestedToken (wh st)")
  case True
  then show ?thesis using assms by (auto simp: EventsHandler_def core_def Let_def split: if_splits)
next
  case False
  note start = assms [unfolded EventsHandler_def Let_def, simplified False]
  have "core st' = event_core ev (core st) \<and> list_all disciplined ts"
  proof (cases ev)
    case (EvLoggedOut reason)
    then show ?thesis using start LoggedOut_core [of env st reason] by (simp add: core_def)
  next
    case (EvJoinedGroup x)
    then show ?thesis using start joined_tame [of st env x] by simp
  next
    case EvQR
    then show ?thesis using start qr_tame [of st env] by simp
  next
    case (EvPairSuccess j p b)
    then show ?thesis using start pair_tame [of st env j p b] by simp
  next
    case EvConnected
    then show ?thesis using start by (cases "ce_client (ee_contact env)") (auto simp: core_def)
  qed (use start in \<open>auto\<close>)
  then show ?thesis using False by simp
qed

section \<open>Runs\<close>

fun flags_after :: "bool \<times> bool \<times> bool \<Rightarrow> ev_label \<Rightarrow> bool \<times> bool \<times> bool" where
  "flags_after f (Arrive ev) = event_core ev f"
| "flags_after f (Ignore _) = f"
| "flags_after (u, s, c) (Run t) = (case sync_flag t of None \<Rightarrow> (u, s, c) | Some b \<Rightarrow> (u, b, \<not> b))"

lemma ev_step_core:
  assumes "ev_step (st, ps) (l, out) (st', ps')" "\<forall>t\<in>#ps. disciplined t"
  shows "core st' = flags_after (core st) l" "\<forall>t\<in>#ps'. disciplined t" "\<And>t. l = Run t \<Longrightarrow> t \<in># ps"
proof -
  have "core st' = flags_after (core st) l \<and> (\<forall>t\<in>#ps'. disciplined t) \<and> (\<forall>t. l = Run t \<longrightarrow> t \<in># ps)"
    using assms(1)
  proof (cases rule: ev_step.cases)
    case (arrive env ev ts)
    then show ?thesis using assms(2) EventsHandler_core [OF arrive(5)] by (auto simp: list_all_iff)
  next
    case (ignore env ev ts)
    then show ?thesis using assms(2) EventsHandler_core [OF ignore(5)] by (auto simp: list_all_iff)
  next
    case (run env t ts ps0)
    have "core st' = flags_after (core st) (Run t) \<and> list_all disciplined ts"
    proof (cases "sync_flag t")
      case None
      then show ?thesis using run run_task_tame [of env t st] assms(2) by (auto simp: core_def)
    next
      case (Some b)
      then show ?thesis using run_task_sync [OF Some run(5)] by (auto simp: core_def)
    qed
    then show ?thesis using run assms(2) by (auto simp: list_all_iff)
  qed
  then show "core st' = flags_after (core st) l" "\<forall>t\<in>#ps'. disciplined t" "\<And>t. l = Run t \<Longrightarrow> t \<in># ps" by blast+
qed

lemma ev_run_disciplined:
  assumes "ev_run c ls c'" "\<forall>t\<in>#snd c. disciplined t"
  shows "core (fst c') = foldl flags_after (core (fst c)) (map fst ls) \<and> (\<forall>t\<in>#snd c'. disciplined t) \<and>
     (\<forall>t out. (Run t, out) \<in> set ls \<longrightarrow> disciplined t)"
  using assms
proof (induction rule: ev_run.induct)
  case (snoc c ls d l e)
  obtain st ps st' ps' lab out where d: "d = (st, ps)" "e = (st', ps')" "l = (lab, out)" by (metis surj_pair)
  have ih: "core st = foldl flags_after (core (fst c)) (map fst ls)" "\<forall>t\<in>#ps. disciplined t"
    "\<forall>t out. (Run t, out) \<in> set ls \<longrightarrow> disciplined t"
    using snoc.IH [OF snoc.prems] d by auto
  from ev_step_core [OF snoc.hyps(2) [unfolded d] ih(2)] ih show ?case by (auto simp: d)
qed simp

text \<open>Which of the marks of a synchronisation was the last: a connection or a preview opens it, its end closes it.\<close>

fun window_step :: "bool \<Rightarrow> ev_label \<Rightarrow> bool" where
  "window_step w (Arrive EvConnected) = True"
| "window_step w (Run (TSyncPreview _)) = True"
| "window_step w (Run (TSyncCompleted _)) = False"
| "window_step w _ = w"

lemma window_flags:
  assumes "foldl flags_after (u, s, c) ls = (u', s', c')"
  shows "(s' \<and> \<not> c') = foldl window_step (s \<and> \<not> c) ls" "\<not> (s \<and> c) \<Longrightarrow> \<not> (s' \<and> c')"
proof -
  have "(s' \<and> \<not> c') = foldl window_step (s \<and> \<not> c) ls \<and> (\<not> (s \<and> c) \<longrightarrow> \<not> (s' \<and> c'))"
    using assms
  proof (induction ls arbitrary: u s c)
    case (Cons l ls)
    obtain u1 s1 c1 where f: "flags_after (u, s, c) l = (u1, s1, c1)" by (metis surj_pair)
    have "(s1 \<and> \<not> c1) = window_step (s \<and> \<not> c) l \<and> (\<not> (s \<and> c) \<longrightarrow> \<not> (s1 \<and> c1))"
    proof (cases l)
      case (Arrive ev)
      then show ?thesis using f by (cases ev) auto
    next
      case (Run t)
      then show ?thesis using f by (cases t) auto
    qed (use f in auto)
    then show ?case using Cons.IH [of u1 s1 c1] Cons.prems f by simp
  qed simp
  then show "(s' \<and> \<not> c') = foldl window_step (s \<and> \<not> c) ls" "\<not> (s \<and> c) \<Longrightarrow> \<not> (s' \<and> c')" by blast+
qed

lemma weight_pos: "0 < weight t" by (cases t) simp_all

lemma run_weight:
  assumes "env_ok env" "disciplined t" "run_task env st t = Some (st', out, ts)"
  shows "weights ts < weight t"
proof (cases "sync_flag t")
  case None
  then show ?thesis using run_task_tame [OF assms(1) None assms(2), of st] assms(3) weight_pos [of t] by auto
qed (use run_task_sync assms(3) in blast)

lemma size_weights: "sum_list (map weight ts) = (\<Sum>t\<in>#mset ts. weight t)"
  by (induction ts) simp_all

definition is_run :: "ev_label \<Rightarrow> bool" where
  "is_run l \<longleftrightarrow> (case l of Run _ \<Rightarrow> True | _ \<Rightarrow> False)"

text \<open>The labels of a run through which something leaves for the rest of the program.\<close>

fun clean_label :: "ev_label \<Rightarrow> bool" where
  "clean_label (Run (TWaMessage m _)) \<longleftrightarrow> \<not> (FromHistory m \<and> MsgType m = UnhandledMessageType)"
| "clean_label (Run (TMarkRead m)) \<longleftrightarrow> \<not> FromBroadcast m"
| "clean_label _ \<longleftrightarrow> True"

lemma disciplined_clean: "(\<And>t. l = Run t \<Longrightarrow> disciplined t) \<Longrightarrow> clean_label l"
  by (cases l rule: clean_label.cases) (auto simp: presentable_def)

section \<open>Properties\<close>

text \<open>
  C19. Whatever the order in which events arrive and goroutines run, the two flags of the synchronisation
  say one thing: a message handled now counts as history exactly if it was read from the history, or the
  last of the marks was one that opens the synchronisation and not the one that ends it.
\<close>
theorem history_window:
  assumes "ev_run (st, ps) ls (st', ps')" "\<forall>t\<in>#ps. disciplined t"
  shows "isHistoryMessage (wh st') from = (from = ''history'' \<or>
     foldl window_step (offlineSyncStarted (wh st) \<and> \<not> offlineSyncCompleted (wh st)) (map fst ls))"
proof -
  have "core st' = foldl flags_after (core st) (map fst ls)"
    using ev_run_disciplined [OF assms(1)] assms(2) by simp
  then have "foldl flags_after (unregisterRequestedToken (wh st), offlineSyncStarted (wh st), offlineSyncCompleted (wh st)) (map fst ls)
      = (unregisterRequestedToken (wh st'), offlineSyncStarted (wh st'), offlineSyncCompleted (wh st'))"
    by (simp add: core_def)
  from window_flags(1) [OF this] show ?thesis by (simp add: isHistoryMessage_def)
qed

definition sample_wh :: WhatsmeowHandlers where
  "sample_wh = \<lparr>wh_service = \<lparr>xGroups = 0, xBroadcasts = 0, xReadReceipts = 0, xCalls = 0, xReadUpdate = 0,
       HistorySync = None, LogLevel = [], Presence = [], DispatchUnhandled = False\<rparr>,
     wh_options = None, eventHandlerID = 1, unregisterRequestedToken = False, wh_Counter = 0,
     offlineSyncStarted = False, offlineSyncCompleted = False, eventSequence = 0, client_handlers = {1},
     wh_ReconnectErrors = 0\<rparr>"

definition sample_event_env :: event_env where
  "sample_event_env = \<lparr>ee_contact = sample_contact_env, ee_parse = sample_parse_env, ee_handler = sample_handler_env,
     ee_now = 100, ee_now2 = 100, ee_message_id = ''ID'', ee_handler_id = 2, ee_own_phone = ''55'', ee_rfc3339 = ''now'',
     ee_pairs = (\<lambda>_. ''{}''), ee_crc32 = (\<lambda>_. ''0''), ee_add_days = (\<lambda>d. d), ee_push_name = ''me'',
     ee_order = (\<lambda>entries. entries)\<rparr>"

definition sample_event_state :: event_state where
  "sample_event_state = \<lparr>wh = sample_wh, chats = no_chats, wa = Some sample_server\<rparr>"

lemma sample_env_ok: "env_ok sample_event_env" by (simp add: env_ok_def sample_event_env_def)

lemma connected_step:
  "\<exists>st out ps. ev_step (sample_event_state, {#}) (Arrive EvConnected, out) (st, ps)"
proof -
  have "\<not> unregisterRequestedToken (wh sample_event_state)" by (simp add: sample_event_state_def sample_wh_def)
  moreover obtain st out ts where "EventsHandler sample_event_env sample_event_state EvConnected = Some (st, out, ts)"
    by (simp add: EventsHandler_def sample_event_state_def sample_wh_def Let_def)
  ultimately show ?thesis using ev_step.arrive [OF sample_env_ok] by blast
qed

theorem history_window_witness:
  "\<exists>st out ps. ev_run (sample_event_state, {#}) [(Arrive EvConnected, out)] (st, ps) \<and> isHistoryMessage (wh st) ''live''"
proof -
  obtain st out ps where "ev_step (sample_event_state, {#}) (Arrive EvConnected, out) (st, ps)"
    using connected_step by blast
  then have r: "ev_run (sample_event_state, {#}) [(Arrive EvConnected, out)] (st, ps)"
    using ev_run.snoc [OF ev_run.empty] by fastforce
  have "isHistoryMessage (wh st) ''live''"
    using history_window [OF r, of "''live''"] by (simp add: sample_event_state_def sample_wh_def)
  with r show ?thesis by blast
qed

text \<open>
  What reaches the rest of the program from a run that starts with nothing to do: never a message of
  the history that was left unhandled, whatever it is and however the goroutines interleave, and never a
  request to mark a broadcast as read.
\<close>
theorem history_noise_filtered:
  assumes "ev_run (st, {#}) ls (st', ps')"
  shows "list_all (\<lambda>(l, out). clean_label l) ls"
  using ev_run_disciplined [OF assms] by (auto simp: list_all_iff intro!: disciplined_clean)

theorem history_noise_filtered_witness:
  "\<exists>st out ps. ev_run (sample_event_state, {#}) [(Arrive EvConnected, out)] (st, ps) \<and>
     list_all (\<lambda>(l, out). clean_label l) [(Arrive EvConnected, out)]"
proof -
  obtain st out ps where "ev_step (sample_event_state, {#}) (Arrive EvConnected, out) (st, ps)"
    using connected_step by blast
  then have r: "ev_run (sample_event_state, {#}) [(Arrive EvConnected, out)] (st, ps)"
    using ev_run.snoc [OF ev_run.empty] by fastforce
  from history_noise_filtered [OF this] r show ?thesis by blast
qed

text \<open>
  C18. A handler that was told to unregister comes to rest: from then on no event has any effect, and the
  goroutines still to run come to an end, within a number of steps their weights bound, one for each
  message, receipt or contact still under way.
\<close>
theorem unregistered_comes_to_rest:
  assumes "ev_run (st, ps) ls (st', ps')" "unregisterRequestedToken (wh st)" "\<forall>t\<in>#ps. disciplined t"
  shows "unregisterRequestedToken (wh st')
     \<and> length (filter (\<lambda>(l, out). is_run l) ls) + (\<Sum>t\<in>#ps'. weight t) \<le> (\<Sum>t\<in>#ps. weight t)
     \<and> list_all (\<lambda>(l, out). is_run l \<or> out = []) ls"
proof -
  have "unregisterRequestedToken (wh (fst c')) \<and>
      length (filter (\<lambda>(l, out). is_run l) ls) + (\<Sum>t\<in>#snd c'. weight t) \<le> (\<Sum>t\<in>#snd c. weight t)
      \<and> list_all (\<lambda>(l, out). is_run l \<or> out = []) ls"
    if "ev_run c ls c'" "unregisterRequestedToken (wh (fst c))" "\<forall>t\<in>#snd c. disciplined t" for c c'
    using that
  proof (induction rule: ev_run.induct)
    case (snoc c ls d l e)
    obtain st ps st' ps' lab out where d: "d = (st, ps)" "e = (st', ps')" "l = (lab, out)" by (metis surj_pair)
    have ih: "unregisterRequestedToken (wh st)"
      "length (filter (\<lambda>(l, out). is_run l) ls) + (\<Sum>t\<in>#ps. weight t) \<le> (\<Sum>t\<in>#snd c. weight t)"
      "list_all (\<lambda>(l, out). is_run l \<or> out = []) ls"
      using snoc.IH [OF snoc.prems] d by auto
    have dis: "\<forall>t\<in>#ps. disciplined t" using ev_run_disciplined [OF snoc.hyps(1) snoc.prems(2)] d by simp
    note core = ev_step_core(1) [OF snoc.hyps(2) [unfolded d] dis]
    from snoc.hyps(2) [unfolded d] show ?case
    proof (cases rule: ev_step.cases)
      case (arrive env ev ts)
      then show ?thesis using ih(1) by simp
    next
      case (ignore env ev ts)
      then have "ts = []" "out = []" using EventsHandler_core [OF ignore(5)] ih(1) by simp_all
      then show ?thesis using ignore ih core by (simp add: d is_run_def core_def)
    next
      case (run env t ts ps0)
      have w: "weights ts < weight t" using run_weight [OF run(4) _ run(5)] dis run by simp
      have "unregisterRequestedToken (wh st')"
        using core ih(1) run by (cases "sync_flag t") (simp_all add: core_def)
      then show ?thesis using w run ih size_weights [of ts] by (simp add: d is_run_def)
    qed
  qed simp
  from this [OF assms(1)] assms(2,3) show ?thesis by simp
qed

definition unregistered_state :: event_state where
  "unregistered_state = sample_event_state\<lparr>wh := sample_wh\<lparr>unregisterRequestedToken := True\<rparr>\<rparr>"

theorem unregistered_comes_to_rest_witness:
  "\<exists>st out ps. ev_run (unregistered_state, {#TOnConnected#}) [(Run TOnConnected, out)] (st, ps) \<and> ps = {#}"
proof -
  have "run_task sample_event_env unregistered_state TOnConnected = Some (unregistered_state, [OnConnectedCalled], [])"
    by simp
  from ev_step.run [OF sample_env_ok this, of "{#}"]
  have "ev_run (unregistered_state, {#TOnConnected#}) [(Run TOnConnected, [OnConnectedCalled])] (unregistered_state, {#})"
    using ev_run.snoc [OF ev_run.empty] by fastforce
  moreover from unregistered_comes_to_rest [OF this]
  have "(\<Sum>t\<in>#{#}. weight t) \<le> (0::nat)" by (simp add: unregistered_state_def is_run_def)
  ultimately show ?thesis by blast
qed

text \<open>
  Two events stamped one after the other get increasing times as long as the clock does not run
  backwards, except at every millionth: there the counter's part falls back to zero, and with a clock that
  stood still the later event gets the earlier time.
\<close>
theorem timestamps_increase:
  assumes "getTimestamp env h = (h1, t1)" "getTimestamp env2 h1 = (h2, t2)"
    and "ee_now env \<le> ee_now env2" "unat (eventSequence h1) < 2 ^ 64 - 1"
  shows "if unat (eventSequence h1) mod 1000000 < 999999 then t1 < t2
     else ee_now env2 = ee_now env \<longrightarrow> t2 < t1"
proof -
  let ?n = "unat (eventSequence h1)"
  have m: "unat (w mod 1000000) = unat w mod 1000000" for w :: "64 word"
    by (simp add: unat_mod_distrib)
  have s: "t1 = ee_now env + int (?n mod 1000000)" "t2 = ee_now env2 + int (unat (eventSequence h1 + 1) mod 1000000)"
    using assms(1,2) by (auto simp: getTimestamp_def Let_def m)
  have u: "unat (eventSequence h1 + 1) = ?n + 1"
    using assms(4) by (simp add: unat_word_ariths)
  show ?thesis
  proof (cases "?n mod 1000000 < 999999")
    case True
    then have "(?n + 1) mod 1000000 = ?n mod 1000000 + 1" by (simp add: mod_Suc)
    then show ?thesis using s u True assms(3) by simp
  next
    case False
    then have n: "?n mod 1000000 = 999999" using mod_less_divisor [of 1000000 ?n] by linarith
    then have "(?n + 1) mod 1000000 = 0" by (simp add: mod_Suc)
    then show ?thesis using s u n by simp
  qed
qed

theorem timestamps_increase_witness:
  "snd (getTimestamp sample_event_env sample_wh)
     < snd (getTimestamp sample_event_env (fst (getTimestamp sample_event_env sample_wh)))"
proof -
  have s: "eventSequence (fst (getTimestamp sample_event_env sample_wh)) = 1"
    by (simp add: getTimestamp_def sample_wh_def Let_def)
  obtain h1 t1 where h1: "getTimestamp sample_event_env sample_wh = (h1, t1)" by force
  obtain h2 t2 where h2: "getTimestamp sample_event_env h1 = (h2, t2)" by force
  show ?thesis using timestamps_increase [OF h1 h2 order_refl] s h1 h2 by simp
qed

section \<open>Read receipts\<close>

definition receipts :: "task list \<Rightarrow> string list" where
  "receipts ts = concat (map (\<lambda>t. case t of TWaReceipt m \<Rightarrow> [Text m] | _ \<Rightarrow> []) ts)"

lemma receipts_simps [simp]: "receipts [] = []" "receipts (TWaReceipt m # ts) = Text m # receipts ts"
  by (simp_all add: receipts_def)

text \<open>The rank of the status a server's store knows for an id.\<close>

definition known :: "event_env \<Rightarrow> QpWhatsappServer \<Rightarrow> string \<Rightarrow> nat" where
  "known env server i = Uint32 (snd (GetStatusById (he_store (ee_handler env)) (store (msg_handler server)) i))"

lemma known_live:
  "store_ok (store (msg_handler server)) \<Longrightarrow> known env server i = Uint32
     (case live (env_now (he_store (ee_handler env))) (statuses (store (msg_handler server))) (ToUpper i) of
        None \<Rightarrow> [] | Some s \<Rightarrow> s)"
  by (simp add: known_def GetStatusById_spec(2))

lemma known_upper: "ToUpper i = ToUpper j \<Longrightarrow> known env server i = known env server j"
  by (simp add: known_def GetStatusById_def)

lemma status_update_known:
  assumes "store_ok (store (msg_handler server))" "0 < cache_duration (env_CacheDays (he_store (ee_handler env)))"
    and "MessageStatusUpdate (he_store (ee_handler env)) (store (msg_handler server)) i status = (cached, u)"
    and "server2 = server\<lparr>msg_handler := (msg_handler server)\<lparr>store := cached\<rparr>\<rparr>"
  shows "u = (known env server i < Uint32 status)" "store_ok (store (msg_handler server2))"
    and "known env server2 j = (if ToUpper j = ToUpper i then max (known env server i) (Uint32 status) else known env server j)"
proof -
  note u = MessageStatusUpdate_statuses [OF assms(1,2), of i status]
  show u1: "u = (known env server i < Uint32 status)"
    using u(1) assms(3) by (simp add: known_def)
  show ok: "store_ok (store (msg_handler server2))"
    using MessageStatusUpdate_ok [OF assms(1), of "he_store (ee_handler env)" i status] assms(3,4) by simp
  have "statuses cached = statuses (store (msg_handler server2))" using assms(4) by simp
  then have l: "live (env_now (he_store (ee_handler env))) (statuses (store (msg_handler server2))) =
      (if u then (live (env_now (he_store (ee_handler env))) (statuses (store (msg_handler server))))(ToUpper i := Some status)
       else live (env_now (he_store (ee_handler env))) (statuses (store (msg_handler server))))"
    using u(2) u1 assms(3) by (simp add: known_def)
  show "known env server2 j = (if ToUpper j = ToUpper i then max (known env server i) (Uint32 status) else known env server j)"
  proof (cases "ToUpper j = ToUpper i")
    case True
    then show ?thesis using u1 known_live [OF ok, of env j] known_live [OF assms(1), of env j]
        known_live [OF assms(1), of env i] l by (cases u) auto
  next
    case False
    then show ?thesis using known_live [OF ok, of env j] known_live [OF assms(1), of env j] l by simp
  qed
qed

definition announces :: "event_env \<Rightarrow> event_state \<Rightarrow> WhatsappMessageStatus \<Rightarrow> bool" where
  "announces env st cur \<longleftrightarrow> Uint32 cur = 4 \<and> WH_HandleReadReceipts (Some (wh st)) = Some True"

lemma receipt_loop_known:
  assumes "receipt_loop env st evt server entries = Some (st', out, ts)"
    and "store_ok (store (msg_handler server))" "0 < cache_duration (env_CacheDays (he_store (ee_handler env)))"
    and "\<forall>e\<in>set entries. snd e = cur"
  shows "\<exists>server'. wa st' = Some server' \<and> store_ok (store (msg_handler server'))
     \<and> (\<forall>j. known env server' j = (if ToUpper j \<in> ToUpper ` fst ` set entries
           then max (known env server j) (Uint32 cur) else known env server j))
     \<and> distinct (map ToUpper (receipts ts))
     \<and> ToUpper ` set (receipts ts) =
         (if announces env st cur then ToUpper ` {i \<in> fst ` set entries. known env server i < 4} else {})"
  using assms
proof (induction entries arbitrary: st server st' out ts)
  case (Cons e entries)
  obtain i where e: "e = (i, cur)" using Cons.prems(4) by (cases e) auto
  obtain cached u where m: "MessageStatusUpdate (he_store (ee_handler env)) (store (msg_handler server)) i cur
      = (cached, u)" by force
  let ?s = "server\<lparr>msg_handler := (msg_handler server)\<lparr>store := cached\<rparr>\<rparr>"
  note k = status_update_known [OF Cons.prems(2,3) m refl]
  have rest: "\<forall>e\<in>set entries. snd e = cur" using Cons.prems(4) by simp
  have four: "Uint32 StatusRead = 4" by code_simp
  have merge: "(if ToUpper j \<in> ToUpper ` fst ` set entries then max (known env ?s j) (Uint32 cur) else known env ?s j) =
      (if ToUpper j \<in> ToUpper ` fst ` set (e # entries) then max (known env server j) (Uint32 cur) else known env server j)" for j
    using known_upper [of j i env server] by (auto simp: k(3) e)
  show ?case
  proof (cases "u \<and> announces env st cur")
    case True
    obtain c chat where n: "NewWhatsappChatRaw (ee_contact env) (chats st) (rc_Chat evt) = (c, chat)" by force
    obtain st2 o2 ts2 m2 where r: "receipt_loop env (st\<lparr>chats := c\<rparr>) evt ?s entries = Some (st2, o2, ts2)"
      and t: "st' = st2" "ts = TWaReceipt m2 # ts2" "Text m2 = i"
      using Cons.prems(1) True n m e four by (auto simp: announces_def Let_def)
    obtain server' where ih: "wa st2 = Some server'" "store_ok (store (msg_handler server'))"
      "\<forall>j. known env server' j = (if ToUpper j \<in> ToUpper ` fst ` set entries
           then max (known env ?s j) (Uint32 cur) else known env ?s j)"
      "distinct (map ToUpper (receipts ts2))"
      "ToUpper ` set (receipts ts2) = ToUpper ` {i \<in> fst ` set entries. known env ?s i < 4}"
      using Cons.IH [OF r k(2) Cons.prems(3) rest] True by (auto simp: announces_def)
    have cur: "Uint32 cur = 4" "known env server i < 4" using True k(1) by (auto simp: announces_def)
    have eq: "{j \<in> fst ` set entries. known env ?s j < 4} =
        {j \<in> fst ` set entries. ToUpper j \<noteq> ToUpper i \<and> known env server j < 4}"
      using cur(1) by (auto simp: k(3))
    have "ToUpper i \<notin> ToUpper ` set (receipts ts2)" unfolding ih(5) eq by auto
    moreover have "insert (ToUpper i) (ToUpper ` {j \<in> fst ` set entries. known env ?s j < 4}) =
        ToUpper ` {j \<in> fst ` set (e # entries). known env server j < 4}"
      unfolding eq using cur(2) e by auto
    ultimately show ?thesis using ih t True merge by auto
  next
    case False
    have r: "receipt_loop env st evt ?s entries = Some (st', out, ts)"
    proof (cases "\<not> u \<or> Uint32 cur \<noteq> 4")
      case True
      then show ?thesis using Cons.prems(1) by (simp add: e m four)
    next
      case 2: False
      then have "WH_HandleReadReceipts (Some (wh st)) \<noteq> Some True" using False by (simp add: announces_def)
      then show ?thesis using Cons.prems(1) 2
        by (cases "WH_HandleReadReceipts (Some (wh st))") (simp_all add: e m four split: bool.splits)
    qed
    have "ToUpper ` {j \<in> fst ` set entries. known env ?s j < 4} = ToUpper ` {j \<in> fst ` set (e # entries). known env server j < 4}"
      if "announces env st cur"
    proof -
      have cur: "\<not> known env server i < 4" "Uint32 cur = 4" using False that k(1) by (auto simp: announces_def)
      have "ToUpper j \<noteq> ToUpper i" if "known env server j < 4" for j
        using that cur(1) known_upper [of j i env server] by force
      then have "{j \<in> fst ` set entries. known env ?s j < 4} = {j \<in> fst ` set (e # entries). known env server j < 4}"
        using cur e by (auto simp: k(3))
      then show ?thesis by simp
    qed
    then show ?thesis using Cons.IH [OF r k(2) Cons.prems(3) rest] merge by auto
  qed
qed auto

lemma receipt_statuses_set:
  assumes "\<forall>e\<in>set seen. snd e = cur" "0 < Uint32 cur"
  shows "set (receipt_statuses cur seen ids) = (\<lambda>i. (i, cur)) ` (fst ` set seen \<union> set ids)"
  using assms(1)
proof (induction ids arbitrary: seen)
  case Nil
  then show ?case by force
next
  case (Cons i ids)
  have old: "map_of seen i = Some s \<Longrightarrow> s = cur" for s using Cons.prems map_of_SomeD [of seen i s] by force
  show ?case
  proof (cases "map_of seen i")
    case None
    then have "i \<notin> fst ` set seen" by (simp add: map_of_eq_None_iff)
    then have u: "AList.update i cur seen = seen @ [(i, cur)]" by (induction seen) auto
    have "Uint32 [] = 0" by code_simp
    then show ?thesis using None Cons.IH [of "seen @ [(i, cur)]"] Cons.prems assms(2) u by auto
  next
    case (Some s)
    then have "i \<in> fst ` set seen" using map_of_SomeD [OF Some] by force
    then show ?thesis using Some old Cons.IH [OF Cons.prems] by (auto simp: insert_absorb)
  qed
qed

lemma receipt_statuses_zero: "Uint32 cur = 0 \<Longrightarrow> receipt_statuses cur seen ids = seen"
  by (induction ids) (simp_all add: Let_def)

lemma read_rank: "Uint32 (GetWhatsappMessageStatus t) = 4 \<longleftrightarrow> t = ReceiptRead \<or> t = ReceiptPlayed"
  by (cases t) (simp_all add: GetWhatsappMessageStatus_def Uint32_def StatusDelivered_def StatusError_def
      StatusRead_def StatusImported_def)

definition direct_chat :: "JID \<Rightarrow> bool" where
  "direct_chat jid \<longleftrightarrow> (let chatID = jid_User jid @ ''@'' @ jid_Server jid
     in \<not> Contains chatID ''@broadcast'' \<and> \<not> Contains chatID ''@newsletter'' \<and> \<not> Contains chatID ''@g.us'')"

text \<open>
  C17. A read receipt is announced once per message: a receipt event starts exactly one announcement for
  each id (read without regard to case) that a read or played receipt of a direct chat names and that was
  not known as read, and none at all when the option is off; every announced id is known as read
  afterwards, so that no later event announces it again while that status is kept.
\<close>
theorem read_receipt_once:
  assumes "WM_Receipt env st evt = Some (st', out, ts)" "env_ok env" "wa st = Some server"
    and "store_ok (store (msg_handler server))" "0 < cache_duration (env_CacheDays (he_store (ee_handler env)))"
  shows "distinct (map ToUpper (receipts ts))
     \<and> ToUpper ` set (receipts ts) =
         (if direct_chat (rc_Chat evt) \<and> rc_Type evt \<in> {ReceiptRead, ReceiptPlayed} \<and>
             WH_HandleReadReceipts (Some (wh st)) = Some True
          then ToUpper ` {i \<in> set (MessageIDs evt). known env server i < 4} else {})
     \<and> (\<exists>server'. wa st' = Some server' \<and> (\<forall>i\<in>set (receipts ts). known env server' i = 4))"
proof (cases "direct_chat (rc_Chat evt)")
  case False
  then have "ts = []" "wa st' = wa st"
    using assms(1) by (auto simp: WM_Receipt_def direct_chat_def Let_def)
  then show ?thesis using False assms(3) by simp
next
  case True
  let ?st = "st\<lparr>wh := (wh st)\<lparr>wh_Counter := wh_Counter (wh st) + 1\<rparr>\<rparr>"
  let ?cur = "GetWhatsappMessageStatus (rc_Type evt)"
  let ?entries = "ee_order env (receipt_statuses ?cur [] (MessageIDs evt))"
  have r: "receipt_loop env ?st evt server ?entries = Some (st', out, ts)"
    using assms(1,3) True by (simp add: WM_Receipt_def direct_chat_def Let_def)
  have "set ?entries = set (receipt_statuses ?cur [] (MessageIDs evt))"
    using assms(2) mset_eq_setD unfolding env_ok_def by blast
  then have e: "set ?entries = (if Uint32 ?cur = 0 then {} else (\<lambda>i. (i, ?cur)) ` set (MessageIDs evt))"
    using receipt_statuses_set [of "[]" ?cur] receipt_statuses_zero [of ?cur "[]"] by auto
  then have "\<forall>x\<in>set ?entries. snd x = ?cur" by (auto split: if_splits)
  note l = receipt_loop_known [OF r assms(4,5) this]
  have a: "announces env ?st ?cur \<longleftrightarrow> rc_Type evt \<in> {ReceiptRead, ReceiptPlayed} \<and>
      WH_HandleReadReceipts (Some (wh st)) = Some True"
    by (simp add: announces_def read_rank WH_HandleReadReceipts_def local_option_def)
  have f: "fst ` set ?entries = set (MessageIDs evt)" if "announces env ?st ?cur"
    using that e by (auto simp: announces_def image_image)
  obtain server' where s: "wa st' = Some server'"
    "\<forall>j. known env server' j = (if ToUpper j \<in> ToUpper ` fst ` set ?entries
       then max (known env server j) (Uint32 ?cur) else known env server j)"
    "distinct (map ToUpper (receipts ts))"
    "ToUpper ` set (receipts ts) = (if announces env ?st ?cur
       then ToUpper ` {i \<in> fst ` set ?entries. known env server i < 4} else {})"
    using l by blast
  have "known env server' i = 4" if i: "i \<in> set (receipts ts)" for i
  proof -
    have c: "announces env ?st ?cur" using s(4) i by (auto split: if_splits)
    then have "ToUpper i \<in> ToUpper ` {i \<in> fst ` set ?entries. known env server i < 4}" using s(4) i by auto
    then obtain j where j: "ToUpper i = ToUpper j" "j \<in> fst ` set ?entries" "known env server j < 4" by auto
    then show ?thesis using s(2) c known_upper [OF j(1), of env server] by (auto simp: announces_def)
  qed
  then show ?thesis using s a f True by (cases "announces env ?st ?cur") auto
qed

definition receipt_state :: event_state where
  "receipt_state = sample_event_state\<lparr>wh := sample_wh\<lparr>wh_service :=
     (wh_service sample_wh)\<lparr>xReadReceipts := ForcedTrueBooleanType\<rparr>\<rparr>\<rparr>"

definition sample_receipt :: receipt_event where
  "sample_receipt = \<lparr>rc_Chat = \<lparr>jid_User = ''5521999998888'', jid_Device = 0, jid_Server = ''s.whatsapp.net''\<rparr>,
     rc_Type = ReceiptRead, MessageIDs = [''a'', ''A''], rc_Timestamp = Some 5, rc_text = []\<rparr>"

lemma sample_receipt_runs: "\<not> Option.is_none (WM_Receipt sample_event_env receipt_state sample_receipt)"
  by code_simp

theorem read_receipt_once_witness:
  "\<exists>st' out ts. WM_Receipt sample_event_env receipt_state sample_receipt = Some (st', out, ts)
     \<and> ToUpper ` set (receipts ts) = {''A''} \<and> distinct (map ToUpper (receipts ts))"
proof -
  obtain st' out ts where r: "WM_Receipt sample_event_env receipt_state sample_receipt = Some (st', out, ts)"
    using sample_receipt_runs by (cases "WM_Receipt sample_event_env receipt_state sample_receipt") auto
  have h: "wa receipt_state = Some sample_server" "store_ok (store (msg_handler sample_server))"
    "0 < cache_duration (env_CacheDays (he_store (ee_handler sample_event_env)))"
    using sample_server_ok by (simp_all add: receipt_state_def sample_event_state_def handler_ok_def
        sample_event_env_def sample_handler_env_def sample_store_env_def cache_duration_def hour_ns_def)
  have d: "direct_chat (rc_Chat sample_receipt)" by code_simp
  have g: "WH_HandleReadReceipts (Some (wh receipt_state)) = Some True" by code_simp
  have n: "known sample_event_env sample_server i = 0" for i
  proof -
    have "known sample_event_env sample_server i = Uint32 []"
      using known_live [OF h(2)] by (simp add: sample_server_def empty_store_def live_def lookup_item_def empty_cache_def)
    moreover have "Uint32 [] = 0" by code_simp
    ultimately show ?thesis by simp
  qed
  have t: "rc_Type sample_receipt = ReceiptRead" "set (MessageIDs sample_receipt) = {''a'', ''A''}"
    by (simp_all add: sample_receipt_def)
  have u: "ToUpper ''a'' = ''A''" "ToUpper ''A'' = ''A''" by code_simp+
  have "ToUpper ` {i. i = ''a'' \<or> i = ''A''} = {''A''}"
    using u by (simp add: Collect_disj_eq image_Un)
  then have "ToUpper ` set (receipts ts) = {''A''}" "distinct (map ToUpper (receipts ts))"
    using read_receipt_once [OF r sample_env_ok h] by (simp_all add: d g n t)
  with r show ?thesis by blast
qed

end
