(* ===== verification/Buttons.thy ===== *)
theory Buttons
  imports Messages
begin

text \<open>
  Texts that ask for buttons, \<open>src/whatsmeow/whatsmeow_extensions+interactive.go\<close>: the two regular
  expressions as searches in the order a leftmost-first matcher tries them, and the message of buttons
  they are turned into. The functions of the file that return a fixed sample message, which nothing
  calls, are left out.
\<close>

section \<open>The expressions\<close>

text \<open>\<open>\s\<close> of the expressions; \<open>.\<close> is every byte but the end of a line.\<close>

definition re_space :: "char \<Rightarrow> bool" where
  "re_space c \<longleftrightarrow> c \<in> {CHR '' '', CHR 0x09, CHR 0x0A, CHR 0x0C, CHR 0x0D}"

definition line_of :: "string \<Rightarrow> string" where
  "line_of s = takeWhile (\<lambda>c. c \<noteq> CHR 0x0A) s"

text \<open>A greedy group: the longest length first.\<close>

fun longest :: "(nat \<Rightarrow> 'a option) \<Rightarrow> nat \<Rightarrow> 'a option" where
  "longest f 0 = f 0"
| "longest f (Suc n) = (case f (Suc n) of Some r \<Rightarrow> Some r | None \<Rightarrow> longest f n)"

definition optional_space :: "(string \<Rightarrow> 'a option) \<Rightarrow> string \<Rightarrow> 'a option" where
  "optional_space k s =
     (case s of
        [] \<Rightarrow> k s
      | c # r \<Rightarrow> if re_space c then (case k r of Some x \<Rightarrow> Some x | None \<Rightarrow> k s) else k s)"

text \<open>Letters in either case; the long s, bytes \<open>C5 BF\<close>, folds to the letter s.\<close>

fun match_fold :: "string \<Rightarrow> string \<Rightarrow> string option" where
  "match_fold [] s = Some s"
| "match_fold (p # ps) [] = None"
| "match_fold (p # ps) (c # r) =
     (if lower_char c = p then match_fold ps r
      else if p = CHR ''s'' \<and> c = CHR 0xC5 \<and> r \<noteq> [] \<and> hd r = CHR 0xBF then match_fold ps (tl r)
      else None)"

definition buttons_mark :: "string \<Rightarrow> string option" where
  "buttons_mark s =
     (case s of
        [] \<Rightarrow> None
      | c # r \<Rightarrow> if c \<in> {CHR ''$'', CHR ''#''} then match_fold ''buttons:['' r else None)"

definition footer_group :: "string \<Rightarrow> string" where
  "footer_group s = line_of (case s of [] \<Rightarrow> [] | c # r \<Rightarrow> if re_space c then r else s)"

definition buttons_group :: "string \<Rightarrow> (string \<times> string) option" where
  "buttons_group s =
     longest (\<lambda>n. case drop n s of
                    [] \<Rightarrow> None
                  | c # r \<Rightarrow> if c = CHR '']'' then Some (take n s, footer_group r) else None)
       (length (line_of s))"

definition match_at :: "string \<Rightarrow> (string \<times> string \<times> string) option" where
  "match_at s =
     longest (\<lambda>n. case optional_space (\<lambda>t. Option.bind (buttons_mark t) buttons_group) (drop n s) of
                    None \<Rightarrow> None | Some (buttons, footer) \<Rightarrow> Some (take n s, buttons, footer))
       (length (line_of s))"

text \<open>\<open>BUTTONSMSGREGEX.FindStringSubmatch\<close>: the groups content, buttons and footer.\<close>

fun BUTTONSMSGREGEX :: "string \<Rightarrow> (string \<times> string \<times> string) option" where
  "BUTTONSMSGREGEX s =
     (case match_at s of
        Some m \<Rightarrow> Some m
      | None \<Rightarrow> (case s of [] \<Rightarrow> None | _ # r \<Rightarrow> BUTTONSMSGREGEX r))"

declare BUTTONSMSGREGEX.simps [simp del]

text \<open>\<open>RegexButton.FindStringSubmatch\<close>: the groups value and display.\<close>

definition value_group :: "string \<Rightarrow> (string \<times> string) option" where
  "value_group s =
     longest (\<lambda>n. case drop n s of
                    [] \<Rightarrow> None
                  | c # r \<Rightarrow> if c = CHR '')'' then Some (take n s, line_of r) else None)
       (length (line_of s))"

fun RegexButton :: "string \<Rightarrow> (string \<times> string) option" where
  "RegexButton [] = None"
| "RegexButton (c # r) =
     (case (if c = CHR ''('' then value_group r else None) of
        Some m \<Rightarrow> Some m
      | None \<Rightarrow> RegexButton r)"

section \<open>The message\<close>

definition GenerateButton :: "string \<Rightarrow> wa_button" where
  "GenerateButton s =
     (let normalized = TrimSpace s
      in case RegexButton normalized of
           None \<Rightarrow> \<lparr>ButtonID = normalized, DisplayText = normalized\<rparr>
         | Some (v, display) \<Rightarrow>
             \<lparr>ButtonID = (if length v > 0 then v else normalized),
              DisplayText = (if length display > 0 then display else normalized)\<rparr>)"

text \<open>
  A text that does not match has no groups, and indexing them panics. A match always holds the mark, so
  the test in \<open>IsValidForButtons\<close> that its first group is not blank passes.
\<close>

definition GenerateButtonsMessage :: "string \<Rightarrow> wa_buttons option" where
  "GenerateButtonsMessage messageText =
     (case BUTTONSMSGREGEX messageText of
        None \<Rightarrow> None
      | Some (contentMatched, buttonsText, footerMatched) \<Rightarrow>
          Some \<lparr>bm_ContentText = (if length contentMatched > 0 then Some contentMatched else None),
                Buttons = map GenerateButton (SplitByte (CHR '','') buttonsText),
                bm_FooterText = (if length footerMatched > 0 then Some footerMatched else None),
                bm_ContextInfo = None\<rparr>)"

definition IsValidForButtons :: "string \<Rightarrow> bool" where
  "IsValidForButtons text \<longleftrightarrow> Contains (ToLower text) ''buttons:'' \<and> BUTTONSMSGREGEX text \<noteq> None"

lemma valid_buttons_generate: "IsValidForButtons text \<Longrightarrow> GenerateButtonsMessage text \<noteq> None"
  by (auto simp: IsValidForButtons_def GenerateButtonsMessage_def)

section \<open>Writing buttons and reading them back\<close>

lemma longest_at:
  "f k = Some r \<Longrightarrow> k \<le> n \<Longrightarrow> (\<And>m. k < m \<Longrightarrow> m \<le> n \<Longrightarrow> f m = None) \<Longrightarrow> longest f n = Some r"
proof (induction n)
  case (Suc n)
  then show ?case
  proof (cases "k = Suc n")
    case False
    then have "f (Suc n) = None" "k \<le> n" using Suc.prems by simp_all
    with Suc show ?thesis by simp
  qed simp
qed simp

lemma longest_None: "(\<And>m. m \<le> n \<Longrightarrow> f m = None) \<Longrightarrow> longest f n = None"
  by (induction n) auto

lemma line_of_id [simp]: "CHR 0x0A \<notin> set s \<Longrightarrow> line_of s = s"
  by (auto simp: line_of_def takeWhile_eq_all_conv)

text \<open>The last closing bracket of the line ends the group.\<close>

lemma last_mark:
  assumes "c \<notin> set t" "CHR 0x0A \<notin> set (s @ c # t)"
  shows "longest (\<lambda>n. case drop n (s @ c # t) of [] \<Rightarrow> None
             | d # r \<Rightarrow> if d = c then Some (take n (s @ c # t), g r) else None)
           (length (line_of (s @ c # t))) = Some (s, g t)"
proof (rule longest_at [of _ "length s"])
  fix m assume m: "length s < m"
  define d where "d = drop m (s @ c # t)"
  have "d = drop (m - Suc (length s)) t"
    using m by (cases m) (auto simp: d_def Suc_diff_le drop_Cons')
  then have "c \<notin> set d" using assms(1) by (metis in_set_dropD)
  then show "(case drop m (s @ c # t) of [] \<Rightarrow> None
      | d # r \<Rightarrow> if d = c then Some (take m (s @ c # t), g r) else None) = None"
    unfolding d_def [symmetric] by (cases d) auto
qed (use assms in auto)

lemma no_mark:
  assumes "CHR ''$'' \<notin> set s" "CHR ''#'' \<notin> set s"
  shows "optional_space (\<lambda>t. Option.bind (buttons_mark t) g) s = None"
proof -
  have none: "buttons_mark t = None" if "set t \<subseteq> set s" for t
    using assms that by (auto simp: buttons_mark_def split: list.split)
  show ?thesis
  proof (cases s)
    case (Cons c r)
    then have "buttons_mark r = None" "buttons_mark s = None" using none [of r] none [of s] by auto
    then show ?thesis using Cons by (simp add: optional_space_def)
  qed (simp add: optional_space_def buttons_mark_def)
qed

lemma match_at_marked:
  assumes "CHR 0x0A \<notin> set (content @ rest)" "CHR ''$'' \<notin> set rest" "CHR ''#'' \<notin> set rest"
    and "buttons_group rest = Some (buttons, footer)"
  shows "match_at (content @ ''$buttons:['' @ rest) = Some (content, buttons, footer)"
proof -
  let ?s = "content @ ''$buttons:['' @ rest"
  let ?k = "\<lambda>t. Option.bind (buttons_mark t) buttons_group"
  have "optional_space ?k (''$buttons:['' @ rest) = Some (buttons, footer)"
    using assms(4) by (simp add: optional_space_def re_space_def buttons_mark_def lower_char_def less_eq_char_def)
  moreover have "optional_space ?k (drop m ?s) = None" if m: "length content < m" for m
  proof (rule no_mark)
    have "drop m ?s = drop (m - Suc (length content)) (''buttons:['' @ rest)"
      using m by (cases m) (auto simp: Suc_diff_le)
    then have "set (drop m ?s) \<subseteq> set (''buttons:['' @ rest)" by (metis set_drop_subset)
    then show "CHR ''$'' \<notin> set (drop m ?s)" "CHR ''#'' \<notin> set (drop m ?s)" using assms(2,3) by auto
  qed
  moreover have "line_of ?s = ?s" using assms(1) by (intro line_of_id) auto
  ultimately show ?thesis
    unfolding match_at_def by (intro longest_at [of _ "length content"]) auto
qed

fun join_labels :: "string list \<Rightarrow> string" where
  "join_labels [] = []"
| "join_labels [s] = s"
| "join_labels (s # ss) = s @ CHR '','' # join_labels ss"

lemma SplitByte_prefix:
  "c \<notin> set s \<Longrightarrow> SplitByte c (s @ c # t) = s # SplitByte c t"
  by (induction s) auto

lemma SplitByte_join:
  "ss \<noteq> [] \<Longrightarrow> list_all (\<lambda>s. CHR '','' \<notin> set s) ss \<Longrightarrow> SplitByte (CHR '','') (join_labels ss) = ss"
  by (induction ss rule: join_labels.induct) (auto simp: SplitByte_prefix)

lemma set_join_labels: "set (join_labels ss) \<subseteq> insert (CHR '','') (\<Union>(set ` set ss))"
  by (induction ss rule: join_labels.induct) auto

definition write_button :: "wa_button \<Rightarrow> string" where
  "write_button b = ''('' @ ButtonID b @ '')'' @ DisplayText b"

definition write_buttons :: "string \<Rightarrow> wa_button list \<Rightarrow> string \<Rightarrow> string" where
  "write_buttons content bs footer =
     content @ ''$buttons:['' @ join_labels (map write_button bs) @ '']'' @ footer"

definition button_ok :: "wa_button \<Rightarrow> bool" where
  "button_ok b \<longleftrightarrow> ButtonID b \<noteq> [] \<and> DisplayText b \<noteq> [] \<and> CHR '')'' \<notin> set (DisplayText b) \<and>
     list_all (\<lambda>c. c \<notin> {CHR '','', CHR 0x0A, CHR ''$'', CHR ''#''}) (write_button b) \<and>
     TrimSpace (write_button b) = write_button b"

definition footer_ok :: "string \<Rightarrow> bool" where
  "footer_ok footer \<longleftrightarrow> list_all (\<lambda>c. c \<notin> {CHR '']'', CHR 0x0A, CHR ''$'', CHR ''#''}) footer \<and>
     (footer = [] \<or> \<not> re_space (hd footer))"

lemma written_button:
  assumes "button_ok b"
  shows "GenerateButton (write_button b) = b"
proof -
  have b: "CHR '')'' \<notin> set (DisplayText b)" "CHR 0x0A \<notin> set (ButtonID b @ CHR '')'' # DisplayText b)"
    using assms by (auto simp: button_ok_def write_button_def list_all_iff)
  have "line_of (DisplayText b) = DisplayText b" using b(2) by simp
  then have "value_group (ButtonID b @ CHR '')'' # DisplayText b) = Some (ButtonID b, DisplayText b)"
    unfolding value_group_def using last_mark [OF b, of line_of] by simp
  then have "RegexButton (write_button b) = Some (ButtonID b, DisplayText b)"
    by (simp add: write_button_def)
  then show ?thesis using assms by (simp add: GenerateButton_def button_ok_def)
qed

lemma written_labels:
  assumes "list_all button_ok bs"
  shows "list_all (\<lambda>s. CHR '','' \<notin> set s) (map write_button bs)"
    and "\<forall>c \<in> set (join_labels (map write_button bs)). c \<notin> {CHR 0x0A, CHR ''$'', CHR ''#''}"
proof -
  show "list_all (\<lambda>s. CHR '','' \<notin> set s) (map write_button bs)"
    using assms by (auto simp: list_all_iff button_ok_def)
  show "\<forall>c \<in> set (join_labels (map write_button bs)). c \<notin> {CHR 0x0A, CHR ''$'', CHR ''#''}"
    using assms set_join_labels [of "map write_button bs"] by (fastforce simp: list_all_iff button_ok_def)
qed

text \<open>
  C13. A text that writes a content line, buttons with their values and a footer in the syntax of the
  program is recognised as one, and becomes the message of exactly these: the content, every button with
  its value and its label in order, and the footer, the empty ones left out.
\<close>
theorem buttons_roundtrip:
  assumes "list_all button_ok bs" "bs \<noteq> []" "CHR 0x0A \<notin> set content" "footer_ok footer"
  shows "IsValidForButtons (write_buttons content bs footer)
     \<and> GenerateButtonsMessage (write_buttons content bs footer) =
         Some \<lparr>bm_ContentText = (if content = [] then None else Some content), Buttons = bs,
               bm_FooterText = (if footer = [] then None else Some footer), bm_ContextInfo = None\<rparr>"
proof -
  let ?labels = "join_labels (map write_button bs)"
  have f: "\<forall>c\<in>set footer. c \<notin> {CHR '']'', CHR 0x0A, CHR ''$'', CHR ''#''}"
    "footer = [] \<or> \<not> re_space (hd footer)"
    using assms(4) by (simp_all add: footer_ok_def list_all_iff)
  note l = written_labels [OF assms(1)]
  have "line_of footer = footer" using f(1) by (intro line_of_id) blast
  then have "footer_group footer = footer"
    using f(2) by (cases footer) (simp_all add: footer_group_def)
  moreover have "buttons_group (?labels @ CHR '']'' # footer) = Some (?labels, footer_group footer)"
    unfolding buttons_group_def by (rule last_mark) (use f(1) l(2) in auto)
  ultimately have g: "buttons_group (?labels @ CHR '']'' # footer) = Some (?labels, footer)" by simp
  have "match_at (content @ ''$buttons:['' @ ?labels @ CHR '']'' # footer) = Some (content, ?labels, footer)"
  proof (rule match_at_marked [OF _ _ _ g])
    show "CHR 0x0A \<notin> set (content @ ?labels @ CHR '']'' # footer)"
      using f(1) l(2) assms(3) by auto
    show "CHR ''$'' \<notin> set (?labels @ CHR '']'' # footer)" "CHR ''#'' \<notin> set (?labels @ CHR '']'' # footer)"
      using f(1) l(2) by auto
  qed
  then have "match_at (write_buttons content bs footer) = Some (content, ?labels, footer)"
    by (simp add: write_buttons_def)
  then have m: "BUTTONSMSGREGEX (write_buttons content bs footer) = Some (content, ?labels, footer)"
    by (simp add: BUTTONSMSGREGEX.simps)
  have "map GenerateButton (map write_button bs) = bs"
    using assms(1) by (induction bs) (auto simp: written_button)
  then have g: "map GenerateButton (SplitByte (CHR '','') ?labels) = bs"
    using SplitByte_join l(1) assms(2) by simp
  have "Contains (ToLower (write_buttons content bs footer)) ''buttons:''"
    unfolding Contains_iff
    by (rule exI [of _ "ToLower content @ ''$''"], rule exI [of _ "''['' @ ToLower (?labels @ '']'' @ footer)"])
       (simp add: write_buttons_def ToLower_def lower_char_def less_eq_char_def)
  with m g show ?thesis by (simp add: IsValidForButtons_def GenerateButtonsMessage_def)
qed

theorem buttons_roundtrip_witness:
  "GenerateButtonsMessage ''Agree? $buttons:[(y)Yes [1],(n)No]thanks'' =
     Some \<lparr>bm_ContentText = Some ''Agree? '',
           Buttons = [\<lparr>ButtonID = ''y'', DisplayText = ''Yes [1]''\<rparr>, \<lparr>ButtonID = ''n'', DisplayText = ''No''\<rparr>],
           bm_FooterText = Some ''thanks'', bm_ContextInfo = None\<rparr>"
proof -
  let ?bs = "[\<lparr>ButtonID = ''y'', DisplayText = ''Yes [1]''\<rparr>, \<lparr>ButtonID = ''n'', DisplayText = ''No''\<rparr>]"
  have "list_all button_ok ?bs" "footer_ok ''thanks''" by code_simp+
  from buttons_roundtrip [OF this(1) _ _ this(2), of "''Agree? ''"] show ?thesis
    by (simp add: write_buttons_def write_button_def)
qed

end
