(* ===== verification/Sending.thy ===== *)
theory Sending
  imports Buttons Connection Events
begin

text \<open>
  What a connection does for its server, \<open>src/whatsmeow/whatsmeow_connection.go\<close> with the parts of
  \<open>whatsmeow_extensions.go\<close> it uses: sending, replies and mentions, media, revoking, editing, presence,
  downloads, pairing and retries. The client's answers are the fields of \<open>sending_env\<close>; what is asked of
  it is recorded as calls. The handlers of a connection are an \<open>event_state\<close>, and \<open>None\<close> once the
  connection was disposed; reaching through them panics, which is the outer \<open>None\<close> of a result.
\<close>

section \<open>The client\<close>

text \<open>The address, path, key and hashes of an uploaded file are one value, \<open>up_other\<close>.\<close>

record UploadResponse =
  up_FileLength :: "64 word"
  up_other :: string

record SendResponse =
  sr_Timestamp :: time
  sr_ID :: string

record sending_env =
  sn_event :: event_env
  sn_parse :: "string \<Rightarrow> string + JID"
  sn_upload :: "string \<Rightarrow> MediaType \<Rightarrow> string + UploadResponse"
  sn_send :: "JID \<Rightarrow> wa_message \<Rightarrow> string \<Rightarrow> string + SendResponse"
  sn_download :: "wa_media \<Rightarrow> string + string"
  sn_secret :: "nat list"
  sn_wire :: "wa_message \<Rightarrow> string"
  sn_user_info :: "JID \<Rightarrow> (JID \<times> nat) list option"
  sn_control :: "string option"

datatype client_call =
  CallUpload string MediaType | CallSend JID wa_message string | CallRevoke JID JID string
| CallEdit JID string string | CallPresence JID string string | CallAppState JID string bool
| CallHistorySync "message_info option" nat | CallPairPhone string

datatype sending_error =
  NotASCII | InvalidJID string | EmptyContent | ClientFailed string | PollNil | NotDownloadable string
| NoAttachment string | DownloadFailed string | NilMessage | ClientUndefined | NoLeading

type_synonym handlers = "event_state option"

section \<open>Replies and mentions\<close>

text \<open>\<open>GetHandlers().WAHandlers.GetById\<close>: expired entries leave the cache on the way.\<close>

definition handlers_GetById ::
    "event_env \<Rightarrow> handlers \<Rightarrow> string \<Rightarrow> (handlers \<times> WhatsappMessage option) option" where
  "handlers_GetById env hs i =
     (case hs of
        None \<Rightarrow> None
      | Some st \<Rightarrow>
          (case wa st of
             None \<Rightarrow> None
           | Some server \<Rightarrow>
               (case GetById (he_store (ee_handler env)) (store (msg_handler server)) i of
                  (cache, answer) \<Rightarrow>
                    Some (Some (st\<lparr>wa := Some (server\<lparr>msg_handler := (msg_handler server)\<lparr>store := cache\<rparr>\<rparr>)\<rparr>),
                          case answer of Inl _ \<Rightarrow> None | Inr msg \<Rightarrow> Some msg))))"

definition empty_context :: wa_context_info where
  "empty_context = \<lparr>ConversionDelaySeconds = None, EntryPointConversionDelaySeconds = None,
     ci_ForwardingScore = 0, StanzaID = [], MentionedJID = [], ExternalAdReply = None,
     ci_Participant = None, QuotedMessage = None, ci_Expiration = None, EphemeralSettingTimestamp = None,
     DisappearingMode = None, ci_other = []\<rparr>"

definition wa_content :: "content_value \<Rightarrow> wa_message option" where
  "wa_content c = (case c of WaMessage m \<Rightarrow> Some m | _ \<Rightarrow> None)"

definition GetInReplyContextInfo ::
    "sending_env \<Rightarrow> handlers \<Rightarrow> WhatsappMessage \<Rightarrow> (handlers \<times> wa_context_info) option" where
  "GetInReplyContextInfo env hs msg =
     (case handlers_GetById (sn_event env) hs (InReply msg) of
        None \<Rightarrow> None
      | Some (hs, cached) \<Rightarrow>
          let info = Option.bind cached InfoForHistory;
              quoted = Option.bind cached (\<lambda>m. wa_content (Content m));
              participant = (case info of
                  None \<Rightarrow> None
                | Some i \<Rightarrow>
                    if mi_ID i \<noteq> [] then
                      Some (let jid = (if FromGroup msg then mi_Sender i else mi_Chat i)
                            in jid_User jid @ ''@'' @ jid_Server jid)
                    else None)
          in Some (hs, empty_context\<lparr>StanzaID := InReply msg, ci_Participant := participant,
                 QuotedMessage := map_option (sn_wire env) quoted\<rparr>))"

definition GetContextInfo ::
    "sending_env \<Rightarrow> handlers \<Rightarrow> WhatsappMessage \<Rightarrow> (handlers \<times> wa_context_info option) option" where
  "GetContextInfo env hs msg =
     (case (if length (InReply msg) > 0
            then map_option (\<lambda>(hs, ci). (hs, Some ci)) (GetInReplyContextInfo env hs msg)
            else Some (hs, None)) of
        None \<Rightarrow> None
      | Some (hs, contextInfo) \<Rightarrow>
          let contextInfo =
                (if FromGroup msg then
                   let mentions = GetMentions (ee_parse (sn_event env)) (Text msg)
                   in if length mentions > 0 then
                        Some ((case contextInfo of None \<Rightarrow> empty_context | Some ci \<Rightarrow> ci)\<lparr>MentionedJID := mentions\<rparr>)
                      else contextInfo
                 else contextInfo)
          in Some (hs, map_option (\<lambda>ci. ci\<lparr>ci_Expiration := Some 0, EphemeralSettingTimestamp := Some 0,
                 DisappearingMode := Some ''CHANGED_IN_CHAT''\<rparr>) contextInfo))"

section \<open>Media\<close>

definition empty_media :: wa_media where
  "empty_media = \<lparr>md_Mimetype = [], md_FileLength = 0, Caption = [], md_FileName = [], md_Seconds = 0,
     IsAnimated = False, md_Thumbnail = [], PTT = None, Waveform = [], md_ContextInfo = None, md_other = []\<rparr>"

definition NewWhatsmeowMessageAttachment ::
    "UploadResponse \<Rightarrow> WhatsappMessage \<Rightarrow> WhatsappAttachment \<Rightarrow> MediaType \<Rightarrow> wa_context_info option \<Rightarrow> wa_message" where
  "NewWhatsmeowMessageAttachment response waMsg attach media inreplycontext =
     (let internal = empty_media\<lparr>md_FileLength := up_FileLength response, md_other := up_other response,
            md_Mimetype := Mimetype attach, md_ContextInfo := inreplycontext\<rparr>
      in case media of
           MediaImage \<Rightarrow> empty_wa\<lparr>ImageMessage := Some (internal\<lparr>Caption := Text waMsg\<rparr>)\<rparr>
         | MediaAudio \<Rightarrow>
             let internal = internal\<lparr>md_Seconds := Seconds attach, Waveform := WaveForm attach\<rparr>
             in empty_wa\<lparr>AudioMessage := Some
                  (if IsValidPTT attach then internal\<lparr>PTT := Some True\<rparr>
                   else if ptt attach then internal\<lparr>PTT := Some True, md_Mimetype := WhatsappPTTMime\<rparr>
                   else internal)\<rparr>
         | MediaVideo \<Rightarrow>
             empty_wa\<lparr>VideoMessage := Some (internal\<lparr>md_Seconds := Seconds attach, Caption := Text waMsg\<rparr>)\<rparr>
         | MediaDocument \<Rightarrow>
             empty_wa\<lparr>DocumentMessage := Some (internal\<lparr>md_FileName := FileName attach, Caption := Text waMsg\<rparr>)\<rparr>)"

text \<open>An attachment without content is dereferenced.\<close>

definition UploadAttachment ::
    "sending_env \<Rightarrow> handlers \<Rightarrow> WhatsappMessage \<Rightarrow>
     (handlers \<times> client_call list \<times> (sending_error + wa_message)) option" where
  "UploadAttachment env hs msg =
     (case Attachment msg of
        None \<Rightarrow> None
      | Some attach \<Rightarrow>
          (case att_content attach of
             None \<Rightarrow> None
           | Some content \<Rightarrow>
               if length content = 0 then Some (hs, [], Inl EmptyContent)
               else
                 let mediaType = GetMediaTypeFromWAMsgType (MsgType msg); call = [CallUpload content mediaType]
                 in (case sn_upload env content mediaType of
                       Inl err \<Rightarrow> Some (hs, call, Inl (ClientFailed err))
                     | Inr response \<Rightarrow>
                         map_option (\<lambda>(hs, inreplycontext). (hs, call,
                             Inr (NewWhatsmeowMessageAttachment response msg attach mediaType (Some inreplycontext))))
                           (GetInReplyContextInfo env hs msg))))"

section \<open>Contact cards\<close>

fun text_lines :: "string list \<Rightarrow> string" where
  "text_lines [] = []"
| "text_lines [s] = s"
| "text_lines (s # ss) = s @ CHR 0x0A # text_lines ss"

definition phone_waid :: "WhatsappContact \<Rightarrow> string" where
  "phone_waid contact =
     (let p = filter (\<lambda>c. c \<notin> {CHR '' '', CHR ''-'', CHR ''('', CHR '')''}) (contact_Phone contact)
      in if HasPrefix p ''+'' then tl p else p)"

text \<open>Whether the contact is on WhatsApp, and the name of its business, empty for none.\<close>

definition contact_status :: "sending_env \<Rightarrow> WhatsappContact \<Rightarrow> bool \<times> string" where
  "contact_status env contact =
     (case sn_parse env (phone_waid contact @ ''@s.whatsapp.net'') of
        Inl _ \<Rightarrow> (False, [])
      | Inr jid \<Rightarrow>
          if \<not> ce_client (ee_contact (sn_event env)) then (False, [])
          else (case sn_user_info env jid of
                  None \<Rightarrow> (False, [])
                | Some userInfos \<Rightarrow>
                    if (case map_of userInfos jid of None \<Rightarrow> 0 | Some devices \<Rightarrow> devices) > 0 then
                      (True, if ce_store (ee_contact (sn_event env)) then
                               (case ce_contact (ee_contact (sn_event env)) jid of
                                  None \<Rightarrow> [] | Some contactInfo \<Rightarrow> BusinessName contactInfo)
                             else [])
                    else (False, [])))"

definition generateVCardForContact :: "sending_env \<Rightarrow> WhatsappContact \<Rightarrow> string" where
  "generateVCardForContact env contact =
     (case contact_status env contact of
        (isOnWhatsApp, businessName) \<Rightarrow>
          let head_lines = [''BEGIN:VCARD'', ''VERSION:3.0'', ''N:;'' @ contact_Name contact @ '';;;'', ''FN:'' @ contact_Name contact];
              waid_line = ''item1.TEL;waid='' @ phone_waid contact @ '':'' @ contact_Phone contact
          in text_lines
              (if businessName \<noteq> [] then
                 head_lines @ [waid_line, ''item1.X-ABLabel:WhatsApp Business'', ''X-WA-BIZ-NAME:'' @ businessName,
                   ''X-WA-BIZ-DESCRIPTION:'' @ businessName, ''END:VCARD'']
               else if isOnWhatsApp then head_lines @ [waid_line, ''item1.X-ABLabel:Celular'', ''END:VCARD'']
               else head_lines @ [''item1.TEL:'' @ contact_Phone contact, ''item1.X-ABLabel:Celular'', ''END:VCARD'']))"

section \<open>Sending\<close>

definition isASCII :: "string \<Rightarrow> bool" where
  "isASCII s \<longleftrightarrow> list_all (\<lambda>c. of_char c \<le> (127 :: nat)) s"

text \<open>The error of \<open>FormatEndpoint\<close> is dropped, and its result so far is the source without blanks.\<close>

definition formattedDestination :: "WhatsappMessage \<Rightarrow> string" where
  "formattedDestination msg =
     (case FormatEndpoint (Chat_Id (Chat msg)) of
        Inl _ \<Rightarrow> RemoveByte (CHR '' '') (Chat_Id (Chat msg))
      | Inr destination \<Rightarrow> destination)"

definition send_contact ::
    "sending_env \<Rightarrow> handlers \<Rightarrow> WhatsappMessage \<Rightarrow> WhatsappContact \<Rightarrow> (handlers \<times> wa_message) option" where
  "send_contact env hs msg contact =
     (let vcard = (if length (Vcard contact) = 0 then generateVCardForContact env contact else Vcard contact);
          newMessage = (\<lambda>ci. empty_wa\<lparr>ContactMessage := Some \<lparr>DisplayName = contact_Name contact,
            wc_Vcard = vcard, wc_ContextInfo = ci, wc_other = []\<rparr>\<rparr>)
      in if length (InReply msg) > 0
         then map_option (\<lambda>(hs, ci). (hs, newMessage ci)) (GetContextInfo env hs msg)
         else Some (hs, newMessage None))"

definition send_location ::
    "sending_env \<Rightarrow> handlers \<Rightarrow> WhatsappMessage \<Rightarrow> WhatsappAttachment \<Rightarrow> (handlers \<times> wa_message) option" where
  "send_location env hs msg attach =
     (let newMessage = (\<lambda>ci. empty_wa\<lparr>LocationMessage := Some \<lparr>DegreesLatitude = Some (Latitude attach),
            DegreesLongitude = Some (Longitude attach), wl_Caption = [], SequenceNumber = 0, wl_JPEGThumbnail = [],
            wl_Name = Text msg, wl_ContextInfo = ci, wl_other = []\<rparr>\<rparr>)
      in if length (InReply msg) > 0
         then map_option (\<lambda>(hs, ci). (hs, newMessage ci)) (GetContextInfo env hs msg)
         else Some (hs, newMessage None))"

definition extended_text :: "string \<Rightarrow> wa_context_info option \<Rightarrow> wa_message" where
  "extended_text t ci = empty_wa\<lparr>ExtendedTextMessage := Some \<lparr>et_Text = t, MatchedText = [], et_Title = [],
     et_Description = [], et_JPEGThumbnail = [], et_ContextInfo = ci, et_other = []\<rparr>\<rparr>"

definition send_text ::
    "sending_env \<Rightarrow> handlers \<Rightarrow> WhatsappMessage \<Rightarrow> (handlers \<times> WhatsappMessage \<times> wa_message) option" where
  "send_text env hs msg =
     (if IsValidForButtons (Text msg) then
        (case GenerateButtonsMessage (Text msg) of
           None \<Rightarrow> None
         | Some internal \<Rightarrow>
             map_option (\<lambda>(hs, ci). (hs, msg, empty_wa\<lparr>ButtonsMessage := Some (internal\<lparr>bm_ContextInfo := ci\<rparr>)\<rparr>))
               (GetContextInfo env hs msg))
      else (case GeneratePollMessage (sn_secret env) msg of
           Some (msg, poll) \<Rightarrow> Some (hs, msg, empty_wa\<lparr>PollCreationMessage := Some poll\<rparr>)
         | None \<Rightarrow> map_option (\<lambda>(hs, ci). (hs, msg, extended_text (Text msg) ci)) (GetContextInfo env hs msg)))"

text \<open>The message to send, the calls made for it, and the request as it is now.\<close>

definition new_message ::
    "sending_env \<Rightarrow> handlers \<Rightarrow> WhatsappMessage \<Rightarrow>
     (handlers \<times> client_call list \<times> WhatsappMessage \<times> (sending_error + wa_message)) option" where
  "new_message env hs msg =
     (case (MsgType msg, Contact msg, Attachment msg) of
        (ContactMessageType, Some contact, _) \<Rightarrow>
          map_option (\<lambda>(hs, m). (hs, [], msg, Inr m)) (send_contact env hs msg contact)
      | _ \<Rightarrow>
          if \<not> HasAttachment msg then
            map_option (\<lambda>(hs, msg, m). (hs, [], msg, Inr m)) (send_text env hs msg)
          else if MsgType msg = LocationMessageType then
            map_option (\<lambda>(hs, m). (hs, [], msg, Inr m)) (send_location env hs msg (the (Attachment msg)))
          else map_option (\<lambda>(hs, calls, r). (hs, calls, msg, r)) (UploadAttachment env hs msg))"

text \<open>The request gets an id if it has none, and the sent message as its content if it has none.\<close>

definition stamped :: "sending_env \<Rightarrow> wa_message \<Rightarrow> WhatsappMessage \<Rightarrow> WhatsappMessage" where
  "stamped env m msg =
     (let msg = (if length (Msg_Id msg) = 0 then msg\<lparr>Msg_Id := ee_message_id (sn_event env)\<rparr> else msg)
      in if Content msg = NoContent then msg\<lparr>Content := WaMessage m\<rparr> else msg)"

lemma stamped_sel [simp]:
  "MsgType (stamped env m msg) = MsgType msg" "Chat (stamped env m msg) = Chat msg"
  "Content (stamped env m msg) = (if Content msg = NoContent then WaMessage m else Content msg)"
  "Msg_Id (stamped env m msg) = (if Msg_Id msg = [] then ee_message_id (sn_event env) else Msg_Id msg)"
  by (simp_all add: stamped_def Let_def)

type_synonym sent_result =
  "(handlers \<times> client_call list \<times> task list \<times> WhatsappMessage \<times> sending_error option) option"

definition Send :: "sending_env \<Rightarrow> handlers \<Rightarrow> WhatsappMessage \<Rightarrow> sent_result" where
  "Send env hs msg =
     (if \<not> isASCII (formattedDestination msg) then Some (hs, [], [], msg, Some NotASCII)
      else (case sn_parse env (formattedDestination msg) of
         Inl err \<Rightarrow> Some (hs, [], [], msg, Some (InvalidJID err))
       | Inr jid \<Rightarrow>
           (case new_message env hs msg of
              None \<Rightarrow> None
            | Some (hs, calls, msg, Inl err) \<Rightarrow> Some (hs, calls, [], msg, Some err)
            | Some (hs, calls, msg, Inr newMessage) \<Rightarrow>
                let msg = stamped env newMessage msg;
                    calls = calls @ [CallSend jid newMessage (Msg_Id msg)]
                in (case sn_send env jid newMessage (Msg_Id msg) of
                      Inl err \<Rightarrow> Some (hs, calls, [], msg, Some (ClientFailed err))
                    | Inr resp \<Rightarrow>
                        let msg = msg\<lparr>Timestamp := Some (sr_Timestamp resp)\<rparr>
                        in (case WH_HandleReadUpdate (map_option wh hs) of
                              None \<Rightarrow> None
                            | Some readUpdate \<Rightarrow>
                                Some (hs, calls, if readUpdate then [TMarkRead msg] else [], msg, None))))))"

text \<open>A recipient that did not decrypt a message asks for it again.\<close>

definition getMessageForRetry :: "event_env \<Rightarrow> handlers \<Rightarrow> string \<Rightarrow> handlers \<times> wa_message option" where
  "getMessageForRetry env hs i =
     (case handlers_GetById env hs i of
        None \<Rightarrow> (hs, None)
      | Some (hs, cached) \<Rightarrow> (hs, Option.bind cached (\<lambda>m. wa_content (Content m))))"

section \<open>Other operations on messages\<close>

definition client_result :: "sending_env \<Rightarrow> client_call \<Rightarrow> client_call list \<times> sending_error option" where
  "client_result env call = ([call], map_option ClientFailed (sn_control env))"

definition Conn_Revoke :: "sending_env \<Rightarrow> WhatsappMessage \<Rightarrow> client_call list \<times> sending_error option" where
  "Conn_Revoke env msg =
     (case sn_parse env (Chat_Id (Chat msg)) of
        Inl err \<Rightarrow> ([], Some (InvalidJID err))
      | Inr jid \<Rightarrow>
          (case sn_parse env (GetParticipantId msg) of
             Inl err \<Rightarrow> ([], Some (InvalidJID err))
           | Inr participantJid \<Rightarrow> client_result env (CallRevoke jid participantJid (Msg_Id msg))))"

definition Conn_Edit :: "sending_env \<Rightarrow> WhatsappMessage \<Rightarrow> string \<Rightarrow> client_call list \<times> sending_error option" where
  "Conn_Edit env msg newContent =
     (case sn_parse env (Chat_Id (Chat msg)) of
        Inl err \<Rightarrow> ([], Some (InvalidJID err))
      | Inr jid \<Rightarrow> client_result env (CallEdit jid (Msg_Id msg) newContent))"

definition Conn_SendChatPresence ::
    "sending_env \<Rightarrow> WhatsmeowConnection \<Rightarrow> string \<Rightarrow> WhatsappChatPresenceType \<Rightarrow>
     client_call list \<times> sending_error option" where
  "Conn_SendChatPresence env conn_state chatId presenceType =
     (if Client conn_state = None then ([], Some ClientUndefined)
      else (case sn_parse env chatId of
         Inl err \<Rightarrow> ([], Some (InvalidJID err))
       | Inr jid \<Rightarrow>
           client_result env
             (if presenceType = PresenceText then CallPresence jid ''composing'' []
              else if presenceType = PresenceAudio then CallPresence jid ''composing'' ''audio''
              else CallPresence jid ''paused'' [])))"

text \<open>Marking read or unread and archiving differ in the patch that is sent.\<close>

definition app_state ::
    "string \<Rightarrow> bool \<Rightarrow> sending_env \<Rightarrow> WhatsmeowConnection \<Rightarrow> string \<Rightarrow> client_call list \<times> sending_error option" where
  "app_state patch v env conn_state chatId =
     (if Client conn_state = None then ([], Some ClientUndefined)
      else (case sn_parse env chatId of
         Inl err \<Rightarrow> ([], Some (InvalidJID err))
       | Inr jid \<Rightarrow> client_result env (CallAppState jid patch v)))"

definition MarkChatAsRead ::
    "sending_env \<Rightarrow> WhatsmeowConnection \<Rightarrow> string \<Rightarrow> client_call list \<times> sending_error option" where
  "MarkChatAsRead = app_state ''markChatAsRead'' True"

definition MarkChatAsUnread ::
    "sending_env \<Rightarrow> WhatsmeowConnection \<Rightarrow> string \<Rightarrow> client_call list \<times> sending_error option" where
  "MarkChatAsUnread = app_state ''markChatAsRead'' False"

definition ArchiveChat ::
    "bool \<Rightarrow> sending_env \<Rightarrow> WhatsmeowConnection \<Rightarrow> string \<Rightarrow> client_call list \<times> sending_error option" where
  "ArchiveChat archive = app_state ''archive'' archive"

section \<open>Downloads\<close>

text \<open>
  Of the contents a message can have, only a whole protobuf message reaches \<open>GetDownloadableMessage\<close>; no
  content the program stores is itself downloadable. The result carries the error the code returns.
\<close>

definition DownloadData :: "sending_env \<Rightarrow> WhatsappMessage \<Rightarrow> sending_error + string" where
  "DownloadData env imsg =
     (case Option.bind (wa_content (Content imsg)) (\<lambda>m. GetDownloadableMessage (Some m)) of
        Some downloadable \<Rightarrow>
          (case sn_download env downloadable of Inl err \<Rightarrow> Inl (ClientFailed err) | Inr data \<Rightarrow> Inr data)
      | None \<Rightarrow>
          (case Option.bind (Attachment imsg) att_content of
             Some data \<Rightarrow> Inr data
           | None \<Rightarrow> Inl (NotDownloadable (Msg_Id imsg))))"

text \<open>The first component is the message, whose own attachment is filled when the content is to be kept.\<close>

definition Download ::
    "sending_env \<Rightarrow> WhatsappMessage \<Rightarrow> bool \<Rightarrow> WhatsappMessage \<times> (sending_error + WhatsappAttachment)" where
  "Download env imsg cache =
     (case Attachment imsg of
        None \<Rightarrow> (imsg, Inl (NoAttachment (Msg_Id imsg)))
      | Some att \<Rightarrow>
          if cache \<and> att_content att \<noteq> None then (imsg, Inr att)
          else (case DownloadData env imsg of
                  Inl err \<Rightarrow> (imsg, Inl (DownloadFailed (Msg_Id imsg)))
                | Inr data \<Rightarrow>
                    let att = att\<lparr>att_content := Some data\<rparr>
                    in (if cache then imsg\<lparr>Attachment := Some att\<rparr> else imsg, Inr att)))"

section \<open>History and pairing\<close>

text \<open>
  The time asked for is only logged: the request starts at the first stored message. \<open>own\<close> is the
  device's id, which is dereferenced.
\<close>

definition Conn_HistorySync ::
    "sending_env \<Rightarrow> JID option \<Rightarrow> handlers \<Rightarrow> (client_call list \<times> sending_error option) option" where
  "Conn_HistorySync env own hs =
     (case Option.bind hs wa of
        None \<Rightarrow> None
      | Some server \<Rightarrow>
          (case GetLeading (he_store (ee_handler (sn_event env))) (store (msg_handler server)) of
             None \<Rightarrow> Some ([], Some NoLeading)
           | Some leading \<Rightarrow>
               if own = None then None
               else Some (client_result env (CallHistorySync (InfoForHistory leading) 50))))"

definition announce_pairing :: "event_env \<Rightarrow> handlers \<Rightarrow> (string \<times> string) list \<Rightarrow> string \<Rightarrow> task list" where
  "announce_pairing env hs eventData from =
     (if Option.bind hs wa = None then [] else [TWaMessage (system_message env (ee_now env) eventData) from])"

definition dispatchPairRequestEvent :: "event_env \<Rightarrow> handlers \<Rightarrow> string \<Rightarrow> task list" where
  "dispatchPairRequestEvent env hs phone =
     announce_pairing env hs
       [(''event'', ''pair_request''), (''status'', ''requested''), (''message'', ''Pairing code requested''),
        (''phone'', phone), (''timestamp'', ee_rfc3339 env),
        (''description'', ''User requested pairing code generation for phone number'')] ''pair_request''"

definition dispatchPairTimeoutEvent :: "event_env \<Rightarrow> handlers \<Rightarrow> string \<Rightarrow> string \<Rightarrow> task list" where
  "dispatchPairTimeoutEvent env hs phone errorMsg =
     (let expired = (Contains (ToLower errorMsg) ''timeout'' \<or> Contains (ToLower errorMsg) ''expired'')
      in announce_pairing env hs
       [(''event'', ''pair_timeout''), (''status'', if expired then ''expired'' else ''error''),
        (''message'', if expired then ''Pairing code expired without being used'' else ''Pairing code failed''),
        (''phone'', phone), (''error'', errorMsg), (''timestamp'', ee_rfc3339 env),
        (''description'', if expired
           then ''Pairing code was not used within the allowed time period and has expired''
           else ''Pairing process failed with error'')] ''pair_timeout'')"

definition own_user :: "wm_client \<Rightarrow> string" where
  "own_user c = (case Option.bind (Store c) ID_User of None \<Rightarrow> [] | Some user \<Rightarrow> user)"

definition dispatchQRRequestEvent :: "event_env \<Rightarrow> wm_client \<Rightarrow> handlers \<Rightarrow> task list" where
  "dispatchQRRequestEvent env c hs =
     announce_pairing env hs
       [(''event'', ''qr_request''), (''status'', ''requested''), (''message'', ''QR code scan requested''),
        (''phone'', own_user c), (''timestamp'', ee_rfc3339 env),
        (''description'', ''User requested QR code generation for WhatsApp pairing'')] ''qr_request''"

definition dispatchQRTimeoutEvent :: "event_env \<Rightarrow> wm_client \<Rightarrow> handlers \<Rightarrow> task list" where
  "dispatchQRTimeoutEvent env c hs =
     announce_pairing env hs
       [(''event'', ''qr_timeout''), (''status'', ''expired''), (''message'', ''QR code expired without being scanned''),
        (''phone'', own_user c), (''timestamp'', ee_rfc3339 env),
        (''description'', ''QR code was not scanned within the allowed time period and has expired'')] ''qr_timeout''"

text \<open>
  What pairing asks of the client: the error of connecting, the code and error of pairing by phone, and
  the events of the QR channel up to its closing, or the error of opening it.
\<close>

record pairing_env =
  pr_event :: event_env
  pr_connect :: "string option"
  pr_pair :: "string \<times> string option"
  pr_qr :: "string + (string \<times> string) list"

definition ensure_connected :: "pairing_env \<Rightarrow> wm_client \<Rightarrow> string option" where
  "ensure_connected env c = (if \<not> cl_IsConnected c then pr_connect env else None)"

definition PairPhone ::
    "pairing_env \<Rightarrow> wm_client \<Rightarrow> handlers \<Rightarrow> string \<Rightarrow> task list \<times> client_call list \<times> string \<times> string option" where
  "PairPhone env c hs phone =
     (let requested = dispatchPairRequestEvent (pr_event env) hs phone
      in case ensure_connected env c of
           Some err \<Rightarrow> (requested, [], [], Some err)
         | None \<Rightarrow>
             (case pr_pair env of
                (code, None) \<Rightarrow> (requested, [CallPairPhone phone], code, None)
              | (code, Some err) \<Rightarrow>
                  (requested @ dispatchPairTimeoutEvent (pr_event env) hs phone err, [CallPairPhone phone], code, Some err)))"

definition GetWhatsAppQRCode :: "pairing_env \<Rightarrow> wm_client \<Rightarrow> handlers \<Rightarrow> task list \<times> string" where
  "GetWhatsAppQRCode env c hs =
     (let requested = dispatchQRRequestEvent (pr_event env) c hs
      in case pr_qr env of
           Inl _ \<Rightarrow> (requested, [])
         | Inr events \<Rightarrow>
             if ensure_connected env c \<noteq> None then (requested, [])
             else (case events of
                 [] \<Rightarrow> (requested, [])
               | (event, code) # _ \<Rightarrow>
                   if event = ''code'' then (requested, code)
                   else if event = ''timeout''
                   then (requested @ dispatchQRTimeoutEvent (pr_event env) c hs, [])
                   else (requested, [])))"

text \<open>
  \<open>writable n\<close> tells whether the output still takes the \<open>n\<close>th code; writing to a closed channel panics, and
  \<open>TryUpdateChannel\<close> recovers. A loop that ends because the client closes its channel leaves the wait
  group at one, and the function blocks for good.
\<close>

datatype qr_end = QrReturns | QrError string | QrTimeout | QrRefused | QrBlocked

fun qr_loop :: "(nat \<Rightarrow> bool) \<Rightarrow> nat \<Rightarrow> (string \<times> string) list \<Rightarrow> string list \<times> qr_end" where
  "qr_loop writable n [] = ([], QrBlocked)"
| "qr_loop writable n ((event, code) # events) =
     (if event = ''code'' then
        (if writable n then (case qr_loop writable (Suc n) events of (codes, r) \<Rightarrow> (code # codes, r))
         else ([], QrRefused))
      else if event = ''timeout'' then ([], QrTimeout)
      else ([], QrReturns))"

definition GetWhatsAppQRChannel ::
    "pairing_env \<Rightarrow> wm_client \<Rightarrow> handlers \<Rightarrow> (nat \<Rightarrow> bool) \<Rightarrow> task list \<times> string list \<times> qr_end" where
  "GetWhatsAppQRChannel env c hs writable =
     (case pr_qr env of
        Inl err \<Rightarrow> ([], [], QrError err)
      | Inr events \<Rightarrow>
          (case ensure_connected env c of
             Some err \<Rightarrow> ([], [], QrError err)
           | None \<Rightarrow>
               (case qr_loop writable 0 events of
                  (codes, r) \<Rightarrow>
                    (if r = QrTimeout then dispatchQRTimeoutEvent (pr_event env) c hs else [], codes, r))))"

text \<open>\<open>PairedCallBack\<close>: reconnection is turned on, and the server's callback is started with the new id.\<close>

definition PairedCallBack ::
    "(JID \<Rightarrow> string) \<Rightarrow> bool \<Rightarrow> WhatsmeowConnection \<Rightarrow> JID \<Rightarrow> WhatsmeowConnection \<times> string list \<times> bool" where
  "PairedCallBack print paired source jid =
     (source\<lparr>Client := map_option (\<lambda>c. c\<lparr>EnableAutoReconnect := True\<rparr>) (Client source)\<rparr>,
      if paired then [print jid] else [], True)"

definition AutoReconnectHook :: "WhatsmeowConnection option \<Rightarrow> bool" where
  "AutoReconnectHook source \<longleftrightarrow> source \<noteq> None"

section \<open>What the handlers keep while a message is sent\<close>

definition pruned :: "handlers \<Rightarrow> handlers \<Rightarrow> bool" where
  "pruned hs hs' \<longleftrightarrow>
     hs' = hs \<or>
     (\<exists>st server cache. hs = Some st \<and> wa st = Some server
        \<and> hs' = Some (st\<lparr>wa := Some (server\<lparr>msg_handler := (msg_handler server)\<lparr>store := cache\<rparr>\<rparr>)\<rparr>)
        \<and> (store_ok (store (msg_handler server)) \<longrightarrow> store_ok cache))"

lemma pruned_refl [simp]: "pruned hs hs"
  by (simp add: pruned_def)

lemma pruned_handlers:
  assumes "pruned (Some st) hs'" "wa st = Some server" "handler_ok (msg_handler server)"
  shows "\<exists>st' server'. hs' = Some st' \<and> wa st' = Some server' \<and> wh st' = wh st \<and> handler_ok (msg_handler server')"
  using assms by (auto simp: pruned_def handler_ok_def)

lemma handlers_GetById_pruned: "handlers_GetById env hs i = Some (hs', m) \<Longrightarrow> pruned hs hs'"
  by (auto simp: handlers_GetById_def pruned_def dest: GetById_spec(1) split: option.splits prod.splits)
     (metis GetById_spec(1) fst_conv)

lemma GetInReply_pruned: "GetInReplyContextInfo env hs msg = Some (hs', ci) \<Longrightarrow> pruned hs hs'"
  by (auto simp: GetInReplyContextInfo_def Let_def split: option.splits prod.splits dest!: handlers_GetById_pruned)

lemma GetContextInfo_pruned: "GetContextInfo env hs msg = Some (hs', ci) \<Longrightarrow> pruned hs hs'"
  by (auto simp: GetContextInfo_def Let_def split: option.splits prod.splits if_splits dest!: GetInReply_pruned)

lemma send_contact_pruned: "send_contact env hs msg contact = Some (hs', m) \<Longrightarrow> pruned hs hs'"
  by (auto simp: send_contact_def Let_def split: if_splits dest!: GetContextInfo_pruned)

lemma send_location_pruned: "send_location env hs msg attach = Some (hs', m) \<Longrightarrow> pruned hs hs'"
  by (auto simp: send_location_def Let_def split: if_splits dest!: GetContextInfo_pruned)

lemma send_text_pruned: "send_text env hs msg = Some (hs', msg', m) \<Longrightarrow> pruned hs hs'"
  by (auto simp: send_text_def split: if_splits option.splits prod.splits dest!: GetContextInfo_pruned)

lemma UploadAttachment_pruned: "UploadAttachment env hs msg = Some (hs', calls, r) \<Longrightarrow> pruned hs hs'"
  by (auto simp: UploadAttachment_def Let_def split: if_splits option.splits sum.splits dest!: GetInReply_pruned)

lemmas part_pruned = send_contact_pruned send_location_pruned send_text_pruned UploadAttachment_pruned

text \<open>A message is made in one of four ways.\<close>

lemma new_message_cases:
  obtains (contact) contact where "MsgType msg = ContactMessageType" "Contact msg = Some contact"
      "new_message env hs msg = map_option (\<lambda>(hs, m). (hs, [], msg, Inr m)) (send_contact env hs msg contact)"
  | (plain) "MsgType msg \<noteq> ContactMessageType \<or> Contact msg = None" "\<not> HasAttachment msg"
      "new_message env hs msg = map_option (\<lambda>(hs, msg, m). (hs, [], msg, Inr m)) (send_text env hs msg)"
  | (location) attach where "MsgType msg = LocationMessageType" "Attachment msg = Some attach" "HasAttachment msg"
      "new_message env hs msg = map_option (\<lambda>(hs, m). (hs, [], msg, Inr m)) (send_location env hs msg attach)"
  | (media) attach where "MsgType msg \<noteq> ContactMessageType \<or> Contact msg = None" "MsgType msg \<noteq> LocationMessageType"
      "Attachment msg = Some attach" "HasAttachment msg"
      "new_message env hs msg = map_option (\<lambda>(hs, calls, r). (hs, calls, msg, r)) (UploadAttachment env hs msg)"
proof (cases "MsgType msg = ContactMessageType \<and> Contact msg \<noteq> None")
  case True
  then obtain contact where c: "MsgType msg = ContactMessageType" "Contact msg = Some contact" by auto
  then show ?thesis by (intro that(1) [OF c]) (simp add: new_message_def)
next
  case False
  then have n: "new_message env hs msg =
      (if \<not> HasAttachment msg then
            map_option (\<lambda>(hs, msg, m). (hs, [], msg, Inr m)) (send_text env hs msg)
          else if MsgType msg = LocationMessageType then
            map_option (\<lambda>(hs, m). (hs, [], msg, Inr m)) (send_location env hs msg (the (Attachment msg)))
          else map_option (\<lambda>(hs, calls, r). (hs, calls, msg, r)) (UploadAttachment env hs msg))"
    unfolding new_message_def by (cases "MsgType msg"; cases "Contact msg") simp_all
  show ?thesis
  proof (cases "HasAttachment msg")
    case h: True
    then obtain attach where a: "Attachment msg = Some attach"
      by (auto simp: HasAttachment_def split: option.splits)
    show ?thesis
    proof (cases "MsgType msg = LocationMessageType")
      case True
      show ?thesis by (rule that(3) [OF True a h]) (simp add: n True h a)
    next
      case l: False
      show ?thesis by (rule that(4) [OF _ l a h]) (use False in \<open>auto simp: n l h\<close>)
    qed
  next
    case h: False
    show ?thesis by (rule that(2) [OF _ h]) (use False in \<open>auto simp: n h\<close>)
  qed
qed

lemma new_message_pruned: "new_message env hs msg = Some (hs', calls, msg', r) \<Longrightarrow> pruned hs hs'"
  by (cases rule: new_message_cases [of msg env hs]) (auto dest: part_pruned)

lemma GeneratePollMessage_keeps:
  "GeneratePollMessage secret msg = Some (msg', poll) \<Longrightarrow> \<exists>p. msg' = msg\<lparr>Poll := Some p\<rparr>"
  by (auto simp: GeneratePollMessage_def Let_def split: option.splits)

lemma same_poll: "\<exists>p. msg = msg\<lparr>Poll := p\<rparr>"
  by (rule exI [of _ "Poll msg"]) simp

lemma send_text_keeps: "send_text env hs msg = Some (hs', msg', m) \<Longrightarrow> \<exists>p. msg' = msg\<lparr>Poll := p\<rparr>"
  by (auto simp: send_text_def split: if_splits option.splits prod.splits intro: same_poll dest!: GeneratePollMessage_keeps)

lemma new_message_keeps:
  "new_message env hs msg = Some (hs', calls, msg', r) \<Longrightarrow> \<exists>p. msg' = msg\<lparr>Poll := p\<rparr>"
  by (cases rule: new_message_cases [of msg env hs]) (auto intro: same_poll dest: send_text_keeps)

lemma Send_eq:
  assumes "isASCII (formattedDestination msg)" "sn_parse env (formattedDestination msg) = Inr jid"
    and "new_message env hs msg = Some (hs1, c0, msg1, Inr m)"
  shows "Send env hs msg =
     (let sent = stamped env m msg1; calls = c0 @ [CallSend jid m (Msg_Id sent)]
      in case sn_send env jid m (Msg_Id sent) of
           Inl e \<Rightarrow> Some (hs1, calls, [], sent, Some (ClientFailed e))
         | Inr resp \<Rightarrow>
             (case WH_HandleReadUpdate (map_option wh hs1) of
                None \<Rightarrow> None
              | Some readUpdate \<Rightarrow> Some (hs1, calls,
                  if readUpdate then [TMarkRead (sent\<lparr>Timestamp := Some (sr_Timestamp resp)\<rparr>)] else [],
                  sent\<lparr>Timestamp := Some (sr_Timestamp resp)\<rparr>, None)))"
  using assms by (simp add: Send_def Let_def del: stamped_sel cong: sum.case_cong option.case_cong)

lemma Send_sent:
  assumes "Send env hs msg = Some (hs', calls, ts, msg', None)"
  obtains jid c0 m p resp where "sn_parse env (formattedDestination msg) = Inr jid"
    "new_message env hs msg = Some (hs', c0, msg\<lparr>Poll := p\<rparr>, Inr m)"
    "calls = c0 @ [CallSend jid m (Msg_Id msg')]"
    "msg' = (stamped env m (msg\<lparr>Poll := p\<rparr>))\<lparr>Timestamp := Some (sr_Timestamp resp)\<rparr>"
    "sn_send env jid m (Msg_Id msg') = Inr resp"
proof -
  obtain jid where jid: "sn_parse env (formattedDestination msg) = Inr jid" and a: "isASCII (formattedDestination msg)"
    using assms by (auto simp: Send_def split: if_splits sum.splits)
  obtain hs1 c0 msg1 r where n: "new_message env hs msg = Some (hs1, c0, msg1, r)"
    using assms jid a by (cases "new_message env hs msg") (auto simp: Send_def)
  obtain p where p: "msg1 = msg\<lparr>Poll := p\<rparr>" using new_message_keeps [OF n] by blast
  obtain m where r: "r = Inr m" using assms jid a n by (cases r) (auto simp: Send_def)
  let ?m = "stamped env m msg1"
  note send = assms [unfolded Send_eq [OF a jid n [unfolded r]] Let_def]
  obtain resp where resp: "sn_send env jid m (Msg_Id ?m) = Inr resp"
    using send by (cases "sn_send env jid m (Msg_Id ?m)") (simp_all del: stamped_sel)
  have e: "hs' = hs1" "calls = c0 @ [CallSend jid m (Msg_Id ?m)]"
    "msg' = ?m\<lparr>Timestamp := Some (sr_Timestamp resp)\<rparr>"
    using send unfolding resp by (auto simp del: stamped_sel split: option.splits)
  show ?thesis
    using that [OF jid, of c0 p m resp] n r resp e p by simp
qed


section \<open>The context of what is sent\<close>

definition cached_reply :: "event_env \<Rightarrow> QpWhatsappServer \<Rightarrow> WhatsappMessage \<Rightarrow> WhatsappMessage option" where
  "cached_reply env server msg =
     live (env_now (he_store (ee_handler env))) (messages (store (msg_handler server))) (ToUpper (InReply msg))"

text \<open>Who wrote the message replied to: its sender in a group, its chat elsewhere.\<close>

definition reply_author :: "WhatsappMessage \<Rightarrow> WhatsappMessage option \<Rightarrow> string option" where
  "reply_author msg cached =
     (case Option.bind cached InfoForHistory of
        None \<Rightarrow> None
      | Some i \<Rightarrow>
          if mi_ID i = [] then None
          else Some (let jid = (if FromGroup msg then mi_Sender i else mi_Chat i) in jid_User jid @ ''@'' @ jid_Server jid))"

lemma handlers_GetById_answer:
  assumes "wa st = Some server" "store_ok (store (msg_handler server))"
  shows "\<exists>hs'. handlers_GetById env (Some st) i = Some (hs',
     live (env_now (he_store (ee_handler env))) (messages (store (msg_handler server))) (ToUpper i))"
  using assms GetById_spec(2) [OF assms(2), of "he_store (ee_handler env)" i]
  by (auto simp: handlers_GetById_def split: prod.split option.split)

lemma GetInReply_answer:
  assumes "wa st = Some server" "store_ok (store (msg_handler server))"
  shows "\<exists>hs'. GetInReplyContextInfo env (Some st) msg = Some (hs', empty_context\<lparr>StanzaID := InReply msg,
     ci_Participant := reply_author msg (cached_reply (sn_event env) server msg),
     QuotedMessage := map_option (sn_wire env)
       (Option.bind (cached_reply (sn_event env) server msg) (\<lambda>m. wa_content (Content m)))\<rparr>)"
  using handlers_GetById_answer [OF assms, of "sn_event env" "InReply msg"]
  by (auto simp: GetInReplyContextInfo_def cached_reply_def reply_author_def Let_def split: option.split)

text \<open>
  The context a text is sent with: there is one exactly for a reply and for a text that mentions
  numbers in a group. It names the message replied to, quotes its content and names its author when that
  message is still cached, mentions exactly the numbers of the text, only in groups, and turns the
  disappearing timer off.
\<close>
theorem context_of_text:
  assumes "GetContextInfo env (Some st) msg = Some (hs', ci)"
    and "wa st = Some server" "store_ok (store (msg_handler server))"
    and "cached = (if InReply msg = [] then None else cached_reply (sn_event env) server msg)"
    and "mentions = (if FromGroup msg then GetMentions (ee_parse (sn_event env)) (Text msg) else [])"
  shows "case ci of
       None \<Rightarrow> InReply msg = [] \<and> mentions = []
     | Some c \<Rightarrow> (InReply msg \<noteq> [] \<or> mentions \<noteq> []) \<and> StanzaID c = InReply msg \<and> MentionedJID c = mentions
         \<and> QuotedMessage c = map_option (sn_wire env) (Option.bind cached (\<lambda>m. wa_content (Content m)))
         \<and> ci_Participant c = reply_author msg cached \<and> ci_Expiration c = Some 0"
proof -
  obtain hs2 c where r: "GetInReplyContextInfo env (Some st) msg = Some (hs2, c)"
    "c = empty_context\<lparr>StanzaID := InReply msg,
       ci_Participant := reply_author msg (cached_reply (sn_event env) server msg),
       QuotedMessage := map_option (sn_wire env)
         (Option.bind (cached_reply (sn_event env) server msg) (\<lambda>m. wa_content (Content m)))\<rparr>"
    using GetInReply_answer [OF assms(2,3)] by metis
  show ?thesis
  proof (cases "InReply msg = []")
    case True
    then show ?thesis using assms(1,4,5)
      by (auto simp: GetContextInfo_def Let_def empty_context_def reply_author_def)
  next
    case False
    then show ?thesis using assms(1,4,5) r
      by (auto simp: GetContextInfo_def Let_def empty_context_def)
  qed
qed

definition sent_context :: "wa_message \<Rightarrow> wa_context_info option" where
  "sent_context m =
     (case (ImageMessage m, AudioMessage m, VideoMessage m, DocumentMessage m) of
        (Some x, _, _, _) \<Rightarrow> md_ContextInfo x
      | (_, Some x, _, _) \<Rightarrow> md_ContextInfo x
      | (_, _, Some x, _) \<Rightarrow> md_ContextInfo x
      | (_, _, _, Some x) \<Rightarrow> md_ContextInfo x
      | _ \<Rightarrow>
          (case (ExtendedTextMessage m, ButtonsMessage m, ContactMessage m, LocationMessage m) of
             (Some x, _, _, _) \<Rightarrow> et_ContextInfo x
           | (_, Some x, _, _) \<Rightarrow> bm_ContextInfo x
           | (_, _, Some x, _) \<Rightarrow> wc_ContextInfo x
           | (_, _, _, Some x) \<Rightarrow> wl_ContextInfo x
           | _ \<Rightarrow> None))"

lemma media_context:
  "sent_context (NewWhatsmeowMessageAttachment response msg attach media ci) = ci"
  by (cases media) (simp_all add: NewWhatsmeowMessageAttachment_def sent_context_def Let_def empty_wa_def)

lemma text_context: "sent_context (extended_text t ci) = ci"
  by (simp add: extended_text_def sent_context_def empty_wa_def)

lemma GetInReply_context:
  "GetInReplyContextInfo env hs msg = Some (hs', c) \<Longrightarrow>
     StanzaID c = InReply msg \<and> MentionedJID c = [] \<and> ci_Expiration c = None"
  by (auto simp: GetInReplyContextInfo_def Let_def empty_context_def split: option.splits prod.splits)

lemma UploadAttachment_sent:
  assumes "UploadAttachment env hs msg = Some (hs', calls, Inr m)"
  shows "calls \<noteq> [] \<and> (\<exists>c. sent_context m = Some c \<and> StanzaID c = InReply msg \<and> MentionedJID c = [] \<and> ci_Expiration c = None)"
  using assms by (auto simp: UploadAttachment_def media_context Let_def
      dest!: GetInReply_context split: option.splits if_splits sum.splits)

lemma optional_context:
  assumes "(if length (InReply msg) > 0 then map_option (\<lambda>(hs, ci). (hs, f ci)) (GetContextInfo env hs msg)
            else Some (hs, f None)) = Some (hs', m)" "\<And>ci. sent_context (f ci) = ci"
  shows "if InReply msg = [] then sent_context m = None else \<exists>h. GetContextInfo env hs msg = Some (h, sent_context m)"
  using assms by (auto split: if_splits)

lemma send_contact_sent:
  assumes "send_contact env hs msg contact = Some (hs', m)"
  shows "ContactMessage m \<noteq> None \<and> PollCreationMessage m = None"
    and "if InReply msg = [] then sent_context m = None else \<exists>h. GetContextInfo env hs msg = Some (h, sent_context m)"
proof -
  show "ContactMessage m \<noteq> None \<and> PollCreationMessage m = None"
    using assms by (auto simp: send_contact_def Let_def empty_wa_def split: if_splits)
  show "if InReply msg = [] then sent_context m = None else \<exists>h. GetContextInfo env hs msg = Some (h, sent_context m)"
    by (rule optional_context [OF assms [unfolded send_contact_def Let_def]])
       (simp add: sent_context_def empty_wa_def)
qed

lemma send_location_sent:
  assumes "send_location env hs msg attach = Some (hs', m)"
  shows "LocationMessage m \<noteq> None \<and> PollCreationMessage m = None"
    and "if InReply msg = [] then sent_context m = None else \<exists>h. GetContextInfo env hs msg = Some (h, sent_context m)"
proof -
  show "LocationMessage m \<noteq> None \<and> PollCreationMessage m = None"
    using assms by (auto simp: send_location_def Let_def empty_wa_def split: if_splits)
  show "if InReply msg = [] then sent_context m = None else \<exists>h. GetContextInfo env hs msg = Some (h, sent_context m)"
    by (rule optional_context [OF assms [unfolded send_location_def Let_def]])
       (simp add: sent_context_def empty_wa_def)
qed

lemma send_text_cases:
  assumes "send_text env hs msg = Some (hs', msg', m)"
  shows "(\<exists>poll. m = empty_wa\<lparr>PollCreationMessage := Some poll\<rparr>) \<or>
     (\<exists>b ci. m = empty_wa\<lparr>ButtonsMessage := Some (b\<lparr>bm_ContextInfo := ci\<rparr>)\<rparr> \<and> GetContextInfo env hs msg = Some (hs', ci)) \<or>
     (\<exists>ci. m = extended_text (Text msg) ci \<and> GetContextInfo env hs msg = Some (hs', ci))"
proof (cases "IsValidForButtons (Text msg)")
  case True
  then show ?thesis using assms by (auto simp: send_text_def split: option.splits)
next
  case False
  then show ?thesis using assms
    by (cases "GeneratePollMessage (sn_secret env) msg") (auto simp: send_text_def)
qed

lemma send_text_sent:
  assumes "send_text env hs msg = Some (hs', msg', m)"
  shows "ContactMessage m = None \<and> LocationMessage m = None"
    and "if PollCreationMessage m \<noteq> None then sent_context m = None
         else \<exists>h. GetContextInfo env hs msg = Some (h, sent_context m)"
proof -
  show "ContactMessage m = None \<and> LocationMessage m = None"
    using send_text_cases [OF assms] by (elim disjE exE conjE) (simp_all add: empty_wa_def extended_text_def)
  show "if PollCreationMessage m \<noteq> None then sent_context m = None
         else \<exists>h. GetContextInfo env hs msg = Some (h, sent_context m)"
    using send_text_cases [OF assms]
    by (elim disjE exE conjE) (simp_all add: empty_wa_def extended_text_def sent_context_def)
qed


section \<open>What panics, and what leaves\<close>

lemma handlers_GetById_None: "handlers_GetById env hs i = None \<longleftrightarrow> Option.bind hs wa = None"
  by (auto simp: handlers_GetById_def split: option.split prod.split)

lemma GetInReply_None: "GetInReplyContextInfo env hs msg = None \<longleftrightarrow> Option.bind hs wa = None"
  using handlers_GetById_None [of "sn_event env" hs "InReply msg"]
  by (auto simp: GetInReplyContextInfo_def Let_def split: option.splits)

lemma GetContextInfo_None: "GetContextInfo env hs msg = None \<longleftrightarrow> InReply msg \<noteq> [] \<and> Option.bind hs wa = None"
  using GetInReply_None [of env hs msg]
  by (cases "GetInReplyContextInfo env hs msg") (auto simp: GetContextInfo_def Let_def)

definition is_media :: "WhatsappMessage \<Rightarrow> bool" where
  "is_media msg \<longleftrightarrow> HasAttachment msg \<and> MsgType msg \<noteq> LocationMessageType \<and>
     (MsgType msg \<noteq> ContactMessageType \<or> Contact msg = None)"

definition is_poll :: "WhatsappMessage \<Rightarrow> bool" where
  "is_poll msg \<longleftrightarrow> \<not> HasAttachment msg \<and> (MsgType msg \<noteq> ContactMessageType \<or> Contact msg = None) \<and>
     \<not> IsValidForButtons (Text msg) \<and> Poll msg \<noteq> None"

lemma send_text_None:
  "send_text env hs msg = None \<longleftrightarrow>
     (IsValidForButtons (Text msg) \<or> Poll msg = None) \<and> InReply msg \<noteq> [] \<and> Option.bind hs wa = None"
  using valid_buttons_generate [of "Text msg"]
  by (auto simp: send_text_def GetContextInfo_None GeneratePollMessage_def Let_def split: option.splits)

lemma new_message_None:
  "new_message env hs msg = None \<longleftrightarrow>
     (if is_media msg then
        (case att_content (the (Attachment msg)) of
           None \<Rightarrow> True
         | Some content \<Rightarrow> content \<noteq> [] \<and> Option.bind hs wa = None
              \<and> \<not> isl (sn_upload env content (GetMediaTypeFromWAMsgType (MsgType msg))))
      else \<not> is_poll msg \<and> InReply msg \<noteq> [] \<and> Option.bind hs wa = None)"
proof (cases rule: new_message_cases [of msg env hs])
  case (contact c)
  then have "\<not> is_media msg" "\<not> is_poll msg" by (simp_all add: is_media_def is_poll_def)
  with contact show ?thesis by (auto simp: send_contact_def Let_def GetContextInfo_None)
next
  case plain
  then have "\<not> is_media msg" "is_poll msg \<longleftrightarrow> \<not> IsValidForButtons (Text msg) \<and> Poll msg \<noteq> None"
    by (simp_all add: is_media_def is_poll_def)
  with plain show ?thesis by (auto simp: send_text_None)
next
  case (location a)
  then have "\<not> is_media msg" "\<not> is_poll msg" by (simp_all add: is_media_def is_poll_def)
  with location show ?thesis by (auto simp: send_location_def Let_def GetContextInfo_None)
next
  case (media a)
  then have "is_media msg" by (auto simp: is_media_def)
  with media show ?thesis
    by (auto simp: UploadAttachment_def Let_def GetInReply_None isl_def split: option.splits sum.splits)
qed

text \<open>
  C9. When sending panics. Given valid options, a request to an accepted recipient panics exactly when it is
  a medium without content, or when its context is looked up, which media always do and other messages
  but polls do for a reply, while the connection has no handlers or they have no server. Everything else
  that goes wrong is an error.
\<close>
theorem send_panics_iff:
  assumes "\<forall>st. hs = Some st \<longrightarrow> WH_HandleReadUpdate (Some (wh st)) \<noteq> None"
    and "isASCII (formattedDestination msg)" "sn_parse env (formattedDestination msg) = Inr jid"
  shows "Send env hs msg = None \<longleftrightarrow>
     (if is_media msg then
        (case att_content (the (Attachment msg)) of
           None \<Rightarrow> True
         | Some content \<Rightarrow> content \<noteq> [] \<and> Option.bind hs wa = None
              \<and> \<not> isl (sn_upload env content (GetMediaTypeFromWAMsgType (MsgType msg))))
      else \<not> is_poll msg \<and> InReply msg \<noteq> [] \<and> Option.bind hs wa = None)"
proof -
  have "Send env hs msg = None \<longleftrightarrow> new_message env hs msg = None"
  proof (cases "new_message env hs msg")
    case (Some r)
    obtain hs1 c0 msg1 q where r: "r = (hs1, c0, msg1, q)" by (metis prod_cases4)
    have p: "pruned hs hs1" using new_message_pruned [OF Some [unfolded r]] .
    have "WH_HandleReadUpdate (map_option wh hs1) \<noteq> None"
    proof (cases hs)
      case None
      then have "hs1 = None" using p by (auto simp: pruned_def)
      then show ?thesis by (simp add: WH_HandleReadUpdate_def)
    next
      case (Some st)
      then obtain st1 where "hs1 = Some st1" "wh st1 = wh st" using p by (auto simp: pruned_def)
      moreover have "WH_HandleReadUpdate (Some (wh st)) \<noteq> None" using assms(1) Some by blast
      ultimately show ?thesis by simp
    qed
    then obtain readUpdate where u: "WH_HandleReadUpdate (map_option wh hs1) = Some readUpdate" by blast
    show ?thesis
    proof (cases q)
      case (Inr m)
      have n: "new_message env hs msg = Some (hs1, c0, msg1, Inr m)" using Some r Inr by simp
      show ?thesis unfolding Send_eq [OF assms(2,3) n] Let_def
        using n by (auto simp: u split: sum.split)
    qed (simp add: Send_def assms(2,3) Some r)
  qed (simp add: Send_def assms(2,3))
  then show ?thesis by (simp add: new_message_None)
qed

definition is_send :: "client_call \<Rightarrow> bool" where
  "is_send call \<longleftrightarrow> (case call of CallSend _ _ _ \<Rightarrow> True | _ \<Rightarrow> False)"

lemma new_message_calls:
  "new_message env hs msg = Some (hs', calls, msg', r) \<Longrightarrow> \<forall>call\<in>set calls. \<not> is_send call"
  by (cases rule: new_message_cases [of msg env hs])
     (auto simp: UploadAttachment_def Let_def is_send_def split: option.splits if_splits sum.splits)

lemma Send_sent_calls:
  assumes "Send env hs msg = Some (hs', calls, ts, msg', err)" "isASCII (formattedDestination msg)"
    "sn_parse env (formattedDestination msg) = Inr jid" "new_message env hs msg = Some (hs1, c0, msg1, Inr m)"
  shows "calls = c0 @ [CallSend jid m (Msg_Id msg')] \<and> Msg_Id msg' = Msg_Id (stamped env m msg1) \<and>
    (err = None \<longleftrightarrow> \<not> isl (sn_send env jid m (Msg_Id msg')))"
proof -
  let ?m = "stamped env m msg1"
  note send = assms(1) [unfolded Send_eq [OF assms(2-4)] Let_def]
  have "calls = c0 @ [CallSend jid m (Msg_Id ?m)] \<and> Msg_Id msg' = Msg_Id ?m \<and> (err = None \<longleftrightarrow> \<not> isl (sn_send env jid m (Msg_Id ?m)))"
  proof (cases "sn_send env jid m (Msg_Id ?m)")
    case (Inl e)
    then show ?thesis using send by (auto simp del: stamped_sel)
  next
    case (Inr resp)
    then show ?thesis using send by (cases "WH_HandleReadUpdate (map_option wh hs1)") (auto simp del: stamped_sel)
  qed
  then show ?thesis by (simp del: stamped_sel)
qed


section \<open>Downloads and QR codes\<close>

text \<open>
  A download that may use the cache asks the client once: after it succeeded, the message holds the
  content, and downloading again returns the same attachment whatever the client would answer. A download
  that must not use the cache leaves the message as it was.
\<close>
theorem download_once:
  assumes "Download env msg cache = (msg', Inr att)"
  shows "att_content att \<noteq> None \<and>
     (if cache then Download env' msg' True = (msg', Inr att) \<and> Attachment msg' = Some att else msg' = msg)"
  using assms by (auto simp: Download_def Let_def split: option.splits if_splits sum.splits)

lemma qr_loop_blocked:
  "snd (qr_loop writable n events) = QrBlocked \<longleftrightarrow>
     list_all (\<lambda>e. fst e = ''code'') events \<and> (\<forall>k<length events. writable (n + k))"
proof (induction events arbitrary: n)
  case (Cons e events)
  obtain event code where e: "e = (event, code)" by force
  have all: "(\<forall>k<Suc (length events). writable (n + k)) \<longleftrightarrow> writable n \<and> (\<forall>k<length events. writable (Suc n + k))"
    by (auto simp: less_Suc_eq_0_disj)
  show ?case using Cons [of "Suc n"] by (auto simp: e all split: prod.split)
qed simp

lemma qr_loop_codes:
  "snd (qr_loop writable n events) = QrBlocked \<Longrightarrow> fst (qr_loop writable n events) = map snd events"
  by (induction events arbitrary: n) (auto simp: case_prod_unfold split: if_splits)

text \<open>
  C12. The QR channel returns only on an event that is not a code, or on an output that refuses a code. When
  the client closes its channel after nothing but codes it has written all of them and blocks
  for ever.
\<close>
theorem qr_channel_blocks_iff:
  "snd (snd (GetWhatsAppQRChannel env c hs writable)) = QrBlocked \<longleftrightarrow>
     (case pr_qr env of
        Inl _ \<Rightarrow> False
      | Inr events \<Rightarrow> ensure_connected env c = None \<and> list_all (\<lambda>e. fst e = ''code'') events
          \<and> list_all writable [0..<length events]
          \<and> fst (snd (GetWhatsAppQRChannel env c hs writable)) = map snd events)"
proof (cases "pr_qr env")
  case (Inr events)
  show ?thesis
  proof (cases "ensure_connected env c")
    case None
    then show ?thesis
      using Inr qr_loop_blocked [of writable 0 events] qr_loop_codes [of writable 0 events]
      by (auto simp: GetWhatsAppQRChannel_def case_prod_unfold list_all_iff)
  qed (simp add: GetWhatsAppQRChannel_def Inr)
qed (simp add: GetWhatsAppQRChannel_def)

section \<open>Examples\<close>

definition sample_jid :: JID where
  "sample_jid = \<lparr>jid_User = ''5511999999999'', jid_Device = 0, jid_Server = ''s.whatsapp.net''\<rparr>"

definition sample_sending_env :: sending_env where
  "sample_sending_env = \<lparr>sn_event = sample_event_env, sn_parse = (\<lambda>_. Inr sample_jid),
     sn_upload = (\<lambda>content _. Inr \<lparr>up_FileLength = word_of_nat (length content), up_other = ''url''\<rparr>),
     sn_send = (\<lambda>_ _ i. Inr \<lparr>sr_Timestamp = 200, sr_ID = i\<rparr>), sn_download = (\<lambda>_. Inr ''data''),
     sn_secret = [1, 2], sn_wire = (\<lambda>m. Conversation m), sn_user_info = (\<lambda>_. None), sn_control = None\<rparr>"

definition sample_request :: WhatsappMessage where
  "sample_request = empty_message\<lparr>MsgType := TextMessageType, Text := ''hello'',
     Chat := empty_chat\<lparr>Chat_Id := ''5511999999999@s.whatsapp.net''\<rparr>\<rparr>"

lemma sample_destination: "formattedDestination sample_request = ''5511999999999@s.whatsapp.net''"
  by code_simp

lemma sample_new: "new_message sample_sending_env (Some sample_event_state) sample_request =
    Some (Some sample_event_state, [], sample_request, Inr (extended_text ''hello'' None))"
  by (simp add: new_message_def sample_request_def HasAttachment_def send_text_def IsValidForButtons_def
      ToLower_def lower_char_def less_eq_char_def HasPrefix_def GeneratePollMessage_def GetContextInfo_def
      FromGroup_def HasSuffix_def GROUP_SUFFIX_def WHATSAPP_SERVERDOMAIN_GROUP_def empty_chat_def empty_message_def)

lemma sample_sent: "Send sample_sending_env (Some sample_event_state) sample_request =
    Some (Some sample_event_state, [CallSend sample_jid (extended_text ''hello'' None) ''ID''], [],
      (stamped sample_sending_env (extended_text ''hello'' None) sample_request)\<lparr>Timestamp := Some 200\<rparr>, None)"
proof -
  have a: "isASCII (formattedDestination sample_request)" unfolding sample_destination by code_simp
  have j: "sn_parse sample_sending_env (formattedDestination sample_request) = Inr sample_jid"
    by (simp add: sample_sending_env_def)
  have u: "WH_HandleReadUpdate (map_option wh (Some sample_event_state)) = Some False" by code_simp
  have i: "Msg_Id (stamped sample_sending_env m sample_request) = ''ID''" for m
    by (simp add: sample_sending_env_def sample_event_env_def sample_request_def empty_message_def)
  show ?thesis unfolding Send_eq [OF a j sample_new] Let_def i u
    by (simp add: sample_sending_env_def)
qed


theorem send_panics_iff_witness:
  "Send sample_sending_env None (sample_request\<lparr>InReply := ''X''\<rparr>) = None"
proof -
  let ?m = "sample_request\<lparr>InReply := ''X''\<rparr>"
  have d: "formattedDestination ?m = ''5511999999999@s.whatsapp.net''" by code_simp
  have "isASCII (formattedDestination ?m)" unfolding d by code_simp
  moreover have "\<not> is_media ?m" "\<not> is_poll ?m" by code_simp+
  ultimately show ?thesis
    using send_panics_iff [of None ?m sample_sending_env sample_jid]
    by (simp add: sample_sending_env_def)
qed


theorem context_of_text_witness:
  "\<exists>hs' c. GetContextInfo sample_sending_env (Some sample_event_state) (sample_request\<lparr>InReply := ''X''\<rparr>) = Some (hs', Some c)
     \<and> StanzaID c = ''X'' \<and> MentionedJID c = []"
proof -
  let ?m = "sample_request\<lparr>InReply := ''X''\<rparr>"
  have s: "wa sample_event_state = Some sample_server" "store_ok (store (msg_handler sample_server))"
    using sample_server_ok by (simp_all add: sample_event_state_def handler_ok_def)
  obtain hs' ci where c: "GetContextInfo sample_sending_env (Some sample_event_state) ?m = Some (hs', ci)"
    using GetContextInfo_None [of sample_sending_env "Some sample_event_state" ?m] s(1)
    by (cases "GetContextInfo sample_sending_env (Some sample_event_state) ?m") auto
  have "\<not> FromGroup ?m" by code_simp
  then show ?thesis using context_of_text [OF c s refl refl] c by (cases ci) auto
qed


theorem download_once_witness:
  "\<exists>m' att. Download sample_sending_env (empty_message\<lparr>Content := WaMessage (empty_wa\<lparr>ImageMessage := Some empty_media\<rparr>),
     Attachment := Some empty_attachment\<rparr>) True = (m', Inr att) \<and> att_content att = Some ''data'' \<and> Attachment m' = Some att"
proof -
  let ?m = "empty_message\<lparr>Content := WaMessage (empty_wa\<lparr>ImageMessage := Some empty_media\<rparr>), Attachment := Some empty_attachment\<rparr>"
  have d: "Download sample_sending_env ?m True = (?m\<lparr>Attachment := Some (empty_attachment\<lparr>att_content := Some ''data''\<rparr>)\<rparr>,
      Inr (empty_attachment\<lparr>att_content := Some ''data''\<rparr>))"
  proof -
    have "DownloadData sample_sending_env ?m = Inr ''data''"
      by (simp add: DownloadData_def wa_content_def GetDownloadableMessage_def sample_sending_env_def)
    moreover have "att_content empty_attachment = None" by (simp add: empty_attachment_def)
    ultimately show ?thesis by (simp add: Download_def Let_def)
  qed
  show ?thesis using download_once [OF d] d by auto
qed

end
