(* ===== verification/Service.thy ===== *)
theory Service
  imports Lifecycle
begin

text \<open>
  The service that keeps all servers, \<open>src/models/qp_whatsapp_service.go\<close>, the pairing of a device with a
  server, \<open>qp_whatsapp_pairing.go\<close>, and the accounts, \<open>qp_data_user_sql.go\<close> and \<open>seed.go\<close>. The registry is
  the Go map from tokens to servers, over the world of \<open>Lifecycle\<close>; a server found in it is the one in it,
  so changing it writes it back. New tokens, the hash of passwords, the database's answers and the order in
  which a map is visited are the fields of \<open>service_env\<close>.
\<close>

section \<open>The service and its servers\<close>

record QpUser =
  Username :: string
  Password :: string

record QPWhatsappService =
  Servers :: "(string \<times> QpWhatsappServer) list"
  Initialized :: bool
  svc_world :: life_world
  svc_dispatchings :: "(string \<times> QpDataDispatching) list"
  svc_users :: "QpUser list"

text \<open>
  The dispatchings in memory are embedded in the server; here they stand beside it, under the same token.
  \<open>sv_find\<close> is whether the row of a server can be read, \<open>sv_fill\<close> whether its dispatchings can, and
  \<open>sv_order\<close> the order in which a map is visited.
\<close>

record service_env =
  sv_life :: life_env
  sv_uuid :: string
  sv_find :: bool
  sv_fill :: bool
  sv_codec :: extra_codec
  sv_order :: "(string \<times> QpWhatsappServer) list \<Rightarrow> (string \<times> QpWhatsappServer) list"

datatype service_error = ServerNotFound | ExistsFailed | FindFailed | ServiceError server_error

definition NewQpWhatsappServer :: "time \<Rightarrow> QpServer \<Rightarrow> QpWhatsappServer" where
  "NewQpWhatsappServer startTime info =
     QpServer.extend info \<lparr>Reconnect = True, connection = None,
       Timestamps = \<lparr>ts_Message = None, ts_Event = None, ts_Start = Some startTime, ts_Update = None\<rparr>,
       msg_handler = \<lparr>store = empty_store, aeh = []\<rparr>, StopRequested = False\<rparr>"

definition put_server :: "QPWhatsappService \<Rightarrow> string \<Rightarrow> QpWhatsappServer \<Rightarrow> QPWhatsappService" where
  "put_server source key server = source\<lparr>Servers := AList.update key server (Servers source)\<rparr>"

definition fill_dispatching :: "service_env \<Rightarrow> QpServer \<Rightarrow> QPWhatsappService \<Rightarrow> QPWhatsappService" where
  "fill_dispatching env info source = source\<lparr>svc_dispatchings := AList.update (Token info)
     (fst (DispatchingFill (sv_codec env) (sv_fill env) (dw_table (life_dispatch (svc_world source)))
       (Token info) (Wid info) \<lparr>Dispatchings = [], dd_context = []\<rparr>)) (svc_dispatchings source)\<rparr>"

definition AppendNewServer ::
    "service_env \<Rightarrow> QPWhatsappService \<Rightarrow> QpServer \<Rightarrow> QPWhatsappService \<times> QpWhatsappServer" where
  "AppendNewServer env source info =
     (case map_of (Servers source) (Token info) of
        None \<Rightarrow>
          let server = NewQpWhatsappServer (le_now (sv_life env)) info
          in (put_server (fill_dispatching env info source) (Token info) server, server)
      | Some server \<Rightarrow>
          let server = QpServer.extend info (QpServer.more server)
          in (put_server source (Token info) server, server))"

definition new_info :: "string \<Rightarrow> string \<Rightarrow> string \<Rightarrow> QpServer" where
  "new_info token user wid = \<lparr>Groups = UnSetBooleanType, Broadcasts = UnSetBooleanType,
     ReadReceipts = UnSetBooleanType, Calls = UnSetBooleanType, ReadUpdate = UnSetBooleanType,
     Token = token, Wid = wid, Verified = False, Devel = False, User = user, srv_Timestamp = None\<rparr>"

definition GetOrCreateServerFromToken ::
    "service_env \<Rightarrow> QPWhatsappService \<Rightarrow> string \<Rightarrow> QPWhatsappService \<times> (service_error + QpWhatsappServer)" where
  "GetOrCreateServerFromToken env source token =
     (case map_of (Servers source) token of
        Some server \<Rightarrow> (source, Inr server)
      | None \<Rightarrow>
          (case Server_Exists (le_db_ok (sv_life env)) (servers_table (svc_world source)) token of
             Inl _ \<Rightarrow> (source, Inl ExistsFailed)
           | Inr found \<Rightarrow>
               (case (if found
                      then (if sv_find env then find (\<lambda>row. Token row = token) (servers_table (svc_world source)) else None)
                      else Some (new_info token [] [])) of
                  None \<Rightarrow> (source, Inl FindFailed)
                | Some info \<Rightarrow> (case AppendNewServer env source info of (source, server) \<Rightarrow> (source, Inr server)))))"

definition GetServersForUser ::
    "service_env \<Rightarrow> QPWhatsappService \<Rightarrow> string \<Rightarrow> (string \<times> QpWhatsappServer) list" where
  "GetServersForUser env service username =
     foldl (\<lambda>servers (key, server). if User server = username
                                    then AList.update (ToLower (Token server)) server servers else servers)
       [] (sv_order env (Servers service))"

definition GetNumber :: "QpWhatsappServer \<Rightarrow> string" where
  "GetNumber server = GetPhoneByWId (Wid server)"

definition GetOrCreateServer ::
    "service_env \<Rightarrow> QPWhatsappService \<Rightarrow> string \<Rightarrow> string \<Rightarrow> QPWhatsappService \<times> QpWhatsappServer" where
  "GetOrCreateServer env service user wid =
     (case find (\<lambda>item. GetNumber (snd item) = GetPhoneByWId wid) (sv_order env (GetServersForUser env service user)) of
        Some (_, item) \<Rightarrow>
          let server = item\<lparr>Wid := wid\<rparr> in (put_server service (Token server) server, server)
      | None \<Rightarrow> AppendNewServer env service (new_info (sv_uuid env) user wid))"

text \<open>Deletion of a server of the registry; the arguments are those of the server's own deletion.\<close>

definition Service_Delete ::
    "service_env \<Rightarrow> string option \<Rightarrow> string option \<Rightarrow> bool \<Rightarrow> QPWhatsappService \<Rightarrow> QpWhatsappServer \<Rightarrow>
     QPWhatsappService \<times> service_error option" where
  "Service_Delete env logout store_delete clear_ok service server =
     (case Server_Delete (sv_life env) logout store_delete clear_ok (svc_world service) server of
        (w, server, Some err) \<Rightarrow>
          (put_server (service\<lparr>svc_world := w\<rparr>) (Token server) server, Some (ServiceError err))
      | (w, server, None) \<Rightarrow>
          (service\<lparr>svc_world := w, Servers := AList.delete (Token server) (Servers service),
            svc_dispatchings := AList.delete (Token server) (svc_dispatchings service)\<rparr>, None))"

text \<open>
  Every row of the table gets a server; a table that cannot be read has none, without an error. The second result are the tokens of the servers that are started.
\<close>

definition load_server ::
    "service_env \<Rightarrow> QPWhatsappService \<times> string list \<Rightarrow> QpServer \<Rightarrow> QPWhatsappService \<times> string list" where
  "load_server env acc info =
     (case AppendNewServer env (fst acc) info of
        (source, server) \<Rightarrow>
          let state = GetState server
          in (source, if state = UnPrepared \<or> IsValidToStart state then snd acc @ [Token server] else snd acc))"

definition Service_Initialize :: "service_env \<Rightarrow> QPWhatsappService \<Rightarrow> QPWhatsappService \<times> string list" where
  "Service_Initialize env source =
     (if Initialized source then (source, [])
      else
        (case foldl (load_server env) (source, [])
                (if le_db_ok (sv_life env) then servers_table (svc_world source) else []) of
           (source, started) \<Rightarrow> (source\<lparr>Initialized := True\<rparr>, started)))"

definition Service_FindByToken :: "service_env \<Rightarrow> QPWhatsappService \<Rightarrow> string \<Rightarrow> service_error + QpWhatsappServer" where
  "Service_FindByToken env service token =
     (case find (\<lambda>item. EqualFold (Token (snd item)) token) (sv_order env (Servers service)) of
        Some item \<Rightarrow> Inr (snd item) | None \<Rightarrow> Inl ServerNotFound)"

definition GetServerFromToken :: "service_env \<Rightarrow> QPWhatsappService \<Rightarrow> string \<Rightarrow> service_error + QpWhatsappServer" where
  "GetServerFromToken env service token =
     (case find (\<lambda>item. EqualFold (Token (snd item)) token) (sv_order env (Servers service)) of
        Some item \<Rightarrow> Inr (snd item) | None \<Rightarrow> Inl ServerNotFound)"

definition GetServerFromID :: "QPWhatsappService \<Rightarrow> string \<Rightarrow> service_error + QpWhatsappServer" where
  "GetServerFromID service source =
     (case map_of (Servers service) source of Some server \<Rightarrow> Inr server | None \<Rightarrow> Inl ServerNotFound)"

definition GetServerFirstAvailable :: "service_env \<Rightarrow> QPWhatsappService \<Rightarrow> service_error + QpWhatsappServer" where
  "GetServerFirstAvailable env service =
     (case find (\<lambda>item. GetState (snd item) = Ready) (sv_order env (Servers service)) of
        Some item \<Rightarrow> Inr (snd item) | None \<Rightarrow> Inl ServerNotFound)"

record QpHealthResponseItem =
  hi_Token :: string
  hi_Wid :: string
  hi_State :: WhatsappConnectionState
  StateCode :: nat

definition ToHealthReponseItem :: "QpWhatsappServer \<Rightarrow> QpHealthResponseItem" where
  "ToHealthReponseItem server =
     (let state = GetState server
      in \<lparr>hi_Token = Token server, hi_Wid = Wid server, hi_State = state, StateCode = EnumIndex state\<rparr>)"

definition GetHealth :: "service_env \<Rightarrow> QPWhatsappService \<Rightarrow> QpHealthResponseItem list" where
  "GetHealth env source = map (\<lambda>item. ToHealthReponseItem (snd item)) (sv_order env (Servers source))"

definition Item_GetHealth :: "QpHealthResponseItem \<Rightarrow> bool" where
  "Item_GetHealth source = IsHealthy (hi_State source)"

section \<open>Pairing\<close>

record QpWhatsappPairing =
  pair_Token :: string
  pair_Wid :: string
  pair_Username :: string
  pair_conn :: "WhatsmeowConnection option"

text \<open>\<open>AppendPaired\<close>: the paired connection replaces the one the server may have had.\<close>

definition paired_info :: "QpWhatsappPairing \<Rightarrow> QpServer" where
  "paired_info paired = new_info (pair_Token paired) [] (pair_Wid paired)"

definition paired_server :: "service_env \<Rightarrow> QPWhatsappService \<Rightarrow> QpWhatsappPairing \<Rightarrow> QpWhatsappServer" where
  "paired_server env source paired =
     (let server = (case map_of (Servers source) (pair_Token paired) of
            None \<Rightarrow> NewQpWhatsappServer (le_now (sv_life env)) (paired_info paired)
          | Some server \<Rightarrow> server\<lparr>Token := pair_Token paired, Wid := pair_Wid paired\<rparr>);
          server = server\<lparr>connection := map_option UpdateHandler (pair_conn paired), Verified := True\<rparr>
      in if length (pair_Username paired) > 0 then server\<lparr>User := pair_Username paired\<rparr> else server)"

definition AppendPaired ::
    "service_env \<Rightarrow> QPWhatsappService \<Rightarrow> QpWhatsappPairing \<Rightarrow>
     QPWhatsappService \<times> QpWhatsappServer \<times> server_error option" where
  "AppendPaired env source paired =
     (let filled = (if map_of (Servers source) (pair_Token paired) = None
                    then fill_dispatching env (paired_info paired) source else source)
      in case Save (sv_life env) (svc_world source) (paired_server env source paired) of
           (w, server, err) \<Rightarrow> (put_server (filled\<lparr>svc_world := w\<rparr>) (pair_Token paired) server, server, err))"

definition GetUserToken :: "service_env \<Rightarrow> QPWhatsappService \<Rightarrow> QpWhatsappPairing \<Rightarrow> string" where
  "GetUserToken env service source =
     (case find (\<lambda>item. GetNumber (snd item) = GetPhoneByWId (pair_Wid source))
             (sv_order env (GetServersForUser env service (pair_Username source))) of
        Some item \<Rightarrow> Token (snd item)
      | None \<Rightarrow> sv_uuid env)"

text \<open>The last result is the server whose \<open>EnsureReady\<close> is started.\<close>

definition OnPaired ::
    "service_env \<Rightarrow> QPWhatsappService \<Rightarrow> QpWhatsappPairing \<Rightarrow> string \<Rightarrow>
     QPWhatsappService \<times> QpWhatsappPairing \<times> string option" where
  "OnPaired env service source wid =
     (let source = source\<lparr>pair_Wid := wid\<rparr>;
          source = (if length (pair_Token source) = 0 \<and> length (pair_Username source) > 0
                    then source\<lparr>pair_Token := GetUserToken env service source\<rparr> else source)
      in if length (pair_Username source) = 0 then (service, source, None)
         else (case AppendPaired env service source of
                 (service, server, Some err) \<Rightarrow> (service, source, None)
               | (service, server, None) \<Rightarrow> (service, source, Some (Token server))))"

text \<open>\<open>created\<close> is the connection without a device that the client service makes, or its error.\<close>

definition GetConnection ::
    "service_env \<Rightarrow> (wa_error + WhatsmeowConnection) \<Rightarrow> QPWhatsappService \<Rightarrow> QpWhatsappPairing \<Rightarrow>
     QpWhatsappPairing \<times> (wa_error + WhatsmeowConnection)" where
  "GetConnection env created service source =
     (case pair_conn source of
        Some cn \<Rightarrow> (source, Inr cn)
      | None \<Rightarrow>
          (case created of
             Inl err \<Rightarrow> (source, Inl err)
           | Inr cn \<Rightarrow>
               let cn = (if length (pair_Token source) > 0 \<and> \<not> isl (GetServerFromToken env service (pair_Token source))
                         then UpdateHandler cn else cn)
               in (source\<lparr>pair_conn := Some cn\<rparr>, Inr cn)))"

text \<open>The connection is updated by a started goroutine; the result says of which server.\<close>

definition EnsureServerOnCache ::
    "service_env \<Rightarrow> QPWhatsappService \<Rightarrow> string \<Rightarrow> string \<Rightarrow> QPWhatsappService \<times> string" where
  "EnsureServerOnCache env service currentUserID wid =
     (case GetOrCreateServer env service currentUserID wid of
        (service, server) \<Rightarrow>
          (case MarkVerified (sv_life env) (svc_world service) server True of
             (w, server, _) \<Rightarrow> (put_server (service\<lparr>svc_world := w\<rparr>) (Token server) server, Token server)))"

section \<open>Accounts\<close>

text \<open>
  \<open>hash\<close> is the password's hash under a fresh salt, or nothing for a password that cannot be hashed, and
  \<open>matches\<close> compares a hash with a password; \<open>ok\<close> is whether the database answers. The user name is the
  table's key.
\<close>

datatype user_error = UserSql | UserNotFound | WrongPassword | HashError | SetupDisabled

definition Users_Count :: "QpUser list \<Rightarrow> nat" where "Users_Count users = length users"

definition Users_Exists :: "QpUser list \<Rightarrow> string \<Rightarrow> bool" where
  "Users_Exists users username \<longleftrightarrow> (\<exists>user\<in>set users. Username user = username)"

definition Users_Find :: "QpUser list \<Rightarrow> string \<Rightarrow> user_error + QpUser" where
  "Users_Find users username =
     (case find (\<lambda>user. Username user = username) users of Some user \<Rightarrow> Inr user | None \<Rightarrow> Inl UserSql)"

definition Users_Check :: "(string \<Rightarrow> string \<Rightarrow> bool) \<Rightarrow> QpUser list \<Rightarrow> string \<Rightarrow> string \<Rightarrow> user_error + QpUser" where
  "Users_Check matches users username password =
     (case find (\<lambda>user. Username user = username) users of
        None \<Rightarrow> Inl UserSql
      | Some user \<Rightarrow>
          if length (Username user) = 0 then Inl UserNotFound
          else if \<not> matches (Password user) password then Inl WrongPassword
          else Inr user)"

definition Users_Create ::
    "bool \<Rightarrow> (string \<Rightarrow> string option) \<Rightarrow> bool \<Rightarrow> QpUser list \<Rightarrow> string \<Rightarrow> string \<Rightarrow>
     QpUser list \<times> (user_error + QpUser)" where
  "Users_Create setup_allowed hash ok users username password =
     (if \<not> setup_allowed then (users, Inl SetupDisabled)
      else (case hash password of
         None \<Rightarrow> (users, Inl HashError)
       | Some hashed \<Rightarrow>
           if \<not> ok \<or> Users_Exists users username then (users, Inl UserSql)
           else
             let user = \<lparr>Username = username, Password = hashed\<rparr>
             in (users @ [user], Inr user)))"

definition Users_UpdatePassword ::
    "(string \<Rightarrow> string option) \<Rightarrow> bool \<Rightarrow> QpUser list \<Rightarrow> string \<Rightarrow> string \<Rightarrow> QpUser list \<times> user_error option" where
  "Users_UpdatePassword hash ok users username password =
     (case hash password of
        None \<Rightarrow> (users, Some HashError)
      | Some hashed \<Rightarrow>
          if \<not> ok then (users, Some UserSql)
          else (map (\<lambda>user. if Username user = username then user\<lparr>Password := hashed\<rparr> else user) users,
                if Users_Exists users username then None else Some UserNotFound))"

definition DEFAULTEMAIL :: string where "DEFAULTEMAIL = ''default@quepasa.io''"

definition InitialSeed ::
    "bool \<Rightarrow> (string \<Rightarrow> string option) \<Rightarrow> bool \<Rightarrow> QpUser list \<Rightarrow> QpUser list \<times> user_error option" where
  "InitialSeed setup_allowed hash ok users =
     (if \<not> ok then (users, Some UserSql)
      else if Users_Exists users DEFAULTEMAIL then (users, None)
      else (case Users_Create setup_allowed hash ok users DEFAULTEMAIL [] of
              (users, Inl err) \<Rightarrow> (users, Some err) | (users, Inr _) \<Rightarrow> (users, None)))"

definition GetUser ::
    "(string \<Rightarrow> string \<Rightarrow> bool) \<Rightarrow> QPWhatsappService \<Rightarrow> string \<Rightarrow> string \<Rightarrow> user_error + QpUser" where
  "GetUser matches source username password = Users_Check matches (svc_users source) username password"

text \<open>\<open>QPWhatsappStart\<close>: the first call makes the service, seeds the accounts and starts the servers.\<close>

definition QPWhatsappStart ::
    "service_env \<Rightarrow> bool \<Rightarrow> (string \<Rightarrow> string option) \<Rightarrow> bool \<Rightarrow> life_world \<Rightarrow> QpUser list \<Rightarrow> QPWhatsappService option \<Rightarrow>
     QPWhatsappService \<times> string list \<times> user_error option" where
  "QPWhatsappStart env setup_allowed hash ok w users service =
     (case service of
        Some service \<Rightarrow> (service, [], None)
      | None \<Rightarrow>
          (case InitialSeed setup_allowed hash ok users of
             (users, err) \<Rightarrow>
               let service = \<lparr>Servers = [], Initialized = False, svc_world = w, svc_dispatchings = [], svc_users = users\<rparr>
               in if err \<noteq> None then (service, [], err)
                  else (case Service_Initialize env service of (service, started) \<Rightarrow> (service, started, None))))"

section \<open>The registry\<close>

definition registry_ok :: "QPWhatsappService \<Rightarrow> bool" where
  "registry_ok service \<longleftrightarrow>
     distinct (map fst (Servers service)) \<and> (\<forall>(key, server) \<in> set (Servers service). Token server = key)"

definition order_ok :: "service_env \<Rightarrow> bool" where
  "order_ok env \<longleftrightarrow> (\<forall>entries. mset (sv_order env entries) = mset entries)"

lemma order_set: "order_ok env \<Longrightarrow> set (sv_order env xs) = set xs"
  by (metis order_ok_def set_mset_mset)

lemma set_update_subset: "set (AList.update k v al) \<subseteq> insert (k, v) (set al)"
  by (induction al) auto

lemma put_server_ok: "registry_ok service \<Longrightarrow> Token server = key \<Longrightarrow> registry_ok (put_server service key server)"
  using set_update_subset [of key server "Servers service"]
  by (auto simp: registry_ok_def put_server_def distinct_update)

lemma registry_world [simp]: "registry_ok (service\<lparr>svc_world := w\<rparr>) = registry_ok service"
  by (simp add: registry_ok_def)

lemma registry_Initialized [simp]: "registry_ok (service\<lparr>Initialized := b\<rparr>) = registry_ok service"
  by (simp add: registry_ok_def)

lemma registry_fill [simp]: "registry_ok (fill_dispatching env info service) = registry_ok service"
  "Servers (fill_dispatching env info service) = Servers service"
  "svc_world (fill_dispatching env info service) = svc_world service"
  by (simp_all add: registry_ok_def fill_dispatching_def)

lemma put_server_look [simp]:
  "map_of (Servers (put_server service key server)) = (map_of (Servers service))(key \<mapsto> server)"
  "svc_world (put_server service key server) = svc_world service"
  by (simp_all add: put_server_def update_conv')

lemma look_token: "registry_ok service \<Longrightarrow> map_of (Servers service) key = Some server \<Longrightarrow> Token server = key"
  by (auto simp: registry_ok_def dest: map_of_SomeD)

lemma extend_Token [simp]: "Token (QpServer.extend info m) = Token info"
  by (simp add: QpServer.extend_def)

lemma AppendNewServer_cases:
  assumes "AppendNewServer env service info = (service', server)"
  obtains (fresh) "map_of (Servers service) (Token info) = None" "server = NewQpWhatsappServer (le_now (sv_life env)) info"
      "service' = put_server (fill_dispatching env info service) (Token info) server"
    | (kept) old where "map_of (Servers service) (Token info) = Some old" "server = QpServer.extend info (QpServer.more old)"
      "service' = put_server service (Token info) server"
  using assms by (cases "map_of (Servers service) (Token info)") (auto simp: AppendNewServer_def Let_def)

lemma NewQpWhatsappServer_sel [simp]:
  "Token (NewQpWhatsappServer now info) = Token info" "Wid (NewQpWhatsappServer now info) = Wid info"
  "User (NewQpWhatsappServer now info) = User info" "Verified (NewQpWhatsappServer now info) = Verified info"
  "connection (NewQpWhatsappServer now info) = None" "\<not> StopRequested (NewQpWhatsappServer now info)"
  "QpServer.truncate (NewQpWhatsappServer now info) = info"
  by (simp_all add: NewQpWhatsappServer_def QpServer.extend_def QpServer.truncate_def)

lemma AppendNewServer_Token: "AppendNewServer env service info = (service', server) \<Longrightarrow> Token server = Token info"
  by (erule AppendNewServer_cases) simp_all

lemma AppendNewServer_ok:
  "registry_ok service \<Longrightarrow> registry_ok (fst (AppendNewServer env service info))"
  by (cases "AppendNewServer env service info") (auto elim!: AppendNewServer_cases intro!: put_server_ok)

lemma FromToken_ok: "registry_ok service \<Longrightarrow> registry_ok (fst (GetOrCreateServerFromToken env service token))"
  using AppendNewServer_ok [of service env]
  by (cases "map_of (Servers service) token"; cases "Server_Exists (le_db_ok (sv_life env)) (servers_table (svc_world service)) token")
    (auto simp: GetOrCreateServerFromToken_def split: option.split prod.split; metis fst_conv)+

lemma GetOrCreateServer_ok: "registry_ok service \<Longrightarrow> registry_ok (fst (GetOrCreateServer env service user wid))"
  using AppendNewServer_ok put_server_ok by (auto simp: GetOrCreateServer_def Let_def split: option.split)

lemma paired_server_sel:
  "Token (paired_server env service paired) = pair_Token paired"
  "Wid (paired_server env service paired) = pair_Wid paired"
  "Verified (paired_server env service paired)"
  "pair_Username paired \<noteq> [] \<Longrightarrow> User (paired_server env service paired) = pair_Username paired"
  "connection (paired_server env service paired) = map_option UpdateHandler (pair_conn paired)"
  by (simp_all add: paired_server_def Let_def paired_info_def new_info_def split: option.split)

lemma AppendPaired_spec:
  assumes "AppendPaired env service paired = (service', server, err)"
  obtains filled where "service' = put_server filled (pair_Token paired) server"
    "Servers filled = Servers service" "svc_world filled = svc_world service'"
    "Save (sv_life env) (svc_world service) (paired_server env service paired) = (svc_world service', server, err)"
    "Token server = pair_Token paired"
proof -
  let ?filled = "if map_of (Servers service) (pair_Token paired) = None
                 then fill_dispatching env (paired_info paired) service else service"
  obtain w where s: "Save (sv_life env) (svc_world service) (paired_server env service paired) = (w, server, err)"
    "service' = put_server (?filled\<lparr>svc_world := w\<rparr>) (pair_Token paired) server"
    using assms by (auto simp: AppendPaired_def Let_def split: prod.splits)
  have "Token server = pair_Token paired"
    using own_Save [of "svc_world service" "paired_server env service paired" "sv_life env"] s(1)
    by (simp add: own_result_def paired_server_sel)
  then show ?thesis using s by (intro that [of "?filled\<lparr>svc_world := w\<rparr>"]) simp_all
qed

lemma AppendPaired_ok:
  assumes "registry_ok service"
  shows "registry_ok (fst (AppendPaired env service paired))"
proof -
  obtain s server err where p: "AppendPaired env service paired = (s, server, err)" by (metis prod_cases3)
  from p show ?thesis
  proof (rule AppendPaired_spec)
    fix filled
    assume "s = put_server filled (pair_Token paired) server" "Servers filled = Servers service" "Token server = pair_Token paired"
    moreover from this have "registry_ok filled" using assms by (simp add: registry_ok_def)
    ultimately show ?thesis using p put_server_ok by simp
  qed
qed

lemma OnPaired_ok: "registry_ok service \<Longrightarrow> registry_ok (fst (OnPaired env service paired wid))"
  unfolding OnPaired_def Let_def
  by (auto split: prod.split option.split dest: AppendPaired_ok [of service env] simp: fst_conv)
    (metis AppendPaired_ok fst_conv)+

lemma Service_Delete_ok:
  assumes "registry_ok service"
  shows "registry_ok (fst (Service_Delete env logout store_delete clear_ok service server))"
proof -
  obtain w s err where d: "Server_Delete (sv_life env) logout store_delete clear_ok (svc_world service) server = (w, s, err)"
    by (metis prod_cases3)
  show ?thesis
  proof (cases err)
    case None
    have "set (AList.delete (Token s) (Servers service)) \<subseteq> set (Servers service)"
      by (auto simp: AList.delete_eq)
    then have "registry_ok (service\<lparr>svc_world := w, Servers := AList.delete (Token s) (Servers service),
        svc_dispatchings := AList.delete (Token s) (svc_dispatchings service)\<rparr>)"
      using assms distinct_delete [of "Servers service" "Token s"] unfolding registry_ok_def by auto
    then show ?thesis using d None by (simp add: Service_Delete_def)
  next
    case (Some e)
    then show ?thesis using assms d put_server_ok by (simp add: Service_Delete_def)
  qed
qed

lemma registry_load: "registry_ok source \<Longrightarrow> registry_ok (fst (foldl (load_server env) (source, started) infos))"
proof (induction infos arbitrary: source started)
  case (Cons info infos)
  obtain source' started' where l: "load_server env (source, started) info = (source', started')" by force
  have "registry_ok source'"
    using l Cons.prems AppendNewServer_ok [of source env info]
    by (auto simp: load_server_def Let_def split: prod.splits)
  then show ?case using Cons.IH l by simp
qed simp

lemma Initialize_ok:
  assumes "registry_ok service"
  shows "registry_ok (fst (Service_Initialize env service))"
proof -
  let ?infos = "if le_db_ok (sv_life env) then servers_table (svc_world service) else []"
  obtain source started where f: "foldl (load_server env) (service, []) ?infos = (source, started)" by force
  have "registry_ok source" using registry_load [OF assms, of env "[]" ?infos] unfolding f by simp
  then show ?thesis using assms unfolding Service_Initialize_def f by simp
qed

text \<open>The operations of the service, and any operation of a server it holds.\<close>

datatype service_op =
  SvAppend QpServer | SvFromToken string | SvGetOrCreate string string | SvPaired QpWhatsappPairing string
| SvDelete string "string option" "string option" bool | SvInitialize | SvEnsure string string | SvLife string life_op

fun service_step :: "QPWhatsappService \<Rightarrow> service_env \<times> service_op \<Rightarrow> QPWhatsappService" where
  "service_step service (env, SvAppend info) = fst (AppendNewServer env service info)"
| "service_step service (env, SvFromToken token) = fst (GetOrCreateServerFromToken env service token)"
| "service_step service (env, SvGetOrCreate user wid) = fst (GetOrCreateServer env service user wid)"
| "service_step service (env, SvPaired paired wid) = fst (OnPaired env service paired wid)"
| "service_step service (env, SvDelete token x y z) =
     (case map_of (Servers service) token of
        None \<Rightarrow> service | Some server \<Rightarrow> fst (Service_Delete env x y z service server))"
| "service_step service (env, SvInitialize) = fst (Service_Initialize env service)"
| "service_step service (env, SvEnsure user wid) = fst (EnsureServerOnCache env service user wid)"
| "service_step service (env, SvLife token oper) =
     (case map_of (Servers service) token of
        None \<Rightarrow> service
      | Some server \<Rightarrow>
          (case life_op_result (sv_life env) (svc_world service) server oper of
             (w, server, err) \<Rightarrow> put_server (service\<lparr>svc_world := w\<rparr>) token server))"

lemma EnsureServerOnCache_ok:
  "registry_ok service \<Longrightarrow> registry_ok (fst (EnsureServerOnCache env service user wid))"
  using GetOrCreateServer_ok [of service env user wid] put_server_ok
  by (auto simp: EnsureServerOnCache_def split: prod.splits)

lemma service_step_ok: "registry_ok service \<Longrightarrow> registry_ok (service_step service e)"
proof (cases e)
  case (Pair env oper)
  assume ok: "registry_ok service"
  show ?thesis
  proof (cases oper)
    case (SvLife token op)
    show ?thesis
    proof (cases "map_of (Servers service) token")
      case (Some server)
      obtain w s err where r: "life_op_result (sv_life env) (svc_world service) server op = (w, s, err)"
        by (metis prod_cases3)
      have "Token s = token"
        using own_life_op [of "svc_world service" server "sv_life env" op] r look_token [OF ok Some]
        by (simp add: own_result_def)
      then show ?thesis using put_server_ok [of "service\<lparr>svc_world := w\<rparr>" s token] ok by (simp add: Pair SvLife Some r)
    qed (simp add: Pair SvLife ok)
  qed (use ok in \<open>simp_all add: Pair AppendNewServer_ok FromToken_ok GetOrCreateServer_ok OnPaired_ok Service_Delete_ok
      Initialize_ok EnsureServerOnCache_ok split: option.split\<close>)
qed

interpretation service_run: step_invariant service_step registry_ok
  by unfold_locales (rule service_step_ok)

text \<open>
  C29. Every server of the registry stands under its own token, and each token once, whatever operations
  the service and its servers went through and however the client, the database and the pairing answered.
\<close>
theorem registry_keyed:
  assumes "Servers service = []" and "foldl service_step service ops = service'"
  shows "distinct (map fst (Servers service')) \<and> list_all (\<lambda>(key, server). Token server = key) (Servers service')"
proof -
  have "registry_ok service" using assms(1) by (simp add: registry_ok_def)
  from service_run.run_inv [OF this, of ops] show ?thesis
    unfolding assms(2) registry_ok_def list_all_iff by blast
qed

definition sample_service_env :: service_env where
  "sample_service_env = \<lparr>sv_life = sample_life_env, sv_uuid = ''uuid-1'', sv_find = True, sv_fill = True,
     sv_codec = plain_codec, sv_order = rev\<rparr>"

definition empty_service :: QPWhatsappService where
  "empty_service = \<lparr>Servers = [], Initialized = False, svc_world = empty_world, svc_dispatchings = [], svc_users = []\<rparr>"

theorem registry_keyed_witness:
  "distinct (map fst (Servers (foldl service_step empty_service
     [(sample_service_env, SvFromToken ''abc''), (sample_service_env, SvGetOrCreate ''me'' ''5521@s.whatsapp.net'')])))"
  using registry_keyed [of empty_service _ "foldl service_step empty_service
     [(sample_service_env, SvFromToken ''abc''), (sample_service_env, SvGetOrCreate ''me'' ''5521@s.whatsapp.net'')]"]
  by (simp only: empty_service_def QPWhatsappService.select_convs)

section \<open>Finding a server\<close>

lemma Exists_cases:
  assumes "Server_Exists ok table token = r"
  obtains (down) "\<not> ok" "r = Inl SqlError" | (there) "ok" "r = Inr True" "token \<in> Token ` set table"
    | (missing) "ok" "r = Inr False" "token \<notin> Token ` set table"
  using assms by (cases ok) (auto simp: Server_Exists_def)

lemma FromToken_cases:
  assumes "GetOrCreateServerFromToken env service token = (service', r)"
  obtains (held) server where "map_of (Servers service) token = Some server" "service' = service" "r = Inr server"
    | (refused) err where "map_of (Servers service) token = None" "service' = service" "r = Inl err"
    | (made) info server where "map_of (Servers service) token = None" "Token info = token"
        "AppendNewServer env service info = (service', server)" "r = Inr server"
proof (cases "map_of (Servers service) token")
  case (Some server)
  then show ?thesis using held assms by (simp add: GetOrCreateServerFromToken_def)
next
  case None
  note refused = refused [OF None] and made = made [OF None]
  let ?find = "find (\<lambda>row. Token row = token) (servers_table (svc_world service))"
  have found: "?find = Some info \<Longrightarrow> Token info = token" for info by (auto simp: find_Some_iff)
  from refl show ?thesis
  proof (cases rule: Exists_cases [of "le_db_ok (sv_life env)" "servers_table (svc_world service)" token])
    case down
    then show ?thesis using assms None refused [of ExistsFailed] by (auto simp: GetOrCreateServerFromToken_def)
  next
    case there
    show ?thesis
    proof (cases "sv_find env \<and> ?find \<noteq> None")
      case True
      then obtain info where i: "?find = Some info" "sv_find env" by blast
      obtain s server where a: "AppendNewServer env service info = (s, server)" by force
      show ?thesis using assms None there i a
        by (intro made [OF found [OF i(1)]]) (auto simp: GetOrCreateServerFromToken_def)
    next
      case False
      then show ?thesis using assms None there refused by (auto simp: GetOrCreateServerFromToken_def split: if_splits)
    qed
  next
    case missing
    obtain s server where a: "AppendNewServer env service (new_info token [] []) = (s, server)" by force
    show ?thesis using assms None missing a
      by (intro made [of "new_info token [] []"]) (auto simp: GetOrCreateServerFromToken_def new_info_def)
  qed
qed

text \<open>
  A server asked for by its token is made at most once: asked again, under any environment, the same
  server is returned and nothing changes, even if the database is gone. The servers of other tokens are
  never touched, and a database that refuses leaves the registry as it was.
\<close>
theorem from_token_idempotent:
  assumes "GetOrCreateServerFromToken env service token = (service', r)"
  shows "case r of
     Inl err \<Rightarrow> service' = service
   | Inr server \<Rightarrow>
       map_of (Servers service') token = Some server \<and>
       GetOrCreateServerFromToken env' service' token = (service', Inr server) \<and>
       (\<forall>key. key \<noteq> token \<longrightarrow> map_of (Servers service') key = map_of (Servers service) key) \<and>
       svc_world service' = svc_world service"
  using assms
proof (cases rule: FromToken_cases)
  case (held server)
  then show ?thesis by (simp add: GetOrCreateServerFromToken_def)
next
  case (made info server)
  from made(3) have "map_of (Servers service') = (map_of (Servers service))(token \<mapsto> server) \<and> svc_world service' = svc_world service"
    by (rule AppendNewServer_cases) (use made in simp_all)
  then show ?thesis using made by (simp add: GetOrCreateServerFromToken_def)
qed simp

theorem from_token_idempotent_witness:
  "map_of (Servers (fst (GetOrCreateServerFromToken sample_service_env empty_service ''abc''))) ''abc'' \<noteq> None"
proof -
  obtain s r where e: "GetOrCreateServerFromToken sample_service_env empty_service ''abc'' = (s, r)" by force
  have "\<not> isl (snd (GetOrCreateServerFromToken sample_service_env empty_service ''abc''))" by code_simp
  then show ?thesis using from_token_idempotent [OF e] e by (cases r) simp_all
qed

lemma sv_order_find:
  assumes "order_ok env" "inj_on f (set xs)" "\<And>x y. x \<in> set xs \<Longrightarrow> y \<in> set xs \<Longrightarrow> P x \<Longrightarrow> P y \<Longrightarrow> f x = f y"
  shows "find P (sv_order env xs) = Some x \<longleftrightarrow> x \<in> set xs \<and> P x"
proof
  assume "x \<in> set xs \<and> P x"
  then have x: "x \<in> set (sv_order env xs)" "P x" by (simp_all add: order_set [OF assms(1)])
  have "find P ys = None \<Longrightarrow> x \<in> set ys \<Longrightarrow> \<not> P x" for ys by (simp only: find_None_iff) blast
  then obtain y where y: "find P (sv_order env xs) = Some y"
    using x by (cases "find P (sv_order env xs)") blast+
  then have "y \<in> set (sv_order env xs)" "P y" by (auto simp: find_Some_iff)
  then have "y = x" using assms(2,3) x order_set [OF assms(1), of xs] by (metis inj_onD)
  then show "find P (sv_order env xs) = Some x" using y by simp
qed (auto simp: find_Some_iff simp flip: order_set [OF assms(1), of xs])

text \<open>
  Looking a server up by token ignores case. As long as no two tokens differ in case only, the answer
  does not depend on the order in which the map is visited: it is the one server whose token matches.
\<close>
theorem find_by_token_unique:
  assumes "registry_ok service" "order_ok env" "distinct (map (\<lambda>entry. ToLower (fst entry)) (Servers service))"
  shows "Service_FindByToken env service token =
     (case filter (\<lambda>entry. EqualFold (Token (snd entry)) token) (Servers service) of
        [] \<Rightarrow> Inl ServerNotFound | entry # _ \<Rightarrow> Inr (snd entry))"
proof -
  let ?P = "\<lambda>entry :: string \<times> QpWhatsappServer. EqualFold (Token (snd entry)) token"
  have key: "entry \<in> set (Servers service) \<Longrightarrow> Token (snd entry) = fst entry" for entry
    using assms(1) by (auto simp: registry_ok_def)
  have inj: "inj_on (\<lambda>entry. ToLower (fst entry)) (set (Servers service))" using assms(3) by (simp add: distinct_map)
  have f: "find ?P (sv_order env (Servers service)) = Some x \<longleftrightarrow> x \<in> set (Servers service) \<and> ?P x" for x
    by (rule sv_order_find [OF assms(2) inj]) (simp add: key EqualFold_def)
  show ?thesis
  proof (cases "filter ?P (Servers service)")
    case Nil
    then have "find ?P (sv_order env (Servers service)) = None"
      by (auto simp: find_None_iff order_set [OF assms(2)] filter_empty_conv)
    then show ?thesis using Nil by (simp add: Service_FindByToken_def)
  next
    case (Cons x xs)
    then have "x \<in> set (filter ?P (Servers service))" by simp
    then have "find ?P (sv_order env (Servers service)) = Some x" using f by simp
    then show ?thesis using Cons by (simp add: Service_FindByToken_def)
  qed
qed

definition sample_service :: QPWhatsappService where
  "sample_service = empty_service\<lparr>Servers :=
     [(''Ab'', NewQpWhatsappServer 7 (new_info ''Ab'' ''me'' ''5521:3@s.whatsapp.net'')),
      (''cd'', NewQpWhatsappServer 8 (new_info ''cd'' ''you'' ''5531:1@s.whatsapp.net''))]\<rparr>"

lemma sample_service_ok: "registry_ok sample_service" "order_ok sample_service_env"
  "distinct (map (\<lambda>entry. ToLower (fst entry)) (Servers sample_service))"
  by (simp_all add: registry_ok_def sample_service_def new_info_def order_ok_def sample_service_env_def) code_simp

theorem find_by_token_unique_witness:
  "Service_FindByToken sample_service_env sample_service ''AB'' =
     Inr (NewQpWhatsappServer 7 (new_info ''Ab'' ''me'' ''5521:3@s.whatsapp.net''))"
  unfolding find_by_token_unique [OF sample_service_ok] by code_simp

section \<open>Pairing a device\<close>

lemma update_fresh: "k \<notin> fst ` set al \<Longrightarrow> AList.update k v al = al @ [(k, v)]"
  by (induction al) auto

lemma GetServersForUser_set:
  assumes "registry_ok service" "order_ok env" "distinct (map (\<lambda>entry. ToLower (fst entry)) (Servers service))"
  shows "snd ` set (GetServersForUser env service username) =
     {server. server \<in> snd ` set (Servers service) \<and> User server = username}"
proof -
  let ?f = "\<lambda>servers (key, server). if User server = username
                                    then AList.update (ToLower (Token server)) server servers else servers"
  have fold: "foldl ?f acc xs = acc @ map (\<lambda>e. (ToLower (Token (snd e)), snd e)) (filter (\<lambda>e. User (snd e) = username) xs)"
    if "distinct (map fst acc @ map (\<lambda>e. ToLower (Token (snd e))) xs)" for acc and xs :: "(string \<times> QpWhatsappServer) list"
    using that
  proof (induction xs arbitrary: acc)
    case (Cons e xs)
    obtain key server where e: "e = (key, server)" by force
    show ?case
    proof (cases "User server = username")
      case True
      have "AList.update (ToLower (Token server)) server acc = acc @ [(ToLower (Token server), server)]"
        using Cons.prems e by (intro update_fresh) auto
      then show ?thesis using Cons True e by auto
    qed (use Cons e in auto)
  qed simp
  have perm: "mset (sv_order env (Servers service)) = mset (Servers service)" using assms(2) by (simp add: order_ok_def)
  have key: "map (\<lambda>e. ToLower (Token (snd e))) (Servers service) = map (\<lambda>entry. ToLower (fst entry)) (Servers service)"
    using assms(1) by (auto simp: registry_ok_def)
  have "distinct (map (\<lambda>e. ToLower (Token (snd e))) (sv_order env (Servers service)))"
    using assms(3) unfolding key [symmetric] by (metis mset_map perm mset_eq_imp_distinct_iff)
  from fold [of "[]", simplified, OF this] have "snd ` set (GetServersForUser env service username) =
      snd ` {e \<in> set (sv_order env (Servers service)). User (snd e) = username}"
    unfolding GetServersForUser_def by (simp add: image_image)
  then show ?thesis unfolding order_set [OF assms(2)] by force
qed

definition owned_phone :: "string \<Rightarrow> string \<Rightarrow> QpWhatsappServer \<Rightarrow> bool" where
  "owned_phone user wid server \<longleftrightarrow> User server = user \<and> GetNumber server = GetPhoneByWId wid"

lemma GetUserToken_spec:
  fixes paired :: QpWhatsappPairing
  assumes "registry_ok service" "order_ok env" "distinct (map (\<lambda>entry. ToLower (fst entry)) (Servers service))"
  defines "mine \<equiv> owned_phone (pair_Username paired) (pair_Wid paired)"
  shows "if list_ex (\<lambda>entry. mine (snd entry)) (Servers service)
     then list_ex (\<lambda>entry. mine (snd entry) \<and> fst entry = GetUserToken env service paired) (Servers service)
     else GetUserToken env service paired = sv_uuid env"
proof -
  let ?servers = "GetServersForUser env service (pair_Username paired)"
  let ?P = "\<lambda>item :: string \<times> QpWhatsappServer. GetNumber (snd item) = GetPhoneByWId (pair_Wid paired)"
  have set: "snd ` set (sv_order env ?servers) = {server. server \<in> snd ` set (Servers service) \<and> User server = pair_Username paired}"
    using GetServersForUser_set [OF assms(1-3)] by (simp add: order_set [OF assms(2)])
  show ?thesis
  proof (cases "find ?P (sv_order env ?servers)")
    case None
    then have "\<not> mine server" if "server \<in> snd ` set (Servers service)" for server
      using set that unfolding find_None_iff mine_def owned_phone_def
      by (metis (mono_tags, lifting) imageE mem_Collect_eq)
    then have "\<not> list_ex (\<lambda>entry. mine (snd entry)) (Servers service)" by (auto simp: list_ex_iff)
    then show ?thesis using None by (simp add: GetUserToken_def)
  next
    case (Some item)
    then have i: "item \<in> set (sv_order env ?servers)" "?P item" by (auto simp: find_Some_iff)
    then have "snd item \<in> {server. server \<in> snd ` set (Servers service) \<and> User server = pair_Username paired}"
      using set by (metis image_eqI)
    then obtain entry where e: "entry \<in> set (Servers service)" "snd entry = snd item" "User (snd item) = pair_Username paired"
      by auto
    moreover from e(1) have "Token (snd entry) = fst entry" using assms(1) by (auto simp: registry_ok_def)
    ultimately have "list_ex (\<lambda>entry. mine (snd entry) \<and> fst entry = GetUserToken env service paired) (Servers service)"
      using i(2) Some unfolding list_ex_iff mine_def owned_phone_def GetUserToken_def
      by (intro bexI [of _ entry]) simp_all
    moreover from this have "list_ex (\<lambda>entry. mine (snd entry)) (Servers service)" by (auto simp: list_ex_iff)
    ultimately show ?thesis by simp
  qed
qed

lemma saved_frame:
  assumes "Save env w s = (w', s', err)"
  shows "Wid s' = Wid s" "User s' = User s" "Verified s' = Verified s" "connection s' = connection s" "Token s' = Token s"
    and "err \<noteq> None \<Longrightarrow> w' = w"
  using assms
  by (auto simp: Save_def Server_Exists_def Server_Add_def Server_Update_def Let_def split: if_splits)

lemma Save_row:
  assumes "Save env w s = (w', s', None)"
  shows "\<exists>row\<in>set (servers_table w'). Token row = Token s \<and> Wid row = Wid s \<and> User row = User s \<and> Verified row = Verified s"
proof -
  define e where "e = QpServer.truncate (s\<lparr>srv_Timestamp := Some (le_now env),
    Timestamps := (Timestamps s)\<lparr>ts_Update := Some (le_now env)\<rparr>\<rparr>)"
  have e: "Token e = Token s" "Wid e = Wid s" "User e = User s" "Verified e = Verified s"
    by (simp_all add: e_def QpServer.truncate_def)
  show ?thesis
  proof (cases "\<exists>row\<in>set (servers_table w). Token row = Token s")
    case True
    then obtain row where row: "row \<in> set (servers_table w)" "Token row = Token s" by blast
    have t: "servers_table w' = map (\<lambda>row. if Token row = Token s
        then e\<lparr>srv_Timestamp := srv_Timestamp row\<rparr> else row) (servers_table w)"
      using assms True e(1) by (auto simp: Save_def Server_Exists_def Server_Update_def Let_def e_def split: if_splits)
    have "e\<lparr>srv_Timestamp := srv_Timestamp row\<rparr> \<in> set (servers_table w')"
      unfolding t using row by (force simp: image_iff)
    then show ?thesis by (rule bexI [rotated]) (simp add: e)
  next
    case False
    then have "servers_table w' = servers_table w @ [e\<lparr>srv_Timestamp := Some (le_now env)\<rparr>]"
      using assms by (auto simp: Save_def Server_Exists_def Server_Add_def Let_def e_def split: if_splits)
    then show ?thesis by (simp add: e)
  qed
qed

text \<open>
  A device paired by a user without a token gets the token of a server of the same user and phone if
  the registry has one, else the new one. Under that token there is then a verified server of the user,
  with the new session id and the paired connection linked to its handler; no other server changes. The
  server is started exactly if its row could be saved: a row with the token, the id and the user is then
  in the table, and otherwise the table is as it was.
\<close>
theorem pairing_attaches:
  assumes "registry_ok service" "order_ok env" "distinct (map (\<lambda>entry. ToLower (fst entry)) (Servers service))"
    and "pair_Token paired = []" "pair_Username paired \<noteq> []"
    and "OnPaired env service paired wid = (service', paired', started)"
  shows "(let mine = owned_phone (pair_Username paired) wid
          in if list_ex (\<lambda>entry. mine (snd entry)) (Servers service)
             then list_ex (\<lambda>entry. mine (snd entry) \<and> fst entry = pair_Token paired') (Servers service)
             else pair_Token paired' = sv_uuid env)
     \<and> (\<exists>server. map_of (Servers service') = (map_of (Servers service))(pair_Token paired' \<mapsto> server) \<and>
          Wid server = wid \<and> User server = pair_Username paired \<and> Verified server \<and>
          connection server = map_option UpdateHandler (pair_conn paired))
     \<and> (case started of
          None \<Rightarrow> svc_world service' = svc_world service
        | Some token \<Rightarrow> token = pair_Token paired' \<and>
            (\<exists>row\<in>set (servers_table (svc_world service')).
               Token row = token \<and> Wid row = wid \<and> User row = pair_Username paired \<and> Verified row))"
proof -
  define token where "token = GetUserToken env service (paired\<lparr>pair_Wid := wid\<rparr>)"
  define p where "p = paired\<lparr>pair_Wid := wid, pair_Token := token\<rparr>"
  obtain s server err where a: "AppendPaired env service p = (s, server, err)" by (metis prod_cases3)
  have r: "service' = s" "paired' = p" "started = (if err = None then Some (Token server) else None)"
    using assms(4-6) a by (auto simp: OnPaired_def Let_def p_def token_def split: option.splits)
  have p_sel: "pair_Token p = token" "pair_Wid p = wid" "pair_Username p = pair_Username paired" "pair_conn p = pair_conn paired"
    by (simp_all add: p_def)
  from a obtain filled where f: "s = put_server filled (pair_Token p) server" "Servers filled = Servers service"
    "Save (sv_life env) (svc_world service) (paired_server env service p) = (svc_world s, server, err)"
    "Token server = pair_Token p"
    by (rule AppendPaired_spec)
  note sel = paired_server_sel [where env = env and service = service and paired = p, unfolded p_sel]
  have u: "User (paired_server env service p) = pair_Username paired" using assms(5) sel(4) by simp
  note frame = saved_frame [OF f(3), unfolded sel(1-3,5) u]
  have row: "err = None \<Longrightarrow> \<exists>row\<in>set (servers_table (svc_world s)).
      Token row = token \<and> Wid row = wid \<and> User row = pair_Username paired \<and> Verified row"
    using Save_row f(3) sel(1-3) u by metis
  have t: "if list_ex (\<lambda>entry. owned_phone (pair_Username paired) wid (snd entry)) (Servers service)
     then list_ex (\<lambda>entry. owned_phone (pair_Username paired) wid (snd entry) \<and> fst entry = token) (Servers service)
     else token = sv_uuid env"
    using GetUserToken_spec [OF assms(1-3), of "paired\<lparr>pair_Wid := wid\<rparr>"] unfolding token_def by (simp split: if_splits)
  moreover have "map_of (Servers s) = (map_of (Servers service))(token \<mapsto> server)"
    unfolding f(1) p_sel put_server_look f(2) ..
  moreover have "Wid server = wid \<and> User server = pair_Username paired \<and> Verified server \<and>
      connection server = map_option UpdateHandler (pair_conn paired)"
    using frame(1-4) sel(3) by simp
  ultimately show ?thesis
    unfolding r p_sel Let_def using frame(6) row f(4) p_sel(1) by (cases err) auto
qed

theorem pairing_attaches_witness:
  "pair_Token (fst (snd (OnPaired sample_service_env sample_service
     \<lparr>pair_Token = [], pair_Wid = [], pair_Username = ''me'', pair_conn = None\<rparr> ''5521:9@s.whatsapp.net''))) = ''Ab''"
proof -
  let ?p = "\<lparr>pair_Token = [], pair_Wid = [], pair_Username = ''me'', pair_conn = None\<rparr>"
  obtain s p started where r: "OnPaired sample_service_env sample_service ?p ''5521:9@s.whatsapp.net'' = (s, p, started)"
    by (metis prod_cases3)
  have e: "list_ex (\<lambda>entry. owned_phone ''me'' ''5521:9@s.whatsapp.net'' (snd entry)) (Servers sample_service)"
    "\<not> owned_phone ''me'' ''5521:9@s.whatsapp.net'' (NewQpWhatsappServer 8 (new_info ''cd'' ''you'' ''5531:1@s.whatsapp.net''))"
    by code_simp+
  from pairing_attaches [OF sample_service_ok _ _ r] e(1)
  have "list_ex (\<lambda>entry. owned_phone ''me'' ''5521:9@s.whatsapp.net'' (snd entry) \<and> fst entry = pair_Token p) (Servers sample_service)"
    by (simp add: Let_def)
  then show ?thesis using r e(2) by (simp add: sample_service_def)
qed

section \<open>Starting the service\<close>

lemma new_server_starts:
  "(GetState (NewQpWhatsappServer now info) = UnPrepared \<or> IsValidToStart (GetState (NewQpWhatsappServer now info))) \<longleftrightarrow> Verified info"
  by (simp add: GetState_def IsValidToStart_def)

lemma load_fresh:
  assumes "Token info \<notin> fst ` set (Servers source)"
  shows "load_server env (source, started) info =
    (put_server (fill_dispatching env info source) (Token info) (NewQpWhatsappServer (le_now (sv_life env)) info),
     if Verified info then started @ [Token info] else started)"
proof -
  have "map_of (Servers source) (Token info) = None" using assms by (simp add: map_of_eq_None_iff)
  then show ?thesis by (simp add: load_server_def AppendNewServer_def Let_def new_server_starts)
qed

lemma load_all:
  assumes "distinct (map fst (Servers source) @ map Token infos)"
    and "distinct (map fst (svc_dispatchings source) @ map Token infos)"
  shows "\<exists>source'. foldl (load_server env) (source, started) infos = (source', started @ map Token (filter Verified infos)) \<and>
     Servers source' = Servers source @ map (\<lambda>info. (Token info, NewQpWhatsappServer (le_now (sv_life env)) info)) infos \<and>
     svc_dispatchings source' = svc_dispatchings source @ map (\<lambda>info. (Token info,
       fst (DispatchingFill (sv_codec env) (sv_fill env) (dw_table (life_dispatch (svc_world source)))
         (Token info) (Wid info) \<lparr>Dispatchings = [], dd_context = []\<rparr>))) infos \<and>
     svc_world source' = svc_world source \<and> svc_users source' = svc_users source"
  using assms
proof (induction infos arbitrary: source started)
  case (Cons info infos)
  have n: "Token info \<notin> fst ` set (Servers source)" "Token info \<notin> fst ` set (svc_dispatchings source)"
    using Cons.prems by auto
  let ?s = "put_server (fill_dispatching env info source) (Token info) (NewQpWhatsappServer (le_now (sv_life env)) info)"
  have s: "Servers ?s = Servers source @ [(Token info, NewQpWhatsappServer (le_now (sv_life env)) info)]"
    "svc_dispatchings ?s = svc_dispatchings source @ [(Token info,
       fst (DispatchingFill (sv_codec env) (sv_fill env) (dw_table (life_dispatch (svc_world source)))
         (Token info) (Wid info) \<lparr>Dispatchings = [], dd_context = []\<rparr>))]"
    "svc_world ?s = svc_world source" "svc_users ?s = svc_users source"
    using n by (simp_all add: put_server_def fill_dispatching_def update_fresh)
  have "distinct (map fst (Servers ?s) @ map Token infos)" "distinct (map fst (svc_dispatchings ?s) @ map Token infos)"
    using Cons.prems unfolding s by auto
  from Cons.IH [OF this, of "if Verified info then started @ [Token info] else started"]
  show ?case unfolding s using load_fresh [OF n(1), of env started] by auto
qed simp

text \<open>
  C31. Initialising an empty registry makes one server per row of the table, in order, with the row's data
  and no connection; the ones started are those whose row is verified. The dispatchings in memory of each
  mirror its rows of the dispatching table. A second initialisation, whatever the database holds by then,
  does nothing.
\<close>
theorem initialize_mirrors:
  assumes "Servers service = []" "svc_dispatchings service = []" "\<not> Initialized service"
    and "le_db_ok (sv_life env)" "sv_fill env"
    and "distinct (map Token (servers_table (svc_world service)))"
    and "distinct (map (\<lambda>row. (row_context row, row_connection row)) (dw_table (life_dispatch (svc_world service))))"
    and "\<forall>t. ParseExtra (sv_codec env) (GetExtraText (sv_codec env) (ParseExtra (sv_codec env) t)) = ParseExtra (sv_codec env) t"
    and "Service_Initialize env service = (service', started)"
  shows "map (\<lambda>(key, server). (key, QpServer.truncate server, connection server)) (Servers service') =
       map (\<lambda>row. (Token row, row, None)) (servers_table (svc_world service))
     \<and> started = map Token (filter Verified (servers_table (svc_world service)))
     \<and> map fst (svc_dispatchings service') = map Token (servers_table (svc_world service))
     \<and> list_all (\<lambda>(token, memory). in_step (sv_codec env) token (life_dispatch (svc_world service), memory)) (svc_dispatchings service')
     \<and> Service_Initialize env' (service'\<lparr>svc_world := w\<rparr>) = (service'\<lparr>svc_world := w\<rparr>, [])"
proof -
  let ?rows = "servers_table (svc_world service)"
  have d: "distinct (map fst (Servers service) @ map Token ?rows)" "distinct (map fst (svc_dispatchings service) @ map Token ?rows)"
    using assms(1,2,6) by simp_all
  obtain s where s: "foldl (load_server env) (service, []) ?rows = (s, map Token (filter Verified ?rows))"
    "Servers s = map (\<lambda>info. (Token info, NewQpWhatsappServer (le_now (sv_life env)) info)) ?rows"
    "svc_dispatchings s = map (\<lambda>info. (Token info,
       fst (DispatchingFill (sv_codec env) True (dw_table (life_dispatch (svc_world service)))
         (Token info) (Wid info) \<lparr>Dispatchings = [], dd_context = []\<rparr>))) ?rows"
    using load_all [OF d, of env "[]"] assms(1,2,5) by auto
  have r: "service' = s\<lparr>Initialized := True\<rparr>" "started = map Token (filter Verified ?rows)"
    using assms(9) unfolding Service_Initialize_def if_P [OF assms(4)] s(1) using assms(3) by simp_all
  have mirror: "in_step (sv_codec env) token (life_dispatch (svc_world service),
      fst (DispatchingFill (sv_codec env) True (dw_table (life_dispatch (svc_world service))) token wid m))" for token wid m
    by (rule Fill_in_step [OF assms(7,8) _ refl]) (rule prod.collapse [symmetric])
  show ?thesis
    unfolding r by (simp add: s(2,3) comp_def list_all_iff mirror Service_Initialize_def)
qed

definition sample_rows :: "QpServer list" where
  "sample_rows = [(new_info ''t1'' ''me'' ''5521@s.whatsapp.net'')\<lparr>Verified := True\<rparr>, new_info ''t2'' ''me'' ''5531@s.whatsapp.net'']"

theorem initialize_mirrors_witness:
  "snd (Service_Initialize sample_service_env (empty_service\<lparr>svc_world := empty_world\<lparr>servers_table := sample_rows\<rparr>\<rparr>)) = [''t1'']"
proof -
  let ?s = "empty_service\<lparr>svc_world := empty_world\<lparr>servers_table := sample_rows\<rparr>\<rparr>"
  obtain s started where r: "Service_Initialize sample_service_env ?s = (s, started)" by force
  have "started = map Token (filter Verified (servers_table (svc_world ?s)))"
    using initialize_mirrors [OF _ _ _ _ _ _ _ _ r, of sample_service_env "svc_world s"]
    by (simp add: empty_service_def sample_service_env_def sample_life_env_def sample_rows_def new_info_def empty_world_def
        plain_codec_def split: option.split)
  then show ?thesis using r by (simp add: sample_rows_def new_info_def)
qed

text \<open>
  Where creating accounts is disabled and the default account is missing, the first start fails after
  the service has been made: no server is loaded, and every later start reports success without loading
  any, although the service was never initialised.
\<close>
theorem failed_start_reported_once:
  assumes "\<not> Users_Exists users DEFAULTEMAIL"
    and "QPWhatsappStart env False hash True w users None = (service, started, err)"
  shows "err = Some SetupDisabled \<and> started = [] \<and> Servers service = [] \<and> \<not> Initialized service \<and>
     QPWhatsappStart env' setup hash' ok w' users' (Some service) = (service, [], None)"
  using assms by (auto simp: QPWhatsappStart_def InitialSeed_def Users_Create_def Let_def)

theorem failed_start_reported_once_witness:
  "snd (snd (QPWhatsappStart sample_service_env False Some True (empty_world\<lparr>servers_table := sample_rows\<rparr>) [] None)) = Some SetupDisabled"
proof -
  obtain s started err where r: "QPWhatsappStart sample_service_env False Some True (empty_world\<lparr>servers_table := sample_rows\<rparr>) [] None =
      (s, started, err)"
    by (metis prod_cases3)
  then show ?thesis using failed_start_reported_once [OF _ r] by (simp add: Users_Exists_def)
qed

section \<open>Deleting a server\<close>

text \<open>
  A deletion that succeeds removes the server and its dispatchings from the registry and its rows
  from both tables, and keeps every other server; its RabbitMQ clients stay open. One that fails keeps
  the server in the registry, and its dispatchings in memory, even when their rows are gone already.
\<close>
theorem delete_forgets:
  assumes "registry_ok service" and "map_of (Servers service) token = Some server"
    and "Service_Delete env logout store_delete clear_ok service server = (service', err)"
  shows "if err = None
     then map_of (Servers service') = (map_of (Servers service))(token := None) \<and>
          map_of (svc_dispatchings service') = (map_of (svc_dispatchings service))(token := None) \<and>
          (\<forall>row\<in>set (servers_table (svc_world service')). Token row \<noteq> token) \<and>
          (\<forall>row\<in>set (dw_table (life_dispatch (svc_world service'))). row_context row \<noteq> token) \<and>
          other_rows token (servers_table (svc_world service')) = other_rows token (servers_table (svc_world service)) \<and>
          dw_manager (life_dispatch (svc_world service')) = dw_manager (life_dispatch (svc_world service))
     else map_of (Servers service') token \<noteq> None \<and> svc_dispatchings service' = svc_dispatchings service \<and>
          servers_table (svc_world service') = servers_table (svc_world service) \<and>
          (err = Some (ServiceError DatabaseDeleteError) \<longrightarrow>
             (\<forall>row\<in>set (dw_table (life_dispatch (svc_world service'))). row_context row \<noteq> token))"
proof -
  have t: "Token server = token" by (rule look_token [OF assms(1,2)])
  obtain w s e where d: "Server_Delete (sv_life env) logout store_delete clear_ok (svc_world service) server = (w, s, e)"
    by (metis prod_cases3)
  have ts: "Token s = token"
    using own_Server_Delete [of "svc_world service" server "sv_life env" logout store_delete clear_ok] d t by simp
  have m: "dw_manager (life_dispatch w) = dw_manager (life_dispatch (svc_world service))"
    using d by (auto simp: Server_Delete_def Let_def split: option.splits prod.splits if_splits)
  have del: "servers_table w = servers_table (svc_world service)" if "e \<noteq> None"
    using d that by (auto simp: Server_Delete_def Server_DeleteRow_def Let_def split: option.splits prod.splits if_splits)
  have rows: "e = None \<Longrightarrow> (\<forall>row\<in>set (servers_table w). Token row \<noteq> token) \<and>
      (\<forall>row\<in>set (dw_table (life_dispatch w)). row_context row \<noteq> token)"
    and gone: "e = Some DatabaseDeleteError \<Longrightarrow> \<forall>row\<in>set (dw_table (life_dispatch w)). row_context row \<noteq> token"
    using d t by (auto simp: Server_Delete_def Server_DeleteRow_def Sql_Clear_def Let_def
        split: option.splits prod.splits if_splits)
  have other: "other_rows token (servers_table w) = other_rows token (servers_table (svc_world service))"
    using own_Server_Delete [of "svc_world service" server "sv_life env" logout store_delete clear_ok] d t
    by (simp add: touches_def)
  show ?thesis
  proof (cases e)
    case None
    then show ?thesis using assms(3) d ts m rows other by (auto simp: Service_Delete_def delete_conv' restrict_map_def fun_eq_iff)
  next
    case (Some x)
    then show ?thesis using assms(3) d ts del gone by (auto simp: Service_Delete_def put_server_def update_conv')
  qed
qed

theorem delete_forgets_witness:
  "map_of (Servers (fst (Service_Delete sample_service_env None None True sample_service
     (NewQpWhatsappServer 7 (new_info ''Ab'' ''me'' ''5521:3@s.whatsapp.net''))))) ''Ab'' = None"
proof -
  let ?x = "NewQpWhatsappServer 7 (new_info ''Ab'' ''me'' ''5521:3@s.whatsapp.net'')"
  obtain s err where r: "Service_Delete sample_service_env None None True sample_service ?x = (s, err)" by force
  have l: "map_of (Servers sample_service) ''Ab'' = Some ?x" by (simp add: sample_service_def)
  have "snd (Service_Delete sample_service_env None None True sample_service ?x) = None" by code_simp
  then show ?thesis using delete_forgets [OF sample_service_ok(1) l r] r by simp
qed

section \<open>Accounts and passwords\<close>

text \<open>
  The documented behaviour of bcrypt: it hashes passwords of up to 72 bytes only, and a hash of one
  matches it and no other plain password. A password with a zero byte is not plain: the algorithm repeats
  the password, ended by a zero byte, until it has 72 bytes.
\<close>

definition plain_password :: "string \<Rightarrow> bool" where
  "plain_password password \<longleftrightarrow> length password \<le> 72 \<and> CHR 0x00 \<notin> set password"

definition bcrypt_law :: "(string \<Rightarrow> string option) \<Rightarrow> (string \<Rightarrow> string \<Rightarrow> bool) \<Rightarrow> bool" where
  "bcrypt_law hash matches \<longleftrightarrow>
     (\<forall>p h. hash p = Some h \<longrightarrow> length p \<le> 72 \<and>
        (plain_password p \<longrightarrow> (\<forall>q. plain_password q \<longrightarrow> matches h q = (q = p))))"

lemma find_map_same:
  "(\<And>x. P (f x) = P x) \<Longrightarrow> find P (map f xs) = map_option f (find P xs)"
  by (induction xs) auto

text \<open>
  An account that was created, or whose password was changed, opens with that password and with no
  other plain one, unless its name is empty: such an account can be created and never opens. The answers
  for all other accounts stay the same.
\<close>
theorem account_opens_with_its_password:
  assumes "bcrypt_law hash matches" "plain_password p" "plain_password q"
    and "Users_Create setup hash ok users username p = (users', Inr user) \<or>
         Users_UpdatePassword hash ok users username p = (users', None)"
  shows "isl (Users_Check matches users' username q) = (username = [] \<or> q \<noteq> p)
     \<and> (\<forall>other. other \<noteq> username \<longrightarrow> Users_Check matches users' other q = Users_Check matches users other q)"
proof -
  obtain h where h: "hash p = Some h"
    using assms(4) by (cases "hash p") (auto simp: Users_Create_def Users_UpdatePassword_def split: if_splits)
  then have m: "matches h q = (q = p)" using assms(1-3) unfolding bcrypt_law_def by blast
  have key: "Users_Exists users username = (find (\<lambda>user. Username user = username) users \<noteq> None)" for users
    by (auto simp: Users_Exists_def find_None_iff)
  let ?set = "\<lambda>user. if Username user = username then user\<lparr>Password := h\<rparr> else user"
  have upd: "find (\<lambda>user. Username user = other) (map ?set users) = map_option ?set (find (\<lambda>user. Username user = other) users)" for other
    by (rule find_map_same) simp
  consider "\<not> Users_Exists users username" "users' = users @ [\<lparr>Username = username, Password = h\<rparr>]"
    | "Users_Exists users username" "users' = map ?set users"
    using assms(4) h by (auto simp: Users_Create_def Users_UpdatePassword_def Let_def split: if_splits)
  then show ?thesis
  proof cases
    case 1
    then show ?thesis using m by (auto simp: Users_Check_def key find_append split: option.split)
  next
    case 2
    then obtain user where u: "find (\<lambda>user. Username user = username) users = Some user" "Username user = username"
      by (auto simp: key find_Some_iff)
    have "Users_Check matches users' other q = Users_Check matches users other q" if "other \<noteq> username" for other
    proof (cases "find (\<lambda>user. Username user = other) users")
      case (Some found)
      then have "Username found = other" by (auto simp: find_Some_iff)
      then show ?thesis unfolding 2(2) Users_Check_def upd Some using that by simp
    qed (simp only: 2(2) Users_Check_def upd option.map option.case)
    moreover have "isl (Users_Check matches users' username q) = (username = [] \<or> q \<noteq> p)"
      unfolding 2(2) Users_Check_def upd u(1) using u(2) m by simp
    ultimately show ?thesis by blast
  qed
qed

theorem account_opens_with_its_password_witness:
  "\<not> isl (Users_Check (=) (fst (Users_Create True (\<lambda>p. if length p \<le> 72 then Some p else None) True [] ''me'' ''secret'')) ''me'' ''secret'')"
proof -
  let ?hash = "\<lambda>p :: string. if length p \<le> 72 then Some p else None"
  have law: "bcrypt_law ?hash (=)" by (auto simp: bcrypt_law_def)
  have c: "Users_Create True ?hash True [] ''me'' ''secret'' =
      (fst (Users_Create True ?hash True [] ''me'' ''secret''), Inr \<lparr>Username = ''me'', Password = ''secret''\<rparr>)"
    by (simp add: Users_Create_def Users_Exists_def Let_def)
  have p: "plain_password ''secret''" by (simp add: plain_password_def)
  show ?thesis using account_opens_with_its_password [OF law p p disjI1 [OF c]] by simp
qed

end
