(* ===== verification/Http.thy ===== *)
theory Http
  imports Service
begin

text \<open>
  Requests and responses of the web API: \<open>src/library/http_request_extensions.go\<close>, \<open>src/models/util.go\<close>,
  \<open>qp_response.go\<close>, \<open>src/api/response.go\<close>, \<open>api_extensions.go\<close> and \<open>api_server_extensions.go\<close>. The router's
  path parameters are a function, being third-party; the parsed query is a list in the order in which the
  map of the Go library happens to be visited.
\<close>

section \<open>Go library functions\<close>

fun hex_value :: "char \<Rightarrow> nat option" where
  "hex_value c =
     (if is_digit c then Some (of_char c - 48)
      else if CHR ''a'' \<le> c \<and> c \<le> CHR ''f'' then Some (of_char c - 87)
      else if CHR ''A'' \<le> c \<and> c \<le> CHR ''F'' then Some (of_char c - 55)
      else None)"

fun QueryUnescape :: "string \<Rightarrow> string option" where
  "QueryUnescape [] = Some []"
| "QueryUnescape (c # s) =
     (if c = CHR ''%'' then
        (case s of
           a # b # r \<Rightarrow>
             (case (hex_value a, hex_value b) of
                (Some x, Some y) \<Rightarrow> map_option (\<lambda>t. char_of (16 * x + y) # t) (QueryUnescape r)
              | _ \<Rightarrow> None)
         | _ \<Rightarrow> None)
      else map_option (\<lambda>t. (if c = CHR ''+'' then CHR '' '' else c) # t) (QueryUnescape s))"

definition digits_value :: "string \<Rightarrow> int" where
  "digits_value s = foldl (\<lambda>v c. 10 * v + int (of_char c - 48)) 0 s"

text \<open>\<open>strconv.ParseInt\<close> to base 10 and 64 bits, and \<open>strconv.ParseBool\<close>.\<close>

definition ParseInt :: "string \<Rightarrow> int option" where
  "ParseInt s =
     (let neg = HasPrefix s ''-'';
          t = (if neg \<or> HasPrefix s ''+'' then tl s else s);
          v = (if neg then - digits_value t else digits_value t)
      in if t = [] \<or> \<not> list_all is_digit t \<or> v < - (2 ^ 63) \<or> 2 ^ 63 \<le> v then None else Some v)"

definition ParseBool :: "string \<Rightarrow> bool option" where
  "ParseBool s =
     (if s \<in> {''1'', ''t'', ''T'', ''true'', ''TRUE'', ''True''} then Some True
      else if s \<in> {''0'', ''f'', ''F'', ''false'', ''FALSE'', ''False''} then Some False
      else None)"

section \<open>Requests\<close>

text \<open>\<open>rq_disposition\<close> is the file name that the Go library parses from the content disposition.\<close>

record http_request =
  rq_method :: string
  rq_path :: "string \<Rightarrow> string"
  rq_query :: "(string \<times> string list) list"
  rq_form :: "(string \<times> string list) list"
  rq_header :: "(string \<times> string) list"
  rq_disposition :: "string option"
  rq_length :: int

definition QueryHasKey :: "http_request \<Rightarrow> string \<Rightarrow> bool" where
  "QueryHasKey r key \<longleftrightarrow> list_ex (\<lambda>k. EqualFold (fst k) key) (rq_query r)"

definition first_value :: "string list \<Rightarrow> string" where
  "first_value vs = (case vs of [] \<Rightarrow> [] | v # _ \<Rightarrow> v)"

definition QueryGetValue :: "http_request \<Rightarrow> string \<Rightarrow> string" where
  "QueryGetValue r key =
     (case find (\<lambda>k. EqualFold (fst k) key) (rq_query r) of
        None \<Rightarrow> []
      | Some k \<Rightarrow>
          (case QueryUnescape (first_value (snd k)) of Some v \<Rightarrow> v | None \<Rightarrow> first_value (snd k)))"

definition Header_Get :: "http_request \<Rightarrow> string \<Rightarrow> string" where
  "Header_Get r key = (case find (\<lambda>h. EqualFold (fst h) key) (rq_header r) of None \<Rightarrow> [] | Some h \<Rightarrow> snd h)"

definition GetRequestParameter :: "http_request \<Rightarrow> string \<Rightarrow> string" where
  "GetRequestParameter r parameter =
     TrimSpace
       (if rq_path r parameter \<noteq> [] then rq_path r parameter
        else if QueryHasKey r parameter then QueryGetValue r parameter
        else (case map_of (rq_form r) parameter of
                Some vs \<Rightarrow> first_value vs
              | None \<Rightarrow> Header_Get r (''X-QUEPASA-'' @ ToUpper parameter)))"

definition GetChatId :: "http_request \<Rightarrow> string" where
  "GetChatId r = GetRequestParameter r ''chatid''"

definition GetFileName :: "http_request \<Rightarrow> string" where
  "GetFileName r =
     (let filename = GetRequestParameter r ''filename'';
          filename = (if filename = [] then (case rq_disposition r of Some f \<Rightarrow> f | None \<Rightarrow> []) else filename)
      in if filename = [] then []
         else TrimSpace (case QueryUnescape filename of Some f \<Rightarrow> f | None \<Rightarrow> filename))"

definition util_ToBooleanWithDefault :: "string \<Rightarrow> bool \<Rightarrow> bool" where
  "util_ToBooleanWithDefault s v = (case ParseBool s of None \<Rightarrow> v | Some b \<Rightarrow> b)"

definition util_ToBoolean :: "string \<Rightarrow> bool" where
  "util_ToBoolean s = util_ToBooleanWithDefault s False"

definition GetTrackId :: "http_request \<Rightarrow> string" where "GetTrackId r = GetRequestParameter r ''trackid''"

definition GetPictureId :: "http_request \<Rightarrow> string" where "GetPictureId r = GetRequestParameter r ''pictureid''"

definition GetToken :: "http_request \<Rightarrow> string" where "GetToken r = GetRequestParameter r ''token''"

definition GetMasterKey :: "http_request \<Rightarrow> string" where "GetMasterKey r = GetRequestParameter r ''masterkey''"

definition GetTextParameter :: "http_request \<Rightarrow> string" where "GetTextParameter r = GetRequestParameter r ''text''"

definition GetInReplyParameter :: "http_request \<Rightarrow> string" where
  "GetInReplyParameter r = GetRequestParameter r ''inreply''"

definition GetMessageId :: "http_request \<Rightarrow> string" where
  "GetMessageId r =
     (let messageid = GetRequestParameter r ''messageid''
      in if messageid = [] then QueryGetValue r ''id'' else messageid)"

definition GetCache :: "http_request \<Rightarrow> bool" where "GetCache r = util_ToBoolean (GetRequestParameter r ''cache'')"

definition GetMessageIdAsPrefix :: "http_request \<Rightarrow> bool" where
  "GetMessageIdAsPrefix r = util_ToBooleanWithDefault (GetRequestParameter r ''messageidasprefix'') True"

text \<open>Times here are nanoseconds, and the results seconds; \<open>None\<close> is the error of \<open>ParseInt\<close>.\<close>

definition StringToTimestamp :: "string \<Rightarrow> int option" where
  "StringToTimestamp timestamp = (if timestamp = [] then Some 0 else ParseInt timestamp)"

definition minutes_ago :: "int \<Rightarrow> int \<Rightarrow> int" where
  "minutes_ago now minutes = (now + sint (- (word_of_int minutes :: 64 word) * 60000000000)) div 1000000000"

definition Request_GetTimestamp :: "int \<Rightarrow> http_request \<Rightarrow> int option" where
  "Request_GetTimestamp now r =
     (let paramTimestamp = GetRequestParameter r ''timestamp''; paramLast = GetRequestParameter r ''last''
      in if paramTimestamp = [] \<and> paramLast \<noteq> [] \<and> ParseInt paramLast \<noteq> None
         then Some (minutes_ago now (the (ParseInt paramLast)))
         else StringToTimestamp paramTimestamp)"

section \<open>Responses\<close>

text \<open>
  A status is empty, a message or the text of an error, which is never empty. \<open>RespondSuccess\<close> completes
  only a response whose \<open>ParseSuccess\<close> takes a text; for others it is \<open>RespondInterfaceCode\<close> with 200.
\<close>

datatype 'e api_status = NoStatus | StatusText string | StatusFailed 'e

record 'e QpResponse =
  Success :: bool
  Status :: "'e api_status"

definition empty_response :: "'e QpResponse" where
  "empty_response = \<lparr>Success = False, Status = NoStatus\<rparr>"

definition Response_Error :: "'e QpResponse \<Rightarrow> 'e api_status" where
  "Response_Error source = (if \<not> Success source then Status source else NoStatus)"

definition ParseError :: "'e \<Rightarrow> ('e, 'a) QpResponse_scheme \<Rightarrow> ('e, 'a) QpResponse_scheme" where
  "ParseError err source = source\<lparr>Success := False, Status := StatusFailed err\<rparr>"

definition ParseSuccess :: "string \<Rightarrow> ('e, 'a) QpResponse_scheme \<Rightarrow> ('e, 'a) QpResponse_scheme" where
  "ParseSuccess status source =
     source\<lparr>Success := True, Status := (if status = [] then NoStatus else StatusText status)\<rparr>"

type_synonym ('e, 'a) answer = "nat \<times> ('e, 'a) QpResponse_scheme"

definition RespondInterfaceCode :: "nat \<Rightarrow> ('e, 'a) QpResponse_scheme \<Rightarrow> ('e, 'a) answer" where
  "RespondInterfaceCode code response =
     ((if code = 0 then (if Success response then 200 else 400) else code), response)"

definition RespondInterface :: "('e, 'a) QpResponse_scheme \<Rightarrow> ('e, 'a) answer" where
  "RespondInterface response = RespondInterfaceCode 0 response"

definition RespondSuccess :: "('e, 'a) QpResponse_scheme \<Rightarrow> ('e, 'a) answer" where
  "RespondSuccess response =
     RespondInterfaceCode 200
       (if \<not> Success response \<and> Status response = NoStatus then ParseSuccess [] response else response)"

section \<open>Whose request it is\<close>

text \<open>\<open>master\<close> is the master key of the settings.\<close>

datatype key_error = NotAllowed | WrongKey | KeyService service_error

definition GetServer :: "service_env \<Rightarrow> QPWhatsappService \<Rightarrow> http_request \<Rightarrow> service_error + QpWhatsappServer" where
  "GetServer env service r = GetServerFromToken env service (GetToken r)"

definition IsMatchForMaster :: "string \<Rightarrow> http_request \<Rightarrow> bool" where
  "IsMatchForMaster master r \<longleftrightarrow> length master > 0 \<and> EqualFold master (GetMasterKey r)"

definition GetServerFromMaster ::
    "service_env \<Rightarrow> string \<Rightarrow> QPWhatsappService \<Rightarrow> http_request \<Rightarrow> key_error + QpWhatsappServer" where
  "GetServerFromMaster env master service r =
     (if length master = 0 then Inl NotAllowed
      else if \<not> EqualFold master (GetMasterKey r) then Inl WrongKey
      else map_sum KeyService id (GetServerFirstAvailable env service))"

section \<open>Lemmas\<close>

lemma respond_simps [simp]:
  "RespondInterface response = (if Success response then 200 else 400, response)"
  "RespondInterfaceCode (Suc n) response = (Suc n, response)"
  "Success (ParseError err response) = False" "Status (ParseError err response) = StatusFailed err"
  "Success (ParseSuccess s response) = True"
  by (simp_all add: RespondInterface_def RespondInterfaceCode_def ParseError_def ParseSuccess_def)

text \<open>
  The number of minutes a caller asks to look back is exact up to 153,722,867; one more overflows the
  64-bit duration, and the time searched from then lies in the future.
\<close>
theorem minutes_ago_bounds:
  assumes "\<bar>minutes\<bar> \<le> 153722867"
  shows "minutes_ago now minutes = (now - minutes * 60 * 1000000000) div 1000000000 \<and>
     now div 1000000000 < minutes_ago now 153722868"
proof -
  have w: "- (word_of_int minutes :: 64 word) * 60000000000 = word_of_int (- minutes * 60000000000)" by simp
  have "sint (word_of_int (- minutes * 60000000000) :: 64 word) = - minutes * 60000000000"
    unfolding sint_sbintrunc' using assms by (intro signed_take_bit_int_eq_self) (simp_all add: abs_le_iff)
  then have "minutes_ago now minutes = (now - minutes * 60 * 1000000000) div 1000000000"
    unfolding minutes_ago_def w by simp
  moreover have "sint (- (word_of_int 153722868 :: 64 word) * 60000000000) = 9223371993709551616"
    by code_simp
  ultimately show ?thesis by (simp add: minutes_ago_def)
qed

theorem minutes_ago_bounds_witness: "minutes_ago 1700000000000000000 60 = 1699996400"
  using minutes_ago_bounds [of 60 1700000000000000000] by simp

lemma TrimSpace_blank: "TrimSpace (CHR '' '' # s) = TrimSpace s"
  by (simp add: TrimSpace_def trim_runes.simps [of space_width "CHR '' '' # s"] space_width_def is_space_def)

text \<open>
  A value of the query reaches a handler with its plus signs replaced: the Go library has decoded it,
  and the program decodes it once more, so the plus of an international number is lost to the trimming
  whatever the client does to escape it once.
\<close>
theorem query_plus_lost:
  assumes "rq_path r key = []" "rq_query r = [(key, [CHR ''+'' # phone])]" "list_all is_digit phone"
  shows "GetRequestParameter r key = phone"
proof -
  have d: "QueryUnescape phone = Some phone"
    using assms(3) by (induction phone) (auto simp: is_digit_def)
  have "QueryGetValue r key = CHR '' '' # phone"
    using assms(2) d by (simp add: QueryGetValue_def first_value_def)
  moreover have "TrimSpace (CHR '' '' # phone) = phone"
    using assms(3) is_digit_solid by (simp add: TrimSpace_blank TrimSpace_id list_all_iff)
  ultimately show ?thesis using assms(1,2) by (simp add: GetRequestParameter_def QueryHasKey_def)
qed

theorem query_plus_lost_witness:
  "GetChatId \<lparr>rq_method = ''GET'', rq_path = (\<lambda>_. []), rq_query = [(''chatid'', [''+5521967609095''])], rq_form = [],
     rq_header = [], rq_disposition = None, rq_length = 0\<rparr> = ''5521967609095''"
  unfolding GetChatId_def
  using query_plus_lost [of "\<lparr>rq_method = ''GET'', rq_path = (\<lambda>_. []), rq_query = [(''chatid'', [''+5521967609095''])],
     rq_form = [], rq_header = [], rq_disposition = None, rq_length = 0\<rparr>" "''chatid''" "''5521967609095''"]
  by (simp add: is_digit_def)

end
