(* ===== verification/Api.thy ===== *)
theory Api
  imports Complex_Main Http
begin

text \<open>
  Controllers of the web API over the service: commands, health, server information, accounts and the
  dispatchings of a server (\<open>src/api/api_handlers.go\<close> and the controller files beside it). A controller
  takes the service and the request, with what reading and decoding its body gives, and returns the
  service and the reply. Logging and metrics are left out.
\<close>

section \<open>Bodies and replies\<close>

datatype 'r body = Unreadable | EmptyBody | BadJson string | JsonNull | Body 'r

definition body_request :: "'r body \<Rightarrow> 'r option" where
  "body_request b = (case b of Body r \<Rightarrow> Some r | _ \<Rightarrow> None)"

definition body_failed :: "'r body \<Rightarrow> bool" where
  "body_failed b = (case b of Unreadable \<Rightarrow> True | BadJson _ \<Rightarrow> True | _ \<Rightarrow> False)"

datatype api_error =
  NoServer service_error | SaveFailed server_error | DeleteFailed service_error | ServerFailed server_error
| UserFailed user_error | KeyFailed key_error | StoreFailed store_error | DispatchingFailed dispatch_store_error
| Invalid string | BadBody | NotReady string WhatsappConnectionState | ServiceMissing

text \<open>A handler that panics has its request dropped by the Go server; \<open>NoReply\<close> is an empty answer of code 200.\<close>

datatype 'a reply = Panics | NoReply | Reply nat 'a

definition reply :: "('e, 'a) answer \<Rightarrow> ('e, 'a) QpResponse_scheme reply" where
  "reply a = Reply (fst a) (snd a)"

definition failed :: "api_error \<Rightarrow> (api_error, 'a) QpResponse_scheme \<Rightarrow> (api_error, 'a) QpResponse_scheme reply" where
  "failed err response = reply (RespondInterface (ParseError err response))"

definition after ::
    "QPWhatsappService \<Rightarrow> server_result \<Rightarrow> QPWhatsappService \<times> QpWhatsappServer \<times> server_error option" where
  "after service r = (case r of (w, server, err) \<Rightarrow>
     (put_server (service\<lparr>svc_world := w\<rparr>) (Token server) server, server, err))"

section \<open>Commands\<close>

definition toggled :: "(WhatsappOptions \<Rightarrow> WhatsappOptions) \<Rightarrow> service_env \<Rightarrow> QPWhatsappService \<Rightarrow> QpWhatsappServer \<Rightarrow>
     QPWhatsappService \<times> QpWhatsappServer \<times> server_error option" where
  "toggled f env service server =
     after service (SetOptions (sv_life env) (svc_world service) server (f (WhatsappOptions.WhatsappOptions.truncate server)))"

text \<open>The error of a toggle is declared in the scope of its case: outside it there is none.\<close>

definition toggle_reply :: "string \<Rightarrow> server_error option \<Rightarrow> api_error QpResponse reply" where
  "toggle_reply message err =
     reply (RespondInterface (if err = None then ParseSuccess message empty_response else empty_response))"

definition command_reply :: "string \<Rightarrow> server_error option \<Rightarrow> api_error QpResponse reply" where
  "command_reply message err =
     (case err of None \<Rightarrow> reply (RespondInterface (ParseSuccess message empty_response))
      | Some e \<Rightarrow> failed (ServerFailed e) empty_response)"

definition CommandController ::
    "service_env \<Rightarrow> QPWhatsappService \<Rightarrow> http_request \<Rightarrow> QPWhatsappService \<times> api_error QpResponse reply" where
  "CommandController env service r =
     (case GetServer env service r of
        Inl err \<Rightarrow> (service, failed (NoServer err) empty_response)
      | Inr server \<Rightarrow>
          let action = GetRequestParameter r ''action''; w = svc_world service; le = sv_life env
          in if action = ''start'' then
               (case after service (Start le w server) of (s, _, err) \<Rightarrow> (s, command_reply ''started'' err))
             else if action = ''stop'' then
               (case after service (w, Stop server, None) of (s, _, err) \<Rightarrow> (s, command_reply ''stopped'' err))
             else if action = ''restart'' then
               (case after service (Restart le w server) of (s, _, err) \<Rightarrow> (s, command_reply ''restarted'' err))
             else if action = ''groups'' then
               (case toggled ToggleGroups env service server of
                  (s, server, err) \<Rightarrow> (s, toggle_reply (''groups toggled: '' @ WhatsappBoolean_String (Groups server)) err))
             else if action = ''broadcasts'' then
               (case toggled ToggleBroadcasts env service server of
                  (s, server, err) \<Rightarrow> (s, toggle_reply (''broadcasts toggled: '' @ WhatsappBoolean_String (Broadcasts server)) err))
             else if action = ''readreceipts'' then
               (case toggled ToggleReadReceipts env service server of
                  (s, server, err) \<Rightarrow> (s, toggle_reply (''readreceipts toggled: '' @ WhatsappBoolean_String (ReadReceipts server)) err))
             else if action = ''calls'' then
               (case toggled ToggleCalls env service server of
                  (s, server, err) \<Rightarrow> (s, toggle_reply (''calls toggled: '' @ WhatsappBoolean_String (Calls server)) err))
             else if action = ''readupdate'' then
               (case toggled ToggleReadUpdate env service server of
                  (s, server, err) \<Rightarrow> (s, toggle_reply (''readupdate toggled: '' @ WhatsappBoolean_String (ReadUpdate server)) err))
             else if action = ''debug'' then
               (case after service (ToggleDevel le w server) of
                  (s, server, err) \<Rightarrow> (s, toggle_reply (''debug toggled: '' @ (if Devel server then ''true'' else ''false'')) err))
             else if action = ''status'' then (service, failed (Invalid ''status command has been removed'') empty_response)
             else (service, failed (Invalid ''invalid action'') empty_response))"

section \<open>Health\<close>

text \<open>The percentage is the exact quotient, the code's is its floating point number.\<close>

record HealthStats =
  Total :: nat
  Healthy :: nat
  Unhealthy :: nat
  Percentage :: rat

record HealthResponse = "api_error QpResponse" +
  hr_Timestamp :: time
  hr_Uptime :: "time option"
  hr_Wid :: string
  hr_State :: "WhatsappConnectionState option"
  hr_Items :: "QpHealthResponseItem list"
  hr_Stats :: "HealthStats option"

definition calculateHealthStats :: "QpHealthResponseItem list \<Rightarrow> HealthStats" where
  "calculateHealthStats items =
     (let stats = foldl (\<lambda>stats item.
            if Item_GetHealth item then stats\<lparr>Healthy := Healthy stats + 1\<rparr> else stats\<lparr>Unhealthy := Unhealthy stats + 1\<rparr>)
            \<lparr>Total = length items, Healthy = 0, Unhealthy = 0, Percentage = 0\<rparr> items
      in if Total stats > 0
         then stats\<lparr>Percentage := of_nat (Healthy stats) / of_nat (Total stats) * 100\<rparr> else stats)"

definition new_health :: "time \<Rightarrow> HealthResponse" where
  "new_health now = \<lparr>Success = False, Status = NoStatus, hr_Timestamp = now, hr_Uptime = None, hr_Wid = [],
     hr_State = None, hr_Items = [], hr_Stats = None\<rparr>"

definition BasicHealthController :: "time \<Rightarrow> HealthResponse reply" where
  "BasicHealthController now = reply (RespondInterface (ParseSuccess ''application is running'' (new_health now)))"

definition with_stats :: "QpHealthResponseItem list \<Rightarrow> time \<Rightarrow> HealthResponse \<Rightarrow> HealthResponse" where
  "with_stats items uptime response =
     (let stats = calculateHealthStats items
      in response\<lparr>hr_Items := items, hr_Stats := Some stats, hr_Uptime := Some uptime,
           Success := Unhealthy stats = 0 \<and> Total stats > 0\<rparr>)"

text \<open>\<open>started\<close> is the start of the application and \<open>matches\<close> the comparison of a password with its hash.\<close>

definition HealthController ::
    "service_env \<Rightarrow> (string \<Rightarrow> string \<Rightarrow> bool) \<Rightarrow> string \<Rightarrow> time \<Rightarrow> QPWhatsappService option \<Rightarrow> http_request \<Rightarrow> HealthResponse reply" where
  "HealthController env matches master started service r =
     (let now = le_now (sv_life env); response = new_health now
      in case service of
           None \<Rightarrow> failed ServiceMissing response
         | Some service \<Rightarrow>
             let token = GetToken r; isMaster = IsMatchForMaster master r;
                 username = Header_Get r ''X-QUEPASA-USER''; password = Header_Get r ''X-QUEPASA-PASSWORD'';
                 credentials = (username \<noteq> [] \<and> password \<noteq> [])
             in if \<not> (token \<noteq> [] \<or> isMaster \<or> credentials) then
                  reply (RespondSuccess ((ParseSuccess ''application is running'' response)\<lparr>hr_Uptime := Some (now - started)\<rparr>))
                else if isMaster then
                  reply (RespondInterface (with_stats (GetHealth env service) (now - started) response))
                else if credentials then
                  (case GetUser matches service username password of
                     Inl err \<Rightarrow> reply (RespondSuccess (ParseError (UserFailed err) response))
                   | Inr user \<Rightarrow>
                       let items = map (\<lambda>e. ToHealthReponseItem (snd e))
                             (filter (\<lambda>e. User (snd e) = Username user) (sv_order env (Servers service)));
                           response = with_stats items (now - started) response;
                           response = (if items = [] then ParseSuccess ''no servers found for user'' response else response)
                       in reply (RespondInterface response))
                else
                  (case GetServer env service r of
                     Inl err \<Rightarrow> reply (RespondSuccess (ParseError (NoServer err) response))
                   | Inr server \<Rightarrow>
                       let state = GetState server
                       in reply (RespondSuccess (response\<lparr>Success := IsHealthy state,
                            Status := StatusText (''server state is '' @ ConnectionState_String state),
                            hr_State := Some state, hr_Wid := Wid server,
                            hr_Uptime := map_option (\<lambda>t. now - t) (ts_Start (Timestamps server))\<rparr>))))"

section \<open>Server information\<close>

text \<open>\<open>InfoCreateRequest\<close> and \<open>QpInfoPatchRequest\<close>, of which only the latter has a user name.\<close>

record InfoRequest =
  in_Groups :: "WhatsappBoolean option"
  in_Broadcasts :: "WhatsappBoolean option"
  in_ReadReceipts :: "WhatsappBoolean option"
  in_Calls :: "WhatsappBoolean option"
  in_ReadUpdate :: "WhatsappBoolean option"
  in_Devel :: "bool option"
  in_Username :: "string option"

record InformationResponse = "api_error QpResponse" +
  ir_Version :: string
  ir_Server :: "QpWhatsappServer option"

definition new_information :: InformationResponse where
  "new_information = \<lparr>Success = False, Status = NoStatus, ir_Version = [], ir_Server = None\<rparr>"

definition PatchSuccess :: "QpWhatsappServer \<Rightarrow> string \<Rightarrow> InformationResponse \<Rightarrow> InformationResponse" where
  "PatchSuccess server message source = (ParseSuccess message source)\<lparr>ir_Server := Some server\<rparr>"

definition Information_ParseSuccess :: "QpWhatsappServer \<Rightarrow> InformationResponse \<Rightarrow> InformationResponse" where
  "Information_ParseSuccess server source = PatchSuccess server ''follow server information'' source"

text \<open>A field is set if it is given and differs; the text of the changes grows with each.\<close>

definition set_field :: "'a option \<Rightarrow> ('s \<Rightarrow> 'a) \<Rightarrow> ('a \<Rightarrow> 's \<Rightarrow> 's) \<Rightarrow> string \<Rightarrow> ('a \<Rightarrow> string) \<Rightarrow> 's \<times> string \<Rightarrow> 's \<times> string" where
  "set_field given read put label shown acc =
     (case given of
        None \<Rightarrow> acc
      | Some v \<Rightarrow>
          if read (fst acc) \<noteq> v then (put v (fst acc), snd acc @ label @ '' to: {'' @ shown v @ ''}; '') else acc)"

definition update_fields :: "InfoRequest \<Rightarrow> QpWhatsappServer \<times> string \<Rightarrow> QpWhatsappServer \<times> string" where
  "update_fields req acc =
     (let acc = set_field (in_Groups req) Groups (\<lambda>v s. s\<lparr>Groups := v\<rparr>) ''groups'' WhatsappBoolean_String acc;
          acc = set_field (in_Broadcasts req) Broadcasts (\<lambda>v s. s\<lparr>Broadcasts := v\<rparr>) ''broadcasts'' WhatsappBoolean_String acc;
          acc = set_field (in_ReadReceipts req) ReadReceipts (\<lambda>v s. s\<lparr>ReadReceipts := v\<rparr>) ''readreceipts'' WhatsappBoolean_String acc;
          acc = set_field (in_Calls req) Calls (\<lambda>v s. s\<lparr>Calls := v\<rparr>) ''calls'' WhatsappBoolean_String acc;
          acc = set_field (in_ReadUpdate req) ReadUpdate (\<lambda>v s. s\<lparr>ReadUpdate := v\<rparr>) ''readupdate'' WhatsappBoolean_String acc
      in set_field (in_Devel req) Devel (\<lambda>v s. s\<lparr>Devel := v\<rparr>) ''devel'' (\<lambda>b. if b then ''true'' else ''false'') acc)"

definition updateServerConfiguration ::
    "QpUser list \<Rightarrow> QpWhatsappServer \<Rightarrow> string \<Rightarrow> InfoRequest option \<Rightarrow> user_error + (QpWhatsappServer \<times> string)" where
  "updateServerConfiguration users server username request =
     (let changed = (length username > 0 \<and> User server \<noteq> username)
      in case (if changed then map_sum id Some (Users_Find users username) else Inr None) of
           Inl err \<Rightarrow> Inl err
         | Inr _ \<Rightarrow>
             let acc = (if changed then (server\<lparr>User := username\<rparr>, ''user to: {'' @ username @ ''}; '') else (server, []))
             in Inr (case request of None \<Rightarrow> acc | Some req \<Rightarrow> update_fields req acc))"

definition GetUsername :: "QPWhatsappService \<Rightarrow> http_request \<Rightarrow> api_error + string" where
  "GetUsername service r =
     (let username = GetRequestParameter r ''user''
      in if length username = 0 then Inl (Invalid ''missing user name parameter'')
         else map_sum UserFailed Username (Users_Find (svc_users service) username))"

definition ValidateUsername :: "QPWhatsappService \<Rightarrow> http_request \<Rightarrow> api_error + string" where
  "ValidateUsername service r =
     (case GetUsername service r of
        Inl err \<Rightarrow> Inl err
      | Inr username \<Rightarrow>
          if username = DEFAULTEMAIL then Inl (Invalid ''really ? are you dumb ? or am I ?'') else Inr username)"

definition created_info :: "string \<Rightarrow> string \<Rightarrow> InfoRequest option \<Rightarrow> QpServer" where
  "created_info token username request =
     (let info = new_info token username []
      in case request of
           None \<Rightarrow> info
         | Some req \<Rightarrow>
             let info = (case in_Groups req of Some v \<Rightarrow> info\<lparr>Groups := v\<rparr> | None \<Rightarrow> info);
                 info = (case in_Broadcasts req of Some v \<Rightarrow> info\<lparr>Broadcasts := v\<rparr> | None \<Rightarrow> info);
                 info = (case in_ReadReceipts req of Some v \<Rightarrow> info\<lparr>ReadReceipts := v\<rparr> | None \<Rightarrow> info);
                 info = (case in_Calls req of Some v \<Rightarrow> info\<lparr>Calls := v\<rparr> | None \<Rightarrow> info);
                 info = (case in_ReadUpdate req of Some v \<Rightarrow> info\<lparr>ReadUpdate := v\<rparr> | None \<Rightarrow> info)
             in (case in_Devel req of Some v \<Rightarrow> info\<lparr>Devel := v\<rparr> | None \<Rightarrow> info))"

text \<open>The server is found, and kept up to date, in the registry; a refused save leaves the change in it.\<close>

definition InformationPostRequest ::
    "service_env \<Rightarrow> QPWhatsappService \<Rightarrow> http_request \<Rightarrow> InfoRequest body \<Rightarrow> QPWhatsappService \<times> InformationResponse reply" where
  "InformationPostRequest env service r body =
     (let response = new_information; token = GetToken r
      in if length token = 0 then (service, failed (Invalid ''missing token'') response)
         else (case ValidateUsername service r of
           Inl err \<Rightarrow> (service, failed err response)
         | Inr username \<Rightarrow>
             if body_failed body then (service, failed BadBody response)
             else (case map_of (Servers service) token of
                Some server \<Rightarrow>
                  (case updateServerConfiguration (svc_users service) server username (body_request body) of
                     Inl err \<Rightarrow> (service, failed (UserFailed err) response)
                   | Inr (server, update) \<Rightarrow>
                       if length update > 0 then
                         (case after service (Save (sv_life env) (svc_world service) server) of
                            (service, server, Some err) \<Rightarrow> (service, failed (SaveFailed err) response)
                          | (service, server, None) \<Rightarrow>
                              (service, reply (RespondInterfaceCode 200 (PatchSuccess server ''server configuration updated'' response))))
                       else (service, reply (RespondInterfaceCode 200 (Information_ParseSuccess server response))))
              | None \<Rightarrow>
                  (case AppendNewServer env service (created_info token username (body_request body)) of
                     (service, server) \<Rightarrow>
                       (case after service (Save (sv_life env) (svc_world service) server) of
                          (service, server, Some err) \<Rightarrow>
                            (service\<lparr>Servers := AList.delete token (Servers service),
                               svc_dispatchings := AList.delete token (svc_dispatchings service)\<rparr>,
                             failed (SaveFailed err) response)
                        | (service, server, None) \<Rightarrow>
                            (service, reply (RespondInterfaceCode 201 (Information_ParseSuccess server response))))))))"

definition QpVersion_field :: "string \<Rightarrow> InformationResponse \<Rightarrow> InformationResponse" where
  "QpVersion_field version response = response\<lparr>ir_Version := version\<rparr>"

definition InformationGetRequest ::
    "service_env \<Rightarrow> string \<Rightarrow> string \<Rightarrow> QPWhatsappService \<Rightarrow> http_request \<Rightarrow> InformationResponse reply" where
  "InformationGetRequest env master version service r =
     (let response = new_information
      in if GetToken r = [] \<and> \<not> IsMatchForMaster master r then
           reply (RespondInterfaceCode 200 (QpVersion_field version (ParseSuccess ''application information'' response)))
         else (case GetServer env service r of
           Inl err \<Rightarrow> reply (RespondInterfaceCode 204 (ParseError (NoServer err) response))
         | Inr server \<Rightarrow>
             reply (RespondInterfaceCode 200 (QpVersion_field version (Information_ParseSuccess server response)))))"

definition InformationPatchRequest ::
    "service_env \<Rightarrow> QPWhatsappService \<Rightarrow> http_request \<Rightarrow> InfoRequest body \<Rightarrow> QPWhatsappService \<times> InformationResponse reply" where
  "InformationPatchRequest env service r body =
     (let response = new_information
      in case body_request body of
           None \<Rightarrow> (service, failed BadBody response)
         | Some request \<Rightarrow>
             (case GetServer env service r of
                Inl err \<Rightarrow> (service, failed (NoServer err) response)
              | Inr server \<Rightarrow>
                  (case updateServerConfiguration (svc_users service) server
                          (case in_Username request of None \<Rightarrow> [] | Some u \<Rightarrow> u) (Some request) of
                     Inl err \<Rightarrow> (service, failed (UserFailed err) response)
                   | Inr (server, update) \<Rightarrow>
                       if length update > 0 then
                         (case after service (Save (sv_life env) (svc_world service) server) of
                            (service, server, Some err) \<Rightarrow> (service, failed (SaveFailed err) response)
                          | (service, server, None) \<Rightarrow>
                              (service, reply (RespondInterfaceCode 200 (PatchSuccess server ''server updated'' response))))
                       else (service, reply (RespondInterfaceCode 200 (PatchSuccess server ''no update required'' response))))))"

text \<open>The arguments of the deletion are those of the service's; 204 is the answer without content.\<close>

definition InformationDeleteRequest ::
    "service_env \<Rightarrow> string option \<Rightarrow> string option \<Rightarrow> bool \<Rightarrow> QPWhatsappService \<Rightarrow> http_request \<Rightarrow>
     QPWhatsappService \<times> api_error QpResponse reply" where
  "InformationDeleteRequest env logout store_delete clear_ok service r =
     (case GetServer env service r of
        Inl err \<Rightarrow> (service, Reply 204 empty_response)
      | Inr server \<Rightarrow>
          (case Service_Delete env logout store_delete clear_ok service server of
             (service, Some err) \<Rightarrow> (service, failed (DeleteFailed err) empty_response)
           | (service, None) \<Rightarrow> (service, reply (RespondSuccess (ParseSuccess ''server deleted'' empty_response)))))"

section \<open>Accounts\<close>

definition UserController ::
    "service_env \<Rightarrow> QPWhatsappService \<Rightarrow> http_request \<Rightarrow> string body \<Rightarrow> QPWhatsappService \<times> InformationResponse reply" where
  "UserController env service r body =
     (let response = new_information
      in case body_request body of
           None \<Rightarrow> (service, failed BadBody response)
         | Some username \<Rightarrow>
             if length username = 0 then (service, failed BadBody response)
             else (case Users_Find (svc_users service) username of
               Inl err \<Rightarrow> (service, failed (UserFailed err) response)
             | Inr user \<Rightarrow>
                 (case GetServer env service r of
                    Inl err \<Rightarrow> (service, failed (NoServer err) response)
                  | Inr server \<Rightarrow>
                      (case after service (Save (sv_life env) (svc_world service) (server\<lparr>User := Username user\<rparr>)) of
                         (service, server, Some err) \<Rightarrow> (service, failed (SaveFailed err) response)
                       | (service, server, None) \<Rightarrow>
                           (service, reply (RespondInterfaceCode 200
                              (PatchSuccess server (''server attached for user: '' @ Username user) response)))))))"

text \<open>\<open>strength\<close> is the score of a password, by a third-party package.\<close>

definition PasswordUpdate ::
    "(string \<Rightarrow> nat) \<Rightarrow> (string \<Rightarrow> string option) \<Rightarrow> bool \<Rightarrow> QpUser list \<Rightarrow> string \<Rightarrow> string \<Rightarrow> QpUser list \<times> api_error option" where
  "PasswordUpdate strength hash ok users user password =
     (if length user = 0 then (users, Some (Invalid ''missing user parameter''))
      else if strength password < 1 then (users, Some (Invalid ''password is too weak''))
      else if \<not> ok then (users, Some (UserFailed UserSql))
      else if \<not> Users_Exists users user then (users, Some (UserFailed UserNotFound))
      else (case Users_UpdatePassword hash ok users user password of (users, err) \<Rightarrow> (users, map_option UserFailed err)))"

text \<open>A body without content, or \<open>null\<close>, leaves a nil request, which is read; success is not answered.\<close>

definition AccountController ::
    "string \<Rightarrow> (string \<Rightarrow> nat) \<Rightarrow> (string \<Rightarrow> string option) \<Rightarrow> bool \<Rightarrow> QPWhatsappService \<Rightarrow> http_request \<Rightarrow> (string \<times> string) body \<Rightarrow>
     QPWhatsappService \<times> api_error QpResponse reply" where
  "AccountController master strength hash ok service r body =
     (if \<not> IsMatchForMaster master r then (service, failed (Invalid ''no puedo creer que seas tan caradura'') empty_response)
      else if rq_method r \<noteq> ''POST'' then (service, failed (Invalid ''nothing to see here for now'') empty_response)
      else (case body of
        Unreadable \<Rightarrow> (service, failed BadBody empty_response)
      | BadJson _ \<Rightarrow> (service, failed BadBody empty_response)
      | EmptyBody \<Rightarrow> (service, Panics)
      | JsonNull \<Rightarrow> (service, Panics)
      | Body (user, password) \<Rightarrow>
          if length password > 0 then
            (case PasswordUpdate strength hash ok (svc_users service) user password of
               (users, Some err) \<Rightarrow> (service\<lparr>svc_users := users\<rparr>, failed err empty_response)
             | (users, None) \<Rightarrow> (service\<lparr>svc_users := users\<rparr>, NoReply))
          else (service, failed (Invalid ''no action acknoledge'') empty_response)))"

section \<open>A request reaches its own server only\<close>

definition only_own :: "string \<Rightarrow> QPWhatsappService \<Rightarrow> QPWhatsappService \<Rightarrow> bool" where
  "only_own token service service' \<longleftrightarrow>
     (\<forall>key. key \<noteq> token \<longrightarrow> map_of (Servers service') key = map_of (Servers service) key) \<and>
     touches token (servers_table (svc_world service)) (servers_table (svc_world service')) \<and>
     svc_users service' = svc_users service"

lemma only_own_refl [simp]: "only_own token service service"
  by (simp add: only_own_def)

lemma after_only:
  assumes "own_result (svc_world service) server r"
  shows "only_own (Token server) service (fst (after service r))"
proof -
  obtain w s err where r: "r = (w, s, err)" by (metis prod_cases3)
  have "Token s = Token server" "touches (Token server) (servers_table (svc_world service)) (servers_table w)"
    using assms r by simp_all
  then show ?thesis by (simp add: r after_def only_own_def put_server_def update_conv')
qed

lemma after_frame:
  assumes "own_result (svc_world service) server r" "after service r = (service', server', err)"
  shows "only_own (Token server) service service'"
  using after_only [OF assms(1)] assms(2) by simp

lemma own_Stop: "own_result w s (w, Stop s, None)"
  by simp

lemmas own_ops = own_Start own_Restart own_SetOptions own_ToggleDevel own_Save own_Stop

lemma toggled_only: "only_own (Token server) service (fst (toggled f env service server))"
  unfolding toggled_def by (rule after_only) (rule own_SetOptions)

lemma GetServer_token: "GetServer env service r = Inr server \<Longrightarrow> EqualFold (Token server) (GetToken r)"
  by (auto simp: GetServer_def GetServerFromToken_def find_Some_iff split: option.splits)

lemma command_only:
  assumes "GetServer env service r = Inr server"
  shows "only_own (Token server) service (fst (CommandController env service r))"
proof -
  have "only_own (Token server) service (fst (case after service res of (s, x, err) \<Rightarrow> (s, f x err)))"
    if "own_result (svc_world service) server res" for res and f :: "QpWhatsappServer \<Rightarrow> server_error option \<Rightarrow> 'c"
    using after_only [OF that] by (cases "after service res") simp
  note ops = own_ops [THEN this]
  have tog: "only_own (Token server) service (fst (case toggled g env service server of (s, x, err) \<Rightarrow> (s, f x err)))"
    for g and f :: "QpWhatsappServer \<Rightarrow> server_error option \<Rightarrow> 'c"
    using toggled_only [of server service g env] by (cases "toggled g env service server") simp
  show ?thesis
    unfolding CommandController_def assms sum.case Let_def
    by (simp only: if_distrib [of fst] ops tog fst_conv only_own_refl if_split simp_thms)
qed

lemma set_field_frame:
  assumes "\<And>v x. Token (put v x) = Token x" "\<And>v x. QpServer.more (put v x) = QpServer.more x"
    and "\<And>v x. Wid (put v x) = Wid x" "\<And>v x. User (put v x) = User x"
  shows "Token (fst (set_field given read put label shown acc)) = Token (fst acc)"
    "Wid (fst (set_field given read put label shown acc)) = Wid (fst acc)"
    "User (fst (set_field given read put label shown acc)) = User (fst acc)"
    "QpServer.more (fst (set_field given read put label shown acc)) = QpServer.more (fst acc)"
  using assms by (simp_all add: set_field_def split: option.split)

lemma update_fields_frame [simp]:
  "Token (fst (update_fields req acc)) = Token (fst acc)" "Wid (fst (update_fields req acc)) = Wid (fst acc)"
  "User (fst (update_fields req acc)) = User (fst acc)"
  unfolding update_fields_def Let_def by (simp_all add: set_field_frame)

lemma update_cases:
  assumes "updateServerConfiguration users server username request = Inr (server', update)"
  obtains (kept) acc where "acc = (server, [])" "username = [] \<or> User server = username"
      "(server', update) = (case request of None \<Rightarrow> acc | Some req \<Rightarrow> update_fields req acc)"
    | (moved) acc where "acc = (server\<lparr>User := username\<rparr>, ''user to: {'' @ username @ ''}; '')"
      "username \<noteq> []" "User server \<noteq> username" "Users_Exists users username"
      "(server', update) = (case request of None \<Rightarrow> acc | Some req \<Rightarrow> update_fields req acc)"
proof (cases "length username > 0 \<and> User server \<noteq> username")
  case True
  then have "Users_Find users username \<noteq> Inl UserSql"
    using assms by (auto simp: updateServerConfiguration_def)
  then have "find (\<lambda>user. Username user = username) users \<noteq> None"
    unfolding Users_Find_def by (cases "find (\<lambda>user. Username user = username) users") simp_all
  then have "Users_Exists users username" by (auto simp: Users_Exists_def find_None_iff)
  moreover have "(case request of None \<Rightarrow> (server\<lparr>User := username\<rparr>, ''user to: {'' @ username @ ''}; '')
      | Some req \<Rightarrow> update_fields req (server\<lparr>User := username\<rparr>, ''user to: {'' @ username @ ''}; '')) = (server', update)"
    using assms True
    by (cases "Users_Find users username"; cases request) (simp_all add: updateServerConfiguration_def Let_def)
  ultimately show ?thesis using moved [OF refl] True by (metis length_greater_0_conv)
next
  case False
  then show ?thesis using kept [OF refl] assms by (auto simp: updateServerConfiguration_def Let_def)
qed

lemma update_Token: "updateServerConfiguration users server username request = Inr (server', update) \<Longrightarrow>
    Token server' = Token server \<and> Wid server' = Wid server"
  by (erule update_cases; cases request) (auto simp: prod_eq_iff)

lemma patch_only:
  assumes "GetServer env service r = Inr server"
  shows "only_own (Token server) service (fst (InformationPatchRequest env service r body))"
proof (cases "body_request body")
  case (Some request)
  let ?u = "updateServerConfiguration (svc_users service) server (case in_Username request of None \<Rightarrow> [] | Some u \<Rightarrow> u) (Some request)"
  show ?thesis
  proof (cases ?u)
    case (Inr p)
    obtain server' update where p: "p = (server', update)" by force
    obtain s x err where a: "after service (Save (sv_life env) (svc_world service) server') = (s, x, err)" by (metis prod_cases3)
    have "only_own (Token server) service s"
      using after_frame [OF own_Save a] update_Token [of "svc_users service" server] Inr p by metis
    then show ?thesis
      by (simp add: InformationPatchRequest_def Some assms Inr p a Let_def split: option.split)
  qed (simp add: InformationPatchRequest_def Some assms Let_def)
qed (simp add: InformationPatchRequest_def Let_def)

lemma user_only:
  assumes "GetServer env service r = Inr server"
  shows "only_own (Token server) service (fst (UserController env service r body))"
proof -
  have "only_own (Token server) service s"
    if "after service (Save (sv_life env) (svc_world service) (server\<lparr>User := u\<rparr>)) = (s, x, err)" for u s x err
    using after_frame [OF own_Save that] by simp
  then show ?thesis
    using assms by (auto simp: UserController_def Let_def split: option.split sum.split prod.split)
qed

lemma delete_only:
  "only_own (Token server) service (fst (Service_Delete env logout store_delete clear_ok service server))"
proof -
  obtain w s err where d: "Server_Delete (sv_life env) logout store_delete clear_ok (svc_world service) server = (w, s, err)"
    by (metis prod_cases3)
  then have "Token s = Token server" "touches (Token server) (servers_table (svc_world service)) (servers_table w)"
    using own_Server_Delete [of "svc_world service" server "sv_life env" logout store_delete clear_ok] by simp_all
  then show ?thesis
    by (cases err) (simp_all add: Service_Delete_def d only_own_def put_server_def update_conv' delete_conv' restrict_map_def)
qed

datatype api_call =
  CallCommand | CallPatch "InfoRequest body" | CallUser "string body" | CallDelete "string option" "string option" bool

fun api_call_result :: "service_env \<Rightarrow> QPWhatsappService \<Rightarrow> http_request \<Rightarrow> api_call \<Rightarrow> QPWhatsappService" where
  "api_call_result env service r CallCommand = fst (CommandController env service r)"
| "api_call_result env service r (CallPatch body) = fst (InformationPatchRequest env service r body)"
| "api_call_result env service r (CallUser body) = fst (UserController env service r body)"
| "api_call_result env service r (CallDelete x y z) = fst (InformationDeleteRequest env x y z service r)"

text \<open>
  C32. A command, a change of settings, a change of owner or a deletion reaches only the server whose token
  the request carries, up to case: every other server of the registry and every other row of the table
  stays as it was, and a request whose token matches none changes nothing at all.
\<close>
theorem request_reaches_own_server:
  "case GetServer env service r of
     Inl _ \<Rightarrow> api_call_result env service r call = service
   | Inr server \<Rightarrow> EqualFold (Token server) (GetToken r) \<and> only_own (Token server) service (api_call_result env service r call)"
proof (cases "GetServer env service r")
  case (Inl err)
  then show ?thesis
    by (cases call) (auto simp: CommandController_def InformationPatchRequest_def UserController_def
        InformationDeleteRequest_def Let_def split: option.split sum.split)
next
  case (Inr server)
  have "only_own (Token server) service (fst (InformationDeleteRequest env x y z service r))" for x y z
    using delete_only [of server service env x y z]
    by (cases "Service_Delete env x y z service server") (auto simp: InformationDeleteRequest_def Inr split: option.split)
  then show ?thesis
    using GetServer_token [OF Inr] command_only [OF Inr] patch_only [OF Inr] user_only [OF Inr]
    by (cases call) (simp_all add: Inr)
qed

section \<open>Settings\<close>

definition given_or :: "'a option \<Rightarrow> 'a \<Rightarrow> 'a" where
  "given_or given old = (case given of None \<Rightarrow> old | Some v \<Rightarrow> v)"

definition settings :: "QpWhatsappServer \<Rightarrow> WhatsappBoolean list \<times> bool" where
  "settings server = ([Groups server, Broadcasts server, ReadReceipts server, Calls server, ReadUpdate server], Devel server)"

lemma set_field_fst:
  assumes "\<And>x. put (read x) x = x"
  shows "fst (set_field given read put label shown acc) = put (given_or given (read (fst acc))) (fst acc)"
  using assms [of "fst acc"] by (auto simp: set_field_def given_or_def split: option.split)

lemma update_fields_fst:
  fixes acc :: "QpWhatsappServer \<times> string"
  shows "fst (update_fields req acc) = (fst acc)\<lparr>Groups := given_or (in_Groups req) (Groups (fst acc)),
     Broadcasts := given_or (in_Broadcasts req) (Broadcasts (fst acc)),
     ReadReceipts := given_or (in_ReadReceipts req) (ReadReceipts (fst acc)),
     Calls := given_or (in_Calls req) (Calls (fst acc)), ReadUpdate := given_or (in_ReadUpdate req) (ReadUpdate (fst acc)),
     Devel := given_or (in_Devel req) (Devel (fst acc))\<rparr>"
  unfolding update_fields_def Let_def by (simp add: set_field_fst)

text \<open>The text grows, and stays as it was only when nothing is changed.\<close>

definition grows :: "('s \<times> string \<Rightarrow> 's \<times> string) \<Rightarrow> bool" where
  "grows f \<longleftrightarrow> (\<forall>acc. \<exists>t. snd (f acc) = snd acc @ t \<and> (t = [] \<longrightarrow> f acc = acc))"

lemma grows_set_field: "grows (set_field given read put label shown)"
  by (auto simp: grows_def set_field_def split: option.split)

lemma grows_comp:
  assumes "grows f" "grows g"
  shows "grows (\<lambda>acc. g (f acc))"
  unfolding grows_def
proof
  fix acc
  obtain t where t: "snd (f acc) = snd acc @ t" "t = [] \<longrightarrow> f acc = acc" using assms(1) unfolding grows_def by blast
  obtain u where u: "snd (g (f acc)) = snd (f acc) @ u" "u = [] \<longrightarrow> g (f acc) = f acc" using assms(2) unfolding grows_def by blast
  show "\<exists>v. snd (g (f acc)) = snd acc @ v \<and> (v = [] \<longrightarrow> g (f acc) = acc)"
    using t u by (intro exI [of _ "t @ u"]) auto
qed

lemma grows_update: "grows (update_fields req)"
  unfolding update_fields_def [abs_def] Let_def
  by (rule grows_comp [OF grows_comp [OF grows_comp [OF grows_comp [OF grows_comp
        [OF grows_set_field grows_set_field] grows_set_field] grows_set_field] grows_set_field] grows_set_field])

lemma set_field_id: "given_or given (read (fst acc)) = read (fst acc) \<Longrightarrow> set_field given read put label shown acc = acc"
  by (simp add: set_field_def given_or_def split: option.splits)

lemma settings_fields:
  "settings a = settings b \<longleftrightarrow> Groups a = Groups b \<and> Broadcasts a = Broadcasts b \<and> ReadReceipts a = ReadReceipts b \<and>
     Calls a = Calls b \<and> ReadUpdate a = ReadUpdate b \<and> Devel a = Devel b"
  by (auto simp: settings_def)

lemma update_fields_text:
  fixes server :: QpWhatsappServer
  shows "snd (update_fields req (server, t)) = t \<longleftrightarrow> settings (fst (update_fields req (server, t))) = settings server"
proof
  obtain u where "snd (update_fields req (server, t)) = t @ u" "u = [] \<longrightarrow> update_fields req (server, t) = (server, t)"
    using grows_update [of req] unfolding grows_def by fastforce
  moreover assume "snd (update_fields req (server, t)) = t"
  ultimately show "settings (fst (update_fields req (server, t))) = settings server" by simp
next
  assume "settings (fst (update_fields req (server, t))) = settings server"
  then show "snd (update_fields req (server, t)) = t"
    unfolding settings_fields update_fields_fst by (simp add: update_fields_def Let_def set_field_id)
qed

text \<open>
  A change of settings gives every setting the value asked for, or leaves it, and moves the server to
  the user asked for only if that user exists; nothing else of the server changes. It is saved exactly
  when something differs from before.
\<close>
theorem patch_applies_exactly:
  assumes "updateServerConfiguration users server username request = Inr (server', update)"
  shows "settings server' = (case request of None \<Rightarrow> settings server | Some req \<Rightarrow>
      ([given_or (in_Groups req) (Groups server), given_or (in_Broadcasts req) (Broadcasts server),
        given_or (in_ReadReceipts req) (ReadReceipts server), given_or (in_Calls req) (Calls server),
        given_or (in_ReadUpdate req) (ReadUpdate server)], given_or (in_Devel req) (Devel server)))
     \<and> User server' = (if username = [] then User server else username)
     \<and> (User server' = User server \<or> Users_Exists users username)
     \<and> Token server' = Token server \<and> Wid server' = Wid server
     \<and> (update = [] \<longleftrightarrow> settings server' = settings server \<and> User server' = User server)"
  using assms
proof (cases rule: update_cases)
  case (kept acc)
  show ?thesis
  proof (cases request)
    case None
    then show ?thesis using kept by auto
  next
    case (Some req)
    then have r: "server' = fst (update_fields req (server, []))" "update = snd (update_fields req (server, []))"
      using kept(3) unfolding kept(1) by (simp_all add: prod_eq_iff)
    have "settings server' = settings server \<longleftrightarrow> update = []"
      unfolding r using update_fields_text [of req server "[]"] by simp
    then show ?thesis using kept(2) Some by (auto simp: r(1) update_fields_fst settings_def)
  qed
next
  case (moved acc)
  show ?thesis
  proof (cases request)
    case None
    then show ?thesis using moved by (simp add: settings_def)
  next
    case (Some req)
    then have r: "server' = fst (update_fields req acc)" "update = snd (update_fields req acc)"
      using moved(5) by (simp_all add: prod_eq_iff)
    obtain t where "update = snd acc @ t" using grows_update [of req] unfolding r grows_def by blast
    then have "update \<noteq> []" using moved(1) by simp
    then show ?thesis using moved Some by (auto simp: r(1) update_fields_fst settings_def)
  qed
qed

definition no_changes :: InfoRequest where
  "no_changes = \<lparr>in_Groups = None, in_Broadcasts = None, in_ReadReceipts = None, in_Calls = None, in_ReadUpdate = None,
     in_Devel = None, in_Username = None\<rparr>"

theorem patch_applies_exactly_witness:
  "case updateServerConfiguration [] (NewQpWhatsappServer 7 (new_info ''Ab'' ''me'' [])) []
      (Some (no_changes\<lparr>in_Devel := Some True\<rparr>)) of
     Inl _ \<Rightarrow> False | Inr (server, update) \<Rightarrow> snd (settings server) \<and> update \<noteq> []"
proof -
  let ?s = "NewQpWhatsappServer 7 (new_info ''Ab'' ''me'' [])"
  let ?q = "no_changes\<lparr>in_Devel := Some True\<rparr>"
  obtain s u where r: "updateServerConfiguration [] ?s [] (Some ?q) = Inr (s, u)"
    by (cases "updateServerConfiguration [] ?s [] (Some ?q)") (auto simp: updateServerConfiguration_def)
  have "\<not> Devel ?s" by code_simp
  then have "settings ?s \<noteq> ([Groups ?s, Broadcasts ?s, ReadReceipts ?s, Calls ?s, ReadUpdate ?s], True)"
    by (simp add: settings_def)
  then show ?thesis
    using patch_applies_exactly [OF r] r by (simp add: no_changes_def given_or_def)
qed

section \<open>Creating a server\<close>

lemma created_info_sel [simp]: "Token (created_info token username request) = token"
  "User (created_info token username request) = username" "Wid (created_info token username request) = []"
  "\<not> Verified (created_info token username request)"
  by (simp_all add: created_info_def new_info_def Let_def split: option.split)

lemma ValidateUsername_user:
  "ValidateUsername service r = Inr u \<Longrightarrow> Users_Exists (svc_users service) u \<and> u \<noteq> DEFAULTEMAIL"
  by (auto simp: ValidateUsername_def GetUsername_def Users_Find_def Users_Exists_def find_Some_iff Let_def
      split: sum.splits if_splits option.splits intro!: nth_mem)

lemma Save_unpaired_clash:
  assumes "Save env w s = (w', s', None)" "Wid s = []" "row \<in> set (servers_table w)" "Token row \<noteq> Token s"
  shows "Wid row \<noteq> []"
  using assms
  by (auto simp: Save_def Server_Exists_def Server_Add_def Server_Update_def Let_def QpServer.truncate_def split: if_splits)

text \<open>
  C33. Asking for a server under a token the registry does not hold either creates it, with its row and
  answered by 201, or changes neither the registry nor the table: a save that is refused is undone. Since
  a session id is unique and a new server has none yet, it is refused while another server waits unpaired.
\<close>
theorem create_all_or_nothing:
  assumes "registry_ok service" "map_of (Servers service) (GetToken r) = None"
    and "InformationPostRequest env service r body = (service', answer)"
  shows "(case answer of
       Reply code response \<Rightarrow>
         if code = 201
         then (\<exists>server. map_of (Servers service') = (map_of (Servers service))(GetToken r \<mapsto> server) \<and> ir_Server response = Some server \<and>
                Token server = GetToken r \<and> Users_Exists (svc_users service) (User server) \<and> User server \<noteq> DEFAULTEMAIL \<and>
                (\<exists>row\<in>set (servers_table (svc_world service')). Token row = GetToken r \<and> User row = User server))
         else code = 400 \<and> map_of (Servers service') = map_of (Servers service) \<and> svc_world service' = svc_world service
     | _ \<Rightarrow> False)
     \<and> ((\<exists>row\<in>set (servers_table (svc_world service)). Token row \<noteq> GetToken r \<and> Wid row = []) \<longrightarrow>
          (\<forall>response. answer \<noteq> Reply 201 response))"
proof (cases "length (GetToken r) = 0 \<or> isl (ValidateUsername service r) \<or> body_failed body")
  case True
  then show ?thesis
    using assms(3) by (auto simp: InformationPostRequest_def failed_def reply_def Let_def split: sum.splits if_splits)
next
  case False
  then obtain u where u: "ValidateUsername service r = Inr u" by (cases "ValidateUsername service r") auto
  note user = conjunct1 [OF ValidateUsername_user [OF u]] conjunct2 [OF ValidateUsername_user [OF u]]
  let ?token = "GetToken r"
  let ?info = "created_info ?token u (body_request body)"
  obtain s1 server where a: "AppendNewServer env service ?info = (s1, server)" by force
  then have s1: "map_of (Servers s1) = (map_of (Servers service))(?token \<mapsto> server)" "svc_world s1 = svc_world service"
    "server = NewQpWhatsappServer (le_now (sv_life env)) ?info"
    using assms(2) by (auto elim!: AppendNewServer_cases)
  obtain w x err where v: "Save (sv_life env) (svc_world service) server = (w, x, err)" by (metis prod_cases3)
  note frame = saved_frame [OF v]
  have x: "Token x = ?token" "User x = u" "Wid x = []" using frame s1(3) by simp_all
  have aft: "after s1 (Save (sv_life env) (svc_world s1) server) = (put_server (s1\<lparr>svc_world := w\<rparr>) ?token x, x, err)"
    using v s1(2) x by (simp add: after_def)
  have clash: "err \<noteq> None" if "\<exists>row\<in>set (servers_table (svc_world service)). Token row \<noteq> ?token \<and> Wid row = []"
    using Save_unpaired_clash [of "sv_life env" "svc_world service" server w x] v that s1(3) by auto
  show ?thesis
  proof (cases err)
    case None
    obtain row where "row \<in> set (servers_table w)" "Token row = ?token" "User row = u"
      using Save_row [OF v [unfolded None]] s1(3) by auto
    moreover have "service' = put_server (s1\<lparr>svc_world := w\<rparr>) ?token x"
      "answer = Reply 201 (Information_ParseSuccess x new_information)"
      using assms(2,3) False u a aft None
      by (simp_all add: InformationPostRequest_def Let_def reply_def RespondInterfaceCode_def)
    ultimately show ?thesis
      using x user None clash by (auto simp: s1 Information_ParseSuccess_def PatchSuccess_def)
  next
    case (Some e)
    then have "w = svc_world service" using frame(6) by simp
    moreover have "service' = (put_server (s1\<lparr>svc_world := w\<rparr>) ?token x)\<lparr>
          Servers := AList.delete ?token (Servers (put_server (s1\<lparr>svc_world := w\<rparr>) ?token x)),
          svc_dispatchings := AList.delete ?token (svc_dispatchings (put_server (s1\<lparr>svc_world := w\<rparr>) ?token x))\<rparr>"
      "answer = Reply 400 (ParseError (SaveFailed e) new_information)"
      using assms(2,3) False u a aft Some
      by (simp_all add: InformationPostRequest_def Let_def failed_def reply_def)
    ultimately show ?thesis
      using assms(2) by (auto simp: s1 delete_conv' restrict_map_def fun_eq_iff)
  qed
qed

definition sample_http :: "(string \<times> string) list \<Rightarrow> http_request" where
  "sample_http params = \<lparr>rq_method = ''POST'', rq_path = (\<lambda>_. []), rq_query = map (\<lambda>(k, v). (k, [v])) params, rq_form = [],
     rq_header = [], rq_disposition = None, rq_length = 0\<rparr>"

definition user_service :: QPWhatsappService where
  "user_service = empty_service\<lparr>svc_users := [\<lparr>Username = ''me'', Password = ''hash''\<rparr>]\<rparr>"

theorem create_all_or_nothing_witness:
  "case snd (InformationPostRequest sample_service_env user_service (sample_http [(''token'', ''abc''), (''user'', ''me'')]) EmptyBody) of
     Reply code _ \<Rightarrow> code = 201 | _ \<Rightarrow> False"
proof -
  let ?r = "sample_http [(''token'', ''abc''), (''user'', ''me'')]"
  obtain s a where e: "InformationPostRequest sample_service_env user_service ?r EmptyBody = (s, a)" by force
  have h: "registry_ok user_service" "map_of (Servers user_service) (GetToken ?r) = None"
    by (simp_all add: registry_ok_def user_service_def empty_service_def)
  have "map_of (Servers (fst (InformationPostRequest sample_service_env user_service ?r EmptyBody))) ''abc'' \<noteq> None" by code_simp
  then have "map_of (Servers s) \<noteq> map_of (Servers user_service)" using e by (auto simp: user_service_def empty_service_def)
  then show ?thesis
    using create_all_or_nothing [OF h e] e by (auto split: reply.splits if_splits)
qed

section \<open>What the answers tell\<close>

text \<open>
  When the change of an option cannot be saved, the command answers 400 with no text of an error, the
  option in memory is changed all the same, and the table is as it was; the next command of the same kind
  goes on from there.
\<close>
theorem toggle_failure_unexplained:
  assumes "GetServer env service r = Inr server" "\<not> le_db_ok (sv_life env)"
    and "GetRequestParameter r ''action'' = ''groups''"
    and "CommandController env service r = (service', answer)"
  shows "answer = Reply 400 empty_response \<and> svc_world service' = svc_world service \<and>
     (\<exists>changed. map_of (Servers service') (Token server) = Some changed \<and>
        Groups changed = Groups (ToggleGroups (WhatsappOptions.WhatsappOptions.truncate server)))"
  using assms
  by (auto simp: CommandController_def Let_def toggled_def SetOptions_def Save_def Server_Exists_def after_def
      toggle_reply_def reply_def empty_response_def put_server_def update_conv')

theorem toggle_failure_unexplained_witness:
  "snd (CommandController (sample_service_env\<lparr>sv_life := sample_life_env\<lparr>le_db_ok := False\<rparr>\<rparr>) sample_service
     (sample_http [(''token'', ''Ab''), (''action'', ''groups'')])) = Reply 400 empty_response"
proof -
  let ?env = "sample_service_env\<lparr>sv_life := sample_life_env\<lparr>le_db_ok := False\<rparr>\<rparr>"
  let ?r = "sample_http [(''token'', ''Ab''), (''action'', ''groups'')]"
  let ?x = "NewQpWhatsappServer 7 (new_info ''Ab'' ''me'' ''5521:3@s.whatsapp.net'')"
  obtain s a where e: "CommandController ?env sample_service ?r = (s, a)" by force
  have "GetServer ?env sample_service ?r = Inr ?x" by code_simp
  moreover have "GetRequestParameter ?r ''action'' = ''groups''" by code_simp
  ultimately show ?thesis using toggle_failure_unexplained [OF _ _ _ e] e by simp
qed

lemma health_fold:
  "foldl (\<lambda>stats item. if Item_GetHealth item then stats\<lparr>Healthy := Healthy stats + 1\<rparr> else stats\<lparr>Unhealthy := Unhealthy stats + 1\<rparr>)
     stats items =
   stats\<lparr>Healthy := Healthy stats + length (filter Item_GetHealth items),
     Unhealthy := Unhealthy stats + length (filter (\<lambda>i. \<not> Item_GetHealth i) items)\<rparr>"
  by (induction items arbitrary: stats) auto

lemma stats_sel:
  "Total (calculateHealthStats items) = length items"
  "Healthy (calculateHealthStats items) = length (filter Item_GetHealth items)"
  "Unhealthy (calculateHealthStats items) = length (filter (\<lambda>i. \<not> Item_GetHealth i) items)"
  by (simp_all add: calculateHealthStats_def health_fold Let_def)

text \<open>
  Asked with the master key, the health answers 200 exactly if there is a server and every one is
  ready or stopped, and 400 otherwise. It lists each server once with its state, and the numbers of
  healthy and unhealthy ones add up to their number; the percentage is 100 exactly when all are healthy.
\<close>
theorem master_health_ok_iff:
  assumes "order_ok env" "IsMatchForMaster master r"
    and "HealthController env matches master started (Some service) r = Reply code response"
  shows "code = (if Servers service \<noteq> [] \<and> list_all (\<lambda>e. GetState (snd e) \<in> {Ready, Stopped}) (Servers service) then 200 else 400)
     \<and> mset (hr_Items response) = mset (map (\<lambda>e. ToHealthReponseItem (snd e)) (Servers service))
     \<and> (\<exists>stats. hr_Stats response = Some stats \<and> Total stats = length (Servers service) \<and>
          Healthy stats + Unhealthy stats = Total stats \<and>
          (Percentage stats = 100) = (Total stats > 0 \<and> Unhealthy stats = 0))"
proof -
  let ?items = "GetHealth env service"
  let ?stats = "calculateHealthStats ?items"
  have perm: "mset (sv_order env (Servers service)) = mset (Servers service)" using assms(1) by (simp add: order_ok_def)
  have items: "mset ?items = mset (map (\<lambda>e. ToHealthReponseItem (snd e)) (Servers service))"
    unfolding GetHealth_def mset_map perm ..
  then have len: "length ?items = length (Servers service)" by (metis length_map size_mset)
  have healthy: "Item_GetHealth (ToHealthReponseItem s) = (GetState s \<in> {Ready, Stopped})" for s
    by (auto simp: Item_GetHealth_def ToHealthReponseItem_def IsHealthy_def Let_def)
  have "set ?items = (\<lambda>e. ToHealthReponseItem (snd e)) ` set (Servers service)"
    using items by (metis set_mset_mset set_map)
  then have all: "Unhealthy ?stats = 0 \<longleftrightarrow> list_all (\<lambda>e. GetState (snd e) \<in> {Ready, Stopped}) (Servers service)"
    unfolding stats_sel by (simp add: filter_empty_conv list_all_iff healthy ball_simps)
  have sum: "Healthy ?stats + Unhealthy ?stats = Total ?stats"
    unfolding stats_sel by (simp add: sum_length_filter_compl)
  have pct: "(Percentage ?stats = 100) = (Total ?stats > 0 \<and> Unhealthy ?stats = 0)"
  proof (cases "Total ?stats > 0")
    case True
    then have "Percentage ?stats = of_nat (Healthy ?stats) / of_nat (Total ?stats) * 100"
      by (simp add: calculateHealthStats_def health_fold Let_def)
    moreover have "(x / y * 100 = 100) = (x = y)" if "y > 0" for x y :: rat
      using that by (simp add: divide_eq_eq)
    ultimately have "(Percentage ?stats = 100) = (Healthy ?stats = Total ?stats)" using True by simp
    then show ?thesis using True sum by linarith
  next
    case False
    then have "?items = []" by (simp add: stats_sel)
    then show ?thesis by (simp add: calculateHealthStats_def Let_def)
  qed
  have r: "code = (if Unhealthy ?stats = 0 \<and> Total ?stats > 0 then 200 else 400)" "hr_Items response = ?items" "hr_Stats response = Some ?stats"
    using assms(2,3) by (auto simp: HealthController_def Let_def reply_def with_stats_def)
  have "code = (if Servers service \<noteq> [] \<and> list_all (\<lambda>e. GetState (snd e) \<in> {Ready, Stopped}) (Servers service) then 200 else 400)"
    unfolding r(1) all stats_sel(1) len by auto
  then show ?thesis using items sum pct r(2,3) len stats_sel(1) [of ?items] by simp
qed

theorem master_health_ok_iff_witness:
  "case HealthController sample_service_env (\<lambda>_ _. False) ''key'' 0 (Some sample_service) (sample_http [(''masterkey'', ''KEY'')]) of
     Reply code response \<Rightarrow> code = 400 \<and> length (hr_Items response) = 2 | _ \<Rightarrow> False"
proof -
  let ?r = "sample_http [(''masterkey'', ''KEY'')]"
  have m: "IsMatchForMaster ''key'' ?r" by code_simp
  obtain c x where e: "HealthController sample_service_env (\<lambda>_ _. False) ''key'' 0 (Some sample_service) ?r = Reply c x"
    using m by (auto simp: HealthController_def Let_def reply_def)
  have "\<not> list_all (\<lambda>e. GetState (snd e) \<in> {Ready, Stopped}) (Servers sample_service)" by code_simp
  moreover have "length (Servers sample_service) = 2" by (simp add: sample_service_def)
  ultimately show ?thesis
    using master_health_ok_iff [OF sample_service_ok(2) m e] e by (auto dest: arg_cong [of _ _ size])
qed

text \<open>
  The account controller changes a password for the holder of the master key only, and then the
  account opens with the new password and no other plain one. The success is answered with an empty
  body; a request without a body makes it panic.
\<close>
theorem password_change_effective:
  assumes "bcrypt_law hash matches" "plain_password q"
    and "AccountController master strength hash ok service r body = (service', answer)"
  shows "(svc_users service' \<noteq> svc_users service \<longrightarrow> IsMatchForMaster master r \<and> answer = NoReply)
     \<and> (answer = NoReply \<longrightarrow> (\<exists>user password. body = Body (user, password) \<and> 0 < strength password \<and>
          (plain_password password \<longrightarrow> isl (GetUser matches service' user q) = (q \<noteq> password))))
     \<and> (answer = Panics \<longrightarrow> body \<in> {EmptyBody, JsonNull})"
proof (cases "\<exists>user password. body = Body (user, password) \<and> password \<noteq> [] \<and> IsMatchForMaster master r \<and> rq_method r = ''POST''")
  case False
  then show ?thesis
    using assms(3) by (auto simp: AccountController_def failed_def reply_def split: body.splits if_splits)
next
  case True
  then obtain user password where b: "body = Body (user, password)" "password \<noteq> []" "IsMatchForMaster master r" "rq_method r = ''POST''"
    by blast
  obtain users err where u: "PasswordUpdate strength hash ok (svc_users service) user password = (users, err)" by force
  have r: "service' = service\<lparr>svc_users := users\<rparr>" "answer = (case err of None \<Rightarrow> NoReply | Some e \<Rightarrow> failed e empty_response)"
    using assms(3) b u by (auto simp: AccountController_def split: option.splits)
  show ?thesis
  proof (cases err)
    case None
    then have up: "Users_UpdatePassword hash ok (svc_users service) user password = (users, None)" "user \<noteq> []" "0 < strength password"
      using u by (auto simp: PasswordUpdate_def split: if_splits prod.splits)
    have "isl (GetUser matches service' user q) = (q \<noteq> password)" if "plain_password password"
      using account_opens_with_its_password [OF assms(1) that assms(2) disjI2 [OF up(1)]] up(2) r(1)
      by (simp add: GetUser_def)
    then show ?thesis using b r None up(3) by simp
  next
    case (Some e)
    then have "users = svc_users service"
      using u by (auto simp: PasswordUpdate_def Users_UpdatePassword_def Users_Exists_def split: if_splits option.splits prod.splits
          intro!: map_idI)
    then show ?thesis using r Some by (simp add: failed_def reply_def)
  qed
qed

theorem password_change_effective_witness:
  "case AccountController ''key'' length (\<lambda>p. if length p \<le> 72 then Some p else None) True user_service
      (sample_http [(''masterkey'', ''key'')]) (Body (''me'', ''secret'')) of
     (service, answer) \<Rightarrow> answer = NoReply \<and> \<not> isl (GetUser (=) service ''me'' ''secret'')"
proof -
  let ?hash = "\<lambda>p :: string. if length p \<le> 72 then Some p else None"
  let ?r = "sample_http [(''masterkey'', ''key'')]"
  have law: "bcrypt_law ?hash (=)" by (auto simp: bcrypt_law_def)
  have p: "plain_password ''secret''" by (simp add: plain_password_def)
  obtain s a where e: "AccountController ''key'' length ?hash True user_service ?r (Body (''me'', ''secret'')) = (s, a)" by force
  have m: "IsMatchForMaster ''key'' ?r" by code_simp
  then have "a = NoReply"
    using e by (simp add: AccountController_def sample_http_def PasswordUpdate_def Users_UpdatePassword_def user_service_def
        Users_Exists_def split: prod.splits)
  then show ?thesis using password_change_effective [OF law p e] p e by auto
qed

end
