(* ===== verification/ServerMessages.thy ===== *)
theory ServerMessages
  imports Sending Api
begin

text \<open>
  What a server does with its stored messages on request (\<open>src/models/qp_whatsapp_server.go\<close>), the
  controllers that ask for it (\<open>api_handlers+MessageController.go\<close>, \<open>+ReceiveController.go\<close>,
  \<open>+DownloadController.go\<close>), and the messages of the older APIs (\<open>qp_message_v1.go\<close>, \<open>qp_message_v2.go\<close>,
  \<open>qp_whatsapp_extensions_whatsmeow.go\<close>). Calling a method of a missing connection panics, here \<open>None\<close>;
  times are nanoseconds.
\<close>

section \<open>Operations on stored messages\<close>

datatype operation_error = NoMessage store_error | OperationFailed sending_error | NoConnection

definition Server_GetById ::
    "store_env \<Rightarrow> QpWhatsappServer \<Rightarrow> string \<Rightarrow> QpWhatsappServer \<times> (store_error + WhatsappMessage)" where
  "Server_GetById env server i =
     (case GetById env (store (msg_handler server)) i of
        (st, r) \<Rightarrow> (server\<lparr>msg_handler := (msg_handler server)\<lparr>store := st\<rparr>\<rparr>, r))"

definition on_message ::
    "sending_env \<Rightarrow> QpWhatsappServer \<Rightarrow> string \<Rightarrow> (WhatsappMessage \<Rightarrow> client_call list \<times> sending_error option) \<Rightarrow>
     (QpWhatsappServer \<times> client_call list \<times> operation_error option) option" where
  "on_message env server i f =
     (case Server_GetById (he_store (ee_handler (sn_event env))) server i of
        (server, Inl err) \<Rightarrow> Some (server, [], Some (NoMessage err))
      | (server, Inr msg) \<Rightarrow>
          if connection server = None then None
          else (case f msg of (calls, err) \<Rightarrow> Some (server, calls, map_option OperationFailed err)))"

definition Server_Revoke ::
    "sending_env \<Rightarrow> QpWhatsappServer \<Rightarrow> string \<Rightarrow> (QpWhatsappServer \<times> client_call list \<times> operation_error option) option" where
  "Server_Revoke env source i = on_message env source i (Conn_Revoke env)"

definition Server_Edit ::
    "sending_env \<Rightarrow> QpWhatsappServer \<Rightarrow> string \<Rightarrow> string \<Rightarrow>
     (QpWhatsappServer \<times> client_call list \<times> operation_error option) option" where
  "Server_Edit env source i newContent = on_message env source i (\<lambda>msg. Conn_Edit env msg newContent)"

definition Server_RevokeByPrefix ::
    "sending_env \<Rightarrow> QpWhatsappServer \<Rightarrow> string \<Rightarrow> (client_call list \<times> operation_error list) option" where
  "Server_RevokeByPrefix env source i =
     foldl (\<lambda>acc msg. Option.bind acc (\<lambda>(calls, errors).
          if connection source = None then None
          else (case Conn_Revoke env msg of
                  (more_calls, None) \<Rightarrow> Some (calls @ more_calls, errors)
                | (more_calls, Some err) \<Rightarrow> Some (calls @ more_calls, errors @ [OperationFailed err]))))
       (Some ([], [])) (GetByPrefix (store (msg_handler source)) i)"

definition Server_DownloadData ::
    "sending_env \<Rightarrow> QpWhatsappServer \<Rightarrow> string \<Rightarrow> (QpWhatsappServer \<times> (operation_error + string)) option" where
  "Server_DownloadData env source i =
     (case Server_GetById (he_store (ee_handler (sn_event env))) source i of
        (source, Inl err) \<Rightarrow> Some (source, Inl (NoMessage err))
      | (source, Inr msg) \<Rightarrow>
          if connection source = None then None
          else Some (source, map_sum OperationFailed id (DownloadData env msg)))"

text \<open>The message is the one the store holds, so a content that is kept is kept there.\<close>

definition Server_Download ::
    "sending_env \<Rightarrow> QpWhatsappServer \<Rightarrow> string \<Rightarrow> bool \<Rightarrow>
     (QpWhatsappServer \<times> (operation_error + WhatsappAttachment)) option" where
  "Server_Download env source i cache =
     (case Server_GetById (he_store (ee_handler (sn_event env))) source i of
        (source, Inl err) \<Rightarrow> Some (source, Inl (NoMessage err))
      | (source, Inr msg) \<Rightarrow>
          if connection source = None then None
          else (case Download env msg cache of
                  (msg, r) \<Rightarrow>
                    Some (source\<lparr>msg_handler := (msg_handler source)\<lparr>store :=
                            write_message (store (msg_handler source)) (ToUpper i) (\<lambda>_. msg)\<rparr>\<rparr>,
                          map_sum OperationFailed id r)))"

text \<open>A time before 1970 or none asks for no history. \<open>own\<close> and \<open>hs\<close> are the device and the connection's handlers.\<close>

definition GetMessages ::
    "sending_env \<Rightarrow> JID option \<Rightarrow> handlers \<Rightarrow> QpWhatsappServer \<Rightarrow> time option \<Rightarrow>
     (client_call list \<times> WhatsappMessage list) option" where
  "GetMessages env own hs server timestamp =
     (let found = GetByTime (store (msg_handler server)) timestamp
      in if timestamp \<noteq> None \<and> the timestamp div 1000000000 > 0
         then (if connection server = None then None
               else map_option (\<lambda>(calls, err). (calls, found)) (Conn_HistorySync env own hs))
         else Some ([], found))"

section \<open>Ordered and filtered\<close>

text \<open>The sort of the Go library in descending order; equal messages may come out in any order there.\<close>

fun insert_desc :: "WhatsappMessage \<Rightarrow> WhatsappMessage list \<Rightarrow> WhatsappMessage list" where
  "insert_desc m [] = [m]"
| "insert_desc m (x # xs) = (if MessageLess m x then x # insert_desc m xs else m # x # xs)"

definition sort_desc :: "WhatsappMessage list \<Rightarrow> WhatsappMessage list" where
  "sort_desc ms = foldr insert_desc ms []"

definition search_time :: "int \<Rightarrow> time option" where
  "search_time timestamp = Some (timestamp * 1000000000)"

definition GetOrderedMessages ::
    "sending_env \<Rightarrow> JID option \<Rightarrow> handlers \<Rightarrow> QpWhatsappServer \<Rightarrow> int \<Rightarrow> (client_call list \<times> WhatsappMessage list) option" where
  "GetOrderedMessages env own hs server timestamp =
     map_option (\<lambda>(calls, messages). (calls, sort_desc messages)) (GetMessages env own hs server (search_time timestamp))"

definition GetOrderedMessagesWithExceptionsFilter ::
    "sending_env \<Rightarrow> JID option \<Rightarrow> handlers \<Rightarrow> QpWhatsappServer \<Rightarrow> int \<Rightarrow> string \<Rightarrow>
     (client_call list \<times> WhatsappMessage list) option" where
  "GetOrderedMessagesWithExceptionsFilter env own hs server timestamp exceptions =
     map_option (\<lambda>(calls, allMessages).
          (calls, sort_desc
             (if exceptions = ''true'' then filter HasExceptions allMessages
              else if exceptions = ''false'' then filter (\<lambda>m. \<not> HasExceptions m) allMessages
              else allMessages)))
       (GetMessages env own hs server (search_time timestamp))"

section \<open>Controllers\<close>

definition put :: "QPWhatsappService \<Rightarrow> QpWhatsappServer \<Rightarrow> QPWhatsappService" where
  "put service server = put_server service (Token server) server"

datatype message_error = ApiFailed api_error | OperationError operation_error | OperationErrors "operation_error list"

definition refused :: "message_error \<Rightarrow> (message_error, 'a) QpResponse_scheme \<Rightarrow> (message_error, 'a) QpResponse_scheme reply" where
  "refused err response = reply (RespondInterface (ParseError err response))"

record QpMessageResponse = "message_error QpResponse" +
  mr_Message :: "WhatsappMessage option"

definition GetMessageController ::
    "service_env \<Rightarrow> store_env \<Rightarrow> QPWhatsappService \<Rightarrow> http_request \<Rightarrow> QPWhatsappService \<times> QpMessageResponse reply" where
  "GetMessageController env st service r =
     (let response = \<lparr>Success = False, QpResponse.Status = NoStatus, mr_Message = None\<rparr>
      in case GetServer env service r of
           Inl err \<Rightarrow> (service, refused (ApiFailed (NoServer err)) response)
         | Inr server \<Rightarrow>
             if length (GetMessageId r) = 0 then (service, refused (ApiFailed (Invalid ''empty message id'')) response)
             else (case Server_GetById st server (GetMessageId r) of
                     (server, Inl err) \<Rightarrow> (put service server, refused (OperationError (NoMessage err)) response)
                   | (server, Inr msg) \<Rightarrow>
                       (put service server, reply (RespondSuccess ((ParseSuccess ''found'' response)\<lparr>mr_Message := Some msg\<rparr>)))))"

text \<open>The calls are those made to the client.\<close>

definition operation_reply ::
    "QPWhatsappService \<Rightarrow> string \<Rightarrow> (QpWhatsappServer \<times> client_call list \<times> operation_error option) option \<Rightarrow>
     QPWhatsappService \<times> client_call list \<times> message_error QpResponse reply" where
  "operation_reply service message result =
     (case result of
        None \<Rightarrow> (service, [], Panics)
      | Some (server, calls, None) \<Rightarrow> (put service server, calls, reply (RespondSuccess (ParseSuccess message empty_response)))
      | Some (server, calls, Some err) \<Rightarrow> (put service server, calls, refused (OperationError err) empty_response))"

definition RevokeController ::
    "service_env \<Rightarrow> sending_env \<Rightarrow> QPWhatsappService \<Rightarrow> http_request \<Rightarrow>
     QPWhatsappService \<times> client_call list \<times> message_error QpResponse reply" where
  "RevokeController env senv service r =
     (case GetServer env service r of
        Inl err \<Rightarrow> (service, [], refused (ApiFailed (NoServer err)) empty_response)
      | Inr server \<Rightarrow>
          let messageid = GetMessageId r
          in if length messageid = 0 then (service, [], refused (ApiFailed (Invalid ''empty message id'')) empty_response)
             else if GetMessageIdAsPrefix r then
               (case Server_RevokeByPrefix senv server messageid of
                  None \<Rightarrow> (service, [], Panics)
                | Some (calls, []) \<Rightarrow> (service, calls, reply (RespondSuccess (ParseSuccess ''revoked with success'' empty_response)))
                | Some (calls, errs) \<Rightarrow> (service, calls, refused (OperationErrors errs) empty_response))
             else operation_reply service ''revoked with success'' (Server_Revoke senv server messageid))"

text \<open>The content and the id come from the body, which is read only of a request with a length and the right method.\<close>

definition EditMessageController ::
    "service_env \<Rightarrow> sending_env \<Rightarrow> QPWhatsappService \<Rightarrow> http_request \<Rightarrow> (string + string \<times> string) \<Rightarrow>
     QPWhatsappService \<times> client_call list \<times> message_error QpResponse reply" where
  "EditMessageController env senv service r body =
     (case (if rq_length r > 0 \<and> rq_method r = ''PUT'' then body else Inr ([], [])) of
        Inl m \<Rightarrow> (service, [], refused (ApiFailed BadBody) empty_response)
      | Inr (content, messageId) \<Rightarrow>
          if length content = 0 then (service, [], refused (ApiFailed (Invalid ''empty content for edit'')) empty_response)
          else if length messageId = 0 then (service, [], refused (ApiFailed (Invalid ''empty message id'')) empty_response)
          else (case GetServer env service r of
                  Inl err \<Rightarrow> (service, [], refused (ApiFailed (NoServer err)) empty_response)
                | Inr server \<Rightarrow> operation_reply service ''message edited successfully'' (Server_Edit senv server messageId content)))"

record QpReceiveResponse = "message_error QpResponse" +
  rc_Total :: "64 word"
  rc_Messages :: "WhatsappMessage list"
  rc_Server :: "QpServer option"

definition ReceiveAPIHandler ::
    "service_env \<Rightarrow> sending_env \<Rightarrow> int \<Rightarrow> string \<Rightarrow> JID option \<Rightarrow> handlers \<Rightarrow> QPWhatsappService \<Rightarrow> http_request \<Rightarrow>
     client_call list \<times> QpReceiveResponse reply" where
  "ReceiveAPIHandler env senv now exceptions own hs service r =
     (let response = \<lparr>Success = False, QpResponse.Status = NoStatus, rc_Total = 0, rc_Messages = [], rc_Server = None\<rparr>
      in case GetServer env service r of
           Inl err \<Rightarrow> ([], refused (ApiFailed (NoServer err)) response)
         | Inr server \<Rightarrow>
             let status = GetState server
             in if status \<noteq> Ready then
                  ([], reply (RespondInterfaceCode 503 (ParseError (ApiFailed (NotReady (Wid server) status)) response)))
                else
                  let response = response\<lparr>rc_Total := Count (messages (store (msg_handler server)))\<rparr>
                  in case Request_GetTimestamp now r of
                       None \<Rightarrow> ([], refused (ApiFailed (Invalid ''timestamp'')) response)
                     | Some timestamp \<Rightarrow>
                         (case GetOrderedMessagesWithExceptionsFilter senv own hs server timestamp exceptions of
                            None \<Rightarrow> ([], Panics)
                          | Some (calls, found) \<Rightarrow>
                              (calls, reply (RespondSuccess ((ParseSuccess
                                 (if timestamp > 0 then ''getting with timestamp'' else ''getting without timestamp filter'')
                                 response)\<lparr>rc_Server := Some (QpServer.truncate server), rc_Messages := found,
                                   rc_Total := word_of_nat (length found)\<rparr>)))))"

text \<open>The answer of a download is the file name it is given, its type and its content.\<close>

definition DownloadController ::
    "service_env \<Rightarrow> att_env \<Rightarrow> sending_env \<Rightarrow> QPWhatsappService \<Rightarrow> http_request \<Rightarrow>
     QPWhatsappService \<times> (message_error QpResponse reply + string \<times> string \<times> string)" where
  "DownloadController env aenv senv service r =
     (case GetServer env service r of
        Inl err \<Rightarrow> (service, Inl (refused (ApiFailed (NoServer err)) empty_response))
      | Inr server \<Rightarrow>
          let status = GetState server; messageid = GetMessageId r
          in if status \<noteq> Ready then
               (service, Inl (reply (RespondInterfaceCode 503 (ParseError (ApiFailed (NotReady (Wid server) status)) empty_response))))
             else if length messageid = 0 then (service, Inl (refused (ApiFailed (Invalid ''empty message id'')) empty_response))
             else (case Server_Download senv server messageid (GetCache r) of
                     None \<Rightarrow> (service, Inl Panics)
                   | Some (server, Inl err) \<Rightarrow> (put service server, Inl (refused (OperationError err) empty_response))
                   | Some (server, Inr att) \<Rightarrow>
                       let filename = (if length (FileName att) = 0
                             then (case TryGetExtensionFromMimeType aenv (Mimetype att) of
                                     (exten, found) \<Rightarrow> if found then messageid @ exten else [])
                             else FileName att)
                       in (put service server,
                           case att_content att of None \<Rightarrow> Inl Panics | Some data \<Rightarrow> Inr (filename, Mimetype att, data))))"

section \<open>Messages of the older APIs\<close>

record QPAttachmentV1 =
  v1_Url :: string
  v1_Length :: "64 word"
  v1_MIME :: string
  v1_FileName :: string

record QPMessageV1 =
  m1_ID :: string
  m1_Timestamp :: "64 word"
  m1_Controller :: QPEndpointV1
  m1_ReplyTo :: QPEndpointV1
  m1_Participant :: QPEndpointV1
  m1_FromMe :: bool
  m1_Text :: string
  m1_Attachment :: "QPAttachmentV1 option"

record QpMessageV2 =
  m2_ID :: string
  m2_Timestamp :: "64 word"
  m2_Controller :: WhatsappEndpoint
  m2_ReplyTo :: WhatsappEndpoint
  m2_Participant :: WhatsappEndpoint
  m2_FromMe :: bool
  m2_Text :: string
  m2_Attachment :: "QPAttachmentV1 option"
  m2_Chat :: QPChatV2

definition empty_v1 :: QPEndpointV1 where
  "empty_v1 = \<lparr>v1_ID = [], v1_Phone = [], v1_Title = [], v1_Status = []\<rparr>"

definition empty_v2 :: WhatsappEndpoint where
  "empty_v2 = \<lparr>ep_ID = [], ep_UserName = [], ep_FirstName = [], ep_LastName = [], ep_Title = [], ep_Phone = []\<rparr>"

definition GetDownloadPrefixFromToken :: "QPWhatsappService \<Rightarrow> string \<Rightarrow> service_error + string" where
  "GetDownloadPrefixFromToken service token =
     (case map_of (Servers service) token of
        None \<Rightarrow> Inl ServerNotFound | Some server \<Rightarrow> Inr (''/bot/'' @ Token server @ ''/download''))"

definition ToQPAttachmentV1 :: "QPWhatsappService \<Rightarrow> WhatsappAttachment \<Rightarrow> string \<Rightarrow> string \<Rightarrow> QPAttachmentV1" where
  "ToQPAttachmentV1 service source i token =
     \<lparr>v1_Url = (case GetDownloadPrefixFromToken service token of Inl _ \<Rightarrow> [] | Inr url \<Rightarrow> url @ ''/'' @ i),
      v1_Length = FileLength source, v1_MIME = Mimetype source, v1_FileName = FileName source\<rparr>"

definition ToQPMessageV1 :: "QPWhatsappService \<Rightarrow> WhatsappMessage \<Rightarrow> string \<Rightarrow> QPMessageV1" where
  "ToQPMessageV1 service source wid =
     \<lparr>m1_ID = Msg_Id source, m1_Timestamp = word_of_int (unix (Timestamp source)),
      m1_Controller = empty_v1\<lparr>v1_ID := (if \<not> Contains wid ''@'' then wid @ ''@c.us'' else wid)\<rparr>,
      m1_ReplyTo = ChatToQPEndPointV1 (Chat source),
      m1_Participant = (case Participant source of None \<Rightarrow> empty_v1 | Some p \<Rightarrow> ChatToQPEndPointV1 p),
      m1_FromMe = FromMe source, m1_Text = Text source,
      m1_Attachment = (if HasAttachment source
         then map_option (\<lambda>a. ToQPAttachmentV1 service a (Msg_Id source) wid) (Attachment source) else None)\<rparr>"

definition ToQpMessageV2 :: "QPWhatsappService \<Rightarrow> WhatsappMessage \<Rightarrow> QpWhatsappServer \<Rightarrow> QpMessageV2" where
  "ToQpMessageV2 service source server =
     (let text = (if length (InReply source) > 0 then ''*(IN REPLY) '' @ Text source else Text source)
      in \<lparr>m2_ID = Msg_Id source, m2_Timestamp = word_of_int (unix (Timestamp source)),
          m2_Controller = empty_v2\<lparr>ep_ID := (if \<not> Contains (Wid server) ''@'' then GetNumber server @ ''@c.us'' else GetNumber server)\<rparr>,
          m2_ReplyTo = ChatToQPEndPointV2 (Chat source),
          m2_Participant = (case Participant source of None \<Rightarrow> empty_v2 | Some p \<Rightarrow> ChatToQPEndPointV2 p),
          m2_FromMe = FromMe source,
          m2_Text = (if ForwardingScore source > 0 then ''*(FORWARDED) '' @ text else text),
          m2_Attachment = (if HasAttachment source
             then map_option (\<lambda>a. ToQPAttachmentV1 service a (Msg_Id source) (Token server)) (Attachment source) else None),
          m2_Chat = ChatToQPChatV2 (Chat source)\<rparr>)"

definition GetQPEndPointV2 :: "QPEndpointV1 \<Rightarrow> WhatsappEndpoint" where
  "GetQPEndPointV2 source = empty_v2\<lparr>ep_ID := v1_ID source, ep_UserName := v1_Phone source,
     ep_FirstName := v1_Title source, ep_LastName := v1_Status source\<rparr>"

definition V1_ToQPChatV2 :: "QPEndpointV1 \<Rightarrow> QPChatV2" where
  "V1_ToQPChatV2 source = \<lparr>cv2_ID = v1_ID source, cv2_Title = []\<rparr>"

definition ToV2 :: "QPMessageV1 \<Rightarrow> QpMessageV2" where
  "ToV2 source =
     \<lparr>m2_ID = m1_ID source, m2_Timestamp = m1_Timestamp source,
      m2_Controller = GetQPEndPointV2 (m1_Controller source), m2_ReplyTo = GetQPEndPointV2 (m1_ReplyTo source),
      m2_Participant = GetQPEndPointV2 (m1_Participant source),
      m2_FromMe = m1_FromMe source, m2_Text = m1_Text source, m2_Attachment = m1_Attachment source,
      m2_Chat = V1_ToQPChatV2 (m1_ReplyTo source)\<rparr>"

text \<open>An id the registry does not hold is looked up by the session id of the bot, as if it were a token.\<close>

definition GetMessagesFromBotV2 ::
    "sending_env \<Rightarrow> JID option \<Rightarrow> handlers \<Rightarrow> QPWhatsappService \<Rightarrow> string \<Rightarrow> string \<Rightarrow>
     (client_call list \<times> (message_error + QpMessageV2 list)) option" where
  "GetMessagesFromBotV2 env own hs service wid timestamp =
     (case GetServerFromID service wid of
        Inl err \<Rightarrow> Some ([], Inl (ApiFailed (NoServer err)))
      | Inr server \<Rightarrow>
          (case StringToTimestamp timestamp of
             None \<Rightarrow> Some ([], Inl (ApiFailed (Invalid ''timestamp'')))
           | Some t \<Rightarrow>
               map_option (\<lambda>(calls, found). (calls, Inr (map (\<lambda>m. ToQpMessageV2 service m server) found)))
                 (GetMessages env own hs server (search_time t))))"

record QpServerV2 =
  s2_ID :: string
  s2_Verified :: bool
  s2_Token :: string
  s2_UserID :: string
  s2_Devel :: bool
  s2_HandleGroups :: bool
  s2_HandleBroadcast :: bool

definition ToQpServerV2 :: "QpServer \<Rightarrow> QpServerV2" where
  "ToQpServerV2 source =
     \<lparr>s2_ID = (if \<not> Contains (Wid source) ''@'' then Wid source @ ''@c.us'' else Wid source),
      s2_Verified = Verified source, s2_Token = Token source, s2_UserID = User source, s2_Devel = Devel source,
      s2_HandleGroups = ToBoolean (Groups source) False, s2_HandleBroadcast = ToBoolean (Broadcasts source) False\<rparr>"

section \<open>Reading\<close>

lemma not_less_trans: "\<not> MessageLess a b \<Longrightarrow> \<not> MessageLess b c \<Longrightarrow> \<not> MessageLess a c"
  using time_before_total [of "Timestamp a" "Timestamp b"] time_before_total [of "Timestamp b" "Timestamp c"]
  by (auto simp: MessageLess_def split: if_splits dest: time_before_trans time_before_asym)

lemma not_less_total: "MessageLess a b \<Longrightarrow> \<not> MessageLess b a"
  by (auto simp: MessageLess_def split: if_splits dest: time_before_asym)

definition newest_first :: "WhatsappMessage list \<Rightarrow> bool" where
  "newest_first ms \<longleftrightarrow> sorted_wrt (\<lambda>a b. \<not> MessageLess a b) ms"

lemma insert_desc_mset [simp]: "mset (insert_desc m xs) = add_mset m (mset xs)"
  by (induction xs) auto

lemma insert_desc_set [simp]: "set (insert_desc m xs) = insert m (set xs)"
  by (induction xs) auto

lemma insert_desc_sorted: "newest_first xs \<Longrightarrow> newest_first (insert_desc m xs)"
  unfolding newest_first_def by (induction xs) (auto dest: not_less_total not_less_trans)

lemma sort_desc_spec: "mset (sort_desc ms) = mset ms" "newest_first (sort_desc ms)"
proof -
  show "mset (sort_desc ms) = mset ms" by (induction ms) (simp_all add: sort_desc_def)
  show "newest_first (sort_desc ms)"
    by (induction ms) (simp_all add: sort_desc_def newest_first_def insert_desc_sorted [unfolded newest_first_def])
qed

lemma GetMessages_found: "GetMessages env own hs server t = Some (calls, found) \<Longrightarrow> found = GetByTime (store (msg_handler server)) t"
  by (auto simp: GetMessages_def Let_def split: if_splits)

definition exceptions_pass :: "string \<Rightarrow> WhatsappMessage \<Rightarrow> bool" where
  "exceptions_pass exceptions m \<longleftrightarrow>
     (exceptions = ''true'' \<longrightarrow> HasExceptions m) \<and> (exceptions = ''false'' \<longrightarrow> \<not> HasExceptions m)"

text \<open>
  A successful answer to a request for received messages comes from a ready server and holds exactly
  its stored messages from after the time asked for that pass the filter on exceptions, newest first, and
  their number.
\<close>
theorem receive_newest_first:
  assumes "GetServer env service r = Inr server"
    and "ReceiveAPIHandler env senv now exceptions own hs service r = (calls, Reply 200 response)"
  shows "GetState server = Ready \<and>
     (\<exists>t. Request_GetTimestamp now r = Some t \<and>
        mset (rc_Messages response) =
          mset (filter (exceptions_pass exceptions) (GetByTime (store (msg_handler server)) (search_time t)))) \<and>
     newest_first (rc_Messages response) \<and> rc_Total response = word_of_nat (length (rc_Messages response))"
proof -
  have state: "GetState server = Ready"
    using assms by (auto simp: ReceiveAPIHandler_def Let_def reply_def RespondInterfaceCode_def split: if_splits)
  then obtain t where t: "Request_GetTimestamp now r = Some t"
    using assms by (cases "Request_GetTimestamp now r") (auto simp: ReceiveAPIHandler_def Let_def refused_def reply_def)
  let ?g = "GetMessages senv own hs server (search_time t)"
  obtain c found where g: "?g = Some (c, found)"
    using assms state t
    by (cases ?g) (auto simp: ReceiveAPIHandler_def Let_def GetOrderedMessagesWithExceptionsFilter_def)
  let ?found = "GetByTime (store (msg_handler server)) (search_time t)"
  have f: "found = ?found" using GetMessages_found [OF g] .
  let ?pass = "if exceptions = ''true'' then filter HasExceptions found
    else if exceptions = ''false'' then filter (\<lambda>m. \<not> HasExceptions m) found else found"
  have pass: "?pass = filter (exceptions_pass exceptions) ?found"
    unfolding f by (auto simp: exceptions_pass_def intro!: filter_cong)
  have "rc_Messages response = sort_desc ?pass \<and> rc_Total response = word_of_nat (length (sort_desc ?pass))"
    using assms state t g
    by (auto simp: ReceiveAPIHandler_def Let_def GetOrderedMessagesWithExceptionsFilter_def reply_def RespondSuccess_def
        RespondInterfaceCode_def ParseSuccess_def)
  then show ?thesis using state t sort_desc_spec [of ?pass] unfolding pass by auto
qed

section \<open>Revoking\<close>

lemma revoke_loop:
  "foldl (\<lambda>acc msg. Option.bind acc (\<lambda>(calls, errors).
          if missing then None
          else (case Conn_Revoke env msg of
                  (more_calls, None) \<Rightarrow> Some (calls @ more_calls, errors)
                | (more_calls, Some err) \<Rightarrow> Some (calls @ more_calls, errors @ [OperationFailed err]))))
     (Some (calls, errors)) msgs =
   (if missing \<and> msgs \<noteq> [] then None
    else Some (calls @ concat (map (\<lambda>msg. fst (Conn_Revoke env msg)) msgs),
               errors @ map OperationFailed (List.map_filter (\<lambda>msg. snd (Conn_Revoke env msg)) msgs)))"
proof -
  have dead: "foldl (\<lambda>acc msg. Option.bind acc (f msg)) None msgs = None"
    for f :: "WhatsappMessage \<Rightarrow> 'a \<Rightarrow> 'a option" and msgs
    by (induction msgs) auto
  show ?thesis
  proof (cases missing)
    case True
    then show ?thesis by (cases msgs) (simp_all add: dead map_filter_simps)
  next
    case False
    show ?thesis unfolding if_not_P [OF False]
    proof (induction msgs arbitrary: calls errors)
      case (Cons msg msgs)
      obtain more err where c: "Conn_Revoke env msg = (more, err)" by force
      show ?case using False
        by (cases err) (simp_all add: c Cons map_filter_simps)
    qed (simp add: False map_filter_simps)
  qed
qed

text \<open>
  Revoking by prefix, which is the default, asks the client to revoke every stored message whose id
  has the prefix in upper case, and fails only if one of the requests failed: with no such message it
  reports success and asks for nothing. It panics exactly when there is a message and the server has no
  connection.
\<close>
theorem revoke_by_prefix_spec:
  assumes "GetServer env service r = Inr server" "GetMessageId r \<noteq> []" "GetMessageIdAsPrefix r"
    and "found = GetByPrefix (store (msg_handler server)) (GetMessageId r)"
  shows "RevokeController env senv service r =
     (if connection server = None \<and> found \<noteq> [] then (service, [], Panics)
      else (service, concat (map (\<lambda>msg. fst (Conn_Revoke senv msg)) found),
        let errs = List.map_filter (\<lambda>msg. snd (Conn_Revoke senv msg)) found
        in if errs = [] then Reply 200 \<lparr>Success = True, QpResponse.Status = StatusText ''revoked with success''\<rparr>
           else Reply 400 \<lparr>Success = False, QpResponse.Status = StatusFailed (OperationErrors (map OperationFailed errs))\<rparr>))"
proof -
  have p: "Server_RevokeByPrefix senv server (GetMessageId r) =
      (if connection server = None \<and> found \<noteq> [] then None
       else Some (concat (map (\<lambda>msg. fst (Conn_Revoke senv msg)) found),
                  map OperationFailed (List.map_filter (\<lambda>msg. snd (Conn_Revoke senv msg)) found)))"
    using revoke_loop [of "connection server = None" senv "[]" "[]" found]
    by (simp add: Server_RevokeByPrefix_def assms(4))
  have some: "List.map_filter (\<lambda>msg. snd (Conn_Revoke senv msg)) found \<noteq> [] \<Longrightarrow> found \<noteq> []" by (auto simp: map_filter_simps)
  show ?thesis
    using assms(1-3) some
    by (cases "List.map_filter (\<lambda>msg. snd (Conn_Revoke senv msg)) found")
      (simp_all add: RevokeController_def p Let_def refused_def reply_def empty_response_def ParseError_def ParseSuccess_def
        RespondSuccess_def RespondInterfaceCode_def)
qed

section \<open>Downloads\<close>

text \<open>
  A download that may use the cache asks the client at most once while the message is kept: asked
  again, whatever the client would answer then, the server returns the same attachment from its store. A
  download that must not use it leaves the stored message alone.
\<close>
theorem server_download_once:
  assumes "store_ok (store (msg_handler server))"
    and "Server_Download env server i cache = Some (server', Inr att)"
    and "env_now (he_store (ee_handler (sn_event env'))) = env_now (he_store (ee_handler (sn_event env)))"
  shows "store_ok (store (msg_handler server')) \<and>
     (if cache then \<exists>again. Server_Download env' server' i True = Some (again, Inr att)
      else live (env_now (he_store (ee_handler (sn_event env)))) (messages (store (msg_handler server'))) =
           live (env_now (he_store (ee_handler (sn_event env)))) (messages (store (msg_handler server))))"
proof -
  let ?env = "he_store (ee_handler (sn_event env))"
  let ?env' = "he_store (ee_handler (sn_event env'))"
  obtain st r where g: "GetById ?env (store (msg_handler server)) i = (st, r)" by force
  then obtain msg where r: "r = Inr msg"
    using assms(2) by (cases r) (auto simp: Server_Download_def Server_GetById_def)
  note spec = GetById_spec [OF assms(1), of ?env i, unfolded g r]
  have live: "live (env_now ?env) (messages st) (ToUpper i) = Some msg"
    using spec(2,3) by (auto split: option.splits)
  have conn: "connection server \<noteq> None" using assms(2) g r by (auto simp: Server_Download_def Server_GetById_def split: if_splits)
  obtain msg' where d: "Download env msg cache = (msg', Inr att)"
    using assms(2) g r conn
    by (cases "Download env msg cache"; cases "snd (Download env msg cache)") (auto simp: Server_Download_def Server_GetById_def)
  have s': "server' = server\<lparr>msg_handler := (msg_handler server)\<lparr>store := write_message st (ToUpper i) (\<lambda>_. msg')\<rparr>\<rparr>"
    using assms(2) g r conn d by (auto simp: Server_Download_def Server_GetById_def)
  have c: "cache_ok (messages st)" using spec(1) by (simp add: store_ok_def)
  note written = write_message_ok(3) [OF c, of "env_now ?env" "ToUpper i" "\<lambda>_. msg'"]
  have ok': "store_ok (store (msg_handler server'))"
    using spec(1) write_message_ok(1,2) [OF c] by (simp add: s' store_ok_def)
  have "if cache then \<exists>again. Server_Download env' server' i True = Some (again, Inr att)
      else live (env_now ?env) (messages (store (msg_handler server'))) = live (env_now ?env) (messages (store (msg_handler server)))"
  proof (cases cache)
    case True
    have "live (env_now ?env') (messages (store (msg_handler server'))) (ToUpper i) = Some msg'"
      using written live assms(3) by (simp add: s')
    then have "snd (GetById ?env' (store (msg_handler server')) i) = Inr msg'"
      using GetById_spec(2) [OF ok', of ?env' i] by simp
    moreover have "Download env' msg' True = (msg', Inr att)"
      using d True by (auto simp: Download_def Let_def split: option.splits if_splits sum.splits)
    moreover have "connection server' \<noteq> None" using conn by (simp add: s')
    ultimately show ?thesis
      using True by (cases "GetById ?env' (store (msg_handler server')) i") (simp add: Server_Download_def Server_GetById_def)
  next
    case False
    then have "msg' = msg" using d by (auto simp: Download_def Let_def split: option.splits if_splits sum.splits)
    then have "live (env_now ?env) (messages (store (msg_handler server'))) = live (env_now ?env) (messages st)"
      using written live by (auto simp: s' fun_eq_iff)
    then show ?thesis using spec(3) False by simp
  qed
  then show ?thesis using ok' by blast
qed

section \<open>Older messages\<close>

text \<open>
  In the first message format the attachment of a message has no address, unless some server's token
  is the very session id the message is made for; in the second it always has one, that of its server.
\<close>
theorem attachment_address:
  assumes "registry_ok service" "HasAttachment msg"
    and "map_of (Servers service) wid = None" "map_of (Servers service) (Token server) = Some server"
  shows "map_option v1_Url (m1_Attachment (ToQPMessageV1 service msg wid)) = Some []
     \<and> map_option v1_Url (m2_Attachment (ToQpMessageV2 service msg server)) =
       Some (''/bot/'' @ Token server @ ''/download/'' @ Msg_Id msg)"
proof -
  obtain a where a: "Attachment msg = Some a" using assms(2) by (cases "Attachment msg") (auto simp: HasAttachment_def)
  then show ?thesis
    using assms(2-4)
    by (simp add: ToQPMessageV1_def ToQpMessageV2_def ToQPAttachmentV1_def GetDownloadPrefixFromToken_def Let_def)
qed


definition ready_server :: QpWhatsappServer where
  "ready_server = (NewQpWhatsappServer 7 (new_info ''Ab'' ''me'' ''5521:3@s.whatsapp.net''))\<lparr>Verified := True,
     connection := Some (sample_connection\<lparr>Client := map_option (\<lambda>c. c\<lparr>cl_IsConnected := True, cl_IsLoggedIn := True\<rparr>)
       (Client sample_connection)\<rparr>),
     msg_handler := \<lparr>store = fst (Append sample_store_env empty_store (empty_message\<lparr>Msg_Id := ''A1'', Timestamp := Some 5,
       Content := WaMessage (empty_wa\<lparr>ImageMessage := Some empty_media\<rparr>),
       Attachment := Some (empty_attachment\<lparr>Mimetype := ''image/png''\<rparr>)\<rparr>) ''test''), aeh = []\<rparr>\<rparr>"

definition ready_service :: QPWhatsappService where
  "ready_service = empty_service\<lparr>Servers := [(''Ab'', ready_server)]\<rparr>"

definition page :: "(string \<times> string) list \<Rightarrow> http_request" where
  "page params = sample_http ((''token'', ''ab'') # params)"

lemma ready_found: "GetServer sample_service_env ready_service (page params) = Inr ready_server"
proof -
  have "GetToken (page params) = ''ab''"
    by (simp add: GetToken_def GetRequestParameter_def page_def sample_http_def QueryHasKey_def QueryGetValue_def first_value_def
        TrimSpace_id solid_def is_space_def EqualFold_def)
  moreover have "EqualFold (Token ready_server) ''ab''" by code_simp
  ultimately show ?thesis
    by (simp add: GetServer_def GetServerFromToken_def ready_service_def sample_service_env_def)
qed

theorem receive_newest_first_witness:
  "case snd (ReceiveAPIHandler sample_service_env sample_sending_env 0 [] None None ready_service (page [])) of
     Reply code response \<Rightarrow> code = 200 \<and> rc_Total response = 1 | _ \<Rightarrow> False"
proof -
  obtain calls a where e: "ReceiveAPIHandler sample_service_env sample_sending_env 0 [] None None ready_service (page []) = (calls, a)"
    by force
  have "case snd (ReceiveAPIHandler sample_service_env sample_sending_env 0 [] None None ready_service (page [])) of
      Reply code response \<Rightarrow> code = 200 \<and> length (rc_Messages response) = 1 | _ \<Rightarrow> False"
    by code_simp
  then obtain response where a: "a = Reply 200 response" "length (rc_Messages response) = 1"
    using e by (auto split: reply.splits)
  then show ?thesis using receive_newest_first [OF ready_found, of _ _ _ _ _ "[]" calls response] e by auto
qed

theorem revoke_by_prefix_spec_witness:
  "RevokeController sample_service_env sample_sending_env ready_service (page [(''messageid'', ''zz'')]) =
     (ready_service, [], Reply 200 \<lparr>Success = True, QpResponse.Status = StatusText ''revoked with success''\<rparr>)"
proof -
  let ?r = "page [(''messageid'', ''zz'')]"
  have h: "GetMessageId ?r \<noteq> []" "GetMessageIdAsPrefix ?r" by code_simp+
  have n: "[] = GetByPrefix (store (msg_handler ready_server)) (GetMessageId ?r)" by code_simp
  show ?thesis using revoke_by_prefix_spec [OF ready_found h n] by (simp add: map_filter_simps)
qed

theorem server_download_once_witness:
  "case Server_Download sample_sending_env ready_server ''a1'' True of
     Some (server, Inr att) \<Rightarrow>
       (\<exists>again. Server_Download (sample_sending_env\<lparr>sn_download := (\<lambda>_. Inl ''gone'')\<rparr>) server ''a1'' True = Some (again, Inr att))
   | _ \<Rightarrow> False"
proof -
  have ok: "store_ok (store (msg_handler ready_server))"
    unfolding ready_server_def by (simp add: Append_ok [OF empty_store_ok])
  have "case Server_Download sample_sending_env ready_server ''a1'' True of Some (s, Inr att) \<Rightarrow> True | _ \<Rightarrow> False" by code_simp
  then obtain server att where d: "Server_Download sample_sending_env ready_server ''a1'' True = Some (server, Inr att)"
    by (cases "snd (the (Server_Download sample_sending_env ready_server ''a1'' True))") (auto split: option.splits)
  show ?thesis
    using server_download_once [OF ok d, of "sample_sending_env\<lparr>sn_download := (\<lambda>_. Inl ''gone'')\<rparr>"] d by simp
qed

theorem attachment_address_witness:
  "map_option v1_Url (m1_Attachment (ToQPMessageV1 ready_service (empty_message\<lparr>Attachment := Some (empty_attachment\<lparr>Mimetype := ''image/png''\<rparr>)\<rparr>)
     ''5521:3@s.whatsapp.net'')) = Some []"
proof -
  let ?m = "empty_message\<lparr>Attachment := Some (empty_attachment\<lparr>Mimetype := ''image/png''\<rparr>)\<rparr>"
  have t: "Token ready_server = ''Ab''" by (simp add: ready_server_def new_info_def)
  have h: "registry_ok ready_service" "map_of (Servers ready_service) ''5521:3@s.whatsapp.net'' = None"
    "map_of (Servers ready_service) (Token ready_server) = Some ready_server"
    by (simp_all add: registry_ok_def ready_service_def t)
  have "HasAttachment ?m" by code_simp
  then show ?thesis using attachment_address [OF h(1) _ h(2,3)] by blast
qed

end
