(* ===== verification/GroupManager.thy ===== *)
theory GroupManager
  imports ServerMessages
begin

text \<open>
  Groups: the manager of a connection (\<open>src/whatsmeow/whatsmeow_group_manager.go\<close>), the server's, which
  passes on to it (\<open>src/models/qp_group_manager.go\<close>), and the controllers
  (\<open>src/api/api_handlers+GroupsController.go\<close>). What the client answers and how an id is parsed are the
  fields of \<open>group_env\<close>; the calls made to the client are listed in the results.
\<close>

section \<open>The manager\<close>

record group_participant =
  gp_JID :: JID
  gp_DisplayName :: string

record group_info =
  gi_JID :: JID
  gi_Participants :: "group_participant list option"
  gi_other :: string

datatype participant_change = ChangeAdd | ChangeRemove | ChangePromote | ChangeDemote
datatype request_change = ChangeApprove | ChangeReject

datatype group_call =
  CallInvite JID | CallJoined | CallInfo JID | CallCreate string "JID list" | CallName JID string | CallTopic JID string
| CallPhoto JID "string option" | CallParticipants JID "JID list" participant_change | CallRequests JID
| CallHandleRequests JID "JID list" request_change | CallLeave JID

record group_env =
  gr_parse :: "string \<Rightarrow> string + JID"
  gr_contact :: "JID \<Rightarrow> contact_info option"
  gr_invite :: "JID \<Rightarrow> string + string"
  gr_joined :: "string + group_info list"
  gr_info :: "JID \<Rightarrow> string + group_info"
  gr_create :: "string \<Rightarrow> JID list \<Rightarrow> string + group_info"
  gr_photo :: "string + string"
  gr_members :: "string + string list"
  gr_control :: "string option"

datatype group_error =
  ClientNotDefined | BadGroupJID string | BadParticipant string | InvalidAction string | ClientError string
| NotAGroup string | NoGroupConnection

type_synonym 'a group_result = "group_call list \<times> (group_error + 'a)"

definition with_client :: "WhatsmeowConnection \<Rightarrow> 'a group_result \<Rightarrow> 'a group_result" where
  "with_client gm r = (if Client gm = None then ([], Inl ClientNotDefined) else r)"

definition with_jid :: "group_env \<Rightarrow> string \<Rightarrow> (JID \<Rightarrow> 'a group_result) \<Rightarrow> 'a group_result" where
  "with_jid env groupId f = (case gr_parse env groupId of Inl err \<Rightarrow> ([], Inl (BadGroupJID err)) | Inr jid \<Rightarrow> f jid)"

text \<open>Every participant is parsed, up to the first that cannot be.\<close>

fun parse_all :: "(string \<Rightarrow> string + JID) \<Rightarrow> string list \<Rightarrow> group_error + JID list" where
  "parse_all parse [] = Inr []"
| "parse_all parse (p # ps) =
     (case parse p of
        Inl err \<Rightarrow> Inl (BadParticipant err)
      | Inr jid \<Rightarrow> map_sum id (\<lambda>jids. jid # jids) (parse_all parse ps))"

definition GetInvite :: "group_env \<Rightarrow> WhatsmeowConnection \<Rightarrow> string \<Rightarrow> string group_result" where
  "GetInvite env gm groupId = with_client gm (with_jid env groupId (\<lambda>jid.
     ([CallInvite jid], map_sum ClientError id (gr_invite env jid))))"

definition display_name :: "group_env \<Rightarrow> JID \<Rightarrow> string" where
  "display_name env jid =
     (case gr_contact env jid of
        None \<Rightarrow> jid_User jid
      | Some contact \<Rightarrow>
          if length (FullName contact) > 0 then FullName contact
          else if length (PushName contact) > 0 then PushName contact
          else [])"

definition fill_names :: "group_env \<Rightarrow> group_info \<Rightarrow> group_info" where
  "fill_names env groupInfo =
     groupInfo\<lparr>gi_Participants :=
       (case gi_Participants groupInfo of
          Some ps \<Rightarrow> Some (map (\<lambda>p. p\<lparr>gp_DisplayName := display_name env (gp_JID p)\<rparr>) ps)
        | None \<Rightarrow> Some [])\<rparr>"

definition GetJoinedGroups :: "group_env \<Rightarrow> WhatsmeowConnection \<Rightarrow> group_info list group_result" where
  "GetJoinedGroups env gm = with_client gm
     ([CallJoined], map_sum ClientError (map (fill_names env)) (gr_joined env))"

definition GetGroupInfo :: "group_env \<Rightarrow> WhatsmeowConnection \<Rightarrow> string \<Rightarrow> group_info group_result" where
  "GetGroupInfo env gm groupId = with_client gm (with_jid env groupId (\<lambda>jid.
     ([CallInfo jid], map_sum ClientError (fill_names env) (gr_info env jid))))"

definition PhoneToJID :: "group_env \<Rightarrow> string \<Rightarrow> string + JID" where
  "PhoneToJID env source = gr_parse env (PhoneToWid source)"

definition create_with :: "group_env \<Rightarrow> (string \<Rightarrow> string + JID) \<Rightarrow> string \<Rightarrow> string list \<Rightarrow> group_info group_result" where
  "create_with env parse name participants =
     (case parse_all parse participants of
        Inl err \<Rightarrow> ([], Inl err)
      | Inr jids \<Rightarrow> ([CallCreate name jids], map_sum ClientError id (gr_create env name jids)))"

definition CreateGroup :: "group_env \<Rightarrow> WhatsmeowConnection \<Rightarrow> string \<Rightarrow> string list \<Rightarrow> group_info group_result" where
  "CreateGroup env gm name participants = with_client gm (create_with env (PhoneToJID env) name participants)"

definition CreateGroupExtended :: "group_env \<Rightarrow> WhatsmeowConnection \<Rightarrow> string \<Rightarrow> string list \<Rightarrow> group_info group_result" where
  "CreateGroupExtended env gm title participants = with_client gm (create_with env (gr_parse env) title participants)"

text \<open>A change of the group is followed by a question for its new data.\<close>

definition changed_info :: "group_env \<Rightarrow> JID \<Rightarrow> group_call \<Rightarrow> group_info group_result" where
  "changed_info env jid call =
     (case gr_control env of
        Some err \<Rightarrow> ([call], Inl (ClientError err))
      | None \<Rightarrow> ([call, CallInfo jid], map_sum ClientError id (gr_info env jid)))"

definition UpdateGroupSubject :: "group_env \<Rightarrow> WhatsmeowConnection \<Rightarrow> string \<Rightarrow> string \<Rightarrow> group_info group_result" where
  "UpdateGroupSubject env gm groupID name = with_client gm (with_jid env groupID (\<lambda>jid. changed_info env jid (CallName jid name)))"

definition UpdateGroupTopic :: "group_env \<Rightarrow> WhatsmeowConnection \<Rightarrow> string \<Rightarrow> string \<Rightarrow> group_info group_result" where
  "UpdateGroupTopic env gm groupID topic = with_client gm (with_jid env groupID (\<lambda>jid. changed_info env jid (CallTopic jid topic)))"

definition UpdateGroupPhoto :: "group_env \<Rightarrow> WhatsmeowConnection \<Rightarrow> string \<Rightarrow> string option \<Rightarrow> string group_result" where
  "UpdateGroupPhoto env gm groupID imageData = with_client gm (with_jid env groupID (\<lambda>jid.
     ([CallPhoto jid imageData], map_sum ClientError id (gr_photo env))))"

definition participant_action :: "string \<Rightarrow> participant_change option" where
  "participant_action action =
     (if action = ''add'' then Some ChangeAdd
      else if action = ''remove'' then Some ChangeRemove
      else if action = ''promote'' then Some ChangePromote
      else if action = ''demote'' then Some ChangeDemote
      else None)"

definition UpdateGroupParticipants ::
    "group_env \<Rightarrow> WhatsmeowConnection \<Rightarrow> string \<Rightarrow> string list \<Rightarrow> string \<Rightarrow> string list group_result" where
  "UpdateGroupParticipants env gm groupJID participants action = with_client gm (with_jid env groupJID (\<lambda>jid.
     (case parse_all (gr_parse env) participants of
        Inl err \<Rightarrow> ([], Inl err)
      | Inr jids \<Rightarrow>
          (case participant_action action of
             None \<Rightarrow> ([], Inl (InvalidAction action))
           | Some change \<Rightarrow> ([CallParticipants jid jids change], map_sum ClientError id (gr_members env))))))"

definition GetGroupJoinRequests :: "group_env \<Rightarrow> WhatsmeowConnection \<Rightarrow> string \<Rightarrow> string list group_result" where
  "GetGroupJoinRequests env gm groupJID = with_client gm (with_jid env groupJID (\<lambda>jid.
     ([CallRequests jid], map_sum ClientError id (gr_members env))))"

definition request_action :: "string \<Rightarrow> request_change option" where
  "request_action action =
     (if action = ''approve'' then Some ChangeApprove else if action = ''reject'' then Some ChangeReject else None)"

definition HandleGroupJoinRequests ::
    "group_env \<Rightarrow> WhatsmeowConnection \<Rightarrow> string \<Rightarrow> string list \<Rightarrow> string \<Rightarrow> string list group_result" where
  "HandleGroupJoinRequests env gm groupJID participants action = with_client gm (with_jid env groupJID (\<lambda>jid.
     (case parse_all (gr_parse env) participants of
        Inl err \<Rightarrow> ([], Inl err)
      | Inr jids \<Rightarrow>
          (case request_action action of
             None \<Rightarrow> ([], Inl (InvalidAction action))
           | Some change \<Rightarrow> ([CallHandleRequests jid jids change], map_sum ClientError id (gr_members env))))))"

definition LeaveGroup :: "group_env \<Rightarrow> WhatsmeowConnection \<Rightarrow> string \<Rightarrow> unit group_result" where
  "LeaveGroup env gm groupID = with_client gm (with_jid env groupID (\<lambda>jid.
     if jid_Server jid \<noteq> WHATSAPP_SERVERDOMAIN_GROUP then ([], Inl (NotAGroup groupID))
     else ([CallLeave jid], (case gr_control env of Some err \<Rightarrow> Inl (ClientError err) | None \<Rightarrow> Inr ()))))"

section \<open>The manager of a server\<close>

text \<open>Every operation of \<open>QpGroupManager\<close> is this one around the operation of the connection's manager.\<close>

definition getGroupManager :: "QpWhatsappServer \<Rightarrow> (WhatsmeowConnection \<Rightarrow> 'a group_result) \<Rightarrow> 'a group_result" where
  "getGroupManager server f =
     (case connection server of None \<Rightarrow> ([], Inl NoGroupConnection) | Some cn \<Rightarrow> f cn)"

section \<open>Controllers\<close>

datatype groups_error = GroupApi api_error | GroupFailed group_error | ImageFailed string

record group_response = "groups_error QpResponse" +
  gs_Total :: nat
  gs_Groups :: "group_info list"
  gs_Members :: "string list"

definition new_group_response :: group_response where
  "new_group_response = \<lparr>Success = False, QpResponse.Status = NoStatus, gs_Total = 0, gs_Groups = [], gs_Members = []\<rparr>"

definition refuse :: "groups_error \<Rightarrow> group_response reply" where
  "refuse err = reply (RespondInterface (ParseError err new_group_response))"

definition on_server ::
    "service_env \<Rightarrow> QPWhatsappService \<Rightarrow> http_request \<Rightarrow> (QpWhatsappServer \<Rightarrow> group_call list \<times> group_response reply) \<Rightarrow>
     group_call list \<times> group_response reply" where
  "on_server env service r f =
     (case GetServer env service r of
        Inl err \<Rightarrow> ([], refuse (GroupApi (NoServer err)))
      | Inr server \<Rightarrow> f server)"

definition group_reply ::
    "'a group_result \<Rightarrow> ('a \<Rightarrow> group_response) \<Rightarrow> group_call list \<times> group_response reply" where
  "group_reply result f =
     (case result of
        (calls, Inl err) \<Rightarrow> (calls, refuse (GroupFailed err))
      | (calls, Inr x) \<Rightarrow> (calls, reply (RespondSuccess (f x))))"

definition one_group :: "group_info \<Rightarrow> group_response" where
  "one_group g = new_group_response\<lparr>gs_Groups := [g]\<rparr>"

definition GetGroupController ::
    "service_env \<Rightarrow> group_env \<Rightarrow> QPWhatsappService \<Rightarrow> http_request \<Rightarrow> group_call list \<times> group_response reply" where
  "GetGroupController env genv service r = on_server env service r (\<lambda>server.
     let groupId = GetRequestParameter r ''groupid''
     in if \<not> IsValidGroupId groupId then ([], refuse (GroupApi (Invalid ''group id'')))
        else group_reply (getGroupManager server (\<lambda>conn. GetGroupInfo genv conn groupId)) one_group)"

definition FetchAllGroupsController ::
    "service_env \<Rightarrow> group_env \<Rightarrow> QPWhatsappService \<Rightarrow> http_request \<Rightarrow> group_call list \<times> group_response reply" where
  "FetchAllGroupsController env genv service r = on_server env service r (\<lambda>server.
     group_reply (getGroupManager server (GetJoinedGroups genv))
       (\<lambda>groups. new_group_response\<lparr>gs_Total := length groups, gs_Groups := groups\<rparr>))"

text \<open>Decoding an empty body fails, and \<open>null\<close> leaves the request empty.\<close>

definition decoded :: "'r \<Rightarrow> 'r body \<Rightarrow> 'r option" where
  "decoded zero body = (case body of Body r \<Rightarrow> Some r | JsonNull \<Rightarrow> Some zero | _ \<Rightarrow> None)"

definition CreateGroupController ::
    "service_env \<Rightarrow> group_env \<Rightarrow> QPWhatsappService \<Rightarrow> http_request \<Rightarrow> (string \<times> string list) body \<Rightarrow>
     group_call list \<times> group_response reply" where
  "CreateGroupController env genv service r body = on_server env service r (\<lambda>server.
     (case decoded ([], []) body of
        None \<Rightarrow> ([], refuse (GroupApi BadBody))
      | Some (title, participants) \<Rightarrow>
          if title = [] then ([], refuse (GroupApi (Invalid ''title is required'')))
          else if length title > 25 then ([], refuse (GroupApi (Invalid ''group title is limited to 25 characters'')))
          else if length participants = 0 then ([], refuse (GroupApi (Invalid ''participants are required'')))
          else group_reply (getGroupManager server (\<lambda>conn. CreateGroupExtended genv conn title (PhonesToWids participants))) one_group))"

definition SetGroupNameController ::
    "service_env \<Rightarrow> group_env \<Rightarrow> QPWhatsappService \<Rightarrow> http_request \<Rightarrow> (string \<times> string) body \<Rightarrow>
     group_call list \<times> group_response reply" where
  "SetGroupNameController env genv service r body = on_server env service r (\<lambda>server.
     (case decoded ([], []) body of
        None \<Rightarrow> ([], refuse (GroupApi BadBody))
      | Some (groupID, name) \<Rightarrow>
          if groupID = [] then ([], refuse (GroupApi (Invalid ''group JID is required'')))
          else if name = [] then ([], refuse (GroupApi (Invalid ''name is required'')))
          else group_reply (getGroupManager server (\<lambda>conn. UpdateGroupSubject genv conn groupID name)) one_group))"

definition SetGroupTopicController ::
    "service_env \<Rightarrow> group_env \<Rightarrow> QPWhatsappService \<Rightarrow> http_request \<Rightarrow> (string \<times> string) body \<Rightarrow>
     group_call list \<times> group_response reply" where
  "SetGroupTopicController env genv service r body = on_server env service r (\<lambda>server.
     (case decoded ([], []) body of
        None \<Rightarrow> ([], refuse (GroupApi BadBody))
      | Some (groupID, topic) \<Rightarrow>
          if groupID = [] then ([], refuse (GroupApi (Invalid ''group JID is required'')))
          else group_reply (getGroupManager server (\<lambda>conn. UpdateGroupTopic genv conn groupID topic)) one_group))"

text \<open>
  The request is the group, the address of an image and whether to remove it; \<open>fetch\<close> is the download: its
  error, or the status and what reading its body gives.
\<close>

definition fetch_image :: "(string \<Rightarrow> string + nat \<times> (string + string)) \<Rightarrow> string \<Rightarrow> groups_error + string" where
  "fetch_image fetch url =
     (case fetch url of
        Inl err \<Rightarrow> Inl (ImageFailed err)
      | Inr (code, content) \<Rightarrow>
          if code \<noteq> 200 then Inl (ImageFailed ''server returned status'')
          else (case content of
                  Inl err \<Rightarrow> Inl (ImageFailed err)
                | Inr imageData \<Rightarrow>
                    if length imageData < 10000 \<or> length imageData > 500000 then Inl (ImageFailed ''image size'')
                    else Inr imageData))"

definition SetGroupPhotoController ::
    "service_env \<Rightarrow> group_env \<Rightarrow> (string \<Rightarrow> string + nat \<times> (string + string)) \<Rightarrow> QPWhatsappService \<Rightarrow> http_request \<Rightarrow>
     (string \<times> string \<times> bool) body \<Rightarrow> group_call list \<times> group_response reply" where
  "SetGroupPhotoController env genv fetch service r body = on_server env service r (\<lambda>server.
     (case decoded ([], [], False) body of
        None \<Rightarrow> ([], refuse (GroupApi BadBody))
      | Some (groupJID, imageURL, removeImg) \<Rightarrow>
          if groupJID = [] then ([], refuse (GroupApi (Invalid ''group JID is required'')))
          else if removeImg then
            group_reply (getGroupManager server (\<lambda>conn. UpdateGroupPhoto genv conn groupJID None))
              (\<lambda>_. ParseSuccess ''Group photo removed successfully'' new_group_response)
          else if imageURL = [] then ([], refuse (GroupApi (Invalid ''image_url is required'')))
          else (case fetch_image fetch imageURL of
                  Inl err \<Rightarrow> ([], refuse err)
                | Inr imageData \<Rightarrow>
                    group_reply (getGroupManager server (\<lambda>conn. UpdateGroupPhoto genv conn groupJID (Some imageData)))
                      (\<lambda>pictureID. ParseSuccess (''Group photo updated successfully. Picture ID: '' @ pictureID) new_group_response))))"

definition UpdateGroupParticipantsController ::
    "service_env \<Rightarrow> group_env \<Rightarrow> QPWhatsappService \<Rightarrow> http_request \<Rightarrow> (string \<times> string list \<times> string) body \<Rightarrow>
     group_call list \<times> group_response reply" where
  "UpdateGroupParticipantsController env genv service r body = on_server env service r (\<lambda>server.
     (case decoded ([], [], []) body of
        None \<Rightarrow> ([], refuse (GroupApi BadBody))
      | Some (groupJID, participants, action) \<Rightarrow>
          if groupJID = [] then ([], refuse (GroupApi (Invalid ''group_jid is required'')))
          else if length participants = 0 then ([], refuse (GroupApi (Invalid ''at least one participant is required'')))
          else if ToLower action \<notin> {''add'', ''remove'', ''promote'', ''demote''} then ([], refuse (GroupApi (Invalid ''invalid action'')))
          else group_reply (getGroupManager server (\<lambda>conn.
                 UpdateGroupParticipants genv conn groupJID (PhonesToWids participants) (ToLower action)))
               (\<lambda>result. ParseSuccess (''Group participants updated successfully. Action: '' @ action)
                  (new_group_response\<lparr>gs_Total := length result, gs_Members := result\<rparr>))))"

definition GroupMembershipRequestsController ::
    "service_env \<Rightarrow> group_env \<Rightarrow> QPWhatsappService \<Rightarrow> http_request \<Rightarrow> (string \<times> string list \<times> string) body \<Rightarrow>
     group_call list \<times> group_response reply" where
  "GroupMembershipRequestsController env genv service r body = on_server env service r (\<lambda>server.
     (case (if rq_method r = ''POST'' then decoded ([], [], []) body
            else Some (GetRequestParameter r ''group_jid'', [], ''get'')) of
        None \<Rightarrow> ([], refuse (GroupApi BadBody))
      | Some (groupJID, participants, action) \<Rightarrow>
          if groupJID = [] then ([], refuse (GroupApi (Invalid ''group_jid is required'')))
          else if ToLower action \<in> {''get'', []} then
            group_reply (getGroupManager server (\<lambda>conn. GetGroupJoinRequests genv conn groupJID))
              (\<lambda>requests. ParseSuccess ''Group join requests retrieved successfully''
                 (new_group_response\<lparr>gs_Total := length requests, gs_Members := requests\<rparr>))
          else if ToLower action \<in> {''approve'', ''reject''} then
            (if length participants = 0 then ([], refuse (GroupApi (Invalid ''at least one participant is required'')))
             else group_reply (getGroupManager server (\<lambda>conn. HandleGroupJoinRequests genv conn groupJID participants action))
                    (\<lambda>result. ParseSuccess ''Group join requests processed successfully'' (new_group_response\<lparr>gs_Members := result\<rparr>)))
          else ([], refuse (GroupApi (Invalid ''invalid action'')))))"

text \<open>The body is read before the token here.\<close>

definition LeaveGroupController ::
    "service_env \<Rightarrow> group_env \<Rightarrow> QPWhatsappService \<Rightarrow> http_request \<Rightarrow> string body \<Rightarrow> group_call list \<times> group_response reply" where
  "LeaveGroupController env genv service r body =
     (case decoded [] body of
        None \<Rightarrow> ([], refuse (GroupApi BadBody))
      | Some chatId \<Rightarrow>
          if chatId = [] then ([], refuse (GroupApi (Invalid ''chatId is required'')))
          else on_server env service r (\<lambda>server.
            if \<not> IsValidGroupId chatId then ([], refuse (GroupApi (Invalid ''invalid group JID format'')))
            else group_reply (getGroupManager server (\<lambda>conn. LeaveGroup genv conn chatId))
                   (\<lambda>_. ParseSuccess ''successfully left the group'' new_group_response)))"

section \<open>What reaches the client\<close>

lemma parse_all_spec:
  "parse_all parse ps = (if list_all (\<lambda>p. \<not> isl (parse p)) ps then Inr (map (\<lambda>p. projr (parse p)) ps)
     else Inl (BadParticipant (projl (parse (hd (dropWhile (\<lambda>p. \<not> isl (parse p)) ps))))))"
  by (induction ps) (auto split: sum.split)

lemma parse_all_Inr: "parse_all parse ps = Inr jids \<longleftrightarrow> list_all2 (\<lambda>p jid. parse p = Inr jid) ps jids"
proof (induction ps arbitrary: jids)
  case (Cons p ps)
  show ?case
  proof (cases "parse p")
    case (Inr jid)
    then show ?thesis
      by (cases "parse_all parse ps") (auto simp: list_all2_Cons1 Cons.IH [symmetric])
  qed (auto simp: list_all2_Cons1)
qed auto

lemma with_client_calls: "fst (with_client gm r) = (if Client gm = None then [] else fst r)"
  by (simp add: with_client_def)

lemma with_jid_calls: "fst (with_jid env g f) = (case gr_parse env g of Inl _ \<Rightarrow> [] | Inr jid \<Rightarrow> fst (f jid))"
  by (simp add: with_jid_def split: sum.split)

lemma group_reply_calls [simp]: "fst (group_reply result f) = fst result"
  by (simp add: group_reply_def split: prod.split sum.split)

lemma manager_calls: "fst (getGroupManager server f) = (case connection server of None \<Rightarrow> [] | Some cn \<Rightarrow> fst (f cn))"
  by (simp add: getGroupManager_def split: option.split)

lemma on_server_calls:
  "fst (on_server env service r f) = (case GetServer env service r of Inl _ \<Rightarrow> [] | Inr server \<Rightarrow> fst (f server))"
  by (simp add: on_server_def split: sum.split)

lemmas reach = with_client_calls with_jid_calls group_reply_calls manager_calls on_server_calls

text \<open>
  A change of the members of a group reaches the client whole or not at all: the client is called at
  most once, with every participant asked for, in order, as the id of its number, and with the action in
  lower case; if one of them or the group cannot be parsed, or the action is none of the four, it is not
  called.
\<close>
theorem members_changed_whole:
  assumes "fst (UpdateGroupParticipantsController env genv service r (Body (groupJID, participants, action))) = calls" "calls \<noteq> []"
  shows "\<exists>jid jids change. calls = [CallParticipants jid jids change] \<and> gr_parse genv groupJID = Inr jid \<and>
     list_all2 (\<lambda>p j. gr_parse genv (PhoneToWid p) = Inr j) participants jids \<and> participants \<noteq> [] \<and>
     participant_action (ToLower action) = Some change"
proof -
  have "\<exists>server cn. GetServer env service r = Inr server \<and> connection server = Some cn \<and> participants \<noteq> [] \<and>
      calls = fst (UpdateGroupParticipants genv cn groupJID (PhonesToWids participants) (ToLower action))"
    using assms by (auto simp: UpdateGroupParticipantsController_def reach decoded_def split: sum.splits if_splits option.splits)
  then obtain cn where c: "participants \<noteq> []"
    "calls = fst (UpdateGroupParticipants genv cn groupJID (PhonesToWids participants) (ToLower action))" by blast
  then obtain jid where j: "gr_parse genv groupJID = Inr jid" "Client cn \<noteq> None"
    using assms(2) by (cases "gr_parse genv groupJID") (auto simp: UpdateGroupParticipants_def reach split: if_splits)
  obtain jids where p: "parse_all (gr_parse genv) (PhonesToWids participants) = Inr jids"
    using assms(2) c(2) j
    by (cases "parse_all (gr_parse genv) (PhonesToWids participants)") (auto simp: UpdateGroupParticipants_def reach)
  obtain change where a: "participant_action (ToLower action) = Some change"
    using assms(2) c(2) j p by (cases "participant_action (ToLower action)") (auto simp: UpdateGroupParticipants_def reach)
  have "list_all2 (\<lambda>p j. gr_parse genv (PhoneToWid p) = Inr j) participants jids"
    using p unfolding parse_all_Inr PhonesToWids_def list_all2_map1 .
  then show ?thesis using c j p a by (simp add: UpdateGroupParticipants_def reach)
qed

definition sample_group_env :: group_env where
  "sample_group_env = \<lparr>gr_parse = (\<lambda>s. if Contains s ''@'' then
       Inr \<lparr>jid_User = takeWhile (\<lambda>c. c \<noteq> CHR ''@'') s, jid_Device = 0, jid_Server = tl (dropWhile (\<lambda>c. c \<noteq> CHR ''@'') s)\<rparr>
       else Inl ''no server''),
     gr_contact = (\<lambda>_. None), gr_invite = (\<lambda>_. Inr ''link''), gr_joined = Inr [], gr_info = (\<lambda>_. Inl ''gone''),
     gr_create = (\<lambda>_ _. Inl ''refused''), gr_photo = Inr ''pic'', gr_members = Inr [''ok''], gr_control = None\<rparr>"

theorem members_changed_whole_witness:
  "length (fst (UpdateGroupParticipantsController sample_service_env sample_group_env ready_service (page [])
     (Body (''123@g.us'', [''+5521''], ''ADD'')))) = 1"
proof -
  let ?calls = "fst (UpdateGroupParticipantsController sample_service_env sample_group_env ready_service (page [])
     (Body (''123@g.us'', [''+5521''], ''ADD'')))"
  have "?calls \<noteq> []" by code_simp
  from members_changed_whole [OF refl this] show ?thesis by auto
qed

text \<open>
  A decision on requests to join is accepted by the controller in any case of letters and handed on as
  it was written, and the manager knows it in lower case only: any other spelling is answered 400 and
  never reaches the client.
\<close>
theorem join_decision_spelling:
  assumes "action \<notin> {''approve'', ''reject''}" "ToLower action \<in> {''approve'', ''reject''}"
    and "GetServer env service r = Inr server" "rq_method r = ''POST''"
  shows "fst (GroupMembershipRequestsController env genv service r (Body (groupJID, participants, action))) = []
     \<and> (case snd (GroupMembershipRequestsController env genv service r (Body (groupJID, participants, action))) of
          Reply code response \<Rightarrow> code = 400 | _ \<Rightarrow> False)"
proof -
  have a: "request_action action = None" using assms(1) by (simp add: request_action_def)
  have n: "ToLower action \<notin> {''get'', []}" using assms(2) by auto
  have "fst (getGroupManager server (\<lambda>conn. HandleGroupJoinRequests genv conn groupJID participants action)) = []"
    "isl (snd (getGroupManager server (\<lambda>conn. HandleGroupJoinRequests genv conn groupJID participants action)))"
    by (auto simp: getGroupManager_def HandleGroupJoinRequests_def with_client_def with_jid_def a split: option.split sum.split)
  then obtain err where h: "getGroupManager server (\<lambda>conn. HandleGroupJoinRequests genv conn groupJID participants action) = ([], Inl err)"
    by (metis isl_def prod.collapse)
  show ?thesis
    using assms(2-4) n
    by (auto simp: GroupMembershipRequestsController_def on_server_def decoded_def group_reply_def h refuse_def reply_def)
qed

theorem join_decision_spelling_witness:
  "fst (GroupMembershipRequestsController sample_service_env sample_group_env ready_service (page [])
     (Body (''123@g.us'', [''5521@s.whatsapp.net''], ''Approve''))) = []"
proof -
  have a: "''Approve'' \<notin> {''approve'', ''reject''}" "ToLower ''Approve'' \<in> {''approve'', ''reject''}" by code_simp+
  have m: "rq_method (page []) = ''POST''" by (simp add: page_def sample_http_def)
  show ?thesis using join_decision_spelling [OF a ready_found m] by blast
qed

text \<open>
  C36. A group is created only with a title of 1 to 25 bytes and at least one participant, its photo is set
  only to an image of 10,000 to 500,000 bytes or removed on request, and the group left is one by its id's
  length and domain and by its parsed domain; nothing else is sent to the client by these requests. The
  limit on titles is one of characters for WhatsApp, so longer scripts are refused too early.
\<close>
theorem group_requests_bounded:
  "(\<forall>call \<in> set (fst (CreateGroupController env genv service r body)).
      \<exists>title participants jids. body = Body (title, participants) \<and> call = CallCreate title jids \<and>
        1 \<le> length title \<and> length title \<le> 25 \<and> length jids = length participants \<and> participants \<noteq> [])
   \<and> (\<forall>call \<in> set (fst (SetGroupPhotoController env genv fetch service r photo)).
      \<exists>jid image. call = CallPhoto jid image \<and>
        (case image of None \<Rightarrow> \<exists>g url. photo = Body (g, url, True) | Some d \<Rightarrow> 10000 \<le> length d \<and> length d \<le> 500000))
   \<and> (\<forall>call \<in> set (fst (LeaveGroupController env genv service r leave)).
      \<exists>g jid. leave = Body g \<and> call = CallLeave jid \<and> gr_parse genv g = Inr jid \<and> jid_Server jid = WHATSAPP_SERVERDOMAIN_GROUP \<and>
        HasSuffix g GROUP_SUFFIX \<and> length g \<le> 29)"
proof (intro conjI ballI)
  fix call assume "call \<in> set (fst (CreateGroupController env genv service r body))"
  then obtain title participants cn where b: "body = Body (title, participants)" "1 \<le> length title" "length title \<le> 25" "participants \<noteq> []"
    "call \<in> set (fst (CreateGroupExtended genv cn title (PhonesToWids participants)))"
    by (cases body) (auto simp: CreateGroupController_def reach decoded_def Suc_le_eq split: sum.splits if_splits option.splits)
  obtain jids where j: "parse_all (gr_parse genv) (PhonesToWids participants) = Inr jids" "call = CallCreate title jids"
    using b(5)
    by (cases "parse_all (gr_parse genv) (PhonesToWids participants)")
      (auto simp: CreateGroupExtended_def create_with_def reach split: if_splits)
  then have "length jids = length participants"
    unfolding parse_all_Inr by (auto simp: PhonesToWids_def dest: list_all2_lengthD)
  then show "\<exists>title participants jids. body = Body (title, participants) \<and> call = CallCreate title jids \<and>
        1 \<le> length title \<and> length title \<le> 25 \<and> length jids = length participants \<and> participants \<noteq> []"
    using b j by blast
next
  fix call assume "call \<in> set (fst (SetGroupPhotoController env genv fetch service r photo))"
  then consider (gone) g url cn where "photo = Body (g, url, True)" "call \<in> set (fst (UpdateGroupPhoto genv cn g None))"
    | (image) g url cn d where "fetch_image fetch url = Inr d" "call \<in> set (fst (UpdateGroupPhoto genv cn g (Some d)))"
    by (cases photo) (auto simp: SetGroupPhotoController_def reach decoded_def split: sum.splits if_splits option.splits)
  then show "\<exists>jid image. call = CallPhoto jid image \<and>
        (case image of None \<Rightarrow> \<exists>g url. photo = Body (g, url, True) | Some d \<Rightarrow> 10000 \<le> length d \<and> length d \<le> 500000)"
  proof cases
    case gone
    then show ?thesis by (auto simp: UpdateGroupPhoto_def reach split: sum.splits if_splits)
  next
    case image
    then have "10000 \<le> length d \<and> length d \<le> 500000"
      by (auto simp: fetch_image_def split: sum.splits prod.splits if_splits)
    then show ?thesis using image by (auto simp: UpdateGroupPhoto_def reach split: sum.splits if_splits)
  qed
next
  fix call assume "call \<in> set (fst (LeaveGroupController env genv service r leave))"
  then obtain g cn where "leave = Body g" "IsValidGroupId g" "call \<in> set (fst (LeaveGroup genv cn g))"
    by (cases leave) (auto simp: LeaveGroupController_def reach decoded_def split: sum.splits if_splits option.splits)
  then show "\<exists>g jid. leave = Body g \<and> call = CallLeave jid \<and> gr_parse genv g = Inr jid \<and> jid_Server jid = WHATSAPP_SERVERDOMAIN_GROUP \<and>
        HasSuffix g GROUP_SUFFIX \<and> length g \<le> 29"
    by (auto simp: LeaveGroup_def reach IsValidGroupId_def split: sum.splits if_splits)
qed

theorem group_requests_bounded_witness:
  "list_all (\<lambda>call. case call of CallLeave jid \<Rightarrow> jid_Server jid = WHATSAPP_SERVERDOMAIN_GROUP | _ \<Rightarrow> False)
     (fst (LeaveGroupController sample_service_env sample_group_env ready_service (page []) (Body ''123@g.us'')))
   \<and> fst (LeaveGroupController sample_service_env sample_group_env ready_service (page []) (Body ''123@g.us'')) \<noteq> []"
proof -
  have "fst (LeaveGroupController sample_service_env sample_group_env ready_service (page []) (Body ''123@g.us'')) \<noteq> []" by code_simp
  then show ?thesis
    using group_requests_bounded [of sample_service_env sample_group_env ready_service "page []" "Body ([], [])" "\<lambda>_. Inl []" "Body ([], [], False)" "Body ''123@g.us''"]
    by (fastforce simp: list_all_iff)
qed

end
