(* ===== verification/ApiSend.thy ===== *)
theory ApiSend
  imports Api Attachments Lifecycle Chats
begin

text \<open>
  Sending through the API (\<open>src/api/api_handlers+SendController.go\<close>, \<open>api_handlers+SendDocumentController.go\<close>,
  \<open>api_handlers_untested.go\<close>): how the body and the parameters of a request become a message, which chat
  it is sent to, and what the caller is told. A body is given decoded; the download of an address, the
  JSON of a poll and the client's answers are fields of \<open>api_send_env\<close>. Counters of metrics, the debug
  text of a response and the log are left out.
\<close>

section \<open>Requests\<close>

text \<open>\<open>fc_length\<close> is the length the server announces, negative when it does not.\<close>

record fetched =
  fc_status :: nat
  fc_body :: "string + string"
  fc_length :: int
  fc_type :: string

record api_send_env =
  as_fetch :: "string \<Rightarrow> string + fetched"
  as_poll :: "string \<Rightarrow> string + WhatsappPoll option"
  as_att :: att_env
  as_contact :: contact_env
  as_handler :: handler_env
  as_send :: send_env

datatype fetch_error = FetchFailed string | UnexpectedStatus nat

datatype send_error =
  SendApi api_error | SendChatId chatid_error | SendRecipient endpoint_error | SendFetch fetch_error | SendEmbed embed_error
| SendRead string | SendPollText string | SendFailed server_error | SendToLidFailed server_error

record QpSendResponseMessage =
  sm_Id :: string
  sm_Wid :: string
  sm_ChatId :: string
  sm_TrackId :: string

record QpSendResponse = "send_error QpResponse" +
  sr_Message :: "QpSendResponseMessage option"

definition new_send_response :: QpSendResponse where
  "new_send_response = \<lparr>Success = False, QpResponse.Status = NoStatus, sr_Message = None\<rparr>"

definition Send_ParseSuccess :: "QpSendResponseMessage \<Rightarrow> QpSendResponse \<Rightarrow> QpSendResponse" where
  "Send_ParseSuccess message source = (ParseSuccess ''sended with success'' source)\<lparr>sr_Message := Some message\<rparr>"

definition not_sent :: "send_error \<Rightarrow> QpSendResponse reply" where
  "not_sent err = reply (RespondInterface (ParseError err new_send_response))"

text \<open>\<open>path.Base\<close>: the last element of a path.\<close>

definition path_Base :: "string \<Rightarrow> string" where
  "path_Base p =
     (if p = [] then ''.''
      else let name = rev (takeWhile (\<lambda>c. c \<noteq> CHR ''/'') (dropWhile (\<lambda>c. c = CHR ''/'') (rev p)))
           in if name = [] then ''/'' else name)"

definition GenerateUrlContent :: "api_send_env \<Rightarrow> QpSendAnyRequest \<Rightarrow> QpSendAnyRequest \<times> fetch_error option" where
  "GenerateUrlContent env source =
     (case as_fetch env (Any_Url source) of
        Inl err \<Rightarrow> (source, Some (FetchFailed err))
      | Inr resp \<Rightarrow>
          if fc_status resp \<noteq> 200 then (source, Some (UnexpectedStatus (fc_status resp)))
          else (case fc_body resp of
                  Inl err \<Rightarrow> (source, Some (FetchFailed err))
                | Inr content \<Rightarrow>
                    let source = source\<lparr>Req_Content := content\<rparr>;
                        source = (if fc_length resp > -1 then source\<lparr>Req_FileLength := word_of_int (fc_length resp)\<rparr> else source);
                        source = (if length (Req_Mimetype source) = 0 then source\<lparr>Req_Mimetype := fc_type resp\<rparr> else source);
                        name = path_Base (Any_Url source)
                    in (if length (Req_FileName source) = 0
                        then source\<lparr>Req_FileName := (case QueryUnescape name of Some filename \<Rightarrow> filename | None \<Rightarrow> name)\<rparr>
                        else source, None)))"

text \<open>\<open>strconv.ParseUint\<close> to base 10 and 64 bits.\<close>

definition ParseUint :: "string \<Rightarrow> nat option" where
  "ParseUint s =
     (if s = [] \<or> \<not> list_all is_digit s \<or> digits_value s \<ge> 2 ^ 64 then None else Some (nat (digits_value s)))"

text \<open>The content is what reading the body gives.\<close>

definition GenerateBodyContent ::
    "(string + string) \<Rightarrow> http_request \<Rightarrow> QpSendRequest \<Rightarrow> QpSendRequest \<times> string option" where
  "GenerateBodyContent content r source =
     (case content of
        Inl err \<Rightarrow> (source, Some err)
      | Inr content \<Rightarrow>
          let source = source\<lparr>Req_Content := content, Req_Mimetype := Header_Get r ''Content-Type''\<rparr>;
              source = (case ParseUint (Header_Get r ''Content-Length'') of
                          Some n \<Rightarrow> source\<lparr>Req_FileLength := word_of_nat n\<rparr> | None \<Rightarrow> source)
          in (source\<lparr>Req_FileName := GetFileName r\<rparr>, None))"

section \<open>The message\<close>

text \<open>A text that begins with \<open>poll:\<close> carries a poll.\<close>

definition with_poll :: "api_send_env \<Rightarrow> WhatsappMessage \<Rightarrow> send_error + WhatsappMessage" where
  "with_poll env waMsg =
     (let pollText = TrimSpace (Text waMsg)
      in if HasPrefix pollText ''poll:'' then
           map_sum SendPollText (\<lambda>poll. waMsg\<lparr>Poll := poll\<rparr>) (as_poll env (drop 5 pollText))
         else Inr waMsg)"

definition with_type :: "WhatsappAttachment option \<Rightarrow> WhatsappMessageType \<Rightarrow> WhatsappMessage \<Rightarrow> send_error + WhatsappMessage" where
  "with_type file messageType waMsg =
     (let waMsg = (case file of
            Some a \<Rightarrow> waMsg\<lparr>Attachment := Some a,
              MsgType := (if messageType = UnhandledMessageType then GetMessageType (Some a) else messageType)\<rparr>
          | None \<Rightarrow> if MsgType waMsg = UnhandledMessageType then waMsg\<lparr>MsgType := TextMessageType\<rparr> else waMsg)
      in if MsgType waMsg = UnhandledMessageType then
           (if length (Text waMsg) > 0 then Inr (waMsg\<lparr>MsgType := TextMessageType\<rparr>)
            else Inl (SendApi (Invalid ''unknown message type without text'')))
         else Inr waMsg)"

definition request_message ::
    "api_send_env \<Rightarrow> QpSendRequest \<Rightarrow> WhatsappAttachment option \<Rightarrow> WhatsappMessageType \<Rightarrow> send_error + WhatsappMessage" where
  "request_message env request file messageType =
     (case Request_ToWhatsappMessage request of
        Inl err \<Rightarrow> Inl (SendRecipient err)
      | Inr waMsg \<Rightarrow> (case with_poll env waMsg of Inl err \<Rightarrow> Inl err | Inr waMsg \<Rightarrow> with_type file messageType waMsg))"

section \<open>The chat\<close>

text \<open>The caller of these two only asks whether there is an error, which is \<open>None\<close> here.\<close>

definition Qp_GetLIDFromPhone :: "contact_env \<Rightarrow> QpWhatsappServer \<Rightarrow> chat_state \<Rightarrow> string \<Rightarrow> chat_state \<times> string option" where
  "Qp_GetLIDFromPhone env server c phone =
     (if connection server = None then (c, None)
      else (case GetLIDFromPhone env c phone of (c, Inl _) \<Rightarrow> (c, None) | (c, Inr lid) \<Rightarrow> (c, Some lid)))"

definition Qp_GetPhoneFromLID :: "contact_env \<Rightarrow> QpWhatsappServer \<Rightarrow> chat_state \<Rightarrow> string \<Rightarrow> chat_state \<times> string option" where
  "Qp_GetPhoneFromLID env server c lid =
     (if connection server = None then (c, None)
      else (case GetPhoneFromLID env c lid of (c, Inl _) \<Rightarrow> (c, None) | (c, Inr phone) \<Rightarrow> (c, Some phone)))"

definition TrimSuffix :: "string \<Rightarrow> string \<Rightarrow> string" where
  "TrimSuffix s t = (if HasSuffix s t then take (length s - length t) s else s)"

text \<open>\<open>None\<close> is the direct attempt to send to an LID without a phone.\<close>

definition sending_chat :: "contact_env \<Rightarrow> QpWhatsappServer \<Rightarrow> chat_state \<Rightarrow> string \<Rightarrow> chat_state \<times> string option" where
  "sending_chat env server c chatId =
     (if Contains chatId LID_SUFFIX then
        (case Qp_GetPhoneFromLID env server c chatId of
           (c, Some phone) \<Rightarrow> (c, if length phone = 0 then None else Some (PhoneToWid phone))
         | (c, None) \<Rightarrow> (c, None))
      else
        let phoneNumber = (if Contains chatId USER_SUFFIX then TrimSuffix chatId USER_SUFFIX else chatId);
            phoneNumber = TrimPlus phoneNumber
        in case Qp_GetLIDFromPhone env server c phoneNumber of
             (c, Some lid) \<Rightarrow>
               if length lid > 0 then
                 (case Qp_GetPhoneFromLID env server c lid of
                    (c, Some phone) \<Rightarrow> (c, Some (PhoneToWid (if length phone > 0 then phone else phoneNumber)))
                  | (c, None) \<Rightarrow> (c, Some (PhoneToWid phoneNumber)))
               else (c, Some (PhoneToWid phoneNumber))
           | (c, None) \<Rightarrow> (c, Some (PhoneToWid phoneNumber)))"

section \<open>Sending\<close>

text \<open>
  The result holds the server, the maps, the announcements, the messages handed to the connection and the
  answer. The connection completes the message it is handed: the answer reports its id and its chat. A
  request that panics is dropped by the Go server.
\<close>

type_synonym sent = "QpWhatsappServer \<times> chat_state \<times> delivery list \<times> WhatsappMessage list \<times> QpSendResponse reply"

definition answered :: "api_send_env \<Rightarrow> WhatsappMessage list \<Rightarrow> WhatsappMessage" where
  "answered env handed = fst (sd_send (as_send env) (last handed))"

definition send_answer ::
    "api_send_env \<Rightarrow> (server_error \<Rightarrow> send_error) \<Rightarrow> (WhatsappMessage \<Rightarrow> string) \<Rightarrow> QpWhatsappServer \<Rightarrow> chat_state \<Rightarrow>
     WhatsappMessage \<Rightarrow> sent" where
  "send_answer env failure chat_of server c waMsg =
     (case SendMessage (as_handler env) (as_send env) server waMsg of
        None \<Rightarrow> (server, c, [], [], Panics)
      | Some (server, out, handed, Some err) \<Rightarrow> (server, c, out, handed, not_sent (failure err))
      | Some (server, out, handed, None) \<Rightarrow>
          let waMsg' = answered env handed;
              result = \<lparr>sm_Id = Msg_Id waMsg', sm_Wid = Wid server, sm_ChatId = chat_of waMsg', sm_TrackId = Msg_TrackId waMsg'\<rparr>
          in (server, c, out, handed, reply (RespondInterface (Send_ParseSuccess result new_send_response))))"

definition SendWithMessageType ::
    "api_send_env \<Rightarrow> QpWhatsappServer \<Rightarrow> chat_state \<Rightarrow> QpSendRequest \<Rightarrow> WhatsappAttachment option \<Rightarrow> WhatsappMessageType \<Rightarrow> sent" where
  "SendWithMessageType env server c request file messageType =
     (case request_message env request file messageType of
        Inl err \<Rightarrow> (server, c, [], [], not_sent err)
      | Inr waMsg \<Rightarrow>
          let status = GetState server
          in if status \<noteq> Ready then
               (server, c, [], [], reply (RespondInterfaceCode 503
                  (ParseError (SendApi (NotReady (Wid server) status)) new_send_response)))
             else
               let originalChatId = Chat_Id (Chat waMsg)
               in (case sending_chat (as_contact env) server c originalChatId of
                     (c, None) \<Rightarrow> send_answer env SendToLidFailed (\<lambda>_. originalChatId) server c waMsg
                   | (c, Some chatId) \<Rightarrow>
                       send_answer env SendFailed (\<lambda>m. Chat_Id (Chat m)) server c
                         (waMsg\<lparr>Chat := (Chat waMsg)\<lparr>Chat_Id := chatId\<rparr>\<rparr>)))"

definition with_parameters :: "http_request \<Rightarrow> QpSendRequest \<Rightarrow> QpSendRequest" where
  "with_parameters r request =
     (let request = (if length (Req_Text request) = 0 then request\<lparr>Req_Text := GetTextParameter r\<rparr> else request)
      in if length (Req_InReply request) = 0 then request\<lparr>Req_InReply := GetInReplyParameter r\<rparr> else request)"

definition with_track :: "http_request \<Rightarrow> QpSendRequest \<Rightarrow> QpSendRequest" where
  "with_track r request =
     (if length (Req_TrackId request) = 0 then request\<lparr>Req_TrackId := GetTrackId r\<rparr> else request)"

definition empty_send :: "api_error" where
  "empty_send = Invalid ''text not found, do not send empty messages''"

definition SendRequest :: "api_send_env \<Rightarrow> http_request \<Rightarrow> QpSendRequest \<Rightarrow> QpWhatsappServer \<Rightarrow> chat_state \<Rightarrow> sent" where
  "SendRequest env r request server c =
     (case ToWhatsappAttachment (as_att env) request of
        None \<Rightarrow> (server, c, [], [], Panics)
      | Some att \<Rightarrow>
          let request = with_parameters r request
          in if Req_Poll request = None \<and> Req_Location request = None \<and> Req_Contact request = None \<and> att = None \<and>
                length (Req_Text request) = 0
             then (server, c, [], [], not_sent (SendApi empty_send))
             else SendWithMessageType env server c (with_track r request) att UnhandledMessageType)"

definition SendDocumentRequest :: "api_send_env \<Rightarrow> http_request \<Rightarrow> QpSendRequest \<Rightarrow> QpWhatsappServer \<Rightarrow> chat_state \<Rightarrow> sent" where
  "SendDocumentRequest env r request server c =
     (case ToWhatsappAttachment (as_att env) request of
        None \<Rightarrow> (server, c, [], [], Panics)
      | Some att \<Rightarrow>
          let request = with_parameters r request
          in if Req_Poll request = None \<and> att = None \<and> length (Req_Text request) = 0
             then (server, c, [], [], not_sent (SendApi empty_send))
             else SendWithMessageType env server c (with_track r request) att DocumentMessageType)"

text \<open>
  The body is read only of a \<open>POST\<close> with a length. A JSON \<open>null\<close> leaves no request behind, and the check
  of the chat id dereferences it.
\<close>

definition send_body :: "http_request \<Rightarrow> QpSendAnyRequest body \<Rightarrow> QpSendAnyRequest body" where
  "send_body r body = (if rq_length r > 0 \<and> rq_method r = ''POST'' then body else Body empty_any_request)"

definition with_url :: "http_request \<Rightarrow> QpSendAnyRequest \<Rightarrow> QpSendAnyRequest" where
  "with_url r request =
     (let request = (if length (Any_Url request) = 0
                     then (case map_of (rq_query r) ''url'' of Some vs \<Rightarrow> request\<lparr>Any_Url := first_value vs\<rparr> | None \<Rightarrow> request)
                     else request)
      in request\<lparr>Any_Url := TrimSpace (Any_Url request)\<rparr>)"

definition with_content :: "api_send_env \<Rightarrow> QpSendAnyRequest \<Rightarrow> QpSendAnyRequest \<times> send_error option" where
  "with_content env request =
     (if length (Any_Url request) > 0 then
        (case GenerateUrlContent env request of (request, err) \<Rightarrow> (request, map_option SendFetch err))
      else if length (Any_Content request) > 0 then
        (case GenerateEmbedContent request of (request, err) \<Rightarrow> (request, map_option SendEmbed err))
      else (request, None))"

definition with_name :: "http_request \<Rightarrow> QpSendAnyRequest \<Rightarrow> QpSendAnyRequest" where
  "with_name r request =
     (let filename = GetFileName r in if length filename > 0 then request\<lparr>Req_FileName := filename\<rparr> else request)"

text \<open>The check of the chat id changes only the chat id of the request.\<close>

definition Any_EnsureValidChatId :: "string \<Rightarrow> QpSendAnyRequest \<Rightarrow> QpSendAnyRequest \<times> chatid_error option" where
  "Any_EnsureValidChatId requested request =
     (case EnsureValidChatId requested (QpSendRequest.truncate request) of
        (checked, err) \<Rightarrow> (request\<lparr>Req_ChatId := Req_ChatId checked\<rparr>, err))"

definition prepared :: "api_send_env \<Rightarrow> http_request \<Rightarrow> QpSendAnyRequest \<Rightarrow> send_error + QpSendRequest" where
  "prepared env r request =
     (case Any_EnsureValidChatId (GetChatId r) request of
        (_, Some err) \<Rightarrow> Inl (SendChatId err)
      | (request, None) \<Rightarrow>
          (case with_content env (with_url r request) of
             (_, Some err) \<Rightarrow> Inl err
           | (request, None) \<Rightarrow> Inr (QpSendRequest.truncate (with_name r request))))"

definition send_with ::
    "(QpSendRequest \<Rightarrow> QpWhatsappServer \<Rightarrow> chat_state \<Rightarrow> sent) \<Rightarrow> api_send_env \<Rightarrow> http_request \<Rightarrow> QpSendAnyRequest body \<Rightarrow>
     QpWhatsappServer \<Rightarrow> chat_state \<Rightarrow> sent" where
  "send_with send env r body server c =
     (case send_body r body of
        JsonNull \<Rightarrow> (server, c, [], [], Panics)
      | Body request \<Rightarrow>
          (case prepared env r request of
             Inl err \<Rightarrow> (server, c, [], [], not_sent err)
           | Inr request \<Rightarrow> send request server c)
      | _ \<Rightarrow> (server, c, [], [], not_sent (SendApi BadBody)))"

definition SendAnyWithServer ::
    "api_send_env \<Rightarrow> http_request \<Rightarrow> QpSendAnyRequest body \<Rightarrow> QpWhatsappServer \<Rightarrow> chat_state \<Rightarrow> sent" where
  "SendAnyWithServer env r body server c = send_with (SendRequest env r) env r body server c"

definition SendDocumentWithServer ::
    "api_send_env \<Rightarrow> http_request \<Rightarrow> QpSendAnyRequest body \<Rightarrow> QpWhatsappServer \<Rightarrow> chat_state \<Rightarrow> sent" where
  "SendDocumentWithServer env r body server c = send_with (SendDocumentRequest env r) env r body server c"

text \<open>The server is the registry's: what the request leaves of it is kept there.\<close>

type_synonym service_sent = "QPWhatsappService \<times> chat_state \<times> delivery list \<times> WhatsappMessage list \<times> QpSendResponse reply"

definition on_own_server ::
    "service_env \<Rightarrow> QPWhatsappService \<Rightarrow> chat_state \<Rightarrow> http_request \<Rightarrow> (QpWhatsappServer \<Rightarrow> sent) \<Rightarrow> service_sent" where
  "on_own_server senv service c r f =
     (case GetServer senv service r of
        Inl err \<Rightarrow> (service, c, [], [], not_sent (SendApi (NoServer err)))
      | Inr server \<Rightarrow>
          (case f server of (source, rest) \<Rightarrow> (put_server service (Token server) source, rest)))"

definition SendAny ::
    "service_env \<Rightarrow> api_send_env \<Rightarrow> QPWhatsappService \<Rightarrow> chat_state \<Rightarrow> http_request \<Rightarrow> QpSendAnyRequest body \<Rightarrow> service_sent" where
  "SendAny senv env service c r body = on_own_server senv service c r (\<lambda>server. SendAnyWithServer env r body server c)"

definition SendDocument ::
    "service_env \<Rightarrow> api_send_env \<Rightarrow> QPWhatsappService \<Rightarrow> chat_state \<Rightarrow> http_request \<Rightarrow> QpSendAnyRequest body \<Rightarrow> service_sent" where
  "SendDocument senv env service c r body = on_own_server senv service c r (\<lambda>server. SendDocumentWithServer env r body server c)"

definition SendDocumentFromBinary ::
    "service_env \<Rightarrow> api_send_env \<Rightarrow> QPWhatsappService \<Rightarrow> chat_state \<Rightarrow> http_request \<Rightarrow> (string + string) \<Rightarrow> service_sent" where
  "SendDocumentFromBinary senv env service c r content = on_own_server senv service c r (\<lambda>server.
     (case EnsureValidChatId (GetChatId r) (QpSendRequest.truncate empty_any_request) of
        (_, Some err) \<Rightarrow> (server, c, [], [], not_sent (SendChatId err))
      | (request, None) \<Rightarrow>
          (case GenerateBodyContent content r request of
             (_, Some err) \<Rightarrow> (server, c, [], [], not_sent (SendRead err))
           | (request, None) \<Rightarrow> SendRequest env r request server c)))"

section \<open>What reaches the connection\<close>

text \<open>The message as it is sent: \<open>m\<close> with the chat that the ninth digit may have changed, whole or in two parts.\<close>

definition text_part :: "WhatsappMessage \<Rightarrow> WhatsappMessage" where
  "text_part m = m\<lparr>MsgType := TextMessageType, Attachment := None\<rparr>"

definition audio_part :: "WhatsappMessage \<Rightarrow> WhatsappMessage" where
  "audio_part m = m\<lparr>Msg_Id := (if Msg_Id m = [] then [] else Msg_Id m @ ''-audio''), Text := []\<rparr>"

definition parts_of :: "WhatsappMessage \<Rightarrow> WhatsappMessage list set" where
  "parts_of m = (if HasAttachment m \<and> length (Text m) > 0 \<and> MsgType m = AudioMessageType
     then {[text_part m], [text_part m, audio_part m]} else {[m]})"

lemma send_one_cases:
  assumes "send_one env senv s m from = Some (s', out, handed, err)"
  shows "handed = [m]" "err = map_option ConnectionError (snd (sd_send senv m))"
  using assms by (auto simp: send_one_def split: prod.splits option.splits)

lemma resolve_digit9_same: "resolve_digit9 senv m = Inr m' \<Longrightarrow> \<exists>i. m' = m\<lparr>Chat := (Chat m)\<lparr>Chat_Id := i\<rparr>\<rparr>"
  by (auto simp: resolve_digit9_def intro: exI [of _ "Chat_Id (Chat m)"] split: if_splits sum.splits list.splits)

lemma audio_part_alt:
  "audio_part m = (if length (Msg_Id m) > 0 then m\<lparr>Msg_Id := Msg_Id m @ ''-audio''\<rparr> else m)\<lparr>Text := []\<rparr>"
  by (cases "Msg_Id m = []") (simp_all add: audio_part_def)

lemma SendMessage_handed:
  assumes "SendMessage env senv s m = Some (s', out, handed, err)"
  shows "handed = [] \<and> err \<noteq> None \<or> (\<exists>m'. resolve_digit9 senv m = Inr m' \<and> handed \<in> parts_of m')"
    and "handed \<noteq> [] \<Longrightarrow> err = map_option ConnectionError (snd (sd_send senv (last handed)))"
proof -
  have "(handed = [] \<and> err \<noteq> None \<or> (\<exists>m'. resolve_digit9 senv m = Inr m' \<and> handed \<in> parts_of m')) \<and>
      (handed \<noteq> [] \<longrightarrow> err = map_option ConnectionError (snd (sd_send senv (last handed))))"
  proof (cases "connection s = None")
    case True
    then show ?thesis using assms by (auto simp: SendMessage_def)
  next
    case conn: False
    show ?thesis
    proof (cases "resolve_digit9 senv m")
      case (Inl e)
      then show ?thesis using assms conn by (auto simp: SendMessage_def)
    next
      case (Inr m')
      show ?thesis
      proof (cases "HasAttachment m' \<and> length (Text m') > 0 \<and> MsgType m' = AudioMessageType")
        case False
        then have "send_one env senv s m' ''server send'' = Some (s', out, handed, err)"
          using assms conn Inr by (auto simp: SendMessage_def)
        then show ?thesis using send_one_cases [of env senv s m'] False Inr by (fastforce simp: parts_of_def)
      next
        case True
        have send: "SendMessage env senv s m = (case send_one env senv s (text_part m') ''text and audio'' of
             None \<Rightarrow> None
           | Some (source, out, sent1, Some err) \<Rightarrow> Some (source, out, sent1, Some err)
           | Some (source, out, sent1, None) \<Rightarrow>
               map_option (\<lambda>(source, out', sent1', err). (source, out @ out', sent1 @ sent1', err))
                 (send_one env senv source (audio_part m') ''server send''))"
          using conn Inr True by (cases "connection s") (simp_all add: SendMessage_def text_part_def audio_part_alt Let_def cong: option.case_cong)
        obtain s1 out1 handed1 err1 where 1: "send_one env senv s (text_part m') ''text and audio'' = Some (s1, out1, handed1, err1)"
          using assms send by (cases "send_one env senv s (text_part m') ''text and audio''") auto
        note first = send_one_cases [OF 1]
        show ?thesis
        proof (cases err1)
          case (Some e)
          then show ?thesis using assms send 1 first True Inr by (auto simp: parts_of_def)
        next
          case None
          then obtain out2 handed2 where 2: "send_one env senv s1 (audio_part m') ''server send'' = Some (s', out2, handed2, err)"
            "handed = handed1 @ handed2"
            using assms send 1 by (auto simp: map_option_case split: option.splits)
          show ?thesis using send_one_cases [OF 2(1)] 2(2) first True Inr by (auto simp: parts_of_def)
        qed
      qed
    qed
  qed
  then show "handed = [] \<and> err \<noteq> None \<or> (\<exists>m'. resolve_digit9 senv m = Inr m' \<and> handed \<in> parts_of m')"
    and "handed \<noteq> [] \<Longrightarrow> err = map_option ConnectionError (snd (sd_send senv (last handed)))" by blast+
qed

lemma send_one_total:
  assumes "valid_boolean (Groups s)" "valid_boolean (Broadcasts s)"
  shows "\<exists>s' out handed err. send_one env senv s m from = Some (s', out, handed, err) \<and>
      valid_boolean (Groups s') \<and> valid_boolean (Broadcasts s')"
proof -
  obtain m1 e1 where sd: "sd_send senv m = (m1, e1)" by force
  obtain s1 out1 where h: "Message env s m1 from = Some (s1, out1)" using Message_total [OF assms] by blast
  show ?thesis using sd h Message_options [OF h] assms by (cases e1) (auto simp: send_one_def)
qed

lemma SendMessage_total:
  assumes "valid_boolean (Groups s)" "valid_boolean (Broadcasts s)"
  shows "SendMessage env senv s m \<noteq> None"
proof (cases "resolve_digit9 senv m")
  case (Inr m')
  have total: "send_one env senv s m from \<noteq> None" if "valid_boolean (Groups s)" "valid_boolean (Broadcasts s)" for s m "from"
    using send_one_total [OF that] by (metis option.distinct(1))
  obtain s1 out1 handed1 err1 where 1: "send_one env senv s (m'\<lparr>MsgType := TextMessageType, Attachment := None\<rparr>) ''text and audio'' =
      Some (s1, out1, handed1, err1)" "valid_boolean (Groups s1)" "valid_boolean (Broadcasts s1)"
    using send_one_total [OF assms] by blast
  show ?thesis
    using Inr 1(1) total [OF 1(2,3)] total [OF assms] by (simp add: SendMessage_def Let_def split: option.split) blast
qed (simp add: SendMessage_def)

section \<open>The three ways to send\<close>

datatype send_op = ByAny "QpSendAnyRequest body" | ByDocument "QpSendAnyRequest body" | ByBinary "string + string"

fun send_op_result ::
    "service_env \<Rightarrow> api_send_env \<Rightarrow> QPWhatsappService \<Rightarrow> chat_state \<Rightarrow> http_request \<Rightarrow> send_op \<Rightarrow> service_sent" where
  "send_op_result senv env service c r (ByAny body) = SendAny senv env service c r body"
| "send_op_result senv env service c r (ByDocument body) = SendDocument senv env service c r body"
| "send_op_result senv env service c r (ByBinary content) = SendDocumentFromBinary senv env service c r content"

fun null_body :: "http_request \<Rightarrow> send_op \<Rightarrow> bool" where
  "null_body r (ByAny body) \<longleftrightarrow> send_body r body = JsonNull"
| "null_body r (ByDocument body) \<longleftrightarrow> send_body r body = JsonNull"
| "null_body r (ByBinary content) \<longleftrightarrow> False"

definition worth_sending :: "QpSendRequest \<Rightarrow> WhatsappAttachment option \<Rightarrow> bool" where
  "worth_sending request file \<longleftrightarrow> Req_Poll request \<noteq> None \<or> Req_Location request \<noteq> None \<or> Req_Contact request \<noteq> None \<or>
     file \<noteq> None \<or> Req_Text request \<noteq> []"

definition has_content :: "WhatsappMessage \<Rightarrow> bool" where
  "has_content m \<longleftrightarrow> Text m \<noteq> [] \<or> Attachment m \<noteq> None \<or> Poll m \<noteq> None \<or> Contact m \<noteq> None"

lemma ToWhatsappAttachment_total: "ToWhatsappAttachment env request \<noteq> None"
proof -
  have image: "\<exists>content. att_content (AttachImageTreatment env (AttachSecureAndCustomize env a)) = Some content"
    if "att_content a = Some x" for a x
    using that by (auto simp: AttachImageTreatment_def Let_def split: option.split)
  have audio: "AttachAudioTreatment env a \<noteq> None" if "att_content a = Some x" for a x
    using that by (auto simp: AttachAudioTreatment_def AttachAudioTreatmentTesting_def Let_def split: option.split)
  have "AttachAudioTreatment env (AttachImageTreatment env (AttachSecureAndCustomize env a)) \<noteq> None" if "att_content a = Some x" for a x
    using image [OF that] audio by blast
  then show ?thesis by (simp add: ToWhatsappAttachment_def Let_def)
qed

definition core_result :: "api_send_env \<Rightarrow> QpWhatsappServer \<Rightarrow> chat_state \<Rightarrow> sent \<Rightarrow> bool" where
  "core_result env server c result \<longleftrightarrow>
     (\<exists>err. result = (server, c, [], [], not_sent err)) \<or>
     (\<exists>request file t. worth_sending request file \<and> result = SendWithMessageType env server c request file t)"

lemma core_refused: "core_result env server c (server, c, [], [], not_sent err)"
  unfolding core_result_def by blast

lemma core_sent: "worth_sending request file \<Longrightarrow> core_result env server c (SendWithMessageType env server c request file t)"
  unfolding core_result_def by blast

lemma SendRequest_core: "core_result env server c (SendRequest env r request server c)"
  using ToWhatsappAttachment_total [of "as_att env" request]
  by (auto simp: SendRequest_def Let_def split: option.split intro!: core_refused core_sent) (simp_all add: worth_sending_def with_track_def)

lemma SendDocumentRequest_core: "core_result env server c (SendDocumentRequest env r request server c)"
  using ToWhatsappAttachment_total [of "as_att env" request]
  by (auto simp: SendDocumentRequest_def Let_def split: option.split intro!: core_refused core_sent) (simp_all add: worth_sending_def with_track_def)

lemma send_with_core:
  assumes "\<And>request. core_result env server c (send request server c)"
  shows "if send_body r body = JsonNull then send_with send env r body server c = (server, c, [], [], Panics)
    else core_result env server c (send_with send env r body server c)"
  using assms by (auto simp: send_with_def core_result_def split: body.split sum.split)

lemma send_op_core:
  assumes "send_op_result senv env service c r op = (service', c', out, handed, rep)"
  shows "(\<exists>err. GetServer senv service r = Inl err \<and> (service', c', out, handed, rep) = (service, c, [], [], not_sent (SendApi (NoServer err))))
    \<or> (\<exists>server s'. GetServer senv service r = Inr server \<and> service' = put_server service (Token server) s' \<and>
        (if null_body r op then (s', c', out, handed, rep) = (server, c, [], [], Panics)
         else core_result env server c (s', c', out, handed, rep)))"
proof (cases "GetServer senv service r")
  case (Inl err)
  then show ?thesis
    using assms by (cases op) (auto simp: SendAny_def SendDocument_def SendDocumentFromBinary_def on_own_server_def)
next
  case (Inr server)
  have binary: "core_result env server c (case EnsureValidChatId (GetChatId r) (QpSendRequest.truncate empty_any_request) of
        (_, Some err) \<Rightarrow> (server, c, [], [], not_sent (SendChatId err))
      | (request, None) \<Rightarrow>
          (case GenerateBodyContent content r request of
             (_, Some err) \<Rightarrow> (server, c, [], [], not_sent (SendRead err))
           | (request, None) \<Rightarrow> SendRequest env r request server c))" for content
    using SendRequest_core by (auto simp: core_result_def split: prod.split option.split)
  note any = send_with_core [where r = r and send = "SendRequest env r", OF SendRequest_core]
  note document = send_with_core [where r = r and send = "SendDocumentRequest env r", OF SendDocumentRequest_core]
  have own: "\<exists>s'. f server = (s', c', out, handed, rep) \<and> service' = put_server service (Token server) s'"
    if "on_own_server senv service c r f = (service', c', out, handed, rep)" for f
    using that by (auto simp: on_own_server_def Inr split: prod.splits)
  have "\<exists>s'. service' = put_server service (Token server) s' \<and>
      (if null_body r op then (s', c', out, handed, rep) = (server, c, [], [], Panics)
       else core_result env server c (s', c', out, handed, rep))"
  proof (cases op)
    case (ByAny body)
    then show ?thesis
      using own [of "\<lambda>server. SendAnyWithServer env r body server c"] any [of body server c] assms
      by (auto simp: SendAny_def SendAnyWithServer_def)
  next
    case (ByDocument body)
    then show ?thesis
      using own [of "\<lambda>server. SendDocumentWithServer env r body server c"] document [of body server c] assms
      by (auto simp: SendDocument_def SendDocumentWithServer_def)
  next
    case (ByBinary content)
    then show ?thesis
      using own [OF assms [unfolded ByBinary, simplified, unfolded SendDocumentFromBinary_def]] binary [of content]
      by auto
  qed
  then show ?thesis using Inr by blast
qed

section \<open>What is sent\<close>

lemma Request_message_fields:
  assumes "Request_ToWhatsappMessage request = Inr m"
  shows "FromMe m \<and> FromInternal m \<and> FormatEndpoint (Req_ChatId request) = Inr (Chat_Id (Chat m)) \<and>
      Poll m = Req_Poll request \<and> Contact m = Req_Contact request"
    and "Req_Location request \<noteq> None \<Longrightarrow> Attachment m \<noteq> None \<or> Contact m \<noteq> None"
    and "Req_Text request \<noteq> [] \<Longrightarrow> Text m \<noteq> []"
  using assms
  by (auto simp: Request_ToWhatsappMessage_def Let_def empty_message_def empty_chat_def split: sum.splits option.splits if_splits)

lemma with_poll_fields:
  assumes "with_poll env m = Inr m'"
  shows "\<exists>poll. m' = m\<lparr>Poll := poll\<rparr> \<and> (poll = Poll m \<or> Text m \<noteq> [])"
proof (cases "HasPrefix (TrimSpace (Text m)) ''poll:''")
  case True
  have "Text m \<noteq> []"
  proof
    assume "Text m = []"
    then have "TrimSpace (Text m) = []" by (simp add: TrimSpace_id)
    then show False using True by (simp add: HasPrefix_def)
  qed
  then show ?thesis using assms True by (cases "as_poll env (drop 5 (TrimSpace (Text m)))") (auto simp: with_poll_def Let_def)
next
  case False
  then show ?thesis using assms by (intro exI [of _ "Poll m"]) (auto simp: with_poll_def Let_def)
qed

lemma with_type_fields:
  assumes "with_type file t m = Inr m'"
  shows "\<exists>k. m' = (case file of Some a \<Rightarrow> m\<lparr>Attachment := Some a, MsgType := k\<rparr> | None \<Rightarrow> m\<lparr>MsgType := k\<rparr>)"
  using assms by (auto simp: with_type_def Let_def split: option.splits if_splits intro: exI [of _ "MsgType m"])

lemma request_message_fields:
  assumes "request_message env request file t = Inr m"
  shows "FromMe m \<and> FromInternal m" and "worth_sending request file \<Longrightarrow> has_content m"
    and "FormatEndpoint (Req_ChatId request) = Inr (Chat_Id (Chat m))"
proof -
  obtain m0 m1 where m: "Request_ToWhatsappMessage request = Inr m0" "with_poll env m0 = Inr m1" "with_type file t m1 = Inr m"
    using assms by (auto simp: request_message_def split: sum.splits)
  obtain poll where 1: "m1 = m0\<lparr>Poll := poll\<rparr>" "poll = Poll m0 \<or> Text m0 \<noteq> []" using with_poll_fields [OF m(2)] by blast
  obtain k where 2: "m = (case file of Some a \<Rightarrow> m1\<lparr>Attachment := Some a, MsgType := k\<rparr> | None \<Rightarrow> m1\<lparr>MsgType := k\<rparr>)"
    using with_type_fields [OF m(3)] by blast
  note f = Request_message_fields [OF m(1)]
  show "FromMe m \<and> FromInternal m" "FormatEndpoint (Req_ChatId request) = Inr (Chat_Id (Chat m))"
    using f(1) 1(1) 2 by (simp_all split: option.split)
  show "has_content m" if "worth_sending request file"
    using that f 1 2 unfolding worth_sending_def has_content_def by (cases "file") auto
qed

lemma parts_keep:
  assumes "handed \<in> parts_of m" "has_content m" "x \<in> set handed"
  shows "has_content x \<and> FromMe x = FromMe m \<and> FromInternal x = FromInternal m \<and> Chat x = Chat m"
  using assms
  by (auto simp: parts_of_def has_content_def text_part_def audio_part_def HasAttachment_def split: if_splits)

lemma parts_length: "handed \<in> parts_of m \<Longrightarrow> length handed \<in> {1, 2}"
  by (auto simp: parts_of_def split: if_splits)

lemma send_answer_cases:
  assumes "send_answer env failure chat_of server c m = (s', c', out, handed, rep)"
  shows "handed = [] \<or> (\<exists>m'. resolve_digit9 (as_send env) m = Inr m' \<and> handed \<in> parts_of m')"
    and "rep = Panics \<and> SendMessage (as_handler env) (as_send env) server m = None
      \<or> (\<exists>err. rep = not_sent err) \<and> (handed = [] \<or> snd (sd_send (as_send env) (last handed)) \<noteq> None)
      \<or> (handed \<noteq> [] \<and> snd (sd_send (as_send env) (last handed)) = None \<and>
         rep = reply (RespondInterface (Send_ParseSuccess \<lparr>sm_Id = Msg_Id (answered env handed), sm_Wid = Wid s',
           sm_ChatId = chat_of (answered env handed), sm_TrackId = Msg_TrackId (answered env handed)\<rparr> new_send_response)))"
proof -
  have "(handed = [] \<or> (\<exists>m'. resolve_digit9 (as_send env) m = Inr m' \<and> handed \<in> parts_of m'))
    \<and> (rep = Panics \<and> SendMessage (as_handler env) (as_send env) server m = None
      \<or> (\<exists>err. rep = not_sent err) \<and> (handed = [] \<or> snd (sd_send (as_send env) (last handed)) \<noteq> None)
      \<or> (handed \<noteq> [] \<and> snd (sd_send (as_send env) (last handed)) = None \<and>
         rep = reply (RespondInterface (Send_ParseSuccess \<lparr>sm_Id = Msg_Id (answered env handed), sm_Wid = Wid s',
           sm_ChatId = chat_of (answered env handed), sm_TrackId = Msg_TrackId (answered env handed)\<rparr> new_send_response))))"
  proof (cases "SendMessage (as_handler env) (as_send env) server m")
    case None
    then show ?thesis using assms by (simp add: send_answer_def)
  next
    case (Some result)
    then obtain s1 out1 handed1 err where r: "SendMessage (as_handler env) (as_send env) server m = Some (s1, out1, handed1, err)"
      by (cases result) auto
    note h = SendMessage_handed [OF r]
    show ?thesis
    proof (cases err)
      case None
      then have "handed1 \<noteq> []" using h(1) by (auto simp: parts_of_def split: if_splits)
      then show ?thesis using assms r h None by (auto simp: send_answer_def Let_def)
    next
      case (Some e)
      then have "s' = s1" "out = out1" "handed = handed1" "rep = not_sent (failure e)"
        using assms r by (simp_all add: send_answer_def)
      moreover have "handed1 = [] \<or> snd (sd_send (as_send env) (last handed1)) \<noteq> None"
        using h(2) Some by (cases "snd (sd_send (as_send env) (last handed1))") auto
      ultimately show ?thesis using h(1) by blast
    qed
  qed
  then show "handed = [] \<or> (\<exists>m'. resolve_digit9 (as_send env) m = Inr m' \<and> handed \<in> parts_of m')"
    and "rep = Panics \<and> SendMessage (as_handler env) (as_send env) server m = None
      \<or> (\<exists>err. rep = not_sent err) \<and> (handed = [] \<or> snd (sd_send (as_send env) (last handed)) \<noteq> None)
      \<or> (handed \<noteq> [] \<and> snd (sd_send (as_send env) (last handed)) = None \<and>
         rep = reply (RespondInterface (Send_ParseSuccess \<lparr>sm_Id = Msg_Id (answered env handed), sm_Wid = Wid s',
           sm_ChatId = chat_of (answered env handed), sm_TrackId = Msg_TrackId (answered env handed)\<rparr> new_send_response)))"
    by blast+
qed

definition addressed ::
    "api_send_env \<Rightarrow> QpWhatsappServer \<Rightarrow> chat_state \<Rightarrow> WhatsappMessage \<Rightarrow> WhatsappMessage \<Rightarrow> (WhatsappMessage \<Rightarrow> string) \<Rightarrow>
     chat_state \<Rightarrow> bool" where
  "addressed env server c m m' chat_of c' \<longleftrightarrow>
     (case sending_chat (as_contact env) server c (Chat_Id (Chat m)) of
        (c, None) \<Rightarrow> c' = c \<and> m' = m \<and> chat_of = (\<lambda>_. Chat_Id (Chat m))
      | (c, Some i) \<Rightarrow> c' = c \<and> m' = m\<lparr>Chat := (Chat m)\<lparr>Chat_Id := i\<rparr>\<rparr> \<and> chat_of = (\<lambda>m. Chat_Id (Chat m)))"

lemma addressed_chat: "addressed env server c m m' chat_of c' \<Longrightarrow> \<exists>i. m' = m\<lparr>Chat := (Chat m)\<lparr>Chat_Id := i\<rparr>\<rparr>"
  by (auto simp: addressed_def split: prod.splits option.splits intro: exI [of _ "Chat_Id (Chat m)"])

lemma core_cases:
  assumes "core_result env server c (s', c', out, handed, rep)"
  shows "(s', c', out, handed) = (server, c, [], []) \<and> (\<exists>code err. code \<in> {400, 503} \<and>
        rep = Reply code (ParseError err new_send_response))
    \<or> (\<exists>m m' failure chat_of c''. GetState server = Ready \<and> FromMe m \<and> FromInternal m \<and> has_content m \<and>
        addressed env server c m m' chat_of c'' \<and>
        send_answer env failure chat_of server c'' m' = (s', c', out, handed, rep))"
proof -
  have refused: "\<exists>code err. code \<in> {400, 503} \<and> not_sent e = Reply code (ParseError err new_send_response)" for e
    by (auto simp: not_sent_def reply_def RespondInterface_def RespondInterfaceCode_def ParseError_def)
  from assms consider (no) e where "(s', c', out, handed, rep) = (server, c, [], [], not_sent e)"
    | (yes) request "file" t where "worth_sending request file" "(s', c', out, handed, rep) = SendWithMessageType env server c request file t"
    unfolding core_result_def by auto
  then show ?thesis
  proof cases
    case no
    then show ?thesis using refused by auto
  next
    case yes
    show ?thesis
    proof (cases "request_message env request file t")
      case (Inl e)
      then show ?thesis using yes(2) refused by (auto simp: SendWithMessageType_def)
    next
      case (Inr m)
      note f = request_message_fields [OF Inr]
      show ?thesis
      proof (cases "GetState server = Ready")
        case False
        then show ?thesis using yes(2) Inr by (auto simp: SendWithMessageType_def Let_def reply_def RespondInterfaceCode_def)
      next
        case True
        obtain c'' i where i: "sending_chat (as_contact env) server c (Chat_Id (Chat m)) = (c'', i)" by force
        show ?thesis
        proof (cases i)
          case None
          then have "send_answer env SendToLidFailed (\<lambda>_. Chat_Id (Chat m)) server c'' m = (s', c', out, handed, rep)"
            using yes(2) Inr True i by (simp add: SendWithMessageType_def)
          moreover have "addressed env server c m m (\<lambda>_. Chat_Id (Chat m)) c''"
            using i None by (simp add: addressed_def)
          ultimately show ?thesis using f True yes(1) by blast
        next
          case (Some j)
          then have "send_answer env SendFailed (\<lambda>m. Chat_Id (Chat m)) server c'' (m\<lparr>Chat := (Chat m)\<lparr>Chat_Id := j\<rparr>\<rparr>) =
              (s', c', out, handed, rep)"
            using yes(2) Inr True i by (simp add: SendWithMessageType_def Let_def)
          moreover have "addressed env server c m (m\<lparr>Chat := (Chat m)\<lparr>Chat_Id := j\<rparr>\<rparr>) (\<lambda>m. Chat_Id (Chat m)) c''"
            using i Some by (simp add: addressed_def)
          ultimately show ?thesis using f True yes(1) by blast
        qed
      qed
    qed
  qed
qed

lemma core_handed:
  assumes "core_result env server c (s', c', out, handed, rep)" "handed \<noteq> []"
  shows "GetState server = Ready" "length handed \<le> 2"
    "m \<in> set handed \<Longrightarrow> FromMe m \<and> FromInternal m \<and> has_content m \<and> Chat m = Chat (hd handed)"
proof -
  obtain m0 m1 failure chat_of c'' where m: "GetState server = Ready" "FromMe m0" "FromInternal m0" "has_content m0"
      "send_answer env failure chat_of server c'' m1 = (s', c', out, handed, rep)"
      and chat: "addressed env server c m0 m1 chat_of c''"
    using core_cases [OF assms(1)] assms(2) by blast
  note m1 = addressed_chat [OF chat]
  obtain m2 where 2: "resolve_digit9 (as_send env) m1 = Inr m2" "handed \<in> parts_of m2"
    using send_answer_cases(1) [OF m(5)] assms(2) by blast
  have "\<exists>i. m2 = m0\<lparr>Chat := (Chat m0)\<lparr>Chat_Id := i\<rparr>\<rparr>"
    using m1 resolve_digit9_same [OF 2(1)] by auto
  then have content: "has_content m2" "FromMe m2" "FromInternal m2"
    using m(2-4) by (auto simp: has_content_def)
  note keep = parts_keep [OF 2(2) content(1)]
  show "GetState server = Ready" using m(1) .
  show "length handed \<le> 2" using parts_length [OF 2(2)] by auto
  show "FromMe m \<and> FromInternal m \<and> has_content m \<and> Chat m = Chat (hd handed)" if "m \<in> set handed"
    using keep [OF that] keep [of "hd handed"] content assms(2) by simp
qed

text \<open>
  Whichever way a message is sent through the API, the connection is handed something only if the token
  of the request names a server that is ready; it is at most two messages for the same chat, both marked
  as the program's own, and none of them is empty: each has a text, a file, a poll or a contact.
\<close>
theorem sends_from_ready_server:
  assumes "send_op_result senv env service c r op = (service', c', out, handed, rep)" "handed \<noteq> []"
  shows "\<exists>server. GetServer senv service r = Inr server \<and> GetState server = Ready \<and> length handed \<le> 2 \<and>
    (\<forall>m\<in>set handed. FromMe m \<and> FromInternal m \<and> has_content m \<and> Chat m = Chat (hd handed))"
proof -
  obtain server s' where core: "GetServer senv service r = Inr server" "core_result env server c (s', c', out, handed, rep)"
    using send_op_core [OF assms(1)] assms(2) by (auto split: if_splits)
  then show ?thesis using core_handed [OF core(2) assms(2)] by blast
qed


section \<open>The recipient\<close>

lemma split_at_unique:
  "CHR ''@'' \<notin> set u \<Longrightarrow> CHR ''@'' \<notin> set d \<Longrightarrow> a @ CHR ''@'' # e = u @ CHR ''@'' # d \<longleftrightarrow> a = u \<and> e = d"
  by (auto simp: append_eq_append_conv2 append_eq_Cons_conv Cons_eq_append_conv)

lemma domain_contained:
  assumes "CHR ''@'' \<notin> set u" "CHR ''@'' \<notin> set d"
  shows "Contains (u @ CHR ''@'' # d) (CHR ''@'' # t) \<longleftrightarrow> HasPrefix d t"
  unfolding Contains_iff HasPrefix_iff using split_at_unique [OF assms] by (metis append_Cons)

definition domains :: "string set" where
  "domains = {WHATSAPP_SERVERDOMAIN_USER, WHATSAPP_SERVERDOMAIN_GROUP, WHATSAPP_SERVERDOMAIN_LID}"

lemma domain_facts:
  assumes "d \<in> domains" "CHR ''@'' \<notin> set u"
  shows "CHR ''@'' \<notin> set d"
    "Contains (u @ CHR ''@'' # d) LID_SUFFIX \<longleftrightarrow> d = WHATSAPP_SERVERDOMAIN_LID"
    "Contains (u @ CHR ''@'' # d) USER_SUFFIX \<longleftrightarrow> d = WHATSAPP_SERVERDOMAIN_USER"
proof -
  show d: "CHR ''@'' \<notin> set d"
    using assms(1) by (auto simp: domains_def WHATSAPP_SERVERDOMAIN_USER_def WHATSAPP_SERVERDOMAIN_GROUP_def WHATSAPP_SERVERDOMAIN_LID_def)
  show "Contains (u @ CHR ''@'' # d) LID_SUFFIX \<longleftrightarrow> d = WHATSAPP_SERVERDOMAIN_LID"
    "Contains (u @ CHR ''@'' # d) USER_SUFFIX \<longleftrightarrow> d = WHATSAPP_SERVERDOMAIN_USER"
    using assms(1) domain_contained [OF assms(2) d]
    by (auto simp: domains_def LID_SUFFIX_def USER_SUFFIX_def WHATSAPP_SERVERDOMAIN_USER_def WHATSAPP_SERVERDOMAIN_GROUP_def
        WHATSAPP_SERVERDOMAIN_LID_def HasPrefix_def)
qed

lemma TrimSuffix_append [simp]: "TrimSuffix (u @ t) t = u"
  by (simp add: TrimSuffix_def HasSuffix_append)

lemma Qp_GetPhoneFromLID_stored:
  assumes "connection server \<noteq> None" "lid_store_ok env lids" "maps_agree env lids c" "lid \<in> lids"
    and "Qp_GetPhoneFromLID env server c lid = (c', r)"
  shows "maps_agree env lids c'" "map_option TrimPlus r = direct_phone env lid" "r \<noteq> Some []"
proof -
  note g = GetPhoneFromLID_cases [OF assms(2-4)]
  obtain x where x: "GetPhoneFromLID env c lid = (c', x)" "r = (case x of Inl _ \<Rightarrow> None | Inr p \<Rightarrow> Some p)"
    using assms(1,5) by (auto simp: Qp_GetPhoneFromLID_def split: prod.splits sum.splits)
  show "maps_agree env lids c'" using g(2) x(1) by simp
  show r: "map_option TrimPlus r = direct_phone env lid" using g(1) x by (cases x) auto
  show "r \<noteq> Some []"
  proof
    assume "r = Some []"
    then have "direct_phone env lid = Some []" using r by (simp add: TrimPlus_def HasPrefix_def)
    then show False using lid_store_okD(2) [OF assms(2,4)] by blast
  qed
qed

lemma TrimLeft_plain: "\<not> HasPrefix p ''+'' \<Longrightarrow> TrimLeftByte (CHR ''+'') p = p"
  by (cases p) (auto simp: TrimLeftByte_def HasPrefix_def)

lemma PhoneToWid_TrimPlus: "PhoneToWid (TrimPlus p) = PhoneToWid p"
  by (cases p) (auto simp: PhoneToWid_def TrimPlus_def TrimLeftByte_def HasPrefix_def)

lemma sending_chat_kept:
  assumes "connection server \<noteq> None" "lid_store_ok env lids" "maps_agree env lids c"
    and "CHR ''@'' \<notin> set u" "d \<in> domains" "\<not> HasPrefix u ''+''" "list_all solid u"
    and "d = WHATSAPP_SERVERDOMAIN_LID \<Longrightarrow> u @ CHR ''@'' # d \<in> lids"
    and "sending_chat env server c (u @ CHR ''@'' # d) = (c', r)"
  shows "maps_agree env lids c'" 
    "r = (if d = WHATSAPP_SERVERDOMAIN_LID then map_option PhoneToWid (direct_phone env (u @ CHR ''@'' # d))
          else Some (u @ CHR ''@'' # d))"
proof -
  let ?i = "u @ CHR ''@'' # d"
  note dom = domain_facts [OF assms(5,4)]
  have "maps_agree env lids c' \<and> r = (if d = WHATSAPP_SERVERDOMAIN_LID then map_option PhoneToWid (direct_phone env ?i) else Some ?i)"
  proof (cases "d = WHATSAPP_SERVERDOMAIN_LID")
    case True
    obtain c1 x where x: "Qp_GetPhoneFromLID env server c ?i = (c1, x)" by force
    note g = Qp_GetPhoneFromLID_stored [OF assms(1-3) assms(8) [OF True] x]
    have "c' = c1 \<and> r = map_option PhoneToWid x"
      using assms(9) x g(3) dom(2) True by (cases x) (auto simp: sending_chat_def)
    moreover have "map_option PhoneToWid (direct_phone env ?i) = map_option PhoneToWid x"
      by (cases x) (simp_all flip: g(2) add: PhoneToWid_TrimPlus)
    ultimately show ?thesis using g(1) True by simp
  next
    case False
    define n where "n = TrimPlus (if Contains ?i USER_SUFFIX then TrimSuffix ?i USER_SUFFIX else ?i)"
    have solid_d: "\<forall>x\<in>set d. solid x" "solid (CHR ''@'')"
      using assms(5) by (auto simp: domains_def WHATSAPP_SERVERDOMAIN_USER_def WHATSAPP_SERVERDOMAIN_GROUP_def
          WHATSAPP_SERVERDOMAIN_LID_def solid_def is_space_def)
    have plain: "\<not> HasPrefix ?i ''+''" using assms(6) by (cases u) (auto simp: HasPrefix_def)
    have n: "n = (if d = WHATSAPP_SERVERDOMAIN_USER then u else ?i)"
      using dom(3) plain assms(6) TrimSuffix_append [of u USER_SUFFIX] by (auto simp: n_def USER_SUFFIX_def)
    have wid: "PhoneToWid n = ?i"
      using n plain assms(4,6) TrimLeft_plain [OF assms(6)] TrimLeft_plain [OF plain] by (auto simp: PhoneToWid_def USER_SUFFIX_def)
    have "TrimSpace n = n" by (rule TrimSpace_id) (use n assms(7) solid_d in \<open>auto simp: list_all_iff\<close>)
    then have trim: "TrimPlus (TrimSpace n) = n" "\<not> HasPrefix n ''+''" using n plain assms(6) by (auto split: if_splits)
    obtain c1 x where x: "GetLIDFromPhone env c n = (c1, x)" by force
    note g = GetLIDFromPhone_cases [OF assms(2,3) trim(1) [symmetric] trim(2)]
    have agree: "maps_agree env lids c1" and answer: "x = Inr (case direct_lid env n of None \<Rightarrow> [] | Some l \<Rightarrow> l)"
      using g x by simp_all
    obtain cn where cn: "connection server = Some cn" using assms(1) by blast
    have chat: "sending_chat env server c ?i = (case x of
          Inl _ \<Rightarrow> (c1, Some ?i)
        | Inr lid \<Rightarrow> if length lid > 0 then
              (case Qp_GetPhoneFromLID env server c1 lid of
                 (c, Some phone) \<Rightarrow> (c, Some (PhoneToWid (if length phone > 0 then phone else n)))
               | (c, None) \<Rightarrow> (c, Some ?i))
            else (c1, Some ?i))"
      using dom(2) False cn x wid
      by (simp add: sending_chat_def n_def [symmetric] Qp_GetLIDFromPhone_def split: sum.split prod.split option.split)
    show ?thesis
    proof (cases "direct_lid env n")
      case None
      then show ?thesis using chat answer agree assms(9) False by simp
    next
      case (Some l)
      then have l: "l \<in> lids" "direct_phone env l = Some n" "l \<noteq> []" using lid_store_okD [OF assms(2)] by blast+
      obtain c2 y where y: "Qp_GetPhoneFromLID env server c1 l = (c2, y)" by force
      note h = Qp_GetPhoneFromLID_stored [OF assms(1,2) agree l(1) y]
      obtain p where "y = Some p" "TrimPlus p = n" "p \<noteq> []" using h(2,3) l(2) by (cases y) auto
      then have "PhoneToWid p = ?i" using PhoneToWid_TrimPlus [of p] wid by simp
      then show ?thesis using chat answer Some l(3) y h(1) \<open>y = Some p\<close> \<open>p \<noteq> []\<close> assms(9) False by simp
    qed
  qed
  then show "maps_agree env lids c'" 
    "r = (if d = WHATSAPP_SERVERDOMAIN_LID then map_option PhoneToWid (direct_phone env (u @ CHR ''@'' # d))
          else Some (u @ CHR ''@'' # d))" by blast+
qed


section \<open>Examples\<close>

definition sample_api_send :: api_send_env where
  "sample_api_send = \<lparr>as_fetch = (\<lambda>_. Inl ''offline''), as_poll = (\<lambda>_. Inl ''no poll''), as_att = sample_env,
     as_contact = pair_env, as_handler = sample_handler_env, as_send = sample_send_env\<rparr>"

definition ready_sender :: QpWhatsappServer where
  "ready_sender = (NewQpWhatsappServer 7 (new_info ''Ab'' ''me'' ''5521:3@s.whatsapp.net''))\<lparr>Verified := True,
     connection := Some (sample_connection\<lparr>Client := map_option (\<lambda>c. c\<lparr>cl_IsConnected := True, cl_IsLoggedIn := True\<rparr>)
       (Client sample_connection)\<rparr>)\<rparr>"

definition phone_request :: QpSendRequest where
  "phone_request = (QpSendRequest.truncate empty_any_request)
     \<lparr>Req_ChatId := ''5521999998888@s.whatsapp.net'', Req_Text := ''hello''\<rparr>"

definition ready_senders :: QPWhatsappService where
  "ready_senders = empty_service\<lparr>Servers := [(''Ab'', ready_sender)]\<rparr>"

definition send_http :: "(string \<times> string) list \<Rightarrow> http_request" where
  "send_http params = (sample_http ((''token'', ''ab'') # params))\<lparr>rq_length := 10\<rparr>"

definition phone_op :: send_op where
  "phone_op = ByAny (Body (empty_any_request\<lparr>Req_ChatId := ''+5521999998888'', Req_Text := ''hello''\<rparr>))"

lemma sender_known: "GetServer sample_service_env ready_senders (send_http params) = Inr ready_sender"
proof -
  have "GetToken (send_http params) = ''ab''"
    by (simp add: GetToken_def GetRequestParameter_def send_http_def sample_http_def QueryHasKey_def QueryGetValue_def first_value_def
        TrimSpace_id solid_def is_space_def EqualFold_def)
  moreover have "EqualFold (Token ready_sender) ''ab''" by code_simp
  ultimately show ?thesis
    by (simp add: GetServer_def GetServerFromToken_def ready_senders_def sample_service_env_def)
qed

theorem sends_from_ready_server_witness:
  "\<exists>server m. GetServer sample_service_env ready_senders (send_http []) = Inr server \<and> GetState server = Ready \<and>
     Text m = ''hello'' \<and> has_content m \<and> FromMe m"
proof -
  obtain service' c' out handed rep where r:
      "send_op_result sample_service_env sample_api_send ready_senders no_chats (send_http []) phone_op = (service', c', out, handed, rep)"
    by (metis surj_pair)
  have "(case send_op_result sample_service_env sample_api_send ready_senders no_chats (send_http []) phone_op of
      (s', c', out, handed, rep) \<Rightarrow> map Text handed) = [''hello'']" by code_simp
  then obtain m where m: "handed = [m]" "Text m = ''hello''" using r by auto
  from sends_from_ready_server [OF r] m show ?thesis by auto
qed



end
