(* ===== verification/ApiDispatching.thy ===== *)
theory ApiDispatching
  imports ServerMessages
begin

text \<open>
  The dispatchings of a server through the API: \<open>src/api/api_handlers+WebhookController.go\<close>,
  \<open>api_handlers+RabbitMQController.go\<close> and \<open>api_handlers+RedispatchController.go\<close>. The memory list of a
  server stands in the service under its token. Whether the database accepts the statement about a
  connection string is the argument \<open>ok\<close>; the decoding of an extra value that is itself JSON text is
  \<open>parsed\<close>.
\<close>

section \<open>Escaping in addresses\<close>

text \<open>\<open>url.QueryEscape\<close> of the Go library.\<close>

definition unreserved :: "char \<Rightarrow> bool" where
  "unreserved c \<longleftrightarrow> CHR ''A'' \<le> c \<and> c \<le> CHR ''Z'' \<or> is_digit c \<or> CHR ''a'' \<le> c \<and> c \<le> CHR ''z'' \<or> c \<in> set ''-_.~''"

definition hex_digit :: "nat \<Rightarrow> char" where
  "hex_digit n = char_of (if n < 10 then 48 + n else 55 + n)"

definition escape_char :: "char \<Rightarrow> string" where
  "escape_char c =
     (if unreserved c then [c]
      else if c = CHR '' '' then ''+''
      else [CHR ''%'', hex_digit (of_char c div 16), hex_digit (of_char c mod 16)])"

definition QueryEscape :: "string \<Rightarrow> string" where
  "QueryEscape s = concat (map escape_char s)"

section \<open>The dispatchings of a server\<close>

definition server_dispatchings :: "QPWhatsappService \<Rightarrow> QpWhatsappServer \<Rightarrow> QpDataDispatching" where
  "server_dispatchings service server =
     (case map_of (svc_dispatchings service) (Token server) of Some s \<Rightarrow> s | None \<Rightarrow> \<lparr>Dispatchings = [], dd_context = []\<rparr>)"

definition keep_dispatchings ::
    "QPWhatsappService \<Rightarrow> QpWhatsappServer \<Rightarrow> dispatch_world \<Rightarrow> QpDataDispatching \<Rightarrow> QPWhatsappService" where
  "keep_dispatchings service server w s =
     service\<lparr>svc_world := (svc_world service)\<lparr>life_dispatch := w\<rparr>,
       svc_dispatchings := AList.update (Token server) s (svc_dispatchings service)\<rparr>"

definition Server_AddOrUpdate ::
    "service_env \<Rightarrow> bool \<Rightarrow> QPWhatsappService \<Rightarrow> QpWhatsappServer \<Rightarrow> QpDispatching \<Rightarrow>
     QPWhatsappService \<times> (dispatch_store_error + nat)" where
  "Server_AddOrUpdate env ok service server d =
     (case DispatchingAddOrUpdate (sv_codec env) (le_now (sv_life env)) ok (life_dispatch (svc_world service))
             (server_dispatchings service server) d of
        (w, s, r) \<Rightarrow> (keep_dispatchings service server w s, r))"

definition Server_Remove ::
    "bool \<Rightarrow> QPWhatsappService \<Rightarrow> QpWhatsappServer \<Rightarrow> string \<Rightarrow> QPWhatsappService \<times> (dispatch_store_error + nat)" where
  "Server_Remove ok service server cs =
     (case DispatchingRemove ok (life_dispatch (svc_world service)) (server_dispatchings service server) cs of
        (w, s, r) \<Rightarrow> (keep_dispatchings service server w s, r))"

text \<open>The configurations come from the database, reduced to five fields, and not from memory.\<close>

definition empty_config :: QpRabbitMQConfig where
  "empty_config = \<lparr>Groups = UnSetBooleanType, Broadcasts = UnSetBooleanType, ReadReceipts = UnSetBooleanType,
     Calls = UnSetBooleanType, ReadUpdate = UnSetBooleanType, r_ConnectionString = [], ExchangeName = [], r_RoutingKey = [],
     QueueHistory = [], r_ForwardInternal = False, r_TrackId = [], r_Extra = None, r_Failure = None, r_Success = None,
     r_Timestamp = None, r_Wid = []\<rparr>"

definition Server_GetRabbitMQConfigs :: "service_env \<Rightarrow> QPWhatsappService \<Rightarrow> QpWhatsappServer \<Rightarrow> QpRabbitMQConfig list" where
  "Server_GetRabbitMQConfigs env service source =
     (if \<not> sv_find env then []
      else map (\<lambda>d. empty_config\<lparr>r_ConnectionString := ConnectionString d, r_TrackId := TrackId d,
               r_ForwardInternal := ForwardInternal d, r_Extra := Extra d, r_Timestamp := d_Timestamp d\<rparr>)
             (filter IsRabbitMQ (Sql_FindAll (sv_codec env) (dw_table (life_dispatch (svc_world service))) (Token source))))"

definition GetRabbitMQConfigsByQueue :: "QpDataDispatching \<Rightarrow> string \<Rightarrow> QpRabbitMQConfig list" where
  "GetRabbitMQConfigsByQueue source flt =
     filter (\<lambda>c. length flt = 0 \<or> Contains (ExchangeName c) flt) (GetRabbitMQConfigs source)"

definition GetRabbitMQConfig :: "QpDataDispatching \<Rightarrow> string \<Rightarrow> QpRabbitMQConfig option" where
  "GetRabbitMQConfig source exchangeName = find (\<lambda>c. ExchangeName c = exchangeName) (GetRabbitMQConfigs source)"

definition HasRabbitMQConfigs :: "QpDataDispatching \<Rightarrow> bool" where
  "HasRabbitMQConfigs server \<longleftrightarrow> length (GetRabbitMQConfigsByQueue server []) > 0"

definition HasWebhooks :: "QpDataDispatching \<Rightarrow> bool" where
  "HasWebhooks server \<longleftrightarrow> length (GetWebhooks server) > 0"

definition Server_GetDispatching :: "service_env \<Rightarrow> QPWhatsappService \<Rightarrow> QpWhatsappServer \<Rightarrow> string \<Rightarrow> QpDispatching option" where
  "Server_GetDispatching env service source connectionString =
     (if \<not> sv_find env then None
      else Sql_Find (sv_codec env) (dw_table (life_dispatch (svc_world service))) (Token source) connectionString)"

section \<open>Webhooks\<close>

record QpWebhookResponse = "api_error QpResponse" +
  wr_Affected :: nat
  wr_Webhooks :: "QpWebhook list"

definition new_webhook_response :: QpWebhookResponse where
  "new_webhook_response = \<lparr>Success = False, QpResponse.Status = NoStatus, wr_Affected = 0, wr_Webhooks = []\<rparr>"

definition empty_webhook :: QpWebhook where
  "empty_webhook = \<lparr>Groups = UnSetBooleanType, Broadcasts = UnSetBooleanType, ReadReceipts = UnSetBooleanType,
     Calls = UnSetBooleanType, ReadUpdate = UnSetBooleanType, Url = [], w_ForwardInternal = False, w_TrackId = [],
     w_Extra = None, w_Failure = None, w_Success = None, w_Timestamp = None, w_Wid = []\<rparr>"

definition given_webhook :: "QpWebhook body \<Rightarrow> QpWhatsappServer \<Rightarrow> QpWebhook" where
  "given_webhook body server =
     (case body_request body of Some webhook \<Rightarrow> webhook | None \<Rightarrow> empty_webhook)\<lparr>w_Wid := Wid server\<rparr>"

definition affected_reply :: "string \<Rightarrow> dispatch_store_error + nat \<Rightarrow> QpWebhookResponse reply" where
  "affected_reply message r =
     (case r of
        Inl err \<Rightarrow> failed (DispatchingFailed err) new_webhook_response
      | Inr affected \<Rightarrow>
          reply (RespondSuccess (ParseSuccess message (new_webhook_response\<lparr>wr_Affected := affected\<rparr>))))"

definition WebhookController ::
    "service_env \<Rightarrow> bool \<Rightarrow> (string \<Rightarrow> string) \<Rightarrow> QPWhatsappService \<Rightarrow> http_request \<Rightarrow> QpWebhook body \<Rightarrow>
     QPWhatsappService \<times> QpWebhookResponse reply" where
  "WebhookController env ok parsed service r body =
     (case GetServer env service r of
        Inl err \<Rightarrow> (service, failed (NoServer err) new_webhook_response)
      | Inr server \<Rightarrow>
          if body_failed body then (service, failed BadBody new_webhook_response)
          else
            let webhook = given_webhook body server
            in if rq_method r = ''POST'' then
                 (case Server_AddOrUpdate env ok service server (Webhook_ToDispatching webhook) of
                    (service, r) \<Rightarrow> (service, affected_reply ''updated with success'' r))
               else if rq_method r = ''DELETE'' then
                 (case Server_Remove ok service server (Url webhook) of
                    (service, r) \<Rightarrow> (service, affected_reply ''deleted with success'' r))
               else
                 let url = Header_Get r ''X-QUEPASA-WHURL'';
                     found = GetDispatchingByFilter (server_dispatchings service server) url;
                     webhooks = map (\<lambda>d. (as_webhook d)\<lparr>w_Extra := map_option parsed (Extra d)\<rparr>) (filter IsWebhook found)
                 in (service, reply (RespondSuccess (ParseSuccess
                       (if length url > 0 then ''getting with filter, url='' @ url else ''getting without filter'')
                       (new_webhook_response\<lparr>wr_Webhooks := webhooks\<rparr>)))))"

section \<open>RabbitMQ\<close>

record QpRabbitMQResponse = "api_error QpResponse" +
  rr_Affected :: nat
  rr_RabbitMQ :: "QpRabbitMQConfig list"

definition new_rabbit_response :: QpRabbitMQResponse where
  "new_rabbit_response = \<lparr>Success = False, QpResponse.Status = NoStatus, rr_Affected = 0, rr_RabbitMQ = []\<rparr>"

definition given_config :: "QpRabbitMQConfig body \<Rightarrow> QpWhatsappServer \<Rightarrow> QpRabbitMQConfig" where
  "given_config body server =
     (case body_request body of Some config \<Rightarrow> config | None \<Rightarrow> empty_config)\<lparr>r_Wid := Wid server\<rparr>"

text \<open>A saved configuration has its client created at once.\<close>

definition ensure_client :: "string \<Rightarrow> QPWhatsappService \<Rightarrow> QPWhatsappService" where
  "ensure_client cs service =
     (let w = life_dispatch (svc_world service)
      in service\<lparr>svc_world := (svc_world service)\<lparr>life_dispatch :=
           w\<lparr>dw_manager := fst (GetRabbitMQClient (dw_manager w) cs)\<rparr>\<rparr>\<rparr>)"

definition rabbit_post ::
    "service_env \<Rightarrow> (string \<Rightarrow> bool) \<Rightarrow> QPWhatsappService \<Rightarrow> QpWhatsappServer \<Rightarrow> QpRabbitMQConfig \<Rightarrow>
     QPWhatsappService \<times> QpRabbitMQResponse reply" where
  "rabbit_post env ok service server config =
     (if r_ConnectionString config = [] then (service, failed (Invalid ''connection_string is required'') new_rabbit_response)
      else (case ValidateConfig config of
              None \<Rightarrow> (service, failed (Invalid ''either connection_string or exchange_name is required'') new_rabbit_response)
            | Some config \<Rightarrow>
                (case Server_AddOrUpdate env (ok (r_ConnectionString config)) service server (Config_ToDispatching config) of
                   (service, Inl err) \<Rightarrow> (service, failed (DispatchingFailed err) new_rabbit_response)
                 | (service, Inr affected) \<Rightarrow>
                     (if affected > 0 then ensure_client (r_ConnectionString config) service else service,
                      reply (RespondSuccess (ParseSuccess ''updated with success'' (new_rabbit_response\<lparr>rr_Affected := affected\<rparr>)))))))"

text \<open>The spellings tried in turn. One that is the original again is not tried again.\<close>

definition variations :: "string \<Rightarrow> string list" where
  "variations cs =
     cs # filter (\<lambda>x. x \<noteq> cs)
       (QueryEscape cs #
        (case QueryUnescape cs of Some decoded \<Rightarrow> if decoded \<noteq> cs then [decoded] else [] | None \<Rightarrow> []) @
        (if length cs \<ge> 2 \<and> drop (length cs - 2) cs = ''//'' then [take (length cs - 2) cs @ ''/%2F''] else []))"

fun remove_variations ::
    "(string \<Rightarrow> bool) \<Rightarrow> QpWhatsappServer \<Rightarrow> QPWhatsappService \<Rightarrow> dispatch_store_error option \<Rightarrow> string list \<Rightarrow>
     QPWhatsappService \<times> dispatch_store_error option \<times> nat" where
  "remove_variations ok server service err [] = (service, err, 0)"
| "remove_variations ok server service err (cs # rest) =
     (case Server_Remove (ok cs) service server cs of
        (service, Inl e) \<Rightarrow> remove_variations ok server service (Some e) rest
      | (service, Inr affected) \<Rightarrow>
          if affected > 0 then (service, err, affected) else remove_variations ok server service err rest)"

definition rabbit_delete ::
    "(string \<Rightarrow> bool) \<Rightarrow> QPWhatsappService \<Rightarrow> QpWhatsappServer \<Rightarrow> http_request \<Rightarrow> QpRabbitMQConfig \<Rightarrow>
     QPWhatsappService \<times> QpRabbitMQResponse reply" where
  "rabbit_delete ok service server r config =
     (let cs = (case map_of (rq_query r) ''connection_string'' of Some vs \<Rightarrow> first_value vs | None \<Rightarrow> []);
          cs = (if cs = [] then r_ConnectionString config else cs)
      in if cs = [] then (service, failed (Invalid ''connection_string is required for delete operation'') new_rabbit_response)
         else (case remove_variations ok server service None (variations cs) of
                 (service, err, affected) \<Rightarrow>
                   (service,
                    if affected > 0 then
                      reply (RespondSuccess (ParseSuccess ''deleted with success'' (new_rabbit_response\<lparr>rr_Affected := affected\<rparr>)))
                    else (case err of
                            Some e \<Rightarrow> failed (DispatchingFailed e) new_rabbit_response
                          | None \<Rightarrow> failed (Invalid ''no matching connection string found for deletion'') new_rabbit_response))))"

definition RabbitMQController ::
    "service_env \<Rightarrow> (string \<Rightarrow> bool) \<Rightarrow> QPWhatsappService \<Rightarrow> http_request \<Rightarrow> QpRabbitMQConfig body \<Rightarrow>
     QPWhatsappService \<times> QpRabbitMQResponse reply" where
  "RabbitMQController env ok service r body =
     (case GetServer env service r of
        Inl err \<Rightarrow> (service, failed (NoServer err) new_rabbit_response)
      | Inr server \<Rightarrow>
          if body_failed body then (service, failed BadBody new_rabbit_response)
          else
            let config = given_config body server
            in if rq_method r = ''POST'' then rabbit_post env ok service server config
               else if rq_method r = ''DELETE'' then rabbit_delete ok service server r config
               else (service, reply (RespondSuccess (ParseSuccess
                       ''getting all RabbitMQ configurations (all use fixed QuePasa Exchange)''
                       (new_rabbit_response\<lparr>rr_RabbitMQ := Server_GetRabbitMQConfigs env service server\<rparr>)))))"

section \<open>Dispatching again\<close>

text \<open>The message is the one the store holds; the distribution's own error is always nil.\<close>

definition RedispatchAPIHandler ::
    "service_env \<Rightarrow> store_env \<Rightarrow> dispatch_env \<Rightarrow> QPWhatsappService \<Rightarrow> rabbit_world \<Rightarrow> http_request \<Rightarrow>
     QPWhatsappService \<times> rabbit_world \<times> api_error QpResponse reply" where
  "RedispatchAPIHandler env stenv denv service w r =
     (case GetServer env service r of
        Inl err \<Rightarrow> (service, w, failed (NoServer err) empty_response)
      | Inr server \<Rightarrow>
          let messageId = rq_path r ''messageid''
          in if messageId = [] then (service, w, failed (Invalid ''message ID is required'') empty_response)
             else (case Server_GetById stenv server messageId of
                     (server, Inl err) \<Rightarrow>
                       (put service server, w, reply (RespondInterfaceCode 404 (ParseError (StoreFailed err) empty_response)))
                   | (server, Inr message) \<Rightarrow>
                       (case PostToDispatching_loop denv w (Dispatchings (server_dispatchings service server)) message of
                          None \<Rightarrow> (put service server, w, Panics)
                        | Some (w, ds, message) \<Rightarrow>
                            let server = server\<lparr>msg_handler := (msg_handler server)\<lparr>store :=
                                  write_message (store (msg_handler server)) (ToUpper messageId) (\<lambda>_. message)\<rparr>\<rparr>;
                                s = (server_dispatchings service server)\<lparr>Dispatchings := ds\<rparr>
                            in (put (keep_dispatchings service server (life_dispatch (svc_world service)) s) server, w,
                                reply (RespondSuccess (ParseSuccess
                                  (''message '' @ messageId @ '' re-dispatched successfully'') empty_response))))))"

section \<open>Escaping and unescaping\<close>

lemma hex_value_digits: "map (\<lambda>n. hex_value (hex_digit n)) [0..<16] = map Some [0..<16]"
  by code_simp

lemma hex_value_digit: "n < 16 \<Longrightarrow> hex_value (hex_digit n) = Some n"
  using arg_cong [OF hex_value_digits, of "\<lambda>xs. xs ! n"] by (simp del: hex_value.simps)

lemma unreserved_plain: "unreserved c \<Longrightarrow> c \<noteq> CHR ''%'' \<and> c \<noteq> CHR ''+''"
  by (auto simp: unreserved_def is_digit_def less_eq_char_def)

lemma unescape_escape_char: "QueryUnescape (escape_char c @ s) = map_option ((#) c) (QueryUnescape s)"
proof -
  have n: "(of_char c :: nat) div 16 < 16" "(of_char c :: nat) mod 16 < 16"
    using nat_of_char_less_256 [of c] by linarith+
  have "char_of (16 * (of_char c div 16) + of_char c mod 16 :: nat) = c" by simp
  then show ?thesis
    using unreserved_plain [of c] hex_value_digit [OF n(1)] hex_value_digit [OF n(2)]
    by (auto simp: escape_char_def simp del: hex_value.simps)
qed

text \<open>
  Every text survives the escaping for addresses: unescaping what \<open>QueryEscape\<close> writes always succeeds and
  gives the text back.
\<close>
theorem query_escape_roundtrip: "QueryUnescape (QueryEscape s) = Some s"
  by (induction s) (simp_all add: QueryEscape_def unescape_escape_char)

section \<open>Memory and table under the API\<close>

definition rows_of :: "string \<Rightarrow> dispatching_row list \<Rightarrow> dispatching_row list" where
  "rows_of context table = filter (\<lambda>row. row_context row = context) table"

lemma find_rows_of: "find (row_key x c) (rows_of x table) = find (row_key x c) table"
  by (induction table) (auto simp: rows_of_def row_key_def)

lemma stored_view_rows:
  assumes "rows_of x t' = rows_of x t"
  shows "stored_view codec x t' = stored_view codec x t"
proof -
  have "find (row_key x c) t' = find (row_key x c) t" for c
    using find_rows_of [of x c t'] find_rows_of [of x c t] assms by simp
  then show ?thesis by (simp add: fun_eq_iff stored_view_def Sql_Find_def)
qed

lemma set_row_context [simp]: "row_context (set_row codec d row) = row_context row"
  by (simp add: set_row_def)

lemma AddOrUpdate_rows:
  assumes "DispatchingAddOrUpdate codec now ok w s d = (w', s', r)" "x \<noteq> dd_context s"
  shows "rows_of x (dw_table w') = rows_of x (dw_table w)"
proof -
  have u: "rows_of x (Sql_Update codec t (dd_context s) e) = rows_of x t" for t e
    using assms(2) by (induction t) (auto simp: rows_of_def Sql_Update_def row_key_def)
  have a: "rows_of x (Sql_Add codec now t (dd_context s) e) = rows_of x t" for t e
    using assms(2) by (auto simp: rows_of_def Sql_Add_def)
  show ?thesis
    using assms(1)
    by (auto simp: DispatchingAddOrUpdate_def Sql_DispatchingAddOrUpdate_def Let_def u a split: if_splits option.splits)
qed

lemma Remove_rows:
  assumes "DispatchingRemove ok w s c = (w', s', r)" "x \<noteq> dd_context s"
  shows "rows_of x (dw_table w') = rows_of x (dw_table w)"
proof -
  have "rows_of x (filter (\<lambda>row. \<not> row_key (dd_context s) c row) t) = rows_of x t" for t
    using assms(2) by (auto simp: rows_of_def row_key_def filter_filter intro: filter_cong)
  then show ?thesis
    using assms(1)
    by (auto simp: DispatchingRemove_def Sql_DispatchingRemove_def Sql_Remove_def Let_def split: if_splits)
qed

definition lists_in_step :: "service_env \<Rightarrow> QPWhatsappService \<Rightarrow> bool" where
  "lists_in_step env service \<longleftrightarrow>
     distinct (map fst (svc_dispatchings service)) \<and>
     (\<forall>(token, s)\<in>set (svc_dispatchings service). in_step (sv_codec env) token (life_dispatch (svc_world service), s)) \<and>
     (\<forall>(key, server)\<in>set (Servers service). Token server \<in> fst ` set (svc_dispatchings service))"

lemma server_dispatchings_mem:
  assumes "lists_in_step env service" "Token server \<in> fst ` set (svc_dispatchings service)"
  shows "(Token server, server_dispatchings service server) \<in> set (svc_dispatchings service)"
    "in_step (sv_codec env) (Token server) (life_dispatch (svc_world service), server_dispatchings service server)"
    "dd_context (server_dispatchings service server) = Token server"
proof -
  obtain s where "map_of (svc_dispatchings service) (Token server) = Some s"
    using assms(2) by (metis map_of_eq_None_iff not_None_eq)
  then show m: "(Token server, server_dispatchings service server) \<in> set (svc_dispatchings service)"
    by (auto simp: server_dispatchings_def dest: map_of_SomeD)
  then show i: "in_step (sv_codec env) (Token server) (life_dispatch (svc_world service), server_dispatchings service server)"
    using assms(1) by (auto simp: lists_in_step_def)
  then show "dd_context (server_dispatchings service server) = Token server" by (simp add: in_step_def)
qed

text \<open>What one operation on the list of a server leaves of the others.\<close>

definition only_list_of :: "QpWhatsappServer \<Rightarrow> QPWhatsappService \<Rightarrow> QPWhatsappService \<Rightarrow> bool" where
  "only_list_of server service service' \<longleftrightarrow>
     Servers service' = Servers service \<and> map fst (svc_dispatchings service') = map fst (svc_dispatchings service) \<and>
     (\<forall>x. x \<noteq> Token server \<longrightarrow>
        map_of (svc_dispatchings service') x = map_of (svc_dispatchings service) x \<and>
        rows_of x (dw_table (life_dispatch (svc_world service'))) = rows_of x (dw_table (life_dispatch (svc_world service))))"

lemma only_list_refl [simp]: "only_list_of server service service"
  by (simp add: only_list_of_def)

lemma only_list_trans: "only_list_of server a b \<Longrightarrow> only_list_of server b c \<Longrightarrow> only_list_of server a c"
  by (simp add: only_list_of_def)

lemma keep_dispatchings_sound:
  assumes "lists_in_step env service" "Token server \<in> fst ` set (svc_dispatchings service)"
    and "in_step (sv_codec env) (Token server) (w', s')"
    and "\<And>x. x \<noteq> Token server \<Longrightarrow> rows_of x (dw_table w') = rows_of x (dw_table (life_dispatch (svc_world service)))"
  shows "lists_in_step env (keep_dispatchings service server w' s') \<and>
    only_list_of server service (keep_dispatchings service server w' s')"
proof -
  let ?new = "keep_dispatchings service server w' s'"
  have keys: "map fst (svc_dispatchings ?new) = map fst (svc_dispatchings service)"
    using assms(2) by (simp add: keep_dispatchings_def update_keys)
  have upd: "map_of (svc_dispatchings ?new) = (map_of (svc_dispatchings service))(Token server \<mapsto> s')"
    by (simp add: keep_dispatchings_def update_conv')
  have only: "only_list_of server service ?new"
    using keys upd assms(4) by (simp add: only_list_of_def) (simp add: keep_dispatchings_def)
  have each: "in_step (sv_codec env) token (w', s)" if m: "(token, s) \<in> set (svc_dispatchings ?new)" for token s
  proof (cases "token = Token server")
    case True
    have "map_of (svc_dispatchings ?new) token = Some s"
      using m assms(1) keys by (simp add: lists_in_step_def map_of_is_SomeI)
    then show ?thesis using True assms(3) upd by simp
  next
    case False
    have "map_of (svc_dispatchings ?new) token = Some s"
      using m assms(1) keys by (simp add: lists_in_step_def map_of_is_SomeI)
    then have "(token, s) \<in> set (svc_dispatchings service)" using False upd by (simp add: map_of_SomeD)
    then have "in_step (sv_codec env) token (life_dispatch (svc_world service), s)"
      using assms(1) by (auto simp: lists_in_step_def)
    then show ?thesis using stored_view_rows [OF assms(4) [OF False]] by (simp add: in_step_def)
  qed
  have "fst ` set (svc_dispatchings ?new) = fst ` set (svc_dispatchings service)"
    using keys by (metis list.set_map)
  then have "lists_in_step env ?new"
    using assms(1) keys each by (simp add: lists_in_step_def) (auto simp: keep_dispatchings_def)
  then show ?thesis using only by simp
qed

lemma Server_AddOrUpdate_sound:
  assumes "lists_in_step env service" "Token server \<in> fst ` set (svc_dispatchings service)"
    and "Server_AddOrUpdate env ok service server d = (service', r)"
  shows "lists_in_step env service' \<and> only_list_of server service service'"
proof -
  obtain w s where e: "DispatchingAddOrUpdate (sv_codec env) (le_now (sv_life env)) ok (life_dispatch (svc_world service))
      (server_dispatchings service server) d = (w, s, r)" "service' = keep_dispatchings service server w s"
    using assms(3) by (auto simp: Server_AddOrUpdate_def split: prod.splits)
  note mem = server_dispatchings_mem [OF assms(1,2)]
  have "in_step (sv_codec env) (Token server) (w, s)"
    using AddOrUpdate_in_step [OF mem(2), of "le_now (sv_life env)" ok d] e(1) by simp
  then show ?thesis
    using keep_dispatchings_sound [OF assms(1,2)] AddOrUpdate_rows [OF e(1)] mem(3) e(2) by auto
qed

lemma Server_Remove_sound:
  assumes "lists_in_step env service" "Token server \<in> fst ` set (svc_dispatchings service)"
    and "Server_Remove ok service server cs = (service', r)"
  shows "lists_in_step env service' \<and> only_list_of server service service'"
proof -
  obtain w s where e: "DispatchingRemove ok (life_dispatch (svc_world service)) (server_dispatchings service server) cs = (w, s, r)"
      "service' = keep_dispatchings service server w s"
    using assms(3) by (auto simp: Server_Remove_def split: prod.splits)
  note mem = server_dispatchings_mem [OF assms(1,2)]
  have "in_step (sv_codec env) (Token server) (w, s)"
    using Remove_in_step [OF mem(2), of ok cs] e(1) by simp
  then show ?thesis
    using keep_dispatchings_sound [OF assms(1,2)] Remove_rows [OF e(1)] mem(3) e(2) by auto
qed

lemma only_list_mem:
  "only_list_of server service service' \<Longrightarrow> Token server \<in> fst ` set (svc_dispatchings service) \<Longrightarrow>
   Token server \<in> fst ` set (svc_dispatchings service')"
  by (metis list.set_map only_list_of_def)

lemma remove_variations_sound:
  assumes "lists_in_step env service" "Token server \<in> fst ` set (svc_dispatchings service)"
    and "remove_variations ok server service err css = (service', err', n)"
  shows "lists_in_step env service' \<and> only_list_of server service service'"
  using assms
proof (induction css arbitrary: service err)
  case Nil
  then show ?case by simp
next
  case (Cons cs css)
  obtain s1 r where e: "Server_Remove (ok cs) service server cs = (s1, r)" by force
  note sound = Server_Remove_sound [OF Cons.prems(1,2) e]
  have m: "Token server \<in> fst ` set (svc_dispatchings s1)" using only_list_mem sound Cons.prems(2) by blast
  show ?case
    using Cons.prems(3) e sound Cons.IH [OF _ m] only_list_trans [of server service s1]
    by (auto split: sum.splits if_splits)
qed

lemma ensure_client_sound:
  "lists_in_step env service \<Longrightarrow> lists_in_step env (ensure_client cs service) \<and> only_list_of server service (ensure_client cs service)"
  by (auto simp: ensure_client_def lists_in_step_def only_list_of_def in_step_def Let_def)

text \<open>The calls of the two controllers, one after another. The database may refuse any statement.\<close>

datatype dispatching_call =
  WebhookCall bool "string \<Rightarrow> string" http_request "QpWebhook body"
| RabbitCall "string \<Rightarrow> bool" http_request "QpRabbitMQConfig body"

fun call_request :: "dispatching_call \<Rightarrow> http_request" where
  "call_request (WebhookCall ok parsed r body) = r"
| "call_request (RabbitCall ok r body) = r"

fun dispatching_call_step :: "service_env \<Rightarrow> QPWhatsappService \<Rightarrow> dispatching_call \<Rightarrow> QPWhatsappService" where
  "dispatching_call_step env service (WebhookCall ok parsed r body) = fst (WebhookController env ok parsed service r body)"
| "dispatching_call_step env service (RabbitCall ok r body) = fst (RabbitMQController env ok service r body)"

lemma GetServer_listed:
  assumes "order_ok env" "lists_in_step env service" "GetServer env service r = Inr server"
  shows "Token server \<in> fst ` set (svc_dispatchings service)" "EqualFold (Token server) (GetToken r)"
proof -
  obtain key where f: "find (\<lambda>item. EqualFold (Token (snd item)) (GetToken r)) (sv_order env (Servers service)) = Some (key, server)"
    using assms(3) by (auto simp: GetServer_def GetServerFromToken_def split: option.splits)
  then have "(key, server) \<in> set (Servers service)"
    using order_set [OF assms(1), of "Servers service"] by (metis find_Some_iff nth_mem)
  then show "Token server \<in> fst ` set (svc_dispatchings service)" using assms(2) by (auto simp: lists_in_step_def)
  show "EqualFold (Token server) (GetToken r)" using f by (metis (mono_tags, lifting) find_Some_iff snd_conv)
qed

lemma WebhookController_sound:
  assumes "lists_in_step env service" "Token server \<in> fst ` set (svc_dispatchings service)"
    and "GetServer env service r = Inr server"
    and "WebhookController env ok parsed service r body = (service', a)"
  shows "lists_in_step env service' \<and> only_list_of server service service'"
  using assms(1,3,4) Server_AddOrUpdate_sound [OF assms(1,2)] Server_Remove_sound [OF assms(1,2)]
  by (auto simp: WebhookController_def Let_def split: if_splits prod.splits)

lemma rabbit_post_sound:
  assumes "lists_in_step env service" "Token server \<in> fst ` set (svc_dispatchings service)"
    and "rabbit_post env ok service server config = (service', a)"
  shows "lists_in_step env service' \<and> only_list_of server service service'"
  using assms(1,3) Server_AddOrUpdate_sound [OF assms(1,2)] ensure_client_sound only_list_trans
  by (auto simp: rabbit_post_def split: if_splits prod.splits option.splits sum.splits) blast+

lemma RabbitMQController_sound:
  assumes "lists_in_step env service" "Token server \<in> fst ` set (svc_dispatchings service)"
    and "GetServer env service r = Inr server"
    and "RabbitMQController env ok service r body = (service', a)"
  shows "lists_in_step env service' \<and> only_list_of server service service'"
proof -
  have "lists_in_step env s' \<and> only_list_of server service s'"
    if "rabbit_delete ok service server r config = (s', b)" for config s' b
    using that assms(1) remove_variations_sound [OF assms(1,2)]
    by (auto simp: rabbit_delete_def Let_def split: if_splits prod.splits)
  then show ?thesis
    using assms(1,3,4) rabbit_post_sound [OF assms(1,2)]
    by (auto simp: RabbitMQController_def Let_def split: if_splits)
qed

lemma dispatching_call_sound:
  assumes "order_ok env" "lists_in_step env service"
  shows "lists_in_step env (dispatching_call_step env service c) \<and>
    (\<forall>x. \<not> EqualFold x (GetToken (call_request c)) \<longrightarrow>
       map_of (svc_dispatchings (dispatching_call_step env service c)) x = map_of (svc_dispatchings service) x \<and>
       rows_of x (dw_table (life_dispatch (svc_world (dispatching_call_step env service c)))) =
         rows_of x (dw_table (life_dispatch (svc_world service))))"
proof (cases "GetServer env service (call_request c)")
  case (Inl err)
  then have "dispatching_call_step env service c = service"
    by (cases c) (simp_all add: WebhookController_def RabbitMQController_def)
  then show ?thesis using assms(2) by simp
next
  case (Inr server)
  note listed = GetServer_listed [OF assms Inr]
  have "lists_in_step env (dispatching_call_step env service c) \<and> only_list_of server service (dispatching_call_step env service c)"
    using Inr WebhookController_sound [OF assms(2) listed(1)] RabbitMQController_sound [OF assms(2) listed(1)]
    by (cases c) (auto simp: prod_eq_iff)
  then show ?thesis using listed(2) unfolding only_list_of_def by metis
qed

interpretation dispatching_calls: step_invariant "dispatching_call_step env"
  "\<lambda>service. order_ok env \<and> lists_in_step env service" for env
  by unfold_locales (use dispatching_call_sound in blast)

text \<open>
  C25. Through any sequence of calls that read, set and delete webhooks and RabbitMQ configurations, of which
  the database may refuse any, the lists in memory stay in step with the table for every server, and a server
  whose token no call carries keeps its list and its rows as they were.
\<close>
theorem dispatching_calls_sound:
  assumes "order_ok env" "lists_in_step env service"
    and "foldl (dispatching_call_step env) service calls = service'"
  shows "(\<forall>(token, s)\<in>set (svc_dispatchings service'). in_step (sv_codec env) token (life_dispatch (svc_world service'), s))
     \<and> (\<forall>x. list_all (\<lambda>c. \<not> EqualFold x (GetToken (call_request c))) calls \<longrightarrow>
          map_of (svc_dispatchings service') x = map_of (svc_dispatchings service) x \<and>
          filter (\<lambda>row. row_context row = x) (dw_table (life_dispatch (svc_world service'))) =
            filter (\<lambda>row. row_context row = x) (dw_table (life_dispatch (svc_world service))))"
proof -
  have "lists_in_step env service'"
    using dispatching_calls.run_inv [of env service calls] assms by blast
  moreover have "map_of (svc_dispatchings service') x = map_of (svc_dispatchings service) x \<and>
      rows_of x (dw_table (life_dispatch (svc_world service'))) = rows_of x (dw_table (life_dispatch (svc_world service)))"
    if "list_all (\<lambda>c. \<not> EqualFold x (GetToken (call_request c))) calls" for x
    using that assms(2,3)
  proof (induction calls arbitrary: service)
    case (Cons c calls)
    note one = dispatching_call_sound [OF assms(1) Cons.prems(2), of c]
    have p: "\<not> EqualFold x (GetToken (call_request c))" "list_all (\<lambda>c. \<not> EqualFold x (GetToken (call_request c))) calls"
        "foldl (dispatching_call_step env) (dispatching_call_step env service c) calls = service'"
      using Cons.prems by simp_all
    show ?case using Cons.IH [OF p(2) _ p(3)] one p(1) by metis
  qed simp
  ultimately show ?thesis by (simp add: lists_in_step_def rows_of_def)
qed

section \<open>Setting and deleting a webhook\<close>

lemma GetToken_method: "GetToken (r\<lparr>rq_method := m\<rparr>) = GetToken r"
proof -
  have "Header_Get (r\<lparr>rq_method := m\<rparr>) = Header_Get r" by (simp add: fun_eq_iff Header_Get_def)
  then show ?thesis by (simp add: GetToken_def GetRequestParameter_def QueryGetValue_def QueryHasKey_def cong: option.case_cong)
qed

lemma update_update_restore:
  "distinct (map fst xs) \<Longrightarrow> map_of xs k = Some v \<Longrightarrow> AList.update k v (AList.update k u xs) = xs"
  by (induction xs) (auto simp: AList.update_conv')

lemma not_stored_iff:
  assumes "in_step codec x (w, s)"
  shows "Sql_Find codec (dw_table w) x c = None \<longleftrightarrow> c \<notin> ConnectionString ` set (Dispatchings s)"
proof -
  have "stored_view codec x (dw_table w) c = map_option (persisted codec) (find (\<lambda>d. ConnectionString d = c) (Dispatchings s))"
    using assms by (simp add: in_step_def mirrors_def)
  then have "Sql_Find codec (dw_table w) x c = None \<longleftrightarrow> find (\<lambda>d. ConnectionString d = c) (Dispatchings s) = None"
    unfolding stored_view_def by (metis option.map_disc_iff)
  then show ?thesis by (auto simp: find_None_iff)
qed

lemma add_new:
  assumes "in_step codec x (w, s)" "ConnectionString d \<notin> ConnectionString ` set (Dispatchings s)" "ConnectionString d \<noteq> []"
  shows "DispatchingAddOrUpdate codec now True w s d =
    (w\<lparr>dw_table := Sql_Add codec now (dw_table w) x d\<rparr>, s\<lparr>Dispatchings := Dispatchings s @ [d]\<rparr>, Inr 1)"
proof -
  have x: "dd_context s = x" using assms(1) by (simp add: in_step_def)
  have n: "Sql_Find codec (dw_table w) x (ConnectionString d) = None" using not_stored_iff [OF assms(1)] assms(2) by blast
  have "replace_first d (Dispatchings s) = None" using assms(2) by (simp add: replace_first_None)
  then show ?thesis
    using x n assms(3) by (simp add: DispatchingAddOrUpdate_def Sql_DispatchingAddOrUpdate_def mem_put_def)
qed

lemma remove_added:
  assumes "in_step codec x (w, s)" "ConnectionString d \<notin> ConnectionString ` set (Dispatchings s)" "ConnectionString d \<noteq> []"
    and "\<not> IsRabbitMQ d"
  shows "DispatchingRemove True (w\<lparr>dw_table := Sql_Add codec now (dw_table w) x d\<rparr>) (s\<lparr>Dispatchings := Dispatchings s @ [d]\<rparr>)
     (ConnectionString d) = (w, s, Inr 1)"
proof -
  have x: "dd_context s = x" using assms(1) by (simp add: in_step_def)
  have "Sql_Find codec (dw_table w) x (ConnectionString d) = None" using not_stored_iff [OF assms(1)] assms(2) by blast
  then have n: "\<forall>row\<in>set (dw_table w). \<not> row_key x (ConnectionString d) row" by (simp add: Sql_Find_def find_None_iff)
  have k: "filter (\<lambda>e. ConnectionString e \<noteq> ConnectionString d) (Dispatchings s) = Dispatchings s"
    using assms(2) by (intro filter_True) (metis image_eqI)
  have t: "filter (\<lambda>row. \<not> row_key x (ConnectionString d) row) (dw_table w) = dw_table w"
    "filter (row_key x (ConnectionString d)) (dw_table w) = []"
    using n by (simp_all add: filter_True filter_empty_conv)
  have r: "\<not> list_ex (\<lambda>e. ConnectionString e = ConnectionString d \<and> IsRabbitMQ e) (Dispatchings s)"
    using assms(2) unfolding list_ex_iff by (metis image_eqI)
  show ?thesis
    using x n k t r assms(3,4)
    by (auto simp: DispatchingRemove_def Sql_DispatchingRemove_def Sql_Remove_def Sql_Add_def compact_loop_filter
        row_key_def Let_def)
qed

text \<open>
  C26. Setting a webhook and deleting it are inverse: a webhook whose address the server does not have yet is
  set, both are answered with success and one row affected, and after the deletion the whole service, its
  lists, its table and its RabbitMQ clients, is what it was.
\<close>
theorem webhook_set_delete_roundtrip:
  assumes "order_ok env" "lists_in_step env service" "GetServer env service r = Inr server"
    and "rq_method r = ''POST''" "\<not> body_failed body" "Url (given_webhook body server) \<noteq> []"
    and "Url (given_webhook body server) \<notin> ConnectionString ` set (Dispatchings (server_dispatchings service server))"
    and "WebhookController env True parsed service r body = (service', a)"
    and "WebhookController env True parsed service' (r\<lparr>rq_method := ''DELETE''\<rparr>) body = (service'', b)"
  shows "service'' = service \<and> (\<exists>d. Dispatchings (server_dispatchings service' server) =
       Dispatchings (server_dispatchings service server) @ [d] \<and> d = Webhook_ToDispatching (given_webhook body server)) \<and>
     a = affected_reply ''updated with success'' (Inr 1) \<and> b = affected_reply ''deleted with success'' (Inr 1)"
proof -
  let ?d = "Webhook_ToDispatching (given_webhook body server)"
  let ?w = "life_dispatch (svc_world service)" and ?s = "server_dispatchings service server"
  let ?w' = "?w\<lparr>dw_table := Sql_Add (sv_codec env) (le_now (sv_life env)) (dw_table ?w) (Token server) ?d\<rparr>"
  let ?s' = "?s\<lparr>Dispatchings := Dispatchings ?s @ [?d]\<rparr>"
  note mem = server_dispatchings_mem [OF assms(2) GetServer_listed(1) [OF assms(1-3)]]
  have d: "ConnectionString ?d = Url (given_webhook body server)" "\<not> IsRabbitMQ ?d"
    by (simp_all add: Webhook_ToDispatching_def IsRabbitMQ_def DispatchingTypeWebhook_def DispatchingTypeRabbitMQ_def)
  note new = assms(7) [folded d(1)] and ne = assms(6) [folded d(1)]
  have post: "service' = keep_dispatchings service server ?w' ?s'" "a = affected_reply ''updated with success'' (Inr 1)"
    using assms(3,4,5,8) add_new [OF mem(2) new ne] by (simp_all add: WebhookController_def Server_AddOrUpdate_def Let_def)
  have dist: "distinct (map fst (svc_dispatchings service))" using assms(2) by (simp add: lists_in_step_def)
  have s': "server_dispatchings service' server = ?s'" "life_dispatch (svc_world service') = ?w'"
    using post(1) by (simp_all add: server_dispatchings_def keep_dispatchings_def AList.update_conv')
  have g: "GetServer env service' (r\<lparr>rq_method := ''DELETE''\<rparr>) = Inr server"
    using assms(3) post(1) by (simp add: GetServer_def GetServerFromToken_def keep_dispatchings_def GetToken_method)
  have "DispatchingRemove True ?w' ?s' (ConnectionString ?d) = (?w, ?s, Inr 1)"
    by (rule remove_added [OF mem(2) new ne d(2)])
  then have del: "service'' = keep_dispatchings service' server ?w ?s" "b = affected_reply ''deleted with success'' (Inr 1)"
    using g assms(5,9) s' d(1) by (simp_all add: WebhookController_def Server_Remove_def Let_def)
  have "service'' = service"
    using del(1) post(1) update_update_restore [OF dist map_of_is_SomeI [OF dist mem(1)]]
    by (simp add: keep_dispatchings_def)
  then show ?thesis using post del(2) s'(1) by simp
qed

section \<open>Deleting a configuration\<close>

lemma unescape_nonempty: "QueryUnescape s = Some t \<Longrightarrow> s \<noteq> [] \<Longrightarrow> t \<noteq> []"
  by (cases s) (auto split: if_splits list.splits option.splits)

lemma escape_nonempty: "s \<noteq> [] \<Longrightarrow> QueryEscape s \<noteq> []"
  by (cases s) (simp_all add: QueryEscape_def escape_char_def)

lemma variations_nonempty: "cs \<noteq> [] \<Longrightarrow> v \<in> set (variations cs) \<Longrightarrow> v \<noteq> []"
  using unescape_nonempty [of cs] escape_nonempty [of cs]
  by (cases "QueryUnescape cs") (auto simp: variations_def split: if_splits)

definition is_stored :: "QPWhatsappService \<Rightarrow> QpWhatsappServer \<Rightarrow> string \<Rightarrow> bool" where
  "is_stored service server cs \<longleftrightarrow>
     list_ex (row_key (Token server) cs) (dw_table (life_dispatch (svc_world service)))"

lemma Server_Remove_cases:
  assumes "lists_in_step env service" "Token server \<in> fst ` set (svc_dispatchings service)" "cs \<noteq> []"
    and "Server_Remove True service server cs = (service', r)"
  shows "\<exists>n. r = Inr n \<and> (0 < n \<longleftrightarrow> is_stored service server cs) \<and>
     Dispatchings (server_dispatchings service' server) =
       filter (\<lambda>d. ConnectionString d \<noteq> cs) (Dispatchings (server_dispatchings service server)) \<and>
     dw_table (life_dispatch (svc_world service')) =
       filter (\<lambda>row. \<not> row_key (Token server) cs row) (dw_table (life_dispatch (svc_world service)))"
proof -
  have x: "dd_context (server_dispatchings service server) = Token server" by (rule server_dispatchings_mem [OF assms(1,2)])
  show ?thesis
    using assms(3,4) x
    by (auto simp: Server_Remove_def DispatchingRemove_def Sql_DispatchingRemove_def Sql_Remove_def Let_def
        compact_loop_filter keep_dispatchings_def server_dispatchings_def AList.update_conv' is_stored_def list_ex_iff
        length_greater_0_conv filter_empty_conv)
qed

lemma not_stored_gone:
  assumes "lists_in_step env service" "Token server \<in> fst ` set (svc_dispatchings service)" "\<not> is_stored service server cs"
  shows "filter (\<lambda>d. ConnectionString d \<noteq> cs) (Dispatchings (server_dispatchings service server)) =
      Dispatchings (server_dispatchings service server)"
    "filter (\<lambda>row. \<not> row_key (Token server) cs row) (dw_table (life_dispatch (svc_world service))) =
      dw_table (life_dispatch (svc_world service))"
proof -
  have n: "\<forall>row\<in>set (dw_table (life_dispatch (svc_world service))). \<not> row_key (Token server) cs row"
    using assms(3) by (auto simp: is_stored_def list_ex_iff)
  then show "filter (\<lambda>row. \<not> row_key (Token server) cs row) (dw_table (life_dispatch (svc_world service))) =
      dw_table (life_dispatch (svc_world service))" by (simp add: filter_True)
  have "Sql_Find (sv_codec env) (dw_table (life_dispatch (svc_world service))) (Token server) cs = None"
    using n by (simp add: Sql_Find_def find_None_iff)
  then have "cs \<notin> ConnectionString ` set (Dispatchings (server_dispatchings service server))"
    using not_stored_iff [OF server_dispatchings_mem(2) [OF assms(1,2)]] by blast
  then show "filter (\<lambda>d. ConnectionString d \<noteq> cs) (Dispatchings (server_dispatchings service server)) =
      Dispatchings (server_dispatchings service server)" by (intro filter_True) (metis image_eqI)
qed

lemma remove_variations_spec:
  assumes "lists_in_step env service" "Token server \<in> fst ` set (svc_dispatchings service)" "[] \<notin> set css"
    and "remove_variations (\<lambda>_. True) server service err css = (service', err', n)"
  shows "err' = err \<and> (case filter (is_stored service server) css of
      [] \<Rightarrow> n = 0 \<and> Dispatchings (server_dispatchings service' server) = Dispatchings (server_dispatchings service server) \<and>
        dw_table (life_dispatch (svc_world service')) = dw_table (life_dispatch (svc_world service))
    | cs # _ \<Rightarrow> 0 < n \<and>
        Dispatchings (server_dispatchings service' server) =
          filter (\<lambda>d. ConnectionString d \<noteq> cs) (Dispatchings (server_dispatchings service server)) \<and>
        dw_table (life_dispatch (svc_world service')) =
          filter (\<lambda>row. \<not> row_key (Token server) cs row) (dw_table (life_dispatch (svc_world service))))"
  using assms
proof (induction css arbitrary: service)
  case (Cons cs css)
  obtain s1 r where e: "Server_Remove True service server cs = (s1, r)" by force
  obtain k where k: "r = Inr k" "0 < k \<longleftrightarrow> is_stored service server cs"
      "Dispatchings (server_dispatchings s1 server) =
        filter (\<lambda>d. ConnectionString d \<noteq> cs) (Dispatchings (server_dispatchings service server))"
      "dw_table (life_dispatch (svc_world s1)) =
        filter (\<lambda>row. \<not> row_key (Token server) cs row) (dw_table (life_dispatch (svc_world service)))"
    using Server_Remove_cases [OF Cons.prems(1,2) _ e] Cons.prems(3) by auto
  show ?case
  proof (cases "is_stored service server cs")
    case True
    then show ?thesis using Cons.prems(4) e k by simp
  next
    case False
    note same = not_stored_gone [OF Cons.prems(1,2) False]
    have s1: "lists_in_step env s1" "Token server \<in> fst ` set (svc_dispatchings s1)"
      using Server_Remove_sound [OF Cons.prems(1,2) e] only_list_mem Cons.prems(2) by blast+
    have "is_stored s1 server = is_stored service server" using k(4) same(2) by (simp add: is_stored_def fun_eq_iff)
    moreover have "remove_variations (\<lambda>_. True) server s1 err css = (service', err', n)"
      using Cons.prems(4) e k(1,2) False by simp
    note Cons.IH [OF s1 _ this]
    ultimately show ?thesis using Cons.prems(3) k(3,4) False same by (simp cong: list.case_cong)
  qed
qed simp

text \<open>
  Deleting a RabbitMQ configuration takes the connection string from the address or else from the body and
  tries it as it is, escaped, unescaped and with its last slash escaped. Of these only the first that is
  stored is removed, from the list in memory and from the table, and nothing else; the answer is a success
  exactly when there was one.
\<close>
theorem rabbit_delete_first_variation:
  assumes "lists_in_step env service" "Token server \<in> fst ` set (svc_dispatchings service)"
    and "cs = (let q = (case map_of (rq_query r) ''connection_string'' of Some vs \<Rightarrow> first_value vs | None \<Rightarrow> [])
               in if q = [] then r_ConnectionString config else q)" "cs \<noteq> []"
    and "rabbit_delete (\<lambda>_. True) service server r config = (service', answer)"
  shows "case filter (is_stored service server) (variations cs) of
      [] \<Rightarrow> answer = failed (Invalid ''no matching connection string found for deletion'') new_rabbit_response \<and>
        Dispatchings (server_dispatchings service' server) = Dispatchings (server_dispatchings service server) \<and>
        dw_table (life_dispatch (svc_world service')) = dw_table (life_dispatch (svc_world service))
    | stored # _ \<Rightarrow> (\<exists>n>0. answer = reply (RespondSuccess (ParseSuccess ''deleted with success''
          (new_rabbit_response\<lparr>rr_Affected := n\<rparr>)))) \<and>
        Dispatchings (server_dispatchings service' server) =
          filter (\<lambda>d. ConnectionString d \<noteq> stored) (Dispatchings (server_dispatchings service server)) \<and>
        dw_table (life_dispatch (svc_world service')) =
          filter (\<lambda>row. \<not> row_key (Token server) stored row) (dw_table (life_dispatch (svc_world service)))"
proof -
  obtain s err n where e: "remove_variations (\<lambda>_. True) server service None (variations cs) = (s, err, n)"
    by (metis prod_cases3)
  have ne: "[] \<notin> set (variations cs)" using variations_nonempty [OF assms(4)] by blast
  have d: "service' = s"
    "answer = (if n > 0 then reply (RespondSuccess (ParseSuccess ''deleted with success'' (new_rabbit_response\<lparr>rr_Affected := n\<rparr>)))
       else (case err of Some e \<Rightarrow> failed (DispatchingFailed e) new_rabbit_response
             | None \<Rightarrow> failed (Invalid ''no matching connection string found for deletion'') new_rabbit_response))"
    using assms(3,4,5) e by (auto simp: rabbit_delete_def Let_def)
  show ?thesis
    using remove_variations_spec [OF assms(1,2) ne e] d
    by (auto split: list.splits)
qed

section \<open>At a service with one server\<close>

definition listed_service :: QPWhatsappService where
  "listed_service = empty_service\<lparr>Servers := [(''tok'', NewQpWhatsappServer 7 (new_info ''tok'' ''me'' []))],
     svc_dispatchings := [(''tok'', \<lparr>Dispatchings = [], dd_context = ''tok''\<rparr>)]\<rparr>"

lemma listed_service_ok: "order_ok sample_service_env" "lists_in_step sample_service_env listed_service"
  by (simp add: order_ok_def sample_service_env_def)
    (simp add: lists_in_step_def listed_service_def in_step_def mirrors_def stored_view_def Sql_Find_def empty_service_def
      empty_world_def new_info_def fun_eq_iff)

definition listed_server :: QpWhatsappServer where
  "listed_server = NewQpWhatsappServer 7 (new_info ''tok'' ''me'' [])"

definition posting_request :: http_request where
  "posting_request = (sample_http [(''token'', ''TOK'')])\<lparr>rq_method := ''POST''\<rparr>"

definition posted_webhook :: "QpWebhook body" where
  "posted_webhook = Body (empty_webhook\<lparr>Url := ''http://h/%2F''\<rparr>)"

definition posted_service :: QPWhatsappService where
  "posted_service = fst (WebhookController sample_service_env True id listed_service posting_request posted_webhook)"

lemma listed_server_found: "GetServer sample_service_env listed_service posting_request = Inr listed_server"
  by code_simp

theorem dispatching_calls_sound_witness:
  "in_step (sv_codec sample_service_env) ''tok'' (life_dispatch (svc_world posted_service), server_dispatchings posted_service listed_server)
   \<and> map_of (svc_dispatchings posted_service) ''other'' = None \<and> length (dw_table (life_dispatch (svc_world posted_service))) = 1"
proof -
  let ?calls = "[WebhookCall True id posting_request posted_webhook]"
  have e: "foldl (dispatching_call_step sample_service_env) listed_service ?calls = posted_service"
    by (simp add: posted_service_def)
  have o: "list_all (\<lambda>c. \<not> EqualFold ''other'' (GetToken (call_request c))) ?calls" by code_simp
  have m: "(''tok'', server_dispatchings posted_service listed_server) \<in> set (svc_dispatchings posted_service)" by code_simp
  have "map_of (svc_dispatchings listed_service) ''other'' = None" "length (dw_table (life_dispatch (svc_world posted_service))) = 1"
    by code_simp+
  then show ?thesis using dispatching_calls_sound [OF listed_service_ok e] o m by fastforce
qed

theorem webhook_set_delete_roundtrip_witness:
  "fst (WebhookController sample_service_env True id posted_service (posting_request\<lparr>rq_method := ''DELETE''\<rparr>) posted_webhook)
     = listed_service"
proof -
  have p: "rq_method posting_request = ''POST''" "\<not> body_failed posted_webhook" "Url (given_webhook posted_webhook listed_server) \<noteq> []"
    "Url (given_webhook posted_webhook listed_server) \<notin> ConnectionString ` set (Dispatchings (server_dispatchings listed_service listed_server))"
    by code_simp+
  show ?thesis
    using webhook_set_delete_roundtrip [OF listed_service_ok listed_server_found p]
    by (metis posted_service_def prod.collapse)
qed

theorem rabbit_delete_first_variation_witness:
  "dw_table (life_dispatch (svc_world (fst (rabbit_delete (\<lambda>_. True) posted_service listed_server posting_request
     (empty_config\<lparr>r_ConnectionString := ''http://h//''\<rparr>))))) = []"
proof -
  let ?config = "empty_config\<lparr>r_ConnectionString := ''http://h//''\<rparr>"
  obtain service' answer where
    e: "rabbit_delete (\<lambda>_. True) posted_service listed_server posting_request ?config = (service', answer)" by force
  have m: "Token listed_server \<in> fst ` set (svc_dispatchings listed_service)" by code_simp
  have ok: "lists_in_step sample_service_env posted_service" "Token listed_server \<in> fst ` set (svc_dispatchings posted_service)"
    using WebhookController_sound [OF listed_service_ok(2) m listed_server_found] only_list_mem m
    by (metis posted_service_def prod.collapse)+
  have q: "''http://h//'' = (let q = (case map_of (rq_query posting_request) ''connection_string'' of Some vs \<Rightarrow> first_value vs | None \<Rightarrow> [])
               in if q = [] then r_ConnectionString ?config else q)" "''http://h//'' \<noteq> []"
    by code_simp+
  have "filter (is_stored posted_service listed_server) (variations ''http://h//'') = [''http://h/%2F'']"
    "filter (\<lambda>row. \<not> row_key (Token listed_server) ''http://h/%2F'' row) (dw_table (life_dispatch (svc_world posted_service))) = []"
    by code_simp+
  then show ?thesis using rabbit_delete_first_variation [OF ok q e] e by simp
qed

end
