(* ===== verification/ApiContacts.thy ===== *)
theory ApiContacts
  imports ApiSend GroupManager
begin

text \<open>
  Contacts through the API: the questions a connection answers about users
  (\<open>src/whatsmeow/whatsmeow_contact_manager.go\<close>, its store-only variant and the choice between the two), the
  server's manager (\<open>src/models/qp_contact_manager.go\<close>) and the controllers of contacts, their search, LIDs,
  user information, pictures, registration and invitations. The client's and the device store's answers are
  fields of \<open>lookup_env\<close>.
\<close>

section \<open>What a connection answers\<close>

record WhatsappProfilePicture =
  pic_Id :: string
  pic_Type :: string
  pic_Url :: string
  pic_ChatId :: string
  pic_Wid :: string

text \<open>\<open>ui_VerifiedName\<close> is the name inside the certificate, \<open>None\<close> without one.\<close>

record UserInfo =
  ui_VerifiedName :: "string option"
  ui_Status :: string
  ui_PictureID :: string
  ui_Devices :: "JID list"

record WhatsmeowUserInfoResponse =
  ur_JID :: string
  ur_LID :: string
  ur_Phone :: string
  ur_PhoneE164 :: string
  ur_Status :: string
  ur_PictureID :: string
  ur_Devices :: "JID list"
  ur_VerifiedName :: "string option"
  ur_DisplayName :: string
  ur_FullName :: string
  ur_BusinessName :: string
  ur_PushName :: string

text \<open>The contacts of a device: no table of contacts, or the answer of the database.\<close>

type_synonym device_contacts = "(string + (JID \<times> contact_info) list) option"

record lookup_env =
  lk_contact :: contact_env
  lk_client_contacts :: device_contacts
  lk_store :: "string \<Rightarrow> string + device_contacts"
  lk_is_on :: "string list \<Rightarrow> string + (bool \<times> JID) list"
  lk_picture :: "JID \<Rightarrow> string \<Rightarrow> string + WhatsappProfilePicture option"
  lk_user_info :: "JID list \<Rightarrow> string + (JID \<times> UserInfo) list"
  lk_fetch :: "string \<Rightarrow> string + string"

datatype lookup_error =
  NoConnection | NoManager | NoStoreFor string | StoreFailedFor string string | NotSupported string
| LookupFailed contact_error | ClientAnswered string | BadPhone string phone_error | BadJID string | ContactsFailed string

fun contacts_of :: "contact_env \<Rightarrow> device_contacts \<Rightarrow> lookup_error + WhatsappChat list" where
  "contacts_of env None = Inr []"
| "contacts_of env (Some (Inl err)) = Inl (ContactsFailed err)"
| "contacts_of env (Some (Inr contacts)) = Inr (GetContactsFromDevice env (Some contacts))"

definition IsOnWhatsApp :: "lookup_env \<Rightarrow> string list \<Rightarrow> lookup_error + string list" where
  "IsOnWhatsApp env phones =
     (case lk_is_on env phones of
        Inl err \<Rightarrow> Inl (ClientAnswered err)
      | Inr results \<Rightarrow> Inr (map (ce_string (lk_contact env) \<circ> snd) (filter fst results)))"

definition GetProfilePicture :: "lookup_env \<Rightarrow> string \<Rightarrow> string \<Rightarrow> lookup_error + WhatsappProfilePicture option" where
  "GetProfilePicture env wid knowingId =
     (case ce_parse (lk_contact env) wid of
        None \<Rightarrow> Inl (BadJID wid)
      | Some jid \<Rightarrow>
          (case lk_picture env jid knowingId of
             Inl err \<Rightarrow> Inl (ClientAnswered err)
           | Inr pictureInfo \<Rightarrow> Inr (map_option (\<lambda>p. p\<lparr>pic_ChatId := [], pic_Wid := []\<rparr>) pictureInfo)))"

fun parse_users :: "contact_env \<Rightarrow> string list \<Rightarrow> lookup_error + JID list" where
  "parse_users env [] = Inr []"
| "parse_users env (jidStr # rest) =
     (if \<not> Contains jidStr ''@'' then
        (case GetPhoneIfValid jidStr of
           Inl err \<Rightarrow> Inl (BadPhone jidStr err)
         | Inr validPhone \<Rightarrow>
             map_sum id ((#) \<lparr>jid_User = TrimPlus validPhone, jid_Device = 0, jid_Server = WHATSAPP_SERVERDOMAIN_USER\<rparr>)
               (parse_users env rest))
      else (case ce_parse env jidStr of
              None \<Rightarrow> Inl (BadJID jidStr)
            | Some jid \<Rightarrow> map_sum id ((#) jid) (parse_users env rest)))"

definition or_contact :: "contact_info option \<Rightarrow> contact_info option \<Rightarrow> contact_info option" where
  "or_contact a b = (case a of None \<Rightarrow> b | Some c \<Rightarrow> Some c)"

text \<open>The LID, the phone and the stored contact of a user, the contact under either of the two.\<close>

definition user_links :: "contact_env \<Rightarrow> JID \<Rightarrow> string \<times> string \<times> contact_info option" where
  "user_links env jid =
     (if Contains (ce_string env jid) LID_SUFFIX then
        (case ce_pn_for_lid env jid of
           Some pnJID \<Rightarrow> (ce_string env (ToNonAD jid), jid_User pnJID, or_contact (ce_contact env jid) (ce_contact env pnJID))
         | None \<Rightarrow> (ce_string env (ToNonAD jid), [], ce_contact env jid))
      else (case ce_lid_for_pn env jid of
              Some lidJID \<Rightarrow> (ce_string env (ToNonAD lidJID), jid_User jid, or_contact (ce_contact env jid) (ce_contact env lidJID))
            | None \<Rightarrow> ([], jid_User jid, ce_contact env jid)))"

definition user_display_name :: "contact_info option \<Rightarrow> UserInfo \<Rightarrow> string" where
  "user_display_name contact info =
     (let displayName = (case contact of
            None \<Rightarrow> []
          | Some c \<Rightarrow> if FullName c \<noteq> [] then FullName c else if BusinessName c \<noteq> [] then BusinessName c
                       else if PushName c \<noteq> [] then PushName c else [])
      in if displayName = [] then (case ui_VerifiedName info of Some n \<Rightarrow> n | None \<Rightarrow> []) else displayName)"

definition user_known :: "string \<Rightarrow> contact_info option \<Rightarrow> UserInfo \<Rightarrow> bool" where
  "user_known lid contact info \<longleftrightarrow>
     (case contact of Some c \<Rightarrow> FullName c \<noteq> [] \<or> BusinessName c \<noteq> [] \<or> PushName c \<noteq> [] | None \<Rightarrow> False) \<or>
     (case ui_VerifiedName info of Some n \<Rightarrow> n \<noteq> [] | None \<Rightarrow> False) \<or>
     ui_Status info \<noteq> [] \<or> ui_PictureID info \<noteq> [] \<or> length (ui_Devices info) > 0 \<or> lid \<noteq> []"

definition user_response :: "contact_env \<Rightarrow> JID \<times> UserInfo \<Rightarrow> WhatsmeowUserInfoResponse option" where
  "user_response env entry =
     (case entry of (jid, info) \<Rightarrow>
        (case user_links env jid of (lid, phoneNumber, contact) \<Rightarrow>
           if \<not> user_known lid contact info then None
           else Some \<lparr>ur_JID = ce_string env jid, ur_LID = lid, ur_Phone = phoneNumber,
             ur_PhoneE164 = (if phoneNumber \<noteq> [] then e164_or_empty phoneNumber else []),
             ur_Status = ui_Status info, ur_PictureID = ui_PictureID info, ur_Devices = ui_Devices info,
             ur_VerifiedName = ui_VerifiedName info, ur_DisplayName = user_display_name contact info,
             ur_FullName = (case contact of Some c \<Rightarrow> FullName c | None \<Rightarrow> []),
             ur_BusinessName = (case contact of Some c \<Rightarrow> BusinessName c | None \<Rightarrow> []),
             ur_PushName = (case contact of Some c \<Rightarrow> PushName c | None \<Rightarrow> [])\<rparr>))"

definition GetUserInfo :: "lookup_env \<Rightarrow> string list \<Rightarrow> lookup_error + WhatsmeowUserInfoResponse list" where
  "GetUserInfo env jids =
     (if \<not> ce_client (lk_contact env) then Inl (LookupFailed NoClient)
      else if \<not> ce_store (lk_contact env) then Inl (LookupFailed NoStore)
      else (case parse_users (lk_contact env) jids of
              Inl err \<Rightarrow> Inl err
            | Inr parsedJIDs \<Rightarrow>
                (case lk_user_info env parsedJIDs of
                   Inl err \<Rightarrow> Inl (ClientAnswered err)
                 | Inr userInfoMap \<Rightarrow> Inr (List.map_filter (user_response (lk_contact env)) userInfoMap))))"

section \<open>The managers\<close>

text \<open>The manager that reads a store can list its contacts and nothing else.\<close>

datatype contact_manager = ActiveManager | StoreManager device_contacts

definition NewStoreContactManagerFromWid :: "lookup_env \<Rightarrow> string \<Rightarrow> lookup_error + contact_manager" where
  "NewStoreContactManagerFromWid env wid =
     (case lk_store env wid of
        Inl err \<Rightarrow> Inl (StoreFailedFor wid err)
      | Inr None \<Rightarrow> Inl (NoStoreFor wid)
      | Inr (Some contacts) \<Rightarrow> Inr (StoreManager (Some contacts)))"

text \<open>A connection has a manager when it has a client; the fallback inside it needs the client too.\<close>

definition conn_GetContactManager :: "WhatsmeowConnection \<Rightarrow> contact_manager option" where
  "conn_GetContactManager conn_state = (if Client conn_state \<noteq> None then Some ActiveManager else None)"

definition GetContactManagerForWid :: "lookup_env \<Rightarrow> string \<Rightarrow> WhatsmeowConnection option \<Rightarrow> lookup_error + contact_manager" where
  "GetContactManagerForWid env wid conn_state =
     (case Option.bind conn_state conn_GetContactManager of
        Some m \<Rightarrow> Inr m
      | None \<Rightarrow> NewStoreContactManagerFromWid env wid)"

fun manager_GetContacts :: "lookup_env \<Rightarrow> contact_manager \<Rightarrow> lookup_error + WhatsappChat list" where
  "manager_GetContacts env ActiveManager =
     (if \<not> ce_client (lk_contact env) then Inl (LookupFailed NoClient)
      else if \<not> ce_store (lk_contact env) then Inl (LookupFailed NoStore)
      else contacts_of (lk_contact env) (lk_client_contacts env))"
| "manager_GetContacts env (StoreManager contacts) = contacts_of (lk_contact env) contacts"

definition with_manager :: "QpWhatsappServer \<Rightarrow> (unit \<Rightarrow> lookup_error + 'a) \<Rightarrow> lookup_error + 'a" where
  "with_manager server f =
     (case connection server of
        None \<Rightarrow> Inl NoConnection
      | Some conn_state \<Rightarrow> (case conn_GetContactManager conn_state of None \<Rightarrow> Inl NoManager | Some _ \<Rightarrow> f ()))"

definition Qp_GetContacts :: "lookup_env \<Rightarrow> QpWhatsappServer \<Rightarrow> lookup_error + WhatsappChat list" where
  "Qp_GetContacts env server =
     (case GetContactManagerForWid env (Wid server) (connection server) of
        Inl err \<Rightarrow> Inl err | Inr m \<Rightarrow> manager_GetContacts env m)"

definition Qp_IsOnWhatsApp :: "lookup_env \<Rightarrow> QpWhatsappServer \<Rightarrow> string list \<Rightarrow> lookup_error + string list" where
  "Qp_IsOnWhatsApp env server phones = with_manager server (\<lambda>_. IsOnWhatsApp env phones)"

definition Qp_GetProfilePicture ::
    "lookup_env \<Rightarrow> QpWhatsappServer \<Rightarrow> string \<Rightarrow> string \<Rightarrow> lookup_error + WhatsappProfilePicture option" where
  "Qp_GetProfilePicture env server wid knowingId = with_manager server (\<lambda>_. GetProfilePicture env wid knowingId)"

definition Qp_GetUserInfo :: "lookup_env \<Rightarrow> QpWhatsappServer \<Rightarrow> string list \<Rightarrow> lookup_error + WhatsmeowUserInfoResponse list" where
  "Qp_GetUserInfo env server jids = with_manager server (\<lambda>_. GetUserInfo env jids)"

text \<open>The two maps are the state of the lookups; \<open>None\<close> is the panic on an id with a colon and no at sign.\<close>

definition server_phone_of_lid ::
    "lookup_env \<Rightarrow> QpWhatsappServer \<Rightarrow> chat_state \<Rightarrow> string \<Rightarrow> chat_state \<times> (lookup_error + string)" where
  "server_phone_of_lid env server c lid =
     (case with_manager server (\<lambda>_. Inr ()) of
        Inl err \<Rightarrow> (c, Inl err)
      | Inr _ \<Rightarrow> (case GetPhoneFromLID (lk_contact env) c lid of (c, r) \<Rightarrow> (c, map_sum LookupFailed id r)))"

definition server_lid_of_phone ::
    "lookup_env \<Rightarrow> QpWhatsappServer \<Rightarrow> chat_state \<Rightarrow> string \<Rightarrow> chat_state \<times> (lookup_error + string)" where
  "server_lid_of_phone env server c phone =
     (case with_manager server (\<lambda>_. Inr ()) of
        Inl err \<Rightarrow> (c, Inl err)
      | Inr _ \<Rightarrow> (case GetLIDFromPhone (lk_contact env) c phone of (c, r) \<Rightarrow> (c, map_sum LookupFailed id r)))"

fun trim_sessions :: "WhatsappChat list \<Rightarrow> WhatsappChat list option" where
  "trim_sessions [] = Some []"
| "trim_sessions (contact # rest) =
     (case (TrimSessionIdFromWIdString (Chat_Id contact), trim_sessions rest) of
        (Some i, Some cs) \<Rightarrow> Some (contact\<lparr>Chat_Id := i\<rparr> # cs)
      | _ \<Rightarrow> None)"

definition Server_GetContacts :: "lookup_env \<Rightarrow> QpWhatsappServer \<Rightarrow> (lookup_error + WhatsappChat list) option" where
  "Server_GetContacts env server =
     (case Qp_GetContacts env server of
        Inl err \<Rightarrow> Some (Inl err)
      | Inr contacts \<Rightarrow> map_option Inr (trim_sessions contacts))"

section \<open>Answers\<close>

datatype contact_api_error =
  ContactApi api_error | ContactLookup lookup_error | ContactRecipient endpoint_error | ContactPhone phone_error
| ContactLid lookup_error | ContactGroup group_error | FetchError string

record LIDResponse = "contact_api_error QpResponse" +
  lr_Phone :: string
  lr_LID :: string

record UserInfoResponse = "contact_api_error QpResponse" +
  us_Total :: nat
  us_UserInfos :: "WhatsmeowUserInfoResponse list"

record QpPictureResponse = "contact_api_error QpResponse" +
  pr_Info :: "WhatsappProfilePicture option"

record QpIsOnWhatsappResponse = "contact_api_error QpResponse" +
  io_Total :: nat
  io_Registered :: "string list"

record QpContactsResponse = "contact_api_error QpResponse" +
  cr_Total :: nat
  cr_Contacts :: "WhatsappChat list"

record QpInviteResponse = "contact_api_error QpResponse" +
  ir_Url :: string

definition new_lid_response :: LIDResponse where
  "new_lid_response = \<lparr>Success = False, QpResponse.Status = NoStatus, lr_Phone = [], lr_LID = []\<rparr>"

definition new_user_info_response :: UserInfoResponse where
  "new_user_info_response = \<lparr>Success = False, QpResponse.Status = NoStatus, us_Total = 0, us_UserInfos = []\<rparr>"

definition new_picture_response :: QpPictureResponse where
  "new_picture_response = \<lparr>Success = False, QpResponse.Status = NoStatus, pr_Info = None\<rparr>"

definition new_is_on_response :: QpIsOnWhatsappResponse where
  "new_is_on_response = \<lparr>Success = False, QpResponse.Status = NoStatus, io_Total = 0, io_Registered = []\<rparr>"

definition new_contacts_response :: QpContactsResponse where
  "new_contacts_response = \<lparr>Success = False, QpResponse.Status = NoStatus, cr_Total = 0, cr_Contacts = []\<rparr>"

definition new_invite_response :: QpInviteResponse where
  "new_invite_response = \<lparr>Success = False, QpResponse.Status = NoStatus, ir_Url = []\<rparr>"

definition denied :: "contact_api_error \<Rightarrow> (contact_api_error, 'a) QpResponse_scheme \<Rightarrow> (contact_api_error, 'a) QpResponse_scheme reply" where
  "denied err response = reply (RespondInterface (ParseError err response))"

definition done_with :: "string \<Rightarrow> (contact_api_error, 'a) QpResponse_scheme \<Rightarrow> (contact_api_error, 'a) QpResponse_scheme reply" where
  "done_with text response = reply (RespondSuccess (ParseSuccess text response))"

text \<open>The server of a request and its state; a server that is not ready is answered with code 503.\<close>

definition ready_of ::
    "service_env \<Rightarrow> QPWhatsappService \<Rightarrow> http_request \<Rightarrow> (contact_api_error, 'a) QpResponse_scheme \<Rightarrow>
     (contact_api_error, 'a) QpResponse_scheme reply + QpWhatsappServer" where
  "ready_of env service r response =
     (case GetServer env service r of
        Inl err \<Rightarrow> Inl (denied (ContactApi (NoServer err)) response)
      | Inr server \<Rightarrow>
          let status = GetState server
          in if status \<noteq> Ready
             then Inl (reply (RespondInterfaceCode 503 (ParseError (ContactApi (NotReady (Wid server) status)) response)))
             else Inr server)"

section \<open>Contacts and their search\<close>

definition sort_contacts :: "WhatsappChat list \<Rightarrow> WhatsappChat list" where
  "sort_contacts contacts = sort_key Chat_Id contacts"

definition ContactsController ::
    "service_env \<Rightarrow> lookup_env \<Rightarrow> QPWhatsappService \<Rightarrow> http_request \<Rightarrow> QpContactsResponse reply" where
  "ContactsController env lk service r =
     (case GetServer env service r of
        Inl err \<Rightarrow> denied (ContactApi (NoServer err)) new_contacts_response
      | Inr server \<Rightarrow>
          (case Server_GetContacts lk server of
             None \<Rightarrow> Panics
           | Some (Inl err) \<Rightarrow> denied (ContactLookup err) new_contacts_response
           | Some (Inr contacts) \<Rightarrow>
               reply (RespondSuccess (new_contacts_response\<lparr>cr_Total := length contacts, cr_Contacts := sort_contacts contacts\<rparr>))))"

record QpContactsSearchRequest =
  cs_Query :: string
  cs_HasTitle :: "bool option"
  cs_HasLid :: "bool option"
  cs_Phone :: string

definition no_search :: QpContactsSearchRequest where
  "no_search = \<lparr>cs_Query = [], cs_HasTitle = None, cs_HasLid = None, cs_Phone = []\<rparr>"

definition search_normalizePhone :: "string \<Rightarrow> string" where
  "search_normalizePhone phone =
     ToLower (RemoveByte CHR ''+'' (RemoveByte CHR '')'' (RemoveByte CHR ''('' (RemoveByte CHR ''-'' (RemoveByte CHR '' '' phone)))))"

definition isValidPhoneSearch :: "string \<Rightarrow> bool" where
  "isValidPhoneSearch phone \<longleftrightarrow>
     list_all (\<lambda>char. is_digit char \<or> char \<in> {CHR ''+'', CHR '' '', CHR ''-'', CHR ''('', CHR '')''}) phone"

definition matches_phone :: "WhatsappChat \<Rightarrow> string \<Rightarrow> bool" where
  "matches_phone contact phone \<longleftrightarrow>
     (if HasPrefix phone ''+'' then HasPrefix (Phone contact) phone
      else Contains (search_normalizePhone (Phone contact)) (search_normalizePhone phone))"

definition matches_query :: "WhatsappChat \<Rightarrow> string \<Rightarrow> bool" where
  "matches_query contact text \<longleftrightarrow>
     (let query = ToLower (TrimSpace text)
      in if Contains (ToLower (Title contact)) query then True
         else if Contains (search_normalizePhone (Phone contact)) (search_normalizePhone query) then True
         else Contains (ToLower (Chat_Id contact)) query)"

definition matchesSearchCriteria :: "WhatsappChat \<Rightarrow> QpContactsSearchRequest \<Rightarrow> bool" where
  "matchesSearchCriteria contact request \<longleftrightarrow>
     (case cs_HasTitle request of
        Some v \<Rightarrow> v = (length (TrimSpace (Title contact)) > 0) | None \<Rightarrow> True) \<and>
     (case cs_HasLid request of
        Some v \<Rightarrow> v = (length (TrimSpace (LId contact)) > 0 \<or> HasSuffix (Chat_Id contact) ''@lid'') | None \<Rightarrow> True) \<and>
     (if length (cs_Phone request) > 0 then matches_phone contact (cs_Phone request) else True) \<and>
     (if length (cs_Query request) > 0 then matches_query contact (cs_Query request) else True)"

definition filterContacts :: "WhatsappChat list \<Rightarrow> QpContactsSearchRequest \<Rightarrow> WhatsappChat list" where
  "filterContacts contacts request = filter (\<lambda>contact. matchesSearchCriteria contact request) contacts"

definition search_body :: "QpContactsSearchRequest body \<Rightarrow> QpContactsSearchRequest option" where
  "search_body body =
     (case body of EmptyBody \<Rightarrow> Some no_search | JsonNull \<Rightarrow> Some no_search | Body request \<Rightarrow> Some request | _ \<Rightarrow> None)"

definition ContactSearchController ::
    "service_env \<Rightarrow> lookup_env \<Rightarrow> QPWhatsappService \<Rightarrow> http_request \<Rightarrow> QpContactsSearchRequest body \<Rightarrow> QpContactsResponse reply" where
  "ContactSearchController env lk service r body =
     (case GetServer env service r of
        Inl err \<Rightarrow> denied (ContactApi (NoServer err)) new_contacts_response
      | Inr server \<Rightarrow>
          (case search_body body of
             None \<Rightarrow> denied (ContactApi BadBody) new_contacts_response
           | Some searchRequest \<Rightarrow>
               if length (cs_Phone searchRequest) > 0 \<and> \<not> isValidPhoneSearch (cs_Phone searchRequest)
               then denied (ContactApi (Invalid
                      ''invalid phone format: only numbers, '+', spaces, hyphens and parentheses are allowed'')) new_contacts_response
               else (case Server_GetContacts lk server of
                       None \<Rightarrow> Panics
                     | Some (Inl err) \<Rightarrow> denied (ContactLookup err) new_contacts_response
                     | Some (Inr contacts) \<Rightarrow>
                         let filtered = filterContacts contacts searchRequest
                         in reply (RespondSuccess (new_contacts_response\<lparr>cr_Total := length filtered,
                              cr_Contacts := sort_contacts filtered\<rparr>)))))"

section \<open>LIDs and phones\<close>

definition GetPhoneController ::
    "service_env \<Rightarrow> lookup_env \<Rightarrow> QPWhatsappService \<Rightarrow> chat_state \<Rightarrow> http_request \<Rightarrow> chat_state \<times> LIDResponse reply" where
  "GetPhoneController env lk service c r =
     (case ready_of env service r new_lid_response of
        Inl answer \<Rightarrow> (c, answer)
      | Inr server \<Rightarrow>
          let lid = GetRequestParameter r ''lid''
          in if lid = [] then (c, denied (ContactApi (Invalid ''lid parameter is required'')) new_lid_response)
             else if \<not> HasSuffix lid ''@lid'' then (c, denied (ContactApi (Invalid ''lid must have @lid suffix'')) new_lid_response)
             else (case server_phone_of_lid lk server c lid of
                     (c, Inl err) \<Rightarrow> (c, denied (ContactLookup err) new_lid_response)
                   | (c, Inr processedPhone) \<Rightarrow>
                       (c, done_with ''LID found successfully'' (new_lid_response\<lparr>lr_Phone := processedPhone, lr_LID := lid\<rparr>))))"

definition ready_or_error :: "service_env \<Rightarrow> QPWhatsappService \<Rightarrow> http_request \<Rightarrow> contact_api_error + QpWhatsappServer" where
  "ready_or_error env service r =
     (case GetServer env service r of
        Inl err \<Rightarrow> Inl (ContactApi (NoServer err))
      | Inr server \<Rightarrow>
          let status = GetState server
          in if status \<noteq> Ready then Inl (ContactApi (NotReady (Wid server) status)) else Inr server)"

definition GetLIdFromPhone ::
    "service_env \<Rightarrow> lookup_env \<Rightarrow> QPWhatsappService \<Rightarrow> chat_state \<Rightarrow> http_request \<Rightarrow> string \<Rightarrow>
     chat_state \<times> (contact_api_error + string)" where
  "GetLIdFromPhone env lk service c r phone =
     (case ready_or_error env service r of
        Inl err \<Rightarrow> (c, Inl err)
      | Inr server \<Rightarrow> (case server_lid_of_phone lk server c phone of (c, x) \<Rightarrow> (c, map_sum ContactLid id x)))"

definition GetPhoneFromLId ::
    "service_env \<Rightarrow> lookup_env \<Rightarrow> QPWhatsappService \<Rightarrow> chat_state \<Rightarrow> http_request \<Rightarrow> string \<Rightarrow>
     chat_state \<times> (contact_api_error + string)" where
  "GetPhoneFromLId env lk service c r lid =
     (case ready_or_error env service r of
        Inl err \<Rightarrow> (c, Inl err)
      | Inr server \<Rightarrow> (case server_phone_of_lid lk server c lid of (c, x) \<Rightarrow> (c, map_sum ContactLid id x)))"

definition GetUserIdentifierController ::
    "service_env \<Rightarrow> lookup_env \<Rightarrow> QPWhatsappService \<Rightarrow> chat_state \<Rightarrow> http_request \<Rightarrow> chat_state \<times> LIDResponse reply" where
  "GetUserIdentifierController env lk service c r =
     (let reqPhone = GetRequestParameter r ''phone''; reqLId = GetRequestParameter r ''lid''
      in if length reqPhone = 0 \<and> length reqLId = 0
         then (c, denied (ContactApi (Invalid ''get user identifier controller, missing phone or lid'')) new_lid_response)
         else if length reqPhone > 0 then
           (case GetPhoneIfValid reqPhone of
              Inl err \<Rightarrow> (c, denied (ContactPhone err) new_lid_response)
            | Inr phone \<Rightarrow>
                let response = new_lid_response\<lparr>lr_Phone := phone\<rparr>
                in (case GetLIdFromPhone env lk service c r (TrimPlus phone) of
                      (c, Inl err) \<Rightarrow> (c, denied err response)
                    | (c, Inr lid) \<Rightarrow> (c, done_with ''found successfully'' (response\<lparr>lr_LID := lid\<rparr>))))
         else (case GetPhoneFromLId env lk service c r reqLId of
                 (c, Inl err) \<Rightarrow> (c, denied err new_lid_response)
               | (c, Inr phone) \<Rightarrow>
                   (c, done_with ''found successfully'' (new_lid_response\<lparr>lr_LID := reqLId,
                      lr_Phone := (if HasPrefix phone ''+'' then phone else ''+'' @ phone)\<rparr>))))"

section \<open>Users\<close>

fun format_jids :: "string list \<Rightarrow> contact_api_error + string list" where
  "format_jids [] = Inr []"
| "format_jids (jid # rest) =
     (case FormatEndpoint jid of
        Inl err \<Rightarrow> Inl (ContactRecipient err)
      | Inr formattedJID \<Rightarrow>
          if formattedJID = [] then Inl (ContactApi (Invalid (''JID cannot be empty after formatting: '' @ jid)))
          else map_sum id ((#) formattedJID) (format_jids rest))"

definition UserInfoController ::
    "service_env \<Rightarrow> lookup_env \<Rightarrow> QPWhatsappService \<Rightarrow> http_request \<Rightarrow> string list body \<Rightarrow> UserInfoResponse reply" where
  "UserInfoController env lk service r body =
     (case ready_of env service r new_user_info_response of
        Inl answer \<Rightarrow> answer
      | Inr server \<Rightarrow>
          (case body of
             EmptyBody \<Rightarrow> denied (ContactApi (Invalid ''empty body'')) new_user_info_response
           | Unreadable \<Rightarrow> denied (ContactApi BadBody) new_user_info_response
           | BadJson _ \<Rightarrow> denied (ContactApi BadBody) new_user_info_response
           | _ \<Rightarrow>
               let jids = (case body_request body of Some jids \<Rightarrow> jids | None \<Rightarrow> [])
               in if length jids = 0
                  then denied (ContactApi (Invalid ''jids array is required and cannot be empty'')) new_user_info_response
                  else (case format_jids jids of
                          Inl err \<Rightarrow> denied err new_user_info_response
                        | Inr jids \<Rightarrow>
                            (case Qp_GetUserInfo lk server jids of
                               Inl err \<Rightarrow> denied (ContactLookup err) new_user_info_response
                             | Inr userInfos \<Rightarrow>
                                 done_with ''User info retrieved successfully''
                                   (new_user_info_response\<lparr>us_Total := length userInfos, us_UserInfos := userInfos\<rparr>)))))"

text \<open>The picture itself, when the path of the request asks for it, is written without an answer around it.\<close>

datatype picture_reply = PictureData string string | PictureAnswer "QpPictureResponse reply"

definition picture_ids :: "http_request \<Rightarrow> (string \<times> string) body \<Rightarrow> (string \<times> string) option" where
  "picture_ids r body =
     (if rq_method r = ''POST'' then
        (case body of
           Body (pid, chat) \<Rightarrow>
             Some (if length chat > 0 then chat else GetChatId r, if length pid > 0 then pid else GetPictureId r)
         | JsonNull \<Rightarrow> Some (GetChatId r, GetPictureId r)
         | _ \<Rightarrow> None)
      else Some (GetChatId r, GetPictureId r))"

definition PictureController ::
    "service_env \<Rightarrow> lookup_env \<Rightarrow> QPWhatsappService \<Rightarrow> string \<Rightarrow> http_request \<Rightarrow> (string \<times> string) body \<Rightarrow> picture_reply" where
  "PictureController env lk service path r body =
     (case ready_of env service r new_picture_response of
        Inl answer \<Rightarrow> PictureAnswer answer
      | Inr server \<Rightarrow>
          (case picture_ids r body of
             None \<Rightarrow> PictureAnswer (denied (ContactApi BadBody) new_picture_response)
           | Some (chatId, pictureId) \<Rightarrow>
               (case FormatEndpoint chatId of
                  Inl err \<Rightarrow> PictureAnswer (denied (ContactRecipient err) new_picture_response)
                | Inr chatId \<Rightarrow>
                    (case Qp_GetProfilePicture lk server chatId pictureId of
                       Inl err \<Rightarrow> PictureAnswer (denied (ContactLookup err) new_picture_response)
                     | Inr None \<Rightarrow>
                         PictureAnswer (reply (RespondInterfaceCode 304 (ParseSuccess ''not modified'' new_picture_response)))
                     | Inr (Some info) \<Rightarrow>
                         let response = new_picture_response\<lparr>pr_Info := Some info\<rparr>
                         in if Contains path ''picdata'' then
                              (case lk_fetch lk (pic_Url info) of
                                 Inl err \<Rightarrow> PictureAnswer (denied (FetchError err) response)
                               | Inr content \<Rightarrow> PictureData (''attachment; filename='' @ pic_Id info @ ''.jpg'') content)
                            else PictureAnswer (reply (RespondSuccess response))))))"

definition IsOnWhatsappController ::
    "service_env \<Rightarrow> lookup_env \<Rightarrow> QPWhatsappService \<Rightarrow> http_request \<Rightarrow> string list body \<Rightarrow> QpIsOnWhatsappResponse reply" where
  "IsOnWhatsappController env lk service r body =
     (case body of
        EmptyBody \<Rightarrow> denied (ContactApi (Invalid ''empty body'')) new_is_on_response
      | Body request \<Rightarrow>
          (case GetServer env service r of
             Inl err \<Rightarrow> denied (ContactApi (NoServer err)) new_is_on_response
           | Inr server \<Rightarrow>
               (case Qp_IsOnWhatsApp lk server request of
                  Inl err \<Rightarrow> denied (ContactLookup err) new_is_on_response
                | Inr registered \<Rightarrow>
                    reply (RespondSuccess (new_is_on_response\<lparr>io_Total := length registered, io_Registered := registered\<rparr>))))
      | _ \<Rightarrow> denied (ContactApi BadBody) new_is_on_response)"

section \<open>Invitations and the first available server\<close>

definition InviteController ::
    "service_env \<Rightarrow> group_env \<Rightarrow> QPWhatsappService \<Rightarrow> http_request \<Rightarrow> group_call list \<times> QpInviteResponse reply" where
  "InviteController env genv service r =
     (case GetServer env service r of
        Inl err \<Rightarrow> ([], denied (ContactApi (NoServer err)) new_invite_response)
      | Inr server \<Rightarrow>
          let chatId = GetChatId r
          in if length chatId = 0 then ([], denied (ContactApi (Invalid ''chat id missing'')) new_invite_response)
             else if \<not> HasSuffix chatId ''@g.us''
             then ([], denied (ContactApi (Invalid ''chatId must be a valid and formatted (@g.us) group id'')) new_invite_response)
             else (case connection server of
                     None \<Rightarrow> ([], denied (ContactGroup NoGroupConnection) new_invite_response)
                   | Some conn_state \<Rightarrow>
                       (case GetInvite genv conn_state chatId of
                          (calls, Inl err) \<Rightarrow> (calls, denied (ContactGroup err) new_invite_response)
                        | (calls, Inr url) \<Rightarrow> (calls, reply (RespondSuccess (new_invite_response\<lparr>ir_Url := url\<rparr>))))))"

text \<open>Only the master key reaches it. Another key, or no server that is ready, is answered with code 423.\<close>

definition Spam ::
    "service_env \<Rightarrow> api_send_env \<Rightarrow> string \<Rightarrow> QPWhatsappService \<Rightarrow> http_request \<Rightarrow> QpSendAnyRequest body \<Rightarrow> chat_state \<Rightarrow>
     (QpSendResponse reply, sent) sum" where
  "Spam env senv master service r body c =
     (case GetServerFromMaster env master service r of
        Inl err \<Rightarrow> Inl (reply (RespondInterfaceCode 423 (ParseError (SendApi (KeyFailed err)) new_send_response)))
      | Inr server \<Rightarrow> Inr (SendAnyWithServer senv r body server c))"

section \<open>Properties\<close>

text \<open>What a search asks for, over the contact and not over the steps of the filter.\<close>

definition wanted_contact :: "QpContactsSearchRequest \<Rightarrow> WhatsappChat \<Rightarrow> bool" where
  "wanted_contact request contact \<longleftrightarrow>
     (cs_HasTitle request = Some True \<longrightarrow> TrimSpace (Title contact) \<noteq> []) \<and>
     (cs_HasTitle request = Some False \<longrightarrow> TrimSpace (Title contact) = []) \<and>
     (cs_HasLid request = Some True \<longrightarrow> TrimSpace (LId contact) \<noteq> [] \<or> HasSuffix (Chat_Id contact) ''@lid'') \<and>
     (cs_HasLid request = Some False \<longrightarrow> TrimSpace (LId contact) = [] \<and> \<not> HasSuffix (Chat_Id contact) ''@lid'') \<and>
     (cs_Phone request \<noteq> [] \<longrightarrow>
        (if hd (cs_Phone request) = CHR ''+'' then (\<exists>rest. Phone contact = cs_Phone request @ rest)
         else Contains (search_normalizePhone (Phone contact)) (search_normalizePhone (cs_Phone request)))) \<and>
     (cs_Query request \<noteq> [] \<longrightarrow>
        (let query = ToLower (TrimSpace (cs_Query request))
         in Contains (ToLower (Title contact)) query \<or> Contains (ToLower (Chat_Id contact)) query \<or>
            Contains (search_normalizePhone (Phone contact)) (search_normalizePhone query)))"

lemma matches_wanted: "matchesSearchCriteria contact request = wanted_contact request contact"
proof -
  have p: "HasPrefix p ''+'' \<longleftrightarrow> hd p = CHR ''+''" if "p \<noteq> []" for p
    using that by (cases p) (simp_all add: HasPrefix_def)
  have t: "(case v of Some b \<Rightarrow> b = P | None \<Rightarrow> True) \<longleftrightarrow> (v = Some True \<longrightarrow> P) \<and> (v = Some False \<longrightarrow> \<not> P)" for v P
    by (cases v) auto
  have q: "matches_query contact qu \<longleftrightarrow> (let query = ToLower (TrimSpace qu) in
      Contains (ToLower (Title contact)) query \<or> Contains (ToLower (Chat_Id contact)) query \<or>
      Contains (search_normalizePhone (Phone contact)) (search_normalizePhone query))" for qu
    by (auto simp: matches_query_def Let_def)
  have f: "matches_phone contact ph \<longleftrightarrow> (if hd ph = CHR ''+'' then \<exists>rest. Phone contact = ph @ rest
      else Contains (search_normalizePhone (Phone contact)) (search_normalizePhone ph))" if "ph \<noteq> []" for ph
    using p [OF that] by (simp add: matches_phone_def HasPrefix_iff)
  show ?thesis
    unfolding matchesSearchCriteria_def wanted_contact_def t q
    by (cases "cs_Phone request = []"; cases "cs_Query request = []") (simp_all add: f)
qed

text \<open>
  C34. A search of the contacts answers exactly the contacts that satisfy every criterion given, each as often as
  the server has it, ordered by id, with their number; without criteria that is all contacts.
\<close>
theorem contact_search_exact:
  assumes "GetServer env service r = Inr server" "search_body body = Some request"
    and "cs_Phone request = [] \<or> isValidPhoneSearch (cs_Phone request)"
    and "Server_GetContacts lk server = Some (Inr contacts)"
  shows "\<exists>response. ContactSearchController env lk service r body = Reply 200 response \<and> Success response \<and>
     mset (cr_Contacts response) = filter_mset (wanted_contact request) (mset contacts) \<and>
     sorted (map Chat_Id (cr_Contacts response)) \<and> cr_Total response = length (cr_Contacts response)"
proof -
  have "ContactSearchController env lk service r body =
      reply (RespondSuccess (new_contacts_response\<lparr>cr_Total := length (filterContacts contacts request),
        cr_Contacts := sort_contacts (filterContacts contacts request)\<rparr>))"
    using assms by (auto simp: ContactSearchController_def Let_def)
  then show ?thesis
    by (simp add: reply_def RespondSuccess_def new_contacts_response_def RespondInterfaceCode_def ParseSuccess_def
        sort_contacts_def filterContacts_def matches_wanted)
qed

text \<open>
  A query of blanks and the punctuation of phones alone is no restriction: without a digit or a letter every
  contact matches it.
\<close>
theorem blank_query_matches_all:
  assumes "list_all (\<lambda>c. c \<in> {CHR ''+'', CHR '' '', CHR ''-'', CHR ''('', CHR '')''}) (TrimSpace qu)"
  shows "matches_query contact qu"
proof -
  have "set (TrimSpace qu) \<subseteq> {CHR ''+'', CHR '' '', CHR ''-'', CHR ''('', CHR '')''}"
    using assms by (auto simp: list_all_iff)
  then have "set (ToLower (TrimSpace qu)) \<subseteq> {CHR ''+'', CHR '' '', CHR ''-'', CHR ''('', CHR '')''}"
    by (auto simp: ToLower_def lower_char_def less_eq_char_def)
  then have "search_normalizePhone (ToLower (TrimSpace qu)) = []"
    by (auto simp: search_normalizePhone_def RemoveByte_def ToLower_def filter_empty_conv)
  moreover have "Contains s []" for s by (cases s) (simp_all add: HasPrefix_def)
  ultimately show ?thesis by (simp add: matches_query_def)
qed

theorem blank_query_matches_all_witness: "matches_query empty_chat ''()''"
  by (rule blank_query_matches_all) code_simp

text \<open>
  A search by the start of a phone compares it as it was written: blanks, hyphens and parentheses are accepted in
  it, and then no phone in its usual form matches.
\<close>
theorem punctuated_prefix_matches_none:
  assumes "HasPrefix p ''+''" "c \<in> set p" "\<not> is_digit c" "c \<noteq> CHR ''+''"
    and "list_all (\<lambda>x. is_digit x \<or> x = CHR ''+'') (Phone contact)"
  shows "\<not> matches_phone contact p"
proof
  assume "matches_phone contact p"
  then have "set p \<subseteq> set (Phone contact)" using assms(1) by (auto simp: matches_phone_def HasPrefix_iff)
  then show False using assms(2-5) by (auto simp: list_all_iff)
qed

theorem punctuated_prefix_matches_none_witness:
  "isValidPhoneSearch ''+55 21'' \<and> \<not> matches_phone (empty_chat\<lparr>Phone := ''+5521999998888''\<rparr>) ''+55 21''"
  using punctuated_prefix_matches_none [of "''+55 21''" "CHR '' ''" "empty_chat\<lparr>Phone := ''+5521999998888''\<rparr>"]
  by (simp add: isValidPhoneSearch_def HasPrefix_def is_digit_def)

text \<open>
  A stopped server still answers the contacts its store holds, one for each phone, while everything that needs
  the WhatsApp client, registration, pictures, user information and LIDs, is an error and leaves the maps as they are.
\<close>
theorem contacts_survive_stop:
  assumes "connection server = None" "lk_store env (Wid server) = Inr (Some (Inr contacts))"
  shows "Qp_GetContacts env server = Inr (GetContactsFromDevice (lk_contact env) (Some contacts)) \<and>
     Qp_IsOnWhatsApp env server phones = Inl NoConnection \<and> Qp_GetProfilePicture env server wid pid = Inl NoConnection \<and>
     Qp_GetUserInfo env server jids = Inl NoConnection \<and>
     server_phone_of_lid env server c lid = (c, Inl NoConnection) \<and> server_lid_of_phone env server c phone = (c, Inl NoConnection)"
  using assms
  by (simp add: Qp_GetContacts_def GetContactManagerForWid_def NewStoreContactManagerFromWid_def Qp_IsOnWhatsApp_def
      Qp_GetProfilePicture_def Qp_GetUserInfo_def with_manager_def server_phone_of_lid_def server_lid_of_phone_def)

text \<open>
  The information on users: everything asked for must be an id or a valid phone, and of the users the client
  answers one is reported exactly when something is known of it beyond its number, in the client's order; a user
  with an LID always is.
\<close>
theorem users_reported:
  assumes "GetUserInfo env jids = Inr result"
  shows "\<exists>ids users. parse_users (lk_contact env) jids = Inr ids \<and> length ids = length jids \<and> lk_user_info env ids = Inr users \<and>
     map ur_JID result = map (ce_string (lk_contact env) \<circ> fst)
       (filter (\<lambda>(jid, info). case user_links (lk_contact env) jid of (lid, _, contact) \<Rightarrow> user_known lid contact info) users) \<and>
     (\<forall>(jid, info)\<in>set users. fst (user_links (lk_contact env) jid) \<noteq> [] \<longrightarrow> ce_string (lk_contact env) jid \<in> ur_JID ` set result)"
proof -
  let ?ce = "lk_contact env"
  let ?known = "\<lambda>(jid, info). case user_links ?ce jid of (lid, _, contact) \<Rightarrow> user_known lid contact info"
  obtain ids users where u: "parse_users ?ce jids = Inr ids" "lk_user_info env ids = Inr users"
      "result = List.map_filter (user_response ?ce) users"
    using assms by (auto simp: GetUserInfo_def split: if_splits sum.splits)
  have len: "parse_users ?ce js = Inr ids \<Longrightarrow> length ids = length js" for js ids
    by (induction js arbitrary: ids) (auto split: if_splits sum.splits option.splits simp: map_sum_def)
  have res: "map ur_JID (List.map_filter (user_response ?ce) us) = map (ce_string ?ce \<circ> fst) (filter ?known us)" for us
    by (induction us) (auto simp: map_filter_simps user_response_def split: prod.splits)
  have "ce_string ?ce jid \<in> ur_JID ` set result"
    if m: "(jid, info) \<in> set users" and lid: "fst (user_links ?ce jid) \<noteq> []" for jid info
  proof -
    have "?known (jid, info)" using lid by (auto simp: user_known_def split: prod.splits)
    then have "(jid, info) \<in> set (filter ?known users)" using m by simp
    then have "ce_string ?ce jid \<in> set (map (ce_string ?ce \<circ> fst) (filter ?known users))" by force
    then have "ce_string ?ce jid \<in> set (map ur_JID result)" unfolding u(3) res .
    then show ?thesis by simp
  qed
  then show ?thesis using u len [OF u(1)] res by blast
qed

definition sample_lookup :: lookup_env where
  "sample_lookup = \<lparr>lk_contact = sample_contact_env, lk_client_contacts = Some (Inr sample_contacts),
     lk_store = (\<lambda>_. Inr (Some (Inr sample_contacts))), lk_is_on = (\<lambda>_. Inr []), lk_picture = (\<lambda>_ _. Inr None),
     lk_user_info = (\<lambda>ids. Inr (map (\<lambda>i. (i, \<lparr>ui_VerifiedName = None, ui_Status = [], ui_PictureID = [], ui_Devices = []\<rparr>)) ids)),
     lk_fetch = (\<lambda>_. Inl ''down'')\<rparr>"

definition stopped_service :: QPWhatsappService where
  "stopped_service = empty_service\<lparr>Servers := [(''Ab'', NewQpWhatsappServer 7 (new_info ''Ab'' ''me'' ''5521:3@s.whatsapp.net''))]\<rparr>"

theorem contact_search_exact_witness:
  "\<exists>response. ContactSearchController sample_service_env sample_lookup stopped_service (sample_http [(''token'', ''ab'')])
     (Body (no_search\<lparr>cs_Query := ''rob''\<rparr>)) = Reply 200 response \<and> cr_Total response = length (cr_Contacts response)"
proof -
  let ?server = "NewQpWhatsappServer 7 (new_info ''Ab'' ''me'' ''5521:3@s.whatsapp.net'')"
  have s: "GetServer sample_service_env stopped_service (sample_http [(''token'', ''ab'')]) = Inr ?server" by code_simp
  have b: "search_body (Body (no_search\<lparr>cs_Query := ''rob''\<rparr>)) = Some (no_search\<lparr>cs_Query := ''rob''\<rparr>)"
    "cs_Phone (no_search\<lparr>cs_Query := ''rob''\<rparr>) = [] \<or> isValidPhoneSearch (cs_Phone (no_search\<lparr>cs_Query := ''rob''\<rparr>))"
    by (simp_all add: search_body_def no_search_def)
  have "case Server_GetContacts sample_lookup ?server of Some (Inr _) \<Rightarrow> True | _ \<Rightarrow> False" by code_simp
  then obtain contacts where "Server_GetContacts sample_lookup ?server = Some (Inr contacts)"
    by (auto split: option.splits sum.splits)
  from contact_search_exact [OF s b this] show ?thesis by blast
qed

theorem contacts_survive_stop_witness:
  "Qp_GetContacts sample_lookup (NewQpWhatsappServer 7 (new_info ''Ab'' ''me'' [])) =
     Inr (GetContactsFromDevice sample_contact_env (Some sample_contacts))"
proof -
  let ?server = "NewQpWhatsappServer 7 (new_info ''Ab'' ''me'' [])"
  have "connection ?server = None" by code_simp
  moreover have "lk_store sample_lookup (Wid ?server) = Inr (Some (Inr sample_contacts))" "lk_contact sample_lookup = sample_contact_env"
    by (simp_all add: sample_lookup_def)
  ultimately show ?thesis using contacts_survive_stop [of ?server sample_lookup sample_contacts] by simp
qed

theorem users_reported_witness:
  "''5521999998888@s.whatsapp.net'' \<in> ur_JID ` set (projr (GetUserInfo sample_lookup [''5521999998888@s.whatsapp.net'']))"
proof -
  let ?jids = "[''5521999998888@s.whatsapp.net'']"
  have "\<not> isl (GetUserInfo sample_lookup ?jids)" by code_simp
  then have r: "GetUserInfo sample_lookup ?jids = Inr (projr (GetUserInfo sample_lookup ?jids))" by simp
  let ?jid = "\<lparr>jid_User = ''5521999998888'', jid_Device = 0, jid_Server = WHATSAPP_SERVERDOMAIN_USER\<rparr>"
  have "parse_users (lk_contact sample_lookup) ?jids = Inr [?jid]" by code_simp
  moreover have "fst (user_links (lk_contact sample_lookup) ?jid) \<noteq> []"
    "ce_string (lk_contact sample_lookup) ?jid = ''5521999998888@s.whatsapp.net''" by code_simp+
  ultimately show ?thesis using users_reported [OF r] by (auto simp: sample_lookup_def)
qed

end
