(* ===== verification/ApiChats.thy ===== *)
theory ApiChats
  imports ServerMessages Cache
begin

text \<open>
  Chats and pairing through the API: marking read and unread, archiving, the typing indicators with the requests
  that run in the background (\<open>src/api/chat_presence_requests_controller.go\<close>), and the controllers of the QR
  code and of the pairing code. The indicators are a state of their own: a cache of the running requests, their
  goroutines, and the contexts that have been cancelled. A goroutine waits, and ends silently or with a paused
  indicator; which of them moves next is open.
\<close>

section \<open>Marking and archiving\<close>

datatype chat_api_error =
  ChatApi api_error | ChatRecipient endpoint_error | ChatFailed string sending_error | PresenceFailed server_error
| PairingFailed string

definition chat_response :: "chat_api_error QpResponse" where
  "chat_response = \<lparr>Success = False, QpResponse.Status = NoStatus\<rparr>"

definition chat_denied :: "chat_api_error \<Rightarrow> chat_api_error QpResponse reply" where
  "chat_denied err = reply (RespondInterface (ParseError err chat_response))"

definition chat_done :: "string \<Rightarrow> chat_api_error QpResponse reply" where
  "chat_done message = reply (RespondInterface (ParseSuccess message (chat_response\<lparr>Success := True\<rparr>)))"

text \<open>
  What the four controllers share: the server, the request, its chat and the state of the server. The request is
  a pointer: the JSON null leaves it nil, and it is dereferenced.
\<close>

definition chat_request ::
    "service_env \<Rightarrow> QPWhatsappService \<Rightarrow> http_request \<Rightarrow> ('r \<Rightarrow> string) \<Rightarrow> 'r body \<Rightarrow>
     chat_api_error QpResponse reply + QpWhatsappServer \<times> 'r \<times> string" where
  "chat_request env service r chatid body =
     (case GetServer env service r of
        Inl err \<Rightarrow> Inl (chat_denied (ChatApi (NoServer err)))
      | Inr server \<Rightarrow>
          (case body of
             JsonNull \<Rightarrow> Inl Panics
           | Body request \<Rightarrow>
               if chatid request = [] then Inl (chat_denied (ChatApi (Invalid ''chatid is required'')))
               else (case FormatEndpoint (chatid request) of
                       Inl err \<Rightarrow> Inl (chat_denied (ChatRecipient err))
                     | Inr formattedChatId \<Rightarrow>
                         let status = GetState server
                         in if status \<noteq> Ready
                            then Inl (reply (RespondInterfaceCode 503 (ParseError (ChatApi (NotReady (Wid server) status)) chat_response)))
                            else Inr (server, request, formattedChatId))
           | _ \<Rightarrow> Inl (chat_denied (ChatApi BadBody))))"

text \<open>The connection is taken out of the interface by an assertion, which panics when there is none.\<close>

definition on_chat ::
    "(WhatsmeowConnection \<Rightarrow> string \<Rightarrow> client_call list \<times> sending_error option) \<Rightarrow> string \<Rightarrow> string \<Rightarrow>
     QpWhatsappServer \<Rightarrow> string \<Rightarrow> client_call list \<times> chat_api_error QpResponse reply" where
  "on_chat operation failure message server chatId =
     (case connection server of
        None \<Rightarrow> ([], Panics)
      | Some conn_state \<Rightarrow>
          (case operation conn_state chatId of
             (calls, Some err) \<Rightarrow> (calls, chat_denied (ChatFailed failure err))
           | (calls, None) \<Rightarrow> (calls, chat_done message)))"

type_synonym ChatReadRequest = string

definition MarkChatAsReadController ::
    "service_env \<Rightarrow> sending_env \<Rightarrow> QPWhatsappService \<Rightarrow> http_request \<Rightarrow> ChatReadRequest body \<Rightarrow>
     client_call list \<times> chat_api_error QpResponse reply" where
  "MarkChatAsReadController env send service r body =
     (case chat_request env service r (\<lambda>c. c) body of
        Inl answer \<Rightarrow> ([], answer)
      | Inr (server, _, chatId) \<Rightarrow>
          on_chat (MarkChatAsRead send) ''failed to mark chat as read'' (''chat '' @ chatId @ '' marked as read'') server chatId)"

definition MarkChatAsUnreadController ::
    "service_env \<Rightarrow> sending_env \<Rightarrow> QPWhatsappService \<Rightarrow> http_request \<Rightarrow> ChatReadRequest body \<Rightarrow>
     client_call list \<times> chat_api_error QpResponse reply" where
  "MarkChatAsUnreadController env send service r body =
     (case chat_request env service r (\<lambda>c. c) body of
        Inl answer \<Rightarrow> ([], answer)
      | Inr (server, _, chatId) \<Rightarrow>
          on_chat (MarkChatAsUnread send) ''failed to mark chat as unread'' (''chat '' @ chatId @ '' marked as unread'') server chatId)"

record ChatArchiveRequest =
  ca_ChatId :: string
  ca_Archive :: bool

definition ArchiveChatController ::
    "service_env \<Rightarrow> sending_env \<Rightarrow> QPWhatsappService \<Rightarrow> http_request \<Rightarrow> ChatArchiveRequest body \<Rightarrow>
     client_call list \<times> chat_api_error QpResponse reply" where
  "ArchiveChatController env send service r body =
     (case chat_request env service r ca_ChatId body of
        Inl answer \<Rightarrow> ([], answer)
      | Inr (server, request, chatId) \<Rightarrow>
          let action = (if ca_Archive request then ''archive'' else ''unarchive'')
          in on_chat (ArchiveChat (ca_Archive request) send) (''failed to '' @ action @ '' chat'')
               (''chat '' @ chatId @ '' '' @ action @ ''d successfully'') server chatId)"

section \<open>Typing indicators\<close>

record ChatPresenceRequest =
  cp_ChatId :: string
  cp_Type :: WhatsappChatPresenceType
  cp_Duration :: "64 word"

text \<open>
  A request running in the background, named by its context: its server's token, and the end of its time once its
  goroutine has begun. \<open>ps_requests\<close> holds the requests in the order of their contexts; a cancelled context
  comes with the chat of the request that cancelled it, an ended one with what it sent, if it was not silent.
\<close>

record presence_task =
  pt_ctx :: nat
  pt_request :: ChatPresenceRequest
  pt_token :: string
  pt_end :: "time option"

record presence_state =
  ps_cache :: "nat Cache"
  ps_requests :: "ChatPresenceRequest list"
  ps_cancelled :: "(nat \<times> string) list"
  ps_tasks :: "presence_task list"
  ps_ended :: "(nat \<times> client_call list option) list"

definition no_presence :: presence_state where
  "no_presence = \<lparr>ps_cache = empty_cache, ps_requests = [], ps_cancelled = [], ps_tasks = [], ps_ended = []\<rparr>"

text \<open>Milliseconds as a signed number of nanoseconds of 64 bits.\<close>

definition presence_duration :: "64 word \<Rightarrow> int" where
  "presence_duration ms = sint (ms * 1000000)"

definition presence_Cancel :: "time \<Rightarrow> presence_state \<Rightarrow> string \<Rightarrow> presence_state \<times> bool" where
  "presence_Cancel now source chatid =
     (case GetAny now (ps_cache source) (ToUpper chatid) of
        (cache, None) \<Rightarrow> (source\<lparr>ps_cache := cache\<rparr>, False)
      | (cache, Some ctx) \<Rightarrow> (source\<lparr>ps_cache := cache, ps_cancelled := (ctx, chatid) # ps_cancelled source\<rparr>, True))"

text \<open>The cache validates messages only: for a presence it accepts every replacement.\<close>

definition presence_Append :: "time \<Rightarrow> presence_state \<Rightarrow> ChatPresenceRequest \<Rightarrow> string \<Rightarrow> presence_state" where
  "presence_Append now source request token =
     (let ctx = length (ps_requests source);
          item = \<lparr>Key = ToUpper (cp_ChatId request), Value = ctx, Expiration = now + presence_duration (cp_Duration request)\<rparr>
      in case Qp_SetCacheItem (\<lambda>_ _ _. True) (ps_cache source) item ''chatpresence'' of
           (cache, ok) \<Rightarrow>
             source\<lparr>ps_cache := cache, ps_requests := ps_requests source @ [request],
               ps_tasks := (if ok then ps_tasks source @ [\<lparr>pt_ctx = ctx, pt_request = request, pt_token = token, pt_end = None\<rparr>]
                            else ps_tasks source)\<rparr>)"

definition server_SendChatPresence ::
    "sending_env \<Rightarrow> QpWhatsappServer \<Rightarrow> string \<Rightarrow> WhatsappChatPresenceType \<Rightarrow> client_call list \<times> chat_api_error option" where
  "server_SendChatPresence env server chatId presenceType =
     (case connection server of
        None \<Rightarrow> ([], Some (ChatApi (ServerFailed (ConnectionError (OtherError ''invalid connection'')))))
      | Some conn_state \<Rightarrow>
          (case Conn_SendChatPresence env conn_state chatId presenceType of
             (calls, err) \<Rightarrow> (calls, map_option (ChatFailed ''failed to send presence update'') err)))"

text \<open>
  An earlier request for the chat is cancelled before the indicator is sent, and stays so when sending fails. The
  three readings of the clock are those of the cancellation and of the entry.
\<close>

definition ChatPresenceController ::
    "service_env \<Rightarrow> sending_env \<Rightarrow> time \<Rightarrow> time \<Rightarrow> QPWhatsappService \<Rightarrow> presence_state \<Rightarrow> http_request \<Rightarrow>
     ChatPresenceRequest body \<Rightarrow> presence_state \<times> client_call list \<times> chat_api_error QpResponse reply" where
  "ChatPresenceController env send now later service ps r body =
     (case chat_request env service r cp_ChatId body of
        Inl answer \<Rightarrow> (ps, [], answer)
      | Inr (server, request, chatId) \<Rightarrow>
          let request = request\<lparr>cp_ChatId := chatId\<rparr>
          in (case presence_Cancel now ps chatId of
                (ps, found) \<Rightarrow>
                  (case server_SendChatPresence send server chatId (cp_Type request) of
                     (calls, Some err) \<Rightarrow> (ps, calls, chat_denied err)
                   | (calls, None) \<Rightarrow>
                       (if cp_Type request \<noteq> PresencePaused then presence_Append later ps request (Token server) else ps,
                        calls,
                        chat_done (''presence indicator '' @ Presence_String (cp_Type request) @ '', previous: '' @
                          (if found then ''true'' else ''false''))))))"

definition end_task :: "presence_state \<Rightarrow> nat \<Rightarrow> client_call list option \<Rightarrow> presence_state" where
  "end_task ps ctx calls =
     ps\<lparr>ps_tasks := filter (\<lambda>t. pt_ctx t \<noteq> ctx) (ps_tasks ps), ps_ended := (ctx, calls) # ps_ended ps\<rparr>"

text \<open>
  \<open>Exec\<close> begins by computing its end. In its loop it sees the cancellation, if it has entered it; past its end it
  sends the paused indicator, even if it was cancelled while it slept. \<open>server\<close> is its server as it is then.
\<close>

inductive exec_step :: "sending_env \<Rightarrow> time \<Rightarrow> QpWhatsappServer \<Rightarrow> presence_state \<Rightarrow> presence_state \<Rightarrow> bool" where
  begins: "task \<in> set (ps_tasks ps) \<Longrightarrow> pt_end task = None \<Longrightarrow>
    exec_step env now server ps (ps\<lparr>ps_tasks := map (\<lambda>t. if pt_ctx t = pt_ctx task
      then t\<lparr>pt_end := Some (now + presence_duration (cp_Duration (pt_request t)))\<rparr> else t) (ps_tasks ps)\<rparr>)"
| replaced: "task \<in> set (ps_tasks ps) \<Longrightarrow> pt_end task \<noteq> None \<Longrightarrow> 0 < presence_duration (cp_Duration (pt_request task)) \<Longrightarrow>
    pt_ctx task \<in> fst ` set (ps_cancelled ps) \<Longrightarrow> exec_step env now server ps (end_task ps (pt_ctx task) None)"
| expires: "task \<in> set (ps_tasks ps) \<Longrightarrow> pt_end task = Some e \<Longrightarrow> e \<le> now \<Longrightarrow> Token server = pt_token task \<Longrightarrow>
    exec_step env now server ps
      (end_task ps (pt_ctx task) (Some (fst (server_SendChatPresence env server (cp_ChatId (pt_request task)) PresencePaused))))"

text \<open>Requests and goroutines in any order.\<close>

inductive presence_reach :: "service_env \<Rightarrow> presence_state \<Rightarrow> bool" where
  start: "presence_reach env no_presence"
| request: "presence_reach env ps \<Longrightarrow> ChatPresenceController env send now later service ps r body = (ps', calls, answer) \<Longrightarrow>
    presence_reach env ps'"
| background: "presence_reach env ps \<Longrightarrow> exec_step send now server ps ps' \<Longrightarrow> presence_reach env ps'"

section \<open>Pairing\<close>

text \<open>\<open>strconv.ParseUint\<close> to 32 bits, with the error ignored: a number out of range becomes the largest.\<close>

definition ParseUint32_lenient :: "string \<Rightarrow> nat" where
  "ParseUint32_lenient s =
     (if s = [] \<or> \<not> list_all is_digit s then 0
      else if digits_value s \<ge> 2 ^ 32 then 2 ^ 32 - 1 else nat (digits_value s))"

datatype scan_reply = BadRequestText string | ScanAnswer "chat_api_error QpResponse reply" | QrPng string

text \<open>\<open>encode\<close> is the image of a code, which the empty code has none of. The days asked for reach no one.\<close>

definition ScannerController ::
    "service_env \<Rightarrow> pairing_env \<Rightarrow> (string \<Rightarrow> string + string) \<Rightarrow> wa_error + WhatsmeowConnection \<Rightarrow> QPWhatsappService \<Rightarrow>
     handlers \<Rightarrow> http_request \<Rightarrow> task list \<times> scan_reply" where
  "ScannerController env pairing encode created service hs r =
     (let token = GetToken r
      in if length token = 0 then ([], BadRequestText ''scanner controller, missing token'')
         else (case ValidateUsername service r of
                 Inl err \<Rightarrow> ([], ScanAnswer (chat_denied (ChatApi err)))
               | Inr username \<Rightarrow>
                   let historysyncdays = ParseUint32_lenient (GetRequestParameter r ''historysyncdays'')
                   in (case GetConnection env created service
                              \<lparr>pair_Token = token, pair_Wid = [], pair_Username = username, pair_conn = None\<rparr> of
                         (_, Inl err) \<Rightarrow> ([], ScanAnswer (chat_denied (PairingFailed ''scanner controller, cant get connection'')))
                       | (_, Inr con) \<Rightarrow>
                           (case Client con of
                              None \<Rightarrow> ([], ScanAnswer Panics)
                            | Some c \<Rightarrow>
                                (case GetWhatsAppQRCode pairing c hs of
                                   (tasks, result) \<Rightarrow>
                                     (case encode result of
                                        Inl err \<Rightarrow> (tasks, ScanAnswer (chat_denied (PairingFailed ''scanner controller, cant get qrcode'')))
                                      | Inr png \<Rightarrow> (tasks, QrPng png)))))))"

definition PairCodeController ::
    "service_env \<Rightarrow> pairing_env \<Rightarrow> wa_error + WhatsmeowConnection \<Rightarrow> QPWhatsappService \<Rightarrow> handlers \<Rightarrow> http_request \<Rightarrow>
     task list \<times> client_call list \<times> scan_reply" where
  "PairCodeController env pairing created service hs r =
     (let token = GetToken r
      in if length token = 0 then ([], [], BadRequestText ''pair code controller, missing token'')
         else (case ValidateUsername service r of
                 Inl err \<Rightarrow> ([], [], ScanAnswer (chat_denied (ChatApi err)))
               | Inr username \<Rightarrow>
                   (case GetConnection env created service
                           \<lparr>pair_Token = token, pair_Wid = [], pair_Username = username, pair_conn = None\<rparr> of
                      (_, Inl err) \<Rightarrow> ([], [], ScanAnswer (chat_denied (PairingFailed ''pair code controller, can't get connection'')))
                    | (_, Inr con) \<Rightarrow>
                        let phone = GetRequestParameter r ''phone''
                        in if length phone = 0
                           then ([], [], ScanAnswer (chat_denied (ChatApi (Invalid ''pair code controller, missing phone number''))))
                           else (case Client con of
                                   None \<Rightarrow> ([], [], ScanAnswer Panics)
                                 | Some c \<Rightarrow>
                                     (case PairPhone pairing c hs phone of
                                        (tasks, calls, code, Some err) \<Rightarrow>
                                          (tasks, calls, ScanAnswer (chat_denied (PairingFailed ''pair code controller, pair phone error'')))
                                      | (tasks, calls, code, None) \<Rightarrow>
                                          (tasks, calls, ScanAnswer (reply (RespondSuccess
                                             (chat_response\<lparr>Success := True, QpResponse.Status := StatusText code\<rparr>)))))))))"

section \<open>What becomes of an indicator\<close>

definition chat_key :: "presence_state \<Rightarrow> nat \<Rightarrow> string" where
  "chat_key ps ctx = ToUpper (cp_ChatId (ps_requests ps ! ctx))"

definition presence_ok :: "presence_state \<Rightarrow> bool" where
  "presence_ok ps \<longleftrightarrow>
     distinct (map pt_ctx (ps_tasks ps) @ map fst (ps_ended ps)) \<and>
     set (map pt_ctx (ps_tasks ps) @ map fst (ps_ended ps)) = {..<length (ps_requests ps)} \<and>
     (\<forall>t\<in>set (ps_tasks ps). ps_requests ps ! pt_ctx t = pt_request t) \<and>
     (\<forall>(key, item)\<in>set (cacheMap (ps_cache ps)). Value item < length (ps_requests ps) \<and> key = chat_key ps (Value item)) \<and>
     (\<forall>(ctx, chat)\<in>set (ps_cancelled ps). ctx < length (ps_requests ps) \<and> ToUpper chat = chat_key ps ctx) \<and>
     (\<forall>(ctx, sent)\<in>set (ps_ended ps). sent = None \<longrightarrow> ctx \<in> fst ` set (ps_cancelled ps))"

lemma presence_ok_start: "presence_ok no_presence"
  by (simp add: presence_ok_def no_presence_def empty_cache_def)

lemma GetAny_subset: "GetAny now c k = (c', r) \<Longrightarrow> set (cacheMap c') \<subseteq> set (cacheMap c)"
  by (auto simp: GetAny_def DeleteByKey_def AList.delete_eq split: option.splits if_splits)

lemma GetAny_value: "GetAny now c k = (c', Some v) \<Longrightarrow> \<exists>item. (k, item) \<in> set (cacheMap c) \<and> Value item = v"
  by (auto simp: GetAny_def split: option.splits if_splits dest: map_of_SomeD)

lemma presence_Cancel_ok:
  assumes "presence_ok ps" "presence_Cancel now ps chat = (ps', found)"
  shows "presence_ok ps'"
proof -
  obtain cache v where g: "GetAny now (ps_cache ps) (ToUpper chat) = (cache, v)" by force
  have sub: "set (cacheMap cache) \<subseteq> set (cacheMap (ps_cache ps))" by (rule GetAny_subset [OF g])
  show ?thesis
  proof (cases v)
    case None
    then have "ps' = ps\<lparr>ps_cache := cache\<rparr>" using assms(2) g by (simp add: presence_Cancel_def)
    then show ?thesis using assms(1) sub by (auto simp: presence_ok_def chat_key_def)
  next
    case (Some ctx)
    then have p: "ps' = ps\<lparr>ps_cache := cache, ps_cancelled := (ctx, chat) # ps_cancelled ps\<rparr>"
      using assms(2) g by (simp add: presence_Cancel_def)
    obtain item where "(ToUpper chat, item) \<in> set (cacheMap (ps_cache ps))" "Value item = ctx"
      using GetAny_value [OF g [unfolded Some]] by blast
    then have "ctx < length (ps_requests ps) \<and> ToUpper chat = chat_key ps ctx"
      using assms(1) by (auto simp: presence_ok_def)
    then show ?thesis using assms(1) sub unfolding p by (auto simp: presence_ok_def chat_key_def)
  qed
qed

lemma presence_Append_ok:
  assumes "presence_ok ps"
  shows "presence_ok (presence_Append now ps request token)"
proof -
  let ?n = "length (ps_requests ps)"
  let ?item = "\<lparr>Key = ToUpper (cp_ChatId request), Value = ?n, Expiration = now + presence_duration (cp_Duration request)\<rparr>"
  obtain cache ok where c: "Qp_SetCacheItem (\<lambda>_ _ _. True) (ps_cache ps) ?item ''chatpresence'' = (cache, ok)" by force
  have ok: ok and cache: "cacheMap cache = AList.update (Key ?item) ?item (cacheMap (ps_cache ps))"
    using c by (auto simp: Qp_SetCacheItem_def SwapItem_def Let_def split: option.splits)
  have e: "presence_Append now ps request token = ps\<lparr>ps_cache := cache, ps_requests := ps_requests ps @ [request],
      ps_tasks := ps_tasks ps @ [\<lparr>pt_ctx = ?n, pt_request = request, pt_token = token, pt_end = None\<rparr>]\<rparr>"
    using c ok by (simp add: presence_Append_def Let_def)
  have keep: "chat_key (presence_Append now ps request token) ctx = chat_key ps ctx" if "ctx < ?n" for ctx
    using that unfolding e by (simp add: chat_key_def nth_append)
  have new: "chat_key (presence_Append now ps request token) ?n = ToUpper (cp_ChatId request)"
    unfolding e by (simp add: chat_key_def)
  have entries: "(k, i) \<in> set (cacheMap cache) \<Longrightarrow> (k, i) = (Key ?item, ?item) \<or> (k, i) \<in> set (cacheMap (ps_cache ps))" for k i
    unfolding cache using set_update_subset by fastforce
  have "Value i < Suc ?n \<and> k = chat_key (presence_Append now ps request token) (Value i)"
    if "(k, i) \<in> set (cacheMap cache)" for k i
    using entries [OF that] assms keep [of "Value i"] new by (auto simp: presence_ok_def)
  moreover have "ctx < Suc ?n \<and> ToUpper chat = chat_key (presence_Append now ps request token) ctx"
    if "(ctx, chat) \<in> set (ps_cancelled ps)" for ctx chat
    using that assms keep [of ctx] by (auto simp: presence_ok_def)
  moreover have "set (map pt_ctx (ps_tasks ps) @ map fst (ps_ended ps)) = {..<?n}"
    "distinct (map pt_ctx (ps_tasks ps) @ map fst (ps_ended ps))"
    "\<forall>t\<in>set (ps_tasks ps). ps_requests ps ! pt_ctx t = pt_request t" using assms by (simp_all add: presence_ok_def)
  ultimately show ?thesis
    using assms unfolding presence_ok_def e
    by (auto simp: nth_append lessThan_Suc)
qed

lemma ChatPresenceController_ok:
  assumes "presence_ok ps" "ChatPresenceController env send now later service ps r body = (ps', calls, answer)"
  shows "presence_ok ps'"
  using assms presence_Cancel_ok [OF assms(1)] presence_Append_ok
  by (auto simp: ChatPresenceController_def Let_def split: sum.splits prod.splits option.splits)

lemma end_task_ok:
  assumes "presence_ok ps" "task \<in> set (ps_tasks ps)" "what = None \<Longrightarrow> pt_ctx task \<in> fst ` set (ps_cancelled ps)"
  shows "presence_ok (end_task ps (pt_ctx task) what)"
proof -
  let ?rest = "filter (\<lambda>t. pt_ctx t \<noteq> pt_ctx task) (ps_tasks ps)"
  have d: "distinct (map pt_ctx (ps_tasks ps) @ map fst (ps_ended ps))"
    and s: "set (map pt_ctx (ps_tasks ps) @ map fst (ps_ended ps)) = {..<length (ps_requests ps)}"
    using assms(1) by (simp_all add: presence_ok_def)
  have "pt_ctx task \<notin> fst ` set (ps_ended ps)" using d assms(2) by auto
  then have "distinct (map pt_ctx ?rest @ map fst ((pt_ctx task, what) # ps_ended ps))"
    using d by (auto simp: distinct_map_filter)
  moreover have "pt_ctx ` set ?rest = pt_ctx ` set (ps_tasks ps) - {pt_ctx task}" by auto
  then have "set (map pt_ctx ?rest @ map fst ((pt_ctx task, what) # ps_ended ps)) = {..<length (ps_requests ps)}"
    using s assms(2) by auto
  ultimately show ?thesis
    using assms by (simp add: presence_ok_def end_task_def chat_key_def)
qed

lemma presence_ok_tasks:
  "presence_ok ps \<Longrightarrow> map pt_ctx ts = map pt_ctx (ps_tasks ps) \<Longrightarrow>
   \<forall>t\<in>set ts. ps_requests ps ! pt_ctx t = pt_request t \<Longrightarrow> presence_ok (ps\<lparr>ps_tasks := ts\<rparr>)"
  by (simp add: presence_ok_def chat_key_def)

lemma exec_step_ok:
  assumes "exec_step send now server ps ps'" "presence_ok ps"
  shows "presence_ok ps'"
  using assms
proof cases
  case (begins task)
  let ?f = "\<lambda>t. if pt_ctx t = pt_ctx task
      then t\<lparr>pt_end := Some (now + presence_duration (cp_Duration (pt_request t)))\<rparr> else t"
  have "map pt_ctx (map ?f (ps_tasks ps)) = map pt_ctx (ps_tasks ps)" by simp
  moreover have "\<forall>t\<in>set (map ?f (ps_tasks ps)). ps_requests ps ! pt_ctx t = pt_request t"
  proof
    fix t
    assume "t \<in> set (map ?f (ps_tasks ps))"
    then obtain t' where "t' \<in> set (ps_tasks ps)" "t = ?f t'" unfolding set_map by (elim imageE) blast
    moreover from this have "ps_requests ps ! pt_ctx t' = pt_request t'"
      using assms(2) unfolding presence_ok_def by blast
    ultimately show "ps_requests ps ! pt_ctx t = pt_request t" by (cases "pt_ctx t' = pt_ctx task") simp_all
  qed
  ultimately show ?thesis using presence_ok_tasks [OF assms(2)] unfolding begins(1) by blast
next
  case (replaced task)
  then show ?thesis using end_task_ok [OF assms(2)] by simp
next
  case (expires task e)
  show ?thesis unfolding expires(1) by (rule end_task_ok [OF assms(2) expires(2)]) simp
qed

lemma presence_reach_ok: "presence_reach env ps \<Longrightarrow> presence_ok ps"
  by (induction rule: presence_reach.induct)
    (auto intro: presence_ok_start ChatPresenceController_ok exec_step_ok)

lemma expiry_possible:
  assumes "t \<in> set (ps_tasks ps)" "pt_end t = Some e" "e \<le> now" "Token server = pt_token t"
  shows "\<exists>ps'. exec_step send now server ps ps' \<and>
    (pt_ctx t, Some (fst (server_SendChatPresence send server (cp_ChatId (pt_request t)) PresencePaused))) \<in> set (ps_ended ps')"
  using exec_step.expires [OF assms, of send] by (auto simp: end_task_def)

text \<open>
  C21. Every typing indicator that is accepted comes to one end: it is still running in the background, and then
  as soon as its time is over the paused indicator can be sent for its chat on its own server; or it has ended
  exactly once, with the paused indicator or silently, and silently only if a later request for the same chat
  cancelled it.
\<close>
theorem indicator_fate:
  assumes "presence_reach env ps" "ctx < length (ps_requests ps)"
  shows "(ctx \<notin> fst ` set (ps_ended ps) \<and> (\<exists>t\<in>set (ps_tasks ps). pt_ctx t = ctx \<and> pt_request t = ps_requests ps ! ctx \<and>
       (\<forall>e now server. pt_end t = Some e \<and> e \<le> now \<and> Token server = pt_token t \<longrightarrow>
          (\<exists>ps'. exec_step send now server ps ps' \<and>
             (ctx, Some (fst (server_SendChatPresence send server (cp_ChatId (ps_requests ps ! ctx)) PresencePaused))) \<in> set (ps_ended ps')))))
   \<or> (\<exists>!what. (ctx, what) \<in> set (ps_ended ps)) \<and>
      ((ctx, None) \<in> set (ps_ended ps) \<longrightarrow>
         (\<exists>chat. (ctx, chat) \<in> set (ps_cancelled ps) \<and> ToUpper chat = ToUpper (cp_ChatId (ps_requests ps ! ctx))))"
proof -
  have ok: "presence_ok ps" by (rule presence_reach_ok [OF assms(1)])
  then have d: "distinct (map pt_ctx (ps_tasks ps) @ map fst (ps_ended ps))"
    and s: "set (map pt_ctx (ps_tasks ps) @ map fst (ps_ended ps)) = {..<length (ps_requests ps)}"
    and q: "\<forall>t\<in>set (ps_tasks ps). ps_requests ps ! pt_ctx t = pt_request t"
    and c: "\<forall>(ctx, chat)\<in>set (ps_cancelled ps). ToUpper chat = chat_key ps ctx"
    and n: "\<forall>(ctx, what)\<in>set (ps_ended ps). what = None \<longrightarrow> ctx \<in> fst ` set (ps_cancelled ps)"
    unfolding presence_ok_def by blast+
  show ?thesis
  proof (cases "ctx \<in> fst ` set (ps_ended ps)")
    case True
    then obtain what where w: "(ctx, what) \<in> set (ps_ended ps)" by auto
    then have "\<exists>!what. (ctx, what) \<in> set (ps_ended ps)" 
      using d eq_key_imp_eq_value [of "ps_ended ps" ctx] by (metis distinct_append)
    moreover have "\<exists>chat. (ctx, chat) \<in> set (ps_cancelled ps) \<and> ToUpper chat = ToUpper (cp_ChatId (ps_requests ps ! ctx))"
      if "(ctx, None) \<in> set (ps_ended ps)"
    proof -
      have "ctx \<in> fst ` set (ps_cancelled ps)" using bspec [OF n that] by simp
      then obtain chat where "(ctx, chat) \<in> set (ps_cancelled ps)" by auto
      moreover from this have "ToUpper chat = chat_key ps ctx" using c by blast
      ultimately show ?thesis by (auto simp: chat_key_def)
    qed
    ultimately show ?thesis by blast
  next
    case False
    then have "ctx \<in> pt_ctx ` set (ps_tasks ps)" using s assms(2) by auto
    then obtain t where t: "t \<in> set (ps_tasks ps)" "pt_ctx t = ctx" by auto
    then have "pt_request t = ps_requests ps ! ctx" using q by metis
    then show ?thesis using False t expiry_possible [OF t(1)] by metis
  qed
qed

definition typing_service :: QPWhatsappService where
  "typing_service = empty_service\<lparr>Servers := [(''Ab'', ready_server), (''cd'', ready_server\<lparr>Token := ''cd''\<rparr>)]\<rparr>"

definition typing :: "WhatsappChatPresenceType \<Rightarrow> ChatPresenceRequest body" where
  "typing t = Body \<lparr>cp_ChatId = ''5521999998888@s.whatsapp.net'', cp_Type = t, cp_Duration = 5000\<rparr>"

definition typed_once :: presence_state where
  "typed_once = fst (ChatPresenceController sample_service_env sample_sending_env 0 0 typing_service no_presence
     (sample_http [(''token'', ''ab'')]) (typing PresenceText))"

lemma typed_once_reached: "presence_reach sample_service_env typed_once"
  unfolding typed_once_def by (metis presence_reach.request presence_reach.start prod.collapse)

definition typed_task :: presence_task where
  "typed_task = \<lparr>pt_ctx = 0, pt_request =
     \<lparr>cp_ChatId = ''5521999998888@s.whatsapp.net'', cp_Type = PresenceText, cp_Duration = 5000\<rparr>, pt_token = ''Ab'', pt_end = None\<rparr>"

lemma typed_once_value:
  "typed_once = \<lparr>ps_cache = \<lparr>counter = 1, cacheMap =
       [(''5521999998888@S.WHATSAPP.NET'', \<lparr>Key = ''5521999998888@S.WHATSAPP.NET'', Value = 0, Expiration = 5000000000\<rparr>)]\<rparr>,
     ps_requests = [pt_request typed_task], ps_cancelled = [], ps_tasks = [typed_task], ps_ended = []\<rparr>"
  by code_simp

theorem indicator_fate_witness:
  "\<exists>t\<in>set (ps_tasks typed_once). pt_ctx t = 0 \<and> pt_request t = ps_requests typed_once ! 0"
proof -
  have l: "0 < length (ps_requests typed_once)" "ps_ended typed_once = []" by (simp_all add: typed_once_value)
  have "\<not> (\<exists>!what. (0, what) \<in> set (ps_ended typed_once))" unfolding l(2) by (auto simp: Ex1_def)
  then show ?thesis using indicator_fate [OF typed_once_reached l(1)] by blast
qed

text \<open>
  Requests are kept by their chat alone: when another server pauses the same chat, the indicator of the first is
  cancelled, and its goroutine can end without the paused indicator that its own server owes the chat.
\<close>
theorem other_server_cancels:
  "\<exists>ps. presence_reach sample_service_env ps \<and> ps_ended ps = [(0, None)] \<and>
     map (\<lambda>(ctx, chat). chat) (ps_cancelled ps) = [''5521999998888@s.whatsapp.net'']"
proof -
  define begun where "begun = typed_once\<lparr>ps_tasks := map (\<lambda>t. if pt_ctx t = 0
      then t\<lparr>pt_end := Some (0 + presence_duration (cp_Duration (pt_request t)))\<rparr> else t) (ps_tasks typed_once)\<rparr>"
  define other where "other = ChatPresenceController sample_service_env sample_sending_env 1 1 typing_service begun
     (sample_http [(''token'', ''cd'')]) (typing PresencePaused)"
  have task: "typed_task \<in> set (ps_tasks typed_once)" "pt_ctx typed_task = 0" "pt_end typed_task = None"
    by (simp_all add: typed_once_value typed_task_def)
  have "exec_step sample_sending_env 0 ready_server typed_once begun"
    using exec_step.begins [OF task(1,3), of sample_sending_env 0 ready_server] unfolding begun_def task(2) .
  then have "presence_reach sample_service_env begun" using presence_reach.background typed_once_reached by blast
  then have r: "presence_reach sample_service_env (fst other)"
    unfolding other_def by (metis presence_reach.request prod.collapse)
  have "case other of (ps, _) \<Rightarrow> let t = hd (ps_tasks ps) in t \<in> set (ps_tasks ps) \<and> pt_end t \<noteq> None \<and>
      0 < presence_duration (cp_Duration (pt_request t)) \<and> pt_ctx t \<in> fst ` set (ps_cancelled ps) \<and>
      ps_ended (end_task ps (pt_ctx t) None) = [(0, None)] \<and>
      map (\<lambda>(ctx, chat). chat) (ps_cancelled ps) = [''5521999998888@s.whatsapp.net'']"
    unfolding other_def begun_def typed_once_value by code_simp
  then have t: "hd (ps_tasks (fst other)) \<in> set (ps_tasks (fst other)) \<and> pt_end (hd (ps_tasks (fst other))) \<noteq> None \<and>
      0 < presence_duration (cp_Duration (pt_request (hd (ps_tasks (fst other))))) \<and>
      pt_ctx (hd (ps_tasks (fst other))) \<in> fst ` set (ps_cancelled (fst other)) \<and>
      ps_ended (end_task (fst other) (pt_ctx (hd (ps_tasks (fst other)))) None) = [(0, None)] \<and>
      map (\<lambda>(ctx, chat). chat) (ps_cancelled (fst other)) = [''5521999998888@s.whatsapp.net'']"
    unfolding split_beta Let_def .
  let ?done = "end_task (fst other) (pt_ctx (hd (ps_tasks (fst other)))) None"
  have "exec_step sample_sending_env 2 ready_server (fst other) ?done"
    by (rule exec_step.replaced) (simp_all only: t not_False_eq_True)
  then have "presence_reach sample_service_env ?done" using presence_reach.background r by blast
  moreover have "ps_ended ?done = [(0, None)] \<and> map (\<lambda>(ctx, chat). chat) (ps_cancelled ?done) = [''5521999998888@s.whatsapp.net'']"
    using t by (simp add: end_task_def)
  ultimately show ?thesis by (intro exI [of _ ?done] conjI) blast+
qed

end
