(* ===== verification/Mcp.thy ===== *)
theory Mcp
  imports Api Events
begin

text \<open>
  The tools for language models of \<open>src/mcp\<close>: the annotations of the controllers and how they are read
  (\<open>mcp_swagger_parser.go\<close>), the tools made of them (\<open>mcp_api_registry.go\<close>, \<open>mcp_api_tool.go\<close>,
  \<open>mcp_handler_registry.go\<close>, \<open>mcp_tools.go\<close>), the two fixed tools, the registry of endpoints of
  \<open>mcp_discovery.go\<close> and the server that answers the calls (\<open>mcp_server.go\<close>). Texts are bytes. Sources are
  given as the declarations the Go parser reads from them, JSON as the value it stands for, a number in it as
  the text Go prints for it; the controllers themselves are an argument.
\<close>

section \<open>Annotations\<close>

record SwaggerParam =
  sp_Name :: string
  sp_In :: string
  sp_Type :: string
  sp_Required :: bool
  sp_Description :: string

record SwaggerEndpoint =
  se_FuncName :: string
  se_Name :: string
  se_Description :: string
  se_Method :: string
  se_Path :: string
  se_Params :: "SwaggerParam list"
  se_Security :: bool
  se_MCPHidden :: bool
  se_MCPCategory :: string
  se_MCPAuth :: string

definition TrimPrefix :: "string \<Rightarrow> string \<Rightarrow> string" where
  "TrimPrefix s pre = (if HasPrefix s pre then drop (length pre) s else s)"

fun Join :: "string \<Rightarrow> string list \<Rightarrow> string" where
  "Join sep [] = []"
| "Join sep [s] = s"
| "Join sep (s # t # rest) = s @ sep @ Join sep (t # rest)"

text \<open>The state of the loop: the parts so far, the current part and whether it is inside quotes.\<close>

fun split_step :: "string list \<times> string \<times> bool \<Rightarrow> char \<Rightarrow> string list \<times> string \<times> bool" where
  "split_step (result, current, inQuotes) r =
     (if r = CHR 0x22 then (result, current @ [r], \<not> inQuotes)
      else if r = CHR '' '' \<or> r = CHR 0x09 then
        (if inQuotes then (result, current @ [r], inQuotes)
         else if current \<noteq> [] then (result @ [current], [], inQuotes)
         else (result, current, inQuotes))
      else (result, current @ [r], inQuotes))"

definition splitRespectingQuotes :: "string \<Rightarrow> string list" where
  "splitRespectingQuotes s =
     (case foldl split_step ([], [], False) s of
        (result, current, _) \<Rightarrow> if current \<noteq> [] then result @ [current] else result)"

definition no_param :: SwaggerParam where
  "no_param = \<lparr>sp_Name = [], sp_In = [], sp_Type = [], sp_Required = False, sp_Description = []\<rparr>"

definition parseParam :: "string \<Rightarrow> SwaggerParam" where
  "parseParam line =
     (let parts = splitRespectingQuotes (TrimSpace (TrimPrefix line ''@Param''))
      in if length parts \<ge> 4 then
           \<lparr>sp_Name = parts ! 0, sp_In = parts ! 1, sp_Type = parts ! 2, sp_Required = (parts ! 3 = ''true''),
            sp_Description = (if length parts > 4 then TrimByte CHR 0x22 (Join '' '' (drop 4 parts)) else [])\<rparr>
         else no_param)"

text \<open>The expression \<open>^(/[^\s\[]*)\s*\[([^\]]+)\]\<close>; its white space is that of Go's expressions.\<close>

definition re_space :: "char \<Rightarrow> bool" where
  "re_space c \<longleftrightarrow> c \<in> {CHR '' '', CHR 0x09, CHR 0x0A, CHR 0x0C, CHR 0x0D}"

definition match_router :: "string \<Rightarrow> (string \<times> string) option" where
  "match_router s =
     (let path = takeWhile (\<lambda>c. \<not> re_space c \<and> c \<noteq> CHR ''['') s;
          rest = dropWhile re_space (drop (length path) s);
          method = takeWhile (\<lambda>c. c \<noteq> CHR '']'') (tl rest)
      in if HasPrefix s ''/'' \<and> HasPrefix rest ''['' \<and> method \<noteq> [] \<and> length method < length (tl rest)
         then Some (path, method) else None)"

definition parseRouter :: "string \<Rightarrow> SwaggerEndpoint \<Rightarrow> SwaggerEndpoint" where
  "parseRouter line endpoint =
     (case match_router (TrimSpace (TrimPrefix line ''@Router'')) of
        Some (path, method) \<Rightarrow> endpoint\<lparr>se_Path := path, se_Method := ToUpper method\<rparr>
      | None \<Rightarrow> endpoint)"

definition annotation :: "string \<Rightarrow> string \<Rightarrow> string" where
  "annotation line tag = TrimSpace (TrimPrefix line tag)"

fun comment_line :: "SwaggerEndpoint \<times> string list \<Rightarrow> string \<Rightarrow> SwaggerEndpoint \<times> string list" where
  "comment_line (endpoint, descriptionLines) line =
     (let line = TrimSpace line
      in if line = [] then (endpoint, descriptionLines)
         else if HasPrefix line ''@Summary'' then (endpoint\<lparr>se_Name := annotation line ''@Summary''\<rparr>, descriptionLines)
         else if HasPrefix line ''@Description'' then (endpoint, descriptionLines @ [annotation line ''@Description''])
         else if HasPrefix line ''@Router'' then (parseRouter line endpoint, descriptionLines)
         else if HasPrefix line ''@Param'' then
           (let param = parseParam line
            in (if sp_Name param \<noteq> [] then endpoint\<lparr>se_Params := se_Params endpoint @ [param]\<rparr> else endpoint, descriptionLines))
         else if HasPrefix line ''@Security'' then (endpoint\<lparr>se_Security := True\<rparr>, descriptionLines)
         else if HasPrefix line ''@MCPTool'' then (endpoint\<lparr>se_Name := annotation line ''@MCPTool''\<rparr>, descriptionLines)
         else if HasPrefix line ''@MCPHidden'' then (endpoint\<lparr>se_MCPHidden := True\<rparr>, descriptionLines)
         else if HasPrefix line ''@MCPCategory'' then (endpoint\<lparr>se_MCPCategory := annotation line ''@MCPCategory''\<rparr>, descriptionLines)
         else if HasPrefix line ''@MCPAuth'' then (endpoint\<lparr>se_MCPAuth := annotation line ''@MCPAuth''\<rparr>, descriptionLines)
         else (endpoint, descriptionLines))"

definition blank_endpoint :: "string \<Rightarrow> SwaggerEndpoint" where
  "blank_endpoint funcName = \<lparr>se_FuncName = funcName, se_Name = [], se_Description = [], se_Method = [], se_Path = [],
     se_Params = [], se_Security = False, se_MCPHidden = False, se_MCPCategory = [], se_MCPAuth = []\<rparr>"

definition parseSwaggerComments :: "string \<Rightarrow> string \<Rightarrow> SwaggerEndpoint" where
  "parseSwaggerComments funcName docText =
     (case foldl comment_line (blank_endpoint funcName, []) (SplitByte CHR 0x0A docText) of
        (endpoint, descriptionLines) \<Rightarrow> endpoint\<lparr>se_Description := Join '' '' descriptionLines\<rparr>)"

section \<open>Declarations\<close>

datatype expr = Ident string | StarExpr expr | SelectorExpr expr string | OtherExpr

fun getTypeName :: "expr \<Rightarrow> string" where
  "getTypeName (Ident n) = n"
| "getTypeName (StarExpr x) = ''*'' @ getTypeName x"
| "getTypeName (SelectorExpr x sel) = getTypeName x @ ''.'' @ sel"
| "getTypeName OtherExpr = []"

text \<open>A parameter list holds the type of each of its fields; a field may name several parameters.\<close>

datatype decl = FuncDecl string "string option" "expr list" | OtherDecl

definition isControllerFunc :: "expr list \<Rightarrow> bool" where
  "isControllerFunc params \<longleftrightarrow>
     length params = 2 \<and>
     (let firstType = getTypeName (params ! 0) in firstType = ''ResponseWriter'' \<or> firstType = ''http.ResponseWriter'') \<and>
     (let secondType = getTypeName (params ! 1) in secondType = ''*Request'' \<or> secondType = ''*http.Request'')"

fun endpoint_of :: "decl \<Rightarrow> SwaggerEndpoint list" where
  "endpoint_of (FuncDecl name (Some doc) params) =
     (if isControllerFunc params then
        (let endpoint = parseSwaggerComments name doc in if se_Path endpoint \<noteq> [] then [endpoint] else [])
      else [])"
| "endpoint_of _ = []"

definition extractEndpointsFromFile :: "decl list \<Rightarrow> SwaggerEndpoint list" where
  "extractEndpointsFromFile decls = concat (map endpoint_of decls)"

text \<open>
  The files the pattern finds below the working directory, each as its declarations or a failure to parse it.
  A directory that does not exist has none, without an error.
\<close>

definition ParseSwaggerAnnotations :: "(string \<Rightarrow> decl list option list) \<Rightarrow> string \<Rightarrow> SwaggerEndpoint list" where
  "ParseSwaggerAnnotations files apiDir =
     concat (map (\<lambda>f. case f of Some decls \<Rightarrow> extractEndpointsFromFile decls | None \<Rightarrow> []) (files apiDir))"

section \<open>Names and schemas\<close>

definition name_char :: "char \<Rightarrow> bool" where
  "name_char c \<longleftrightarrow> CHR ''a'' \<le> c \<and> c \<le> CHR ''z'' \<or> is_digit c \<or> c = CHR ''_''"

definition GenerateToolName :: "SwaggerEndpoint \<Rightarrow> string" where
  "GenerateToolName endpoint =
     (if se_Name endpoint \<noteq> [] \<and> Contains (se_Name endpoint) ''_'' then se_Name endpoint
      else
        let name = (if se_Name endpoint = [] then se_FuncName endpoint else se_Name endpoint);
            name = map (\<lambda>c. if c = CHR '' '' then CHR ''_'' else c) (ToLower name);
            name = map (\<lambda>c. if c = CHR ''-'' then CHR ''_'' else c) name
        in filter name_char name)"

definition mapSwaggerTypeToJSON :: "string \<Rightarrow> string" where
  "mapSwaggerTypeToJSON swaggerType =
     (let t = ToLower swaggerType
      in if t \<in> {''integer'', ''int'', ''int32'', ''int64''} then ''number''
         else if t \<in> {''number'', ''float'', ''double''} then ''number''
         else if t \<in> {''boolean'', ''bool''} then ''boolean''
         else if t = ''array'' then ''array''
         else if t = ''object'' then ''object''
         else ''string'')"

text \<open>A property is its type and its description.\<close>

record input_schema =
  is_properties :: "(string \<times> string \<times> string) list"
  is_required :: "string list"

definition token_property :: "string \<times> string \<times> string" where
  "token_property = (''token'', ''string'', ''Bot token (required when using master key authentication)'')"

definition add_property :: "input_schema \<Rightarrow> SwaggerParam \<Rightarrow> input_schema" where
  "add_property schema param =
     (if sp_Name param = ''token'' \<or> sp_Name param = ''Authorization'' then schema
      else
        let schema = schema\<lparr>is_properties := AList.update (sp_Name param)
              (mapSwaggerTypeToJSON (sp_Type param), sp_Description param) (is_properties schema)\<rparr>
        in if sp_Required param then schema\<lparr>is_required := is_required schema @ [sp_Name param]\<rparr> else schema)"

definition GenerateInputSchema :: "SwaggerEndpoint \<Rightarrow> input_schema" where
  "GenerateInputSchema endpoint =
     foldl add_property \<lparr>is_properties = [token_property], is_required = []\<rparr> (se_Params endpoint)"

definition empty_schema :: input_schema where
  "empty_schema = \<lparr>is_properties = [], is_required = []\<rparr>"

section \<open>Tools\<close>

record APIHandlerTool =
  at_name :: string
  at_description :: string
  at_method :: string
  at_path :: string
  at_handler :: string
  at_inputSchema :: "input_schema option"

definition NewAPIHandlerTool :: "string \<Rightarrow> string \<Rightarrow> string \<Rightarrow> string \<Rightarrow> string \<Rightarrow> input_schema option \<Rightarrow> APIHandlerTool" where
  "NewAPIHandlerTool name description method path handler schema =
     \<lparr>at_name = name, at_description = description, at_method = ToUpper method, at_path = path, at_handler = handler,
      at_inputSchema = schema\<rparr>"

datatype mcp_tool = HealthTool | ListServersTool | APITool APIHandlerTool

fun tool_Name :: "mcp_tool \<Rightarrow> string" where
  "tool_Name HealthTool = ''health''"
| "tool_Name ListServersTool = ''list_servers''"
| "tool_Name (APITool t) = at_name t"

fun tool_Description :: "mcp_tool \<Rightarrow> string" where
  "tool_Description HealthTool = ''Check WhatsApp server health and connection status''"
| "tool_Description ListServersTool =
     ''List all WhatsApp servers/bots available. Returns token, number, status, and connection state for each server.''"
| "tool_Description (APITool t) = at_description t"

fun tool_InputSchema :: "mcp_tool \<Rightarrow> input_schema" where
  "tool_InputSchema HealthTool = empty_schema"
| "tool_InputSchema ListServersTool = empty_schema"
| "tool_InputSchema (APITool t) = (case at_inputSchema t of Some s \<Rightarrow> s | None \<Rightarrow> empty_schema)"

text \<open>The registry: a map from names. Its list comes in the order \<open>order\<close> in which Go visits the map.\<close>

type_synonym MCPToolRegistry = "(string \<times> mcp_tool) list"

definition registry_Register :: "MCPToolRegistry \<Rightarrow> mcp_tool \<Rightarrow> MCPToolRegistry" where
  "registry_Register r tool = AList.update (tool_Name tool) tool r"

definition registry_Get :: "MCPToolRegistry \<Rightarrow> string \<Rightarrow> mcp_tool option" where
  "registry_Get r name = map_of r name"

definition registry_List :: "(mcp_tool list \<Rightarrow> mcp_tool list) \<Rightarrow> MCPToolRegistry \<Rightarrow> mcp_tool list" where
  "registry_List order r = order (map snd r)"

text \<open>The controllers known by name.\<close>

definition HandlerRegistry :: "string list" where
  "HandlerRegistry =
     [''AccountController'', ''HealthController'', ''BasicHealthController'', ''CreateInformationController'',
      ''GetInformationController'', ''UpdateInformationController'', ''DeleteInformationController'', ''ScannerController'',
      ''PairCodeController'', ''CommandController'', ''GetMessageController'', ''RevokeController'', ''MarkReadController'',
      ''SendAny'', ''SendDocument'', ''SendDocumentFromBinary'', ''ReceiveAPIHandler'', ''DownloadController'',
      ''PictureController'', ''ContactsController'', ''GetGroupController'', ''FetchAllGroupsController'',
      ''CreateGroupController'', ''SetGroupNameController'', ''SetGroupPhotoController'',
      ''UpdateGroupParticipantsController'', ''GroupMembershipRequestsController'', ''SetGroupTopicController'',
      ''LeaveGroupController'', ''InviteController'', ''IsOnWhatsappController'', ''UserInfoController'', ''UserController'',
      ''GetPhoneController'', ''GetUserIdentifierController'', ''ArchiveChatController'', ''ChatPresenceController'',
      ''MarkChatAsReadController'', ''MarkChatAsUnreadController'', ''EditMessageController'', ''WebhookController'',
      ''RabbitMQController'', ''Spam'']"

definition GetHandlerByName :: "string \<Rightarrow> string option" where
  "GetHandlerByName name = (if name \<in> set HandlerRegistry then Some name else None)"

definition tool_of_endpoint :: "SwaggerEndpoint \<Rightarrow> mcp_tool option" where
  "tool_of_endpoint endpoint =
     (if se_MCPHidden endpoint then None
      else if se_Path endpoint = [] \<or> se_Method endpoint = [] then None
      else (case GetHandlerByName (se_FuncName endpoint) of
              None \<Rightarrow> None
            | Some handler \<Rightarrow>
                if GenerateToolName endpoint = [] then None
                else Some (APITool \<lparr>at_name = GenerateToolName endpoint, at_description = se_Description endpoint,
                       at_method = se_Method endpoint, at_path = se_Path endpoint, at_handler = handler,
                       at_inputSchema = Some (GenerateInputSchema endpoint)\<rparr>)))"

text \<open>The second directory is tried after an error only, and there is none.\<close>

definition RegisterAPITools :: "(string \<Rightarrow> decl list option list) \<Rightarrow> MCPToolRegistry \<Rightarrow> MCPToolRegistry" where
  "RegisterAPITools files registry =
     foldl (\<lambda>registry endpoint. case tool_of_endpoint endpoint of
              Some tool \<Rightarrow> registry_Register registry tool | None \<Rightarrow> registry)
       registry (ParseSwaggerAnnotations files ''api'')"

definition RegisterTools :: "(string \<Rightarrow> decl list option list) \<Rightarrow> MCPToolRegistry \<Rightarrow> MCPToolRegistry" where
  "RegisterTools files registry =
     RegisterAPITools files (registry_Register (registry_Register registry HealthTool) ListServersTool)"

section \<open>The registry of endpoints\<close>

record MCPEndpoint =
  me_Name :: string
  me_Description :: string
  me_Method :: string
  me_Path :: string
  me_InputSchema :: "input_schema option"

definition mcp_toSnakeCase :: "string \<Rightarrow> string" where
  "mcp_toSnakeCase s =
     ToLower (concat (map (\<lambda>(i, r). if 0 < i \<and> CHR ''A'' \<le> r \<and> r \<le> CHR ''Z'' then [CHR ''_'', r] else [r]) (enumerate 0 s)))"

definition endpoint_Register :: "MCPEndpoint list \<Rightarrow> MCPEndpoint \<Rightarrow> MCPEndpoint list" where
  "endpoint_Register endpoints endpoint = endpoints @ [endpoint\<lparr>me_Name := mcp_toSnakeCase (me_Name endpoint)\<rparr>]"

definition endpoint_Description :: "MCPEndpoint \<Rightarrow> string" where
  "endpoint_Description e = (if me_Description e \<noteq> [] then me_Description e else me_Method e @ '' '' @ me_Path e)"

definition endpoint_InputSchema :: "MCPEndpoint \<Rightarrow> input_schema" where
  "endpoint_InputSchema e = (case me_InputSchema e of Some s \<Rightarrow> s | None \<Rightarrow> empty_schema)"

section \<open>Calling a tool\<close>

datatype json =
  JNull | JBool bool | JNumber string | JString string | JArray "json list" | JObject "(string \<times> json) list"

text \<open>\<open>mc_Server\<close> is nil for the master key.\<close>

record MCPToolContext =
  mc_Server :: "QpWhatsappServer option"
  mc_IsMaster :: bool

record ServerInfo =
  si_Token :: string
  si_Number :: string
  si_Status :: string
  si_Connected :: bool

datatype tool_result =
  HealthOfAll nat nat nat
| HealthError
| HealthOf string bool "time option" QpWhatsappServer
| ServerList "ServerInfo list"
| EmptySuccess nat
| TextSuccess nat string
| JsonResponse json

text \<open>The body of an error is given as the JSON object it holds, or else as its text.\<close>

datatype tool_error = InvalidParameters | NoAuthentication | ApiError nat "json + string"

datatype tool_outcome = ToolPanics | ToolError tool_error | ToolResult tool_result

text \<open>
  What the tools work with: \<open>mx_handler\<close> runs a controller on a request and a body; \<open>mx_request\<close> is the request
  that the Go library builds for a method and a target, without one it panics; \<open>mx_text\<close> prints a value;
  \<open>mx_json\<close> and \<open>mx_marshal\<close> decode an answer and encode a result; \<open>mx_visit\<close> and \<open>mx_tools\<close> are the orders in
  which maps are visited; \<open>mx_files\<close> the source files.
\<close>

record mcp_env =
  mx_enabled :: bool
  mx_path :: string
  mx_master :: string
  mx_service :: service_env
  mx_handler :: "string \<Rightarrow> QPWhatsappService \<Rightarrow> http_request \<Rightarrow> json option \<Rightarrow> QPWhatsappService \<times> nat \<times> string"
  mx_request :: "string \<Rightarrow> string \<Rightarrow> http_request option"
  mx_text :: "json \<Rightarrow> string"
  mx_json :: "string \<Rightarrow> json option"
  mx_marshal :: "tool_result \<Rightarrow> string option"
  mx_visit :: "(string \<times> json) list \<Rightarrow> (string \<times> json) list"
  mx_tools :: "mcp_tool list \<Rightarrow> mcp_tool list"
  mx_files :: "string \<Rightarrow> decl list option list"

text \<open>Arguments: absent, the JSON null and an object are accepted. A map keeps the last value of a key.\<close>

definition params_map :: "json option \<Rightarrow> (string \<times> json) list option" where
  "params_map params =
     (case params of
        None \<Rightarrow> Some []
      | Some JNull \<Rightarrow> Some []
      | Some (JObject kvs) \<Rightarrow> Some (foldl (\<lambda>m (k, v). AList.update k v m) [] kvs)
      | Some _ \<Rightarrow> None)"

definition format_value :: "mcp_env \<Rightarrow> json \<Rightarrow> string" where
  "format_value env value = (case value of JString s \<Rightarrow> s | _ \<Rightarrow> mx_text env value)"

fun fill_path :: "mcp_env \<Rightarrow> string \<times> (string \<times> json) list \<Rightarrow> string \<times> json \<Rightarrow> string \<times> (string \<times> json) list" where
  "fill_path env (requestPath, bodyParams) (key, value) =
     (if key = ''token'' then (requestPath, bodyParams)
      else
        let placeholder = ''{'' @ key @ ''}''
        in if Contains requestPath placeholder
           then (ReplaceAll requestPath placeholder (format_value env value), bodyParams)
           else (requestPath, AList.update key value bodyParams))"

definition Header_Set :: "http_request \<Rightarrow> string \<Rightarrow> string \<Rightarrow> http_request" where
  "Header_Set r key value = r\<lparr>rq_header := filter (\<lambda>h. \<not> EqualFold (fst h) key) (rq_header r) @ [(key, value)]\<rparr>"

text \<open>The token to use and whether the master key goes with it.\<close>

definition tool_credentials :: "MCPToolContext \<Rightarrow> (string \<times> json) list \<Rightarrow> string \<times> bool" where
  "tool_credentials ctx paramsMap =
     (case mc_Server ctx of
        Some server \<Rightarrow> (Token server, False)
      | None \<Rightarrow>
          if mc_IsMaster ctx then
            (case map_of paramsMap ''token'' of
               Some (JString tokenParam) \<Rightarrow> (tokenParam, True)
             | _ \<Rightarrow> ([], True))
          else ([], False))"

definition add_credentials :: "mcp_env \<Rightarrow> string \<times> bool \<Rightarrow> http_request \<Rightarrow> http_request option" where
  "add_credentials env credentials req =
     (case credentials of
        (authToken, useMasterKey) \<Rightarrow>
          if useMasterKey then
            let req = Header_Set req ''X-QUEPASA-MASTERKEY'' (mx_master env)
            in Some (if authToken \<noteq> [] then Header_Set req ''X-QUEPASA-TOKEN'' authToken else req)
          else if authToken \<noteq> [] then Some (Header_Set req ''X-QUEPASA-TOKEN'' authToken)
          else None)"

definition api_outcome :: "mcp_env \<Rightarrow> nat \<Rightarrow> string \<Rightarrow> tool_outcome" where
  "api_outcome env code body =
     (if code \<ge> 400 then
        (case mx_json env body of
           Some (JObject kvs) \<Rightarrow> ToolError (ApiError code (Inl (JObject kvs)))
         | Some JNull \<Rightarrow> ToolError (ApiError code (Inl (JObject [])))
         | _ \<Rightarrow> ToolError (ApiError code (Inr body)))
      else if body = [] then ToolResult (EmptySuccess code)
      else (case mx_json env body of
              Some data \<Rightarrow> ToolResult (JsonResponse data)
            | None \<Rightarrow> ToolResult (TextSuccess code body)))"

definition tool_request ::
    "mcp_env \<Rightarrow> MCPToolContext \<Rightarrow> APIHandlerTool \<Rightarrow> (string \<times> json) list \<Rightarrow>
     (tool_outcome + http_request \<times> json option)" where
  "tool_request env ctx t paramsMap =
     (case foldl (fill_path env) (at_path t, []) (mx_visit env paramsMap) of
        (requestPath, bodyParams) \<Rightarrow>
          let body = (if bodyParams \<noteq> [] \<and> at_method t \<in> {''POST'', ''PUT'', ''PATCH''} then Some (JObject bodyParams) else None)
          in case mx_request env (at_method t) requestPath of
               None \<Rightarrow> Inl ToolPanics
             | Some req \<Rightarrow>
                 let req = Header_Set (Header_Set req ''Content-Type'' ''application/json'') ''Accept'' ''application/json''
                 in case add_credentials env (tool_credentials ctx paramsMap) req of
                      None \<Rightarrow> Inl (ToolError NoAuthentication)
                    | Some req \<Rightarrow> Inr (req, body))"

definition API_ExecuteWithContext ::
    "mcp_env \<Rightarrow> QPWhatsappService \<Rightarrow> APIHandlerTool \<Rightarrow> MCPToolContext \<Rightarrow> json option \<Rightarrow> QPWhatsappService \<times> tool_outcome" where
  "API_ExecuteWithContext env service t ctx params =
     (case params_map params of
        None \<Rightarrow> (service, ToolError InvalidParameters)
      | Some paramsMap \<Rightarrow>
          (case tool_request env ctx t paramsMap of
             Inl outcome \<Rightarrow> (service, outcome)
           | Inr (req, body) \<Rightarrow>
               (case mx_handler env (at_handler t) service req body of
                  (service, code, answer) \<Rightarrow> (service, api_outcome env code answer))))"

definition Health_ExecuteWithContext :: "QPWhatsappService \<Rightarrow> MCPToolContext \<Rightarrow> tool_result" where
  "Health_ExecuteWithContext service ctx =
     (if mc_IsMaster ctx then
        let totalServers = length (Servers service);
            connectedServers = length (filter (\<lambda>(_, srv). connection srv \<noteq> None) (Servers service))
        in HealthOfAll totalServers connectedServers (totalServers - connectedServers)
      else case mc_Server ctx of
             None \<Rightarrow> HealthError
           | Some server \<Rightarrow>
               HealthOf (ConnectionState_String (GetState server)) (connection server \<noteq> None) (srv_Timestamp server) server)"

definition server_info :: "string \<Rightarrow> QpWhatsappServer \<Rightarrow> ServerInfo" where
  "server_info token srv = \<lparr>si_Token = token, si_Number = Wid srv, si_Status = ConnectionState_String (GetState srv),
     si_Connected = (connection srv \<noteq> None)\<rparr>"

definition ListServers_ExecuteWithContext :: "mcp_env \<Rightarrow> QPWhatsappService \<Rightarrow> MCPToolContext \<Rightarrow> tool_result" where
  "ListServers_ExecuteWithContext env service ctx =
     (case (mc_IsMaster ctx, mc_Server ctx) of
        (False, Some server) \<Rightarrow> ServerList [server_info (Token server) server]
      | _ \<Rightarrow> ServerList (map (\<lambda>(token, srv). server_info token srv) (sv_order (mx_service env) (Servers service))))"

fun ExecuteWithContext ::
    "mcp_env \<Rightarrow> QPWhatsappService \<Rightarrow> mcp_tool \<Rightarrow> MCPToolContext \<Rightarrow> json option \<Rightarrow> QPWhatsappService \<times> tool_outcome" where
  "ExecuteWithContext env service HealthTool ctx params = (service, ToolResult (Health_ExecuteWithContext service ctx))"
| "ExecuteWithContext env service ListServersTool ctx params = (service, ToolResult (ListServers_ExecuteWithContext env service ctx))"
| "ExecuteWithContext env service (APITool t) ctx params = API_ExecuteWithContext env service t ctx params"

section \<open>The server\<close>

record MCPServer =
  ms_enabled :: bool
  ms_path :: string
  ms_registry :: MCPToolRegistry

definition NewMCPServer :: "mcp_env \<Rightarrow> MCPServer" where
  "NewMCPServer env =
     \<lparr>ms_enabled = mx_enabled env, ms_path = (if mx_path env = [] then ''/mcp'' else mx_path env), ms_registry = []\<rparr>"

definition MCPServer_RegisterTools :: "mcp_env \<Rightarrow> MCPServer \<Rightarrow> MCPServer" where
  "MCPServer_RegisterTools env s = s\<lparr>ms_registry := RegisterTools (mx_files env) (ms_registry s)\<rparr>"

definition mcp_init :: "mcp_env \<Rightarrow> MCPServer" where
  "mcp_init env = (let s = NewMCPServer env in if ms_enabled s then MCPServer_RegisterTools env s else s)"

text \<open>The routes with their methods.\<close>

definition mcp_routes :: "MCPServer \<Rightarrow> (string \<times> string) list" where
  "mcp_routes s =
     (if ms_enabled s
      then [(''POST'', ms_path s), (''POST'', ms_path s @ ''/''), (''GET'', ms_path s), (''GET'', ms_path s @ ''/'')]
      else [])"

datatype auth_error = NoAuthorization | NoBearer | UnknownToken

definition authenticate :: "mcp_env \<Rightarrow> QPWhatsappService \<Rightarrow> http_request \<Rightarrow> auth_error + QpWhatsappServer option \<times> string" where
  "authenticate env service r =
     (let authHeader = Header_Get r ''Authorization''
      in if authHeader = [] then Inl NoAuthorization
         else if \<not> HasPrefix authHeader ''Bearer '' then Inl NoBearer
         else
           let token = TrimSpace (TrimPrefix authHeader ''Bearer '')
           in if token = mx_master env \<and> mx_master env \<noteq> [] then Inr (None, ''master'')
              else (case map_of (Servers service) token of
                      Some server \<Rightarrow> Inr (Some server, ''bot'')
                    | None \<Rightarrow> Inl UnknownToken))"

record MCPRequest =
  mr_ID :: "int option"
  mr_Method :: string
  mr_Params :: "json option"

datatype mcp_error =
  AuthenticationFailed auth_error | InvalidRequest | UnknownMethod string | InvalidCall | ToolNotFound string
| ToolFailed tool_error | SerializeFailed

datatype mcp_result = Negotiated string | ToolList "(string \<times> string \<times> input_schema) list" | ToolText string

text \<open>Errors are answered with code 200 and a code inside.\<close>

datatype mcp_answer =
  Unavailable | McpPanics | NoAnswer | McpResult "int option" mcp_result | McpError "int option" nat mcp_error

definition handleToolsList :: "mcp_env \<Rightarrow> MCPServer \<Rightarrow> int option \<Rightarrow> mcp_answer" where
  "handleToolsList env s rid =
     McpResult rid (ToolList (map (\<lambda>tool. (tool_Name tool, tool_Description tool, tool_InputSchema tool))
       (registry_List (mx_tools env) (ms_registry s))))"

text \<open>
  Decoding into a structure: a key names a field whatever its case, the last one counts, null leaves a field
  as it is and so does a value of another type, which is an error.
\<close>

definition string_field :: "string \<Rightarrow> (string \<times> json) list \<Rightarrow> string" where
  "string_field name kvs = foldl (\<lambda>v (k, j). if EqualFold k name then (case j of JString s \<Rightarrow> s | _ \<Rightarrow> v) else v) [] kvs"

definition string_field_ok :: "string \<Rightarrow> (string \<times> json) list \<Rightarrow> bool" where
  "string_field_ok name kvs =
     list_all (\<lambda>(k, j). EqualFold k name \<longrightarrow> (case j of JString _ \<Rightarrow> True | JNull \<Rightarrow> True | _ \<Rightarrow> False)) kvs"

definition raw_field :: "string \<Rightarrow> (string \<times> json) list \<Rightarrow> json option" where
  "raw_field name kvs = foldl (\<lambda>v (k, j). if EqualFold k name then Some j else v) None kvs"

definition supportedVersions :: "string list" where
  "supportedVersions = [''2024-11-05'', ''2025-03-26'', ''2025-06-18'']"

definition handleInitialize :: "int option \<Rightarrow> json option \<Rightarrow> mcp_answer" where
  "handleInitialize rid params =
     (let version = (case params of Some (JObject kvs) \<Rightarrow> string_field ''protocolVersion'' kvs | _ \<Rightarrow> [])
      in McpResult rid (Negotiated
           (if version \<noteq> [] then (case find (\<lambda>v. v = version) supportedVersions of Some v \<Rightarrow> v | None \<Rightarrow> ''2024-11-05'')
            else ''2024-11-05'')))"

definition call_params :: "json option \<Rightarrow> (string \<times> json option) option" where
  "call_params params =
     (case params of
        Some JNull \<Rightarrow> Some ([], None)
      | Some (JObject kvs) \<Rightarrow>
          if string_field_ok ''name'' kvs then Some (string_field ''name'' kvs, raw_field ''arguments'' kvs) else None
      | _ \<Rightarrow> None)"

definition handleToolCall ::
    "mcp_env \<Rightarrow> MCPServer \<Rightarrow> QPWhatsappService \<Rightarrow> int option \<Rightarrow> json option \<Rightarrow> MCPToolContext \<Rightarrow> QPWhatsappService \<times> mcp_answer" where
  "handleToolCall env s service rid params ctx =
     (case call_params params of
        None \<Rightarrow> (service, McpError rid 400 InvalidCall)
      | Some (name, arguments) \<Rightarrow>
          (case registry_Get (ms_registry s) name of
             None \<Rightarrow> (service, McpError rid 404 (ToolNotFound name))
           | Some tool \<Rightarrow>
               (case ExecuteWithContext env service tool ctx arguments of
                  (service, ToolPanics) \<Rightarrow> (service, McpPanics)
                | (service, ToolError err) \<Rightarrow> (service, McpError rid 500 (ToolFailed err))
                | (service, ToolResult result) \<Rightarrow>
                    (service, case mx_marshal env result of
                       None \<Rightarrow> McpError rid 500 SerializeFailed
                     | Some text \<Rightarrow> McpResult rid (ToolText text)))))"

definition HandleRequest ::
    "mcp_env \<Rightarrow> MCPServer \<Rightarrow> QPWhatsappService \<Rightarrow> http_request \<Rightarrow> MCPRequest option \<Rightarrow> QPWhatsappService \<times> mcp_answer" where
  "HandleRequest env s service r body =
     (if \<not> ms_enabled s then (service, Unavailable)
      else (case authenticate env service r of
              Inl err \<Rightarrow> (service, McpError None 401 (AuthenticationFailed err))
            | Inr (server, authLevel) \<Rightarrow>
                (case body of
                   None \<Rightarrow> (service, McpError None 400 InvalidRequest)
                 | Some req \<Rightarrow>
                     let ctx = \<lparr>mc_Server = server, mc_IsMaster = (authLevel = ''master'')\<rparr>
                     in if mr_Method req = ''initialize'' then (service, handleInitialize (mr_ID req) (mr_Params req))
                        else if mr_Method req = ''tools/list'' then (service, handleToolsList env s (mr_ID req))
                        else if mr_Method req = ''tools/call'' then handleToolCall env s service (mr_ID req) (mr_Params req) ctx
                        else if mr_Method req = ''notifications/initialized'' then (service, NoAnswer)
                        else (service, McpError (mr_ID req) 404 (UnknownMethod (mr_Method req))))))"

text \<open>The stream of events is opened and then nothing is written to it until the client goes.\<close>

datatype sse_answer = SseRefused nat | SseOpen string

definition HandleSSE :: "mcp_env \<Rightarrow> MCPServer \<Rightarrow> QPWhatsappService \<Rightarrow> http_request \<Rightarrow> bool \<Rightarrow> sse_answer" where
  "HandleSSE env s service r streaming =
     (if \<not> ms_enabled s then SseRefused 503
      else (case authenticate env service r of
              Inl err \<Rightarrow> SseRefused 401
            | Inr (server, authLevel) \<Rightarrow> if streaming then SseOpen authLevel else SseRefused 500))"

section \<open>Reading annotations\<close>

definition word :: "string \<Rightarrow> bool" where
  "word w \<longleftrightarrow> w \<noteq> [] \<and> list_all (\<lambda>c. solid c \<and> c \<noteq> CHR 0x22) w"

lemma word_split: "word w \<Longrightarrow> foldl split_step (result, current, False) w = (result, current @ w, False)"
proof -
  have "list_all (\<lambda>c. solid c \<and> c \<noteq> CHR 0x22) w \<Longrightarrow>
      foldl split_step (result, current, False) w = (result, current @ w, False)"
    by (induction w arbitrary: current) (auto simp: solid_def is_space_def)
  then show "word w \<Longrightarrow> ?thesis" by (simp add: word_def)
qed

lemma quoted_split: "CHR 0x22 \<notin> set s \<Longrightarrow> foldl split_step (result, current, True) s = (result, current @ s, True)"
  by (induction s arbitrary: current) auto

lemma quoted_part:
  "CHR 0x22 \<notin> set s \<Longrightarrow>
   foldl split_step (result, [], False) ([CHR 0x22] @ s @ [CHR 0x22]) = (result, [CHR 0x22] @ s @ [CHR 0x22], False)"
  by (simp add: quoted_split)

lemma words_split:
  "list_all word ws \<Longrightarrow> foldl split_step (result, [], False) (concat (map (\<lambda>w. w @ '' '') ws)) = (result @ ws, [], False)"
  by (induction ws arbitrary: result) (simp_all add: word_split, simp add: word_def)

lemma TrimSpace_solid_quote:
  assumes "solid c"
  shows "TrimSpace (c # s @ [CHR 0x22]) = c # s @ [CHR 0x22]"
proof -
  have "space_width (c # s @ [CHR 0x22]) = 0"
    using assms by (auto simp: space_width_def solid_def wide_space_def split: list.splits)
  moreover have "space_width_rev (CHR 0x22 # t) = 0" for t
    by (auto simp: space_width_rev_def is_space_def wide_space_def less_eq_char_def split: list.splits)
  ultimately show ?thesis by (simp add: TrimSpace_def trim_runes.simps)
qed

definition param_line :: "SwaggerParam \<Rightarrow> string" where
  "param_line p =
     ''@Param '' @ concat (map (\<lambda>w. w @ '' '') [sp_Name p, sp_In p, sp_Type p, if sp_Required p then ''true'' else ''false'']) @
     [CHR 0x22] @ sp_Description p @ [CHR 0x22]"

text \<open>
  A parameter survives being written as an annotation: the line that names it, its location, its type and
  whether it is required, with its description in quotes, is read back as that parameter.
\<close>
theorem param_roundtrip:
  assumes "word (sp_Name p)" "word (sp_In p)" "word (sp_Type p)" "CHR 0x22 \<notin> set (sp_Description p)"
  shows "parseParam (param_line p) = p"
proof -
  let ?req = "if sp_Required p then ''true'' else ''false''"
  let ?ws = "[sp_Name p, sp_In p, sp_Type p, ?req]"
  let ?quoted = "[CHR 0x22] @ sp_Description p @ [CHR 0x22]"
  let ?rest = "concat (map (\<lambda>w. w @ '' '') ?ws) @ ?quoted"
  have ws: "list_all word ?ws" using assms by (simp add: word_def solid_def is_space_def)
  obtain c t where name: "sp_Name p = c # t" "solid c" using assms(1) by (cases "sp_Name p") (auto simp: word_def)
  have whole: "?rest = c # (t @ '' '' @ sp_In p @ '' '' @ sp_Type p @ '' '' @ ?req @ '' '' @ [CHR 0x22] @ sp_Description p) @ [CHR 0x22]"
    by (simp add: name(1))
  have "TrimSpace (TrimPrefix (param_line p) ''@Param'') = TrimSpace (CHR '' '' # ?rest)"
    by (simp add: param_line_def TrimPrefix_def HasPrefix_iff)
  also have "\<dots> = ?rest"
    unfolding TrimSpace_blank whole by (rule TrimSpace_solid_quote [OF name(2)])
  finally have trim: "TrimSpace (TrimPrefix (param_line p) ''@Param'') = ?rest" .
  have "foldl split_step ([], [], False) ?rest = foldl split_step (?ws, [], False) ?quoted"
    using words_split [OF ws, of "[]"] by (simp only: foldl_append append_Nil)
  also have "\<dots> = (?ws, ?quoted, False)"
    by (rule quoted_part [OF assms(4)])
  finally have parts: "splitRespectingQuotes ?rest = ?ws @ [?quoted]"
    by (simp only: splitRespectingQuotes_def) simp
  have desc: "TrimByte CHR 0x22 ?quoted = sp_Description p"
  proof (cases "sp_Description p = []")
    case False
    then have "hd (sp_Description p) \<noteq> CHR 0x22" "hd (rev (sp_Description p)) \<noteq> CHR 0x22"
      using assms(4) by (metis hd_in_set, metis hd_in_set rev_is_Nil_conv set_rev)
    then have "dropWhile (\<lambda>x. x = CHR 0x22) (sp_Description p @ [CHR 0x22]) = sp_Description p @ [CHR 0x22]"
        "dropWhile (\<lambda>x. x = CHR 0x22) (rev (sp_Description p)) = rev (sp_Description p)"
      using False by (auto simp: neq_Nil_conv) (cases "rev (sp_Description p)", auto)
    then show ?thesis by (simp add: TrimByte_def)
  qed (simp add: TrimByte_def)
  show ?thesis
    unfolding parseParam_def trim parts Let_def using desc by (cases p) simp
qed

definition id_param :: SwaggerParam where
  "id_param = \<lparr>sp_Name = ''messageid'', sp_In = ''path'', sp_Type = ''string'', sp_Required = True,
     sp_Description = ''the message id''\<rparr>"

theorem param_roundtrip_witness: "parseParam (param_line id_param) = id_param"
  by (rule param_roundtrip) code_simp+

text \<open>The routes a comment names, in order.\<close>

definition router_of :: "string \<Rightarrow> (string \<times> string) option" where
  "router_of line =
     (if HasPrefix (TrimSpace line) ''@Router'' then match_router (TrimSpace (TrimPrefix (TrimSpace line) ''@Router'')) else None)"

lemma comment_line_route:
  "comment_line (e, ds) line = (e', ds') \<Longrightarrow>
   (se_Path e', se_Method e') = (case router_of line of Some (path, method) \<Rightarrow> (path, ToUpper method) | None \<Rightarrow> (se_Path e, se_Method e))"
  by (auto simp: router_of_def parseRouter_def Let_def HasPrefix_iff split: if_splits option.splits)

text \<open>
  Of a controller with several routes the last one alone is the tool: the path and the method are those of
  the last route annotation that can be read, and empty when there is none.
\<close>
theorem last_router_wins:
  "(se_Path (parseSwaggerComments f doc), se_Method (parseSwaggerComments f doc)) =
     (case List.map_filter router_of (SplitByte CHR 0x0A doc) of
        [] \<Rightarrow> ([], [])
      | routes \<Rightarrow> (fst (last routes), ToUpper (snd (last routes))))"
proof -
  have "foldl comment_line (e, ds) ls = (e', ds') \<Longrightarrow>
     (se_Path e', se_Method e') =
       (case List.map_filter router_of ls of [] \<Rightarrow> (se_Path e, se_Method e)
        | routes \<Rightarrow> (fst (last routes), ToUpper (snd (last routes))))" for e ds ls e' ds'
  proof (induction ls arbitrary: e ds)
    case (Cons l ls)
    obtain e1 ds1 where l: "comment_line (e, ds) l = (e1, ds1)" by force
    have r: "foldl comment_line (e1, ds1) ls = (e', ds')" using Cons.prems l by simp
    show ?case
      using Cons.IH [OF r] comment_line_route [OF l]
      by (cases "router_of l"; cases "List.map_filter router_of ls") (auto simp: map_filter_simps)
  qed (simp add: map_filter_simps)
  then show ?thesis
    by (auto simp: parseSwaggerComments_def blank_endpoint_def split: prod.split cong: list.case_cong)
qed

section \<open>The registered tools\<close>

lemma GenerateToolName_chars: "Contains (GenerateToolName e) ''_'' \<or> list_all name_char (GenerateToolName e)"
  by (simp add: GenerateToolName_def Let_def list_all_iff)

lemma tool_of_endpoint_cases:
  "tool_of_endpoint e = Some t \<Longrightarrow> \<exists>a. t = APITool a \<and> at_name a = GenerateToolName e \<and> at_name a \<noteq> [] \<and> at_path a \<noteq> [] \<and>
     at_method a \<noteq> [] \<and> at_handler a \<in> set HandlerRegistry"
  by (auto simp: tool_of_endpoint_def GetHandlerByName_def split: if_splits option.splits)

lemma register_all:
  "map_of (foldl (\<lambda>registry e. case tool_of_endpoint e of Some tool \<Rightarrow> registry_Register registry tool | None \<Rightarrow> registry) registry es) name =
     (case filter (\<lambda>t. tool_Name t = name) (List.map_filter tool_of_endpoint es) of [] \<Rightarrow> map_of registry name | ts \<Rightarrow> Some (last ts))"
proof (induction es arbitrary: registry)
  case (Cons e es)
  show ?case
  proof (cases "tool_of_endpoint e")
    case (Some t)
    then show ?thesis
      using Cons.IH [of "registry_Register registry t"]
      by (cases "filter (\<lambda>t. tool_Name t = name) (List.map_filter tool_of_endpoint es)")
        (auto simp: map_filter_simps registry_Register_def AList.update_conv')
  qed (simp add: map_filter_simps Cons.IH)
qed (simp add: map_filter_simps)

definition all_tools :: "(string \<Rightarrow> decl list option list) \<Rightarrow> mcp_tool list" where
  "all_tools files = HealthTool # ListServersTool # List.map_filter tool_of_endpoint (ParseSwaggerAnnotations files ''api'')"

lemma registry_last:
  "registry_Get (RegisterTools files []) name =
     (case filter (\<lambda>t. tool_Name t = name) (all_tools files) of [] \<Rightarrow> None | ts \<Rightarrow> Some (last ts))"
  using register_all [of "registry_Register (registry_Register [] HealthTool) ListServersTool" "ParseSwaggerAnnotations files ''api''" name]
  by (cases "filter (\<lambda>t. tool_Name t = name) (List.map_filter tool_of_endpoint (ParseSwaggerAnnotations files ''api''))")
    (auto simp: registry_Get_def RegisterTools_def RegisterAPITools_def all_tools_def registry_Register_def)

lemma registry_tool:
  assumes "registry_Get (RegisterTools files []) name = Some (APITool t)"
  shows "at_name t = name \<and> name \<noteq> [] \<and> at_path t \<noteq> [] \<and> at_method t \<noteq> [] \<and> at_handler t \<in> set HandlerRegistry \<and>
    (Contains name ''_'' \<or> list_all name_char name)"
proof -
  let ?ts = "filter (\<lambda>t. tool_Name t = name) (all_tools files)"
  have "?ts \<noteq> [] \<and> last ?ts = APITool t"
    using assms unfolding registry_last by (cases ?ts) simp_all
  then have "APITool t \<in> set ?ts" by (metis last_in_set)
  then have "APITool t \<in> set (all_tools files)" "at_name t = name" unfolding set_filter by simp_all
  then have m: "at_name t = name" "APITool t \<in> set (List.map_filter tool_of_endpoint (ParseSwaggerAnnotations files ''api''))"
    by (auto simp: all_tools_def)
  then obtain e where "tool_of_endpoint e = Some (APITool t)" by (auto simp: List.map_filter_def)
  then show ?thesis using tool_of_endpoint_cases GenerateToolName_chars [of e] m(1) by fastforce
qed


section \<open>On whose behalf a tool acts\<close>

text \<open>A text that, put into a request line, adds neither a query nor headers.\<close>

definition plain_text :: "string \<Rightarrow> bool" where
  "plain_text s \<longleftrightarrow> list_all (\<lambda>c. CHR 0x21 \<le> c \<and> c \<le> CHR 0x7E \<and> c \<noteq> CHR ''?'') s"

lemma ReplaceAll_plain: "plain_text s \<Longrightarrow> plain_text new \<Longrightarrow> plain_text (ReplaceAll s old new)"
proof (induction s old new rule: ReplaceAll.induct)
  case (1 s old new)
  have "plain_text (drop (length old) s)"
    using "1.prems"(1) unfolding plain_text_def list_all_iff by (meson in_set_dropD)
  moreover have "plain_text (tl s)" "s \<noteq> [] \<Longrightarrow> plain_text [hd s]"
    using "1.prems"(1) by (cases s; simp add: plain_text_def)+
  ultimately have parts: "plain_text (drop (length old) s)" "plain_text (tl s)" "s \<noteq> [] \<Longrightarrow> plain_text [hd s]" .
  consider "s = [] \<or> old = []" | "s \<noteq> []" "old \<noteq> []" "HasPrefix s old" | "s \<noteq> []" "old \<noteq> []" "\<not> HasPrefix s old" by blast
  then show ?case
  proof cases
    case 1
    then have "ReplaceAll s old new = s" by (subst ReplaceAll.simps) simp
    then show ?thesis using "1.prems"(1) by simp
  next
    case 2
    then have "ReplaceAll s old new = new @ ReplaceAll (drop (length old) s) old new" by (subst ReplaceAll.simps) simp
    then show ?thesis using "1.IH"(1) 2 parts "1.prems"(2) by (simp add: plain_text_def)
  next
    case 3
    then have "ReplaceAll s old new = hd s # ReplaceAll (tl s) old new" by (subst ReplaceAll.simps) simp
    then show ?thesis using "1.IH"(2) 3 parts "1.prems"(2) by (simp add: plain_text_def)
  qed
qed

lemma fill_path_plain:
  "list_all (\<lambda>(k, v). plain_text (format_value env v)) kvs \<Longrightarrow> plain_text path \<Longrightarrow>
   plain_text (fst (foldl (fill_path env) (path, bs) kvs))"
proof (induction kvs arbitrary: path bs)
  case (Cons kv kvs)
  obtain k v where kv: "kv = (k, v)" by force
  obtain p' b' where f: "fill_path env (path, bs) (k, v) = (p', b')" by force
  have "plain_text p'" using f Cons.prems kv ReplaceAll_plain by (auto simp: Let_def split: if_splits)
  then show ?case using Cons.IH [of p' b'] Cons.prems(1) kv f by simp
qed simp

lemma Header_Set_Get: "Header_Get (Header_Set r k v) k' = (if EqualFold k k' then v else Header_Get r k')"
proof (cases "EqualFold k k'")
  case True
  then have "find (\<lambda>h. EqualFold (fst h) k') (filter (\<lambda>h. \<not> EqualFold (fst h) k) hs @ [(k, v)]) = Some (k, v)" for hs
    by (induction hs) (auto simp: EqualFold_def)
  then show ?thesis using True by (simp add: Header_Get_def Header_Set_def)
next
  case False
  then have "find (\<lambda>h. EqualFold (fst h) k') (filter (\<lambda>h. \<not> EqualFold (fst h) k) hs @ [(k, v)]) = find (\<lambda>h. EqualFold (fst h) k') hs" for hs
    by (induction hs) (auto simp: EqualFold_def)
  then show ?thesis using False by (simp add: Header_Get_def Header_Set_def)
qed

lemma Header_Set_parts [simp]:
  "rq_path (Header_Set r k v) = rq_path r" "rq_query (Header_Set r k v) = rq_query r" "rq_form (Header_Set r k v) = rq_form r"
  by (simp_all add: Header_Set_def)

definition bare_request :: "http_request \<Rightarrow> bool" where
  "bare_request q \<longleftrightarrow> rq_path q = (\<lambda>_. []) \<and> rq_query q = [] \<and> rq_form q = [] \<and> rq_header q = []"

lemma bare_parameter:
  "rq_path q = (\<lambda>_. []) \<Longrightarrow> rq_query q = [] \<Longrightarrow> rq_form q = [] \<Longrightarrow>
   GetRequestParameter q p = TrimSpace (Header_Get q (''X-QUEPASA-'' @ ToUpper p))"
  by (simp add: GetRequestParameter_def QueryHasKey_def)

lemma own_token_found:
  assumes "registry_ok service" "order_ok env" "distinct (map (\<lambda>entry. ToLower (fst entry)) (Servers service))"
    and "map_of (Servers service) token = Some server"
  shows "GetServerFromToken env service (Token server) = Inr server"
proof -
  have m: "(token, server) \<in> set (Servers service)" using assms(4) by (rule map_of_SomeD)
  have key: "Token srv = k" if "(k, srv) \<in> set (Servers service)" for k srv
    using that assms(1) by (auto simp: registry_ok_def)
  have inj: "inj_on (\<lambda>entry. ToLower (fst entry)) (set (Servers service))" using assms(3) by (simp add: distinct_map)
  have "find (\<lambda>item. EqualFold (Token (snd item)) (Token server)) (sv_order env (Servers service)) = Some (token, server)"
    by (subst sv_order_find [OF assms(2) inj]) (use m key in \<open>auto simp: EqualFold_def\<close>)
  then show ?thesis by (simp add: GetServerFromToken_def)
qed

text \<open>What is relied on of the Go library: a plain target gives a request without parameters and headers.\<close>

definition plain_requests :: "mcp_env \<Rightarrow> bool" where
  "plain_requests env \<longleftrightarrow>
     (\<forall>m p q. plain_text p \<longrightarrow> mx_request env m p = Some q \<longrightarrow> bare_request q) \<and>
     (\<forall>kvs. set (mx_visit env kvs) = set kvs)"

lemma tool_request_cases:
  assumes "tool_request env ctx t paramsMap = Inr (req, body)"
  obtains path bs q q' where "foldl (fill_path env) (at_path t, []) (mx_visit env paramsMap) = (path, bs)"
    "mx_request env (at_method t) path = Some q"
    "q' = Header_Set (Header_Set q ''Content-Type'' ''application/json'') ''Accept'' ''application/json''"
    "add_credentials env (tool_credentials ctx paramsMap) q' = Some req"
  using assms by (auto simp: tool_request_def Let_def split: prod.splits option.splits)

lemma tool_request_bare:
  assumes "plain_requests env" "plain_text (at_path t)"
    and "list_all (\<lambda>(k, v). plain_text (format_value env v)) paramsMap"
    and "tool_request env ctx t paramsMap = Inr (req, body)"
  shows "\<exists>q. bare_request q \<and> add_credentials env (tool_credentials ctx paramsMap)
     (Header_Set (Header_Set q ''Content-Type'' ''application/json'') ''Accept'' ''application/json'') = Some req"
proof -
  obtain path bs q q' where c: "foldl (fill_path env) (at_path t, []) (mx_visit env paramsMap) = (path, bs)"
    "mx_request env (at_method t) path = Some q"
    "q' = Header_Set (Header_Set q ''Content-Type'' ''application/json'') ''Accept'' ''application/json''"
    "add_credentials env (tool_credentials ctx paramsMap) q' = Some req"
    using tool_request_cases [OF assms(4)] by blast
  have "list_all (\<lambda>(k, v). plain_text (format_value env v)) (mx_visit env paramsMap)"
    using assms(1,3) by (simp add: plain_requests_def list_all_iff)
  from fill_path_plain [OF this assms(2), of "[]"] have "plain_text path" using c(1) by simp
  then have "bare_request q" using assms(1) c(2) by (auto simp: plain_requests_def)
  then show ?thesis using c(3,4) by blast
qed

lemmas key_eval = ToUpper_def ToLower_def lower_char_def upper_char_def EqualFold_def less_eq_char_def

lemma tool_acts_on_own_server:
  assumes "authenticate env service r = Inr (Some server, level)"
    and "registry_ok service" "order_ok (mx_service env)" "distinct (map (\<lambda>entry. ToLower (fst entry)) (Servers service))"
    and "plain_requests env" "plain_text (at_path t)" "list_all (\<lambda>(k, v). plain_text (format_value env v)) paramsMap"
    and "tool_request env \<lparr>mc_Server = Some server, mc_IsMaster = (level = ''master'')\<rparr> t paramsMap = Inr (req, body)"
    and "list_all solid (Token server)"
  shows "GetServer (mx_service env) service req = Inr server \<and> GetMasterKey req = []"
proof -
  obtain token where token: "map_of (Servers service) token = Some server"
    using assms(1) by (auto simp: authenticate_def Let_def split: if_splits option.splits)
  obtain q where q: "bare_request q" "add_credentials env (Token server, False)
     (Header_Set (Header_Set q ''Content-Type'' ''application/json'') ''Accept'' ''application/json'') = Some req"
    using tool_request_bare [OF assms(5-8)] by (auto simp: tool_credentials_def)
  have req: "req = Header_Set (Header_Set (Header_Set q ''Content-Type'' ''application/json'') ''Accept'' ''application/json'')
      ''X-QUEPASA-TOKEN'' (Token server)"
    using q(2) by (simp add: add_credentials_def split: if_splits)
  have parts: "rq_path req = (\<lambda>_. [])" "rq_query req = []" "rq_form req = []"
    using q(1) by (simp_all add: req bare_request_def)
  have keys: "EqualFold ''X-QUEPASA-TOKEN'' (''X-QUEPASA-'' @ ToUpper ''token'')"
    "\<not> EqualFold ''X-QUEPASA-TOKEN'' (''X-QUEPASA-'' @ ToUpper ''masterkey'')"
    "\<not> EqualFold ''Accept'' (''X-QUEPASA-'' @ ToUpper ''masterkey'')"
    "\<not> EqualFold ''Content-Type'' (''X-QUEPASA-'' @ ToUpper ''masterkey'')"
    by (simp_all add: key_eval)
  have h: "Header_Get req (''X-QUEPASA-'' @ ToUpper ''token'') = Token server"
    "Header_Get req (''X-QUEPASA-'' @ ToUpper ''masterkey'') = []"
    unfolding req Header_Set_Get using keys q(1) by (simp_all add: bare_request_def Header_Get_def)
  have "GetToken req = Token server"
    unfolding GetToken_def bare_parameter [OF parts] h using assms(9) by (intro TrimSpace_id) (simp add: list_all_iff)
  moreover have "GetMasterKey req = []"
    unfolding GetMasterKey_def bare_parameter [OF parts] h by (simp add: TrimSpace_id)
  ultimately show ?thesis
    using own_token_found [OF assms(2-4) token] by (simp add: GetServer_def)
qed

definition plain_call :: "mcp_env \<Rightarrow> MCPRequest \<Rightarrow> bool" where
  "plain_call env call =
     (case call_params (mr_Params call) of
        Some (_, arguments) \<Rightarrow>
          (case params_map arguments of Some m \<Rightarrow> list_all (\<lambda>(k, v). plain_text (format_value env v)) m | None \<Rightarrow> True)
      | None \<Rightarrow> True)"

lemma HandleRequest_change:
  assumes "HandleRequest env s service r (Some call) = (service', answer)" "service' \<noteq> service"
    and "authenticate env service r = Inr (server, level)"
  obtains t name arguments m req body where "APITool t \<in> snd ` set (ms_registry s)"
    "call_params (mr_Params call) = Some (name, arguments)" "params_map arguments = Some m"
    "tool_request env \<lparr>mc_Server = server, mc_IsMaster = (level = ''master'')\<rparr> t m = Inr (req, body)"
    "service' = fst (mx_handler env (at_handler t) service req body)"
proof -
  let ?ctx = "\<lparr>mc_Server = server, mc_IsMaster = (level = ''master'')\<rparr>"
  have h: "handleToolCall env s service (mr_ID call) (mr_Params call) ?ctx = (service', answer)"
    using assms by (auto simp: HandleRequest_def Let_def split: if_splits)
  obtain name arguments tool where c: "call_params (mr_Params call) = Some (name, arguments)"
      "registry_Get (ms_registry s) name = Some tool"
    using h assms(2) by (auto simp: handleToolCall_def split: option.splits)
  have e: "fst (ExecuteWithContext env service tool ?ctx arguments) = service'"
    using h c by (auto simp: handleToolCall_def split: prod.splits tool_outcome.splits)
  obtain t where t: "tool = APITool t" using e assms(2) by (cases tool) auto
  have mem: "APITool t \<in> snd ` set (ms_registry s)"
    using c(2) t by (metis image_eqI map_of_SomeD registry_Get_def snd_conv)
  obtain m req body where r: "params_map arguments = Some m" "tool_request env ?ctx t m = Inr (req, body)"
    using e t assms(2) by (auto simp: API_ExecuteWithContext_def split: option.splits sum.splits prod.splits)
  have "service' = fst (mx_handler env (at_handler t) service req body)"
    using e t r by (auto simp: API_ExecuteWithContext_def split: prod.splits)
  then show thesis using that mem c(1) r by blast
qed


definition webhook_doc :: string where
  "webhook_doc =
     ''@Summary Manage webhooks'' @ [CHR 0x0A] @ ''@Param url query string false '' @ [CHR 0x22] @ ''the address'' @ [CHR 0x22, CHR 0x0A] @
     ''@Router /webhook [get]'' @ [CHR 0x0A] @ ''@Router /webhook [post]'' @ [CHR 0x0A] @ ''@Router /webhook [delete]'' @ [CHR 0x0A]"

definition webhook_files :: "string \<Rightarrow> decl list option list" where
  "webhook_files dir = (if dir = ''api'' then [None, Some [OtherDecl, FuncDecl ''WebhookController'' (Some webhook_doc)
     [SelectorExpr (Ident ''http'') ''ResponseWriter'', StarExpr (SelectorExpr (Ident ''http'') ''Request'')]]] else [])"

definition sample_mcp :: mcp_env where
  "sample_mcp = \<lparr>mx_enabled = True, mx_path = [], mx_master = ''mk'', mx_service = sample_service_env,
     mx_handler = (\<lambda>_ service _ _. (service\<lparr>Initialized := True\<rparr>, 200, [])),
     mx_request = (\<lambda>m p. if plain_text p then Some ((sample_http [])\<lparr>rq_method := m\<rparr>) else None),
     mx_text = (\<lambda>_. []), mx_json = (\<lambda>_. None), mx_marshal = (\<lambda>_. Some ''{}''), mx_visit = (\<lambda>kvs. kvs), mx_tools = (\<lambda>ts. ts),
     mx_files = webhook_files\<rparr>"

lemma webhook_tool: "map_option (\<lambda>t. case t of APITool a \<Rightarrow> (at_method a, at_path a, is_properties (the (at_inputSchema a))) | _ \<Rightarrow> ([], [], []))
    (registry_Get (ms_registry (mcp_init sample_mcp)) ''manage_webhooks'') =
  Some (''DELETE'', ''/webhook'', [token_property, (''url'', ''string'', ''the address'')])"
  by code_simp

definition bot_request :: http_request where
  "bot_request = (sample_http [])\<lparr>rq_header := [(''Authorization'', ''Bearer Ab'')]\<rparr>"

definition webhook_call :: MCPRequest where
  "webhook_call = \<lparr>mr_ID = Some 1, mr_Method = ''tools/call'', mr_Params = Some (JObject
     [(''name'', JString ''manage_webhooks''), (''arguments'', JObject [(''url'', JString ''http://h''), (''token'', JString ''cd'')])])\<rparr>"


end
