(* ===== verification/SipCalls.thy ===== *)
theory SipCalls
  imports Messages
begin

text \<open>
  Calls forwarded to a SIP server: \<open>src/sipproxy\<close>. The network settings and their discovery, the INVITE with its
  headers and its SDP offer, the life of a call in \<open>sipproxy_call_manager_sipgo.go\<close>, the manager around it, the
  call data, and the older transaction monitor and response handler. The sockets, the STUN exchange and the
  dialogs of the third-party \<open>sipgo\<close> are arguments.

  The program keeps its calls behind pointers, and a goroutine holds the pointer of its call while the table may
  already hold another call under the same id. So calls live in a store: \<open>sip_calls\<close> is the list of all calls
  ever made, a pointer is a position in it, and \<open>activeCalls\<close> maps an id to a pointer.
\<close>

section \<open>Network\<close>

record SIPProxyNetworkManagerSettings =
  StunServer :: string
  SIPServer :: string
  SIPPort :: int
  LocalPort :: int
  PublicIP :: string
  LocalIP :: string
  IsSTUNConfigured :: bool

text \<open>An address with the answer to \<open>To4() != nil\<close>.\<close>

record ip_address =
  ip_text :: string
  ip_v4 :: bool
  ip_loopback :: bool

record network_interface =
  if_up :: bool
  if_loopback :: bool
  if_addrs :: "string + ip_address list"

text \<open>What a STUN server is asked for, up to the two address attributes of its answer.\<close>

datatype stun_answer = StunFailed string | StunAnswer "ip_address option" "ip_address option"

record net_env =
  ne_route :: "string + ip_address"
  ne_interfaces :: "string + network_interface list"
  ne_stun :: "string \<Rightarrow> stun_answer"
  ne_dial :: "string \<Rightarrow> int \<Rightarrow> string + int"

datatype sip_error =
  NoIPv4 | InterfacesFailed string | StunError string | NoMappedAddress | StunIPv6 string | NoStunServer
| LocalPortFailed string | NetworkFailed sip_error | CallExists string | InviteFailed string
| AnswerDeprecated | AlreadyRunning | NotRunning

definition interface_address :: "network_interface \<Rightarrow> ip_address option" where
  "interface_address i =
     (if \<not> if_up i \<or> if_loopback i then None
      else (case if_addrs i of
              Inl _ \<Rightarrow> None
            | Inr addrs \<Rightarrow> find (\<lambda>a. \<not> ip_loopback a \<and> ip_v4 a) addrs))"

fun first_address :: "network_interface list \<Rightarrow> ip_address option" where
  "first_address [] = None"
| "first_address (i # is) = (case interface_address i of Some a \<Rightarrow> Some a | None \<Rightarrow> first_address is)"

definition discoverLocalIPWithSipgo :: "net_env \<Rightarrow> sip_error + string" where
  "discoverLocalIPWithSipgo env =
     (let scan = (case ne_interfaces env of
                    Inl err \<Rightarrow> Inl (InterfacesFailed err)
                  | Inr is \<Rightarrow> (case first_address is of Some a \<Rightarrow> Inr (ip_text a) | None \<Rightarrow> Inl NoIPv4))
      in case ne_route env of
           Inr a \<Rightarrow> if ip_v4 a then Inr (ip_text a) else scan
         | Inl _ \<Rightarrow> scan)"

definition discoverIPFromServer :: "net_env \<Rightarrow> string \<Rightarrow> sip_error + string" where
  "discoverIPFromServer env server =
     (case ne_stun env server of
        StunFailed err \<Rightarrow> Inl (StunError err)
      | StunAnswer None None \<Rightarrow> Inl NoMappedAddress
      | StunAnswer None (Some a) \<Rightarrow> if ip_v4 a then Inr (ip_text a) else Inl (StunIPv6 server)
      | StunAnswer (Some a) _ \<Rightarrow> if ip_v4 a then Inr (ip_text a) else Inl (StunIPv6 server))"

definition fallbackServers :: "string list" where
  "fallbackServers = [''stun1.l.google.com:19302'', ''stun2.l.google.com:19302'', ''stun3.l.google.com:19302'',
     ''stun4.l.google.com:19302'', ''stun.stunprotocol.org:3478'', ''stun.sipgate.net:3478'', ''stun.ekiga.net:3478'']"

definition HasValidConfiguredServer :: "string \<Rightarrow> bool" where
  "HasValidConfiguredServer configuredServer \<longleftrightarrow> configuredServer \<noteq> [] \<and> configuredServer \<noteq> '':0''"

fun first_stun :: "net_env \<Rightarrow> string list \<Rightarrow> sip_error + string" where
  "first_stun env [] = Inl NoStunServer"
| "first_stun env (server # rest) =
     (case discoverIPFromServer env server of Inr ip \<Rightarrow> Inr ip | Inl _ \<Rightarrow> first_stun env rest)"

definition DiscoverPublicIPv4WithFallback :: "net_env \<Rightarrow> string \<Rightarrow> sip_error + string" where
  "DiscoverPublicIPv4WithFallback env configuredServer =
     (if HasValidConfiguredServer configuredServer
      then (case discoverIPFromServer env configuredServer of
              Inr ip \<Rightarrow> Inr ip
            | Inl _ \<Rightarrow> first_stun env fallbackServers)
      else first_stun env fallbackServers)"

text \<open>The public and the local address; no failure reaches the caller.\<close>

definition discoverPublicIPWithSipgoAndSTUN :: "net_env \<Rightarrow> SIPProxyNetworkManagerSettings \<Rightarrow> string \<times> string" where
  "discoverPublicIPWithSipgoAndSTUN env snm =
     (let localIP = (case discoverLocalIPWithSipgo env of Inl _ \<Rightarrow> ''127.0.0.1'' | Inr ip \<Rightarrow> ip)
      in if PublicIP snm \<noteq> [] then (PublicIP snm, localIP)
         else if StunServer snm \<noteq> [] \<and> StunServer snm \<noteq> '':0''
         then (case DiscoverPublicIPv4WithFallback env (StunServer snm) of
                 Inl _ \<Rightarrow> (localIP, localIP)
               | Inr discoveredIP \<Rightarrow> (discoveredIP, localIP))
         else (localIP, localIP))"

definition DiscoverLocalPort :: "net_env \<Rightarrow> SIPProxyNetworkManagerSettings \<Rightarrow> SIPProxyNetworkManagerSettings \<times> sip_error option" where
  "DiscoverLocalPort env snm =
     (if LocalPort snm \<noteq> 0 then (snm, None)
      else (case ne_dial env (SIPServer snm) (SIPPort snm) of
              Inl err \<Rightarrow> (snm, Some (LocalPortFailed err))
            | Inr port \<Rightarrow> (snm\<lparr>LocalPort := port\<rparr>, None)))"

definition ConfigureNetwork :: "net_env \<Rightarrow> SIPProxyNetworkManagerSettings \<Rightarrow> SIPProxyNetworkManagerSettings \<times> sip_error option" where
  "ConfigureNetwork env snm =
     (case discoverPublicIPWithSipgoAndSTUN env snm of
        (publicIP, localIP) \<Rightarrow>
          let snm = snm\<lparr>PublicIP := publicIP, LocalIP := localIP\<rparr>
          in (case (if LocalPort snm = 0 then DiscoverLocalPort env snm else (snm, None)) of
                (snm, Some err) \<Rightarrow> (snm, Some err)
              | (snm, None) \<Rightarrow> (snm\<lparr>IsSTUNConfigured := True\<rparr>, None)))"

section \<open>The INVITE\<close>

record sip_uri =
  uri_User :: string
  uri_Host :: string
  uri_Port :: int

text \<open>The INVITE as the program fills it: the headers in the order they are appended, and the body.\<close>

record sip_invite =
  inv_Recipient :: sip_uri
  inv_CallID :: string
  inv_Via :: "string \<times> int \<times> (string \<times> string) list"
  inv_From :: "sip_uri \<times> string"
  inv_Contact :: sip_uri
  inv_Body :: string

fun hexadecimal :: "nat \<Rightarrow> string" where
  "hexadecimal n =
     (let digit = (\<lambda>d. [char_of (if d < 10 then 48 + d else 87 + d :: nat)])
      in if n < 16 then digit n else hexadecimal (n div 16) @ digit (n mod 16))"

declare hexadecimal.simps [simp del]

definition print_int :: "int \<Rightarrow> string" where
  "print_int i = (if i < 0 then CHR ''-'' # decimal (nat (- i)) else decimal (nat i))"

definition GetRecipient :: "SIPProxyNetworkManagerSettings \<Rightarrow> string \<Rightarrow> sip_uri" where
  "GetRecipient config toPhone =
     \<lparr>uri_User = toPhone, uri_Host = SIPServer config, uri_Port = (if SIPPort config = 5060 then 0 else SIPPort config)\<rparr>"

definition SetFromHeader :: "SIPProxyNetworkManagerSettings \<Rightarrow> string \<Rightarrow> string \<Rightarrow> sip_uri \<times> string" where
  "SetFromHeader network fromPhone sipTag =
     (\<lparr>uri_User = fromPhone, uri_Host = PublicIP network, uri_Port = (if LocalPort network = 5060 then 0 else LocalPort network)\<rparr>,
      sipTag)"

definition SetViaHeader :: "time \<Rightarrow> SIPProxyNetworkManagerSettings \<Rightarrow> string \<times> int \<times> (string \<times> string) list" where
  "SetViaHeader now network =
     (let branch = (''branch'', ''z9hG4bK'' @ hexadecimal (nat now))
      in if LocalPort network \<noteq> 5060
         then (LocalIP network, LocalPort network, [branch, (''rport'', [])])
         else (LocalIP network, 0, [branch]))"

definition newline :: string where
  "newline = [CHR 0x0A]"

definition CreateSDPOffer :: "time \<Rightarrow> SIPProxyNetworkManagerSettings \<Rightarrow> string \<Rightarrow> string \<Rightarrow> string" where
  "CreateSDPOffer now network sessionName fromPhone =
     (let sessionID = now div 1000000000;
          sessionVersion = sessionID + 1;
          rtpPort = 10000 + sessionID mod 1000
      in concat (map (\<lambda>line. line @ newline)
           [''v=0'',
            ''o='' @ fromPhone @ '' '' @ print_int sessionID @ '' '' @ print_int sessionVersion @ '' IN IP4 '' @ LocalIP network,
            ''s='' @ sessionName,
            ''c=IN IP4 '' @ PublicIP network,
            ''t=0 0'',
            ''m=audio '' @ print_int rtpPort @ '' RTP/AVP 0 8 101'',
            ''a=rtpmap:0 PCMU/8000'',
            ''a=rtpmap:8 PCMA/8000'',
            ''a=rtpmap:101 telephone-event/8000'',
            ''a=fmtp:101 0-15'',
            ''a=ptime:20'',
            ''a=maxptime:20'',
            ''a=sendrecv'']))"

section \<open>Calls\<close>

datatype CallState =
  CallStateInitiated | CallStateInviting | CallStateProceeding | CallStateAccepted | CallStateRejected
| CallStateTimeout | CallStateCancelled

text \<open>\<open>ci_Cancelled\<close> is whether the context was cancelled by the program.\<close>

record CallInfo =
  ci_CallID :: string
  ci_FromPhone :: string
  ci_ToPhone :: string
  ci_SIPTag :: string
  ci_State :: CallState
  ci_StartTime :: time
  ci_LastUpdate :: time
  ci_Cancelled :: bool
  ci_DialogSession :: "sip_invite option"

text \<open>
  What leaves the manager, each with the pointer of its call: the INVITE, the callbacks to WhatsApp, the ACK and
  the BYE. A goroutine is a task: the INVITE under way inside \<open>InitiateCallSipgo\<close>, the monitor of a dialog, and
  \<open>CancelCall\<close> between its look at the table and its BYE.
\<close>

datatype sip_event =
  InviteSent nat sip_invite | CallAccepted nat string string string | CallRejected nat string string string | AckSent nat | ByeSent nat

datatype sip_task = InvitePending nat sip_invite | MonitorDialog nat | CancelPending nat string

record sip_manager =
  sip_network :: SIPProxyNetworkManagerSettings
  sip_session_name :: string
  sip_calls :: "CallInfo list"
  activeCalls :: "(string \<times> nat) list"
  cancelCallCount :: "(string \<times> nat) list"
  onCallRejected :: bool
  onCallAccepted :: bool
  sip_tasks :: "sip_task list"
  sip_log :: "sip_event list"

text \<open>\<open>rand_tag\<close> is the random tag that is generated when the call has none.\<close>

definition update_call :: "(CallInfo \<Rightarrow> CallInfo) \<Rightarrow> nat \<Rightarrow> sip_manager \<Rightarrow> sip_manager" where
  "update_call f p scm = scm\<lparr>sip_calls := (sip_calls scm)[p := f (sip_calls scm ! p)]\<rparr>"

definition getOrGenerateCallTag :: "string \<Rightarrow> sip_manager \<Rightarrow> string \<Rightarrow> sip_manager \<times> string" where
  "getOrGenerateCallTag rand_tag scm callID =
     (case map_of (activeCalls scm) callID of
        Some p \<Rightarrow>
          if ci_SIPTag (sip_calls scm ! p) \<noteq> [] then (scm, ci_SIPTag (sip_calls scm ! p))
          else (update_call (ci_SIPTag_update (\<lambda>_. rand_tag)) p scm, rand_tag)
      | None \<Rightarrow> (scm, rand_tag))"

definition updateCallState :: "time \<Rightarrow> sip_manager \<Rightarrow> string \<Rightarrow> CallState \<Rightarrow> sip_manager" where
  "updateCallState now scm callID state =
     (case map_of (activeCalls scm) callID of
        Some p \<Rightarrow> update_call (\<lambda>c. c\<lparr>ci_State := state, ci_LastUpdate := now\<rparr>) p scm
      | None \<Rightarrow> scm)"

definition resetCancelCallCount :: "sip_manager \<Rightarrow> string \<Rightarrow> sip_manager" where
  "resetCancelCallCount scm callID = scm\<lparr>cancelCallCount := AList.delete callID (cancelCallCount scm)\<rparr>"

definition getCancelCallCount :: "sip_manager \<Rightarrow> string \<Rightarrow> sip_manager \<times> nat" where
  "getCancelCallCount scm callID =
     (let n = Suc (case map_of (cancelCallCount scm) callID of Some n \<Rightarrow> n | None \<Rightarrow> 0)
      in (scm\<lparr>cancelCallCount := AList.update callID n (cancelCallCount scm)\<rparr>, n))"

definition cleanupCall :: "sip_manager \<Rightarrow> string \<Rightarrow> sip_manager" where
  "cleanupCall scm callID =
     resetCancelCallCount
       (case map_of (activeCalls scm) callID of
          Some p \<Rightarrow> (update_call (ci_Cancelled_update (\<lambda>_. True)) p scm)\<lparr>activeCalls := AList.delete callID (activeCalls scm)\<rparr>
        | None \<Rightarrow> scm)
       callID"

text \<open>
  \<open>InitiateCallSipgo\<close> up to the INVITE: the answer when there is none to send, else the pointer of the new call.
  The times of its readings of the clock may differ; only \<open>now\<close> is used for all of them.
\<close>

definition new_call :: "time \<Rightarrow> string \<Rightarrow> string \<Rightarrow> string \<Rightarrow> CallInfo" where
  "new_call now callID fromPhone toPhone =
     \<lparr>ci_CallID = callID, ci_FromPhone = fromPhone, ci_ToPhone = toPhone, ci_SIPTag = [], ci_State = CallStateInitiated,
      ci_StartTime = now, ci_LastUpdate = now, ci_Cancelled = False, ci_DialogSession = None\<rparr>"

definition register_call :: "CallInfo \<Rightarrow> sip_manager \<Rightarrow> sip_manager" where
  "register_call c scm =
     scm\<lparr>sip_calls := sip_calls scm @ [c], activeCalls := AList.update (ci_CallID c) (length (sip_calls scm)) (activeCalls scm)\<rparr>"

definition build_invite :: "time \<Rightarrow> string \<Rightarrow> sip_manager \<Rightarrow> string \<Rightarrow> string \<Rightarrow> string \<Rightarrow> sip_manager \<times> sip_invite" where
  "build_invite now rand_tag scm callID fromPhone toPhone =
     (case getOrGenerateCallTag rand_tag scm callID of
        (scm', tag) \<Rightarrow>
          (scm', \<lparr>inv_Recipient = GetRecipient (sip_network scm) toPhone, inv_CallID = callID,
             inv_Via = SetViaHeader now (sip_network scm), inv_From = SetFromHeader (sip_network scm) fromPhone tag,
             inv_Contact = \<lparr>uri_User = fromPhone, uri_Host = LocalIP (sip_network scm), uri_Port = LocalPort (sip_network scm)\<rparr>,
             inv_Body = CreateSDPOffer now (sip_network scm) (sip_session_name scm) fromPhone\<rparr>))"

definition ensure_network :: "net_env \<Rightarrow> sip_manager \<Rightarrow> sip_manager \<times> sip_error option" where
  "ensure_network env scm =
     (if IsSTUNConfigured (sip_network scm) then (scm, None)
      else (case ConfigureNetwork env (sip_network scm) of
              (snm, err) \<Rightarrow> (scm\<lparr>sip_network := snm\<rparr>, map_option NetworkFailed err)))"

definition InitiateCall_begin ::
    "net_env \<Rightarrow> time \<Rightarrow> string \<Rightarrow> sip_manager \<Rightarrow> string \<Rightarrow> string \<Rightarrow> string \<Rightarrow> sip_manager \<times> (sip_error option + nat \<times> sip_invite)" where
  "InitiateCall_begin env now rand_tag scm callID fromPhone toPhone =
     (case map_of (activeCalls scm) callID of
        Some p \<Rightarrow>
          (scm, Inl (if ci_FromPhone (sip_calls scm ! p) = fromPhone \<and> ci_ToPhone (sip_calls scm ! p) = toPhone
                     then None else Some (CallExists callID)))
      | None \<Rightarrow>
          (case ensure_network env scm of
             (scm, Some err) \<Rightarrow> (scm, Inl (Some err))
           | (scm, None) \<Rightarrow>
               (case build_invite now rand_tag (register_call (new_call now callID fromPhone toPhone) scm) callID fromPhone toPhone of
                  (scm', invite) \<Rightarrow> (scm', Inr (length (sip_calls scm), invite)))))"

text \<open>What follows the INVITE, with the error of \<open>Invite\<close> or the dialog, whose monitor is started.\<close>

definition InitiateCall_end :: "time \<Rightarrow> string option \<Rightarrow> sip_manager \<Rightarrow> nat \<Rightarrow> sip_invite \<Rightarrow> sip_manager \<times> sip_error option" where
  "InitiateCall_end now result scm p invite =
     (case result of
        Some err \<Rightarrow> (cleanupCall scm (inv_CallID invite), Some (InviteFailed err))
      | None \<Rightarrow>
          (let scm = updateCallState now scm (inv_CallID invite) CallStateInviting;
               scm = update_call (ci_DialogSession_update (\<lambda>_. Some invite)) p scm
           in (scm\<lparr>sip_tasks := sip_tasks scm @ [MonitorDialog p], sip_log := sip_log scm @ [InviteSent p invite]\<rparr>, None)))"

definition InitiateCallSipgo ::
    "net_env \<Rightarrow> time \<Rightarrow> string \<Rightarrow> string option \<Rightarrow> sip_manager \<Rightarrow> string \<Rightarrow> string \<Rightarrow> string \<Rightarrow> sip_manager \<times> sip_error option" where
  "InitiateCallSipgo env now rand_tag result scm callID fromPhone toPhone =
     (case InitiateCall_begin env now rand_tag scm callID fromPhone toPhone of
        (scm, Inl answer) \<Rightarrow> (scm, answer)
      | (scm, Inr (p, invite)) \<Rightarrow> InitiateCall_end now result scm p invite)"

text \<open>The text of an error decides whether the call at WhatsApp is rejected.\<close>

definition rejected_text :: "string \<Rightarrow> bool" where
  "rejected_text errorMsg \<longleftrightarrow>
     Contains errorMsg ''SIP/2.0'' \<and> (Contains errorMsg ''603'' \<or> Contains errorMsg ''486'' \<or> Contains errorMsg ''404'')"

text \<open>The goroutine of a dialog from the return of \<open>WaitAnswer\<close>, whose error is \<open>result\<close>, to its end.\<close>

definition monitorSipgoDialog :: "time \<Rightarrow> string option \<Rightarrow> sip_manager \<Rightarrow> nat \<Rightarrow> sip_manager" where
  "monitorSipgoDialog now result scm p =
     (let callInfo = sip_calls scm ! p
      in case result of
           Some errorMsg \<Rightarrow>
             (let event = (if rejected_text errorMsg \<and> onCallRejected scm
                           then [CallRejected p (ci_CallID callInfo) (ci_FromPhone callInfo) (ci_ToPhone callInfo)] else []);
                  scm = updateCallState now scm (ci_CallID callInfo) CallStateRejected
              in cleanupCall (scm\<lparr>sip_log := sip_log scm @ event\<rparr>) (ci_CallID callInfo))
         | None \<Rightarrow>
             (let scm = updateCallState now scm (ci_CallID callInfo) CallStateAccepted;
                  event = (if onCallAccepted scm
                           then [CallAccepted p (ci_CallID callInfo) (ci_FromPhone callInfo) (ci_ToPhone callInfo)] else [])
              in scm\<lparr>sip_log := sip_log scm @ event @ [AckSent p]\<rparr>))"

definition CancelCall_begin :: "sip_manager \<Rightarrow> string \<Rightarrow> sip_manager \<times> nat option" where
  "CancelCall_begin scm callID = (case getCancelCallCount scm callID of (scm, _) \<Rightarrow> (scm, map_of (activeCalls scm) callID))"

definition CancelCall_end :: "sip_manager \<Rightarrow> nat \<Rightarrow> string \<Rightarrow> sip_manager" where
  "CancelCall_end scm p callID =
     cleanupCall
       (if ci_DialogSession (sip_calls scm ! p) \<noteq> None then scm\<lparr>sip_log := sip_log scm @ [ByeSent p]\<rparr> else scm)
       callID"

definition CancelCall :: "sip_manager \<Rightarrow> string \<Rightarrow> sip_manager" where
  "CancelCall scm callID =
     (case CancelCall_begin scm callID of (scm, None) \<Rightarrow> scm | (scm, Some p) \<Rightarrow> CancelCall_end scm p callID)"

definition SetCallRejectedHandler :: "bool \<Rightarrow> sip_manager \<Rightarrow> sip_manager" where
  "SetCallRejectedHandler handler scm = scm\<lparr>onCallRejected := handler\<rparr>"

definition SetCallAcceptedHandler :: "bool \<Rightarrow> sip_manager \<Rightarrow> sip_manager" where
  "SetCallAcceptedHandler handler scm = scm\<lparr>onCallAccepted := handler\<rparr>"

definition GetActiveCalls :: "sip_manager \<Rightarrow> string list" where
  "GetActiveCalls scm = map fst (activeCalls scm)"

text \<open>\<open>created\<close> is whether \<open>sipgo\<close> makes its user agent and a client.\<close>

definition NewSIPCallManagerSipgo ::
    "net_env \<Rightarrow> bool \<Rightarrow> SIPProxyNetworkManagerSettings \<Rightarrow> string \<Rightarrow> SIPProxyNetworkManagerSettings \<times> sip_manager option" where
  "NewSIPCallManagerSipgo env created network sessionName =
     (case (if IsSTUNConfigured network then (network, None) else ConfigureNetwork env network) of
        (network, Some _) \<Rightarrow> (network, None)
      | (network, None) \<Rightarrow>
          (network, if \<not> created then None else Some \<lparr>sip_network = network, sip_session_name = sessionName, sip_calls = [], activeCalls = [], cancelCallCount = [],
            onCallRejected = False, onCallAccepted = False, sip_tasks = [], sip_log = []\<rparr>))"

subsection \<open>The manager around it\<close>

record SIPProxyCallData =
  scd_CallID :: string
  scd_From :: string
  scd_To :: string
  scd_StartTime :: time
  scd_EndTime :: "time option"
  scd_Status :: string

definition NewSIPProxyCallData :: "time \<Rightarrow> string \<Rightarrow> string \<Rightarrow> string \<Rightarrow> SIPProxyCallData" where
  "NewSIPProxyCallData now callID f t =
     \<lparr>scd_CallID = callID, scd_From = f, scd_To = t, scd_StartTime = now, scd_EndTime = None, scd_Status = ''offered''\<rparr>"

definition SetStatus :: "time \<Rightarrow> SIPProxyCallData \<Rightarrow> string \<Rightarrow> SIPProxyCallData" where
  "SetStatus now scd status =
     (let scd = scd\<lparr>scd_Status := status\<rparr>
      in if status = ''terminated'' \<or> status = ''rejected'' then scd\<lparr>scd_EndTime := Some now\<rparr> else scd)"

definition GetDuration :: "time \<Rightarrow> SIPProxyCallData \<Rightarrow> int" where
  "GetDuration now scd = (case scd_EndTime scd of Some e \<Rightarrow> e - scd_StartTime scd | None \<Rightarrow> now - scd_StartTime scd)"

text \<open>
  The network settings are one object that the manager and its call manager share. The call manager is nil when
  it could not be made; a call of it then panics, which is \<open>None\<close>.
\<close>

record SIPProxyManager =
  isRunning :: bool
  m_network :: SIPProxyNetworkManagerSettings
  callManagerSipgo :: "sip_manager option"
  callAttempts :: "(string \<times> nat) list"
  m_activeCalls :: "(string \<times> SIPProxyCallData) list"

definition set_network :: "SIPProxyNetworkManagerSettings \<Rightarrow> SIPProxyManager \<Rightarrow> SIPProxyManager" where
  "set_network snm m =
     m\<lparr>m_network := snm, callManagerSipgo := map_option (sip_network_update (\<lambda>_. snm)) (callManagerSipgo m)\<rparr>"

definition GetSIPProxyManager :: "net_env \<Rightarrow> bool \<Rightarrow> SIPProxyNetworkManagerSettings \<Rightarrow> string \<Rightarrow> SIPProxyManager" where
  "GetSIPProxyManager env created network sessionName =
     (case NewSIPCallManagerSipgo env created network sessionName of
        (snm, scm) \<Rightarrow> \<lparr>isRunning = False, m_network = snm, callManagerSipgo = scm, callAttempts = [], m_activeCalls = []\<rparr>)"

definition SendSIPInvite ::
    "net_env \<Rightarrow> time \<Rightarrow> string \<Rightarrow> string option \<Rightarrow> SIPProxyManager \<Rightarrow> string \<Rightarrow> string \<Rightarrow> string \<Rightarrow>
     (SIPProxyManager \<times> sip_error option) option" where
  "SendSIPInvite env now tag result m callID fromPhone toPhone =
     (let n = Suc (case map_of (callAttempts m) callID of Some n \<Rightarrow> n | None \<Rightarrow> 0);
          m = m\<lparr>callAttempts := AList.update callID n (callAttempts m)\<rparr>
      in case callManagerSipgo m of
           None \<Rightarrow> None
         | Some scm \<Rightarrow>
             (case InitiateCallSipgo env now tag result scm callID fromPhone toPhone of
                (scm, err) \<Rightarrow> Some (m\<lparr>m_network := sip_network scm, callManagerSipgo := Some scm\<rparr>, err)))"

definition AnswerCall :: "string \<Rightarrow> string \<Rightarrow> sip_error option" where
  "AnswerCall fromPhone callID = Some AnswerDeprecated"

definition AnswerCallWithReceiver ::
    "net_env \<Rightarrow> time \<Rightarrow> string \<Rightarrow> string option \<Rightarrow> SIPProxyManager \<Rightarrow> string \<Rightarrow> string \<Rightarrow> string \<Rightarrow>
     (SIPProxyManager \<times> sip_error option) option" where
  "AnswerCallWithReceiver env now tag result m fromPhone toPhone callID =
     SendSIPInvite env now tag result m callID fromPhone toPhone"

definition proxy_Start :: "net_env \<Rightarrow> SIPProxyManager \<Rightarrow> SIPProxyManager \<times> sip_error option" where
  "proxy_Start env m =
     (if isRunning m then (m, Some AlreadyRunning)
      else (case ConfigureNetwork env (m_network m) of
              (snm, Some err) \<Rightarrow> (set_network snm m, Some (NetworkFailed err))
            | (snm, None) \<Rightarrow> ((set_network snm m)\<lparr>isRunning := True\<rparr>, None)))"

text \<open>\<open>order\<close> is the order in which Go visits the table of calls.\<close>

definition proxy_Stop :: "(string list \<Rightarrow> string list) \<Rightarrow> SIPProxyManager \<Rightarrow> (SIPProxyManager \<times> sip_error option) option" where
  "proxy_Stop order m =
     (if \<not> isRunning m then Some (m, Some NotRunning)
      else (case callManagerSipgo m of
              None \<Rightarrow> None
            | Some scm \<Rightarrow>
                Some (m\<lparr>callManagerSipgo := Some (foldl CancelCall scm (order (GetActiveCalls scm))), isRunning := False\<rparr>, None)))"

definition proxy_CancelCall :: "SIPProxyManager \<Rightarrow> string \<Rightarrow> SIPProxyManager option" where
  "proxy_CancelCall m callID =
     map_option (\<lambda>scm. m\<lparr>callManagerSipgo := Some (CancelCall scm callID)\<rparr>) (callManagerSipgo m)"

definition GetActiveCallCount :: "SIPProxyManager \<Rightarrow> nat option" where
  "GetActiveCallCount m = map_option (length \<circ> GetActiveCalls) (callManagerSipgo m)"

text \<open>The table of the manager itself, which nothing fills.\<close>

definition RemoveCall :: "SIPProxyManager \<Rightarrow> string \<Rightarrow> SIPProxyManager" where
  "RemoveCall m callID = m\<lparr>m_activeCalls := AList.delete callID (m_activeCalls m)\<rparr>"

subsection \<open>All orders of the steps\<close>

text \<open>
  One call of the manager at a time starts a call, for it holds the mutex until the INVITE is answered for; the
  monitors and the cancellations run beside it, without a lock.
\<close>

inductive sip_step :: "sip_manager \<Rightarrow> sip_manager \<Rightarrow> bool" where
  refused: "\<forall>p i. InvitePending p i \<notin> set (sip_tasks scm) \<Longrightarrow>
    InitiateCall_begin env now tag scm callID fromPhone toPhone = (scm', Inl answer) \<Longrightarrow> sip_step scm scm'"
| invites: "\<forall>p i. InvitePending p i \<notin> set (sip_tasks scm) \<Longrightarrow>
    InitiateCall_begin env now tag scm callID fromPhone toPhone = (scm', Inr (p, invite)) \<Longrightarrow>
    sip_step scm (scm'\<lparr>sip_tasks := sip_tasks scm' @ [InvitePending p invite]\<rparr>)"
| invited: "InvitePending p invite \<in> set (sip_tasks scm) \<Longrightarrow>
    sip_step scm (fst (InitiateCall_end now result (scm\<lparr>sip_tasks := remove1 (InvitePending p invite) (sip_tasks scm)\<rparr>) p invite))"
| answers: "MonitorDialog p \<in> set (sip_tasks scm) \<Longrightarrow>
    sip_step scm (monitorSipgoDialog now result (scm\<lparr>sip_tasks := remove1 (MonitorDialog p) (sip_tasks scm)\<rparr>) p)"
| cancels: "CancelCall_begin scm callID = (scm', found) \<Longrightarrow>
    sip_step scm (scm'\<lparr>sip_tasks := sip_tasks scm' @ (case found of None \<Rightarrow> [] | Some p \<Rightarrow> [CancelPending p callID])\<rparr>)"
| cancelled: "CancelPending p callID \<in> set (sip_tasks scm) \<Longrightarrow>
    sip_step scm (CancelCall_end (scm\<lparr>sip_tasks := remove1 (CancelPending p callID) (sip_tasks scm)\<rparr>) p callID)"
| configured: "sip_step scm (SetCallRejectedHandler r (SetCallAcceptedHandler a scm))"

inductive sip_reach :: "sip_manager \<Rightarrow> bool" where
  start: "NewSIPCallManagerSipgo env created network sessionName = (snm, Some scm) \<Longrightarrow> sip_reach scm"
| more: "sip_reach scm \<Longrightarrow> sip_step scm scm' \<Longrightarrow> sip_reach scm'"

section \<open>What holds of the calls\<close>

text \<open>
  The invariant speaks of views of the store: who calls whom under which id, the states, which calls have a
  dialog. \<open>dialogs\<close> are the calls whose INVITE is not answered yet.
\<close>

definition call_ids :: "sip_manager \<Rightarrow> (string \<times> string \<times> string) list" where
  "call_ids scm = map (\<lambda>c. (ci_CallID c, ci_FromPhone c, ci_ToPhone c)) (sip_calls scm)"

definition call_states :: "sip_manager \<Rightarrow> CallState list" where
  "call_states scm = map ci_State (sip_calls scm)"

definition call_sessions :: "sip_manager \<Rightarrow> bool list" where
  "call_sessions scm = map (\<lambda>c. ci_DialogSession c \<noteq> None) (sip_calls scm)"

fun task_dialog :: "sip_task \<Rightarrow> nat list" where
  "task_dialog (InvitePending p i) = [p]"
| "task_dialog (MonitorDialog p) = [p]"
| "task_dialog (CancelPending p callID) = []"

definition dialogs :: "sip_task list \<Rightarrow> nat list" where
  "dialogs ts = concat (map task_dialog ts)"

fun event_answer :: "sip_event \<Rightarrow> nat list" where
  "event_answer (CallAccepted p callID f t) = [p]"
| "event_answer (CallRejected p callID f t) = [p]"
| "event_answer _ = []"

definition answered :: "sip_event list \<Rightarrow> nat list" where
  "answered l = concat (map event_answer l)"

definition was_invited :: "sip_event list \<Rightarrow> nat \<Rightarrow> bool" where
  "was_invited l p \<longleftrightarrow> (\<exists>i. InviteSent p i \<in> set l)"

definition invite_of :: "string \<times> string \<times> string \<Rightarrow> sip_invite \<Rightarrow> bool" where
  "invite_of c i \<longleftrightarrow> c = (inv_CallID i, uri_User (fst (inv_From i)), uri_User (inv_Recipient i))"

fun task_ok :: "(string \<times> string \<times> string) list \<Rightarrow> (string \<times> nat) list \<Rightarrow> sip_event list \<Rightarrow> sip_task \<Rightarrow> bool" where
  "task_ok ids act l (InvitePending p i) \<longleftrightarrow>
     p < length ids \<and> invite_of (ids ! p) i \<and> (map_of act (inv_CallID i) = None \<or> map_of act (inv_CallID i) = Some p)"
| "task_ok ids act l (MonitorDialog p) \<longleftrightarrow> p < length ids \<and> was_invited l p"
| "task_ok ids act l (CancelPending p callID) \<longleftrightarrow> p < length ids \<and> fst (ids ! p) = callID"

fun event_ok :: "(string \<times> string \<times> string) list \<Rightarrow> sip_event list \<Rightarrow> sip_event \<Rightarrow> bool" where
  "event_ok ids l (InviteSent p i) \<longleftrightarrow> p < length ids \<and> invite_of (ids ! p) i"
| "event_ok ids l (CallAccepted p callID f t) \<longleftrightarrow> p < length ids \<and> ids ! p = (callID, f, t) \<and> was_invited l p"
| "event_ok ids l (CallRejected p callID f t) \<longleftrightarrow> p < length ids \<and> ids ! p = (callID, f, t) \<and> was_invited l p"
| "event_ok ids l (AckSent p) \<longleftrightarrow> was_invited l p"
| "event_ok ids l (ByeSent p) \<longleftrightarrow> was_invited l p"

definition sip_inv ::
    "(string \<times> string \<times> string) list \<Rightarrow> CallState list \<Rightarrow> bool list \<Rightarrow> (string \<times> nat) list \<Rightarrow> sip_task list \<Rightarrow> sip_event list \<Rightarrow> bool" where
  "sip_inv ids sts ses act ts l \<longleftrightarrow>
     length sts = length ids \<and> length ses = length ids \<and> distinct (map fst act) \<and>
     (\<forall>(callID, p)\<in>set act. p < length ids \<and> fst (ids ! p) = callID \<and> (p \<in> set (dialogs ts) \<or> sts ! p = CallStateAccepted)) \<and>
     distinct (dialogs ts) \<and> (\<forall>t\<in>set ts. task_ok ids act l t) \<and>
     (\<forall>p q i j. InvitePending p i \<in> set ts \<and> InvitePending q j \<in> set ts \<longrightarrow> p = q) \<and>
     distinct (answered l) \<and> set (answered l) \<inter> set (dialogs ts) = {} \<and>
     (\<forall>p\<in>set (answered l). p < length ids) \<and>
     (\<forall>e\<in>set l. event_ok ids l e) \<and> (\<forall>p<length ids. ses ! p \<longrightarrow> was_invited l p)"

definition sip_ok :: "sip_manager \<Rightarrow> bool" where
  "sip_ok scm \<longleftrightarrow> sip_inv (call_ids scm) (call_states scm) (call_sessions scm) (activeCalls scm) (sip_tasks scm) (sip_log scm)"

lemmas sip_views = call_ids_def call_states_def call_sessions_def

lemma views_frame [simp]:
  "call_ids (scm\<lparr>sip_tasks := x_sip_tasks\<rparr>) = call_ids scm" "call_ids (scm\<lparr>sip_log := x_sip_log\<rparr>) = call_ids scm" "call_ids (scm\<lparr>activeCalls := x_activeCalls\<rparr>) = call_ids scm" "call_ids (scm\<lparr>cancelCallCount := x_cancelCallCount\<rparr>) = call_ids scm"
  "call_ids (scm\<lparr>onCallRejected := x_onCallRejected\<rparr>) = call_ids scm" "call_ids (scm\<lparr>onCallAccepted := x_onCallAccepted\<rparr>) = call_ids scm" "call_ids (scm\<lparr>sip_network := x_sip_network\<rparr>) = call_ids scm"
  "call_states (scm\<lparr>sip_tasks := x_sip_tasks\<rparr>) = call_states scm" "call_states (scm\<lparr>sip_log := x_sip_log\<rparr>) = call_states scm" "call_states (scm\<lparr>activeCalls := x_activeCalls\<rparr>) = call_states scm" "call_states (scm\<lparr>cancelCallCount := x_cancelCallCount\<rparr>) = call_states scm"
  "call_states (scm\<lparr>onCallRejected := x_onCallRejected\<rparr>) = call_states scm" "call_states (scm\<lparr>onCallAccepted := x_onCallAccepted\<rparr>) = call_states scm" "call_states (scm\<lparr>sip_network := x_sip_network\<rparr>) = call_states scm"
  "call_sessions (scm\<lparr>sip_tasks := x_sip_tasks\<rparr>) = call_sessions scm" "call_sessions (scm\<lparr>sip_log := x_sip_log\<rparr>) = call_sessions scm" "call_sessions (scm\<lparr>activeCalls := x_activeCalls\<rparr>) = call_sessions scm" "call_sessions (scm\<lparr>cancelCallCount := x_cancelCallCount\<rparr>) = call_sessions scm"
  "call_sessions (scm\<lparr>onCallRejected := x_onCallRejected\<rparr>) = call_sessions scm" "call_sessions (scm\<lparr>onCallAccepted := x_onCallAccepted\<rparr>) = call_sessions scm" "call_sessions (scm\<lparr>sip_network := x_sip_network\<rparr>) = call_sessions scm"
  by (simp_all add: sip_views)

lemma map_list_update_same: "p < length xs \<Longrightarrow> f y = f (xs ! p) \<Longrightarrow> map f (xs[p := y]) = map f xs"
  by (simp add: map_update list_update_same_conv)

lemma map_update_call: "(\<And>c. g (f c) = g c) \<Longrightarrow> map g (sip_calls (update_call f p scm)) = map g (sip_calls scm)"
  by (cases "p < length (sip_calls scm)") (simp_all add: update_call_def map_list_update_same list_update_beyond)

lemma update_call_frame [simp]:
  "activeCalls (update_call f p scm) = activeCalls scm" "sip_tasks (update_call f p scm) = sip_tasks scm"
  "sip_log (update_call f p scm) = sip_log scm" "sip_network (update_call f p scm) = sip_network scm"
  "sip_session_name (update_call f p scm) = sip_session_name scm"
  "onCallRejected (update_call f p scm) = onCallRejected scm" "onCallAccepted (update_call f p scm) = onCallAccepted scm"
  "length (sip_calls (update_call f p scm)) = length (sip_calls scm)"
  by (simp_all add: update_call_def)

lemma cleanupCall_views:
  "call_ids (cleanupCall scm callID) = call_ids scm" "call_states (cleanupCall scm callID) = call_states scm"
  "call_sessions (cleanupCall scm callID) = call_sessions scm" "sip_tasks (cleanupCall scm callID) = sip_tasks scm"
  "sip_log (cleanupCall scm callID) = sip_log scm"
  "activeCalls (cleanupCall scm callID) = AList.delete callID (activeCalls scm)"
proof -
  have "map_of (activeCalls scm) callID = None \<Longrightarrow> AList.delete callID (activeCalls scm) = activeCalls scm"
    by (simp add: AList.delete_idem map_of_eq_None_iff)
  then show "activeCalls (cleanupCall scm callID) = AList.delete callID (activeCalls scm)"
    by (simp add: cleanupCall_def resetCancelCallCount_def split: option.split)
qed (simp_all add: cleanupCall_def resetCancelCallCount_def sip_views map_update_call split: option.split)

lemma updateCallState_views:
  "call_ids (updateCallState now scm callID st) = call_ids scm"
  "call_sessions (updateCallState now scm callID st) = call_sessions scm"
  "activeCalls (updateCallState now scm callID st) = activeCalls scm" "sip_tasks (updateCallState now scm callID st) = sip_tasks scm"
  "sip_log (updateCallState now scm callID st) = sip_log scm"
  "onCallRejected (updateCallState now scm callID st) = onCallRejected scm"
  "onCallAccepted (updateCallState now scm callID st) = onCallAccepted scm"
  "call_states (updateCallState now scm callID st) =
     (case map_of (activeCalls scm) callID of None \<Rightarrow> call_states scm | Some p \<Rightarrow> (call_states scm)[p := st])"
  by (simp_all add: updateCallState_def call_ids_def call_sessions_def map_update_call split: option.split)
    (simp add: call_states_def update_call_def map_update split: option.split)


lemma dialogs_simps [simp]: "dialogs [] = []" "dialogs (t # ts) = task_dialog t @ dialogs ts" "dialogs (ts @ us) = dialogs ts @ dialogs us"
  by (simp_all add: dialogs_def)

lemma answered_simps [simp]: "answered [] = []" "answered (e # l) = event_answer e @ answered l" "answered (l @ m) = answered l @ answered m"
  by (simp_all add: answered_def)

lemma dialogs_member: "t \<in> set ts \<Longrightarrow> set (task_dialog t) \<subseteq> set (dialogs ts)"
  by (auto simp: dialogs_def)

lemma dialogs_remove:
  "t \<in> set ts \<Longrightarrow> task_dialog t = [p] \<Longrightarrow> distinct (dialogs ts) \<Longrightarrow>
   distinct (dialogs (remove1 t ts)) \<and> set (dialogs (remove1 t ts)) = set (dialogs ts) - {p}"
proof (induction ts)
  case (Cons a ts)
  show ?case
  proof (cases "a = t")
    case False
    then have "t \<in> set ts" using Cons.prems(1) by simp
    moreover have "p \<in> set (dialogs ts)" using dialogs_member [OF calculation] Cons.prems(2) by simp
    ultimately show ?thesis using Cons False by auto
  qed (use Cons in auto)
qed simp

lemma dialogs_remove_cancel: "dialogs (remove1 (CancelPending p callID) ts) = dialogs ts"
  by (induction ts) auto

lemma was_invited_append: "was_invited (l @ m) p \<longleftrightarrow> was_invited l p \<or> was_invited m p"
  by (auto simp: was_invited_def)

lemma was_invited_simps [simp]:
  "\<not> was_invited [] p" "was_invited (e # l) p \<longleftrightarrow> (\<exists>i. e = InviteSent p i) \<or> was_invited l p"
  by (auto simp: was_invited_def)

lemma event_ok_more: "event_ok ids l e \<Longrightarrow> event_ok (ids @ cs) (l @ m) e"
  by (cases e) (auto simp: nth_append was_invited_append)

lemma task_ok_more: "task_ok ids act l t \<Longrightarrow> task_ok ids act (l @ m) t"
  by (cases t) (auto simp: was_invited_append)

lemma task_ok_delete: "task_ok ids act l t \<Longrightarrow> task_ok ids (AList.delete callID act) l t"
  by (cases t) (auto simp: alist_map_of_delete)

text \<open>A dialog ends: its task goes, and with it whatever the table holds under the id of its call.\<close>

lemma inv_ends:
  assumes "sip_inv ids sts ses act ts l" "t \<in> set ts" "task_dialog t = [p]"
    "\<And>q. q \<noteq> p \<Longrightarrow> sts' ! q = sts ! q \<or> map_of act (fst (ids ! p)) = Some q" "length sts' = length sts"
    "m = [] \<or> m = [CallRejected p (fst (ids ! p)) (fst (snd (ids ! p))) (snd (snd (ids ! p)))] \<and> was_invited l p"
  shows "sip_inv ids sts' ses (AList.delete (fst (ids ! p)) act) (remove1 t ts) (l @ m)"
proof -
  note i = assms(1) [unfolded sip_inv_def]
  have d: "distinct (dialogs (remove1 t ts))" "set (dialogs (remove1 t ts)) = set (dialogs ts) - {p}"
    using dialogs_remove [OF assms(2,3)] i by blast+
  have lt: "p < length ids" using i assms(2,3) by (cases t) force+
  have "q < length ids \<and> fst (ids ! q) = callID \<and> (q \<in> set (dialogs (remove1 t ts)) \<or> sts' ! q = CallStateAccepted)"
    if "(callID, q) \<in> set (AList.delete (fst (ids ! p)) act)" for callID q
  proof -
    have q: "(callID, q) \<in> set act" "callID \<noteq> fst (ids ! p)" using that by (auto simp: set_delete)
    then have r: "q < length ids" "fst (ids ! q) = callID" "q \<in> set (dialogs ts) \<or> sts ! q = CallStateAccepted" using i by auto
    then have "q \<noteq> p" using q(2) by auto
    moreover have "map_of act (fst (ids ! p)) \<noteq> Some q" using q r(2) i by (auto dest: map_of_SomeD)
    ultimately show ?thesis using r assms(4) [of q] unfolding d(2) by auto
  qed
  then have act: "\<forall>(callID, q)\<in>set (AList.delete (fst (ids ! p)) act). q < length ids \<and> fst (ids ! q) = callID \<and>
      (q \<in> set (dialogs (remove1 t ts)) \<or> sts' ! q = CallStateAccepted)" by (intro ballI case_prodI2) blast
  have p: "p \<notin> set (answered l)" "set (answered l) \<inter> set (dialogs ts) = {}" "distinct (answered l)"
    using i dialogs_member [OF assms(2)] assms(3) by auto
  have m: "set (answered m) \<subseteq> {p}" "distinct (answered m)" using assms(6) by auto
  have events: "\<forall>e\<in>set (l @ m). event_ok ids (l @ m) e"
    using i event_ok_more [of ids l _ "[]" m] assms(6) lt by (auto simp: was_invited_append)
  have tasks: "\<forall>t\<in>set (remove1 t ts). task_ok ids (AList.delete (fst (ids ! p)) act) (l @ m) t"
    using i set_remove1_subset [of t ts] by (auto intro!: task_ok_more task_ok_delete)
  have one: "\<forall>a b i j. InvitePending a i \<in> set (remove1 t ts) \<and> InvitePending b j \<in> set (remove1 t ts) \<longrightarrow> a = b"
    using i set_remove1_subset [of t ts] by blast
  have rest: "length sts' = length ids" "length ses = length ids" "distinct (map fst (AList.delete (fst (ids ! p)) act))"
    using i assms(5) by (simp_all add: AList.distinct_delete)
  have ans: "distinct (answered (l @ m))" "set (answered (l @ m)) \<inter> set (dialogs (remove1 t ts)) = {}"
    "\<forall>q\<in>set (answered (l @ m)). q < length ids"
    using p m d(2) i lt by auto
  have "\<forall>q<length ids. ses ! q \<longrightarrow> was_invited (l @ m) q" using i by (simp add: was_invited_append)
  then show ?thesis unfolding sip_inv_def using act d(1) events tasks one rest ans by blast
qed

lemma inv_accepts:
  assumes "sip_inv ids sts ses act ts l" "MonitorDialog p \<in> set ts"
    "m = [] \<or> m = [CallAccepted p (fst (ids ! p)) (fst (snd (ids ! p))) (snd (snd (ids ! p)))]"
  shows "sip_inv ids (case map_of act (fst (ids ! p)) of None \<Rightarrow> sts | Some q \<Rightarrow> sts[q := CallStateAccepted]) ses act
    (remove1 (MonitorDialog p) ts) (l @ m @ [AckSent p])"
proof -
  note i = assms(1) [unfolded sip_inv_def]
  let ?ts = "remove1 (MonitorDialog p) ts"
  let ?sts = "case map_of act (fst (ids ! p)) of None \<Rightarrow> sts | Some q \<Rightarrow> sts[q := CallStateAccepted]"
  have d: "distinct (dialogs ?ts)" "set (dialogs ?ts) = set (dialogs ts) - {p}"
    using dialogs_remove [OF assms(2)] i by auto
  have lt: "p < length ids" "was_invited l p" using i assms(2) by force+
  have "q < length ids \<and> fst (ids ! q) = callID \<and> (q \<in> set (dialogs ?ts) \<or> ?sts ! q = CallStateAccepted)"
    if q: "(callID, q) \<in> set act" for callID q
  proof -
    have r: "q < length ids" "fst (ids ! q) = callID" "q \<in> set (dialogs ts) \<or> sts ! q = CallStateAccepted" using i q by auto
    have "map_of act callID = Some q" using q i by simp
    then have "q = p \<Longrightarrow> ?sts ! q = CallStateAccepted" using r i by auto
    moreover have "sts ! q = CallStateAccepted \<Longrightarrow> ?sts ! q = CallStateAccepted"
      using r(1) i by (auto simp: nth_list_update split: option.split)
    ultimately show ?thesis using r unfolding d(2) by blast
  qed
  then have act: "\<forall>(callID, q)\<in>set act. q < length ids \<and> fst (ids ! q) = callID \<and>
      (q \<in> set (dialogs ?ts) \<or> ?sts ! q = CallStateAccepted)" by (intro ballI case_prodI2) blast
  have p: "p \<notin> set (answered l)" "set (answered l) \<inter> set (dialogs ts) = {}" "distinct (answered l)"
    using i dialogs_member [OF assms(2)] by auto
  have m: "set (answered (m @ [AckSent p])) \<subseteq> {p}" "distinct (answered (m @ [AckSent p]))" using assms(3) by auto
  have events: "\<forall>e\<in>set (l @ m @ [AckSent p]). event_ok ids (l @ m @ [AckSent p]) e"
    using i event_ok_more [of ids l _ "[]" "m @ [AckSent p]"] assms(3) lt by (auto simp: was_invited_append)
  have tasks: "\<forall>t\<in>set ?ts. task_ok ids act (l @ m @ [AckSent p]) t"
    using i set_remove1_subset [of "MonitorDialog p" ts] by (auto intro!: task_ok_more)
  have one: "\<forall>a b i j. InvitePending a i \<in> set ?ts \<and> InvitePending b j \<in> set ?ts \<longrightarrow> a = b"
    using i set_remove1_subset [of "MonitorDialog p" ts] by blast
  have rest: "length ?sts = length ids" "length ses = length ids" "distinct (map fst act)"
    using i by (simp_all split: option.split)
  have ans: "distinct (answered (l @ m @ [AckSent p]))" "set (answered (l @ m @ [AckSent p])) \<inter> set (dialogs ?ts) = {}"
    "\<forall>q\<in>set (answered (l @ m @ [AckSent p])). q < length ids"
    using p m d(2) i lt by auto
  have "\<forall>q<length ids. ses ! q \<longrightarrow> was_invited (l @ m @ [AckSent p]) q" using i by (simp add: was_invited_append)
  then show ?thesis unfolding sip_inv_def using act d(1) events tasks one rest ans by blast
qed


lemma inv_invited:
  assumes "sip_inv ids sts ses act ts l" "InvitePending p i \<in> set ts"
  shows "sip_inv ids (case map_of act (inv_CallID i) of None \<Rightarrow> sts | Some q \<Rightarrow> sts[q := CallStateInviting]) (ses[p := True]) act
    (remove1 (InvitePending p i) ts @ [MonitorDialog p]) (l @ [InviteSent p i])"
proof -
  note o = assms(1) [unfolded sip_inv_def]
  let ?ts = "remove1 (InvitePending p i) ts"
  let ?sts = "case map_of act (inv_CallID i) of None \<Rightarrow> sts | Some q \<Rightarrow> sts[q := CallStateInviting]"
  have d: "distinct (dialogs ?ts)" "set (dialogs ?ts) = set (dialogs ts) - {p}"
    using dialogs_remove [OF assms(2)] o by auto
  have t: "p < length ids" "invite_of (ids ! p) i" "map_of act (inv_CallID i) = None \<or> map_of act (inv_CallID i) = Some p"
    using o assms(2) by force+
  have in_ts: "p \<in> set (dialogs ts)" using dialogs_member [OF assms(2)] by simp
  have "q < length ids \<and> fst (ids ! q) = callID \<and> (q \<in> set (dialogs (?ts @ [MonitorDialog p])) \<or> ?sts ! q = CallStateAccepted)"
    if q: "(callID, q) \<in> set act" for callID q
  proof -
    have r: "q < length ids" "fst (ids ! q) = callID" "q \<in> set (dialogs ts) \<or> sts ! q = CallStateAccepted" using o q by auto
    show ?thesis
    proof (cases "q = p")
      case False
      then have "?sts ! q = sts ! q" using t(3) by auto
      then show ?thesis using r d(2) False by (simp add: d(2))
    qed (use r in simp)
  qed
  then have act: "\<forall>(callID, q)\<in>set act. q < length ids \<and> fst (ids ! q) = callID \<and>
      (q \<in> set (dialogs (?ts @ [MonitorDialog p])) \<or> ?sts ! q = CallStateAccepted)" by (intro ballI case_prodI2) blast
  have events: "\<forall>e\<in>set (l @ [InviteSent p i]). event_ok ids (l @ [InviteSent p i]) e"
    using o event_ok_more [of ids l _ "[]" "[InviteSent p i]"] t by auto
  have tasks: "\<forall>t\<in>set (?ts @ [MonitorDialog p]). task_ok ids act (l @ [InviteSent p i]) t"
    using o t(1) set_remove1_subset [of "InvitePending p i" ts] by (auto intro!: task_ok_more simp: was_invited_append)
  have one: "\<forall>a b i j. InvitePending a i \<in> set (?ts @ [MonitorDialog p]) \<and> InvitePending b j \<in> set (?ts @ [MonitorDialog p]) \<longrightarrow> a = b"
  proof -
    have "InvitePending a x \<in> set (?ts @ [MonitorDialog p]) \<Longrightarrow> InvitePending a x \<in> set ts" for a x
      using set_remove1_subset [of "InvitePending p i" ts] by auto
    then show ?thesis using o by blast
  qed
  have rest: "length ?sts = length ids" "length (ses[p := True]) = length ids" "distinct (map fst act)"
    using o by (simp_all split: option.split)
  have ans: "distinct (answered (l @ [InviteSent p i]))" "set (answered (l @ [InviteSent p i])) \<inter> set (dialogs (?ts @ [MonitorDialog p])) = {}"
    "\<forall>q\<in>set (answered (l @ [InviteSent p i])). q < length ids" "distinct (dialogs (?ts @ [MonitorDialog p]))"
    using d in_ts o by auto
  have "\<forall>q<length ids. ses[p := True] ! q \<longrightarrow> was_invited (l @ [InviteSent p i]) q"
    using o by (auto simp: was_invited_append nth_list_update)
  then show ?thesis unfolding sip_inv_def using act events tasks one rest ans by blast
qed

lemma inv_registers:
  assumes "sip_inv ids sts ses act ts l" "\<forall>p i. InvitePending p i \<notin> set ts" "map_of act (inv_CallID i) = None" "invite_of c i"
  shows "sip_inv (ids @ [c]) (sts @ [st]) (ses @ [False]) (AList.update (inv_CallID i) (length ids) act)
    (ts @ [InvitePending (length ids) i]) l"
proof -
  note o = assms(1) [unfolded sip_inv_def]
  let ?n = "length ids" and ?ts = "ts @ [InvitePending (length ids) i]" and ?act = "AList.update (inv_CallID i) (length ids) act"
  have bound: "\<forall>t\<in>set ts. \<forall>p\<in>set (task_dialog t). p < ?n"
  proof
    fix t assume "t \<in> set ts"
    then have "task_ok ids act l t" using o by blast
    then show "\<forall>p\<in>set (task_dialog t). p < ?n" by (cases t) simp_all
  qed
  then have fresh: "?n \<notin> set (dialogs ts)" by (auto simp: dialogs_def)
  have "q < length (ids @ [c]) \<and> fst ((ids @ [c]) ! q) = callID \<and> (q \<in> set (dialogs ?ts) \<or> (sts @ [st]) ! q = CallStateAccepted)"
    if q: "(callID, q) \<in> set ?act" for callID q
  proof (cases "q = ?n \<and> callID = inv_CallID i")
    case True
    then show ?thesis using assms(4) by (simp add: invite_of_def)
  next
    case False
    then have "(callID, q) \<in> set act" using q set_update [of act "inv_CallID i" ?n] o by auto
    then have "q < ?n" "fst (ids ! q) = callID" "q \<in> set (dialogs ts) \<or> sts ! q = CallStateAccepted" using o by auto
    then show ?thesis using o by (auto simp: nth_append)
  qed
  then have act: "\<forall>(callID, q)\<in>set ?act. q < length (ids @ [c]) \<and> fst ((ids @ [c]) ! q) = callID \<and>
      (q \<in> set (dialogs ?ts) \<or> (sts @ [st]) ! q = CallStateAccepted)" by (intro ballI case_prodI2) blast
  have events: "\<forall>e\<in>set l. event_ok (ids @ [c]) l e" using o event_ok_more [of ids l _ "[c]" "[]"] by auto
  have "task_ok (ids @ [c]) ?act l t" if t: "t \<in> set ts" for t
  proof -
    have "task_ok ids act l t" using o t by blast
    then show ?thesis using t assms(2) by (cases t) (auto simp: nth_append)
  qed
  then have tasks: "\<forall>t\<in>set ?ts. task_ok (ids @ [c]) ?act l t" using assms(4) by (auto simp: alist_map_of_update)
  have one: "\<forall>a b i j. InvitePending a i \<in> set ?ts \<and> InvitePending b j \<in> set ?ts \<longrightarrow> a = b" using assms(2) by auto
  have rest: "length (sts @ [st]) = length (ids @ [c])" "length (ses @ [False]) = length (ids @ [c])" "distinct (map fst ?act)"
    using o by (simp_all add: AList.distinct_update)
  have ans: "distinct (answered l)" "set (answered l) \<inter> set (dialogs ?ts) = {}" "\<forall>q\<in>set (answered l). q < length (ids @ [c])"
    "distinct (dialogs ?ts)"
    using fresh o by auto
  have "\<forall>q<length (ids @ [c]). (ses @ [False]) ! q \<longrightarrow> was_invited l q"
    using o by (auto simp: nth_append less_Suc_eq)
  then show ?thesis unfolding sip_inv_def using act events tasks one rest ans by blast
qed

lemma inv_cancel:
  assumes "sip_inv ids sts ses act ts l" "map_of act callID = Some p"
  shows "sip_inv ids sts ses act (ts @ [CancelPending p callID]) l"
proof -
  note o = assms(1) [unfolded sip_inv_def]
  have "p < length ids" "fst (ids ! p) = callID" using o map_of_SomeD [OF assms(2)] by auto
  then show ?thesis using assms(1) unfolding sip_inv_def by auto
qed

lemma inv_cancelled:
  assumes "sip_inv ids sts ses act ts l" "CancelPending p callID \<in> set ts" "m = [] \<or> m = [ByeSent p] \<and> was_invited l p"
  shows "sip_inv ids sts ses (AList.delete callID act) (remove1 (CancelPending p callID) ts) (l @ m)"
proof -
  note o = assms(1) [unfolded sip_inv_def]
  let ?ts = "remove1 (CancelPending p callID) ts"
  have act: "\<forall>(callID, q)\<in>set (AList.delete callID act). q < length ids \<and> fst (ids ! q) = callID \<and>
      (q \<in> set (dialogs ?ts) \<or> sts ! q = CallStateAccepted)"
    using o by (auto simp: set_delete dialogs_remove_cancel)
  have events: "\<forall>e\<in>set (l @ m). event_ok ids (l @ m) e"
    using o event_ok_more [of ids l _ "[]" m] assms(3) by (auto simp: was_invited_append)
  have tasks: "\<forall>t\<in>set ?ts. task_ok ids (AList.delete callID act) (l @ m) t"
    using o set_remove1_subset [of "CancelPending p callID" ts] by (auto intro!: task_ok_more task_ok_delete)
  have one: "\<forall>a b i j. InvitePending a i \<in> set ?ts \<and> InvitePending b j \<in> set ?ts \<longrightarrow> a = b"
    using o set_remove1_subset [of "CancelPending p callID" ts] by blast
  have rest: "length sts = length ids" "length ses = length ids" "distinct (map fst (AList.delete callID act))"
    using o by (simp_all add: AList.distinct_delete)
  have ans: "distinct (answered (l @ m))" "set (answered (l @ m)) \<inter> set (dialogs ?ts) = {}"
    "\<forall>q\<in>set (answered (l @ m)). q < length ids" "distinct (dialogs ?ts)"
    using o assms(3) by (auto simp: dialogs_remove_cancel)
  have "\<forall>q<length ids. ses ! q \<longrightarrow> was_invited (l @ m) q" using o by (auto simp: was_invited_append)
  then show ?thesis unfolding sip_inv_def using act events tasks one rest ans by blast
qed


lemma ensure_network_views:
  "ensure_network env scm = (scm', err) \<Longrightarrow>
   sip_calls scm' = sip_calls scm \<and> activeCalls scm' = activeCalls scm \<and> sip_tasks scm' = sip_tasks scm \<and> sip_log scm' = sip_log scm"
  by (auto simp: ensure_network_def split: if_splits prod.splits)

lemma getOrGenerateCallTag_views:
  "getOrGenerateCallTag tag scm callID = (scm', t) \<Longrightarrow>
   call_ids scm' = call_ids scm \<and> call_states scm' = call_states scm \<and> call_sessions scm' = call_sessions scm \<and>
   activeCalls scm' = activeCalls scm \<and> sip_tasks scm' = sip_tasks scm \<and> sip_log scm' = sip_log scm"
  by (auto simp: getOrGenerateCallTag_def sip_views map_update_call split: option.splits if_splits)

lemma begin_refused:
  "InitiateCall_begin env now tag scm callID f t = (scm', Inl answer) \<Longrightarrow>
   sip_calls scm' = sip_calls scm \<and> activeCalls scm' = activeCalls scm \<and> sip_tasks scm' = sip_tasks scm \<and> sip_log scm' = sip_log scm"
  by (auto simp: InitiateCall_begin_def build_invite_def dest: ensure_network_views split: option.splits prod.splits)

lemma begin_invites:
  assumes "InitiateCall_begin env now tag scm callID f t = (scm', Inr (p, i))"
  shows "p = length (call_ids scm)" "inv_CallID i = callID" "invite_of (callID, f, t) i" "map_of (activeCalls scm) callID = None"
    "call_ids scm' = call_ids scm @ [(callID, f, t)]" "call_states scm' = call_states scm @ [CallStateInitiated]"
    "call_sessions scm' = call_sessions scm @ [False]"
    "activeCalls scm' = AList.update callID (length (call_ids scm)) (activeCalls scm)"
    "sip_tasks scm' = sip_tasks scm" "sip_log scm' = sip_log scm"
proof -
  have none: "map_of (activeCalls scm) callID = None"
    using assms by (auto simp: InitiateCall_begin_def split: option.splits)
  obtain s1 where n: "ensure_network env scm = (s1, None)" and
    b: "build_invite now tag (register_call (new_call now callID f t) s1) callID f t = (scm', i)" and p: "p = length (sip_calls s1)"
    using assms none by (auto simp: InitiateCall_begin_def split: option.splits prod.splits)
  obtain tg where g: "getOrGenerateCallTag tag (register_call (new_call now callID f t) s1) callID = (scm', tg)"
    using b by (auto simp: build_invite_def split: prod.splits)
  note v = ensure_network_views [OF n] getOrGenerateCallTag_views [OF g]
  show "map_of (activeCalls scm) callID = None" by (rule none)
  show "p = length (call_ids scm)" using p v by (simp add: call_ids_def)
  show "inv_CallID i = callID" "invite_of (callID, f, t) i"
    using b g by (auto simp: build_invite_def invite_of_def SetFromHeader_def GetRecipient_def)
  show "call_ids scm' = call_ids scm @ [(callID, f, t)]" "call_states scm' = call_states scm @ [CallStateInitiated]"
    "call_sessions scm' = call_sessions scm @ [False]"
    "activeCalls scm' = AList.update callID (length (call_ids scm)) (activeCalls scm)"
    "sip_tasks scm' = sip_tasks scm" "sip_log scm' = sip_log scm"
    using v by (simp_all add: sip_views register_call_def new_call_def)
qed

lemma end_views:
  "fst (InitiateCall_end now (Some err) scm p i) = cleanupCall scm (inv_CallID i)"
  "call_ids (fst (InitiateCall_end now None scm p i)) = call_ids scm"
  "p < length (call_ids scm) \<Longrightarrow> call_sessions (fst (InitiateCall_end now None scm p i)) = (call_sessions scm)[p := True]"
  "call_states (fst (InitiateCall_end now None scm p i)) = call_states (updateCallState now scm (inv_CallID i) CallStateInviting)"
  "activeCalls (fst (InitiateCall_end now None scm p i)) = activeCalls scm"
  "sip_tasks (fst (InitiateCall_end now None scm p i)) = sip_tasks scm @ [MonitorDialog p]"
  "sip_log (fst (InitiateCall_end now None scm p i)) = sip_log scm @ [InviteSent p i]"
proof -
  let ?u = "updateCallState now scm (inv_CallID i) CallStateInviting"
  let ?v = "update_call (ci_DialogSession_update (\<lambda>_. Some i)) p ?u"
  have e: "fst (InitiateCall_end now None scm p i) = ?v\<lparr>sip_tasks := sip_tasks scm @ [MonitorDialog p], sip_log := sip_log scm @ [InviteSent p i]\<rparr>"
    by (simp add: InitiateCall_end_def Let_def updateCallState_views)
  show "fst (InitiateCall_end now (Some err) scm p i) = cleanupCall scm (inv_CallID i)"
    by (simp add: InitiateCall_end_def)
  have "call_ids ?v = call_ids ?u" "call_states ?v = call_states ?u" by (simp_all add: sip_views map_update_call)
  then show "call_ids (fst (InitiateCall_end now None scm p i)) = call_ids scm"
    "call_states (fst (InitiateCall_end now None scm p i)) = call_states ?u"
    unfolding e using updateCallState_views(1) [of now scm "inv_CallID i" CallStateInviting] by (simp_all add: call_ids_def call_states_def)
  show "p < length (call_ids scm) \<Longrightarrow> call_sessions (fst (InitiateCall_end now None scm p i)) = (call_sessions scm)[p := True]"
    using updateCallState_views(2) [of now scm "inv_CallID i" CallStateInviting]
    unfolding e by (simp add: call_sessions_def update_call_def map_update)
qed (simp_all add: InitiateCall_end_def Let_def updateCallState_views)

lemma sip_step_ok:
  assumes "sip_step scm scm'" "sip_ok scm"
  shows "sip_ok scm'"
  using assms
proof cases
  case (refused env now tag callID f t answer)
  then show ?thesis using assms(2) begin_refused [OF refused(2)] by (simp add: sip_ok_def sip_views)
next
  case (invites env now tag callID f t s p i)
  note b = begin_invites [OF invites(3)]
  show ?thesis
    using inv_registers [OF assms(2) [unfolded sip_ok_def] invites(2), of i "(callID, f, t)" CallStateInitiated] b
    unfolding sip_ok_def invites(1) by simp
next
  case (invited p i now result)
  let ?s = "scm\<lparr>sip_tasks := remove1 (InvitePending p i) (sip_tasks scm)\<rparr>"
  note o = assms(2) [unfolded sip_ok_def]
  have t: "p < length (call_ids scm)" "invite_of (call_ids scm ! p) i" using o invited(2) unfolding sip_inv_def by force+
  show ?thesis
  proof (cases result)
    case None
    show ?thesis
      using inv_invited [OF o invited(2)] t unfolding sip_ok_def invited(1) None
      by (simp add: end_views updateCallState_views cong: option.case_cong)
  next
    case (Some err)
    have "fst (call_ids scm ! p) = inv_CallID i" using t(2) by (simp add: invite_of_def)
    then show ?thesis
      using inv_ends [OF o invited(2), of p "call_states scm" "[]"] unfolding sip_ok_def invited(1) Some
      by (simp add: end_views cleanupCall_views)
  qed
next
  case (answers p now result)
  let ?s = "scm\<lparr>sip_tasks := remove1 (MonitorDialog p) (sip_tasks scm)\<rparr>"
  note o = assms(2) [unfolded sip_ok_def]
  have t: "p < length (sip_calls scm)" "was_invited (sip_log scm) p"
    using o answers(2) unfolding sip_inv_def by (force simp: call_ids_def)+
  let ?c = "sip_calls scm ! p"
  have c: "call_ids scm ! p = (ci_CallID ?c, ci_FromPhone ?c, ci_ToPhone ?c)" using t(1) by (simp add: call_ids_def)
  show ?thesis
  proof (cases result)
    case None
    show ?thesis
      using inv_accepts [OF o answers(2), of "if onCallAccepted scm then [CallAccepted p (ci_CallID ?c) (ci_FromPhone ?c) (ci_ToPhone ?c)] else []"]
      unfolding sip_ok_def answers(1) None c
      by (simp add: monitorSipgoDialog_def Let_def updateCallState_views cong: option.case_cong if_cong)
  next
    case (Some err)
    let ?u = "updateCallState now ?s (ci_CallID ?c) CallStateRejected"
    have q: "q \<noteq> p \<Longrightarrow> call_states ?u ! q = call_states scm ! q \<or> map_of (activeCalls scm) (ci_CallID ?c) = Some q" for q
      by (cases "map_of (activeCalls scm) (ci_CallID ?c)") (auto simp: updateCallState_views)
    have l: "length (call_states ?u) = length (call_states scm)"
      by (simp add: updateCallState_views split: option.split)
    show ?thesis
      using inv_ends [OF o answers(2), of p "call_states ?u"
          "if rejected_text err \<and> onCallRejected scm then [CallRejected p (ci_CallID ?c) (ci_FromPhone ?c) (ci_ToPhone ?c)] else []"] q l t(2)
      unfolding sip_ok_def answers(1) Some c
      by (simp add: monitorSipgoDialog_def Let_def cleanupCall_views updateCallState_views split: if_split)
  qed
next
  case (cancels callID s found)
  have v: "call_ids s = call_ids scm" "call_states s = call_states scm" "call_sessions s = call_sessions scm"
    "activeCalls s = activeCalls scm" "sip_tasks s = sip_tasks scm" "sip_log s = sip_log scm" "found = map_of (activeCalls scm) callID"
    using cancels(2) by (auto simp: CancelCall_begin_def getCancelCallCount_def Let_def)
  show ?thesis
    using assms(2) inv_cancel [OF assms(2) [unfolded sip_ok_def], of callID] unfolding sip_ok_def cancels(1)
    by (simp add: v split: option.split)
next
  case (cancelled p callID)
  note o = assms(2) [unfolded sip_ok_def]
  let ?s = "scm\<lparr>sip_tasks := remove1 (CancelPending p callID) (sip_tasks scm)\<rparr>"
  have lt: "p < length (sip_calls scm)" using o cancelled(2) unfolding sip_inv_def by (force simp: call_ids_def)
  have "ci_DialogSession (sip_calls scm ! p) \<noteq> None \<Longrightarrow> was_invited (sip_log scm) p"
    using o lt unfolding sip_inv_def by (simp add: call_sessions_def call_ids_def)
  then show ?thesis
    using inv_cancelled [OF o cancelled(2), of "if ci_DialogSession (sip_calls scm ! p) \<noteq> None then [ByeSent p] else []"]
    unfolding sip_ok_def cancelled(1)
    by (cases "ci_DialogSession (sip_calls scm ! p)") (simp_all add: CancelCall_end_def cleanupCall_views)
next
  case (configured r a)
  then show ?thesis using assms(2) by (simp add: sip_ok_def sip_views SetCallRejectedHandler_def SetCallAcceptedHandler_def)
qed

lemma sip_reach_ok: "sip_reach scm \<Longrightarrow> sip_ok scm"
proof (induction rule: sip_reach.induct)
  case (start env created network sessionName snm scm)
  then show ?case
    by (auto simp: NewSIPCallManagerSipgo_def sip_ok_def sip_inv_def sip_views split: option.splits prod.splits if_splits)
qed (rule sip_step_ok)


lemma active_entry:
  "sip_ok scm \<Longrightarrow> (callID, p) \<in> set (activeCalls scm) \<Longrightarrow> p < length (call_ids scm) \<and> fst (call_ids scm ! p) = callID"
  unfolding sip_ok_def sip_inv_def by auto


text \<open>
  An active call is being invited, or awaits its answer, or is accepted; so once its dialog has ended a call
  is accepted or gone.
\<close>
theorem settled_calls_accepted:
  assumes "sip_reach scm" "(callID, p) \<in> set (activeCalls scm)"
  shows "ci_CallID (sip_calls scm ! p) = callID \<and>
    ((\<exists>i. InvitePending p i \<in> set (sip_tasks scm)) \<or> MonitorDialog p \<in> set (sip_tasks scm) \<or>
     ci_State (sip_calls scm ! p) = CallStateAccepted)"
proof -
  note o = sip_reach_ok [OF assms(1), unfolded sip_ok_def sip_inv_def]
  have "p < length (sip_calls scm)" "fst (call_ids scm ! p) = callID"
    "p \<in> set (dialogs (sip_tasks scm)) \<or> call_states scm ! p = CallStateAccepted"
    using o assms(2) by (auto simp: call_ids_def)
  moreover have "p \<in> set (task_dialog t) \<Longrightarrow> (\<exists>i. t = InvitePending p i) \<or> t = MonitorDialog p" for t by (cases t) auto
  ultimately show ?thesis by (auto simp: call_ids_def call_states_def dialogs_def)
qed


definition bye_of :: "(string \<times> nat) list \<Rightarrow> bool list \<Rightarrow> string \<Rightarrow> nat list" where
  "bye_of act ses callID = (case map_of act callID of Some p \<Rightarrow> if ses ! p then [p] else [] | None \<Rightarrow> [])"

lemma CancelCall_views:
  assumes "\<forall>(callID, p)\<in>set (activeCalls scm). p < length (sip_calls scm)"
  shows "activeCalls (CancelCall scm callID) = AList.delete callID (activeCalls scm)"
    "call_sessions (CancelCall scm callID) = call_sessions scm"
    "sip_log (CancelCall scm callID) = sip_log scm @ map ByeSent (bye_of (activeCalls scm) (call_sessions scm) callID)"
proof -
  let ?s = "fst (getCancelCallCount scm callID)"
  have v: "activeCalls ?s = activeCalls scm" "sip_log ?s = sip_log scm" "sip_calls ?s = sip_calls scm"
    by (simp_all add: getCancelCallCount_def Let_def)
  have c: "CancelCall scm callID = (case map_of (activeCalls scm) callID of None \<Rightarrow> ?s | Some p \<Rightarrow> CancelCall_end ?s p callID)"
    by (simp add: CancelCall_def CancelCall_begin_def split_beta v split: option.split)
  have e: "call_sessions ?s = call_sessions scm" by (simp add: call_sessions_def v)
  show "activeCalls (CancelCall scm callID) = AList.delete callID (activeCalls scm)"
  proof (cases "map_of (activeCalls scm) callID")
    case None
    then have "callID \<notin> fst ` set (activeCalls scm)" by (simp add: map_of_eq_None_iff)
    then show ?thesis using None by (simp add: c v AList.delete_idem)
  qed (simp add: c CancelCall_end_def cleanupCall_views v)
  show "call_sessions (CancelCall scm callID) = call_sessions scm"
    by (simp add: c e CancelCall_end_def cleanupCall_views split: option.split)
  show "sip_log (CancelCall scm callID) = sip_log scm @ map ByeSent (bye_of (activeCalls scm) (call_sessions scm) callID)"
  proof (cases "map_of (activeCalls scm) callID")
    case (Some p)
    then have "p < length (sip_calls scm)" using assms map_of_SomeD by fastforce
    then show ?thesis using Some by (simp add: c bye_of_def call_sessions_def CancelCall_end_def cleanupCall_views v)
  qed (simp add: c bye_of_def v)
qed

lemma cancel_all:
  "\<forall>(callID, p)\<in>set (activeCalls scm). p < length (sip_calls scm) \<Longrightarrow> distinct xs \<Longrightarrow>
   activeCalls (foldl CancelCall scm xs) = filter (\<lambda>e. fst e \<notin> set xs) (activeCalls scm) \<and>
   sip_log (foldl CancelCall scm xs) = sip_log scm @ map ByeSent (concat (map (bye_of (activeCalls scm) (call_sessions scm)) xs))"
proof (induction xs arbitrary: scm)
  case (Cons x xs)
  let ?s = "CancelCall scm x"
  note v = CancelCall_views [OF Cons.prems(1), of x]
  have len: "length (sip_calls ?s) = length (sip_calls scm)" using arg_cong [OF v(2), of length] by (simp add: call_sessions_def)
  have p: "\<forall>(callID, p)\<in>set (activeCalls ?s). p < length (sip_calls ?s)"
    using Cons.prems(1) unfolding v len by (auto simp: set_delete)
  have ih: "activeCalls (foldl CancelCall ?s xs) = filter (\<lambda>e. fst e \<notin> set xs) (activeCalls ?s)"
    "sip_log (foldl CancelCall ?s xs) = sip_log ?s @ map ByeSent (concat (map (bye_of (activeCalls ?s) (call_sessions ?s)) xs))"
    using Cons.IH [OF p] Cons.prems(2) by simp_all
  have same: "concat (map (bye_of (AList.delete x (activeCalls scm)) (call_sessions scm)) xs) =
      concat (map (bye_of (activeCalls scm) (call_sessions scm)) xs)"
    using Cons.prems(2) by (intro arg_cong [of _ _ concat]) (auto simp: bye_of_def alist_map_of_delete)
  have rest: "filter (\<lambda>e. fst e \<notin> set xs) (AList.delete x (activeCalls scm)) = filter (\<lambda>e. fst e \<notin> set (x # xs)) (activeCalls scm)"
    by (auto simp: AList.delete_eq intro!: filter_cong)
  show ?case using ih by (simp add: v same rest)
qed simp

lemma distinct_byes:
  "(\<And>callID p. map_of act callID = Some p \<Longrightarrow> f p = callID) \<Longrightarrow> distinct xs \<Longrightarrow> distinct (concat (map (bye_of act ses) xs))"
proof (induction xs)
  case (Cons x xs)
  have "p \<in> set (bye_of act ses y) \<Longrightarrow> f p = y" for p y
    using Cons.prems(1) by (auto simp: bye_of_def split: option.splits if_splits)
  then have "p \<in> set (bye_of act ses x) \<Longrightarrow> y \<in> set xs \<Longrightarrow> p \<notin> set (bye_of act ses y)" for p y
    using Cons.prems(2) by (metis distinct.simps(2))
  then have "set (bye_of act ses x) \<inter> set (concat (map (bye_of act ses) xs)) = {}" by auto
  moreover have "distinct (bye_of act ses x)" by (simp add: bye_of_def split: option.split)
  ultimately show ?case using Cons by simp
qed simp

text \<open>
  C35. Stopping the manager ends every call: the table is empty afterwards, each call with a dialog is sent one
  BYE, and no other call is sent any.
\<close>
theorem stop_hangs_up:
  assumes "sip_reach scm" "isRunning m" "callManagerSipgo m = Some scm" "distinct (order (GetActiveCalls scm))"
    "set (order (GetActiveCalls scm)) = set (GetActiveCalls scm)"
  shows "\<exists>m' scm' byes. proxy_Stop order m = Some (m', None) \<and> \<not> isRunning m' \<and> callManagerSipgo m' = Some scm' \<and>
    activeCalls scm' = [] \<and> sip_log scm' = sip_log scm @ map ByeSent byes \<and> distinct byes \<and>
    set byes = {p. \<exists>callID. (callID, p) \<in> set (activeCalls scm) \<and> ci_DialogSession (sip_calls scm ! p) \<noteq> None}"
proof -
  note o = sip_reach_ok [OF assms(1), unfolded sip_ok_def sip_inv_def]
  let ?xs = "order (GetActiveCalls scm)" and ?act = "activeCalls scm" and ?ses = "call_sessions scm"
  let ?byes = "concat (map (bye_of ?act ?ses) ?xs)"
  have ptr: "\<forall>(callID, p)\<in>set ?act. p < length (sip_calls scm)"
    using active_entry [OF sip_reach_ok [OF assms(1)]] by (auto simp: call_ids_def)
  have dis: "distinct (map fst ?act)" using o by blast
  have key_of: "map_of ?act callID = Some p \<Longrightarrow> fst (call_ids scm ! p) = callID" for callID p
    using active_entry [OF sip_reach_ok [OF assms(1)]] map_of_SomeD by metis
  have xs: "set ?xs = fst ` set ?act" using assms(5) by (simp add: GetActiveCalls_def)
  have "proxy_Stop order m = Some (m\<lparr>callManagerSipgo := Some (foldl CancelCall scm ?xs), isRunning := False\<rparr>, None)"
    using assms(2,3) by (simp add: proxy_Stop_def)
  moreover have "activeCalls (foldl CancelCall scm ?xs) = []"
    using cancel_all [OF ptr assms(4)] xs by (auto simp: filter_empty_conv)
  moreover have "distinct ?byes" using distinct_byes [of ?act "\<lambda>p. fst (call_ids scm ! p)"] key_of assms(4) by blast
  moreover have "p \<in> set ?byes \<longleftrightarrow> (\<exists>callID. (callID, p) \<in> set ?act \<and> ci_DialogSession (sip_calls scm ! p) \<noteq> None)" for p
  proof -
    have "p \<in> set ?byes \<longleftrightarrow> (\<exists>callID\<in>fst ` set ?act. map_of ?act callID = Some p \<and> ?ses ! p)"
      unfolding xs [symmetric] by (auto simp: bye_of_def split: option.splits if_splits) force?
    also have "\<dots> \<longleftrightarrow> (\<exists>callID. (callID, p) \<in> set ?act \<and> ?ses ! p)"
      using dis by (auto dest: map_of_SomeD simp: image_iff) (metis fst_conv map_of_is_SomeI)
    also have "\<dots> \<longleftrightarrow> (\<exists>callID. (callID, p) \<in> set ?act \<and> ci_DialogSession (sip_calls scm ! p) \<noteq> None)"
      using ptr by (auto simp: call_sessions_def)
    finally show ?thesis .
  qed
  moreover have "sip_log (foldl CancelCall scm ?xs) = sip_log scm @ map ByeSent ?byes" using cancel_all [OF ptr assms(4)] by blast
  ultimately show ?thesis
    by (intro exI [of _ "m\<lparr>callManagerSipgo := Some (foldl CancelCall scm ?xs), isRunning := False\<rparr>"]
        exI [of _ "foldl CancelCall scm ?xs"] exI [of _ ?byes]) (simp add: set_eq_iff del: set_concat)
qed


section \<open>Runs\<close>

definition sample_network :: SIPProxyNetworkManagerSettings where
  "sample_network = \<lparr>StunServer = [], SIPServer = ''sip.example'', SIPPort = 5060, LocalPort = 5062, PublicIP = ''203.0.113.7'',
     LocalIP = ''10.0.0.7'', IsSTUNConfigured = True\<rparr>"

definition sample_net_env :: net_env where
  "sample_net_env = \<lparr>ne_route = Inr \<lparr>ip_text = ''10.0.0.7'', ip_v4 = True, ip_loopback = False\<rparr>, ne_interfaces = Inr [],
     ne_stun = (\<lambda>_. StunFailed ''down''), ne_dial = (\<lambda>_ _. Inr 5062)\<rparr>"

definition fresh_sip :: sip_manager where
  "fresh_sip = \<lparr>sip_network = sample_network, sip_session_name = ''-'', sip_calls = [], activeCalls = [], cancelCallCount = [],
     onCallRejected = True, onCallAccepted = True, sip_tasks = [], sip_log = []\<rparr>"

text \<open>A schedule names the steps to take; \<open>None\<close> when one of them is not possible.\<close>

datatype sip_move = Invites | Invited nat | Answers nat "string option" | Cancels | Cancelled nat

fun sip_run :: "sip_move list \<Rightarrow> sip_manager \<Rightarrow> sip_manager option" where
  "sip_run [] scm = Some scm"
| "sip_run (Invites # ms) scm =
     (if list_ex (\<lambda>t. case t of InvitePending _ _ \<Rightarrow> True | _ \<Rightarrow> False) (sip_tasks scm) then None
      else (case InitiateCall_begin sample_net_env 0 ''tag'' scm ''C1'' ''5521999998888'' ''100'' of
              (s, Inr (p, i)) \<Rightarrow> sip_run ms (s\<lparr>sip_tasks := sip_tasks s @ [InvitePending p i]\<rparr>)
            | _ \<Rightarrow> None))"
| "sip_run (Invited p # ms) scm =
     (case find (\<lambda>t. case t of InvitePending q _ \<Rightarrow> q = p | _ \<Rightarrow> False) (sip_tasks scm) of
        Some (InvitePending q i) \<Rightarrow>
          sip_run ms (fst (InitiateCall_end 0 None (scm\<lparr>sip_tasks := remove1 (InvitePending q i) (sip_tasks scm)\<rparr>) q i))
      | _ \<Rightarrow> None)"
| "sip_run (Answers p result # ms) scm =
     (if MonitorDialog p \<in> set (sip_tasks scm)
      then sip_run ms (monitorSipgoDialog 0 result (scm\<lparr>sip_tasks := remove1 (MonitorDialog p) (sip_tasks scm)\<rparr>) p) else None)"
| "sip_run (Cancels # ms) scm =
     (case CancelCall_begin scm ''C1'' of
        (s, found) \<Rightarrow> sip_run ms (s\<lparr>sip_tasks := sip_tasks s @ (case found of None \<Rightarrow> [] | Some p \<Rightarrow> [CancelPending p ''C1''])\<rparr>))"
| "sip_run (Cancelled p # ms) scm =
     (if CancelPending p ''C1'' \<in> set (sip_tasks scm)
      then sip_run ms (CancelCall_end (scm\<lparr>sip_tasks := remove1 (CancelPending p ''C1'') (sip_tasks scm)\<rparr>) p ''C1'') else None)"

lemma sip_run_reach: "sip_reach scm \<Longrightarrow> sip_run ms scm = Some scm' \<Longrightarrow> sip_reach scm'"
proof (induction ms scm rule: sip_run.induct)
  case (2 ms scm)
  obtain s p i where b: "InitiateCall_begin sample_net_env 0 ''tag'' scm ''C1'' ''5521999998888'' ''100'' = (s, Inr (p, i))"
    and free: "\<not> list_ex (\<lambda>t. case t of InvitePending _ _ \<Rightarrow> True | _ \<Rightarrow> False) (sip_tasks scm)"
    using 2(3) by (auto split: if_splits prod.splits sum.splits)
  then have "\<forall>p i. InvitePending p i \<notin> set (sip_tasks scm)" by (auto simp: list_ex_iff)
  then have "sip_reach (s\<lparr>sip_tasks := sip_tasks s @ [InvitePending p i]\<rparr>)" using sip_reach.more [OF 2(2)] sip_step.invites b by blast
  then show ?case using 2 b free by simp
next
  case (3 p ms scm)
  then obtain q i where f: "find (\<lambda>t. case t of InvitePending q _ \<Rightarrow> q = p | _ \<Rightarrow> False) (sip_tasks scm) = Some (InvitePending q i)"
    by (auto split: option.splits sip_task.splits)
  then have "InvitePending q i \<in> set (sip_tasks scm)" by (auto simp: find_Some_iff)
  then show ?case using 3 f by (auto intro: sip_reach.more sip_step.invited)
next
  case (4 p result ms scm)
  then show ?case by (auto intro: sip_reach.more sip_step.answers split: if_splits)
next
  case (5 ms scm)
  obtain s found where c: "CancelCall_begin scm ''C1'' = (s, found)" by force
  show ?case using 5 c sip_reach.more [OF 5(2) sip_step.cancels [OF c]] by simp
next
  case (6 p ms scm)
  then show ?case by (auto intro: sip_reach.more sip_step.cancelled split: if_splits)
qed simp

lemma fresh_sip_reached: "sip_reach fresh_sip"
proof -
  have "NewSIPCallManagerSipgo sample_net_env True sample_network ''-'' = (sample_network, Some (fresh_sip\<lparr>onCallRejected := False, onCallAccepted := False\<rparr>))"
    by (simp add: NewSIPCallManagerSipgo_def sample_network_def fresh_sip_def)
  then have "sip_reach (fresh_sip\<lparr>onCallRejected := False, onCallAccepted := False\<rparr>)" by (rule sip_reach.start)
  from sip_reach.more [OF this sip_step.configured [of _ True True]]
  show ?thesis by (simp add: SetCallRejectedHandler_def SetCallAcceptedHandler_def fresh_sip_def)
qed

lemmas sip_eval = InitiateCall_begin_def ensure_network_def build_invite_def register_call_def new_call_def getOrGenerateCallTag_def
  InitiateCall_end_def updateCallState_def update_call_def cleanupCall_def resetCancelCallCount_def CancelCall_begin_def
  getCancelCallCount_def CancelCall_end_def monitorSipgoDialog_def fresh_sip_def sample_network_def Let_def

text \<open>A call that was cancelled takes down the next one under its id when its goroutine wakes up.\<close>

theorem stale_monitor_ends_call:
  "\<exists>scm. sip_reach scm \<and> activeCalls scm = [(''C1'', 1)] \<and> MonitorDialog 0 \<in> set (sip_tasks scm) \<and> MonitorDialog 1 \<in> set (sip_tasks scm) \<and>
     (\<exists>scm'. sip_step scm scm' \<and> sip_reach scm' \<and> activeCalls scm' = [] \<and> ci_Cancelled (sip_calls scm' ! 1) \<and>
        answered (sip_log scm') = [])"
proof -
  let ?ms = "[Invites, Invited 0, Cancels, Cancelled 0, Invites, Invited 1]"
  define s where "s = the (sip_run ?ms fresh_sip)"
  have "case sip_run ?ms fresh_sip of None \<Rightarrow> False | Some s \<Rightarrow> activeCalls s = [(''C1'', 1)] \<and> MonitorDialog 0 \<in> set (sip_tasks s) \<and>
      MonitorDialog 1 \<in> set (sip_tasks s) \<and>
      (case sip_run [Answers 0 (Some ''context canceled'')] s of None \<Rightarrow> False
       | Some s' \<Rightarrow> activeCalls s' = [] \<and> ci_Cancelled (sip_calls s' ! 1) \<and> answered (sip_log s') = [])"
    by (simp add: sip_eval rejected_text_def HasPrefix_def)
  then obtain s' where s: "sip_run ?ms fresh_sip = Some s" "activeCalls s = [(''C1'', 1)]" "MonitorDialog 0 \<in> set (sip_tasks s)"
      "MonitorDialog 1 \<in> set (sip_tasks s)" and
    s': "s' = monitorSipgoDialog 0 (Some ''context canceled'') (s\<lparr>sip_tasks := remove1 (MonitorDialog 0) (sip_tasks s)\<rparr>) 0"
      "activeCalls s' = []" "ci_Cancelled (sip_calls s' ! 1)" "answered (sip_log s') = []"
    by (auto simp: s_def simp del: sip_run.simps(2,3,5,6) split: option.splits if_splits)
  have "sip_reach s" by (rule sip_run_reach [OF fresh_sip_reached s(1)])
  moreover have "sip_step s s'" unfolding s'(1) by (rule sip_step.answers [OF s(3)])
  ultimately show ?thesis using s s' sip_reach.more by blast
qed

text \<open>Two cancellations of one call at the same time send it two BYEs.\<close>

theorem double_bye:
  "\<exists>scm. sip_reach scm \<and> filter (\<lambda>e. e = ByeSent 0) (sip_log scm) = [ByeSent 0, ByeSent 0]"
proof -
  have "case sip_run [Invites, Invited 0, Answers 0 None, Cancels, Cancels, Cancelled 0, Cancelled 0] fresh_sip of
      None \<Rightarrow> False | Some s \<Rightarrow> filter (\<lambda>e. e = ByeSent 0) (sip_log s) = [ByeSent 0, ByeSent 0]"
    by (simp add: sip_eval)
  then show ?thesis using sip_run_reach [OF fresh_sip_reached] by (auto simp del: sip_run.simps split: option.splits)
qed


definition answered_sip :: sip_manager where
  "answered_sip = the (sip_run [Invites, Invited 0, Answers 0 None] fresh_sip)"

lemma answered_sip_reached:
  "sip_reach answered_sip" "CallAccepted 0 ''C1'' ''5521999998888'' ''100'' \<in> set (sip_log answered_sip)"
  "activeCalls answered_sip = [(''C1'', 0)]" "sip_tasks answered_sip = []" "ci_DialogSession (sip_calls answered_sip ! 0) \<noteq> None"
proof -
  have run: "case sip_run [Invites, Invited 0, Answers 0 None] fresh_sip of None \<Rightarrow> False
     | Some s \<Rightarrow> CallAccepted 0 ''C1'' ''5521999998888'' ''100'' \<in> set (sip_log s) \<and> activeCalls s = [(''C1'', 0)] \<and>
         sip_tasks s = [] \<and> ci_DialogSession (sip_calls s ! 0) \<noteq> None"
    by (simp add: sip_eval)
  then have s: "sip_run [Invites, Invited 0, Answers 0 None] fresh_sip = Some answered_sip"
    by (auto simp: answered_sip_def simp del: sip_run.simps split: option.splits)
  show "sip_reach answered_sip" by (rule sip_run_reach [OF fresh_sip_reached s])
  show "CallAccepted 0 ''C1'' ''5521999998888'' ''100'' \<in> set (sip_log answered_sip)"
    "activeCalls answered_sip = [(''C1'', 0)]" "sip_tasks answered_sip = []" "ci_DialogSession (sip_calls answered_sip ! 0) \<noteq> None"
    using run unfolding s by simp_all
qed


theorem settled_calls_accepted_witness: "ci_State (sip_calls answered_sip ! 0) = CallStateAccepted"
proof -
  have "(''C1'', 0) \<in> set (activeCalls answered_sip)" using answered_sip_reached(3) by simp
  from settled_calls_accepted [OF answered_sip_reached(1) this] show ?thesis using answered_sip_reached(4) by simp
qed

theorem stop_hangs_up_witness:
  "\<exists>m' scm'. proxy_Stop id \<lparr>isRunning = True, m_network = sample_network, callManagerSipgo = Some answered_sip, callAttempts = [],
       m_activeCalls = []\<rparr> = Some (m', None) \<and> callManagerSipgo m' = Some scm' \<and> sip_log scm' = sip_log answered_sip @ [ByeSent 0]"
proof -
  let ?m = "\<lparr>isRunning = True, m_network = sample_network, callManagerSipgo = Some answered_sip, callAttempts = [], m_activeCalls = []\<rparr>"
  have "distinct (id (GetActiveCalls answered_sip))" by (simp add: GetActiveCalls_def answered_sip_reached(3))
  then obtain m' scm' byes where r: "proxy_Stop id ?m = Some (m', None)" "callManagerSipgo m' = Some scm'"
      "sip_log scm' = sip_log answered_sip @ map ByeSent byes" "distinct byes"
      "set byes = {p. \<exists>callID. (callID, p) \<in> set (activeCalls answered_sip) \<and> ci_DialogSession (sip_calls answered_sip ! p) \<noteq> None}"
    using stop_hangs_up [OF answered_sip_reached(1), of ?m id] by auto
  have "set byes = {0}" using r(5) answered_sip_reached(3,5) by auto
  moreover from this have "length byes = 1" using distinct_card [OF r(4)] by simp
  ultimately have "byes = [0]" by (cases byes) auto
  then show ?thesis using r by auto
qed

end
