(* ===== verification/RtpProxy.thy ===== *)
theory RtpProxy
  imports SipCalls
begin

text \<open>
  The media bridge of \<open>src/sipproxy/rtp_proxy.go\<close>: one stream for each call, with a port for WhatsApp and one for
  the SIP server, the choice of the ports, and the two goroutines that forward packets. Sockets are the answers
  of the operating system: \<open>free\<close> tells which ports it lets the program open. The streams are pointers, and the
  goroutines of a stream keep theirs after it was stopped; so streams live in a store, as the calls do.
\<close>

section \<open>Streams\<close>

definition RTP_MEDIA_PORT_MIN :: int where "RTP_MEDIA_PORT_MIN = 10000"
definition RTP_MEDIA_PORT_MAX :: int where "RTP_MEDIA_PORT_MAX = 20000"
definition RTP_MEDIA_PORT_RANGE :: int where "RTP_MEDIA_PORT_RANGE = RTP_MEDIA_PORT_MAX - RTP_MEDIA_PORT_MIN"

record RTPStream =
  rs_CallID :: string
  WhatsAppPort :: int
  rs_SIPPort :: int
  RemoteHost :: string
  RemotePort :: int
  isActive :: bool
  packetsForwarded :: nat
  bytesForwarded :: nat

text \<open>
  \<open>rtp_pending\<close> are the streams whose forwarding goroutine has not run yet, \<open>rtp_dialled\<close> those with their socket to
  the SIP server and the address it was opened for, \<open>rtp_closed\<close> those whose own two sockets were closed; a packet sent
  names the stream it came through.
\<close>

datatype rtp_packet = ToSIP nat "string \<times> int" string | ToWhatsApp nat string string

record RTPProxy =
  rtp_streams :: "RTPStream list"
  activeStreams :: "(string \<times> nat) list"
  rtp_pending :: "nat list"
  rtp_dialled :: "(nat \<times> string \<times> int) list"
  rtp_closed :: "nat list"
  rtp_out :: "rtp_packet list"

definition NewRTPProxy :: RTPProxy where
  "NewRTPProxy = \<lparr>rtp_streams = [], activeStreams = [], rtp_pending = [], rtp_dialled = [], rtp_closed = [], rtp_out = []\<rparr>"

datatype rtp_error = NoPort | PortBusy int | StreamNotFound string

definition port_taken :: "RTPProxy \<Rightarrow> int \<Rightarrow> bool" where
  "port_taken rtp port \<longleftrightarrow>
     list_ex (\<lambda>(callID, p). WhatsAppPort (rtp_streams rtp ! p) = port \<or> rs_SIPPort (rtp_streams rtp ! p) = port) (activeStreams rtp)"

text \<open>The even ports from \<open>port\<close> on, the first that no stream has and that can be opened.\<close>

function find_port :: "(int \<Rightarrow> bool) \<Rightarrow> (int \<Rightarrow> bool) \<Rightarrow> int \<Rightarrow> int option" where
  "find_port skip free port =
     (if port > RTP_MEDIA_PORT_MAX then None
      else if \<not> skip port \<and> free port then Some port
      else find_port skip free (port + 2))"
  by auto
termination by (relation "measure (\<lambda>(skip, free, port). nat (RTP_MEDIA_PORT_MAX + 1 - port))") auto

declare find_port.simps [simp del]

definition findAvailablePort :: "(int \<Rightarrow> bool) \<Rightarrow> RTPProxy \<Rightarrow> int option" where
  "findAvailablePort free rtp = find_port (port_taken rtp) free RTP_MEDIA_PORT_MIN"

definition findAvailablePortExcluding :: "(int \<Rightarrow> bool) \<Rightarrow> RTPProxy \<Rightarrow> int \<Rightarrow> int option" where
  "findAvailablePortExcluding free rtp excludePort =
     find_port (\<lambda>port. port = excludePort \<or> port_taken rtp port) free RTP_MEDIA_PORT_MIN"

text \<open>
  What both ways of creating a stream share: the two sockets are opened, \<open>opens\<close> telling whether that succeeds, the
  stream is entered and its forwarding goroutine started.
\<close>

definition open_stream :: "(int \<Rightarrow> bool) \<Rightarrow> RTPProxy \<Rightarrow> string \<Rightarrow> int \<Rightarrow> int \<Rightarrow> string \<Rightarrow> int \<Rightarrow> RTPProxy \<times> (rtp_error + nat)" where
  "open_stream opens rtp callID whatsAppPort sipPort remoteHost remotePort =
     (if \<not> opens whatsAppPort then (rtp, Inl (PortBusy whatsAppPort))
      else if \<not> opens sipPort then (rtp, Inl (PortBusy sipPort))
      else (let p = length (rtp_streams rtp);
                stream = \<lparr>rs_CallID = callID, WhatsAppPort = whatsAppPort, rs_SIPPort = sipPort, RemoteHost = remoteHost,
                  RemotePort = remotePort, isActive = True, packetsForwarded = 0, bytesForwarded = 0\<rparr>
            in (rtp\<lparr>rtp_streams := rtp_streams rtp @ [stream], activeStreams := AList.update callID p (activeStreams rtp),
                  rtp_pending := rtp_pending rtp @ [p]\<rparr>, Inr p)))"

definition CreateRTPStream ::
    "(int \<Rightarrow> bool) \<Rightarrow> (int \<Rightarrow> bool) \<Rightarrow> RTPProxy \<Rightarrow> string \<Rightarrow> string \<Rightarrow> int \<Rightarrow> RTPProxy \<times> (rtp_error + nat)" where
  "CreateRTPStream free opens rtp callID remoteHost remotePort =
     (case map_of (activeStreams rtp) callID of
        Some p \<Rightarrow> (rtp, Inr p)
      | None \<Rightarrow>
          (case findAvailablePort free rtp of
             None \<Rightarrow> (rtp, Inl NoPort)
           | Some whatsAppPort \<Rightarrow>
               (case findAvailablePortExcluding free rtp whatsAppPort of
                  None \<Rightarrow> (rtp, Inl NoPort)
                | Some sipPort \<Rightarrow> open_stream opens rtp callID whatsAppPort sipPort remoteHost remotePort)))"

definition CreateRTPStreamWithLocalPort ::
    "(int \<Rightarrow> bool) \<Rightarrow> (int \<Rightarrow> bool) \<Rightarrow> RTPProxy \<Rightarrow> string \<Rightarrow> int \<Rightarrow> string \<Rightarrow> int \<Rightarrow> RTPProxy \<times> (rtp_error + nat)" where
  "CreateRTPStreamWithLocalPort free opens rtp callID whatsAppPort remoteHost remotePort =
     (case map_of (activeStreams rtp) callID of
        Some p \<Rightarrow> (rtp, Inr p)
      | None \<Rightarrow>
          (case findAvailablePortExcluding free rtp whatsAppPort of
             None \<Rightarrow> (rtp, Inl NoPort)
           | Some sipPort \<Rightarrow> open_stream opens rtp callID whatsAppPort sipPort remoteHost remotePort))"

definition StopRTPStream :: "RTPProxy \<Rightarrow> string \<Rightarrow> RTPProxy" where
  "StopRTPStream rtp callID =
     (case map_of (activeStreams rtp) callID of
        None \<Rightarrow> rtp
      | Some p \<Rightarrow> rtp\<lparr>rtp_streams := (rtp_streams rtp)[p := (rtp_streams rtp ! p)\<lparr>isActive := False\<rparr>],
                      activeStreams := AList.delete callID (activeStreams rtp), rtp_closed := p # rtp_closed rtp\<rparr>)"

definition GetActiveStreams :: "RTPProxy \<Rightarrow> nat" where
  "GetActiveStreams rtp = length (activeStreams rtp)"

definition GetStreamInfo :: "RTPProxy \<Rightarrow> string \<Rightarrow> nat option" where
  "GetStreamInfo rtp callID = map_of (activeStreams rtp) callID"

definition UpdateWhatsAppEndpoint :: "RTPProxy \<Rightarrow> string \<Rightarrow> string \<Rightarrow> int \<Rightarrow> RTPProxy \<times> rtp_error option" where
  "UpdateWhatsAppEndpoint rtp callID whatsappIP whatsappPort =
     (rtp, if map_of (activeStreams rtp) callID = None then Some (StreamNotFound callID) else None)"

definition UpdateServerEndpoint :: "RTPProxy \<Rightarrow> string \<Rightarrow> string \<Rightarrow> int \<Rightarrow> RTPProxy \<times> rtp_error option" where
  "UpdateServerEndpoint rtp callID serverHost serverPort =
     (case map_of (activeStreams rtp) callID of
        None \<Rightarrow> (rtp, Some (StreamNotFound callID))
      | Some p \<Rightarrow>
          (rtp\<lparr>rtp_streams := (rtp_streams rtp)[p := (rtp_streams rtp ! p)\<lparr>RemoteHost := serverHost, RemotePort := serverPort\<rparr>]\<rparr>, None))"

definition GetRandomRTPMediaPort :: "time \<Rightarrow> int" where
  "GetRandomRTPMediaPort now = RTP_MEDIA_PORT_MIN + (now mod RTP_MEDIA_PORT_RANGE) mod RTP_MEDIA_PORT_RANGE"

section \<open>Forwarding\<close>

text \<open>
  \<open>startRTPForwarding\<close> opens the socket to the server with the address the stream has then; on a failure it returns
  and both sockets of the stream are closed.
\<close>

definition startRTPForwarding :: "bool \<Rightarrow> RTPProxy \<Rightarrow> nat \<Rightarrow> RTPProxy" where
  "startRTPForwarding dialled rtp p =
     (let stream = rtp_streams rtp ! p
      in if dialled then rtp\<lparr>rtp_dialled := (p, RemoteHost stream, RemotePort stream) # rtp_dialled rtp\<rparr>
         else rtp\<lparr>rtp_closed := p # rtp_closed rtp\<rparr>)"

text \<open>A round of \<open>forwardWhatsAppToSIP\<close> with a packet of the client at \<open>clientAddr\<close>; \<open>written\<close> is whether the write succeeds.\<close>

definition forwardWhatsAppToSIP :: "bool \<Rightarrow> RTPProxy \<Rightarrow> nat \<Rightarrow> string \<Rightarrow> string \<Rightarrow> RTPProxy" where
  "forwardWhatsAppToSIP written rtp p clientAddr packet =
     (case map_of (rtp_dialled rtp) p of
        None \<Rightarrow> rtp
      | Some remote \<Rightarrow>
          if \<not> isActive (rtp_streams rtp ! p) then rtp
          else (let stream = rtp_streams rtp ! p;
                    stream = stream\<lparr>packetsForwarded := packetsForwarded stream + 1,
                                    bytesForwarded := bytesForwarded stream + length packet\<rparr>
                in rtp\<lparr>rtp_streams := (rtp_streams rtp)[p := stream],
                       rtp_out := rtp_out rtp @ (if written then [ToSIP p remote packet] else [])\<rparr>))"

text \<open>
  A round of \<open>forwardSIPToWhatsApp\<close>. \<open>whatsAppAddr\<close> is its local variable, which it returns for the next round.
\<close>

definition forwardSIPToWhatsApp :: "bool \<Rightarrow> string option \<Rightarrow> RTPProxy \<Rightarrow> nat \<Rightarrow> string \<Rightarrow> string option \<times> RTPProxy" where
  "forwardSIPToWhatsApp written whatsAppAddr rtp p packet =
     (if map_of (rtp_dialled rtp) p = None \<or> \<not> isActive (rtp_streams rtp ! p) then (whatsAppAddr, rtp)
      else (case whatsAppAddr of
              None \<Rightarrow> (whatsAppAddr, rtp)
            | Some addr \<Rightarrow> (whatsAppAddr, rtp\<lparr>rtp_out := rtp_out rtp @ (if written then [ToWhatsApp p addr packet] else [])\<rparr>)))"

text \<open>
  The operations hold the mutex and are steps; so is each round of a goroutine. The second component is the
  \<open>whatsAppAddr\<close> of each stream's goroutine.
\<close>

text \<open>The system opens no port for which an active stream has a socket open.\<close>

definition system_ports :: "RTPProxy \<Rightarrow> (int \<Rightarrow> bool) \<Rightarrow> bool" where
  "system_ports rtp opens \<longleftrightarrow> 
     (\<forall>e\<in>set (activeStreams rtp). snd e \<notin> set (rtp_closed rtp) \<longrightarrow>
        \<not> opens (WhatsAppPort (rtp_streams rtp ! snd e)) \<and> \<not> opens (rs_SIPPort (rtp_streams rtp ! snd e)))"

inductive rtp_step :: "RTPProxy \<times> (nat \<Rightarrow> string option) \<Rightarrow> RTPProxy \<times> (nat \<Rightarrow> string option) \<Rightarrow> bool" where
  creates: "CreateRTPStream free opens rtp callID host port = (rtp', r) \<Longrightarrow> rtp_step (rtp, addr) (rtp', addr)"
| creates_at: "CreateRTPStreamWithLocalPort free opens rtp callID whatsAppPort host port = (rtp', r) \<Longrightarrow>
    system_ports rtp opens \<Longrightarrow> rtp_step (rtp, addr) (rtp', addr)"
| stops: "rtp_step (rtp, addr) (StopRTPStream rtp callID, addr)"
| updates_whatsapp: "rtp_step (rtp, addr) (fst (UpdateWhatsAppEndpoint rtp callID ip port), addr)"
| updates_server: "rtp_step (rtp, addr) (fst (UpdateServerEndpoint rtp callID host port), addr)"
| starts: "p \<in> set (rtp_pending rtp) \<Longrightarrow>
    rtp_step (rtp, addr) (startRTPForwarding dialled (rtp\<lparr>rtp_pending := remove1 p (rtp_pending rtp)\<rparr>) p, addr)"
| to_sip: "rtp_step (rtp, addr) (forwardWhatsAppToSIP written rtp p client packet, addr)"
| to_whatsapp: "forwardSIPToWhatsApp written (addr p) rtp p packet = (a, rtp') \<Longrightarrow> rtp_step (rtp, addr) (rtp', addr(p := a))"

inductive rtp_reach :: "RTPProxy \<times> (nat \<Rightarrow> string option) \<Rightarrow> bool" where
  start: "rtp_reach (NewRTPProxy, \<lambda>_. None)"
| more: "rtp_reach s \<Longrightarrow> rtp_step s s' \<Longrightarrow> rtp_reach s'"


section \<open>What holds of the streams\<close>

lemma find_port_spec:
  "find_port skip free port = Some q \<Longrightarrow> even port \<Longrightarrow>
   port \<le> q \<and> q \<le> RTP_MEDIA_PORT_MAX \<and> even q \<and> \<not> skip q \<and> free q \<and>
   (\<forall>r. port \<le> r \<and> r < q \<and> even r \<longrightarrow> skip r \<or> \<not> free r)"
proof (induction skip free port rule: find_port.induct)
  case (1 skip free port)
  show ?case
  proof (cases "port > RTP_MEDIA_PORT_MAX \<or> \<not> skip port \<and> free port")
    case True
    then show ?thesis using 1(2,3) by (subst (asm) find_port.simps) (auto split: if_splits)
  next
    case False
    then have "find_port skip free (port + 2) = Some q" using 1(2) by (subst (asm) find_port.simps) auto
    then have ih: "port + 2 \<le> q" "q \<le> RTP_MEDIA_PORT_MAX" "even q" "\<not> skip q" "free q"
      "\<forall>r. port + 2 \<le> r \<and> r < q \<and> even r \<longrightarrow> skip r \<or> \<not> free r"
      using 1(1) False 1(3) by auto
    have "skip r \<or> \<not> free r" if "port \<le> r" "r < q" "even r" for r
    proof (cases "r = port")
      case False
      then have "port + 2 \<le> r" using that 1(3) by presburger
      then show ?thesis using ih(6) that by blast
    qed (use \<open>\<not> (port > RTP_MEDIA_PORT_MAX \<or> \<not> skip port \<and> free port)\<close> in blast)
    then show ?thesis using ih by auto
  qed
qed

definition stream_key :: "RTPStream \<Rightarrow> string \<times> int \<times> int" where
  "stream_key stream = (rs_CallID stream, WhatsAppPort stream, rs_SIPPort stream)"

definition good_ports :: "int \<times> int \<Rightarrow> bool" where
  "good_ports ports \<longleftrightarrow> fst ports \<noteq> snd ports \<and> even (snd ports) \<and> RTP_MEDIA_PORT_MIN \<le> snd ports \<and> snd ports \<le> RTP_MEDIA_PORT_MAX"

definition ports_apart :: "int \<times> int \<Rightarrow> int \<times> int \<Rightarrow> bool" where
  "ports_apart a b \<longleftrightarrow> {fst a, snd a} \<inter> {fst b, snd b} = {}"

definition rtp_inv :: "(string \<times> int \<times> int) list \<Rightarrow> (string \<times> nat) list \<Rightarrow> nat set \<Rightarrow> bool" where
  "rtp_inv keys act closed \<longleftrightarrow>
     distinct (map fst act) \<and>
     (\<forall>e\<in>set act. snd e < length keys \<and> fst (keys ! snd e) = fst e \<and> good_ports (snd (keys ! snd e))) \<and>
     (\<forall>e\<in>set act. \<forall>f\<in>set act. fst e \<noteq> fst f \<longrightarrow> snd e \<notin> closed \<longrightarrow> snd f \<notin> closed \<longrightarrow>
        ports_apart (snd (keys ! snd e)) (snd (keys ! snd f)))"

definition rtp_ok :: "RTPProxy \<Rightarrow> bool" where
  "rtp_ok rtp \<longleftrightarrow> rtp_inv (map stream_key (rtp_streams rtp)) (activeStreams rtp) (set (rtp_closed rtp))"

lemma rtp_inv_delete: "rtp_inv keys act closed \<Longrightarrow> rtp_inv keys (AList.delete callID act) closed"
  by (simp add: rtp_inv_def AList.distinct_delete set_delete)

lemma rtp_inv_close: "rtp_inv keys act closed \<Longrightarrow> rtp_inv keys act (insert p closed)"
  by (auto simp: rtp_inv_def)

lemma rtp_inv_add:
  assumes "rtp_inv keys act closed" "map_of act callID = None" "good_ports ports"
    "\<forall>e\<in>set act. snd e \<notin> closed \<longrightarrow> ports_apart (snd (keys ! snd e)) ports"
  shows "rtp_inv (keys @ [(callID, ports)]) (AList.update callID (length keys) act) closed"
proof -
  have new: "set (AList.update callID (length keys) act) = insert (callID, length keys) (set act)"
    using assms(1,2) by (auto simp: rtp_inv_def set_update map_of_eq_None_iff image_iff)
  have fresh: "e \<in> set act \<Longrightarrow> fst e \<noteq> callID" for e using assms(2) by (auto simp: map_of_eq_None_iff)
  have old: "e \<in> set act \<Longrightarrow> (keys @ [(callID, ports)]) ! snd e = keys ! snd e" for e
    using assms(1) by (simp add: rtp_inv_def nth_append)
  have sym: "ports_apart a b = ports_apart b a" for a b by (auto simp: ports_apart_def)
  show ?thesis
    using assms fresh old sym unfolding rtp_inv_def new
    by (simp add: AList.distinct_update less_SucI nth_append_length [of keys])
qed

lemma rtp_inv_apart:
  "rtp_inv keys act closed \<Longrightarrow> e \<in> set act \<Longrightarrow> f \<in> set act \<Longrightarrow> fst e \<noteq> fst f \<Longrightarrow> snd e \<notin> closed \<Longrightarrow> snd f \<notin> closed \<Longrightarrow>
   ports_apart (snd (keys ! snd e)) (snd (keys ! snd f))"
  by (simp add: rtp_inv_def)

lemma taken_iff: "port_taken rtp port \<longleftrightarrow>
    (\<exists>e\<in>set (activeStreams rtp). WhatsAppPort (rtp_streams rtp ! snd e) = port \<or> rs_SIPPort (rtp_streams rtp ! snd e) = port)"
  by (simp add: port_taken_def list_ex_iff split_beta)

lemma open_stream_ok:
  assumes "rtp_ok rtp" "open_stream opens rtp callID w s host port = (rtp', r)" "map_of (activeStreams rtp) callID = None"
    "\<not> port_taken rtp w \<or> system_ports rtp opens" "\<not> port_taken rtp s" "good_ports (w, s)"
  shows "rtp_ok rtp'"
proof (cases "opens w \<and> opens s")
  case True
  let ?keys = "map stream_key (rtp_streams rtp)"
  have "\<forall>e\<in>set (activeStreams rtp). snd e \<notin> set (rtp_closed rtp) \<longrightarrow> ports_apart (snd (?keys ! snd e)) (w, s)"
    using assms(1,4,5) True
    by (auto simp: rtp_ok_def rtp_inv_def ports_apart_def stream_key_def taken_iff system_ports_def split: prod.splits)
  from rtp_inv_add [OF assms(1) [unfolded rtp_ok_def] assms(3,6) this]
  show ?thesis using assms(2) True by (auto simp: open_stream_def rtp_ok_def Let_def stream_key_def)
next
  case False
  then show ?thesis using assms(1,2) by (auto simp: open_stream_def split: if_splits)
qed

lemma excluding_spec:
  "findAvailablePortExcluding free rtp w = Some s \<Longrightarrow> \<not> port_taken rtp s \<and> good_ports (w, s)"
  using find_port_spec [of "\<lambda>port. port = w \<or> port_taken rtp port" free RTP_MEDIA_PORT_MIN s]
  by (auto simp: findAvailablePortExcluding_def good_ports_def RTP_MEDIA_PORT_MIN_def)

lemma available_spec: "findAvailablePort free rtp = Some w \<Longrightarrow> \<not> port_taken rtp w"
  using find_port_spec [of "port_taken rtp" free RTP_MEDIA_PORT_MIN w] by (simp add: findAvailablePort_def RTP_MEDIA_PORT_MIN_def)

lemma map_update_key: "stream_key y = stream_key (xs ! p) \<Longrightarrow> map stream_key (xs[p := y]) = map stream_key xs"
  by (cases "p < length xs") (simp_all add: map_list_update_same list_update_beyond)

lemma rtp_step_ok: "rtp_step s s' \<Longrightarrow> rtp_ok (fst s) \<Longrightarrow> rtp_ok (fst s')"
proof (induction rule: rtp_step.induct)
  case (creates free opens rtp callID host port rtp' r addr)
  then show ?case
    by (auto simp: CreateRTPStream_def dest: available_spec excluding_spec intro: open_stream_ok split: option.splits)
next
  case (creates_at free opens rtp callID whatsAppPort host port rtp' r addr)
  then show ?case
    by (auto simp: CreateRTPStreamWithLocalPort_def dest: excluding_spec intro: open_stream_ok split: option.splits)
next
  case (stops rtp addr callID)
  then show ?case
    by (auto simp: StopRTPStream_def rtp_ok_def map_update_key stream_key_def intro: rtp_inv_delete rtp_inv_close split: option.split)
next
  case (updates_whatsapp rtp addr callID ip port)
  then show ?case by (simp add: UpdateWhatsAppEndpoint_def)
next
  case (updates_server rtp addr callID host port)
  then show ?case
    by (cases "map_of (activeStreams rtp) callID") (auto simp: UpdateServerEndpoint_def rtp_ok_def map_update_key stream_key_def)
next
  case (starts p rtp addr dialled)
  then show ?case by (simp add: startRTPForwarding_def rtp_ok_def Let_def rtp_inv_close)
next
  case (to_sip rtp addr written p client packet)
  then show ?case by (simp add: forwardWhatsAppToSIP_def rtp_ok_def map_update_key stream_key_def Let_def split: option.split)
next
  case (to_whatsapp written addr p rtp packet a rtp')
  then show ?case by (auto simp: forwardSIPToWhatsApp_def rtp_ok_def split: if_splits option.splits)
qed

lemma rtp_reach_ok: "rtp_reach s \<Longrightarrow> rtp_ok (fst s)"
proof (induction rule: rtp_reach.induct)
  case (more s s')
  then show ?case using rtp_step_ok by blast
qed (simp add: NewRTPProxy_def rtp_ok_def rtp_inv_def)

text \<open>
  C27. Ports are not shared: a stream's two ports differ, the port for the SIP server is an even one of the range, and
  no two active streams with their sockets open have a port in common, however streams are created, stopped and used.
\<close>
theorem ports_not_shared:
  assumes "rtp_reach (rtp, addr)" "(callID, p) \<in> set (activeStreams rtp)"
  shows "rs_CallID (rtp_streams rtp ! p) = callID \<and> WhatsAppPort (rtp_streams rtp ! p) \<noteq> rs_SIPPort (rtp_streams rtp ! p) \<and>
    even (rs_SIPPort (rtp_streams rtp ! p)) \<and> rs_SIPPort (rtp_streams rtp ! p) \<in> {RTP_MEDIA_PORT_MIN..RTP_MEDIA_PORT_MAX} \<and>
    (\<forall>(other, q)\<in>set (activeStreams rtp). other \<noteq> callID \<and> p \<notin> set (rtp_closed rtp) \<and> q \<notin> set (rtp_closed rtp) \<longrightarrow>
       {WhatsAppPort (rtp_streams rtp ! p), rs_SIPPort (rtp_streams rtp ! p)} \<inter>
       {WhatsAppPort (rtp_streams rtp ! q), rs_SIPPort (rtp_streams rtp ! q)} = {})"
proof -
  let ?keys = "map stream_key (rtp_streams rtp)"
  have o: "rtp_inv ?keys (activeStreams rtp) (set (rtp_closed rtp))"
    using rtp_reach_ok [OF assms(1)] by (simp add: rtp_ok_def)
  then have p: "p < length (rtp_streams rtp)" "fst (?keys ! p) = callID" "good_ports (snd (?keys ! p))"
    using assms(2) by (auto simp: rtp_inv_def)
  have apart: "ports_apart (snd (stream_key (rtp_streams rtp ! p))) (snd (stream_key (rtp_streams rtp ! q)))"
    if q: "(other, q) \<in> set (activeStreams rtp)" "other \<noteq> callID" "p \<notin> set (rtp_closed rtp)" "q \<notin> set (rtp_closed rtp)" for other q
  proof -
    have "q < length ?keys" using o q(1) by (auto simp: rtp_inv_def)
    moreover have "ports_apart (snd (?keys ! snd (callID, p))) (snd (?keys ! snd (other, q)))"
      using rtp_inv_apart [OF o assms(2) q(1)] q(2-) by simp
    ultimately show ?thesis using p(1) by simp
  qed
  have "\<forall>(other, q)\<in>set (activeStreams rtp). other \<noteq> callID \<and> p \<notin> set (rtp_closed rtp) \<and> q \<notin> set (rtp_closed rtp) \<longrightarrow>
       {WhatsAppPort (rtp_streams rtp ! p), rs_SIPPort (rtp_streams rtp ! p)} \<inter>
       {WhatsAppPort (rtp_streams rtp ! q), rs_SIPPort (rtp_streams rtp ! q)} = {}"
    by (intro ballI case_prodI2 impI) (use apart in \<open>unfold ports_apart_def stream_key_def fst_conv snd_conv, blast\<close>)
  then show ?thesis using p by (simp add: stream_key_def good_ports_def)
qed

text \<open>
  No packet of the SIP server ever reaches WhatsApp: the goroutine that forwards them waits for an address
  that nothing sets.
\<close>
theorem nothing_reaches_whatsapp:
  assumes "rtp_reach (rtp, addr)"
  shows "ToWhatsApp p client packet \<notin> set (rtp_out rtp)"
proof -
  have "(\<forall>p. snd s p = None) \<and> (\<forall>p client packet. ToWhatsApp p client packet \<notin> set (rtp_out (fst s)))" if "rtp_reach s" for s
    using that
  proof (induction rule: rtp_reach.induct)
    case (more s s')
    from more(2,3) show ?case
      by cases (auto simp: CreateRTPStream_def CreateRTPStreamWithLocalPort_def open_stream_def StopRTPStream_def
        UpdateWhatsAppEndpoint_def UpdateServerEndpoint_def startRTPForwarding_def forwardWhatsAppToSIP_def
        forwardSIPToWhatsApp_def Let_def split: option.splits if_splits)
  qed (simp add: NewRTPProxy_def)
  from this [OF assms] show ?thesis by simp
qed

text \<open>
  Moving a stream to another server changes the stream and not its packets: they keep going to the address its
  socket was opened for.
\<close>
theorem server_update_ignored:
  "rtp_out (forwardWhatsAppToSIP written (fst (UpdateServerEndpoint rtp callID host port)) p client packet) =
   rtp_out (forwardWhatsAppToSIP written rtp p client packet)"
proof (cases "map_of (activeStreams rtp) callID")
  case (Some q)
  let ?s = "(rtp_streams rtp ! q)\<lparr>RemoteHost := host, RemotePort := port\<rparr>"
  have "isActive ((rtp_streams rtp)[q := ?s] ! p) = isActive (rtp_streams rtp ! p)"
    by (cases "q = p"; cases "p < length (rtp_streams rtp)") (simp_all add: list_update_beyond)
  then show ?thesis
    using Some by (simp add: forwardWhatsAppToSIP_def UpdateServerEndpoint_def Let_def split: option.split)
qed (simp add: UpdateServerEndpoint_def)


section \<open>Runs\<close>

definition every_port :: "int \<Rightarrow> bool" where
  "every_port port \<longleftrightarrow> True"

definition one_stream :: RTPProxy where
  "one_stream = \<lparr>rtp_streams = [\<lparr>rs_CallID = ''A'', WhatsAppPort = 10000, rs_SIPPort = 10002, RemoteHost = ''sip.example'',
     RemotePort = 7000, isActive = True, packetsForwarded = 0, bytesForwarded = 0\<rparr>],
     activeStreams = [(''A'', 0)], rtp_pending = [0], rtp_dialled = [], rtp_closed = [], rtp_out = []\<rparr>"

lemma one_stream_created: "CreateRTPStream every_port every_port NewRTPProxy ''A'' ''sip.example'' 7000 = (one_stream, Inr 0)"
  by (simp add: CreateRTPStream_def findAvailablePort_def findAvailablePortExcluding_def open_stream_def NewRTPProxy_def
    port_taken_def every_port_def one_stream_def find_port.simps RTP_MEDIA_PORT_MIN_def RTP_MEDIA_PORT_MAX_def)

lemma one_stream_reached: "rtp_reach (one_stream, \<lambda>_. None)"
  by (rule rtp_reach.more [OF rtp_reach.start rtp_step.creates [OF one_stream_created]])

theorem ports_not_shared_witness:
  "rs_CallID (rtp_streams one_stream ! 0) = ''A'' \<and> even (rs_SIPPort (rtp_streams one_stream ! 0)) \<and>
   WhatsAppPort (rtp_streams one_stream ! 0) = 10000"
  using ports_not_shared [OF one_stream_reached, of "''A''" 0] by (simp add: one_stream_def)

theorem nothing_reaches_whatsapp_witness:
  "rtp_out (snd (forwardSIPToWhatsApp True None (startRTPForwarding True one_stream 0) 0 ''hello'')) = [] \<and>
   ToWhatsApp 0 ''peer'' ''hello'' \<notin> set (rtp_out one_stream)"
  using nothing_reaches_whatsapp [OF one_stream_reached, of 0 "''peer''" "''hello''"]
  by (simp add: forwardSIPToWhatsApp_def startRTPForwarding_def one_stream_def Let_def)

text \<open>
  A stream whose connection to its server fails stays active with both sockets closed: the call has its stream
  and finds it again whenever it asks for one, no packet of it is forwarded, and its ports can be given away again.
\<close>
theorem failed_stream_stays:
  "let rtp = startRTPForwarding False one_stream 0
   in CreateRTPStream every_port every_port rtp ''A'' ''other.example'' 7002 = (rtp, Inr 0) \<and>
      isActive (rtp_streams rtp ! 0) \<and> rtp_out (forwardWhatsAppToSIP True rtp 0 ''peer'' ''hello'') = [] \<and>
      system_ports rtp every_port \<and>
      (let (rtp', r) = CreateRTPStreamWithLocalPort every_port every_port rtp ''B'' 10000 ''sip.example'' 7000
       in activeStreams rtp' = [(''A'', 0), (''B'', 1)] \<and> map WhatsAppPort (rtp_streams rtp') = [10000, 10000])"
  by (simp add: CreateRTPStream_def CreateRTPStreamWithLocalPort_def findAvailablePortExcluding_def open_stream_def
    port_taken_def every_port_def one_stream_def find_port.simps RTP_MEDIA_PORT_MIN_def RTP_MEDIA_PORT_MAX_def
    startRTPForwarding_def forwardWhatsAppToSIP_def system_ports_def)

end
