(* ===== verification/WakeUp.thy ===== *)
theory WakeUp
  imports Events Http "HOL-Library.Word" "HOL-Library.Multiset"
begin

text \<open>
  The daily presence of \<open>src/whatsmeow/whatsmeow_wakeup_scheduler.go\<close>: the hour of its setting, the scheduler with
  its clock and the timer that ends a presence. Times are nanoseconds; \<open>zone\<close> is how far the local time zone, taken
  without daylight saving, is ahead of UTC. The push name is \<open>None\<close> where the connection has no client or no store.
\<close>

section \<open>The hour\<close>

definition Second :: int where "Second = 1000000000"
definition Minute :: int where "Minute = 60 * Second"
definition Day :: int where "Day = 24 * 60 * Minute"

text \<open>\<open>time.Date\<close> of the local day of \<open>now\<close>, at a full hour.\<close>

definition day_hour :: "int \<Rightarrow> time \<Rightarrow> int \<Rightarrow> time" where
  "day_hour zone now hour = (now + zone) div Day * Day - zone + hour * (60 * Minute)"

text \<open>\<open>fmt.Sscanf\<close> with \<open>%d\<close> reads a number at the beginning and does not look at what follows it.\<close>

definition Sscanf_int :: "string \<Rightarrow> int option" where
  "Sscanf_int s =
     (let t = dropWhile is_space s;
          sign = (if HasPrefix t ''-'' \<or> HasPrefix t ''+'' then 1 else 0)
      in ParseInt (take sign t @ takeWhile is_digit (drop sign t)))"

datatype hour_error = InvalidHour string | HourOutOfRange int

text \<open>\<open>Inr None\<close> is the zero time.\<close>

definition parseWakeUpHour :: "int \<Rightarrow> time \<Rightarrow> string \<Rightarrow> hour_error + time option" where
  "parseWakeUpHour zone now hourStr =
     (if hourStr = [] then Inr None
      else (case Sscanf_int (TrimSpace hourStr) of
              None \<Rightarrow> Inl (InvalidHour (TrimSpace hourStr))
            | Some hour \<Rightarrow>
                if hour < 0 \<or> 23 < hour then Inl (HourOutOfRange hour)
                else (let todayTime = day_hour zone now hour
                      in Inr (Some (if todayTime + 10 * Minute < now then todayTime + Day else todayTime)))))"

section \<open>The scheduler\<close>

text \<open>
  \<open>ws_running\<close> is the goroutine of \<open>run\<close>, \<open>ws_timers\<close> are the times at which \<open>time.AfterFunc\<close> runs its function, and
  \<open>ws_out\<close> are the presences sent, with their times.
\<close>

record WakeUpScheduler =
  wakeUpTime :: "time option"
  ws_duration :: int
  enabled :: bool
  ws_running :: bool
  ws_cancelled :: bool
  ws_timers :: "time list"
  ws_out :: "(time \<times> string) list"

text \<open>The duration in seconds becomes one in nanoseconds of 64 bits.\<close>

definition wake_duration :: "int \<Rightarrow> int" where
  "wake_duration duration = sint (word_of_int ((if duration \<le> 0 then 10 else duration) * Second) :: 64 word)"

definition NewWakeUpScheduler :: "int \<Rightarrow> time \<Rightarrow> string \<Rightarrow> int \<Rightarrow> WakeUpScheduler" where
  "NewWakeUpScheduler zone now wakeUpHourStr duration =
     (let at = (case parseWakeUpHour zone now wakeUpHourStr of Inl _ \<Rightarrow> None | Inr at \<Rightarrow> at)
      in \<lparr>wakeUpTime = at, ws_duration = wake_duration duration, enabled = (at \<noteq> None), ws_running = (at \<noteq> None),
          ws_cancelled = False, ws_timers = [], ws_out = []\<rparr>)"

definition IsEnabled :: "WakeUpScheduler \<Rightarrow> bool" where
  "IsEnabled ws = enabled ws"

definition sendPresence :: "string option \<Rightarrow> time \<Rightarrow> string \<Rightarrow> WakeUpScheduler \<Rightarrow> WakeUpScheduler" where
  "sendPresence pushName now presence ws =
     (case pushName of
        None \<Rightarrow> ws
      | Some name \<Rightarrow> if name = [] then ws else ws\<lparr>ws_out := ws_out ws @ [(now, presence)]\<rparr>)"

definition executeWakeUp :: "string option \<Rightarrow> time \<Rightarrow> WakeUpScheduler \<Rightarrow> WakeUpScheduler" where
  "executeWakeUp pushName now ws =
     (let ws = sendPresence pushName now PresenceAvailable ws
      in ws\<lparr>ws_timers := ws_timers ws @ [now + ws_duration ws]\<rparr>)"

text \<open>The function of the timer.\<close>

definition wakeup_expired :: "string option \<Rightarrow> time \<Rightarrow> WakeUpScheduler \<Rightarrow> WakeUpScheduler" where
  "wakeup_expired pushName now ws = sendPresence pushName now PresenceUnavailable ws"

definition checkAndExecuteWakeUp :: "string option \<Rightarrow> time \<Rightarrow> WakeUpScheduler \<Rightarrow> WakeUpScheduler" where
  "checkAndExecuteWakeUp pushName now ws =
     (case wakeUpTime ws of
        None \<Rightarrow> ws
      | Some at \<Rightarrow>
          (let diff = now - at
           in if 0 \<le> diff \<and> diff < 10 * Minute
              then (executeWakeUp pushName now ws)\<lparr>wakeUpTime := Some (at + Day)\<rparr>
              else ws))"

definition wake_Stop :: "WakeUpScheduler \<Rightarrow> WakeUpScheduler" where
  "wake_Stop ws = ws\<lparr>ws_cancelled := True\<rparr>"

definition wake_Dispose :: "WakeUpScheduler \<Rightarrow> WakeUpScheduler" where
  "wake_Dispose ws = wake_Stop ws"

text \<open>
  What can happen to a scheduler. After a stop the loop leaves when it sees that the context is done; Go chooses freely
  between that and a tick that came at the same time.
\<close>

datatype wake_event = Ticked time "string option" | Expired time "string option" | Disposed | Leaves

fun wake_do :: "wake_event \<Rightarrow> WakeUpScheduler \<Rightarrow> WakeUpScheduler option" where
  "wake_do (Ticked now pushName) ws = (if ws_running ws then Some (checkAndExecuteWakeUp pushName now ws) else None)"
| "wake_do (Expired due pushName) ws =
     (if due \<in> set (ws_timers ws)
      then Some (wakeup_expired pushName due (ws\<lparr>ws_timers := remove1 due (ws_timers ws)\<rparr>)) else None)"
| "wake_do Disposed ws = Some (wake_Dispose ws)"
| "wake_do Leaves ws = (if ws_running ws \<and> ws_cancelled ws then Some (ws\<lparr>ws_running := False\<rparr>) else None)"

primrec wake_run :: "wake_event list \<Rightarrow> WakeUpScheduler \<Rightarrow> WakeUpScheduler option" where
  "wake_run [] ws = Some ws"
| "wake_run (e # es) ws = (case wake_do e ws of None \<Rightarrow> None | Some ws' \<Rightarrow> wake_run es ws')"

section \<open>What holds of the scheduler\<close>

fun event_ticks :: "wake_event list \<Rightarrow> time list" where
  "event_ticks [] = []"
| "event_ticks (Ticked now _ # es) = now # event_ticks es"
| "event_ticks (_ # es) = event_ticks es"

fun event_name :: "wake_event \<Rightarrow> string option" where
  "event_name (Ticked _ name) = name"
| "event_name (Expired _ name) = name"
| "event_name _ = Some ''-''"

definition reachable_client :: "wake_event list \<Rightarrow> bool" where
  "reachable_client es \<longleftrightarrow> list_all (\<lambda>e. event_name e \<noteq> None \<and> event_name e \<noteq> Some []) es"

definition sent_at :: "string \<Rightarrow> WakeUpScheduler \<Rightarrow> time list" where
  "sent_at presence ws = map fst (filter (\<lambda>(t, p). p = presence) (ws_out ws))"

text \<open>The ticks follow each other in less than the window of ten minutes.\<close>

fun close_ticks :: "time list \<Rightarrow> bool" where
  "close_ticks (a # b # ts) \<longleftrightarrow> a \<le> b \<and> b < a + 10 * Minute \<and> close_ticks (b # ts)"
| "close_ticks _ \<longleftrightarrow> True"

text \<open>The wake-ups of a list of ticks, and the time of the next one.\<close>

fun wake_ups :: "time \<Rightarrow> time list \<Rightarrow> time list \<times> time" where
  "wake_ups at [] = ([], at)"
| "wake_ups at (t # ts) =
     (if at \<le> t \<and> t < at + 10 * Minute then (let (ws, at') = wake_ups (at + Day) ts in (t # ws, at'))
      else wake_ups at ts)"

lemma presences_differ: "PresenceAvailable \<noteq> PresenceUnavailable"
  by (simp add: PresenceAvailable_def PresenceUnavailable_def)

lemma reachable_client_simps [simp]:
  "reachable_client []"
  "reachable_client (e # es) \<longleftrightarrow> (\<exists>name. event_name e = Some name \<and> name \<noteq> []) \<and> reachable_client es"
  by (auto simp: reachable_client_def)

lemma run_wake_ups:
  "wake_run es ws = Some ws' \<Longrightarrow> reachable_client es \<Longrightarrow> wakeUpTime ws = Some at \<Longrightarrow>
   sent_at PresenceAvailable ws' = sent_at PresenceAvailable ws @ fst (wake_ups at (event_ticks es)) \<and>
   wakeUpTime ws' = Some (snd (wake_ups at (event_ticks es)))"
proof (induction es arbitrary: ws at)
  case (Cons e es)
  obtain s where s: "wake_do e ws = Some s" "wake_run es s = Some ws'" using Cons.prems(1) by (auto split: option.splits)
  show ?case
  proof (cases e)
    case (Ticked now name)
    define at' where "at' = (if at \<le> now \<and> now < at + 10 * Minute then at + Day else at)"
    have "wakeUpTime s = Some at'" "sent_at PresenceAvailable s =
        sent_at PresenceAvailable ws @ (if at \<le> now \<and> now < at + 10 * Minute then [now] else [])"
      using s(1) Cons.prems Ticked
      by (auto simp: at'_def checkAndExecuteWakeUp_def executeWakeUp_def sendPresence_def sent_at_def Let_def split: if_splits)
    then show ?thesis using Cons.IH [OF s(2)] Cons.prems(2) Ticked by (auto simp: at'_def split: prod.split if_splits)
  next
    case (Expired due name)
    have "wakeUpTime s = Some at" "sent_at PresenceAvailable s = sent_at PresenceAvailable ws"
      using s(1) Cons.prems Expired presences_differ
      by (auto simp: wakeup_expired_def sendPresence_def sent_at_def split: if_splits)
    then show ?thesis using Cons.IH [OF s(2)] Cons.prems(2) Expired by simp
  next
    case Disposed
    then show ?thesis using Cons.IH [OF s(2), of at] s(1) Cons.prems
      by (auto simp: wake_Dispose_def wake_Stop_def sent_at_def)
  next
    case Leaves
    then show ?thesis using Cons.IH [OF s(2), of at] s(1) Cons.prems by (auto simp: sent_at_def split: if_splits)
  qed
qed simp

lemma day_long: "10 * Minute \<le> Day" "0 < Minute" "0 < Day"
  by (simp_all add: Day_def Minute_def Second_def)

text \<open>The wake-ups are one for each day, in its window, and the next one is for the first day without.\<close>

definition one_each_day :: "time \<Rightarrow> time list \<Rightarrow> time \<Rightarrow> bool" where
  "one_each_day at ws next \<longleftrightarrow>
     next = at + int (length ws) * Day \<and>
     (\<forall>i<length ws. at + int i * Day \<le> ws ! i \<and> ws ! i < at + int i * Day + 10 * Minute)"

lemma one_each_day_Nil: "one_each_day at [] at"
  by (simp add: one_each_day_def)

lemma one_each_day_Cons:
  assumes "one_each_day (at + Day) ws next" "at \<le> t" "t < at + 10 * Minute"
  shows "one_each_day at (t # ws) next"
  unfolding one_each_day_def
proof (intro conjI allI impI)
  fix i assume "i < length (t # ws)"
  then show "at + int i * Day \<le> (t # ws) ! i" "(t # ws) ! i < at + int i * Day + 10 * Minute"
    using assms by (cases i; auto simp: one_each_day_def algebra_simps)+
qed (use assms(1) in \<open>simp add: one_each_day_def algebra_simps\<close>)

lemma wake_ups_daily:
  "close_ticks (p # ts) \<Longrightarrow> p < at \<Longrightarrow> wake_ups at ts = (ws, next) \<Longrightarrow>
   one_each_day at ws next \<and> (\<forall>t\<in>set (p # ts). t < next)"
proof (induction ts arbitrary: p at ws)
  case (Cons t ts)
  have c: "close_ticks (t # ts)" "p \<le> t" "t < p + 10 * Minute" using Cons.prems(1) by simp_all
  show ?case
  proof (cases "at \<le> t")
    case False
    then show ?thesis using Cons.IH [OF c(1), of at ws] Cons.prems(2,3) c(2) by auto
  next
    case True
    have now: "t < at + 10 * Minute" "t < at + Day" using c(3) Cons.prems(2) day_long by simp_all
    then obtain ws' where w: "wake_ups (at + Day) ts = (ws', next)" "ws = t # ws'"
      using Cons.prems(3) True by (auto split: prod.splits)
    have "one_each_day (at + Day) ws' next \<and> (\<forall>x\<in>set (t # ts). x < next)" by (rule Cons.IH [OF c(1) now(2) w(1)])
    then show ?thesis using one_each_day_Cons [OF _ True now(1)] w(2) c(2) by auto
  qed
qed (simp add: one_each_day_Nil)

lemma wake_ups_first:
  assumes "close_ticks (t # ts)" "t < at + 10 * Minute" "wake_ups at (t # ts) = (ws, next)"
  shows "one_each_day at ws next \<and> (\<forall>x\<in>set (t # ts). x < next)"
proof (cases "t < at")
  case True
  then show ?thesis using wake_ups_daily [OF assms(1) True, of ws "next"] assms(3) by simp
next
  case False
  then obtain ws' where w: "wake_ups (at + Day) ts = (ws', next)" "ws = t # ws'"
    using assms(2,3) by (auto split: prod.splits)
  have "t < at + Day" using assms(2) day_long by simp
  from wake_ups_daily [OF assms(1) this w(1)] show ?thesis
    using one_each_day_Cons [of at ws' "next" t] False assms(2) w(2) by simp
qed

lemma close_ticks_le: "close_ticks (t # ts) \<Longrightarrow> x \<in> set ts \<Longrightarrow> t \<le> x"
  by (induction ts arbitrary: t) fastforce+

lemma wake_ups_late: "\<forall>t\<in>set ts. at + 10 * Minute \<le> t \<Longrightarrow> wake_ups at ts = ([], at)"
  by (induction ts) auto


text \<open>
  Which schedulers never wake: the ticker first ticks five minutes after the start, so a scheduler started from
  five to ten minutes after its hour finds the window over, and any other finds it open.
\<close>
theorem first_tick_in_time_iff:
  assumes "parseWakeUpHour zone now hourStr = Inr (Some at)"
  shows "\<exists>hour\<in>{0..23}. Sscanf_int (TrimSpace hourStr) = Some hour \<and> at \<in> {day_hour zone now hour, day_hour zone now hour + Day} \<and>
    (now + 5 * Minute < at + 10 * Minute \<longleftrightarrow> now \<notin> {day_hour zone now hour + 5 * Minute .. day_hour zone now hour + 10 * Minute})"
proof -
  obtain hour where h: "Sscanf_int (TrimSpace hourStr) = Some hour" "hour \<in> {0..23}"
    "at = (if day_hour zone now hour + 10 * Minute < now then day_hour zone now hour + Day else day_hour zone now hour)"
    using assms by (auto simp: parseWakeUpHour_def Let_def split: if_splits option.splits)
  have "(now + zone) div Day * Day \<le> now + zone" "now + zone < (now + zone) div Day * Day + Day"
    using day_long(3) by (simp_all add: div_times_less_eq_dividend div_mult_self_is_m  pos_mod_bound minus_mod_eq_div_mult [symmetric])
  then have "day_hour zone now hour + 10 * Minute < now \<Longrightarrow> now + 5 * Minute < day_hour zone now hour + Day + 10 * Minute"
    using h(2) by (simp add: day_hour_def Day_def Minute_def Second_def)
  then show ?thesis using h by auto
qed

text \<open>
  A presence is temporary: every presence set by a wake-up is taken back by the timer that it started, or that
  timer is still to come, also after the scheduler was disposed of.
\<close>
theorem presence_is_temporary:
  assumes "wake_run es (NewWakeUpScheduler zone now hourStr duration) = Some ws" "reachable_client es"
  shows "length (sent_at PresenceAvailable ws) = length (sent_at PresenceUnavailable ws) + length (ws_timers ws) \<and>
    mset (sent_at PresenceUnavailable ws) + mset (ws_timers ws) =
      image_mset (\<lambda>t. t + wake_duration duration) (mset (sent_at PresenceAvailable ws))"
proof -
  let ?inv = "\<lambda>ws. ws_duration ws = wake_duration duration \<and>
     mset (sent_at PresenceUnavailable ws) + mset (ws_timers ws) = image_mset (\<lambda>t. t + wake_duration duration) (mset (sent_at PresenceAvailable ws))"
  have step: "?inv s'" if "wake_do e s = Some s'" "?inv s" "event_name e = Some name" "name \<noteq> []" for e s s' name
  proof (cases e)
    case (Expired due name')
    then have due: "due \<in> set (ws_timers s)" "name' = Some name" using that by (simp_all split: if_splits)
    have "mset (sent_at PresenceUnavailable s') + mset (ws_timers s') =
        mset (sent_at PresenceUnavailable s) + add_mset due (mset (ws_timers s) - {#due#})"
      using that(1,3,4) Expired due by (auto simp: wakeup_expired_def sendPresence_def sent_at_def presences_differ)
    also have "\<dots> = mset (sent_at PresenceUnavailable s) + mset (ws_timers s)" using due(1) by (simp only: set_mset_mset [symmetric] insert_DiffM)
    finally have kept: "mset (sent_at PresenceUnavailable s') + mset (ws_timers s') =
        mset (sent_at PresenceUnavailable s) + mset (ws_timers s)" .
    have "sent_at PresenceAvailable s' = sent_at PresenceAvailable s" "ws_duration s' = ws_duration s"
      using that(1,3,4) Expired due presences_differ by (auto simp: wakeup_expired_def sendPresence_def sent_at_def)
    then show ?thesis using that(2) kept by presburger
  qed (use that presences_differ in \<open>auto simp: checkAndExecuteWakeUp_def executeWakeUp_def sendPresence_def wake_Dispose_def
      wake_Stop_def sent_at_def Let_def split: option.splits if_splits\<close>)
  have "wake_run es s = Some ws \<Longrightarrow> ?inv s \<Longrightarrow> ?inv ws" for s using assms(2)
  proof (induction es arbitrary: s)
    case (Cons e es)
    then show ?case using step by (fastforce split: option.splits)
  qed simp
  from this [OF assms(1)] have m: "mset (sent_at PresenceUnavailable ws) + mset (ws_timers ws) =
      image_mset (\<lambda>t. t + wake_duration duration) (mset (sent_at PresenceAvailable ws))"
    by (simp add: NewWakeUpScheduler_def sent_at_def Let_def)
  have "length (sent_at PresenceAvailable ws) = length (sent_at PresenceUnavailable ws) + length (ws_timers ws)"
    using arg_cong [OF m, of size] by simp
  then show ?thesis using m by blast
qed


section \<open>Runs\<close>

text \<open>A scheduler for nine o'clock, its ticks every five minutes, and the days on which it wakes.\<close>

definition clock :: "int \<Rightarrow> int \<Rightarrow> int \<Rightarrow> time" where
  "clock day hour minute = day * Day + hour * (60 * Minute) + minute * Minute"

definition nine :: "time \<Rightarrow> WakeUpScheduler" where
  "nine now = NewWakeUpScheduler 0 now ''9'' 0"

definition ticks_at :: "time list \<Rightarrow> wake_event list" where
  "ticks_at ts = map (\<lambda>t. Ticked t (Some ''me'')) ts"

lemmas clock_eval = clock_def nine_def ticks_at_def NewWakeUpScheduler_def parseWakeUpHour_def Sscanf_int_def ParseInt_def
  TrimSpace_def trim_runes.simps space_width_def space_width_rev_def wide_space_def is_space_def HasPrefix_def is_digit_def
  digits_value_def day_hour_def Day_def Minute_def Second_def Let_def

lemma nine_parsed: "parseWakeUpHour 0 (clock 0 8 57) ''9'' = Inr (Some (clock 0 9 0))"
  "parseWakeUpHour 0 (clock 0 9 7) ''9'' = Inr (Some (clock 0 9 0))"
  by (simp_all add: clock_eval)

theorem first_tick_in_time_iff_witness:
  "clock 0 9 7 \<in> {day_hour 0 (clock 0 9 7) 9 + 5 * Minute .. day_hour 0 (clock 0 9 7) 9 + 10 * Minute} \<and>
   \<not> clock 0 9 7 + 5 * Minute < clock 0 9 0 + 10 * Minute"
  using first_tick_in_time_iff [OF nine_parsed(2)] by (simp add: clock_eval)

definition two_ticks :: "wake_event list" where
  "two_ticks = [Ticked (clock 0 9 2) (Some ''me''), Expired (clock 0 9 2 + 10 * Second) (Some ''me''), Ticked (clock 0 9 7) (Some ''me'')]"

definition nine_woken :: WakeUpScheduler where
  "nine_woken = \<lparr>wakeUpTime = Some (clock 1 9 0), ws_duration = 10 * Second, enabled = True, ws_running = True,
     ws_cancelled = False, ws_timers = [],
     ws_out = [(clock 0 9 2, PresenceAvailable), (clock 0 9 2 + 10 * Second, PresenceUnavailable)]\<rparr>"

lemma nine_wakes: "wake_run two_ticks (nine (clock 0 8 57)) = Some nine_woken"
proof -
  have new: "nine (clock 0 8 57) = \<lparr>wakeUpTime = Some (clock 0 9 0), ws_duration = 10 * Second, enabled = True, ws_running = True,
     ws_cancelled = False, ws_timers = [], ws_out = []\<rparr>"
    by (simp add: nine_def NewWakeUpScheduler_def nine_parsed wake_duration_def Second_def signed_take_bit_int_eq_self)
  show ?thesis
    unfolding new two_ticks_def nine_woken_def
    by (simp add: checkAndExecuteWakeUp_def executeWakeUp_def sendPresence_def wakeup_expired_def
      clock_def Day_def Minute_def Second_def Let_def)
qed


theorem presence_is_temporary_witness:
  "mset (sent_at PresenceUnavailable nine_woken) = image_mset (\<lambda>t. t + wake_duration 0) (mset (sent_at PresenceAvailable nine_woken))"
proof -
  have "reachable_client two_ticks" by (simp add: two_ticks_def)
  from presence_is_temporary [OF nine_wakes [unfolded nine_def] this] show ?thesis by (simp add: nine_woken_def)
qed

text \<open>A scheduler that starts at seven past nine for nine o'clock never sets the presence, however long it runs.\<close>

theorem late_start_never_wakes:
  assumes "wake_run es (nine (clock 0 9 7)) = Some ws" "reachable_client es" "close_ticks (event_ticks es)"
    "\<forall>t\<in>set (event_ticks es). clock 0 9 12 \<le> t"
  shows "sent_at PresenceAvailable ws = []"
proof -
  have at: "wakeUpTime (nine (clock 0 9 7)) = Some (clock 0 9 0)" "ws_out (nine (clock 0 9 7)) = []"
    by (simp_all add: nine_def NewWakeUpScheduler_def nine_parsed)
  have "clock 0 9 0 + 10 * Minute \<le> clock 0 9 12" by (simp add: clock_def Minute_def Second_def)
  then have "wake_ups (clock 0 9 0) (event_ticks es) = ([], clock 0 9 0)"
    by (intro wake_ups_late) (use assms(4) in fastforce)
  with run_wake_ups [OF assms(1,2) at(1)] show ?thesis by (simp add: sent_at_def at(2))
qed

text \<open>Of several hours only the first is read, and what follows a number is ignored.\<close>

theorem first_hour_only:
  "parseWakeUpHour zone now ''0,8,16'' = parseWakeUpHour zone now ''0'' \<and> parseWakeUpHour zone now ''9pm'' = parseWakeUpHour zone now ''9'' \<and>
   parseWakeUpHour zone now ''24'' = Inl (HourOutOfRange 24)"
proof -
  have "Sscanf_int (TrimSpace ''0,8,16'') = Some 0" "Sscanf_int (TrimSpace ''0'') = Some 0" "Sscanf_int (TrimSpace ''9pm'') = Some 9"
    "Sscanf_int (TrimSpace ''9'') = Some 9" "Sscanf_int (TrimSpace ''24'') = Some 24"
    by code_simp+
  then show ?thesis by (simp add: parseWakeUpHour_def)
qed

end
