(* ===== verification/Spec2Isabelle.thy ===== *)
theory Spec2Isabelle
  imports Prelude WhatsappOptions Addressing Messages Attachments Cache MessageStore RabbitClient Dispatching DispatchStore Connection Handler Lifecycle Chats Parsing Events Buttons Sending Service Http Api ServerMessages GroupManager ApiSend ApiDispatching ApiContacts ApiChats Mcp SipCalls RtpProxy WakeUp
begin

text \<open>
  QuePasa is a gateway, written in Go, between WhatsApp numbers and other systems. For every number it
  keeps a server (\<open>models/qp_whatsapp_server.go\<close>) that owns a connection of the third-party
  \<open>whatsmeow\<close> client, a message store and a list of dispatchings, which are webhooks and RabbitMQ
  connections. An event of the client goes through

  \<open>client event -> WhatsmeowHandlers -> WhatsappMessage -> DispatchingHandler -> message store ->
  dispatchings -> HTTP or RabbitMQ\<close>,

  and a send request of the HTTP API goes through

  \<open>request -> recipient check -> message and attachment -> server -> connection\<close>.

  All paths below are relative to \<open>src/src/\<close>.

  \<^bold>\<open>Theories.\<close> Each follows its Go files in their order: a struct is a record, an enumeration a
  datatype, an error a value of a sum or an option, a panic the value \<open>None\<close> or a branch of its own, an
  unsigned integer a word of its width. Fields and operations keep their names where HOL has none of
  that name; two packages with the same name in Go are told apart by a suffix or a prefix.

  \<^item> \<open>Prelude\<close>: Go's \<open>strings\<close> and \<open>strconv\<close> as far as the program uses them, base 64, times, log
    of fields, lemmas on maps and words.
  \<^item> \<open>WhatsappOptions\<close>: \<open>whatsapp/whatsapp_boolean*.go\<close>, \<open>whatsapp_options*.go\<close>, the toggles of
    \<open>models/qp_whatsapp_extensions.go\<close>. The global option overrules the local one only when it is
    forced (\<open>gates_precedence\<close>); toggles cycle through the values a kind allows (\<open>toggles_cycle\<close>,
    one locale, interpreted for every option).
  \<^item> \<open>Addressing\<close>: \<open>whatsapp/whatsapp_extensions.go\<close>, \<open>library/phone.go\<close>, \<open>library/wid.go\<close>. What an
    accepted endpoint looks like, and that phones and ids convert there and back.
  \<^item> \<open>Messages\<close>: the message, attachment, chat and status types of \<open>whatsapp/\<close>, and the order of
    messages.
  \<^item> \<open>Attachments\<close>: \<open>models/qp_send_*.go\<close>, \<open>qp_to_whatsapp_attachment.go\<close>, \<open>library/utils.go\<close>.
    What a request becomes; names are secured, embedded data is decoded.
  \<^item> \<open>Cache\<close>, \<open>MessageStore\<close>: \<open>models/qp_cache*.go\<close>, \<open>library/cache*.go\<close>,
    \<open>models/qp_whatsapp_messages.go\<close>. The map and its separate counter agree after every sequence of
    operations; while updates interleave, the counter is off by exactly the updates under way; status
    only rises; the clean-up keeps the newest; a second delivery of the same content is refused.
  \<^item> \<open>RabbitClient\<close>: \<open>rabbitmq/\<close>. A step relation of publishers, the cache processor, the monitor and
    \<open>Close\<close>: a message is sent, cached or reported as dropped, never lost silently; \<open>Close\<close> can wait
    for ever.
  \<^item> \<open>Dispatching\<close>, \<open>DispatchStore\<close>: \<open>models/qp_dispatching.go\<close>, \<open>qp_webhook.go\<close>,
    \<open>qp_rabbitmq_config.go\<close>, \<open>qp_data_server_dispatching_sql.go\<close>, \<open>qp_data_dispatching.go\<close>. Which
    messages reach which systems, against a specification by a filter; the memory list refines the
    table of the database (a locale of the storage's laws, interpreted on the model).
  \<^item> \<open>Connection\<close>: \<open>whatsmeow/whatsmeow_connection.go\<close> (its life), \<open>whatsmeow_service.go\<close>,
    \<open>whatsmeow_status_manager.go\<close>. One client for each connection, and its outcomes.
  \<^item> \<open>Handler\<close>: \<open>models/dispatching_handler.go\<close>. A message is announced once for each insertion that
    the store reports as new, and the stores stay consistent.
  \<^item> \<open>Lifecycle\<close>: \<open>models/qp_whatsapp_server.go\<close>, \<open>qp_data_server_sql.go\<close>. Start, stop, restart,
    save, toggle, delete and send over one world of servers; operations of one server leave the others
    alone.
  \<^item> \<open>Chats\<close>: \<open>whatsmeow/whatsmeow_extensions+chat.go\<close>, \<open>whatsmeow_contact_*.go\<close>,
    \<open>whatsmeow_group_info_cache.go\<close>. Titles, the maps between phones and LIDs (a cache that never
    changes an answer) and the merged contact list.
  \<^item> \<open>Parsing\<close>: \<open>whatsmeow/whatsmeow_handlers_message_*.go\<close>, \<open>whatsmeow_extensions.go\<close>. The first
    matching kind decides; the envelope survives; what panics, exactly.
  \<^item> \<open>Events\<close>: \<open>whatsmeow/whatsmeow_handlers*.go\<close>. Every event, and each goroutine it starts as a
    task; a step relation runs the tasks in any order.
  \<^item> \<open>Buttons\<close>, \<open>Sending\<close>: \<open>whatsmeow_extensions+interactive.go\<close> and the rest of
    \<open>whatsmeow_connection.go\<close>. The text form of buttons and its parser, what a message becomes for the
    client, retries, downloads, chat marks, pairing by phone and by QR code.
  \<^item> \<open>Service\<close>: \<open>models/qp_whatsapp_service.go\<close>, \<open>qp_whatsapp_pairing.go\<close>, \<open>qp_data_user_sql.go\<close>,
    \<open>seed.go\<close>. The registry of servers is keyed by their tokens; a start makes it the image of the
    table; a pairing attaches its connection to the server of its token.
  \<^item> \<open>Http\<close>, \<open>Api\<close>: \<open>library/http_request_extensions.go\<close>, \<open>models/qp_response.go\<close>,
    \<open>api/api_extensions.go\<close>, \<open>api/response.go\<close> and the controllers of commands, configuration, health
    and accounts. A request reaches no server but that of its token, and a change is saved or refused.
  \<^item> \<open>ApiSend\<close>: the controllers that send. Nothing empty and nothing of a server that is not ready is
    sent, the recipient is the one asked for, and the answer says whether the message was taken.
  \<^item> \<open>ServerMessages\<close>: the controllers of stored messages and the operations of a server they call;
    newest first, and downloads that are kept.
  \<^item> \<open>GroupManager\<close>: \<open>whatsmeow_group_manager.go\<close>, \<open>models/qp_group_manager.go\<close> and the controllers of groups.
    Each request reaches the client whole and within its bounds, or not at all.
  \<^item> \<open>ApiDispatching\<close>: the controllers of webhooks, RabbitMQ connections and redispatching. Every call keeps
    memory and table in agreement, and what was set can be deleted again.
  \<^item> \<open>ApiContacts\<close>: \<open>whatsmeow/whatsmeow_contact_manager*.go\<close>, \<open>models/qp_contact_manager.go\<close> and the controllers
    of contacts, LIDs, user information, pictures and invitations. The search returns exactly the contacts asked
    for, and a stopped server still lists those of its store.
  \<^item> \<open>ApiChats\<close>: the controllers of chat marks, typing indicators (\<open>api/chat_presence_requests_controller.go\<close>) and
    pairing. Every accepted indicator comes to one end, in any order of requests and goroutines.
  \<^item> \<open>Mcp\<close>: \<open>mcp/\<close>. The tools made of the annotations of the API and their requests: a call made with the token
    of a server reaches no other server.
  \<^item> \<open>SipCalls\<close>: \<open>sipproxy/\<close>. Calls live in a store and their goroutines hold pointers into it; in every
    interleaving a call is answered at most once, after its INVITE, and a stop hangs up every call.
  \<^item> \<open>RtpProxy\<close>: \<open>sipproxy/rtp_proxy.go\<close>. The streams of a call, their ports and the goroutines that forward
    their packets. No two streams with open sockets share a port; no packet ever reaches WhatsApp.
  \<^item> \<open>WakeUp\<close>: \<open>whatsmeow/whatsmeow_wakeup_scheduler.go\<close>. The daily presence: it comes once a day, within ten
    minutes of its hour, or never.

  \<^bold>\<open>Interfaces.\<close> A \<open>locale\<close> states each contract that several operations share (an option toggle, a
  map of cache items, a store of dispatchings, an invariant of a run), its lemmas are proved once, and
  an \<open>interpretation\<close> on the definitions of the model discharges it in the theory of the provider.

  \<^bold>\<open>Parameters.\<close> What is not under \<open>src/\<close> is an argument, usually a field of a record whose name ends in
  \<open>_env\<close>: the clock, random ids, the answers of the WhatsApp client, of the broker, of the database
  engine and of the HTTP transport, the MIME detection, JSON and slugs. No law is assumed of them
  unless a theorem says so as a premise. Regular expressions of the program are recursive matchers.

  \<^bold>\<open>Bounds and termination.\<close> There is no fuel: every loop of the modelled code runs over a list or
  counts down, and the loops that wait (reconnection, the cache processor, the monitor) are step
  relations. \<open>unregistered_comes_to_rest\<close> bounds the tasks that events leave behind. Counters and
  limits that the code keeps in \<open>uint64\<close> or \<open>int64\<close> are words of 64 bits, and the theorems about them
  include the wrap-around.

  \<^bold>\<open>Concurrency.\<close> An operation under a mutex, or on one \<open>sync.Map\<close> entry, is one step. Where the code
  leaves a gap between two such operations that a theorem depends on (the counter of the cache, the
  started goroutines of the handlers, RabbitMQ), the halves are separate steps.

  \<^bold>\<open>Not modelled.\<close> Logging and metrics; the table of HTTP routes, HTML forms, web sockets and the
  generated Swagger document, which decode a request, call an operation and encode its answer; reading of settings
  from the environment; database migrations; media conversion with external programs; the
  reading of SIP answers by \<open>sipgo\<close>, the SIP listener and UPnP. A JSON body is given decoded (\<open>body\<close>), as is the hash of a password,
  and the order in which Go visits a map is a parameter (\<open>sv_order\<close>).
\<close>

end
